(* ===== verification/Prelude.thy ===== *)
theory Prelude
  imports
    Complex_Main
    "HOL-Library.AList"
    "HOL-Library.Char_ord"
    "HOL-Library.List_Lexorder"
begin

text \<open>
  The Go runtime and standard-library notions the control-plane components share.

  \<^item> \<open>gomap\<close>: a Go \<^verbatim>\<open>map[K]V\<close> is an association list with distinct keys.  Its list order is
    the order in which \<^verbatim>\<open>range\<close> visits the map; theorems quantify over the list, so they hold for
    every iteration order.
  \<^item> \<open>go_error\<close>/\<open>result\<close>: a returned \<^verbatim>\<open>error\<close> is the left summand with its message, a runtime
    panic is a different constructor of the same summand.
  \<^item> \<open>time\<close>: \<^verbatim>\<open>time.Time\<close> as nanoseconds since the zero time, so that \<^verbatim>\<open>IsZero\<close> is equality
    with \<open>0\<close>; \<^verbatim>\<open>time.Duration\<close> is nanoseconds too, \<^verbatim>\<open>Sub\<close> saturates at 64 bits.
  \<^item> \<open>sort_less\<close>: \<^verbatim>\<open>sort.Slice\<close> with a comparison function (insertion sort).
  \<^item> \<open>json\<close>: the abstract syntax of a JSON text; a text that \<^verbatim>\<open>json.Unmarshal\<close> rejects is \<open>None\<close>.
  \<^item> \<open>dur_text\<close>: a configured duration, by what \<^verbatim>\<open>time.ParseDuration\<close> makes of its text.
  \<^item> the \<^verbatim>\<open>strings\<close> functions on byte strings (ASCII case folding and white space).
\<close>

named_theorems store_simps \<open>unfolding rules of store operations\<close>
named_theorems status_simps \<open>the status constants are pairwise different\<close>
named_theorems inv_intros \<open>operations preserve the invariants of their store\<close>

section \<open>Errors and results\<close>

datatype go_error = GoErr string | GoPanic string

type_synonym 'a result = "go_error + 'a"

definition is_ok :: "'a result \<Rightarrow> bool" where
  "is_ok r = (case r of Inl _ \<Rightarrow> False | Inr _ \<Rightarrow> True)"

lemma is_ok_simps [simp]: "is_ok (Inr x)" "\<not> is_ok (Inl e)"
  by (simp_all add: is_ok_def)

lemma is_ok_iff: "is_ok r \<longleftrightarrow> (\<exists>x. r = Inr x)"
  by (cases r) simp_all

section \<open>Maps\<close>

type_synonym ('k, 'v) gomap = "('k \<times> 'v) list"

abbreviation gget :: "('k, 'v) gomap \<Rightarrow> 'k \<Rightarrow> 'v option" where
  "gget \<equiv> map_of"

abbreviation gput :: "'k \<Rightarrow> 'v \<Rightarrow> ('k, 'v) gomap \<Rightarrow> ('k, 'v) gomap" where
  "gput \<equiv> AList.update"

abbreviation gdel :: "'k \<Rightarrow> ('k, 'v) gomap \<Rightarrow> ('k, 'v) gomap" where
  "gdel \<equiv> AList.delete"

abbreviation gvals :: "('k, 'v) gomap \<Rightarrow> 'v list" where
  "gvals m \<equiv> map snd m"

abbreviation gkeys :: "('k, 'v) gomap \<Rightarrow> 'k list" where
  "gkeys m \<equiv> map fst m"

abbreviation gwf :: "('k, 'v) gomap \<Rightarrow> bool" where
  "gwf m \<equiv> distinct (map fst m)"

abbreviation gmapv :: "('k \<Rightarrow> 'v \<Rightarrow> 'w) \<Rightarrow> ('k, 'v) gomap \<Rightarrow> ('k, 'w) gomap" where
  "gmapv \<equiv> AList.map_ran"

declare map_of_eq_Some_iff [simp del] Some_eq_map_of_iff [simp del]

lemma gget_gput [simp]: "gget (gput k v m) k' = (if k = k' then Some v else gget m k')"
  by (simp add: update_conv')

lemma gget_gdel [simp]: "gget (gdel k m) k' = (if k = k' then None else gget m k')"
  by (simp add: delete_conv')

lemma gget_gmapv [simp]: "gget (gmapv f m) k = map_option (f k) (gget m k)"
  by (rule map_ran_conv)

lemma gkeys_gmapv [simp]: "gkeys (gmapv f m) = gkeys m"
  by (simp add: map_ran_def case_prod_beta comp_def)

lemma gwf_gput [simp, intro]: "gwf m \<Longrightarrow> gwf (gput k v m)"
  by (rule distinct_update)

lemma gwf_gdel [simp, intro]: "gwf m \<Longrightarrow> gwf (gdel k m)"
  by (rule distinct_delete)

lemma gget_in_vals: "gget m k = Some v \<Longrightarrow> v \<in> set (gvals m)"
  by (force dest: map_of_SomeD)

lemma in_vals_gget:
  assumes "gwf m" "v \<in> set (gvals m)"
  shows "\<exists>k. gget m k = Some v"
proof -
  from assms(2) obtain k where "(k, v) \<in> set m" by auto
  with assms(1) have "gget m k = Some v" by (rule map_of_is_SomeI)
  then show ?thesis ..
qed

lemma in_vals_iff: "gwf m \<Longrightarrow> v \<in> set (gvals m) \<longleftrightarrow> (\<exists>k. gget m k = Some v)"
  by (blast dest: gget_in_vals in_vals_gget)

text \<open>Writing a list of keyed entries back, as the loops over leased jobs do.\<close>

definition gput_all :: "('v \<Rightarrow> 'k) \<Rightarrow> 'v list \<Rightarrow> ('k, 'v) gomap \<Rightarrow> ('k, 'v) gomap" where
  "gput_all key vs m = fold (\<lambda>v. gput (key v) v) vs m"

lemma gput_all_simps [simp]:
  "gput_all key [] m = m"
  "gput_all key (v # vs) m = gput_all key vs (gput (key v) v m)"
  by (simp_all add: gput_all_def)

lemma gwf_gput_all [simp, intro]: "gwf m \<Longrightarrow> gwf (gput_all key vs m)"
  by (induction vs arbitrary: m) auto

lemma gget_gput_all_notin: "k \<notin> key ` set vs \<Longrightarrow> gget (gput_all key vs m) k = gget m k"
  by (induction vs arbitrary: m) auto

lemma gget_gput_all_in:
  "distinct (map key vs) \<Longrightarrow> v \<in> set vs \<Longrightarrow> gget (gput_all key vs m) (key v) = Some v"
proof (induction vs arbitrary: m)
  case (Cons w ws)
  then show ?case
    by (cases "v = w") (auto simp: gget_gput_all_notin)
qed simp

text \<open>Collecting the entries that pass a test, as the loops over agents do.\<close>

lemma gget_fold_gput_if:
  "gget (fold (\<lambda>x m. if P x then gput (key x) x m else m) xs m0) k = Some v \<Longrightarrow>
   (v \<in> set xs \<and> P v \<and> key v = k) \<or> gget m0 k = Some v"
proof (induction xs arbitrary: m0)
  case (Cons x xs)
  from Cons.prems have "gget (fold (\<lambda>x m. if P x then gput (key x) x m else m) xs
      (if P x then gput (key x) x m0 else m0)) k = Some v" by simp
  from Cons.IH [OF this] show ?case by (auto split: if_splits)
qed simp

section \<open>Time\<close>

type_synonym time = int
type_synonym duration = int

definition zero_time :: time where "zero_time = 0"

definition IsZero :: "time \<Rightarrow> bool" where "IsZero t = (t = zero_time)"

definition max_int64 :: int where "max_int64 = 2 ^ 63 - 1"
definition min_int64 :: int where "min_int64 = - (2 ^ 63)"

definition wrap64 :: "int \<Rightarrow> int" where
  "wrap64 x = (x + 2 ^ 63) mod 2 ^ 64 - 2 ^ 63"

definition time_Sub :: "time \<Rightarrow> time \<Rightarrow> duration" where
  "time_Sub t u = max min_int64 (min max_int64 (t - u))"

definition second :: duration where "second = 1000000000"
definition minute :: duration where "minute = 60 * second"
definition hour :: duration where "hour = 60 * minute"

lemmas dur_defs = second_def minute_def hour_def

lemma wrap64_id: "min_int64 \<le> x \<Longrightarrow> x \<le> max_int64 \<Longrightarrow> wrap64 x = x"
  by (simp add: wrap64_def min_int64_def max_int64_def)

lemma time_Sub_le: "time_Sub t u \<le> d \<Longrightarrow> d < max_int64 \<Longrightarrow> t \<le> u + d"
  by (auto simp: time_Sub_def min_def max_def split: if_splits)

lemma time_Sub_exact:
  "min_int64 \<le> t - u \<Longrightarrow> t - u \<le> max_int64 \<Longrightarrow> time_Sub t u = t - u"
  by (simp add: time_Sub_def)

datatype dur_text = DurBlank | DurBad | DurOk duration

text \<open>\<^verbatim>\<open>d, _ := time.ParseDuration(s)\<close>: the duration is zero on an error.\<close>

fun ParseDuration :: "dur_text \<Rightarrow> duration" where
  "ParseDuration (DurOk d) = d"
| "ParseDuration _ = 0"

fun dur_ok :: "dur_text \<Rightarrow> bool" where
  "dur_ok (DurOk _) = True"
| "dur_ok _ = False"

definition dur_or :: "duration \<Rightarrow> dur_text \<Rightarrow> duration" where
  "dur_or dflt s = (let d = ParseDuration s in if d \<le> 0 then dflt else d)"

lemma dur_or_pos: "0 < dflt \<Longrightarrow> 0 < dur_or dflt s"
  by (simp add: dur_or_def Let_def)

section \<open>Sorting\<close>

fun ins_less :: "('a \<Rightarrow> 'a \<Rightarrow> bool) \<Rightarrow> 'a \<Rightarrow> 'a list \<Rightarrow> 'a list" where
  "ins_less lt x [] = [x]"
| "ins_less lt x (y # ys) = (if lt y x then y # ins_less lt x ys else x # y # ys)"

definition sort_less :: "('a \<Rightarrow> 'a \<Rightarrow> bool) \<Rightarrow> 'a list \<Rightarrow> 'a list" where
  "sort_less lt xs = foldr (ins_less lt) xs []"

lemma sort_less_simps [simp]:
  "sort_less lt [] = []"
  "sort_less lt (x # xs) = ins_less lt x (sort_less lt xs)"
  by (simp_all add: sort_less_def)

lemma set_ins_less [simp]: "set (ins_less lt x xs) = insert x (set xs)"
  by (induction xs) auto

lemma set_sort_less [simp]: "set (sort_less lt xs) = set xs"
  by (induction xs) auto

lemma length_ins_less [simp]: "length (ins_less lt x xs) = Suc (length xs)"
  by (induction xs) auto

lemma length_sort_less [simp]: "length (sort_less lt xs) = length xs"
  by (induction xs) auto

lemma sort_less_eq_Nil [simp]: "sort_less lt xs = [] \<longleftrightarrow> xs = []"
  by (metis length_0_conv length_sort_less)

lemma distinct_map_ins_less:
  "distinct (map f (ins_less lt x xs)) \<longleftrightarrow> f x \<notin> f ` set xs \<and> distinct (map f xs)"
  by (induction xs) auto

lemma distinct_map_sort_less [simp]:
  "distinct (map f (sort_less lt xs)) \<longleftrightarrow> distinct (map f xs)"
  by (induction xs) (auto simp: distinct_map_ins_less)

lemma distinct_sort_less [simp]: "distinct (sort_less lt xs) \<longleftrightarrow> distinct xs"
  using distinct_map_sort_less [of "\<lambda>x. x" lt xs] by simp

text \<open>What a comparison must satisfy for the result to be ordered: a strict weak order.\<close>

definition weak_order :: "('a \<Rightarrow> 'a \<Rightarrow> bool) \<Rightarrow> bool" where
  "weak_order lt \<longleftrightarrow> (\<forall>x y. lt x y \<longrightarrow> \<not> lt y x) \<and>
     (\<forall>x y z. \<not> lt y x \<longrightarrow> \<not> lt z y \<longrightarrow> \<not> lt z x)"

abbreviation ordered_by :: "('a \<Rightarrow> 'a \<Rightarrow> bool) \<Rightarrow> 'a list \<Rightarrow> bool" where
  "ordered_by lt \<equiv> sorted_wrt (\<lambda>x y. \<not> lt y x)"

lemma weak_orderD:
  assumes "weak_order lt"
  shows weak_order_asym: "lt x y \<Longrightarrow> \<not> lt y x"
    and weak_order_trans: "\<not> lt y x \<Longrightarrow> \<not> lt z y \<Longrightarrow> \<not> lt z x"
  using assms unfolding weak_order_def by blast+

lemma ordered_ins_less:
  assumes wo: "weak_order lt"
  shows "ordered_by lt xs \<Longrightarrow> ordered_by lt (ins_less lt x xs)"
proof (induction xs)
  case (Cons y ys)
  show ?case
  proof (cases "lt y x")
    case True
    with Cons weak_order_asym [OF wo True] show ?thesis by simp
  next
    case False
    with Cons.prems have "\<forall>z\<in>set ys. \<not> lt z x"
      using weak_order_trans [OF wo] by auto
    with False Cons.prems show ?thesis by simp
  qed
qed simp

lemma ordered_sort_less: "weak_order lt \<Longrightarrow> ordered_by lt (sort_less lt xs)"
  by (induction xs) (simp_all add: ordered_ins_less)

lemma weak_order_less [simp]: "weak_order (\<lambda>x y. key x < (key y :: 'b :: linorder))"
  by (auto simp: weak_order_def)

lemma weak_order_greater [simp]: "weak_order (\<lambda>x y. key x > (key y :: 'b :: linorder))"
  by (auto simp: weak_order_def)

abbreviation sort_strings :: "string list \<Rightarrow> string list" where
  "sort_strings \<equiv> sort_less (<)"

lemma sorted_sort_strings: "sorted (sort_strings xs)"
  using ordered_sort_less [OF weak_order_less [of "\<lambda>x. x"], of xs]
  by (simp add: not_less)

text \<open>\<^verbatim>\<open>if limit > 0 && len(out) > limit { out = out[:limit] }\<close>\<close>

definition limit_to :: "int \<Rightarrow> 'a list \<Rightarrow> 'a list" where
  "limit_to limit xs = (if limit > 0 \<and> int (length xs) > limit then take (nat limit) xs else xs)"

lemma set_limit_to: "set (limit_to n xs) \<subseteq> set xs"
  by (auto simp: limit_to_def dest: in_set_takeD)

lemma limit_to_prefix: "\<exists>k. limit_to n xs = take k xs"
  by (metis limit_to_def order_refl take_all)

lemma length_limit_to: "0 < n \<Longrightarrow> int (length (limit_to n xs)) \<le> n"
  by (auto simp: limit_to_def)

lemma distinct_map_take: "distinct (map f xs) \<Longrightarrow> distinct (map f (take n xs))"
  unfolding take_map [symmetric] by (rule distinct_take)

lemma distinct_limit_to: "distinct (map f xs) \<Longrightarrow> distinct (map f (limit_to n xs))"
  by (simp add: limit_to_def distinct_map_take)

section \<open>Strings\<close>

definition is_space :: "char \<Rightarrow> bool" where
  "is_space c = ((of_char c :: nat) \<in> {9, 10, 11, 12, 13, 32})"

definition TrimSpace :: "string \<Rightarrow> string" where
  "TrimSpace s = rev (dropWhile is_space (rev (dropWhile is_space s)))"

definition lower_char :: "char \<Rightarrow> char" where
  "lower_char c = (let n = (of_char c :: nat) in if 65 \<le> n \<and> n \<le> 90 then char_of (n + 32) else c)"

definition ToLower :: "string \<Rightarrow> string" where
  "ToLower s = map lower_char s"

definition EqualFold :: "string \<Rightarrow> string \<Rightarrow> bool" where
  "EqualFold s t = (ToLower s = ToLower t)"

fun HasPrefix :: "string \<Rightarrow> string \<Rightarrow> bool" where
  "HasPrefix s [] = True"
| "HasPrefix [] (p # ps) = False"
| "HasPrefix (c # s) (p # ps) = (c = p \<and> HasPrefix s ps)"

definition TrimPrefix :: "string \<Rightarrow> string \<Rightarrow> string" where
  "TrimPrefix s p = (if HasPrefix s p then drop (length p) s else s)"

lemma EqualFold_refl [simp]: "EqualFold s s"
  by (simp add: EqualFold_def)

lemma EqualFold_sym: "EqualFold s t \<longleftrightarrow> EqualFold t s"
  by (auto simp: EqualFold_def)

lemma EqualFold_trans: "EqualFold s t \<Longrightarrow> EqualFold t u \<Longrightarrow> EqualFold s u"
  by (simp add: EqualFold_def)

lemma HasPrefix_append [simp]: "HasPrefix (p @ s) p"
  by (induction p) auto

lemma HasPrefix_iff: "HasPrefix s p \<longleftrightarrow> (\<exists>t. s = p @ t)"
  by (induction s p rule: HasPrefix.induct) auto

lemma length_ToLower [simp]: "length (ToLower s) = length s"
  by (simp add: ToLower_def)

lemma lower_char_idem [simp]: "lower_char (lower_char c) = lower_char c"
proof -
  define n where "n = (of_char c :: nat)"
  have n: "n < 256" by (simp add: n_def)
  show ?thesis
  proof (cases "65 \<le> n \<and> n \<le> 90")
    case True
    then have "lower_char c = char_of (n + 32)" by (simp add: lower_char_def n_def)
    moreover have "(of_char (char_of (n + 32) :: char) :: nat) = n + 32"
      using True by simp
    ultimately show ?thesis using True by (simp add: lower_char_def)
  next
    case False
    then have "lower_char c = c" by (auto simp: lower_char_def n_def Let_def)
    then show ?thesis by simp
  qed
qed

lemma ToLower_idem [simp]: "ToLower (ToLower s) = ToLower s"
  by (simp add: ToLower_def)

lemma EqualFold_ToLower [simp]: "EqualFold (ToLower s) t = EqualFold s t"
  by (simp add: EqualFold_def)

section \<open>JSON\<close>

datatype json =
  JNull | JBool bool | JNum rat | JStr string | JArr "json list" | JObj "(string \<times> json) list"

type_synonym json_text = "json option"

text \<open>
  \<^verbatim>\<open>json.Unmarshal\<close> into a struct: the last member whose name matches the field (without regard
  to case) decides it; an absent member or \<^verbatim>\<open>null\<close> leaves the zero value; a member of another JSON
  type is an error.
\<close>

definition member :: "string \<Rightarrow> (string \<times> json) list \<Rightarrow> json option" where
  "member name fs = map_option snd (find (\<lambda>(k, _). EqualFold k name) (rev fs))"

definition str_field :: "string \<Rightarrow> (string \<times> json) list \<Rightarrow> string option" where
  "str_field name fs = (case member name fs of
     None \<Rightarrow> Some [] | Some JNull \<Rightarrow> Some [] | Some (JStr s) \<Rightarrow> Some s | Some _ \<Rightarrow> None)"

definition int_field :: "string \<Rightarrow> (string \<times> json) list \<Rightarrow> int option" where
  "int_field name fs = (case member name fs of
     None \<Rightarrow> Some 0 | Some JNull \<Rightarrow> Some 0
   | Some (JNum q) \<Rightarrow> if of_int \<lfloor>q\<rfloor> = q \<and> min_int64 \<le> \<lfloor>q\<rfloor> \<and> \<lfloor>q\<rfloor> \<le> max_int64 then Some \<lfloor>q\<rfloor> else None
   | Some _ \<Rightarrow> None)"

text \<open>\<^verbatim>\<open>var m map[string]string\<close> and \<^verbatim>\<open>var m map[string]any\<close> as the destination.\<close>

fun um_string_entry :: "string \<times> json \<Rightarrow> (string \<times> string) option" where
  "um_string_entry (k, JStr s) = Some (k, s)"
| "um_string_entry (k, JNull) = Some (k, [])"
| "um_string_entry _ = None"

fun um_entries :: "(string \<times> json) list \<Rightarrow> (string, string) gomap option" where
  "um_entries [] = Some []"
| "um_entries (e # es) = (case um_string_entry e of
     None \<Rightarrow> None
   | Some (k, v) \<Rightarrow> map_option (\<lambda>m. if gget m k = None then gput k v m else m) (um_entries es))"

fun UnmarshalStringMap :: "json_text \<Rightarrow> (string, string) gomap option" where
  "UnmarshalStringMap (Some (JObj fs)) = um_entries fs"
| "UnmarshalStringMap (Some JNull) = Some []"
| "UnmarshalStringMap _ = None"

fun UnmarshalAnyMap :: "json_text \<Rightarrow> (string, json) gomap option" where
  "UnmarshalAnyMap (Some (JObj fs)) = Some (foldl (\<lambda>m (k, v). gput k v m) [] fs)"
| "UnmarshalAnyMap (Some JNull) = Some []"
| "UnmarshalAnyMap _ = None"

end
