(* ===== verification/Cp_Model.thy ===== *)
theory Cp_Model
  imports Prelude
begin

text \<open>
  The data of the control plane: \<^verbatim>\<open>internal/controlplane/model.go\<close>, one record per struct with the
  struct's fields (prefixed, since field names are global in HOL), the status constants, and the
  job payload structs with their JSON encoding.  \<^verbatim>\<open>Payload\<close> and \<^verbatim>\<open>LabelsJSON\<close> hold JSON texts and
  are represented by their abstract syntax.
\<close>

section \<open>Records\<close>

record job =
  j_ID :: string
  j_Kind :: string
  j_Target :: string
  j_Payload :: json_text
  j_Status :: string
  j_Priority :: int
  j_Attempts :: int
  j_MaxAttempts :: int
  j_NotBefore :: time
  j_Affinity :: string
  j_LeaseOwner :: string
  j_LeaseUntil :: time
  j_CreatedAt :: time
  j_UpdatedAt :: time
  j_LastError :: string

record repository =
  r_ID :: string
  r_Account :: string
  r_FullName :: string
  r_BackupRoot :: string
  r_IntervalSeconds :: int
  r_Priority :: int
  r_MirrorGitLab :: bool
  r_Enabled :: bool
  r_NextRunAt :: time
  r_LastBackupAt :: time
  r_LastGenerationID :: string
  r_LastBackupSuccessful :: bool
  r_UpdatedAt :: time

record generation =
  g_ID :: string
  g_RepositoryID :: string
  g_Repository :: string
  g_MetaPath :: string
  g_CreatedAt :: time
  g_Verified :: bool
  g_BundleSHA256 :: string
  g_LFSSHA256 :: string

record agent =
  a_ID :: string
  a_Name :: string
  a_CertSubject :: string
  a_LabelsJSON :: json_text
  a_ReplicationPublicKey :: string
  a_Status :: string
  a_StorageHealth :: string
  a_StorageTotalBytes :: int
  a_StorageFreeBytes :: int
  a_StorageFreePercent :: rat
  a_StorageProbeMS :: int
  a_StorageError :: string
  a_DiskRiskScore :: int
  a_DiskModel :: string
  a_DiskSerial :: string
  a_DiskTemperatureC :: rat
  a_DiskPercentageUsed :: rat
  a_DiskMediaErrors :: int
  a_DiskCriticalWarning :: int
  a_InventoryRoot :: string
  a_InventoryObjects :: int
  a_InventoryBytes :: int
  a_InventoryJSON :: json_text
  a_LastSeenAt :: time
  a_UpdatedAt :: time

record generation_replica =
  rp_GenerationID :: string
  rp_RepositoryID :: string
  rp_AgentID :: string
  rp_MetaPath :: string
  rp_State :: string
  rp_Bytes :: int
  rp_SHA256 :: string
  rp_VerifiedAt :: time
  rp_UpdatedAt :: time

record replication_transfer =
  t_ID :: string
  t_GenerationID :: string
  t_RepositoryID :: string
  t_SourceAgent :: string
  t_TargetAgent :: string
  t_SpoolPath :: string
  t_State :: string
  t_Bytes :: int
  t_SHA256 :: string
  t_ExpiresAt :: time
  t_UpdatedAt :: time

record object_ref =
  or_Digest :: string
  or_Kind :: string
  or_Bytes :: int
  or_RefCount :: int
  or_UpdatedAt :: time

record object_lease =
  ol_ID :: string
  ol_Digest :: string
  ol_Owner :: string
  ol_ExpiresAt :: time
  ol_UpdatedAt :: time

record erasure_set =
  es_ObjectSHA256 :: string
  es_OriginalBytes :: int
  es_DataShards :: int
  es_ParityShards :: int
  es_BlockBytes :: int
  es_State :: string
  es_CreatedAt :: time
  es_UpdatedAt :: time

record erasure_shard =
  sh_ObjectSHA256 :: string
  sh_ShardIndex :: int
  sh_ShardSHA256 :: string
  sh_AgentID :: string
  sh_FailureDomain :: string
  sh_State :: string
  sh_Bytes :: int
  sh_UpdatedAt :: time

record restore_approval =
  ap_ID :: string
  ap_Repository :: string
  ap_GenerationID :: string
  ap_Target :: string
  ap_RequestedBy :: string
  ap_ApprovedBy :: string
  ap_Status :: string
  ap_CreatedAt :: time
  ap_ExpiresAt :: time
  ap_UpdatedAt :: time

record stats =
  st_QueuedJobs :: nat
  st_RunningJobs :: nat
  st_FailedJobs :: nat
  st_Repositories :: nat
  st_DueRepositories :: nat
  st_Generations :: nat
  st_ConnectedAgents :: nat
  st_StrandedJobs :: nat
  st_ReadyReplicas :: nat
  st_ReplicaDeficits :: nat
  st_PendingApprovals :: nat
  st_ActiveTransfers :: nat
  st_DegradedStorageAgents :: nat
  st_UnhealthyStorageAgents :: nat
  st_ObjectRefs :: nat
  st_ActiveObjectLeases :: nat
  st_ErasureSets :: nat
  st_ErasureShardCopies :: nat

section \<open>Constants\<close>

definition LocalWorkerAffinity :: string where "LocalWorkerAffinity = ''__repoark_local__''"

definition JobQueued :: string where "JobQueued = ''queued''"
definition JobRunning :: string where "JobRunning = ''running''"
definition JobSucceeded :: string where "JobSucceeded = ''succeeded''"
definition JobFailed :: string where "JobFailed = ''failed''"

definition ReplicaReady :: string where "ReplicaReady = ''ready''"
definition ReplicaStaging :: string where "ReplicaStaging = ''staging''"
definition ReplicaFailed :: string where "ReplicaFailed = ''failed''"

definition TransferReceiving :: string where "TransferReceiving = ''receiving''"
definition TransferReady :: string where "TransferReady = ''ready''"
definition TransferConsumed :: string where "TransferConsumed = ''consumed''"

definition ApprovalPending :: string where "ApprovalPending = ''pending''"
definition ApprovalApproved :: string where "ApprovalApproved = ''approved''"
definition ApprovalScheduled :: string where "ApprovalScheduled = ''scheduled''"
definition ApprovalExecuted :: string where "ApprovalExecuted = ''executed''"
definition ApprovalExpired :: string where "ApprovalExpired = ''expired''"

definition ErasureReady :: string where "ErasureReady = ''ready''"
definition ErasureDegraded :: string where "ErasureDegraded = ''degraded''"
definition ErasureFailed :: string where "ErasureFailed = ''failed''"
definition ShardReady :: string where "ShardReady = ''ready''"
definition ShardStaging :: string where "ShardStaging = ''staging''"
definition ShardFailed :: string where "ShardFailed = ''failed''"

lemma job_status_distinct [status_simps]:
  "JobQueued \<noteq> JobRunning" "JobQueued \<noteq> JobSucceeded" "JobQueued \<noteq> JobFailed"
  "JobRunning \<noteq> JobSucceeded" "JobRunning \<noteq> JobFailed" "JobSucceeded \<noteq> JobFailed"
  "JobRunning \<noteq> JobQueued" "JobSucceeded \<noteq> JobQueued" "JobFailed \<noteq> JobQueued"
  "JobSucceeded \<noteq> JobRunning" "JobFailed \<noteq> JobRunning" "JobFailed \<noteq> JobSucceeded"
  "JobQueued \<noteq> []" "JobRunning \<noteq> []" "JobSucceeded \<noteq> []" "JobFailed \<noteq> []"
  by (simp_all add: JobQueued_def JobRunning_def JobSucceeded_def JobFailed_def)

lemma approval_status_distinct [status_simps]:
  "ApprovalPending \<noteq> []"
  "ApprovalPending \<noteq> ApprovalApproved" "ApprovalPending \<noteq> ApprovalScheduled"
  "ApprovalPending \<noteq> ApprovalExecuted" "ApprovalPending \<noteq> ApprovalExpired"
  "ApprovalApproved \<noteq> ApprovalPending" "ApprovalApproved \<noteq> ApprovalScheduled"
  "ApprovalApproved \<noteq> ApprovalExecuted" "ApprovalApproved \<noteq> ApprovalExpired"
  "ApprovalScheduled \<noteq> ApprovalPending" "ApprovalScheduled \<noteq> ApprovalApproved"
  "ApprovalScheduled \<noteq> ApprovalExecuted" "ApprovalScheduled \<noteq> ApprovalExpired"
  "ApprovalExecuted \<noteq> ApprovalPending" "ApprovalExecuted \<noteq> ApprovalApproved"
  "ApprovalExecuted \<noteq> ApprovalScheduled" "ApprovalExecuted \<noteq> ApprovalExpired"
  "ApprovalExpired \<noteq> ApprovalPending" "ApprovalExpired \<noteq> ApprovalApproved"
  "ApprovalExpired \<noteq> ApprovalScheduled" "ApprovalExpired \<noteq> ApprovalExecuted"
  by (simp_all add: ApprovalPending_def ApprovalApproved_def ApprovalScheduled_def
      ApprovalExecuted_def ApprovalExpired_def)

section \<open>Zero values\<close>

text \<open>A map lookup of an absent key yields the struct's zero value.\<close>

definition zero_job :: job where
  "zero_job = \<lparr>j_ID = [], j_Kind = [], j_Target = [], j_Payload = None, j_Status = [],
     j_Priority = 0, j_Attempts = 0, j_MaxAttempts = 0, j_NotBefore = zero_time, j_Affinity = [],
     j_LeaseOwner = [], j_LeaseUntil = zero_time, j_CreatedAt = zero_time,
     j_UpdatedAt = zero_time, j_LastError = []\<rparr>"

definition zero_repository :: repository where
  "zero_repository = \<lparr>r_ID = [], r_Account = [], r_FullName = [], r_BackupRoot = [],
     r_IntervalSeconds = 0, r_Priority = 0, r_MirrorGitLab = False, r_Enabled = False,
     r_NextRunAt = zero_time, r_LastBackupAt = zero_time, r_LastGenerationID = [],
     r_LastBackupSuccessful = False, r_UpdatedAt = zero_time\<rparr>"

definition zero_object_ref :: object_ref where
  "zero_object_ref = \<lparr>or_Digest = [], or_Kind = [], or_Bytes = 0, or_RefCount = 0,
     or_UpdatedAt = zero_time\<rparr>"

definition zero_agent :: agent where
  "zero_agent = \<lparr>a_ID = [], a_Name = [], a_CertSubject = [], a_LabelsJSON = None,
     a_ReplicationPublicKey = [], a_Status = [], a_StorageHealth = [], a_StorageTotalBytes = 0,
     a_StorageFreeBytes = 0, a_StorageFreePercent = 0, a_StorageProbeMS = 0, a_StorageError = [],
     a_DiskRiskScore = 0, a_DiskModel = [], a_DiskSerial = [], a_DiskTemperatureC = 0,
     a_DiskPercentageUsed = 0, a_DiskMediaErrors = 0, a_DiskCriticalWarning = 0,
     a_InventoryRoot = [], a_InventoryObjects = 0, a_InventoryBytes = 0, a_InventoryJSON = None,
     a_LastSeenAt = zero_time, a_UpdatedAt = zero_time\<rparr>"

section \<open>Job payloads\<close>

record restore_payload =
  rsp_Repository :: string
  rsp_GenerationID :: string
  rsp_Target :: string
  rsp_ApprovalID :: string

definition omitempty :: "string \<Rightarrow> string \<Rightarrow> (string \<times> json) list" where
  "omitempty name s = (if s = [] then [] else [(name, JStr s)])"

definition marshal_restore_payload :: "restore_payload \<Rightarrow> json_text" where
  "marshal_restore_payload p = Some (JObj
     ([(''repository'', JStr (rsp_Repository p)), (''generation_id'', JStr (rsp_GenerationID p))]
      @ omitempty ''target'' (rsp_Target p) @ omitempty ''approval_id'' (rsp_ApprovalID p)))"

fun unmarshal_restore_payload :: "json_text \<Rightarrow> restore_payload option" where
  "unmarshal_restore_payload (Some (JObj fs)) =
     (case (str_field ''repository'' fs, str_field ''generation_id'' fs,
            str_field ''target'' fs, str_field ''approval_id'' fs) of
        (Some r, Some g, Some t, Some a) \<Rightarrow>
          Some \<lparr>rsp_Repository = r, rsp_GenerationID = g, rsp_Target = t, rsp_ApprovalID = a\<rparr>
      | _ \<Rightarrow> None)"
| "unmarshal_restore_payload (Some JNull) =
     Some \<lparr>rsp_Repository = [], rsp_GenerationID = [], rsp_Target = [], rsp_ApprovalID = []\<rparr>"
| "unmarshal_restore_payload _ = None"

lemma find_append: "find P (xs @ ys) = (case find P xs of None \<Rightarrow> find P ys | Some x \<Rightarrow> Some x)"
  by (induction xs) auto

lemma member_Cons: "member name ((k, v) # fs) =
   (case member name fs of None \<Rightarrow> (if EqualFold k name then Some v else None) | Some w \<Rightarrow> Some w)"
  by (auto simp: member_def find_append split: option.splits)

lemma member_Nil [simp]: "member name [] = None"
  by (simp add: member_def)

text \<open>Field names of one struct are different up to case, so each member is found again.\<close>

lemma unmarshal_marshal_restore_payload:
  "unmarshal_restore_payload (marshal_restore_payload p) = Some p"
  by (cases p) (simp add: marshal_restore_payload_def omitempty_def str_field_def member_Cons
      EqualFold_def ToLower_def lower_char_def)

end
