(* ===== verification/Job_Rules.thy ===== *)
theory Job_Rules
  imports Cp_Model
begin

text \<open>
  The conditions and record updates on single jobs that the store's queue operations are built
  from; both store implementations evaluate the same conditions, in Go or as SQL predicates.
\<close>

definition job_active :: "job \<Rightarrow> bool" where
  "job_active j = (j_Status j = JobQueued \<or> j_Status j = JobRunning)"

definition same_slot :: "job \<Rightarrow> job \<Rightarrow> bool" where
  "same_slot x j = (j_Kind x = j_Kind j \<and> j_Target x = j_Target j \<and> j_Affinity x = j_Affinity j)"

text \<open>A running job whose lease has run out.\<close>

definition lease_expired :: "time \<Rightarrow> job \<Rightarrow> bool" where
  "lease_expired now j =
     (j_Status j = JobRunning \<and> \<not> IsZero (j_LeaseUntil j) \<and> \<not> j_LeaseUntil j > now)"

definition final_expired :: "time \<Rightarrow> job \<Rightarrow> bool" where
  "final_expired now j = (lease_expired now j \<and> j_Attempts j \<ge> j_MaxAttempts j)"

definition leasable :: "time \<Rightarrow> string \<Rightarrow> job \<Rightarrow> bool" where
  "leasable now owner j =
     (j_Attempts j < j_MaxAttempts j \<and> \<not> j_NotBefore j > now
      \<and> (j_Affinity j = [] \<or> j_Affinity j = owner)
      \<and> (j_Status j = JobQueued \<or> lease_expired now j))"

definition reap :: "time \<Rightarrow> job \<Rightarrow> job" where
  "reap now j = j\<lparr>j_Status := JobFailed, j_LeaseOwner := [], j_LeaseUntil := zero_time,
     j_UpdatedAt := now,
     j_LastError := (if j_LastError j = [] then ''lease expired on final attempt'' else j_LastError j)\<rparr>"

definition reap_if :: "time \<Rightarrow> job \<Rightarrow> job" where
  "reap_if now j = (if final_expired now j then reap now j else j)"

definition take_lease :: "time \<Rightarrow> string \<Rightarrow> duration \<Rightarrow> job \<Rightarrow> job" where
  "take_lease now owner lease j = j\<lparr>j_Status := JobRunning, j_Attempts := j_Attempts j + 1,
     j_LeaseOwner := owner, j_LeaseUntil := now + lease, j_UpdatedAt := now\<rparr>"

definition job_before :: "job \<Rightarrow> job \<Rightarrow> bool" where
  "job_before x y = (if j_Priority x = j_Priority y then j_CreatedAt x < j_CreatedAt y
     else j_Priority x > j_Priority y)"

text \<open>The approval a finished restore job must consume, if its payload names one.\<close>

definition job_approval :: "job \<Rightarrow> string option" where
  "job_approval j =
     (if j_Kind j = ''restore-generation'' then
        (case unmarshal_restore_payload (j_Payload j) of
           Some p \<Rightarrow> if rsp_ApprovalID p \<noteq> [] then Some (rsp_ApprovalID p) else None
         | None \<Rightarrow> None)
      else None)"

text \<open>The per-job invariant: attempts stay within the configured maximum.\<close>

definition job_ok :: "job \<Rightarrow> bool" where
  "job_ok j = (0 \<le> j_Attempts j \<and> j_Attempts j \<le> j_MaxAttempts j)"

lemmas job_rule_defs = job_active_def lease_expired_def final_expired_def leasable_def reap_def
  reap_if_def take_lease_def

lemma job_ok_updates [simp]:
  "job_ok (j\<lparr>j_Status := a\<rparr>) = job_ok j"
  "job_ok (j\<lparr>j_LeaseOwner := b\<rparr>) = job_ok j"
  "job_ok (j\<lparr>j_LeaseUntil := c\<rparr>) = job_ok j"
  "job_ok (j\<lparr>j_UpdatedAt := d\<rparr>) = job_ok j"
  "job_ok (j\<lparr>j_LastError := e\<rparr>) = job_ok j"
  "job_ok (j\<lparr>j_NotBefore := f\<rparr>) = job_ok j"
  by (simp_all add: job_ok_def)

lemma reap_if_ID [simp]: "j_ID (reap_if now j) = j_ID j"
  by (simp add: reap_if_def reap_def)

lemma take_lease_ID [simp]: "j_ID (take_lease now owner d j) = j_ID j"
  by (simp add: take_lease_def)

lemma job_ok_reap_if [simp]: "job_ok (reap_if now j) = job_ok j"
  by (simp add: reap_if_def reap_def job_ok_def)

lemma job_ok_take_lease: "job_ok j \<Longrightarrow> leasable now owner j \<Longrightarrow> job_ok (take_lease now owner d j)"
  by (simp add: job_ok_def leasable_def take_lease_def)

lemma same_slot_refl [simp]: "same_slot x x"
  by (simp add: same_slot_def)

lemma reap_if_slot [simp]: "same_slot (reap_if now x) j = same_slot x j"
  by (simp add: same_slot_def reap_if_def reap_def)

lemma take_lease_slot [simp]: "same_slot (take_lease now owner d x) j = same_slot x j"
  by (simp add: same_slot_def take_lease_def)

lemma reap_if_active: "job_active (reap_if now j) \<Longrightarrow> job_active j"
  by (auto simp: reap_if_def reap_def job_active_def status_simps split: if_splits)

lemma take_lease_active [simp]: "job_active (take_lease now owner d j)"
  by (simp add: take_lease_def job_active_def)

lemma leasable_active: "leasable now owner j \<Longrightarrow> job_active j"
  by (auto simp: leasable_def lease_expired_def job_active_def)

lemma leasable_not_final: "leasable now owner j \<Longrightarrow> \<not> final_expired now j"
  by (simp add: leasable_def final_expired_def)

lemma weak_order_job_before: "weak_order job_before"
  unfolding weak_order_def job_before_def
  by (intro conjI allI impI; simp split: if_splits)

end
