(* ===== verification/Memory_Store.thy ===== *)
theory Memory_Store
  imports Job_Rules
begin

text \<open>
  \<^verbatim>\<open>MemoryStore\<close> (\<^verbatim>\<open>internal/controlplane/memory.go\<close>): the state record and every operation.  Each
  method runs under the store's mutex, so it is one atomic function on the state.  \<open>now\<close> is the
  clock reading of the call (\<^verbatim>\<open>time.Now().UTC()\<close>) and \<open>nid\<close> the identifier \<^verbatim>\<open>newID\<close> returns in it.
  Methods return their result together with the new state, because some of them change the state
  and still return an error.
\<close>

record mem_store =
  m_Jobs :: "(string, job) gomap"
  m_Repos :: "(string, repository) gomap"
  m_Generations :: "(string, generation list) gomap"
  m_Replicas :: "(string, generation_replica list) gomap"
  m_Agents :: "(string, agent) gomap"
  m_Approvals :: "(string, restore_approval) gomap"
  m_Transfers :: "(string, replication_transfer) gomap"
  m_ObjectRefs :: "(string, object_ref) gomap"
  m_ObjectRefOwners :: "(string, string list) gomap"
  m_ObjectLeases :: "(string, object_lease) gomap"
  m_ErasureSets :: "(string, erasure_set) gomap"
  m_ErasureShards :: "(string, erasure_shard list) gomap"
  m_Meta :: "(string, string) gomap"

definition NewMemoryStore :: mem_store where
  "NewMemoryStore = \<lparr>m_Jobs = [], m_Repos = [], m_Generations = [], m_Replicas = [],
     m_Agents = [], m_Approvals = [], m_Transfers = [], m_ObjectRefs = [], m_ObjectRefOwners = [],
     m_ObjectLeases = [], m_ErasureSets = [], m_ErasureShards = [], m_Meta = []\<rparr>"

text \<open>A slice-valued map: an absent key reads as the nil slice.\<close>

definition slice_at :: "('k, 'v list) gomap \<Rightarrow> 'k \<Rightarrow> 'v list" where
  "slice_at m k = (case gget m k of None \<Rightarrow> [] | Some xs \<Rightarrow> xs)"

lemma slice_at_gput [simp]:
  "slice_at (gput k xs m) k' = (if k = k' then xs else slice_at m k')"
  by (simp add: slice_at_def)

section \<open>Jobs\<close>

definition mem_Enqueue ::
  "time \<Rightarrow> string \<Rightarrow> job \<Rightarrow> mem_store \<Rightarrow> (job \<times> bool) result \<times> mem_store" where
  "mem_Enqueue now nid j m =
     (case find (\<lambda>x. same_slot x j \<and> job_active x) (gvals (m_Jobs m)) of
        Some x \<Rightarrow> (Inr (x, False), m)
      | None \<Rightarrow>
          let j1 = (if j_ID j = [] then j\<lparr>j_ID := nid\<rparr> else j);
              j2 = (if j_Status j1 = [] then j1\<lparr>j_Status := JobQueued\<rparr> else j1);
              j3 = (if j_MaxAttempts j2 = 0 then j2\<lparr>j_MaxAttempts := 5\<rparr> else j2);
              j4 = (if IsZero (j_NotBefore j3) then j3\<lparr>j_NotBefore := now\<rparr> else j3);
              j5 = j4\<lparr>j_CreatedAt := now, j_UpdatedAt := now\<rparr>
          in (Inr (j5, True), m\<lparr>m_Jobs := gput (j_ID j5) j5 (m_Jobs m)\<rparr>))"

definition mem_Lease ::
  "time \<Rightarrow> string \<Rightarrow> int \<Rightarrow> duration \<Rightarrow> mem_store \<Rightarrow> job list result \<times> mem_store" where
  "mem_Lease now owner limit lease m =
     (let jobs1 = gmapv (\<lambda>_. reap_if now) (m_Jobs m);
          xs = filter (\<lambda>j. \<not> final_expired now j \<and> leasable now owner j) (gvals (m_Jobs m));
          ranked = sort_less job_before xs;
          n = (if limit \<le> 0 \<or> limit > int (length ranked) then length ranked else nat limit);
          leased = map (take_lease now owner lease) (take n ranked)
      in (Inr leased, m\<lparr>m_Jobs := gput_all j_ID leased jobs1\<rparr>))"

definition job_done :: "time \<Rightarrow> job \<Rightarrow> job" where
  "job_done now j = j\<lparr>j_Status := JobSucceeded, j_LeaseOwner := [], j_LeaseUntil := zero_time,
     j_UpdatedAt := now\<rparr>"

definition mem_Complete :: "time \<Rightarrow> string \<Rightarrow> string \<Rightarrow> mem_store \<Rightarrow> unit result \<times> mem_store" where
  "mem_Complete now ident owner m =
     (case gget (m_Jobs m) ident of
        None \<Rightarrow> (Inl (GoErr ''job not leased''), m)
      | Some j \<Rightarrow>
          if j_Status j \<noteq> JobRunning \<or> j_LeaseOwner j \<noteq> owner then (Inl (GoErr ''job not leased''), m)
          else
            (case job_approval j of
               None \<Rightarrow> (Inr (), m\<lparr>m_Jobs := gput ident (job_done now j) (m_Jobs m)\<rparr>)
             | Some aid \<Rightarrow>
                 (case gget (m_Approvals m) aid of
                    None \<Rightarrow> (Inl (GoErr ''restore approval is not scheduled''), m)
                  | Some a \<Rightarrow>
                      if ap_Status a \<noteq> ApprovalScheduled
                      then (Inl (GoErr ''restore approval is not scheduled''), m)
                      else (Inr (), m\<lparr>m_Approvals := gput aid
                              (a\<lparr>ap_Status := ApprovalExecuted, ap_UpdatedAt := now\<rparr>) (m_Approvals m),
                            m_Jobs := gput ident (job_done now j) (m_Jobs m)\<rparr>))))"

definition job_failed :: "time \<Rightarrow> string \<Rightarrow> duration \<Rightarrow> job \<Rightarrow> job" where
  "job_failed now detail retry j =
     (let j1 = j\<lparr>j_LastError := detail, j_LeaseOwner := [], j_LeaseUntil := zero_time,
                j_UpdatedAt := now\<rparr>
      in if j_Attempts j \<ge> j_MaxAttempts j then j1\<lparr>j_Status := JobFailed\<rparr>
         else j1\<lparr>j_Status := JobQueued, j_NotBefore := now + retry\<rparr>)"

definition mem_Fail ::
  "time \<Rightarrow> string \<Rightarrow> string \<Rightarrow> string \<Rightarrow> duration \<Rightarrow> mem_store \<Rightarrow> unit result \<times> mem_store" where
  "mem_Fail now ident owner detail retry m =
     (case gget (m_Jobs m) ident of
        None \<Rightarrow> (Inl (GoErr ''job not leased''), m)
      | Some j \<Rightarrow>
          if j_LeaseOwner j \<noteq> owner then (Inl (GoErr ''job not leased''), m)
          else (Inr (), m\<lparr>m_Jobs := gput ident (job_failed now detail retry j) (m_Jobs m)\<rparr>))"

definition mem_ListJobs :: "int \<Rightarrow> mem_store \<Rightarrow> job list" where
  "mem_ListJobs limit m =
     limit_to limit (sort_less (\<lambda>x y. j_CreatedAt x > j_CreatedAt y) (gvals (m_Jobs m)))"

definition mem_GetJob :: "string \<Rightarrow> mem_store \<Rightarrow> job result" where
  "mem_GetJob ident m =
     (case gget (m_Jobs m) ident of None \<Rightarrow> Inl (GoErr ''job not found'') | Some j \<Rightarrow> Inr j)"

definition mem_RetryJob :: "time \<Rightarrow> string \<Rightarrow> mem_store \<Rightarrow> unit result \<times> mem_store" where
  "mem_RetryJob now ident m =
     (case gget (m_Jobs m) ident of
        None \<Rightarrow> (Inl (GoErr ''failed job not found''), m)
      | Some j \<Rightarrow>
          if j_Status j \<noteq> JobFailed then (Inl (GoErr ''failed job not found''), m)
          else (Inr (), m\<lparr>m_Jobs := gput ident
                 (j\<lparr>j_Status := JobQueued, j_Attempts := 0, j_LastError := [], j_NotBefore := now\<rparr>)
                 (m_Jobs m)\<rparr>))"

section \<open>Repositories\<close>

text \<open>\<open>repo_id\<close> is \<^verbatim>\<open>RepositoryID(account, fullName)\<close>.\<close>

definition mem_UpsertRepository ::
  "(string \<Rightarrow> string \<Rightarrow> string) \<Rightarrow> time \<Rightarrow> repository \<Rightarrow> mem_store \<Rightarrow> mem_store" where
  "mem_UpsertRepository repo_id now r m =
     (let r1 = (if r_ID r = [] then r\<lparr>r_ID := repo_id (r_Account r) (r_FullName r)\<rparr> else r);
          r2 = (case gget (m_Repos m) (r_ID r1) of
                  None \<Rightarrow> r1
                | Some old \<Rightarrow>
                    let r' = r1\<lparr>r_LastBackupAt := r_LastBackupAt old,
                                r_LastGenerationID := r_LastGenerationID old,
                                r_LastBackupSuccessful := r_LastBackupSuccessful old\<rparr>
                    in if IsZero (r_NextRunAt r') then r'\<lparr>r_NextRunAt := r_NextRunAt old\<rparr> else r');
          r3 = (if IsZero (r_NextRunAt r2) then r2\<lparr>r_NextRunAt := now\<rparr> else r2);
          r4 = r3\<lparr>r_UpdatedAt := now\<rparr>
      in m\<lparr>m_Repos := gput (r_ID r4) r4 (m_Repos m)\<rparr>)"

definition mem_ListRepositories :: "mem_store \<Rightarrow> repository list" where
  "mem_ListRepositories m = sort_less (\<lambda>x y. r_FullName x < r_FullName y) (gvals (m_Repos m))"

definition repo_due :: "time \<Rightarrow> repository \<Rightarrow> bool" where
  "repo_due now r = (r_Enabled r \<and> \<not> r_NextRunAt r > now)"

definition mem_DueRepositories :: "time \<Rightarrow> int \<Rightarrow> mem_store \<Rightarrow> repository list" where
  "mem_DueRepositories now limit m =
     limit_to limit (sort_less (\<lambda>x y. r_NextRunAt x < r_NextRunAt y)
       (filter (repo_due now) (gvals (m_Repos m))))"

text \<open>\<^verbatim>\<open>r := m.Repos[ident]\<close> reads the zero value when the key is absent, and writes it back.\<close>

definition repo_at :: "mem_store \<Rightarrow> string \<Rightarrow> repository" where
  "repo_at m ident = (case gget (m_Repos m) ident of None \<Rightarrow> zero_repository | Some r \<Rightarrow> r)"

definition mem_MarkScheduled :: "time \<Rightarrow> string \<Rightarrow> time \<Rightarrow> mem_store \<Rightarrow> mem_store" where
  "mem_MarkScheduled now ident nxt m =
     m\<lparr>m_Repos := gput ident ((repo_at m ident)\<lparr>r_NextRunAt := nxt, r_UpdatedAt := now\<rparr>) (m_Repos m)\<rparr>"

definition mem_MarkBackupResult ::
  "time \<Rightarrow> string \<Rightarrow> bool \<Rightarrow> string \<Rightarrow> time \<Rightarrow> mem_store \<Rightarrow> mem_store" where
  "mem_MarkBackupResult now ident ok gid when m =
     m\<lparr>m_Repos := gput ident ((repo_at m ident)\<lparr>r_LastBackupAt := when, r_LastBackupSuccessful := ok,
        r_LastGenerationID := gid, r_UpdatedAt := now\<rparr>) (m_Repos m)\<rparr>"

definition mem_DisableMissingRepositories ::
  "time \<Rightarrow> string \<Rightarrow> string list \<Rightarrow> mem_store \<Rightarrow> mem_store" where
  "mem_DisableMissingRepositories now account seen m =
     m\<lparr>m_Repos := gmapv (\<lambda>ident r. if r_Account r = account \<and> ident \<notin> set seen
        then r\<lparr>r_Enabled := False, r_UpdatedAt := now\<rparr> else r) (m_Repos m)\<rparr>"

section \<open>Generations, replicas and transfers\<close>

definition gen_newer :: "generation \<Rightarrow> generation \<Rightarrow> bool" where
  "gen_newer x y = (g_CreatedAt x > g_CreatedAt y)"

definition mem_RecordGeneration :: "generation \<Rightarrow> mem_store \<Rightarrow> mem_store" where
  "mem_RecordGeneration g m =
     m\<lparr>m_Generations := gput (g_RepositoryID g)
        (slice_at (m_Generations m) (g_RepositoryID g) @ [g]) (m_Generations m)\<rparr>"

definition mem_ListAllGenerations :: "int \<Rightarrow> mem_store \<Rightarrow> generation list" where
  "mem_ListAllGenerations limit m =
     limit_to limit (sort_less gen_newer (concat (gvals (m_Generations m))))"

definition mem_ListGenerations :: "string \<Rightarrow> int \<Rightarrow> mem_store \<Rightarrow> generation list" where
  "mem_ListGenerations rid limit m =
     limit_to limit (sort_less gen_newer (slice_at (m_Generations m) rid))"

definition mem_PruneGenerationRecords :: "string \<Rightarrow> int \<Rightarrow> mem_store \<Rightarrow> mem_store" where
  "mem_PruneGenerationRecords repoID keep m =
     (let xs = sort_less gen_newer (slice_at (m_Generations m) repoID)
      in if keep > 0 \<and> int (length xs) > keep
         then m\<lparr>m_Replicas := fold (\<lambda>g. gdel (g_ID g)) (drop (nat keep) xs) (m_Replicas m),
                m_Generations := gput repoID (take (nat keep) xs) (m_Generations m)\<rparr>
         else m\<lparr>m_Generations := gput repoID xs (m_Generations m)\<rparr>)"

text \<open>Overwrite the first entry that satisfies \<open>same\<close>, or append.\<close>

fun put_slice :: "('a \<Rightarrow> bool) \<Rightarrow> 'a \<Rightarrow> 'a list \<Rightarrow> 'a list" where
  "put_slice same x [] = [x]"
| "put_slice same x (y # ys) = (if same y then x # ys else y # put_slice same x ys)"

definition mem_RecordReplica :: "time \<Rightarrow> generation_replica \<Rightarrow> mem_store \<Rightarrow> mem_store" where
  "mem_RecordReplica now r m =
     (let r' = r\<lparr>rp_UpdatedAt := now\<rparr>
      in m\<lparr>m_Replicas := gput (rp_GenerationID r)
            (put_slice (\<lambda>x. rp_AgentID x = rp_AgentID r) r' (slice_at (m_Replicas m) (rp_GenerationID r)))
            (m_Replicas m)\<rparr>)"

definition mem_ListReplicas :: "string \<Rightarrow> mem_store \<Rightarrow> generation_replica list" where
  "mem_ListReplicas gid m = slice_at (m_Replicas m) gid"

definition mem_ListAllReplicas :: "int \<Rightarrow> mem_store \<Rightarrow> generation_replica list" where
  "mem_ListAllReplicas limit m =
     limit_to limit (sort_less (\<lambda>x y. rp_UpdatedAt x > rp_UpdatedAt y) (concat (gvals (m_Replicas m))))"

definition mem_RecordReplicationTransfer ::
  "time \<Rightarrow> replication_transfer \<Rightarrow> mem_store \<Rightarrow> unit result \<times> mem_store" where
  "mem_RecordReplicationTransfer now t m =
     (if t_ID t = [] then (Inl (GoErr ''replication transfer id is required''), m)
      else
        let t1 = (if t_State t = [] then t\<lparr>t_State := TransferReady\<rparr> else t);
            t2 = t1\<lparr>t_UpdatedAt := now\<rparr>
        in (Inr (), m\<lparr>m_Transfers := gput (t_ID t2) t2 (m_Transfers m)\<rparr>))"

definition mem_GetReplicationTransfer :: "string \<Rightarrow> mem_store \<Rightarrow> replication_transfer result" where
  "mem_GetReplicationTransfer ident m =
     (case gget (m_Transfers m) ident of
        None \<Rightarrow> Inl (GoErr ''replication transfer not found'') | Some t \<Rightarrow> Inr t)"

definition mem_ListExpiredReplicationTransfers ::
  "time \<Rightarrow> int \<Rightarrow> mem_store \<Rightarrow> replication_transfer list" where
  "mem_ListExpiredReplicationTransfers now limit m =
     limit_to limit (sort_less (\<lambda>x y. t_ExpiresAt x < t_ExpiresAt y)
       (filter (\<lambda>t. \<not> IsZero (t_ExpiresAt t) \<and> \<not> t_ExpiresAt t > now) (gvals (m_Transfers m))))"

definition mem_DeleteReplicationTransfer :: "string \<Rightarrow> mem_store \<Rightarrow> mem_store" where
  "mem_DeleteReplicationTransfer ident m = m\<lparr>m_Transfers := gdel ident (m_Transfers m)\<rparr>"

section \<open>Agents\<close>

definition mem_HeartbeatAgent :: "time \<Rightarrow> agent \<Rightarrow> mem_store \<Rightarrow> mem_store" where
  "mem_HeartbeatAgent now a m =
     (let a1 = (if a_ID a = [] then a\<lparr>a_ID := a_Name a\<rparr> else a);
          a2 = a1\<lparr>a_LastSeenAt := now, a_UpdatedAt := now, a_Status := ''online''\<rparr>
      in m\<lparr>m_Agents := gput (a_ID a2) a2 (m_Agents m)\<rparr>)"

definition mem_ListAgents :: "mem_store \<Rightarrow> agent list" where
  "mem_ListAgents m = gvals (m_Agents m)"

definition mem_GetAgent :: "string \<Rightarrow> mem_store \<Rightarrow> agent result" where
  "mem_GetAgent ident m =
     (case gget (m_Agents m) ident of None \<Rightarrow> Inl (GoErr ''agent not found'') | Some a \<Rightarrow> Inr a)"

section \<open>Restore approvals\<close>

definition mem_CreateRestoreApproval ::
  "time \<Rightarrow> string \<Rightarrow> restore_approval \<Rightarrow> mem_store \<Rightarrow> mem_store" where
  "mem_CreateRestoreApproval now nid a m =
     (let a1 = (if ap_ID a = [] then a\<lparr>ap_ID := nid\<rparr> else a);
          a2 = (if IsZero (ap_CreatedAt a1) then a1\<lparr>ap_CreatedAt := now\<rparr> else a1);
          a3 = a2\<lparr>ap_UpdatedAt := now\<rparr>;
          a4 = (if ap_Status a3 = [] then a3\<lparr>ap_Status := ApprovalPending\<rparr> else a3)
      in m\<lparr>m_Approvals := gput (ap_ID a4) a4 (m_Approvals m)\<rparr>)"

definition mem_GetRestoreApproval :: "string \<Rightarrow> mem_store \<Rightarrow> restore_approval result" where
  "mem_GetRestoreApproval ident m =
     (case gget (m_Approvals m) ident of
        None \<Rightarrow> Inl (GoErr ''restore approval not found'') | Some a \<Rightarrow> Inr a)"

definition mem_ListRestoreApprovals :: "int \<Rightarrow> mem_store \<Rightarrow> restore_approval list" where
  "mem_ListRestoreApprovals limit m =
     limit_to limit (sort_less (\<lambda>x y. ap_CreatedAt x > ap_CreatedAt y) (gvals (m_Approvals m)))"

definition approval_lapsed :: "time \<Rightarrow> restore_approval \<Rightarrow> bool" where
  "approval_lapsed now a = (\<not> IsZero (ap_ExpiresAt a) \<and> \<not> ap_ExpiresAt a > now)"

definition mem_ApproveRestore ::
  "time \<Rightarrow> string \<Rightarrow> string \<Rightarrow> bool \<Rightarrow> mem_store \<Rightarrow> unit result \<times> mem_store" where
  "mem_ApproveRestore now ident actor requireDistinct m =
     (case gget (m_Approvals m) ident of
        None \<Rightarrow> (Inl (GoErr ''restore approval not found''), m)
      | Some a \<Rightarrow>
          if ap_Status a \<noteq> ApprovalPending
          then (Inl (GoErr (''restore approval is '' @ ap_Status a)), m)
          else if approval_lapsed now a
          then (Inl (GoErr ''restore approval expired''),
                m\<lparr>m_Approvals := gput ident (a\<lparr>ap_Status := ApprovalExpired, ap_UpdatedAt := now\<rparr>)
                   (m_Approvals m)\<rparr>)
          else if requireDistinct \<and> ap_RequestedBy a = actor
          then (Inl (GoErr ''requester cannot approve own restore''), m)
          else (Inr (), m\<lparr>m_Approvals := gput ident
                 (a\<lparr>ap_Status := ApprovalApproved, ap_ApprovedBy := actor, ap_UpdatedAt := now\<rparr>)
                 (m_Approvals m)\<rparr>))"

text \<open>The three transitions that only check and set the status.\<close>

definition mem_set_approval ::
  "time \<Rightarrow> string \<Rightarrow> string \<Rightarrow> string \<Rightarrow> mem_store \<Rightarrow> unit result \<times> mem_store" where
  "mem_set_approval now ident from to m =
     (case gget (m_Approvals m) ident of
        None \<Rightarrow> (Inl (GoErr ''restore approval not found''), m)
      | Some a \<Rightarrow>
          if ap_Status a \<noteq> from then (Inl (GoErr (''restore approval is '' @ ap_Status a)), m)
          else (Inr (), m\<lparr>m_Approvals := gput ident (a\<lparr>ap_Status := to, ap_UpdatedAt := now\<rparr>)
                 (m_Approvals m)\<rparr>))"

definition mem_ScheduleRestore :: "time \<Rightarrow> string \<Rightarrow> mem_store \<Rightarrow> unit result \<times> mem_store" where
  "mem_ScheduleRestore now ident m = mem_set_approval now ident ApprovalApproved ApprovalScheduled m"

definition mem_ReleaseRestoreSchedule ::
  "time \<Rightarrow> string \<Rightarrow> mem_store \<Rightarrow> unit result \<times> mem_store" where
  "mem_ReleaseRestoreSchedule now ident m =
     mem_set_approval now ident ApprovalScheduled ApprovalApproved m"

definition mem_MarkRestoreExecuted :: "time \<Rightarrow> string \<Rightarrow> mem_store \<Rightarrow> unit result \<times> mem_store" where
  "mem_MarkRestoreExecuted now ident m =
     mem_set_approval now ident ApprovalScheduled ApprovalExecuted m"

section \<open>Statistics and meta data\<close>

definition count_if :: "('a \<Rightarrow> bool) \<Rightarrow> 'a list \<Rightarrow> nat" where
  "count_if P xs = length (filter P xs)"

definition mem_Stats :: "time \<Rightarrow> mem_store \<Rightarrow> stats" where
  "mem_Stats now m =
     (let jobs = gvals (m_Jobs m); agents = gvals (m_Agents m);
          online = (\<lambda>a. a_LastSeenAt a > now - 2 * minute);
          connected = map a_ID (filter online agents)
      in \<lparr>st_QueuedJobs = count_if (\<lambda>j. j_Status j = JobQueued) jobs,
          st_RunningJobs = count_if (\<lambda>j. j_Status j = JobRunning) jobs,
          st_FailedJobs = count_if (\<lambda>j. j_Status j = JobFailed) jobs,
          st_Repositories = length (m_Repos m),
          st_DueRepositories = count_if (repo_due now) (gvals (m_Repos m)),
          st_Generations = sum_list (map length (gvals (m_Generations m))),
          st_ConnectedAgents = count_if online agents,
          st_StrandedJobs = count_if (\<lambda>j. j_Affinity j \<noteq> [] \<and> j_Affinity j \<noteq> LocalWorkerAffinity
              \<and> job_active j \<and> j_Affinity j \<notin> set connected) jobs,
          st_ReadyReplicas = sum_list (map (count_if (\<lambda>r. rp_State r = ReplicaReady)) (gvals (m_Replicas m))),
          st_ReplicaDeficits = 0,
          st_PendingApprovals = count_if (\<lambda>a. ap_Status a = ApprovalPending
              \<and> (IsZero (ap_ExpiresAt a) \<or> ap_ExpiresAt a > now)) (gvals (m_Approvals m)),
          st_ActiveTransfers = length (m_Transfers m),
          st_DegradedStorageAgents = count_if (\<lambda>a. a_StorageHealth a = ''degraded'') agents,
          st_UnhealthyStorageAgents = count_if (\<lambda>a. a_StorageHealth a = ''unhealthy'') agents,
          st_ObjectRefs = length (m_ObjectRefs m),
          st_ActiveObjectLeases = count_if (\<lambda>l. ol_ExpiresAt l > now) (gvals (m_ObjectLeases m)),
          st_ErasureSets = length (m_ErasureSets m),
          st_ErasureShardCopies =
            sum_list (map (count_if (\<lambda>s. sh_State s = ShardReady)) (gvals (m_ErasureShards m)))\<rparr>)"

definition mem_SetMeta :: "string \<Rightarrow> string \<Rightarrow> mem_store \<Rightarrow> mem_store" where
  "mem_SetMeta k v m = m\<lparr>m_Meta := gput k v (m_Meta m)\<rparr>"

definition mem_GetMeta :: "string \<Rightarrow> mem_store \<Rightarrow> string \<times> bool" where
  "mem_GetMeta k m = (case gget (m_Meta m) k of None \<Rightarrow> ([], False) | Some v \<Rightarrow> (v, True))"

section \<open>Object references and leases\<close>

definition ref_at :: "mem_store \<Rightarrow> string \<Rightarrow> object_ref" where
  "ref_at m d = (case gget (m_ObjectRefs m) d of None \<Rightarrow> zero_object_ref | Some r \<Rightarrow> r)"

text \<open>Take the stored reference or start from the given one, then refresh kind and size.\<close>

definition merge_ref :: "object_ref \<Rightarrow> object_ref \<Rightarrow> object_ref" where
  "merge_ref cur ref =
     (let c1 = (if or_Digest cur = [] then ref else cur);
          c2 = (if or_Kind ref \<noteq> [] then c1\<lparr>or_Kind := or_Kind ref\<rparr> else c1)
      in if or_Bytes ref > 0 then c2\<lparr>or_Bytes := or_Bytes ref\<rparr> else c2)"

definition mem_AdjustObjectRef ::
  "time \<Rightarrow> object_ref \<Rightarrow> int \<Rightarrow> mem_store \<Rightarrow> object_ref result \<times> mem_store" where
  "mem_AdjustObjectRef now ref delta m =
     (if or_Digest ref = [] then (Inl (GoErr ''object digest is required''), m)
      else
        let cur = merge_ref (ref_at m (or_Digest ref)) ref;
            c1 = cur\<lparr>or_RefCount := or_RefCount cur + delta\<rparr>
        in if or_RefCount c1 < 0 then (Inl (GoErr (''negative refcount for '' @ or_Digest ref)), m)
           else let c2 = c1\<lparr>or_UpdatedAt := now\<rparr>
                in (Inr c2, m\<lparr>m_ObjectRefs := gput (or_Digest ref) c2 (m_ObjectRefs m)\<rparr>))"

definition mem_EnsureObjectRef ::
  "time \<Rightarrow> object_ref \<Rightarrow> string \<Rightarrow> mem_store \<Rightarrow> bool result \<times> mem_store" where
  "mem_EnsureObjectRef now ref owner m =
     (let d = or_Digest ref in
      if d = [] \<or> owner = [] then (Inl (GoErr ''digest and owner are required''), m)
      else
        let owners = slice_at (m_ObjectRefOwners m) d;
            m1 = m\<lparr>m_ObjectRefOwners := gput d owners (m_ObjectRefOwners m)\<rparr>
        in if owner \<in> set owners then (Inr False, m1)
           else
             let cur = merge_ref (ref_at m d) ref;
                 c1 = cur\<lparr>or_RefCount := or_RefCount cur + 1, or_UpdatedAt := now\<rparr>
             in (Inr True, m1\<lparr>m_ObjectRefs := gput d c1 (m_ObjectRefs m),
                   m_ObjectRefOwners := gput d (owners @ [owner]) (m_ObjectRefOwners m1)\<rparr>))"

definition mem_ReleaseObjectRef ::
  "time \<Rightarrow> string \<Rightarrow> string \<Rightarrow> mem_store \<Rightarrow> bool result \<times> mem_store" where
  "mem_ReleaseObjectRef now digest owner m =
     (let owners = slice_at (m_ObjectRefOwners m) digest in
      if owner \<notin> set owners then (Inr False, m)
      else
        let cur = ref_at m digest;
            c1 = (if or_RefCount cur > 0 then cur\<lparr>or_RefCount := or_RefCount cur - 1\<rparr> else cur);
            c2 = c1\<lparr>or_UpdatedAt := now\<rparr>
        in (Inr True, m\<lparr>m_ObjectRefOwners := gput digest (remove1 owner owners) (m_ObjectRefOwners m),
              m_ObjectRefs := gput digest c2 (m_ObjectRefs m)\<rparr>))"

definition mem_GetObjectRef :: "string \<Rightarrow> mem_store \<Rightarrow> object_ref \<times> bool" where
  "mem_GetObjectRef d m =
     (case gget (m_ObjectRefs m) d of None \<Rightarrow> (zero_object_ref, False) | Some r \<Rightarrow> (r, True))"

definition mem_ListObjectRefs :: "int \<Rightarrow> mem_store \<Rightarrow> object_ref list" where
  "mem_ListObjectRefs limit m =
     limit_to limit (sort_less (\<lambda>x y. or_Digest x < or_Digest y) (gvals (m_ObjectRefs m)))"

definition mem_AcquireObjectLease ::
  "time \<Rightarrow> string \<Rightarrow> object_lease \<Rightarrow> mem_store \<Rightarrow> unit result \<times> mem_store" where
  "mem_AcquireObjectLease now nid l m =
     (let l1 = (if ol_ID l = [] then l\<lparr>ol_ID := nid\<rparr> else l) in
      if ol_Digest l1 = [] \<or> ol_Owner l1 = [] \<or> IsZero (ol_ExpiresAt l1)
      then (Inl (GoErr ''invalid object lease''), m)
      else let l2 = l1\<lparr>ol_UpdatedAt := now\<rparr>
           in (Inr (), m\<lparr>m_ObjectLeases := gput (ol_ID l2) l2 (m_ObjectLeases m)\<rparr>))"

definition mem_ReleaseObjectLease :: "string \<Rightarrow> mem_store \<Rightarrow> mem_store" where
  "mem_ReleaseObjectLease ident m = m\<lparr>m_ObjectLeases := gdel ident (m_ObjectLeases m)\<rparr>"

definition mem_ListActiveObjectLeases :: "time \<Rightarrow> int \<Rightarrow> mem_store \<Rightarrow> object_lease list" where
  "mem_ListActiveObjectLeases now limit m =
     limit_to limit (sort_less (\<lambda>x y. ol_ExpiresAt x < ol_ExpiresAt y)
       (filter (\<lambda>l. ol_ExpiresAt l > now) (gvals (m_ObjectLeases m))))"

definition mem_ProtectedObjectDigests :: "time \<Rightarrow> mem_store \<Rightarrow> string list" where
  "mem_ProtectedObjectDigests now m =
     remdups (map fst (filter (\<lambda>(d, r). or_RefCount r > 0) (m_ObjectRefs m))
       @ map ol_Digest (filter (\<lambda>l. ol_ExpiresAt l > now) (gvals (m_ObjectLeases m))))"

section \<open>Erasure sets and shards\<close>

definition mem_RecordErasureSet :: "time \<Rightarrow> erasure_set \<Rightarrow> mem_store \<Rightarrow> unit result \<times> mem_store" where
  "mem_RecordErasureSet now e m =
     (if es_ObjectSHA256 e = [] then (Inl (GoErr ''erasure object digest is required''), m)
      else
        let e1 = (if IsZero (es_CreatedAt e) then e\<lparr>es_CreatedAt := now\<rparr> else e);
            e2 = e1\<lparr>es_UpdatedAt := now\<rparr>
        in (Inr (), m\<lparr>m_ErasureSets := gput (es_ObjectSHA256 e2) e2 (m_ErasureSets m)\<rparr>))"

definition mem_GetErasureSet :: "string \<Rightarrow> mem_store \<Rightarrow> erasure_set option" where
  "mem_GetErasureSet d m = gget (m_ErasureSets m) d"

definition mem_ListErasureSets :: "int \<Rightarrow> mem_store \<Rightarrow> erasure_set list" where
  "mem_ListErasureSets limit m =
     limit_to limit (sort_less (\<lambda>x y. es_ObjectSHA256 x < es_ObjectSHA256 y) (gvals (m_ErasureSets m)))"

definition shard_slot :: "int \<Rightarrow> string \<Rightarrow> erasure_shard \<Rightarrow> bool" where
  "shard_slot i a s = (sh_ShardIndex s = i \<and> sh_AgentID s = a)"

definition mem_RecordErasureShard ::
  "time \<Rightarrow> erasure_shard \<Rightarrow> mem_store \<Rightarrow> unit result \<times> mem_store" where
  "mem_RecordErasureShard now sh m =
     (if sh_ObjectSHA256 sh = [] \<or> sh_ShardSHA256 sh = [] \<or> sh_AgentID sh = []
      then (Inl (GoErr ''invalid erasure shard''), m)
      else
        let s = sh\<lparr>sh_UpdatedAt := now\<rparr>; d = sh_ObjectSHA256 sh
        in (Inr (), m\<lparr>m_ErasureShards := gput d
              (put_slice (shard_slot (sh_ShardIndex sh) (sh_AgentID sh)) s (slice_at (m_ErasureShards m) d))
              (m_ErasureShards m)\<rparr>))"

definition mem_DeleteErasureShard :: "string \<Rightarrow> int \<Rightarrow> string \<Rightarrow> mem_store \<Rightarrow> mem_store" where
  "mem_DeleteErasureShard d idx agent m =
     m\<lparr>m_ErasureShards := gput d
        (filter (\<lambda>s. \<not> shard_slot idx agent s) (slice_at (m_ErasureShards m) d)) (m_ErasureShards m)\<rparr>"

definition mem_ListErasureShards :: "string \<Rightarrow> mem_store \<Rightarrow> erasure_shard list" where
  "mem_ListErasureShards d m = slice_at (m_ErasureShards m) d"

end
