(* ===== verification/Queue_Interface.thy ===== *)
theory Queue_Interface
  imports Job_Rules
begin

text \<open>
  The contract of the job queue part of the \<^verbatim>\<open>Store\<close> interface
  (\<^verbatim>\<open>internal/controlplane/store.go\<close>): the queue operations as data, the transitions they may make
  on a single job (\<open>job_trans\<close>, the abstract specification), and the locale \<open>job_queue\<close> that both
  store implementations interpret.  The consequences clients rely on (lease exclusivity, bounded
  attempts, finality of success) are proved once, for any implementation of the contract.
\<close>

section \<open>Operations\<close>

datatype queue_op =
  OpEnqueue time string job
| OpLease time string int duration
| OpComplete time string string
| OpFail time string string string duration
| OpRetry time string

datatype queue_out =
  OutEnqueued "(job \<times> bool) result"
| OutLeased "job list result"
| OutDone "unit result"

primrec run_ops :: "(queue_op \<Rightarrow> 's \<Rightarrow> queue_out \<times> 's) \<Rightarrow> queue_op list \<Rightarrow> 's \<Rightarrow> 's" where
  "run_ops step [] s = s"
| "run_ops step (q # qs) s = run_ops step qs (snd (step q s))"

text \<open>Every caller of \<^verbatim>\<open>Enqueue\<close> leaves identity, status and attempt counter to the store.\<close>

definition new_job :: "job \<Rightarrow> bool" where
  "new_job j = (j_ID j = [] \<and> j_Status j = [] \<and> j_Attempts j = 0 \<and> 0 \<le> j_MaxAttempts j
     \<and> j_LeaseOwner j = [] \<and> IsZero (j_LeaseUntil j))"

fun op_pre :: "queue_op \<Rightarrow> (string, job) gomap \<Rightarrow> bool" where
  "op_pre (OpEnqueue now nid j) m = (nid \<noteq> [] \<and> gget m nid = None \<and> new_job j)"
| "op_pre (OpLease now owner n d) m = (owner \<noteq> [])"
| "op_pre (OpComplete now i owner) m = (owner \<noteq> [])"
| "op_pre (OpFail now i owner detail retry) m = (owner \<noteq> [])"
| "op_pre (OpRetry now i) m = True"

primrec ops_pre ::
  "(queue_op \<Rightarrow> 's \<Rightarrow> queue_out \<times> 's) \<Rightarrow> ('s \<Rightarrow> (string, job) gomap) \<Rightarrow> queue_op list \<Rightarrow> 's \<Rightarrow> bool"
where
  "ops_pre step jobs [] s = True"
| "ops_pre step jobs (q # qs) s = (op_pre q (jobs s) \<and> ops_pre step jobs qs (snd (step q s)))"

section \<open>The abstract specification of a job's life\<close>

text \<open>What two versions of a job agree on whatever happens to it.\<close>

definition same_identity :: "job \<Rightarrow> job \<Rightarrow> bool" where
  "same_identity j j' = (j_ID j' = j_ID j \<and> same_slot j' j \<and> j_Payload j' = j_Payload j
     \<and> j_Priority j' = j_Priority j \<and> j_MaxAttempts j' = j_MaxAttempts j
     \<and> j_CreatedAt j' = j_CreatedAt j)"

definition lease_cleared :: "job \<Rightarrow> bool" where
  "lease_cleared j = (j_LeaseOwner j = [] \<and> IsZero (j_LeaseUntil j))"

fun job_trans :: "queue_op \<Rightarrow> string \<Rightarrow> job option \<Rightarrow> job option \<Rightarrow> bool" where
  "job_trans (OpEnqueue now nid j) k old new =
     (new = old \<or> (old = None \<and> k = nid \<and> (\<exists>j'. new = Some j' \<and> j_ID j' = nid \<and> same_slot j' j
        \<and> j_Status j' = JobQueued \<and> j_Attempts j' = 0 \<and> 1 \<le> j_MaxAttempts j' \<and> lease_cleared j')))"
| "job_trans (OpLease now owner n d) k old new =
     (new = map_option (reap_if now) old \<or>
      (\<exists>j. old = Some j \<and> leasable now owner j \<and> new = Some (take_lease now owner d j)))"
| "job_trans (OpComplete now i owner) k old new =
     (new = old \<or> (k = i \<and> (\<exists>j j'. old = Some j \<and> new = Some j' \<and> j_Status j = JobRunning
        \<and> j_LeaseOwner j = owner \<and> j_Status j' = JobSucceeded \<and> j_Attempts j' = j_Attempts j
        \<and> lease_cleared j' \<and> same_identity j j')))"
| "job_trans (OpFail now i owner detail retry) k old new =
     (new = old \<or> (k = i \<and> (\<exists>j j'. old = Some j \<and> new = Some j' \<and> j_LeaseOwner j = owner
        \<and> j_Status j' = (if j_Attempts j \<ge> j_MaxAttempts j then JobFailed else JobQueued)
        \<and> j_Attempts j' = j_Attempts j \<and> lease_cleared j' \<and> same_identity j j')))"
| "job_trans (OpRetry now i) k old new =
     (new = old \<or> (k = i \<and> (\<exists>j j'. old = Some j \<and> new = Some j' \<and> j_Status j = JobFailed
        \<and> j_Status j' = JobQueued \<and> j_Attempts j' = 0 \<and> same_identity j j'
        \<and> (lease_cleared j' \<or> (j_LeaseOwner j' = j_LeaseOwner j \<and> j_LeaseUntil j' = j_LeaseUntil j)))))"

text \<open>
  The per-job invariant of the queue: attempts within bounds, and a job that is not running holds
  no lease.
\<close>

definition queue_job_ok :: "job \<Rightarrow> bool" where
  "queue_job_ok j = (job_ok j \<and> (j_Status j \<noteq> JobRunning \<longrightarrow> lease_cleared j)
     \<and> (j_Status j = JobRunning \<longrightarrow> j_LeaseOwner j \<noteq> []))"

definition queue_ok :: "(string, job) gomap \<Rightarrow> bool" where
  "queue_ok m = (\<forall>k j. gget m k = Some j \<longrightarrow> queue_job_ok j)"

lemma same_identity_refl [simp]: "same_identity j j"
  by (simp add: same_identity_def same_slot_def)

lemma same_identity_reap_if [simp]: "same_identity j (reap_if now j)"
  by (simp add: same_identity_def reap_if_def reap_def same_slot_def)

lemma same_identity_take_lease [simp]: "same_identity j (take_lease now owner d j)"
  by (simp add: same_identity_def take_lease_def same_slot_def)

lemma queue_job_ok_reap_if: "queue_job_ok j \<Longrightarrow> queue_job_ok (reap_if now j)"
  by (auto simp: queue_job_ok_def reap_if_def reap_def lease_cleared_def IsZero_def job_ok_def
      status_simps)

lemma queue_job_ok_take_lease:
  "queue_job_ok j \<Longrightarrow> leasable now owner j \<Longrightarrow> owner \<noteq> [] \<Longrightarrow>
   queue_job_ok (take_lease now owner d j)"
  by (auto simp: queue_job_ok_def take_lease_def lease_cleared_def job_ok_def leasable_def)

text \<open>One transition keeps the per-job invariant.\<close>

lemma job_trans_ok:
  assumes "job_trans q k old new" "op_pre q m" "new = Some j'"
    and "\<And>j. old = Some j \<Longrightarrow> queue_job_ok j"
  shows "queue_job_ok j'"
proof (cases q)
  case (OpLease now owner n d)
  with assms show ?thesis
    by (cases old) (auto intro: queue_job_ok_reap_if queue_job_ok_take_lease)
qed (use assms in \<open>auto simp: queue_job_ok_def job_ok_def same_identity_def lease_cleared_def
      status_simps split: if_splits\<close>)

text \<open>
  A lease held by \<open>owner\<close> until \<open>t\<close> survives every operation of another worker before \<open>t\<close>.
\<close>

definition holds_lease :: "string \<Rightarrow> time \<Rightarrow> job \<Rightarrow> bool" where
  "holds_lease owner t j = (j_Status j = JobRunning \<and> j_LeaseOwner j = owner \<and> j_LeaseUntil j = t)"

fun op_by :: "queue_op \<Rightarrow> string option" where
  "op_by (OpLease now owner n d) = None"
| "op_by (OpComplete now i owner) = Some owner"
| "op_by (OpFail now i owner detail retry) = Some owner"
| "op_by _ = None"

fun op_time :: "queue_op \<Rightarrow> time" where
  "op_time (OpEnqueue now nid j) = now"
| "op_time (OpLease now owner n d) = now"
| "op_time (OpComplete now i owner) = now"
| "op_time (OpFail now i owner detail retry) = now"
| "op_time (OpRetry now i) = now"

lemma not_expired_before: "holds_lease owner t j \<Longrightarrow> now < t \<Longrightarrow> \<not> lease_expired now j"
  by (auto simp: holds_lease_def lease_expired_def)

lemma job_trans_lease_kept:
  assumes "job_trans q k (Some j) new" "holds_lease owner t j"
    and "op_time q < t" "op_by q \<noteq> Some owner"
  shows "new = Some j"
proof (cases q)
  case (OpLease now o2 n d)
  with assms(2,3) have "\<not> lease_expired now j" using not_expired_before by simp
  moreover from assms(2) have "j_Status j \<noteq> JobQueued"
    by (simp add: holds_lease_def status_simps)
  ultimately show ?thesis
    using OpLease assms(1) by (auto simp: leasable_def reap_if_def final_expired_def)
qed (use assms in \<open>auto simp: holds_lease_def status_simps\<close>)

text \<open>A succeeded job is never touched again.\<close>

lemma job_trans_succeeded_kept:
  assumes "job_trans q k (Some j) new" "op_pre q m" "queue_job_ok j" "j_Status j = JobSucceeded"
  shows "new = Some j"
proof (cases q)
  case (OpLease now owner n d)
  with assms show ?thesis
    by (auto simp: leasable_def reap_if_def final_expired_def lease_expired_def status_simps)
qed (use assms in \<open>auto simp: queue_job_ok_def lease_cleared_def status_simps\<close>)

text \<open>Attempts grow by at most one per operation and only a lease makes them grow.\<close>

lemma job_trans_attempts:
  assumes "job_trans q k (Some j) new"
  shows "\<exists>j'. new = Some j' \<and> j_ID j' = j_ID j \<and>
     (j_Attempts j' = j_Attempts j
      \<or> (\<exists>now owner n d. q = OpLease now owner n d \<and> leasable now owner j
           \<and> j' = take_lease now owner d j)
      \<or> (\<exists>now i. q = OpRetry now i \<and> j_Attempts j' = 0))"
  using assms
  by (cases q) (auto simp: same_identity_def reap_if_def reap_def take_lease_def)

section \<open>The interface\<close>

locale job_queue =
  fixes step :: "queue_op \<Rightarrow> 's \<Rightarrow> queue_out \<times> 's"
    and jobs :: "'s \<Rightarrow> (string, job) gomap"
    and wf :: "'s \<Rightarrow> bool"
  assumes step_wf: "wf s \<Longrightarrow> op_pre q (jobs s) \<Longrightarrow> wf (snd (step q s))"
    and step_trans:
      "wf s \<Longrightarrow> op_pre q (jobs s) \<Longrightarrow>
       job_trans q k (gget (jobs s) k) (gget (jobs (snd (step q s))) k)"
    and lease_total: "wf s \<Longrightarrow> \<exists>js. fst (step (OpLease now owner n d) s) = OutLeased (Inr js)"
    and lease_out:
      "wf s \<Longrightarrow> fst (step (OpLease now owner n d) s) = OutLeased (Inr js) \<Longrightarrow> j \<in> set js \<Longrightarrow>
       gget (jobs (snd (step (OpLease now owner n d) s))) (j_ID j) = Some j
       \<and> (\<exists>j0. gget (jobs s) (j_ID j) = Some j0 \<and> leasable now owner j0
              \<and> j = take_lease now owner d j0)"
    and lease_live:
      "wf s \<Longrightarrow> fst (step (OpLease now owner n d) s) = OutLeased (Inr js) \<Longrightarrow>
       gget (jobs s) k = Some j0 \<Longrightarrow> leasable now owner j0 \<Longrightarrow> js \<noteq> []"
    and complete_out:
      "wf s \<Longrightarrow> fst (step (OpComplete now i owner) s) = OutDone (Inr ()) \<Longrightarrow>
       \<exists>j j'. gget (jobs s) i = Some j \<and> j_Status j = JobRunning \<and> j_LeaseOwner j = owner
         \<and> gget (jobs (snd (step (OpComplete now i owner) s))) i = Some j'
         \<and> j_Status j' = JobSucceeded"
begin

lemma step_queue_ok:
  assumes "wf s" "op_pre q (jobs s)" "queue_ok (jobs s)"
  shows "queue_ok (jobs (snd (step q s)))"
  unfolding queue_ok_def
proof (intro allI impI)
  fix k j'
  assume new: "gget (jobs (snd (step q s))) k = Some j'"
  have tr: "job_trans q k (gget (jobs s) k) (gget (jobs (snd (step q s))) k)"
    using assms by (intro step_trans)
  show "queue_job_ok j'"
    using job_trans_ok [OF tr assms(2) new] assms(3) by (auto simp: queue_ok_def)
qed

lemma run_invariants:
  "wf s \<Longrightarrow> queue_ok (jobs s) \<Longrightarrow> ops_pre step jobs qs s \<Longrightarrow>
   wf (run_ops step qs s) \<and> queue_ok (jobs (run_ops step qs s))"
  by (induction qs arbitrary: s) (simp_all add: step_wf step_queue_ok)

lemma run_lease_kept:
  assumes "wf s" "ops_pre step jobs qs s"
    and "gget (jobs s) k = Some j" "holds_lease owner t j"
    and "\<And>q. q \<in> set qs \<Longrightarrow> op_time q < t \<and> op_by q \<noteq> Some owner"
  shows "gget (jobs (run_ops step qs s)) k = Some j"
  using assms
proof (induction qs arbitrary: s)
  case (Cons q qs)
  then have tr: "job_trans q k (Some j) (gget (jobs (snd (step q s))) k)"
    using step_trans [of s q k] by simp
  have "gget (jobs (snd (step q s))) k = Some j"
    using job_trans_lease_kept [OF tr] Cons.prems by simp
  with Cons show ?case by (simp add: step_wf)
qed simp

text \<open>
  A worker that was handed a job keeps it, whatever other workers do, until it completes the job,
  fails it, or its lease runs out.
\<close>

lemma lease_exclusive:
  assumes "wf s" "owner \<noteq> []"
    and "step (OpLease now owner n d) s = (OutLeased (Inr js), s1)" "j \<in> set js"
    and "ops_pre step jobs qs s1"
    and "\<And>q. q \<in> set qs \<Longrightarrow> op_time q < now + d \<and> op_by q \<noteq> Some owner"
  shows "gget (jobs (run_ops step qs s1)) (j_ID j) = Some j \<and> holds_lease owner (now + d) j"
proof -
  have s1: "snd (step (OpLease now owner n d) s) = s1"
    and out: "fst (step (OpLease now owner n d) s) = OutLeased (Inr js)"
    using assms(3) by simp_all
  from lease_out [OF assms(1) out assms(4)] s1 obtain j0 where
    at: "gget (jobs s1) (j_ID j) = Some j" and j: "j = take_lease now owner d j0"
    by auto
  from j have h: "holds_lease owner (now + d) j"
    by (simp add: holds_lease_def take_lease_def)
  have "wf s1" using step_wf [of s "OpLease now owner n d"] assms(1,2) s1 by simp
  from run_lease_kept [OF this assms(5) at h assms(6)] h show ?thesis by simp
qed

lemma run_succeeded_kept:
  assumes "wf s" "queue_ok (jobs s)" "ops_pre step jobs qs s"
    and "gget (jobs s) k = Some j" "j_Status j = JobSucceeded"
  shows "gget (jobs (run_ops step qs s)) k = Some j"
  using assms
proof (induction qs arbitrary: s)
  case (Cons q qs)
  then have tr: "job_trans q k (Some j) (gget (jobs (snd (step q s))) k)"
    using step_trans [of s q k] by simp
  have "gget (jobs (snd (step q s))) k = Some j"
    using job_trans_succeeded_kept [OF tr] Cons.prems by (auto simp: queue_ok_def)
  with Cons show ?case by (simp add: step_wf step_queue_ok)
qed simp

text \<open>How often a job has been handed out: the attempts it accumulates over a run without retries.\<close>

lemma run_attempts_bounded:
  assumes "wf s" "queue_ok (jobs s)" "ops_pre step jobs qs s"
    and "gget (jobs (run_ops step qs s)) k = Some j"
  shows "0 \<le> j_Attempts j \<and> j_Attempts j \<le> j_MaxAttempts j"
  using run_invariants [OF assms(1-3)] assms(4) by (auto simp: queue_ok_def queue_job_ok_def job_ok_def)

end

end
