(* ===== verification/Lease_Plan.thy ===== *)
theory Lease_Plan
  imports Queue_Interface
begin

text \<open>
  What the two stores' \<^verbatim>\<open>Lease\<close> methods have in common: a job table keyed by job identifier, and
  the plan reap / rank / take / write back, with the facts about it that the interpretations of
  the queue contract need.
\<close>

definition keyed_jobs :: "(string, job) gomap \<Rightarrow> bool" where
  "keyed_jobs m = (gwf m \<and> (\<forall>k j. gget m k = Some j \<longrightarrow> j_ID j = k))"

lemma keyed_jobs_ID: "keyed_jobs m \<Longrightarrow> gget m k = Some j \<Longrightarrow> j_ID j = k"
  by (simp add: keyed_jobs_def)

lemma keyed_jobs_gput: "keyed_jobs m \<Longrightarrow> j_ID j = k \<Longrightarrow> keyed_jobs (gput k j m)"
  by (auto simp: keyed_jobs_def split: if_splits)

lemma keyed_jobs_gmapv:
  "keyed_jobs m \<Longrightarrow> (\<And>k j. j_ID (f k j) = j_ID j) \<Longrightarrow> keyed_jobs (gmapv f m)"
  by (auto simp: keyed_jobs_def)

lemma keyed_jobs_gput_all: "keyed_jobs m \<Longrightarrow> keyed_jobs (gput_all j_ID js m)"
  by (induction js arbitrary: m) (simp_all add: keyed_jobs_gput)

lemma keyed_jobs_vals:
  "keyed_jobs m \<Longrightarrow> j \<in> set (gvals m) \<longleftrightarrow> gget m (j_ID j) = Some j"
  unfolding keyed_jobs_def by (metis in_vals_iff)

lemma keyed_jobs_distinct: "keyed_jobs m \<Longrightarrow> distinct (map j_ID (gvals m))"
proof -
  assume k: "keyed_jobs m"
  have "j_ID (snd e) = fst e" if "e \<in> set m" for e
    using k that by (cases e) (auto simp: keyed_jobs_def)
  then have "map j_ID (gvals m) = map fst m" by (simp cong: map_cong)
  with k show ?thesis by (metis keyed_jobs_def)
qed

section \<open>Leasing, shared by both stores\<close>

text \<open>
  Both stores lease by the same plan: reap final expired leases, rank the candidates, take a prefix
  of the ranking and write the leases back.
\<close>

definition lease_plan ::
  "time \<Rightarrow> string \<Rightarrow> nat \<Rightarrow> duration \<Rightarrow> (string, job) gomap \<Rightarrow> job list \<times> (string, job) gomap" where
  "lease_plan now owner n d m =
     (let picked = map (take_lease now owner d)
            (take n (sort_less job_before (filter (leasable now owner) (gvals m))))
      in (picked, gput_all j_ID picked (gmapv (\<lambda>_. reap_if now) m)))"

lemma lease_plan_distinct:
  assumes keyed: "keyed_jobs m"
  shows "distinct (map j_ID (fst (lease_plan now owner n d m)))"
proof -
  have "distinct (map j_ID (sort_less job_before (filter (leasable now owner) (gvals m))))"
    using keyed_jobs_distinct [OF keyed] by (simp add: distinct_map_filter)
  from distinct_map_take [OF this, of n] show ?thesis
    by (simp add: lease_plan_def comp_def Let_def)
qed

lemma lease_plan_picked:
  assumes keyed: "keyed_jobs m" and "j \<in> set (fst (lease_plan now owner n d m))"
  shows "\<exists>j0. gget m (j_ID j) = Some j0 \<and> leasable now owner j0 \<and> j = take_lease now owner d j0"
proof -
  from assms(2) obtain j0 where "j = take_lease now owner d j0"
    "j0 \<in> set (take n (sort_less job_before (filter (leasable now owner) (gvals m))))"
    by (auto simp: lease_plan_def Let_def)
  moreover from this(2) have "j0 \<in> set (gvals m)" "leasable now owner j0"
    by (auto dest: in_set_takeD)
  ultimately show ?thesis using keyed_jobs_vals [OF keyed] by auto
qed

lemma lease_plan_get_picked:
  "keyed_jobs m \<Longrightarrow> j \<in> set (fst (lease_plan now owner n d m)) \<Longrightarrow>
   gget (snd (lease_plan now owner n d m)) (j_ID j) = Some j"
  using lease_plan_distinct [of m now owner n d] by (simp add: lease_plan_def Let_def gget_gput_all_in)

lemma lease_plan_get_other:
  "k \<notin> j_ID ` set (fst (lease_plan now owner n d m)) \<Longrightarrow>
   gget (snd (lease_plan now owner n d m)) k = map_option (reap_if now) (gget m k)"
  by (simp add: lease_plan_def Let_def gget_gput_all_notin)

lemma lease_plan_trans:
  assumes keyed: "keyed_jobs m"
  shows "job_trans (OpLease now owner i d) k (gget m k) (gget (snd (lease_plan now owner n d m)) k)"
proof (cases "k \<in> j_ID ` set (fst (lease_plan now owner n d m))")
  case True
  then obtain j where j: "j \<in> set (fst (lease_plan now owner n d m))" "k = j_ID j" by auto
  with lease_plan_picked [OF keyed j(1)] lease_plan_get_picked [OF keyed j(1)] show ?thesis by auto
qed (simp add: lease_plan_get_other)

lemma lease_plan_keyed: "keyed_jobs m \<Longrightarrow> keyed_jobs (snd (lease_plan now owner n d m))"
  by (simp add: lease_plan_def Let_def keyed_jobs_gput_all keyed_jobs_gmapv)

lemma lease_plan_live:
  assumes "gget m k = Some j" "leasable now owner j" "0 < n"
  shows "fst (lease_plan now owner n d m) \<noteq> []"
proof -
  have "j \<in> set (filter (leasable now owner) (gvals m))"
    using assms by (auto dest: gget_in_vals)
  then have "filter (leasable now owner) (gvals m) \<noteq> []" by (metis empty_iff list.set(1))
  then have "sort_less job_before (filter (leasable now owner) (gvals m)) \<noteq> []"
    by (metis length_0_conv length_sort_less)
  with assms(3) show ?thesis by (simp add: lease_plan_def Let_def)
qed

text \<open>
  A candidate is passed over only when the plan is full, and never in favour of a job that ranks
  behind it.
\<close>

lemma ordered_take_drop:
  "ordered_by lt xs \<Longrightarrow> x \<in> set (take n xs) \<Longrightarrow> y \<in> set (drop n xs) \<Longrightarrow> \<not> lt y x"
  using sorted_wrt_append [of "\<lambda>x y. \<not> lt y x" "take n xs" "drop n xs"] by simp

lemma lease_plan_ranked:
  assumes k: "keyed_jobs m" and j0: "gget m (j_ID j0) = Some j0" "leasable now owner j0"
    and out: "j_ID j0 \<notin> j_ID ` set (fst (lease_plan now owner n d m))"
  shows "length (fst (lease_plan now owner n d m)) = n"
    and "j \<in> set (fst (lease_plan now owner n d m)) \<Longrightarrow>
      \<exists>j1. gget m (j_ID j) = Some j1 \<and> j = take_lease now owner d j1 \<and> \<not> job_before j0 j1"
proof -
  define R where "R = sort_less job_before (filter (leasable now owner) (gvals m))"
  have plan: "fst (lease_plan now owner n d m) = map (take_lease now owner d) (take n R)"
    by (simp add: lease_plan_def R_def Let_def)
  have "j0 \<in> set R" using j0 by (auto simp: R_def dest: gget_in_vals)
  moreover have "j0 \<notin> set (take n R)" using out by (auto simp: plan image_iff)
  ultimately have rest: "j0 \<in> set (drop n R)"
    by (metis append_take_drop_id Un_iff set_append)
  then have "n < length R" by (cases "n < length R") auto
  then show "length (fst (lease_plan now owner n d m)) = n" by (simp add: plan)
  have ord: "ordered_by job_before R"
    unfolding R_def by (rule ordered_sort_less [OF weak_order_job_before])
  assume "j \<in> set (fst (lease_plan now owner n d m))"
  then obtain j1 where j1: "j1 \<in> set (take n R)" "j = take_lease now owner d j1"
    by (auto simp: plan)
  then have "j1 \<in> set (gvals m)" by (auto simp: R_def dest!: in_set_takeD)
  then have "gget m (j_ID j) = Some j1" using keyed_jobs_vals [OF k] j1(2) by simp
  with j1 ordered_take_drop [OF ord j1(1) rest]
  show "\<exists>j1. gget m (j_ID j) = Some j1 \<and> j = take_lease now owner d j1 \<and> \<not> job_before j0 j1"
    by blast
qed

end
