(* ===== verification/Memory_Queue.thy ===== *)
theory Memory_Queue
  imports Memory_Store Lease_Plan
begin

text \<open>
  The in-memory store as an implementation of the job queue contract: its dispatcher \<open>mem_step\<close>,
  the well-formedness of its job table, the interpretation of \<open>job_queue\<close>, and the properties the
  interpretation gives for \<^verbatim>\<open>MemoryStore\<close>.
\<close>

fun mem_step :: "queue_op \<Rightarrow> mem_store \<Rightarrow> queue_out \<times> mem_store" where
  "mem_step (OpEnqueue now nid j) m = map_prod OutEnqueued id (mem_Enqueue now nid j m)"
| "mem_step (OpLease now owner n d) m = map_prod OutLeased id (mem_Lease now owner n d m)"
| "mem_step (OpComplete now i owner) m = map_prod OutDone id (mem_Complete now i owner m)"
| "mem_step (OpFail now i owner detail retry) m =
     map_prod OutDone id (mem_Fail now i owner detail retry m)"
| "mem_step (OpRetry now i) m = map_prod OutDone id (mem_RetryJob now i m)"

definition mem_wf :: "mem_store \<Rightarrow> bool" where
  "mem_wf m = keyed_jobs (m_Jobs m)"


section \<open>The operations as steps\<close>

lemma take_capped:
  "length xs \<le> n \<Longrightarrow>
   take (if limit \<le> 0 \<or> limit > int (length xs) then length xs else nat limit) xs
     = take (if limit \<le> 0 \<or> limit > int n then n else nat limit) xs"
  by auto

lemma mem_Lease_plan:
  "mem_Lease now owner limit d m =
     (let n = (if limit \<le> 0 \<or> limit > int (length (m_Jobs m)) then length (m_Jobs m) else nat limit);
          p = lease_plan now owner n d (m_Jobs m)
      in (Inr (fst p), m\<lparr>m_Jobs := snd p\<rparr>))"
proof -
  let ?xs = "sort_less job_before (filter (leasable now owner) (gvals (m_Jobs m)))"
  have f: "filter (\<lambda>j. \<not> final_expired now j \<and> leasable now owner j) (gvals (m_Jobs m))
      = filter (leasable now owner) (gvals (m_Jobs m))"
    by (rule filter_cong) (auto dest: leasable_not_final)
  have len: "length ?xs \<le> length (m_Jobs m)"
    by (simp add: order_trans [OF length_filter_le])
  note take_capped [OF len, of limit]
  then show ?thesis
    unfolding mem_Lease_def lease_plan_def Let_def f by simp
qed

lemma mem_step_wf:
  assumes "mem_wf m" "op_pre q (m_Jobs m)"
  shows "mem_wf (snd (mem_step q m))"
proof (cases q)
  case (OpLease now owner n d)
  with assms show ?thesis by (simp add: mem_wf_def mem_Lease_plan lease_plan_keyed Let_def)
qed (use assms in \<open>auto simp: mem_wf_def mem_Enqueue_def mem_Complete_def mem_Fail_def
  mem_RetryJob_def keyed_jobs_gput job_done_def job_failed_def new_job_def Let_def keyed_jobs_ID
  split: option.splits if_splits\<close>)

lemma mem_step_trans:
  assumes "mem_wf m" "op_pre q (m_Jobs m)"
  shows "job_trans q k (gget (m_Jobs m) k) (gget (m_Jobs (snd (mem_step q m))) k)"
proof (cases q)
  case (OpLease now owner n d)
  with assms lease_plan_trans show ?thesis
    by (simp add: mem_wf_def mem_Lease_plan Let_def del: job_trans.simps)
qed (use assms in \<open>auto simp: mem_wf_def mem_Enqueue_def mem_Complete_def mem_Fail_def
  mem_RetryJob_def job_done_def job_failed_def new_job_def Let_def same_identity_def same_slot_def
  lease_cleared_def IsZero_def split: option.splits if_splits\<close>)

interpretation mq: job_queue mem_step m_Jobs mem_wf
proof
  fix s :: mem_store and now owner n d js j
  assume "mem_wf s" and "fst (mem_step (OpLease now owner n d) s) = OutLeased (Inr js)"
    and "j \<in> set js"
  then show "gget (m_Jobs (snd (mem_step (OpLease now owner n d) s))) (j_ID j) = Some j
       \<and> (\<exists>j0. gget (m_Jobs s) (j_ID j) = Some j0 \<and> leasable now owner j0
              \<and> j = take_lease now owner d j0)"
    by (auto simp: mem_wf_def mem_Lease_plan Let_def lease_plan_get_picked lease_plan_picked)
next
  fix s :: mem_store and now owner n d js k j0
  assume wf: "mem_wf s" and out: "fst (mem_step (OpLease now owner n d) s) = OutLeased (Inr js)"
    and j0: "gget (m_Jobs s) k = Some j0" "leasable now owner j0"
  from j0(1) have "0 < length (m_Jobs s)" by (cases "m_Jobs s") auto
  with out lease_plan_live [OF j0] show "js \<noteq> []"
    by (auto simp: mem_Lease_plan Let_def)
next
  fix s :: mem_store and now i owner
  assume "mem_wf s" and "fst (mem_step (OpComplete now i owner) s) = OutDone (Inr ())"
  then show "\<exists>j j'. gget (m_Jobs s) i = Some j \<and> j_Status j = JobRunning \<and> j_LeaseOwner j = owner
         \<and> gget (m_Jobs (snd (mem_step (OpComplete now i owner) s))) i = Some j'
         \<and> j_Status j' = JobSucceeded"
    by (auto simp: mem_Complete_def job_done_def split: option.splits if_splits)
qed (auto simp: mem_step_wf mem_step_trans mem_Lease_plan Let_def simp del: job_trans.simps)

end
