(* ===== verification/Sql_Store.thy ===== *)
theory Sql_Store
  imports Lease_Plan
begin

text \<open>
  \<^verbatim>\<open>SQLStore\<close> (\<^verbatim>\<open>internal/controlplane/sqlstore.go\<close>): the schema of \<^verbatim>\<open>Migrate\<close> as a record of tables
  and every operation as the statements it runs.

  A table is a finite map from its primary key to its rows; the list order stands for the scan
  order of the database, which only \<^verbatim>\<open>ORDER BY\<close> fixes.  Unique indexes and foreign keys are
  checked where a statement could violate them; a violation is an error and leaves the database as
  it was.  Times are compared as \<open>time\<close> values: \<^verbatim>\<open>ts\<close> writes a fixed-width UTC text, so that the
  textual order of the columns is the order of times; \<^verbatim>\<open>''\<close> in an optional time column is the
  zero time.  A transaction is one atomic function.  Where a method runs several statements
  outside a transaction, \<open>env\<close> arguments stand for what other connections do in between.
\<close>

record database =
  d_jobs :: "(string, job) gomap"
  d_repositories :: "(string, repository) gomap"
  d_generations :: "(string, generation) gomap"
  d_agents :: "(string, agent) gomap"
  d_generation_replicas :: "(string \<times> string, generation_replica) gomap"
  d_replication_transfers :: "(string, replication_transfer) gomap"
  d_restore_approvals :: "(string, restore_approval) gomap"
  d_object_refs :: "(string, object_ref) gomap"
  d_object_ref_owners :: "(string \<times> string, time) gomap"
  d_object_leases :: "(string, object_lease) gomap"
  d_erasure_sets :: "(string, erasure_set) gomap"
  d_erasure_shards :: "(string \<times> int \<times> string, erasure_shard) gomap"
  d_repoark_meta :: "(string, string) gomap"

definition sql_SetMeta :: "string \<Rightarrow> string \<Rightarrow> database \<Rightarrow> database" where
  "sql_SetMeta k v s = s\<lparr>d_repoark_meta := gput k v (d_repoark_meta s)\<rparr>"

definition sql_GetMeta :: "string \<Rightarrow> database \<Rightarrow> string \<times> bool" where
  "sql_GetMeta k s = (case gget (d_repoark_meta s) k of None \<Rightarrow> ([], False) | Some v \<Rightarrow> (v, True))"

text \<open>The database \<^verbatim>\<open>Migrate\<close> leaves behind when it starts from an empty one.\<close>

definition sql_Migrate :: database where
  "sql_Migrate = sql_SetMeta ''schema_version'' ''5''
     \<lparr>d_jobs = [], d_repositories = [], d_generations = [], d_agents = [],
      d_generation_replicas = [], d_replication_transfers = [], d_restore_approvals = [],
      d_object_refs = [], d_object_ref_owners = [], d_object_leases = [], d_erasure_sets = [],
      d_erasure_shards = [], d_repoark_meta = []\<rparr>"

definition ErrNoRows :: go_error where "ErrNoRows = GoErr ''sql: no rows in result set''"
definition ErrConstraint :: go_error where "ErrConstraint = GoErr ''constraint failed''"

definition row :: "('k, 'v) gomap \<Rightarrow> 'k \<Rightarrow> 'v result" where
  "row t k = (case gget t k of None \<Rightarrow> Inl ErrNoRows | Some v \<Rightarrow> Inr v)"

text \<open>\<^verbatim>\<open>ORDER BY ... LIMIT n\<close> with \<open>n > 0\<close>.\<close>

definition top_n :: "int \<Rightarrow> ('a \<Rightarrow> 'a \<Rightarrow> bool) \<Rightarrow> 'a list \<Rightarrow> 'a list" where
  "top_n n lt xs = take (nat n) (sort_less lt xs)"

section \<open>Jobs\<close>

definition slot_taken :: "job \<Rightarrow> (string, job) gomap \<Rightarrow> bool" where
  "slot_taken j t = (\<exists>x \<in> set (gvals t). same_slot x j \<and> job_active x)"

text \<open>\<^verbatim>\<open>INSERT INTO jobs\<close>: primary key and the partial unique index on active jobs.\<close>

definition insert_job :: "job \<Rightarrow> database \<Rightarrow> database option" where
  "insert_job j s =
     (if gget (d_jobs s) (j_ID j) \<noteq> None \<or> (job_active j \<and> slot_taken j (d_jobs s)) then None
      else Some (s\<lparr>d_jobs := gput (j_ID j) j (d_jobs s)\<rparr>))"

definition sql_GetJob :: "string \<Rightarrow> database \<Rightarrow> job result" where
  "sql_GetJob ident s = row (d_jobs s) ident"

definition active_in_slot :: "job \<Rightarrow> database \<Rightarrow> string option" where
  "active_in_slot j s =
     (case sort_less (\<lambda>x y. j_CreatedAt x < j_CreatedAt y)
        (filter (\<lambda>x. same_slot x j \<and> job_active x) (gvals (d_jobs s))) of
        [] \<Rightarrow> None | x # _ \<Rightarrow> Some (j_ID x))"

definition job_defaults :: "time \<Rightarrow> string \<Rightarrow> job \<Rightarrow> job" where
  "job_defaults now nid j =
     (let j1 = (if j_ID j = [] then j\<lparr>j_ID := nid\<rparr> else j);
          j2 = (if j_Status j1 = [] then j1\<lparr>j_Status := JobQueued\<rparr> else j1);
          j3 = (if j_MaxAttempts j2 \<le> 0 then j2\<lparr>j_MaxAttempts := 5\<rparr> else j2);
          j4 = (if IsZero (j_NotBefore j3) then j3\<lparr>j_NotBefore := now\<rparr> else j3)
      in j4\<lparr>j_CreatedAt := now, j_UpdatedAt := now\<rparr>)"

text \<open>
  \<open>env1\<close> runs between the first \<^verbatim>\<open>SELECT\<close> and what follows it, \<open>env2\<close> between a failed
  \<^verbatim>\<open>INSERT\<close> and the second \<^verbatim>\<open>SELECT\<close>, \<open>env3\<close> between that and \<^verbatim>\<open>GetJob\<close>.
\<close>

definition sql_Enqueue ::
  "(database \<Rightarrow> database) \<Rightarrow> (database \<Rightarrow> database) \<Rightarrow> (database \<Rightarrow> database) \<Rightarrow>
   time \<Rightarrow> string \<Rightarrow> job \<Rightarrow> database \<Rightarrow> (job \<times> bool) result \<times> database" where
  "sql_Enqueue env1 env2 env3 now nid j0 s =
     (let j = job_defaults now nid j0; found = (\<lambda>i t. (map_sum id (\<lambda>x. (x, False)) (sql_GetJob i t), t)) in
      case active_in_slot j s of
        Some i \<Rightarrow> found i (env1 s)
      | None \<Rightarrow>
          (case insert_job (j\<lparr>j_LeaseOwner := [], j_LeaseUntil := zero_time, j_LastError := []\<rparr>) (env1 s) of
             Some s1 \<Rightarrow> (Inr (j, True), s1)
           | None \<Rightarrow>
               (let s2 = env2 (env1 s) in
                case active_in_slot j s2 of
                  Some i \<Rightarrow> found i (env3 s2)
                | None \<Rightarrow> (Inl ErrConstraint, s2))))"

text \<open>The \<^verbatim>\<open>UPDATE\<close> that leases one candidate checks its conditions again on the stored row.\<close>

definition update_lease ::
  "time \<Rightarrow> string \<Rightarrow> duration \<Rightarrow> job \<Rightarrow> job list \<times> (string, job) gomap \<Rightarrow> job list \<times> (string, job) gomap"
where
  "update_lease now owner d j acc =
     (case gget (snd acc) (j_ID j) of
        None \<Rightarrow> acc
      | Some r \<Rightarrow>
          if j_Attempts r < j_MaxAttempts r \<and> (j_Affinity r = [] \<or> j_Affinity r = owner)
             \<and> (j_Status r = JobQueued \<or> lease_expired now r)
          then (fst acc @ [take_lease now owner d j], gput (j_ID j) (take_lease now owner d r) (snd acc))
          else acc)"

definition sql_Lease ::
  "time \<Rightarrow> string \<Rightarrow> int \<Rightarrow> duration \<Rightarrow> database \<Rightarrow> job list result \<times> database" where
  "sql_Lease now owner limit d s =
     (let n = (if limit \<le> 0 then 1 else limit);
          reaped = gmapv (\<lambda>_. reap_if now) (d_jobs s);
          candidates = top_n n job_before (filter (leasable now owner) (gvals reaped));
          acc = fold (update_lease now owner d) candidates ([], reaped)
      in (Inr (fst acc), s\<lparr>d_jobs := snd acc\<rparr>))"

definition leased_by :: "string \<Rightarrow> job \<Rightarrow> bool" where
  "leased_by owner j = (j_Status j = JobRunning \<and> j_LeaseOwner j = owner)"

text \<open>\<^verbatim>\<open>UPDATE restore_approvals SET status=to WHERE id=? AND status=from\<close>, with its row count.\<close>

definition update_approval ::
  "time \<Rightarrow> string \<Rightarrow> (restore_approval \<Rightarrow> bool) \<Rightarrow> string \<Rightarrow> database \<Rightarrow> nat \<times> database" where
  "update_approval now ident cond to s =
     (case gget (d_restore_approvals s) ident of
        None \<Rightarrow> (0, s)
      | Some a \<Rightarrow>
          if cond a then (1, s\<lparr>d_restore_approvals := gput ident (a\<lparr>ap_Status := to, ap_UpdatedAt := now\<rparr>)
                 (d_restore_approvals s)\<rparr>)
          else (0, s))"

definition sql_Complete :: "time \<Rightarrow> string \<Rightarrow> string \<Rightarrow> database \<Rightarrow> unit result \<times> database" where
  "sql_Complete now ident owner s =
     (case gget (d_jobs s) ident of
        None \<Rightarrow> (Inl (GoErr (''job '' @ ident @ '' is not leased by '' @ owner
          @ '': sql: no rows in result set'')), s)
      | Some j \<Rightarrow>
          if \<not> leased_by owner j
          then (Inl (GoErr (''job '' @ ident @ '' is not leased by '' @ owner
          @ '': sql: no rows in result set'')), s)
          else
            let j' = j\<lparr>j_Status := JobSucceeded, j_LeaseOwner := [], j_LeaseUntil := zero_time,
                       j_UpdatedAt := now, j_LastError := []\<rparr>;
                commit = (\<lambda>t. (Inr (), t\<lparr>d_jobs := gput ident j' (d_jobs t)\<rparr>))
            in (case job_approval j of
                  None \<Rightarrow> commit s
                | Some aid \<Rightarrow>
                    (case update_approval now aid (\<lambda>a. ap_Status a = ApprovalScheduled) ApprovalExecuted s of
                       (n, s1) \<Rightarrow>
                         if n \<noteq> 1 then (Inl (GoErr ''restore approval is not scheduled''), s)
                         else commit s1)))"

definition sql_Fail ::
  "(database \<Rightarrow> database) \<Rightarrow> time \<Rightarrow> string \<Rightarrow> string \<Rightarrow> string \<Rightarrow> duration \<Rightarrow> database \<Rightarrow>
   unit result \<times> database" where
  "sql_Fail env now ident owner detail retryAfter s =
     (case gget (d_jobs s) ident of
        None \<Rightarrow> (Inl ErrNoRows, s)
      | Some j0 \<Rightarrow>
          if \<not> leased_by owner j0 then (Inl ErrNoRows, s)
          else
            let final = (j_Attempts j0 \<ge> j_MaxAttempts j0);
                status = (if final then JobFailed else JobQueued);
                notBefore = (if final then now else now + retryAfter);
                s1 = env s
            in (case gget (d_jobs s1) ident of
                  None \<Rightarrow> (Inl (GoErr (''job '' @ ident @ '' is no longer leased by '' @ owner)), s1)
                | Some j \<Rightarrow>
                    if \<not> leased_by owner j
                    then (Inl (GoErr (''job '' @ ident @ '' is no longer leased by '' @ owner)), s1)
                    else (Inr (), s1\<lparr>d_jobs := gput ident
                           (j\<lparr>j_Status := status, j_NotBefore := notBefore, j_LeaseOwner := [],
                              j_LeaseUntil := zero_time, j_UpdatedAt := now, j_LastError := detail\<rparr>)
                           (d_jobs s1)\<rparr>)))"

definition sql_ListJobs :: "int \<Rightarrow> database \<Rightarrow> job list" where
  "sql_ListJobs limit s =
     (let n = (if limit \<le> 0 \<or> limit > 1000 then 100 else limit)
      in top_n n (\<lambda>x y. j_CreatedAt x > j_CreatedAt y) (gvals (d_jobs s)))"

definition sql_RetryJob :: "time \<Rightarrow> string \<Rightarrow> database \<Rightarrow> unit result \<times> database" where
  "sql_RetryJob now ident s =
     (case gget (d_jobs s) ident of
        None \<Rightarrow> (Inl (GoErr (''failed job '' @ ident @ '' not found'')), s)
      | Some j \<Rightarrow>
          if j_Status j \<noteq> JobFailed
          then (Inl (GoErr (''failed job '' @ ident @ '' not found'')), s)
          else if slot_taken j (gdel ident (d_jobs s)) then (Inl ErrConstraint, s)
          else (Inr (), s\<lparr>d_jobs := gput ident
                 (j\<lparr>j_Status := JobQueued, j_Attempts := 0, j_NotBefore := now, j_LeaseOwner := [],
                    j_LeaseUntil := zero_time, j_LastError := [], j_UpdatedAt := now\<rparr>) (d_jobs s)\<rparr>))"

section \<open>Repositories\<close>

text \<open>
  \<^verbatim>\<open>ON CONFLICT(account,full_name) DO UPDATE\<close>: the conflict target decides first; a clash of the
  primary key alone is a constraint violation.
\<close>

definition same_repo :: "repository \<Rightarrow> repository \<Rightarrow> bool" where
  "same_repo x r = (r_Account x = r_Account r \<and> r_FullName x = r_FullName r)"

definition sql_UpsertRepository ::
  "(string \<Rightarrow> string \<Rightarrow> string) \<Rightarrow> time \<Rightarrow> repository \<Rightarrow> database \<Rightarrow> unit result \<times> database" where
  "sql_UpsertRepository repo_id now r0 s =
     (let r1 = (if r_ID r0 = [] then r0\<lparr>r_ID := repo_id (r_Account r0) (r_FullName r0)\<rparr> else r0);
          r2 = (if IsZero (r_NextRunAt r1) then r1\<lparr>r_NextRunAt := now\<rparr> else r1);
          r = r2\<lparr>r_UpdatedAt := now\<rparr>
      in case find (\<lambda>e. same_repo (snd e) r) (d_repositories s) of
           Some (k, x) \<Rightarrow>
             (Inr (), s\<lparr>d_repositories := gput k
                (x\<lparr>r_BackupRoot := r_BackupRoot r, r_IntervalSeconds := r_IntervalSeconds r,
                   r_Priority := r_Priority r, r_MirrorGitLab := r_MirrorGitLab r,
                   r_Enabled := r_Enabled r, r_UpdatedAt := r_UpdatedAt r\<rparr>) (d_repositories s)\<rparr>)
         | None \<Rightarrow>
             if gget (d_repositories s) (r_ID r) \<noteq> None then (Inl ErrConstraint, s)
             else (Inr (), s\<lparr>d_repositories := gput (r_ID r) r (d_repositories s)\<rparr>))"

definition repo_name_before :: "repository \<Rightarrow> repository \<Rightarrow> bool" where
  "repo_name_before x y = (r_Account x < r_Account y
     \<or> (r_Account x = r_Account y \<and> r_FullName x < r_FullName y))"

definition sql_ListRepositories :: "database \<Rightarrow> repository list" where
  "sql_ListRepositories s = sort_less repo_name_before (gvals (d_repositories s))"

definition repo_due_before :: "repository \<Rightarrow> repository \<Rightarrow> bool" where
  "repo_due_before x y = (r_Priority x > r_Priority y
     \<or> (r_Priority x = r_Priority y \<and> r_NextRunAt x < r_NextRunAt y))"

definition sql_DueRepositories :: "time \<Rightarrow> int \<Rightarrow> database \<Rightarrow> repository list" where
  "sql_DueRepositories now limit s =
     top_n (if limit \<le> 0 then 100 else limit) repo_due_before
       (filter (\<lambda>r. r_Enabled r \<and> r_NextRunAt r \<le> now) (gvals (d_repositories s)))"

text \<open>\<^verbatim>\<open>UPDATE ... WHERE id=?\<close>: no row, no change.\<close>

definition update_row :: "'k \<Rightarrow> ('v \<Rightarrow> 'v) \<Rightarrow> ('k, 'v) gomap \<Rightarrow> ('k, 'v) gomap" where
  "update_row k f t = (case gget t k of None \<Rightarrow> t | Some v \<Rightarrow> gput k (f v) t)"

definition sql_MarkScheduled :: "time \<Rightarrow> string \<Rightarrow> time \<Rightarrow> database \<Rightarrow> database" where
  "sql_MarkScheduled now ident nxt s = s\<lparr>d_repositories :=
     update_row ident (\<lambda>r. r\<lparr>r_NextRunAt := nxt, r_UpdatedAt := now\<rparr>) (d_repositories s)\<rparr>"

definition sql_MarkBackupResult ::
  "time \<Rightarrow> string \<Rightarrow> bool \<Rightarrow> string \<Rightarrow> time \<Rightarrow> database \<Rightarrow> database" where
  "sql_MarkBackupResult now ident ok gid when s = s\<lparr>d_repositories :=
     update_row ident (\<lambda>r. r\<lparr>r_LastBackupAt := when, r_LastGenerationID := gid,
       r_LastBackupSuccessful := ok, r_UpdatedAt := now\<rparr>) (d_repositories s)\<rparr>"

definition sql_DisableMissingRepositories ::
  "time \<Rightarrow> string \<Rightarrow> string list \<Rightarrow> database \<Rightarrow> database" where
  "sql_DisableMissingRepositories now account seen s =
     fold (\<lambda>r t. if r_Account r \<noteq> account \<or> r_ID r \<in> set seen then t
                 else t\<lparr>d_repositories := update_row (r_ID r)
                        (\<lambda>x. x\<lparr>r_Enabled := False, r_UpdatedAt := now\<rparr>) (d_repositories t)\<rparr>)
       (sql_ListRepositories s) s"

section \<open>Generations, replicas and transfers\<close>

definition sql_RecordGeneration :: "generation \<Rightarrow> database \<Rightarrow> unit result \<times> database" where
  "sql_RecordGeneration g s =
     (if gget (d_generations s) (g_ID g) \<noteq> None then (Inr (), s)
      else if gget (d_repositories s) (g_RepositoryID g) = None then (Inl ErrConstraint, s)
      else (Inr (), s\<lparr>d_generations := gput (g_ID g) g (d_generations s)\<rparr>))"

definition generation_after :: "generation \<Rightarrow> generation \<Rightarrow> bool" where
  "generation_after x y = (g_CreatedAt x > g_CreatedAt y)"

definition sql_ListAllGenerations :: "int \<Rightarrow> database \<Rightarrow> generation list" where
  "sql_ListAllGenerations limit s =
     top_n (if limit \<le> 0 then 10000 else limit) generation_after (gvals (d_generations s))"

definition sql_ListGenerations :: "string \<Rightarrow> int \<Rightarrow> database \<Rightarrow> generation list" where
  "sql_ListGenerations rid limit s =
     top_n (if limit \<le> 0 then 100 else limit) generation_after
       (filter (\<lambda>g. g_RepositoryID g = rid) (gvals (d_generations s)))"

text \<open>\<^verbatim>\<open>DELETE FROM generations\<close> cascades to the generation's replicas.\<close>

definition delete_generation :: "string \<Rightarrow> database \<Rightarrow> database" where
  "delete_generation ident s = s\<lparr>d_generations := gdel ident (d_generations s),
     d_generation_replicas := filter (\<lambda>e. fst (fst e) \<noteq> ident) (d_generation_replicas s)\<rparr>"

text \<open>\<^verbatim>\<open>ids[keep:]\<close> panics when \<open>keep\<close> exceeds the length of the slice.\<close>

definition sql_PruneGenerationRecords :: "string \<Rightarrow> int \<Rightarrow> database \<Rightarrow> unit result \<times> database" where
  "sql_PruneGenerationRecords repoID keep s =
     (if keep \<le> 0 then (Inr (), s)
      else
        let ids = map g_ID (sort_less generation_after
              (filter (\<lambda>g. g_RepositoryID g = repoID) (gvals (d_generations s))))
        in if keep > int (length ids) then (Inl (GoPanic ''slice bounds out of range''), s)
           else (Inr (), fold delete_generation (drop (nat keep) ids) s))"

definition sql_RecordReplica :: "time \<Rightarrow> generation_replica \<Rightarrow> database \<Rightarrow> unit result \<times> database" where
  "sql_RecordReplica now r0 s =
     (let r1 = (if rp_State r0 = [] then r0\<lparr>rp_State := ReplicaReady\<rparr> else r0);
          r = r1\<lparr>rp_UpdatedAt := now\<rparr>
      in if gget (d_generations s) (rp_GenerationID r) = None then (Inl ErrConstraint, s)
         else (Inr (), s\<lparr>d_generation_replicas :=
                gput (rp_GenerationID r, rp_AgentID r) r (d_generation_replicas s)\<rparr>))"

definition sql_ListReplicas :: "string \<Rightarrow> database \<Rightarrow> generation_replica list" where
  "sql_ListReplicas gid s = sort_less (\<lambda>x y. rp_AgentID x < rp_AgentID y)
     (filter (\<lambda>r. rp_GenerationID r = gid) (gvals (d_generation_replicas s)))"

definition sql_ListAllReplicas :: "int \<Rightarrow> database \<Rightarrow> generation_replica list" where
  "sql_ListAllReplicas limit s =
     top_n (if limit \<le> 0 then 50000 else limit) (\<lambda>x y. rp_UpdatedAt x > rp_UpdatedAt y)
       (gvals (d_generation_replicas s))"

definition sql_RecordReplicationTransfer ::
  "time \<Rightarrow> replication_transfer \<Rightarrow> database \<Rightarrow> unit result \<times> database" where
  "sql_RecordReplicationTransfer now t0 s =
     (if TrimSpace (t_ID t0) = [] then (Inl (GoErr ''replication transfer id is required''), s)
      else
        let t1 = (if t_State t0 = [] then t0\<lparr>t_State := TransferReady\<rparr> else t0);
            t = t1\<lparr>t_UpdatedAt := now\<rparr>
        in (Inr (), s\<lparr>d_replication_transfers := gput (t_ID t) t (d_replication_transfers s)\<rparr>))"

definition sql_GetReplicationTransfer :: "string \<Rightarrow> database \<Rightarrow> replication_transfer result" where
  "sql_GetReplicationTransfer ident s = row (d_replication_transfers s) ident"

definition sql_ListExpiredReplicationTransfers ::
  "time \<Rightarrow> int \<Rightarrow> database \<Rightarrow> replication_transfer list" where
  "sql_ListExpiredReplicationTransfers now limit s =
     top_n (if limit \<le> 0 then 1000 else limit) (\<lambda>x y. t_ExpiresAt x < t_ExpiresAt y)
       (filter (\<lambda>t. t_ExpiresAt t \<le> now) (gvals (d_replication_transfers s)))"

definition sql_DeleteReplicationTransfer :: "string \<Rightarrow> database \<Rightarrow> database" where
  "sql_DeleteReplicationTransfer ident s =
     s\<lparr>d_replication_transfers := gdel ident (d_replication_transfers s)\<rparr>"

section \<open>Agents\<close>

definition sql_HeartbeatAgent :: "time \<Rightarrow> agent \<Rightarrow> database \<Rightarrow> database" where
  "sql_HeartbeatAgent now a0 s =
     (let a1 = (if a_ID a0 = [] then a0\<lparr>a_ID := a_Name a0\<rparr> else a0);
          a2 = (if a_Status a1 = [] then a1\<lparr>a_Status := ''online''\<rparr> else a1);
          a = a2\<lparr>a_LastSeenAt := now, a_UpdatedAt := now\<rparr>
      in s\<lparr>d_agents := gput (a_ID a) a (d_agents s)\<rparr>)"

definition sql_ListAgents :: "database \<Rightarrow> agent list" where
  "sql_ListAgents s = sort_less (\<lambda>x y. a_Name x < a_Name y) (gvals (d_agents s))"

definition sql_GetAgent :: "string \<Rightarrow> database \<Rightarrow> agent result" where
  "sql_GetAgent ident s = row (d_agents s) ident"

section \<open>Restore approvals\<close>

definition sql_CreateRestoreApproval ::
  "time \<Rightarrow> string \<Rightarrow> restore_approval \<Rightarrow> database \<Rightarrow> unit result \<times> database" where
  "sql_CreateRestoreApproval now nid a0 s =
     (let a1 = (if ap_ID a0 = [] then a0\<lparr>ap_ID := nid\<rparr> else a0);
          a2 = (if IsZero (ap_CreatedAt a1) then a1\<lparr>ap_CreatedAt := now\<rparr> else a1);
          a3 = (if ap_Status a2 = [] then a2\<lparr>ap_Status := ApprovalPending\<rparr> else a2);
          a = a3\<lparr>ap_UpdatedAt := now\<rparr>
      in if gget (d_restore_approvals s) (ap_ID a) \<noteq> None then (Inl ErrConstraint, s)
         else (Inr (), s\<lparr>d_restore_approvals := gput (ap_ID a) a (d_restore_approvals s)\<rparr>))"

definition sql_GetRestoreApproval :: "string \<Rightarrow> database \<Rightarrow> restore_approval result" where
  "sql_GetRestoreApproval ident s = row (d_restore_approvals s) ident"

definition sql_ListRestoreApprovals :: "int \<Rightarrow> database \<Rightarrow> restore_approval list" where
  "sql_ListRestoreApprovals limit s =
     top_n (if limit \<le> 0 then 200 else limit) (\<lambda>x y. ap_CreatedAt x > ap_CreatedAt y)
       (gvals (d_restore_approvals s))"

definition sql_ApproveRestore ::
  "time \<Rightarrow> string \<Rightarrow> string \<Rightarrow> bool \<Rightarrow> database \<Rightarrow> unit result \<times> database" where
  "sql_ApproveRestore now ident actor distct s =
     (case gget (d_restore_approvals s) ident of
        None \<Rightarrow> (Inl ErrNoRows, s)
      | Some a \<Rightarrow>
          if ap_Status a \<noteq> ApprovalPending
          then (Inl (GoErr (''restore approval is '' @ ap_Status a)), s)
          else if \<not> IsZero (ap_ExpiresAt a) \<and> \<not> ap_ExpiresAt a > now
          then (Inl (GoErr ''restore approval expired''),
                snd (update_approval now ident (\<lambda>_. True) ApprovalExpired s))
          else if distct \<and> ap_RequestedBy a = actor
          then (Inl (GoErr ''requester cannot approve own restore''), s)
          else (Inr (), s\<lparr>d_restore_approvals := gput ident
                 (a\<lparr>ap_Status := ApprovalApproved, ap_ApprovedBy := actor, ap_UpdatedAt := now\<rparr>)
                 (d_restore_approvals s)\<rparr>))"

text \<open>An update that must hit exactly one row.\<close>

definition affected_one :: "string \<Rightarrow> nat \<times> database \<Rightarrow> unit result \<times> database" where
  "affected_one msg r = (if fst r \<noteq> 1 then Inl (GoErr msg) else Inr (), snd r)"

definition sql_ScheduleRestore :: "time \<Rightarrow> string \<Rightarrow> database \<Rightarrow> unit result \<times> database" where
  "sql_ScheduleRestore now ident s =
     affected_one ''restore approval is not approved or expired''
       (update_approval now ident (\<lambda>a. ap_Status a = ApprovalApproved \<and> ap_ExpiresAt a > now)
          ApprovalScheduled s)"

definition sql_ReleaseRestoreSchedule :: "time \<Rightarrow> string \<Rightarrow> database \<Rightarrow> unit result \<times> database" where
  "sql_ReleaseRestoreSchedule now ident s =
     affected_one ''restore approval is not scheduled''
       (update_approval now ident (\<lambda>a. ap_Status a = ApprovalScheduled) ApprovalApproved s)"

definition sql_MarkRestoreExecuted :: "time \<Rightarrow> string \<Rightarrow> database \<Rightarrow> unit result \<times> database" where
  "sql_MarkRestoreExecuted now ident s =
     affected_one ''restore approval is not approved''
       (update_approval now ident (\<lambda>a. ap_Status a = ApprovalScheduled) ApprovalExecuted s)"

section \<open>Statistics\<close>

definition sql_Stats :: "time \<Rightarrow> database \<Rightarrow> stats" where
  "sql_Stats now s =
     (let jobs = gvals (d_jobs s); agents = gvals (d_agents s); cnt = (\<lambda>P xs. length (filter P xs));
          seen = (\<lambda>a. a_LastSeenAt a \<ge> now - 2 * minute)
      in \<lparr>st_QueuedJobs = cnt (\<lambda>j. j_Status j = JobQueued) jobs,
          st_RunningJobs = cnt (\<lambda>j. j_Status j = JobRunning) jobs,
          st_FailedJobs = cnt (\<lambda>j. j_Status j = JobFailed) jobs,
          st_Repositories = length (d_repositories s),
          st_DueRepositories =
            length (filter (\<lambda>r. r_Enabled r \<and> r_NextRunAt r \<le> now) (gvals (d_repositories s))),
          st_Generations = length (d_generations s),
          st_ConnectedAgents = length (filter seen agents),
          st_StrandedJobs = cnt (\<lambda>j. job_active j \<and> j_Affinity j \<noteq> [] \<and> j_Affinity j \<noteq> LocalWorkerAffinity
              \<and> \<not> (\<exists>a \<in> set agents. a_ID a = j_Affinity j \<and> seen a)) jobs,
          st_ReadyReplicas =
            length (filter (\<lambda>r. rp_State r = ReplicaReady) (gvals (d_generation_replicas s))),
          st_ReplicaDeficits = 0,
          st_PendingApprovals = length (filter (\<lambda>a. ap_Status a = ApprovalPending \<and> ap_ExpiresAt a > now)
              (gvals (d_restore_approvals s))),
          st_ActiveTransfers = length (d_replication_transfers s),
          st_DegradedStorageAgents = length (filter (\<lambda>a. a_StorageHealth a = ''degraded'') agents),
          st_UnhealthyStorageAgents = length (filter (\<lambda>a. a_StorageHealth a = ''unhealthy'') agents),
          st_ObjectRefs = length (d_object_refs s),
          st_ActiveObjectLeases = length (filter (\<lambda>l. ol_ExpiresAt l > now) (gvals (d_object_leases s))),
          st_ErasureSets = length (d_erasure_sets s),
          st_ErasureShardCopies =
            length (filter (\<lambda>e. sh_State e = ShardReady) (gvals (d_erasure_shards s)))\<rparr>)"

section \<open>Object references and leases\<close>

definition refresh_ref :: "object_ref \<Rightarrow> object_ref \<Rightarrow> object_ref" where
  "refresh_ref cur ref =
     (let c = (if or_Kind ref \<noteq> [] then cur\<lparr>or_Kind := or_Kind ref\<rparr> else cur)
      in if or_Bytes ref > 0 then c\<lparr>or_Bytes := or_Bytes ref\<rparr> else c)"

definition sql_AdjustObjectRef ::
  "time \<Rightarrow> object_ref \<Rightarrow> int \<Rightarrow> database \<Rightarrow> object_ref result \<times> database" where
  "sql_AdjustObjectRef now ref delta s =
     (let d = or_Digest ref; write = (\<lambda>c. (Inr c, s\<lparr>d_object_refs := gput d c (d_object_refs s)\<rparr>)) in
      if TrimSpace d = [] then (Inl (GoErr ''object digest is required''), s)
      else case gget (d_object_refs s) d of
        None \<Rightarrow>
          if delta < 0 then (Inl (GoErr (''negative refcount for '' @ d)), s)
          else write (ref\<lparr>or_RefCount := delta, or_UpdatedAt := now\<rparr>)
      | Some cur0 \<Rightarrow>
          let cur = refresh_ref cur0 ref; n = or_RefCount cur + delta
          in if n < 0 then (Inl (GoErr (''negative refcount for '' @ d)), s)
             else write (cur\<lparr>or_RefCount := n, or_UpdatedAt := now\<rparr>))"

definition sql_EnsureObjectRef ::
  "time \<Rightarrow> object_ref \<Rightarrow> string \<Rightarrow> database \<Rightarrow> bool result \<times> database" where
  "sql_EnsureObjectRef now ref0 owner0 s =
     (let d = ToLower (TrimSpace (or_Digest ref0)); owner = TrimSpace owner0;
          ref = ref0\<lparr>or_Digest := d\<rparr> in
      if d = [] \<or> owner = [] then (Inl (GoErr ''digest and owner are required''), s)
      else if gget (d_object_ref_owners s) (d, owner) \<noteq> None then (Inr False, s)
      else
        let s1 = s\<lparr>d_object_ref_owners := gput (d, owner) now (d_object_ref_owners s)\<rparr>;
            c = (case gget (d_object_refs s) d of
                   None \<Rightarrow> ref\<lparr>or_RefCount := 1, or_UpdatedAt := now\<rparr>
                 | Some cur \<Rightarrow> (refresh_ref cur ref)\<lparr>or_RefCount := or_RefCount cur + 1, or_UpdatedAt := now\<rparr>)
        in (Inr True, s1\<lparr>d_object_refs := gput d c (d_object_refs s)\<rparr>))"

definition sql_ReleaseObjectRef ::
  "time \<Rightarrow> string \<Rightarrow> string \<Rightarrow> database \<Rightarrow> bool result \<times> database" where
  "sql_ReleaseObjectRef now digest0 owner0 s =
     (let d = ToLower (TrimSpace digest0); owner = TrimSpace owner0 in
      if d = [] \<or> owner = [] then (Inl (GoErr ''digest and owner are required''), s)
      else if gget (d_object_ref_owners s) (d, owner) = None then (Inr False, s)
      else (Inr True, s\<lparr>d_object_ref_owners := gdel (d, owner) (d_object_ref_owners s),
             d_object_refs := update_row d (\<lambda>r. r\<lparr>or_RefCount :=
               (if or_RefCount r > 0 then or_RefCount r - 1 else 0), or_UpdatedAt := now\<rparr>) (d_object_refs s)\<rparr>))"

definition sql_GetObjectRef :: "string \<Rightarrow> database \<Rightarrow> object_ref \<times> bool" where
  "sql_GetObjectRef d s =
     (case gget (d_object_refs s) d of None \<Rightarrow> (zero_object_ref, False) | Some r \<Rightarrow> (r, True))"

definition sql_ListObjectRefs :: "int \<Rightarrow> database \<Rightarrow> object_ref list" where
  "sql_ListObjectRefs limit s =
     limit_to limit (sort_less (\<lambda>x y. or_Digest x < or_Digest y) (gvals (d_object_refs s)))"

definition sql_AcquireObjectLease ::
  "time \<Rightarrow> string \<Rightarrow> object_lease \<Rightarrow> database \<Rightarrow> unit result \<times> database" where
  "sql_AcquireObjectLease now nid l0 s =
     (let l1 = (if ol_ID l0 = [] then l0\<lparr>ol_ID := nid\<rparr> else l0) in
      if ol_Digest l1 = [] \<or> ol_Owner l1 = [] \<or> IsZero (ol_ExpiresAt l1)
      then (Inl (GoErr ''invalid object lease''), s)
      else let l = l1\<lparr>ol_UpdatedAt := now\<rparr>
           in (Inr (), s\<lparr>d_object_leases := gput (ol_ID l) l (d_object_leases s)\<rparr>))"

definition sql_ReleaseObjectLease :: "string \<Rightarrow> database \<Rightarrow> database" where
  "sql_ReleaseObjectLease ident s = s\<lparr>d_object_leases := gdel ident (d_object_leases s)\<rparr>"

definition sql_ListActiveObjectLeases :: "time \<Rightarrow> int \<Rightarrow> database \<Rightarrow> object_lease list" where
  "sql_ListActiveObjectLeases now limit s =
     limit_to limit (sort_less (\<lambda>x y. ol_ExpiresAt x < ol_ExpiresAt y)
       (filter (\<lambda>l. ol_ExpiresAt l > now) (gvals (d_object_leases s))))"

definition sql_ProtectedObjectDigests :: "time \<Rightarrow> database \<Rightarrow> string list" where
  "sql_ProtectedObjectDigests now s =
     remdups (map or_Digest (filter (\<lambda>r. or_RefCount r > 0) (gvals (d_object_refs s)))
       @ map ol_Digest (filter (\<lambda>l. ol_ExpiresAt l > now) (gvals (d_object_leases s))))"

section \<open>Erasure sets and shards\<close>

definition sql_RecordErasureSet :: "time \<Rightarrow> erasure_set \<Rightarrow> database \<Rightarrow> unit result \<times> database" where
  "sql_RecordErasureSet now e0 s =
     (if es_ObjectSHA256 e0 = [] then (Inl (GoErr ''erasure object digest is required''), s)
      else
        let e1 = (if IsZero (es_CreatedAt e0) then e0\<lparr>es_CreatedAt := now\<rparr> else e0);
            e = e1\<lparr>es_UpdatedAt := now\<rparr>;
            e' = (case gget (d_erasure_sets s) (es_ObjectSHA256 e) of
                    None \<Rightarrow> e | Some old \<Rightarrow> e\<lparr>es_CreatedAt := es_CreatedAt old\<rparr>)
        in (Inr (), s\<lparr>d_erasure_sets := gput (es_ObjectSHA256 e) e' (d_erasure_sets s)\<rparr>))"

definition sql_GetErasureSet :: "string \<Rightarrow> database \<Rightarrow> erasure_set option" where
  "sql_GetErasureSet d s = gget (d_erasure_sets s) d"

definition sql_ListErasureSets :: "int \<Rightarrow> database \<Rightarrow> erasure_set list" where
  "sql_ListErasureSets limit s =
     limit_to limit (sort_less (\<lambda>x y. es_ObjectSHA256 x < es_ObjectSHA256 y) (gvals (d_erasure_sets s)))"

definition sql_RecordErasureShard :: "time \<Rightarrow> erasure_shard \<Rightarrow> database \<Rightarrow> unit result \<times> database" where
  "sql_RecordErasureShard now sh0 s =
     (if sh_ObjectSHA256 sh0 = [] \<or> sh_ShardSHA256 sh0 = [] \<or> sh_AgentID sh0 = []
      then (Inl (GoErr ''invalid erasure shard''), s)
      else if gget (d_erasure_sets s) (sh_ObjectSHA256 sh0) = None then (Inl ErrConstraint, s)
      else let sh = sh0\<lparr>sh_UpdatedAt := now\<rparr>
           in (Inr (), s\<lparr>d_erasure_shards :=
                gput (sh_ObjectSHA256 sh, sh_ShardIndex sh, sh_AgentID sh) sh (d_erasure_shards s)\<rparr>))"

definition sql_DeleteErasureShard :: "string \<Rightarrow> int \<Rightarrow> string \<Rightarrow> database \<Rightarrow> database" where
  "sql_DeleteErasureShard d i agent s =
     s\<lparr>d_erasure_shards := gdel (d, i, agent) (d_erasure_shards s)\<rparr>"

definition shard_before :: "erasure_shard \<Rightarrow> erasure_shard \<Rightarrow> bool" where
  "shard_before x y = (sh_ShardIndex x < sh_ShardIndex y
     \<or> (sh_ShardIndex x = sh_ShardIndex y \<and> sh_AgentID x < sh_AgentID y))"

definition sql_ListErasureShards :: "string \<Rightarrow> database \<Rightarrow> erasure_shard list" where
  "sql_ListErasureShards d s = sort_less shard_before
     (filter (\<lambda>x. sh_ObjectSHA256 x = d) (gvals (d_erasure_shards s)))"

end
