(* ===== verification/Sql_Queue.thy ===== *)
theory Sql_Queue
  imports Sql_Store
begin

text \<open>
  The SQL store as an implementation of the job queue contract.  Besides the contract's laws its
  well-formedness holds the partial unique index of \<^verbatim>\<open>Migrate\<close>: at most one active job per kind,
  target and affinity.
\<close>

definition id_env :: "database \<Rightarrow> database" where "id_env s = s"

fun sql_step :: "queue_op \<Rightarrow> database \<Rightarrow> queue_out \<times> database" where
  "sql_step (OpEnqueue now nid j) s =
     map_prod OutEnqueued id (sql_Enqueue id_env id_env id_env now nid j s)"
| "sql_step (OpLease now owner n d) s = map_prod OutLeased id (sql_Lease now owner n d s)"
| "sql_step (OpComplete now i owner) s = map_prod OutDone id (sql_Complete now i owner s)"
| "sql_step (OpFail now i owner detail retry) s =
     map_prod OutDone id (sql_Fail id_env now i owner detail retry s)"
| "sql_step (OpRetry now i) s = map_prod OutDone id (sql_RetryJob now i s)"

definition unique_active :: "(string, job) gomap \<Rightarrow> bool" where
  "unique_active m = (\<forall>k1 k2 x y. gget m k1 = Some x \<longrightarrow> gget m k2 = Some y \<longrightarrow>
     job_active x \<longrightarrow> job_active y \<longrightarrow> same_slot x y \<longrightarrow> k1 = k2)"

definition sql_wf :: "database \<Rightarrow> bool" where
  "sql_wf s = (keyed_jobs (d_jobs s) \<and> unique_active (d_jobs s))"

lemma slot_taken_iff:
  "keyed_jobs m \<Longrightarrow> slot_taken j m \<longleftrightarrow> (\<exists>k x. gget m k = Some x \<and> same_slot x j \<and> job_active x)"
  unfolding slot_taken_def keyed_jobs_def by (metis in_vals_iff)

lemma keyed_jobs_gdel: "keyed_jobs m \<Longrightarrow> keyed_jobs (gdel k m)"
  by (auto simp: keyed_jobs_def split: if_splits)

lemma same_slot_sym: "same_slot x y \<longleftrightarrow> same_slot y x"
  by (auto simp: same_slot_def)

lemma same_slot_trans: "same_slot x y \<Longrightarrow> same_slot y z \<Longrightarrow> same_slot x z"
  by (simp add: same_slot_def)

section \<open>The unique index\<close>

lemma unique_active_gput:
  assumes "unique_active m"
    and "\<And>k' x. gget m k' = Some x \<Longrightarrow> k' \<noteq> k \<Longrightarrow> job_active j \<Longrightarrow> job_active x \<Longrightarrow> \<not> same_slot x j"
  shows "unique_active (gput k j m)"
  using assms unfolding unique_active_def by (auto simp: same_slot_sym split: if_splits)

lemma unique_active_weaken:
  assumes u: "unique_active m"
    and w: "\<And>k j'. gget m' k = Some j' \<Longrightarrow> job_active j' \<Longrightarrow>
      \<exists>j. gget m k = Some j \<and> job_active j \<and> same_slot j' j"
  shows "unique_active m'"
  unfolding unique_active_def
proof (intro allI impI)
  fix k1 k2 x y
  assume a: "gget m' k1 = Some x" "gget m' k2 = Some y" "job_active x" "job_active y" "same_slot x y"
  from w [OF a(1,3)] obtain x0 where x0: "gget m k1 = Some x0" "job_active x0" "same_slot x x0" by auto
  from w [OF a(2,4)] obtain y0 where y0: "gget m k2 = Some y0" "job_active y0" "same_slot y y0" by auto
  have "same_slot x0 y0" using x0(3) y0(3) a(5) by (simp add: same_slot_def)
  with u x0 y0 show "k1 = k2" unfolding unique_active_def by blast
qed

section \<open>Leasing refines the shared plan\<close>

lemma leasable_reap_if [simp]: "leasable now owner (reap_if now j) = leasable now owner j"
  by (auto simp: reap_if_def reap_def leasable_def final_expired_def status_simps)

lemma reap_if_leasable: "leasable now owner j \<Longrightarrow> reap_if now j = j"
  by (simp add: reap_if_def leasable_not_final)

lemma filter_leasable_reaped:
  "filter (leasable now owner) (gvals (gmapv (\<lambda>_. reap_if now) m)) = filter (leasable now owner) (gvals m)"
  by (induction m) (auto simp: map_ran_def reap_if_leasable)

lemma fold_update_lease:
  "distinct (map j_ID cs) \<Longrightarrow> (\<And>c. c \<in> set cs \<Longrightarrow> gget m (j_ID c) = Some c \<and> leasable now owner c) \<Longrightarrow>
   fold (update_lease now owner d) cs (acc, m)
     = (acc @ map (take_lease now owner d) cs, gput_all j_ID (map (take_lease now owner d) cs) m)"
proof (induction cs arbitrary: acc m)
  case (Cons c cs)
  then have "update_lease now owner d c (acc, m)
      = (acc @ [take_lease now owner d c], gput (j_ID c) (take_lease now owner d c) m)"
    by (auto simp: update_lease_def leasable_def)
  moreover have "gget (gput (j_ID c) (take_lease now owner d c) m) (j_ID x) = Some x \<and> leasable now owner x"
    if "x \<in> set cs" for x
    using Cons.prems(2) [of x] Cons.prems(1) that by (auto simp: image_iff)
  ultimately show ?case using Cons by simp
qed simp

lemma sql_Lease_plan:
  assumes "keyed_jobs (d_jobs s)"
  shows "sql_Lease now owner limit d s =
     (let p = lease_plan now owner (nat (if limit \<le> 0 then 1 else limit)) d (d_jobs s)
      in (Inr (fst p), s\<lparr>d_jobs := snd p\<rparr>))"
proof -
  define cs where "cs = take (nat (if limit \<le> 0 then 1 else limit))
      (sort_less job_before (filter (leasable now owner) (gvals (d_jobs s))))"
  let ?m = "gmapv (\<lambda>_. reap_if now) (d_jobs s)"
  have "distinct (map j_ID cs)"
    using lease_plan_distinct [OF assms, of now owner _ d] by (simp add: cs_def lease_plan_def Let_def comp_def)
  moreover have "gget ?m (j_ID c) = Some c \<and> leasable now owner c" if "c \<in> set cs" for c
  proof -
    from that have "c \<in> set (gvals (d_jobs s))" and l: "leasable now owner c"
      by (auto simp: cs_def dest: in_set_takeD)
    then have "gget (d_jobs s) (j_ID c) = Some c" using keyed_jobs_vals [OF assms] by blast
    with l show ?thesis by (simp add: reap_if_leasable)
  qed
  ultimately have "fold (update_lease now owner d) cs ([], ?m)
      = (map (take_lease now owner d) cs, gput_all j_ID (map (take_lease now owner d) cs) ?m)"
    using fold_update_lease by fastforce
  then show ?thesis
    by (simp only: sql_Lease_def top_n_def filter_leasable_reaped Let_def cs_def [symmetric]
        lease_plan_def fst_conv snd_conv)
qed

section \<open>The interpretation\<close>

lemma active_in_slot_None:
  "active_in_slot j s = None \<longleftrightarrow> \<not> slot_taken j (d_jobs s)"
proof -
  let ?xs = "sort_less (\<lambda>x y. j_CreatedAt x < j_CreatedAt y)
        (filter (\<lambda>x. same_slot x j \<and> job_active x) (gvals (d_jobs s)))"
  have "active_in_slot j s = None \<longleftrightarrow> ?xs = []"
    by (simp only: active_in_slot_def) (cases ?xs; simp)
  then show ?thesis by (auto simp: slot_taken_def filter_empty_conv)
qed

lemma active_in_slot_Some:
  assumes "keyed_jobs (d_jobs s)" "active_in_slot j s = Some i"
  shows "\<exists>x. gget (d_jobs s) i = Some x \<and> same_slot x j \<and> job_active x"
proof -
  let ?xs = "sort_less (\<lambda>x y. j_CreatedAt x < j_CreatedAt y)
        (filter (\<lambda>x. same_slot x j \<and> job_active x) (gvals (d_jobs s)))"
  from assms(2) obtain x ys where xs: "?xs = x # ys" and i: "i = j_ID x"
    by (auto simp: active_in_slot_def split: list.splits)
  have "x \<in> set ?xs" by (simp only: xs list.set_intros)
  then have "x \<in> set (gvals (d_jobs s))" "same_slot x j" "job_active x" by auto
  with keyed_jobs_vals [OF assms(1)] i show ?thesis by auto
qed

lemma sql_Lease_wf:
  assumes "sql_wf s"
  shows "sql_wf (snd (sql_Lease now owner n d s))"
proof -
  from assms have k: "keyed_jobs (d_jobs s)" and u: "unique_active (d_jobs s)"
    by (simp_all add: sql_wf_def)
  let ?p = "lease_plan now owner (nat (if n \<le> 0 then 1 else n)) d (d_jobs s)"
  have "unique_active (snd ?p)"
  proof (rule unique_active_weaken [OF u])
    fix i j'
    assume j': "gget (snd ?p) i = Some j'" "job_active j'"
    with lease_plan_trans [OF k, of now owner 0 d i "nat (if n \<le> 0 then 1 else n)"]
    have "Some j' = map_option (reap_if now) (gget (d_jobs s) i) \<or>
       (\<exists>j. gget (d_jobs s) i = Some j \<and> leasable now owner j \<and> j' = take_lease now owner d j)"
      by simp
    then show "\<exists>j. gget (d_jobs s) i = Some j \<and> job_active j \<and> same_slot j' j"
      using j'(2) by (cases "gget (d_jobs s) i")
        (auto dest: reap_if_active leasable_active)
  qed
  with lease_plan_keyed [OF k] show ?thesis
    by (simp add: sql_Lease_plan [OF k] Let_def sql_wf_def)
qed

text \<open>
  The unique index under interference: whatever the other connections do between the statements,
  as long as they keep the index, so does \<^verbatim>\<open>Enqueue\<close>.
\<close>

lemma insert_job_wf:
  assumes "sql_wf s" "insert_job j s = Some s'"
  shows "sql_wf s'"
proof -
  from assms have "keyed_jobs (d_jobs s')"
    by (auto simp: sql_wf_def insert_job_def keyed_jobs_gput split: if_splits)
  moreover have "unique_active (d_jobs s')"
    using assms by (auto simp: sql_wf_def insert_job_def slot_taken_iff split: if_splits
        intro!: unique_active_gput)
  ultimately show ?thesis by (simp add: sql_wf_def)
qed

lemma sql_Enqueue_wf:
  assumes "sql_wf s" and "\<And>t. sql_wf t \<Longrightarrow> sql_wf (e1 t)" "\<And>t. sql_wf t \<Longrightarrow> sql_wf (e2 t)"
    "\<And>t. sql_wf t \<Longrightarrow> sql_wf (e3 t)"
  shows "sql_wf (snd (sql_Enqueue e1 e2 e3 now nid j s))"
  using assms by (auto simp: sql_Enqueue_def Let_def dest: insert_job_wf [rotated] split: option.splits)

lemma unique_active_update:
  assumes "unique_active m" "gget m k = Some j" "job_active j' \<Longrightarrow> job_active j" "same_slot j' j"
  shows "unique_active (gput k j' m)"
  using assms(1) by (rule unique_active_weaken) (use assms in \<open>auto simp: same_slot_def split: if_splits\<close>)

lemma sql_wf_update:
  assumes "sql_wf s" "gget (d_jobs s) k = Some j" "j_ID j' = j_ID j"
    "job_active j' \<Longrightarrow> job_active j" "same_slot j' j"
  shows "keyed_jobs (gput k j' (d_jobs s)) \<and> unique_active (gput k j' (d_jobs s))"
  using assms by (auto simp: sql_wf_def intro!: keyed_jobs_gput unique_active_update dest: keyed_jobs_ID)

lemma sql_Complete_wf: "sql_wf s \<Longrightarrow> sql_wf (snd (sql_Complete now i owner s))"
  by (auto simp: sql_Complete_def Let_def sql_wf_update sql_wf_def leased_by_def job_active_def
      same_slot_def update_approval_def split: option.splits if_splits)

lemma sql_Fail_wf:
  "sql_wf s \<Longrightarrow> (\<And>t. sql_wf t \<Longrightarrow> sql_wf (env t)) \<Longrightarrow>
   sql_wf (snd (sql_Fail env now i owner detail retry s))"
  by (auto simp: sql_Fail_def Let_def sql_wf_update sql_wf_def leased_by_def job_active_def
      same_slot_def split: option.splits if_splits)

lemma sql_RetryJob_wf: "sql_wf s \<Longrightarrow> sql_wf (snd (sql_RetryJob now i s))"
  by (auto simp: sql_RetryJob_def sql_wf_def slot_taken_iff keyed_jobs_gdel same_slot_def
      intro!: keyed_jobs_gput unique_active_gput dest: keyed_jobs_ID split: option.splits if_splits)

lemma sql_step_wf: "sql_wf s \<Longrightarrow> sql_wf (snd (sql_step q s))"
  by (cases q) (simp_all add: sql_Enqueue_wf sql_Lease_wf sql_Complete_wf sql_Fail_wf
      sql_RetryJob_wf id_env_def)

lemma job_defaults_new:
  assumes "new_job j"
  shows "j_ID (job_defaults now nid j) = nid" "j_Status (job_defaults now nid j) = JobQueued"
    "j_Attempts (job_defaults now nid j) = 0" "1 \<le> j_MaxAttempts (job_defaults now nid j)"
    "j_Kind (job_defaults now nid j) = j_Kind j" "j_Target (job_defaults now nid j) = j_Target j"
    "j_Affinity (job_defaults now nid j) = j_Affinity j"
  using assms by (simp_all add: job_defaults_def new_job_def Let_def)

lemma sql_Enqueue_jobs:
  "snd (sql_Enqueue id_env id_env id_env now nid j s) = s \<or>
   (let r = (job_defaults now nid j)\<lparr>j_LeaseOwner := [], j_LeaseUntil := zero_time, j_LastError := []\<rparr>
    in snd (sql_Enqueue id_env id_env id_env now nid j s) = s\<lparr>d_jobs := gput (j_ID r) r (d_jobs s)\<rparr>)"
  by (simp add: sql_Enqueue_def Let_def insert_job_def id_env_def split: option.split)

lemma sql_step_trans:
  assumes "sql_wf s" "op_pre q (d_jobs s)"
  shows "job_trans q k (gget (d_jobs s) k) (gget (d_jobs (snd (sql_step q s))) k)"
proof (cases q)
  case (OpLease now owner n d)
  with assms lease_plan_trans show ?thesis
    by (simp add: sql_wf_def sql_Lease_plan Let_def del: job_trans.simps)
next
  case (OpEnqueue now nid j)
  with assms job_defaults_new [of j now nid] sql_Enqueue_jobs [of now nid j s] show ?thesis
    by (auto simp: Let_def same_slot_def lease_cleared_def IsZero_def split: if_splits)
qed (use assms in \<open>auto simp: sql_Complete_def sql_Fail_def sql_RetryJob_def id_env_def
  leased_by_def Let_def same_identity_def same_slot_def update_approval_def
  lease_cleared_def IsZero_def split: option.splits if_splits\<close>)

interpretation sq: job_queue sql_step d_jobs sql_wf
proof
  fix s :: database and now owner n d js j
  assume "sql_wf s" and "fst (sql_step (OpLease now owner n d) s) = OutLeased (Inr js)"
    and "j \<in> set js"
  then show "gget (d_jobs (snd (sql_step (OpLease now owner n d) s))) (j_ID j) = Some j
       \<and> (\<exists>j0. gget (d_jobs s) (j_ID j) = Some j0 \<and> leasable now owner j0
              \<and> j = take_lease now owner d j0)"
    by (auto simp: sql_wf_def sql_Lease_plan Let_def lease_plan_get_picked lease_plan_picked)
next
  fix s :: database and now owner n d js k j0
  assume wf: "sql_wf s" and out: "fst (sql_step (OpLease now owner n d) s) = OutLeased (Inr js)"
    and j0: "gget (d_jobs s) k = Some j0" "leasable now owner j0"
  have "0 < nat (if n \<le> 0 then 1 else n)" by simp
  with wf out lease_plan_live [OF j0, of "nat (if n \<le> 0 then 1 else n)" d] show "js \<noteq> []"
    by (simp add: sql_wf_def sql_Lease_plan Let_def)
next
  fix s :: database and now i owner
  assume "sql_wf s" and "fst (sql_step (OpComplete now i owner) s) = OutDone (Inr ())"
  then show "\<exists>j j'. gget (d_jobs s) i = Some j \<and> j_Status j = JobRunning \<and> j_LeaseOwner j = owner
         \<and> gget (d_jobs (snd (sql_step (OpComplete now i owner) s))) i = Some j'
         \<and> j_Status j' = JobSucceeded"
    by (auto simp: sql_Complete_def leased_by_def Let_def update_approval_def
        split: option.splits if_splits)
next
  fix s :: database and now owner n d
  assume "sql_wf s"
  then show "\<exists>js. fst (sql_step (OpLease now owner n d) s) = OutLeased (Inr js)"
    by (simp add: sql_wf_def sql_Lease_plan Let_def)
qed (simp_all add: sql_step_wf sql_step_trans del: job_trans.simps)

end
