(* ===== verification/Queue_Properties.thy ===== *)
theory Queue_Properties
  imports Memory_Queue Sql_Queue
begin

text \<open>
  What the job queue guarantees, for the two stores: exclusive leases, bounded attempts, finality
  of success, the unique active job per slot, the ranking of leases, and the interleavings of the
  SQL store's non-transactional operations.
\<close>

section \<open>Sample data for the witnesses\<close>

definition sample_job :: job where
  "sample_job = zero_job\<lparr>j_Kind := ''backup'', j_Target := ''r1'', j_Priority := 50\<rparr>"

definition sample_job2 :: job where
  "sample_job2 = zero_job\<lparr>j_Kind := ''backup'', j_Target := ''r2'', j_Priority := 70\<rparr>"

lemmas sample_job_simps = sample_job_def sample_job2_def zero_job_def zero_time_def IsZero_def

definition mem1 :: mem_store where
  "mem1 = snd (mem_Enqueue 10 ''a'' sample_job NewMemoryStore)"

definition sql1 :: database where
  "sql1 = snd (sql_Enqueue id_env id_env id_env 10 ''a'' sample_job sql_Migrate)"

lemmas sample_simps = sample_job_simps NewMemoryStore_def sql_Migrate_def
  sql_SetMeta_def job_rule_defs status_simps same_slot_def job_before_def

lemma mem_wf_New: "mem_wf NewMemoryStore"
  by (simp add: mem_wf_def keyed_jobs_def NewMemoryStore_def)

lemma sql_wf_Migrate: "sql_wf sql_Migrate"
  by (simp add: sql_wf_def keyed_jobs_def unique_active_def sql_Migrate_def sql_SetMeta_def)

lemma mem1_jobs: "m_Jobs mem1 = [(''a'', sample_job\<lparr>j_ID := ''a'', j_Status := JobQueued,
    j_MaxAttempts := 5, j_NotBefore := 10, j_CreatedAt := 10, j_UpdatedAt := 10\<rparr>)]"
  by (simp add: mem1_def sample_simps mem_Enqueue_def Let_def)

lemma sql1_jobs: "d_jobs sql1 = [(''a'', sample_job\<lparr>j_ID := ''a'', j_Status := JobQueued,
    j_MaxAttempts := 5, j_NotBefore := 10, j_CreatedAt := 10, j_UpdatedAt := 10\<rparr>)]"
  by (simp add: sql1_def sample_simps sql_Enqueue_def Let_def active_in_slot_def job_defaults_def
      insert_job_def slot_taken_def id_env_def)

lemma mem_wf_mem1: "mem_wf mem1"
  by (simp add: mem_wf_def keyed_jobs_def mem1_jobs)

lemma sql_wf_sql1: "sql_wf sql1"
  by (auto simp: sql_wf_def keyed_jobs_def unique_active_def sql1_jobs split: if_splits)

section \<open>Exclusive leases\<close>

text \<open>
  A job the in-memory store hands to a worker stays leased to that worker, unchanged, through
  any sequence of queue operations made before the lease runs out, except the worker's own
  \<^verbatim>\<open>Complete\<close> and \<^verbatim>\<open>Fail\<close> calls: no other worker can lease, complete, fail, retry or reap it.
\<close>

theorem mem_lease_exclusive:
  assumes "mem_wf m" "owner \<noteq> []"
    and "mem_Lease now owner n d m = (Inr js, m1)" "j \<in> set js"
    and "ops_pre mem_step m_Jobs qs m1"
    and "\<forall>q \<in> set qs. op_time q < now + d \<and> op_by q \<noteq> Some owner"
  shows "gget (m_Jobs (run_ops mem_step qs m1)) (j_ID j) = Some j \<and> holds_lease owner (now + d) j"
  using mq.lease_exclusive [of m owner now n d js m1 j qs] assms by simp

theorem mem_lease_exclusive_witness:
  "\<exists>j. gget (m_Jobs (run_ops mem_step [OpLease 15 ''w2'' 5 60, OpComplete 16 ''a'' ''w2'']
      (snd (mem_Lease 12 ''w1'' 1 60 mem1)))) ''a'' = Some j \<and> holds_lease ''w1'' 72 j"
proof -
  obtain j where j: "fst (mem_Lease 12 ''w1'' 1 60 mem1) = Inr [j]" and "j_ID j = ''a''"
    by (simp add: mem_Lease_def mem1_jobs sample_simps Let_def)
  with mem_lease_exclusive [OF mem_wf_mem1, of "''w1''" 12 1 60 "[j]" "snd (mem_Lease 12 ''w1'' 1 60 mem1)" j
      "[OpLease 15 ''w2'' 5 60, OpComplete 16 ''a'' ''w2'']"]
  show ?thesis by (auto simp: prod_eq_iff)
qed

text \<open>
  C1. The same for the SQL store.
\<close>

theorem sql_lease_exclusive:
  assumes "sql_wf s" "owner \<noteq> []"
    and "sql_Lease now owner n d s = (Inr js, s1)" "j \<in> set js"
    and "ops_pre sql_step d_jobs qs s1"
    and "\<forall>q \<in> set qs. op_time q < now + d \<and> op_by q \<noteq> Some owner"
  shows "gget (d_jobs (run_ops sql_step qs s1)) (j_ID j) = Some j \<and> holds_lease owner (now + d) j"
  using sq.lease_exclusive [of s owner now n d js s1 j qs] assms by simp

theorem sql_lease_exclusive_witness:
  "\<exists>j. gget (d_jobs (run_ops sql_step [OpLease 15 ''w2'' 5 60, OpFail 16 ''a'' ''w2'' ''x'' 1]
      (snd (sql_Lease 12 ''w1'' 1 60 sql1)))) ''a'' = Some j \<and> holds_lease ''w1'' 72 j"
proof -
  obtain j where j: "fst (sql_Lease 12 ''w1'' 1 60 sql1) = Inr [j]" and "j_ID j = ''a''"
    by (simp add: sql_Lease_def sql1_jobs sample_simps Let_def top_n_def update_lease_def map_ran_def)
  with sql_lease_exclusive [OF sql_wf_sql1, of "''w1''" 12 1 60 "[j]" "snd (sql_Lease 12 ''w1'' 1 60 sql1)" j
      "[OpLease 15 ''w2'' 5 60, OpFail 16 ''a'' ''w2'' ''x'' 1]"]
  show ?thesis by (auto simp: prod_eq_iff)
qed

section \<open>Invariants of every run\<close>

lemma queue_ok_Nil [simp]: "queue_ok []"
  by (simp add: queue_ok_def)

text \<open>
  C2. Whatever queue operations run against a freshly migrated SQL store: the attempts of every job
  stay between zero and its maximum, only a running job holds a lease, and there is at most one
  queued or running job for each kind, target and affinity.
\<close>

theorem sql_run_invariants:
  assumes "ops_pre sql_step d_jobs qs sql_Migrate"
    and "gget (d_jobs (run_ops sql_step qs sql_Migrate)) k = Some j"
  shows "0 \<le> j_Attempts j \<and> j_Attempts j \<le> j_MaxAttempts j
    \<and> (j_Status j \<noteq> JobRunning \<longrightarrow> j_LeaseOwner j = [] \<and> IsZero (j_LeaseUntil j))
    \<and> (\<forall>k' j'. gget (d_jobs (run_ops sql_step qs sql_Migrate)) k' = Some j' \<longrightarrow>
         job_active j \<longrightarrow> job_active j' \<longrightarrow> same_slot j j' \<longrightarrow> k = k')"
proof -
  have "queue_ok (d_jobs sql_Migrate)" by (simp add: sql_Migrate_def sql_SetMeta_def)
  from sq.run_invariants [OF sql_wf_Migrate this assms(1)]
  have u: "unique_active (d_jobs (run_ops sql_step qs sql_Migrate))"
    and q: "queue_ok (d_jobs (run_ops sql_step qs sql_Migrate))" by (simp_all add: sql_wf_def)
  from q assms(2) have "queue_job_ok j" by (simp add: queue_ok_def)
  then have "0 \<le> j_Attempts j \<and> j_Attempts j \<le> j_MaxAttempts j"
    and "j_Status j \<noteq> JobRunning \<longrightarrow> j_LeaseOwner j = [] \<and> IsZero (j_LeaseUntil j)"
    by (simp_all add: queue_job_ok_def job_ok_def lease_cleared_def)
  moreover have "\<forall>k' j'. gget (d_jobs (run_ops sql_step qs sql_Migrate)) k' = Some j' \<longrightarrow>
         job_active j \<longrightarrow> job_active j' \<longrightarrow> same_slot j j' \<longrightarrow> k = k'"
    using u assms(2) unfolding unique_active_def by blast
  ultimately show ?thesis by blast
qed

theorem sql_run_invariants_witness:
  "\<exists>j. gget (d_jobs (run_ops sql_step [OpEnqueue 10 ''a'' sample_job] sql_Migrate)) ''a'' = Some j
     \<and> 0 \<le> j_Attempts j \<and> j_Attempts j \<le> j_MaxAttempts j"
proof -
  have run: "run_ops sql_step [OpEnqueue 10 ''a'' sample_job] sql_Migrate = sql1"
    by (simp add: sql1_def)
  obtain j where j: "gget (d_jobs sql1) ''a'' = Some j" by (simp add: sql1_jobs)
  have "ops_pre sql_step d_jobs [OpEnqueue 10 ''a'' sample_job] sql_Migrate"
    by (simp add: new_job_def sample_job_simps sql_Migrate_def sql_SetMeta_def)
  from sql_run_invariants [OF this, of "''a''" j] j run show ?thesis by auto
qed

text \<open>
  The in-memory store keeps the attempt bounds and the lease discipline over every run.
\<close>

theorem mem_run_invariants:
  assumes "ops_pre mem_step m_Jobs qs NewMemoryStore"
    and "gget (m_Jobs (run_ops mem_step qs NewMemoryStore)) k = Some j"
  shows "0 \<le> j_Attempts j \<and> j_Attempts j \<le> j_MaxAttempts j
    \<and> (j_Status j \<noteq> JobRunning \<longrightarrow> j_LeaseOwner j = [] \<and> IsZero (j_LeaseUntil j))"
proof -
  have "queue_ok (m_Jobs NewMemoryStore)" by (simp add: NewMemoryStore_def)
  from mq.run_invariants [OF mem_wf_New this assms(1)] assms(2) have "queue_job_ok j"
    by (simp add: queue_ok_def)
  then show ?thesis by (simp add: queue_job_ok_def job_ok_def lease_cleared_def)
qed

theorem mem_run_invariants_witness:
  "\<exists>j. gget (m_Jobs (run_ops mem_step [OpEnqueue 10 ''a'' sample_job] NewMemoryStore)) ''a'' = Some j
     \<and> 0 \<le> j_Attempts j \<and> j_Attempts j \<le> j_MaxAttempts j"
proof -
  have run: "run_ops mem_step [OpEnqueue 10 ''a'' sample_job] NewMemoryStore = mem1"
    by (simp add: mem1_def)
  obtain j where j: "gget (m_Jobs mem1) ''a'' = Some j" by (simp add: mem1_jobs)
  have "ops_pre mem_step m_Jobs [OpEnqueue 10 ''a'' sample_job] NewMemoryStore"
    by (simp add: new_job_def sample_job_simps NewMemoryStore_def)
  from mem_run_invariants [OF this, of "''a''" j] j run show ?thesis by auto
qed

text \<open>
  C3. A job that has succeeded in the SQL store is never changed again by a queue operation.
\<close>

theorem sql_succeeded_final:
  assumes "sql_wf s" "queue_ok (d_jobs s)" "ops_pre sql_step d_jobs qs s"
    and "gget (d_jobs s) k = Some j" "j_Status j = JobSucceeded"
  shows "gget (d_jobs (run_ops sql_step qs s)) k = Some j"
  using sq.run_succeeded_kept [OF assms] .

definition sql_done :: database where
  "sql_done = sql1\<lparr>d_jobs := [(''a'', sample_job\<lparr>j_ID := ''a'', j_Status := JobSucceeded,
     j_MaxAttempts := 5, j_Attempts := 1\<rparr>)]\<rparr>"

theorem sql_succeeded_final_witness:
  "gget (d_jobs (run_ops sql_step [OpLease 20 ''w'' 3 60, OpRetry 21 ''a''] sql_done)) ''a''
     = gget (d_jobs sql_done) ''a''"
proof -
  have "sql_wf sql_done"
    by (auto simp: sql_wf_def keyed_jobs_def unique_active_def sql_done_def split: if_splits)
  moreover have "queue_ok (d_jobs sql_done)"
    by (auto simp: queue_ok_def queue_job_ok_def job_ok_def lease_cleared_def sql_done_def
        sample_simps split: if_splits)
  ultimately show ?thesis
    using sql_succeeded_final [of sql_done "[OpLease 20 ''w'' 3 60, OpRetry 21 ''a'']" "''a''"]
    by (simp add: sql_done_def)
qed

section \<open>Ranking\<close>

text \<open>
  The SQL store leases in rank order: if some leasable job is left out, then exactly the requested
  number of jobs (one for a non-positive request) was leased, and the job left out has neither a higher
  priority than a leased one nor the same priority and an earlier creation time.
\<close>

theorem sql_Lease_ranked:
  assumes "sql_wf s" "sql_Lease now owner n d s = (Inr js, s1)"
    and "gget (d_jobs s) k = Some j0" "leasable now owner j0" "k \<notin> j_ID ` set js"
  shows "int (length js) = (if n \<le> 0 then 1 else n)
    \<and> (\<forall>j \<in> set js. j_Priority j0 \<le> j_Priority j
         \<and> (j_Priority j0 = j_Priority j \<longrightarrow> j_CreatedAt j \<le> j_CreatedAt j0))"
proof -
  let ?n = "nat (if n \<le> 0 then 1 else n)"
  from assms(1) have k: "keyed_jobs (d_jobs s)" by (simp add: sql_wf_def)
  from assms(2) have js: "js = fst (lease_plan now owner ?n d (d_jobs s))"
    by (auto simp: sql_Lease_plan [OF k] Let_def)
  have kid: "j_ID j0 = k" using keyed_jobs_ID [OF k assms(3)] .
  note ranked = lease_plan_ranked [OF k, of j0 now owner ?n d]
  have "length js = ?n" using ranked(1) assms(3-5) kid js by simp
  moreover have "j_Priority j0 \<le> j_Priority j \<and>
      (j_Priority j0 = j_Priority j \<longrightarrow> j_CreatedAt j \<le> j_CreatedAt j0)" if "j \<in> set js" for j
  proof -
    from ranked(2) [of j] that assms(3-5) kid js obtain j1 where
      "j = take_lease now owner d j1" "\<not> job_before j0 j1" by blast
    then show ?thesis by (auto simp: job_before_def take_lease_def split: if_splits)
  qed
  ultimately show ?thesis by auto
qed

definition sql2 :: database where
  "sql2 = sql1\<lparr>d_jobs := [
     (''a'', sample_job\<lparr>j_ID := ''a'', j_Status := JobQueued, j_MaxAttempts := 5, j_CreatedAt := 5\<rparr>),
     (''b'', sample_job2\<lparr>j_ID := ''b'', j_Status := JobQueued, j_MaxAttempts := 5, j_CreatedAt := 6\<rparr>)]\<rparr>"

theorem sql_Lease_ranked_witness:
  "\<exists>js s1. sql_Lease 20 ''w'' 1 60 sql2 = (Inr js, s1) \<and> length js = 1"
proof -
  have wf: "sql_wf sql2"
    by (auto simp: sql_wf_def keyed_jobs_def unique_active_def sql2_def sample_simps split: if_splits)
  define js where "js = (case fst (sql_Lease 20 ''w'' 1 60 sql2) of Inr xs \<Rightarrow> xs)"
  define s1 where "s1 = snd (sql_Lease 20 ''w'' 1 60 sql2)"
  have lease: "sql_Lease 20 ''w'' 1 60 sql2 = (Inr js, s1)"
    by (simp add: js_def s1_def prod_eq_iff sql_Lease_def Let_def)
  have ids: "j_ID ` set js = {''b''}"
    by (simp add: js_def sql_Lease_def sql2_def sample_simps Let_def top_n_def update_lease_def map_ran_def)
  obtain j0 where "gget (d_jobs sql2) ''a'' = Some j0" "leasable 20 ''w'' j0"
    by (simp add: sql2_def sample_simps)
  with sql_Lease_ranked [OF wf lease] lease ids show ?thesis by auto
qed

section \<open>One active job per slot\<close>



text \<open>
  The in-memory store lacks the unique index: retrying a failed job while a newer job of the same
  slot is queued leaves two active jobs in the slot, which the SQL store refuses.
\<close>

theorem mem_RetryJob_duplicates_active:
  "\<exists>qs. ops_pre mem_step m_Jobs qs NewMemoryStore \<and>
     \<not> unique_active (m_Jobs (run_ops mem_step qs NewMemoryStore)) \<and>
     ops_pre sql_step d_jobs qs sql_Migrate \<and>
     unique_active (d_jobs (run_ops sql_step qs sql_Migrate))"
proof (intro exI conjI)
  let ?qs = "[OpEnqueue 10 ''a'' (sample_job\<lparr>j_MaxAttempts := 1\<rparr>), OpLease 11 ''w'' 1 5, OpFail 12 ''a'' ''w'' ''x'' 1,
    OpEnqueue 13 ''b'' sample_job, OpRetry 14 ''a'']"
  show m: "ops_pre mem_step m_Jobs ?qs NewMemoryStore"
    by (simp add: new_job_def sample_simps mem_Enqueue_def mem_Lease_def mem_Fail_def job_failed_def
        mem_RetryJob_def Let_def map_ran_def)
  have "\<exists>x y. gget (m_Jobs (run_ops mem_step ?qs NewMemoryStore)) ''a'' = Some x
      \<and> gget (m_Jobs (run_ops mem_step ?qs NewMemoryStore)) ''b'' = Some y
      \<and> job_active x \<and> job_active y \<and> same_slot x y"
    by (simp add: sample_simps mem_Enqueue_def mem_Lease_def mem_Fail_def job_failed_def
        mem_RetryJob_def Let_def map_ran_def)
  then show "\<not> unique_active (m_Jobs (run_ops mem_step ?qs NewMemoryStore))"
    unfolding unique_active_def by force
  show s: "ops_pre sql_step d_jobs ?qs sql_Migrate"
    by (simp add: new_job_def sample_simps sql_Enqueue_def sql_Lease_def sql_Fail_def
        sql_RetryJob_def Let_def map_ran_def active_in_slot_def job_defaults_def insert_job_def
        slot_taken_def id_env_def top_n_def update_lease_def leased_by_def)
  have "queue_ok (d_jobs sql_Migrate)" by (simp add: sql_Migrate_def sql_SetMeta_def)
  from sq.run_invariants [OF sql_wf_Migrate this s]
  show "unique_active (d_jobs (run_ops sql_step ?qs sql_Migrate))" by (simp add: sql_wf_def)
qed

end
