(* ===== verification/Store_Interface.thy ===== *)
theory Store_Interface
  imports Queue_Properties
begin

text \<open>
  The \<^verbatim>\<open>Store\<close> interface (\<^verbatim>\<open>internal/controlplane/store.go\<close>) as its clients see it: a record of
  operations over an arbitrary store state, with its two implementations; the loop combinator of
  the reconcilers, which stop at the first error with the count reached so far; and the contract
  \<open>enqueue_store\<close> under which a reconciler is shown to add jobs and to do nothing else.
\<close>

record 's store_iface =
  i_Enqueue :: "time \<Rightarrow> string \<Rightarrow> job \<Rightarrow> 's \<Rightarrow> (job \<times> bool) result \<times> 's"
  i_Lease :: "time \<Rightarrow> string \<Rightarrow> int \<Rightarrow> duration \<Rightarrow> 's \<Rightarrow> job list result \<times> 's"
  i_Complete :: "time \<Rightarrow> string \<Rightarrow> string \<Rightarrow> 's \<Rightarrow> unit result \<times> 's"
  i_Fail :: "time \<Rightarrow> string \<Rightarrow> string \<Rightarrow> string \<Rightarrow> duration \<Rightarrow> 's \<Rightarrow> unit result \<times> 's"
  i_GetJob :: "string \<Rightarrow> 's \<Rightarrow> job result"
  i_ListJobs :: "int \<Rightarrow> 's \<Rightarrow> job list result"
  i_UpsertRepository :: "time \<Rightarrow> repository \<Rightarrow> 's \<Rightarrow> unit result \<times> 's"
  i_ListRepositories :: "'s \<Rightarrow> repository list result"
  i_DueRepositories :: "time \<Rightarrow> int \<Rightarrow> 's \<Rightarrow> repository list result"
  i_MarkScheduled :: "time \<Rightarrow> string \<Rightarrow> time \<Rightarrow> 's \<Rightarrow> unit result \<times> 's"
  i_MarkBackupResult :: "time \<Rightarrow> string \<Rightarrow> bool \<Rightarrow> string \<Rightarrow> time \<Rightarrow> 's \<Rightarrow> unit result \<times> 's"
  i_DisableMissingRepositories :: "time \<Rightarrow> string \<Rightarrow> string list \<Rightarrow> 's \<Rightarrow> unit result \<times> 's"
  i_RecordGeneration :: "generation \<Rightarrow> 's \<Rightarrow> unit result \<times> 's"
  i_PruneGenerationRecords :: "string \<Rightarrow> int \<Rightarrow> 's \<Rightarrow> unit result \<times> 's"
  i_ListAllGenerations :: "int \<Rightarrow> 's \<Rightarrow> generation list result"
  i_ListGenerations :: "string \<Rightarrow> int \<Rightarrow> 's \<Rightarrow> generation list result"
  i_RecordReplica :: "time \<Rightarrow> generation_replica \<Rightarrow> 's \<Rightarrow> unit result \<times> 's"
  i_ListReplicas :: "string \<Rightarrow> 's \<Rightarrow> generation_replica list result"
  i_RecordReplicationTransfer :: "time \<Rightarrow> replication_transfer \<Rightarrow> 's \<Rightarrow> unit result \<times> 's"
  i_GetReplicationTransfer :: "string \<Rightarrow> 's \<Rightarrow> replication_transfer result"
  i_ListExpiredReplicationTransfers :: "time \<Rightarrow> int \<Rightarrow> 's \<Rightarrow> replication_transfer list result"
  i_DeleteReplicationTransfer :: "string \<Rightarrow> 's \<Rightarrow> unit result \<times> 's"
  i_HeartbeatAgent :: "time \<Rightarrow> agent \<Rightarrow> 's \<Rightarrow> unit result \<times> 's"
  i_ListAgents :: "'s \<Rightarrow> agent list result"
  i_GetAgent :: "string \<Rightarrow> 's \<Rightarrow> agent result"
  i_AdjustObjectRef :: "time \<Rightarrow> object_ref \<Rightarrow> int \<Rightarrow> 's \<Rightarrow> object_ref result \<times> 's"
  i_EnsureObjectRef :: "time \<Rightarrow> object_ref \<Rightarrow> string \<Rightarrow> 's \<Rightarrow> bool result \<times> 's"
  i_GetObjectRef :: "string \<Rightarrow> 's \<Rightarrow> (object_ref \<times> bool) result"
  i_AcquireObjectLease :: "time \<Rightarrow> string \<Rightarrow> object_lease \<Rightarrow> 's \<Rightarrow> unit result \<times> 's"
  i_ReleaseObjectLease :: "string \<Rightarrow> 's \<Rightarrow> unit result \<times> 's"
  i_RecordErasureSet :: "time \<Rightarrow> erasure_set \<Rightarrow> 's \<Rightarrow> unit result \<times> 's"
  i_RecordErasureShard :: "time \<Rightarrow> erasure_shard \<Rightarrow> 's \<Rightarrow> unit result \<times> 's"
  i_GetErasureSet :: "string \<Rightarrow> 's \<Rightarrow> erasure_set option result"
  i_ListErasureSets :: "int \<Rightarrow> 's \<Rightarrow> erasure_set list result"
  i_ListErasureShards :: "string \<Rightarrow> 's \<Rightarrow> erasure_shard list result"

definition mem_iface :: "(string \<Rightarrow> string \<Rightarrow> string) \<Rightarrow> mem_store store_iface" where
  "mem_iface repo_id = \<lparr>i_Enqueue = mem_Enqueue, i_Lease = mem_Lease,
     i_Complete = mem_Complete, i_Fail = mem_Fail, i_GetJob = mem_GetJob, i_ListJobs = (\<lambda>n m. Inr (mem_ListJobs n m)),
     i_UpsertRepository = (\<lambda>now r m. (Inr (), mem_UpsertRepository repo_id now r m)),
     i_ListRepositories = (\<lambda>m. Inr (mem_ListRepositories m)),
     i_DueRepositories = (\<lambda>now n m. Inr (mem_DueRepositories now n m)),
     i_MarkScheduled = (\<lambda>now i t m. (Inr (), mem_MarkScheduled now i t m)),
     i_MarkBackupResult = (\<lambda>now i ok g t m. (Inr (), mem_MarkBackupResult now i ok g t m)),
     i_DisableMissingRepositories = (\<lambda>now a seen m. (Inr (), mem_DisableMissingRepositories now a seen m)),
     i_RecordGeneration = (\<lambda>g m. (Inr (), mem_RecordGeneration g m)),
     i_PruneGenerationRecords = (\<lambda>i k m. (Inr (), mem_PruneGenerationRecords i k m)),
     i_ListAllGenerations = (\<lambda>n m. Inr (mem_ListAllGenerations n m)),
     i_ListGenerations = (\<lambda>i n m. Inr (mem_ListGenerations i n m)),
     i_RecordReplica = (\<lambda>now r m. (Inr (), mem_RecordReplica now r m)),
     i_ListReplicas = (\<lambda>i m. Inr (mem_ListReplicas i m)),
     i_RecordReplicationTransfer = mem_RecordReplicationTransfer,
     i_GetReplicationTransfer = mem_GetReplicationTransfer,
     i_ListExpiredReplicationTransfers = (\<lambda>now n m. Inr (mem_ListExpiredReplicationTransfers now n m)),
     i_DeleteReplicationTransfer = (\<lambda>i m. (Inr (), mem_DeleteReplicationTransfer i m)),
     i_HeartbeatAgent = (\<lambda>now a m. (Inr (), mem_HeartbeatAgent now a m)),
     i_ListAgents = (\<lambda>m. Inr (mem_ListAgents m)), i_GetAgent = mem_GetAgent,
     i_AdjustObjectRef = mem_AdjustObjectRef, i_EnsureObjectRef = mem_EnsureObjectRef,
     i_GetObjectRef = (\<lambda>d m. Inr (mem_GetObjectRef d m)),
     i_AcquireObjectLease = mem_AcquireObjectLease,
     i_ReleaseObjectLease = (\<lambda>i m. (Inr (), mem_ReleaseObjectLease i m)),
     i_RecordErasureSet = mem_RecordErasureSet, i_RecordErasureShard = mem_RecordErasureShard,
     i_GetErasureSet = (\<lambda>d m. Inr (mem_GetErasureSet d m)),
     i_ListErasureSets = (\<lambda>n m. Inr (mem_ListErasureSets n m)),
     i_ListErasureShards = (\<lambda>d m. Inr (mem_ListErasureShards d m))\<rparr>"

definition sql_iface :: "(string \<Rightarrow> string \<Rightarrow> string) \<Rightarrow> database store_iface" where
  "sql_iface repo_id = \<lparr>i_Enqueue = sql_Enqueue id_env id_env id_env, i_Lease = sql_Lease,
     i_Complete = sql_Complete, i_Fail = sql_Fail id_env, i_GetJob = sql_GetJob,
     i_ListJobs = (\<lambda>n s. Inr (sql_ListJobs n s)),
     i_UpsertRepository = sql_UpsertRepository repo_id,
     i_ListRepositories = (\<lambda>s. Inr (sql_ListRepositories s)),
     i_DueRepositories = (\<lambda>now n s. Inr (sql_DueRepositories now n s)),
     i_MarkScheduled = (\<lambda>now i t s. (Inr (), sql_MarkScheduled now i t s)),
     i_MarkBackupResult = (\<lambda>now i ok g t s. (Inr (), sql_MarkBackupResult now i ok g t s)),
     i_DisableMissingRepositories = (\<lambda>now a seen s. (Inr (), sql_DisableMissingRepositories now a seen s)),
     i_RecordGeneration = sql_RecordGeneration,
     i_PruneGenerationRecords = sql_PruneGenerationRecords,
     i_ListAllGenerations = (\<lambda>n s. Inr (sql_ListAllGenerations n s)),
     i_ListGenerations = (\<lambda>i n s. Inr (sql_ListGenerations i n s)),
     i_RecordReplica = sql_RecordReplica,
     i_ListReplicas = (\<lambda>i s. Inr (sql_ListReplicas i s)),
     i_RecordReplicationTransfer = sql_RecordReplicationTransfer,
     i_GetReplicationTransfer = sql_GetReplicationTransfer,
     i_ListExpiredReplicationTransfers = (\<lambda>now n s. Inr (sql_ListExpiredReplicationTransfers now n s)),
     i_DeleteReplicationTransfer = (\<lambda>i s. (Inr (), sql_DeleteReplicationTransfer i s)),
     i_HeartbeatAgent = (\<lambda>now a s. (Inr (), sql_HeartbeatAgent now a s)),
     i_ListAgents = (\<lambda>s. Inr (sql_ListAgents s)), i_GetAgent = sql_GetAgent,
     i_AdjustObjectRef = sql_AdjustObjectRef, i_EnsureObjectRef = sql_EnsureObjectRef, i_GetObjectRef = (\<lambda>d s. Inr (sql_GetObjectRef d s)),
     i_AcquireObjectLease = sql_AcquireObjectLease,
     i_ReleaseObjectLease = (\<lambda>i s. (Inr (), sql_ReleaseObjectLease i s)),
     i_RecordErasureSet = sql_RecordErasureSet, i_RecordErasureShard = sql_RecordErasureShard,
     i_GetErasureSet = (\<lambda>d s. Inr (sql_GetErasureSet d s)),
     i_ListErasureSets = (\<lambda>n s. Inr (sql_ListErasureSets n s)),
     i_ListErasureShards = (\<lambda>d s. Inr (sql_ListErasureShards d s))\<rparr>"

section \<open>Running against a store\<close>

text \<open>
  The state of a reconciler: jobs queued so far (the first result), the error it returns if any,
  how many identifiers \<^verbatim>\<open>newID\<close> has produced, and the store.
\<close>

record 's run =
  rn_n :: int
  rn_err :: "go_error option"
  rn_ids :: nat
  rn_st :: 's

definition ok :: "'s run \<Rightarrow> bool" where
  "ok r = (rn_err r = None)"

primrec loop :: "('a \<Rightarrow> 's run \<Rightarrow> 's run) \<Rightarrow> 'a list \<Rightarrow> 's run \<Rightarrow> 's run" where
  "loop f [] r = r"
| "loop f (x # xs) r = (let r' = f x r in if ok r' then loop f xs r' else r')"

text \<open>\<^verbatim>\<open>_, created, err := Store.Enqueue(...); if err != nil { return n, err }; if created { n++ }\<close>\<close>

definition queue_job :: "'s store_iface \<Rightarrow> (string \<Rightarrow> nat \<Rightarrow> string) \<Rightarrow> time \<Rightarrow> job \<Rightarrow> 's run \<Rightarrow> 's run" where
  "queue_job S newID now j r =
     (case i_Enqueue S now (newID ''job'' (rn_ids r)) j (rn_st r) of
        (Inl e, st) \<Rightarrow> r\<lparr>rn_err := Some e, rn_ids := rn_ids r + 1, rn_st := st\<rparr>
      | (Inr (_, created), st) \<Rightarrow>
          r\<lparr>rn_n := rn_n r + (if created then 1 else 0), rn_ids := rn_ids r + 1, rn_st := st\<rparr>)"

text \<open>\<^verbatim>\<open>Job{Kind: ..., Target: ..., Payload: ..., ...}\<close>: the fields not named are zero.\<close>

definition mk_job :: "string \<Rightarrow> string \<Rightarrow> json_text \<Rightarrow> string \<Rightarrow> int \<Rightarrow> int \<Rightarrow> time \<Rightarrow> job" where
  "mk_job kind target payload affinity priority maxAttempts notBefore =
     zero_job\<lparr>j_Kind := kind, j_Target := target, j_Payload := payload, j_Affinity := affinity,
       j_Priority := priority, j_MaxAttempts := maxAttempts, j_NotBefore := notBefore\<rparr>"

lemma new_job_mk_job [simp]: "new_job (mk_job k t p a pr ma nb) \<longleftrightarrow> 0 \<le> ma"
  by (auto simp: new_job_def mk_job_def zero_job_def IsZero_def)

lemma mk_job_sel [simp]:
  "j_Kind (mk_job k t p a pr ma nb) = k" "j_Target (mk_job k t p a pr ma nb) = t"
  "j_Affinity (mk_job k t p a pr ma nb) = a" "j_Payload (mk_job k t p a pr ma nb) = p"
  by (simp_all add: mk_job_def)

lemma loop_invariant:
  assumes "P r" "ok r" "\<And>x r. x \<in> set xs \<Longrightarrow> P r \<Longrightarrow> ok r \<Longrightarrow> P (f x r)"
  shows "P (loop f xs r)"
  using assms
proof (induction xs arbitrary: r)
  case (Cons x xs)
  from Cons.prems have "P (f x r)" by simp
  with Cons show ?case by (simp add: Let_def)
qed simp

section \<open>The contract reconcilers rely on\<close>

text \<open>
  What a newly inserted job looks like: queued, unattempted, unleased, with the requested slot,
  payload and priority.
\<close>

definition queued_as :: "job \<Rightarrow> job \<Rightarrow> bool" where
  "queued_as j r = (same_slot r j \<and> j_Payload r = j_Payload j \<and> j_Priority r = j_Priority j
     \<and> j_Status r = JobQueued \<and> j_Attempts r = 0 \<and> lease_cleared r)"

text \<open>
  \<open>adds jobs P r0 r\<close>: between \<open>r0\<close> and \<open>r\<close> the store gained exactly as many jobs as the counter
  says, each of them new, queued and satisfying \<open>P\<close>, and no other job changed.
\<close>

definition adds :: "('s \<Rightarrow> (string, job) gomap) \<Rightarrow> (job \<Rightarrow> bool) \<Rightarrow> 's run \<Rightarrow> 's run \<Rightarrow> bool" where
  "adds jobs P r0 r = (\<exists>ks. distinct ks \<and> rn_n r = rn_n r0 + int (length ks)
     \<and> (\<forall>k \<in> set ks. gget (jobs (rn_st r0)) k = None
          \<and> (\<exists>x. gget (jobs (rn_st r)) k = Some x \<and> j_Status x = JobQueued \<and> j_Attempts x = 0 \<and> P x))
     \<and> (\<forall>k. k \<notin> set ks \<longrightarrow> gget (jobs (rn_st r)) k = gget (jobs (rn_st r0)) k))"

definition fresh_ids :: "('s \<Rightarrow> (string, job) gomap) \<Rightarrow> (string \<Rightarrow> nat \<Rightarrow> string) \<Rightarrow> 's run \<Rightarrow> bool" where
  "fresh_ids jobs newID r = (\<forall>i \<ge> rn_ids r. newID ''job'' i \<noteq> [] \<and> gget (jobs (rn_st r)) (newID ''job'' i) = None)"

lemma adds_refl: "rn_n r' = rn_n r \<Longrightarrow> jobs (rn_st r') = jobs (rn_st r) \<Longrightarrow> adds jobs P r r'"
  unfolding adds_def by (rule exI [of _ "[]"]) simp

lemma adds_trans:
  assumes "adds jobs P r0 r1" "adds jobs P r1 r2"
  shows "adds jobs P r0 r2"
proof -
  from assms(1) obtain ks1 where 1: "distinct ks1" "rn_n r1 = rn_n r0 + int (length ks1)"
    "\<forall>k \<in> set ks1. gget (jobs (rn_st r0)) k = None \<and> (\<exists>x. gget (jobs (rn_st r1)) k = Some x
       \<and> j_Status x = JobQueued \<and> j_Attempts x = 0 \<and> P x)"
    "\<forall>k. k \<notin> set ks1 \<longrightarrow> gget (jobs (rn_st r1)) k = gget (jobs (rn_st r0)) k"
    unfolding adds_def by blast
  from assms(2) obtain ks2 where 2: "distinct ks2" "rn_n r2 = rn_n r1 + int (length ks2)"
    "\<forall>k \<in> set ks2. gget (jobs (rn_st r1)) k = None \<and> (\<exists>x. gget (jobs (rn_st r2)) k = Some x
       \<and> j_Status x = JobQueued \<and> j_Attempts x = 0 \<and> P x)"
    "\<forall>k. k \<notin> set ks2 \<longrightarrow> gget (jobs (rn_st r2)) k = gget (jobs (rn_st r1)) k"
    unfolding adds_def by blast
  have disj: "set ks1 \<inter> set ks2 = {}" using 1(3) 2(3) by fastforce
  have new: "\<forall>k \<in> set (ks1 @ ks2). gget (jobs (rn_st r0)) k = None \<and> (\<exists>x. gget (jobs (rn_st r2)) k = Some x
       \<and> j_Status x = JobQueued \<and> j_Attempts x = 0 \<and> P x)"
  proof
    fix k assume "k \<in> set (ks1 @ ks2)"
    then show "gget (jobs (rn_st r0)) k = None \<and> (\<exists>x. gget (jobs (rn_st r2)) k = Some x
       \<and> j_Status x = JobQueued \<and> j_Attempts x = 0 \<and> P x)"
      using 1(3,4) 2(3,4) disj by (cases "k \<in> set ks1") force+
  qed
  show ?thesis
    unfolding adds_def
    by (rule exI [of _ "ks1 @ ks2"]) (use 1 2 disj new in simp)
qed

locale enqueue_store =
  fixes S :: "'s store_iface" and jobs :: "'s \<Rightarrow> (string, job) gomap" and wf :: "'s \<Rightarrow> bool"
  assumes enqueue_wf: "wf s \<Longrightarrow> op_pre (OpEnqueue now nid j) (jobs s) \<Longrightarrow> wf (snd (i_Enqueue S now nid j s))"
    and enqueue_new: "wf s \<Longrightarrow> op_pre (OpEnqueue now nid j) (jobs s) \<Longrightarrow>
       i_Enqueue S now nid j s = (Inr (x, True), s') \<Longrightarrow>
       \<exists>r. queued_as j r \<and> (\<forall>k. gget (jobs s') k = (if k = nid then Some r else gget (jobs s) k))"
    and enqueue_old: "wf s \<Longrightarrow> op_pre (OpEnqueue now nid j) (jobs s) \<Longrightarrow>
       i_Enqueue S now nid j s = (Inr (x, False), s') \<Longrightarrow> jobs s' = jobs s"
    and enqueue_err: "wf s \<Longrightarrow> op_pre (OpEnqueue now nid j) (jobs s) \<Longrightarrow>
       i_Enqueue S now nid j s = (Inl e, s') \<Longrightarrow> jobs s' = jobs s"
    and lease_wf: "wf s \<Longrightarrow> wf (snd (i_AcquireObjectLease S now nid l s))"
    and lease_jobs: "jobs (snd (i_AcquireObjectLease S now nid l s)) = jobs s"
begin

definition good :: "(string \<Rightarrow> nat \<Rightarrow> string) \<Rightarrow> (job \<Rightarrow> bool) \<Rightarrow> 's run \<Rightarrow> 's run \<Rightarrow> bool" where
  "good newID P r0 r = (wf (rn_st r) \<and> fresh_ids jobs newID r \<and> adds jobs P r0 r)"

lemma good_step: "good newID P r0 r \<Longrightarrow> rn_n r' = rn_n r \<Longrightarrow> rn_st r' = rn_st r \<Longrightarrow> rn_ids r \<le> rn_ids r' \<Longrightarrow>
   good newID P r0 r'"
  by (auto simp: good_def fresh_ids_def adds_def)

lemma good_err [simp]: "good newID P r0 (r\<lparr>rn_err := e\<rparr>) = good newID P r0 r"
  by (simp add: good_def fresh_ids_def adds_def)

lemma good_queue_job:
  assumes g: "good newID P r0 r" and inj: "inj (newID ''job'')" and new: "new_job j"
    and P: "\<And>x. queued_as j x \<Longrightarrow> P x"
  shows "good newID P r0 (queue_job S newID now j r)"
proof -
  let ?nid = "newID ''job'' (rn_ids r)"
  have pre: "op_pre (OpEnqueue now ?nid j) (jobs (rn_st r))"
    using g new by (simp add: good_def fresh_ids_def)
  have w: "wf (rn_st r)" using g by (simp add: good_def)
  obtain out st where e: "i_Enqueue S now ?nid j (rn_st r) = (out, st)" by fastforce
  have wf': "wf st" using enqueue_wf [OF w pre] e by simp
  consider (err) x where "out = Inl x" | (old) x where "out = Inr (x, False)" | (added) x where "out = Inr (x, True)"
    by (cases out rule: sum.exhaust) (blast, metis (full_types) surj_pair)
  then show ?thesis
  proof cases
    case err
    then show ?thesis using g wf' e enqueue_err [OF w pre, of x st]
      by (simp add: queue_job_def good_def fresh_ids_def adds_def)
  next
    case old
    then show ?thesis using g wf' e enqueue_old [OF w pre, of x st]
      by (simp add: queue_job_def good_def fresh_ids_def adds_def)
  next
    case added
    then obtain x' where x': "queued_as j x'"
      "\<And>k. gget (jobs st) k = (if k = ?nid then Some x' else gget (jobs (rn_st r)) k)"
      using enqueue_new [OF w pre] e by blast
    let ?r' = "queue_job S newID now j r"
    have r': "rn_st ?r' = st" "rn_n ?r' = rn_n r + 1" "rn_ids ?r' = rn_ids r + 1"
      using added e by (simp_all add: queue_job_def)
    have "adds jobs P r ?r'"
      unfolding adds_def r'
      by (rule exI [of _ "[?nid]"]) (use x' pre P [OF x'(1)] in \<open>auto simp: queued_as_def\<close>)
    moreover have "fresh_ids jobs newID ?r'"
      using g inj by (auto simp: good_def fresh_ids_def r' x'(2) dest: injD)
    ultimately show ?thesis using g wf' adds_trans by (auto simp: good_def r')
  qed
qed

lemma good_lease:
  "good newID P r0 r \<Longrightarrow> good newID P r0 (r\<lparr>rn_st := snd (i_AcquireObjectLease S now nid l (rn_st r))\<rparr>)"
  by (simp add: good_def lease_wf lease_jobs fresh_ids_def adds_def)

lemma good_loop:
  assumes "good newID P r0 r" "ok r" "\<And>x r. x \<in> set xs \<Longrightarrow> good newID P r0 r \<Longrightarrow> ok r \<Longrightarrow> good newID P r0 (f x r)"
  shows "good newID P r0 (loop f xs r)"
  using assms by (rule loop_invariant)

end

text \<open>Both stores meet the contract.\<close>

lemma mem_Enqueue_cases:
  assumes "mem_Enqueue now nid j m = (out, m')" "new_job j"
  shows "(\<exists>x. out = Inr (x, False) \<and> m' = m) \<or>
    (\<exists>x. out = Inr (x, True) \<and> queued_as j x \<and> j_ID x = nid \<and> m' = m\<lparr>m_Jobs := gput nid x (m_Jobs m)\<rparr>)"
  using assms by (auto simp: mem_Enqueue_def Let_def new_job_def queued_as_def same_slot_def
      lease_cleared_def split: option.splits if_splits)

lemma sql_Enqueue_cases:
  assumes "sql_Enqueue id_env id_env id_env now nid j s = (out, s')" "new_job j" "keyed_jobs (d_jobs s)"
  shows "(\<exists>x. out = Inr (x, False) \<and> s' = s) \<or> (\<exists>e. out = Inl e \<and> s' = s) \<or>
    (\<exists>x r. out = Inr (x, True) \<and> queued_as j r \<and> s' = s\<lparr>d_jobs := gput nid r (d_jobs s)\<rparr>)"
proof -
  let ?r = "(job_defaults now nid j)\<lparr>j_LeaseOwner := [], j_LeaseUntil := zero_time, j_LastError := []\<rparr>"
  have q: "queued_as j ?r"
    using job_defaults_new [OF assms(2), of now nid]
    by (simp add: queued_as_def same_slot_def lease_cleared_def IsZero_def)
      (simp add: job_defaults_def Let_def)
  show ?thesis
  proof (cases "active_in_slot (job_defaults now nid j) s = None")
    case None: True
    show ?thesis
    proof (cases "insert_job ?r s")
      case (Some s1)
      with assms(1) None have "out = Inr (job_defaults now nid j, True)" "s' = s1"
        by (simp_all add: sql_Enqueue_def id_env_def)
      moreover have "s1 = s\<lparr>d_jobs := gput nid ?r (d_jobs s)\<rparr>"
        using Some job_defaults_new(1) [OF assms(2), of now nid] by (simp add: insert_job_def split: if_splits)
      ultimately show ?thesis using q by blast
    qed (use assms(1) None in \<open>auto simp: sql_Enqueue_def id_env_def Let_def\<close>)
  next
    case False
    with assms(1) show ?thesis
      by (cases "sql_GetJob (the (active_in_slot (job_defaults now nid j) s)) s")
        (auto simp: sql_Enqueue_def id_env_def Let_def)
  qed
qed

interpretation me: enqueue_store "mem_iface repo_id" m_Jobs mem_wf for repo_id
proof
  fix s :: mem_store and now nid j
  assume "mem_wf s" "op_pre (OpEnqueue now nid j) (m_Jobs s)"
  then show "mem_wf (snd (i_Enqueue (mem_iface repo_id) now nid j s))"
    using mem_step_wf [of s "OpEnqueue now nid j"] by (simp add: mem_iface_def)
qed (auto simp: mem_iface_def mem_wf_def mem_AcquireObjectLease_def Let_def dest!: mem_Enqueue_cases)

interpretation se: enqueue_store "sql_iface repo_id" d_jobs sql_wf for repo_id
proof
  fix s :: database and now nid j
  assume "sql_wf s" "op_pre (OpEnqueue now nid j) (d_jobs s)"
  then show "sql_wf (snd (i_Enqueue (sql_iface repo_id) now nid j s))"
    using sql_step_wf [of s "OpEnqueue now nid j"] by (simp add: sql_iface_def)
qed (auto simp: sql_iface_def sql_wf_def sql_AcquireObjectLease_def Let_def dest!: sql_Enqueue_cases)

end
