(* ===== verification/Cp_Config.thy ===== *)
theory Cp_Config
  imports Cp_Model
begin

text \<open>
  The configuration the control-plane components read (\<^verbatim>\<open>internal/config/config.go\<close>), one record per
  struct, and the storage probe (\<^verbatim>\<open>internal/storagehealth/health.go\<close>) whose verdict they act on.
  Durations are configured as text and kept as \<open>dur_text\<close>; floating-point settings are rationals.
\<close>

record worker_config =
  wk_Concurrency :: int
  wk_PollInterval :: dur_text
  wk_Lease :: dur_text
  wk_MaxAttempts :: int

record repo_schedule_policy =
  po_Pattern :: string
  po_Interval :: dur_text
  po_Priority :: int
  po_MirrorGitLab :: bool

record scheduler_config =
  sd_Enabled :: bool
  sd_Tick :: dur_text
  sd_DiscoveryInterval :: dur_text
  sd_DefaultInterval :: dur_text
  sd_Policies :: "repo_schedule_policy list"

record replication_config =
  rc_Enabled :: bool
  rc_Factor :: int
  rc_MinHealthy :: int
  rc_ReconcileInterval :: dur_text
  rc_AgentTimeout :: dur_text
  rc_TransferTTL :: dur_text
  rc_SpoolRoot :: string
  rc_LocalKeyPath :: string
  rc_IncludeLocal :: bool
  rc_MaxTransferBytes :: int
  rc_FailureDomainLabel :: string
  rc_MinFailureDomains :: int
  rc_AllowedAgents :: "string list"
  rc_ExcludedAgents :: "string list"

record scrub_config =
  sb_Enabled :: bool
  sb_Interval :: dur_text
  sb_SampleObjects :: int
  sb_Repair :: bool
  sb_SeedSalt :: string

record tiering_config =
  ti_Enabled :: bool
  ti_ColdRoot :: string
  ti_MinAge :: dur_text
  ti_MinBytes :: int
  ti_RcloneRemote :: string

record erasure_config =
  ec_Enabled :: bool
  ec_MinObjectBytes :: int
  ec_DataShards :: int
  ec_ParityShards :: int
  ec_BlockBytes :: int
  ec_Distributed :: bool
  ec_ShardReplication :: int
  ec_FailureDomainLabel :: string
  ec_MinFailureDomains :: int
  ec_ShardPoolLabel :: string
  ec_ReconcileInterval :: dur_text

record disk_telemetry_config =
  dt_Enabled :: bool
  dt_Interval :: dur_text
  dt_SmartctlPath :: string
  dt_NVMePath :: string
  dt_Device :: string
  dt_MaxTemperatureC :: rat
  dt_MaxPercentageUsed :: rat
  dt_MaxMediaErrors :: int
  dt_RiskThreshold :: int

record storage_data_config =
  sc_Enabled :: bool
  sc_MinFreeBytes :: int
  sc_MinFreePercent :: rat
  sc_MaxProbe :: dur_text
  sc_EvacuateDegraded :: bool
  sc_InventoryEnabled :: bool
  sc_InventoryInterval :: dur_text
  sc_ChunkBytes :: int
  sc_ChunkRetries :: int
  sc_BandwidthLimitMbps :: int
  sc_ObjectReplicationFactor :: int
  sc_ObjectPoolLabel :: string
  sc_DiskTelemetry :: disk_telemetry_config
  sc_Scrub :: scrub_config
  sc_Tiering :: tiering_config
  sc_Erasure :: erasure_config

text \<open>The parts of \<^verbatim>\<open>Config\<close> and \<^verbatim>\<open>ControlPlaneConfig\<close> that the modelled components read.\<close>

record config =
  c_Workers :: worker_config
  c_Scheduler :: scheduler_config
  c_MirroringEnabled :: bool
  c_AgentLabels :: "(string, string) gomap"
  c_Replication :: replication_config
  c_Storage :: storage_data_config
  c_IncludeForks :: bool
  c_IncludeArchived :: bool
  c_BackupRoot :: string

definition agent_timeout :: "replication_config \<Rightarrow> duration" where
  "agent_timeout cfg = dur_or (2 * minute) (rc_AgentTimeout cfg)"

definition transfer_ttl :: "replication_config \<Rightarrow> duration" where
  "transfer_ttl cfg = dur_or (2 * hour) (rc_TransferTTL cfg)"

definition replicationTransferExpiry :: "replication_config \<Rightarrow> time \<Rightarrow> time" where
  "replicationTransferExpiry cfg now = now + transfer_ttl cfg"

lemma agent_timeout_pos: "0 < agent_timeout cfg"
  by (simp add: agent_timeout_def dur_or_pos dur_defs)

lemma transfer_ttl_pos: "0 < transfer_ttl cfg"
  by (simp add: transfer_ttl_def dur_or_pos dur_defs)

section \<open>Storage probe\<close>

definition HealthHealthy :: string where "HealthHealthy = ''healthy''"
definition HealthDegraded :: string where "HealthDegraded = ''degraded''"
definition HealthUnhealthy :: string where "HealthUnhealthy = ''unhealthy''"

lemma health_distinct [status_simps]:
  "HealthHealthy \<noteq> HealthDegraded" "HealthHealthy \<noteq> HealthUnhealthy"
  "HealthDegraded \<noteq> HealthUnhealthy" "HealthDegraded \<noteq> HealthHealthy"
  "HealthUnhealthy \<noteq> HealthHealthy" "HealthUnhealthy \<noteq> HealthDegraded"
  by (simp_all add: HealthHealthy_def HealthDegraded_def HealthUnhealthy_def)

record storage_report =
  hr_Root :: string
  hr_Health :: string
  hr_TotalBytes :: nat
  hr_FreeBytes :: nat
  hr_FreePercent :: rat
  hr_ProbeMS :: int
  hr_Error :: string
  hr_CheckedAt :: time

record thresholds =
  th_MinFreeBytes :: nat
  th_MinFreePercent :: rat
  th_MaxProbe :: duration

text \<open>
  What the operating system answers in one probe: the outcome of creating the directory, of
  \<^verbatim>\<open>diskSpace\<close>, of the write, sync and read-back of the probe file, and the elapsed milliseconds.
\<close>

record probe_env =
  pe_Mkdir :: "unit result"
  pe_DiskSpace :: "(nat \<times> nat) result"
  pe_ReadBack :: "unit result"
  pe_ElapsedMS :: int

fun err_text :: "go_error \<Rightarrow> string" where
  "err_text (GoErr s) = s"
| "err_text (GoPanic s) = s"

definition Probe :: "string \<Rightarrow> time \<Rightarrow> thresholds \<Rightarrow> probe_env \<Rightarrow> storage_report" where
  "Probe dir start th env =
     (let r = \<lparr>hr_Root = dir, hr_Health = HealthHealthy, hr_TotalBytes = 0, hr_FreeBytes = 0, hr_FreePercent = 0,
               hr_ProbeMS = 0, hr_Error = [], hr_CheckedAt = start\<rparr>;
          bad = (\<lambda>r e. r\<lparr>hr_Health := HealthUnhealthy, hr_Error := err_text e\<rparr>) in
      (case pe_Mkdir env of Inl e \<Rightarrow> bad r e | Inr _ \<Rightarrow>
      (case pe_DiskSpace env of Inl e \<Rightarrow> bad r e | Inr (tot, avail) \<Rightarrow>
        let r1 = r\<lparr>hr_TotalBytes := tot, hr_FreeBytes := avail,
                   hr_FreePercent := (if tot > 0 then of_nat avail * 100 / of_nat tot else 0),
                   hr_ProbeMS := pe_ElapsedMS env\<rparr>
        in (case pe_ReadBack env of Inl e \<Rightarrow> bad r1 e | Inr _ \<Rightarrow>
           if th_MinFreeBytes th > 0 \<and> avail < th_MinFreeBytes th
              \<or> th_MinFreePercent th > 0 \<and> hr_FreePercent r1 < th_MinFreePercent th
              \<or> th_MaxProbe th > 0 \<and> pe_ElapsedMS env * 1000000 > th_MaxProbe th
           then r1\<lparr>hr_Health := HealthDegraded\<rparr> else r1))))"

definition probe_thresholds :: "storage_data_config \<Rightarrow> thresholds" where
  "probe_thresholds cfg = \<lparr>th_MinFreeBytes = nat (max (sc_MinFreeBytes cfg) 0),
     th_MinFreePercent = sc_MinFreePercent cfg, th_MaxProbe = ParseDuration (sc_MaxProbe cfg)\<rparr>"

text \<open>A probe reports healthy exactly when every check passed.\<close>

lemma Probe_healthy:
  "hr_Health (Probe dir start th env) = HealthHealthy \<longleftrightarrow>
     (\<exists>tot avail. pe_Mkdir env = Inr () \<and> pe_DiskSpace env = Inr (tot, avail) \<and> pe_ReadBack env = Inr ()
        \<and> (th_MinFreeBytes th > 0 \<longrightarrow> th_MinFreeBytes th \<le> avail)
        \<and> (th_MinFreePercent th > 0 \<longrightarrow>
             th_MinFreePercent th \<le> (if tot > 0 then of_nat avail * 100 / of_nat tot else 0))
        \<and> (th_MaxProbe th > 0 \<longrightarrow> pe_ElapsedMS env * 1000000 \<le> th_MaxProbe th))"
proof (cases "pe_Mkdir env"; cases "pe_DiskSpace env"; cases "pe_ReadBack env")
  fix u d v
  assume *: "pe_Mkdir env = Inr u" "pe_DiskSpace env = Inr d" "pe_ReadBack env = Inr v"
  obtain tot avail where d: "d = (tot, avail)" by fastforce
  show ?thesis unfolding Probe_def Let_def * d by (auto simp: status_simps not_less)
qed (simp_all add: Probe_def Let_def status_simps split: prod.splits)

end
