(* ===== verification/Paths.thy ===== *)
theory Paths
  imports Prelude
begin

text \<open>
  The lexical part of \<^verbatim>\<open>path/filepath\<close> on slash-separated paths: \<^verbatim>\<open>Clean\<close> and \<^verbatim>\<open>Join\<close>, by path
  components, with the fact that joining an ordinary file name stays inside the directory.
\<close>

fun split_on :: "char \<Rightarrow> string \<Rightarrow> string list" where
  "split_on c [] = [[]]"
| "split_on c (x # xs) =
     (if x = c then [] # split_on c xs
      else case split_on c xs of [] \<Rightarrow> [[x]] | y # ys \<Rightarrow> (x # y) # ys)"

fun join_with :: "char \<Rightarrow> string list \<Rightarrow> string" where
  "join_with c [] = []"
| "join_with c [x] = x"
| "join_with c (x # y # ys) = x @ c # join_with c (y # ys)"

text \<open>The components of a cleaned path; the accumulator is the reversed output.\<close>

fun clean_comps :: "bool \<Rightarrow> string list \<Rightarrow> string list \<Rightarrow> string list" where
  "clean_comps rooted acc [] = rev acc"
| "clean_comps rooted acc (c # cs) =
     (if c = [] \<or> c = ''.'' then clean_comps rooted acc cs
      else if c = ''..'' then
        (case acc of
           [] \<Rightarrow> if rooted then clean_comps rooted [] cs else clean_comps rooted [''..''] cs
         | a # as \<Rightarrow> if a = ''..'' then clean_comps rooted (''..'' # acc) cs else clean_comps rooted as cs)
      else clean_comps rooted (c # acc) cs)"

definition is_abs :: "string \<Rightarrow> bool" where
  "is_abs s = HasPrefix s ''/''"

definition path_comps :: "string \<Rightarrow> string list" where
  "path_comps s = clean_comps (is_abs s) [] (split_on (CHR ''/'') s)"

definition path_render :: "bool \<Rightarrow> string list \<Rightarrow> string" where
  "path_render rooted cs = (let p = join_with (CHR ''/'') cs
     in if rooted then CHR ''/'' # p else if p = [] then ''.'' else p)"

definition path_Clean :: "string \<Rightarrow> string" where
  "path_Clean s = path_render (is_abs s) (path_comps s)"

definition path_Join :: "string list \<Rightarrow> string" where
  "path_Join xs = (case filter (\<lambda>x. x \<noteq> []) xs of [] \<Rightarrow> []
     | ys \<Rightarrow> path_Clean (join_with (CHR ''/'') ys))"

text \<open>\<^verbatim>\<open>filepath.Base\<close>\<close>

definition path_Base :: "string \<Rightarrow> string" where
  "path_Base s = (if s = [] then ''.''
     else let t = rev (dropWhile (\<lambda>c. c = CHR ''/'') (rev s))
          in if t = [] then ''/'' else last (split_on (CHR ''/'') t))"

text \<open>\<^verbatim>\<open>filepath.Dir\<close>\<close>

definition path_Dir :: "string \<Rightarrow> string" where
  "path_Dir p = path_Clean (rev (dropWhile (\<lambda>c. c \<noteq> CHR ''/'') (rev p)))"

text \<open>\<^verbatim>\<open>filepath.Ext\<close>\<close>

definition path_Ext :: "string \<Rightarrow> string" where
  "path_Ext s =
     (let stop = (\<lambda>c. c \<noteq> CHR ''.'' \<and> c \<noteq> CHR ''/''); rest = dropWhile stop (rev s)
      in if rest = [] \<or> hd rest = CHR ''/'' then [] else CHR ''.'' # rev (takeWhile stop (rev s)))"

definition path_Abs :: "string \<Rightarrow> string \<Rightarrow> string" where
  "path_Abs cwd s = (if is_abs s then path_Clean s else path_Join [cwd, s])"

definition plain_name :: "string \<Rightarrow> bool" where
  "plain_name s = (s \<noteq> [] \<and> s \<noteq> ''.'' \<and> s \<noteq> ''..'' \<and> CHR ''/'' \<notin> set s)"

lemma split_on_not_Nil [simp]: "split_on c s \<noteq> []"
  by (induction s) (auto split: list.splits)

lemma split_on_append: "split_on c (s @ c # t) = split_on c s @ split_on c t"
  by (induction s) (auto split: list.splits)

lemma split_on_plain: "c \<notin> set s \<Longrightarrow> split_on c s = [s]"
  by (induction s) auto

lemma clean_comps_snoc:
  "c \<noteq> [] \<Longrightarrow> c \<noteq> ''.'' \<Longrightarrow> c \<noteq> ''..'' \<Longrightarrow>
   clean_comps rooted acc (cs @ [c]) = clean_comps rooted acc cs @ [c]"
  by (induction rooted acc cs rule: clean_comps.induct) (auto split: list.splits)

lemma is_abs_append: "s \<noteq> [] \<Longrightarrow> is_abs (s @ t) = is_abs s"
  by (cases s) (auto simp: is_abs_def)

lemma clean_comps_nonempty: "c \<in> set (clean_comps rooted acc cs) \<Longrightarrow> \<forall>a \<in> set acc. a \<noteq> [] \<Longrightarrow> c \<noteq> []"
  by (induction rooted acc cs rule: clean_comps.induct) (auto split: if_splits list.splits)

text \<open>Joining a plain name to a directory gives exactly that entry of the directory.\<close>

lemma join_comps:
  assumes "dir \<noteq> []" "plain_name name"
  shows "path_comps (dir @ CHR ''/'' # name) = path_comps dir @ [name]"
  using assms by (simp add: path_comps_def is_abs_append split_on_append split_on_plain plain_name_def
      clean_comps_snoc)

lemma path_Join_plain:
  assumes "dir \<noteq> []" "plain_name name"
  shows "path_Join [dir, name] = path_render (is_abs dir) (path_comps dir @ [name])"
  using assms join_comps [OF assms]
  by (simp add: path_Join_def path_Clean_def is_abs_append plain_name_def)

text \<open>The same for several plain names, and what follows for different ones.\<close>

lemma join_with_Cons: "ys \<noteq> [] \<Longrightarrow> join_with c (x # ys) = x @ c # join_with c ys"
  by (cases ys) simp_all

lemma split_join_plain:
  "names \<noteq> [] \<Longrightarrow> \<forall>n \<in> set names. plain_name n \<Longrightarrow> split_on (CHR ''/'') (join_with (CHR ''/'') names) = names"
proof (induction names)
  case (Cons n names)
  then show ?case
    by (cases "names = []") (auto simp: join_with_Cons split_on_append split_on_plain plain_name_def)
qed simp

lemma clean_comps_plain:
  "\<forall>n \<in> set names. plain_name n \<Longrightarrow> clean_comps rooted acc (cs @ names) = clean_comps rooted acc cs @ names"
proof (induction names rule: rev_induct)
  case (snoc n names)
  then have "clean_comps rooted acc ((cs @ names) @ [n]) = clean_comps rooted acc (cs @ names) @ [n]"
    by (intro clean_comps_snoc) (auto simp: plain_name_def)
  with snoc show ?case by simp
qed simp

lemma path_Join_names:
  assumes "dir \<noteq> []" "names \<noteq> []" "\<forall>n \<in> set names. plain_name n"
  shows "path_Join (dir # names) = path_render (is_abs dir) (path_comps dir @ names)"
proof -
  have keep: "filter (\<lambda>x. x \<noteq> []) names = names" using assms(3) by (auto simp: plain_name_def filter_id_conv)
  have "path_comps (dir @ CHR ''/'' # join_with (CHR ''/'') names) = path_comps dir @ names"
    using assms by (simp add: path_comps_def is_abs_append split_on_append split_join_plain clean_comps_plain)
  then show ?thesis using assms keep by (simp add: path_Join_def path_Clean_def join_with_Cons is_abs_append)
qed

lemma path_render_snoc: "cs \<noteq> [] \<Longrightarrow> path_render r (cs @ [n]) = path_render r cs @ CHR ''/'' # n" if "\<forall>c \<in> set cs. c \<noteq> []"
proof -
  assume "cs \<noteq> []"
  then have "join_with (CHR ''/'') (cs @ [n]) = join_with (CHR ''/'') cs @ CHR ''/'' # n" "join_with (CHR ''/'') cs \<noteq> []"
    using that by (induction cs rule: join_with.induct; auto)+
  then show ?thesis by (simp add: path_render_def Let_def)
qed

text \<open>Cleaning is idempotent: the output of \<open>clean_comps\<close> is plain names after leading parent steps.\<close>

definition clean_acc :: "bool \<Rightarrow> string list \<Rightarrow> bool" where
  "clean_acc rooted acc = (\<exists>k. dropWhile plain_name acc = replicate k ''..'' \<and> (rooted \<longrightarrow> k = 0))"

lemma not_plain_up [simp]: "\<not> plain_name ''..''"
  by (simp add: plain_name_def)

lemma clean_acc_up:
  assumes "clean_acc rooted (a # as)"
  shows "a = ''..'' \<Longrightarrow> clean_acc rooted (''..'' # a # as)" "a \<noteq> ''..'' \<Longrightarrow> clean_acc rooted as"
proof -
  from assms obtain k where k: "dropWhile plain_name (a # as) = replicate k ''..''" "rooted \<longrightarrow> k = 0" by (auto simp: clean_acc_def)
  show "clean_acc rooted (''..'' # a # as)" if "a = ''..''"
    using k that unfolding clean_acc_def by (intro exI [of _ "Suc k"]) auto
  show "clean_acc rooted as" if "a \<noteq> ''..''"
  proof -
    have "plain_name a" using k(1) that by (cases k) (auto split: if_splits)
    then show ?thesis using k unfolding clean_acc_def by auto
  qed
qed

lemma clean_comps_clean_acc:
  "clean_acc rooted acc \<Longrightarrow> \<forall>c \<in> set cs. CHR ''/'' \<notin> set c \<Longrightarrow> clean_acc rooted (rev (clean_comps rooted acc cs))"
proof (induction rooted acc cs rule: clean_comps.induct)
  case (2 rooted acc c cs)
  show ?case
  proof (cases "c = [] \<or> c = ''.''")
    case True
    then show ?thesis using 2 by auto
  next
    case False
    show ?thesis
    proof (cases "c = ''..''")
      case True
      have up: "clean_acc False [''..'']" unfolding clean_acc_def by (intro exI [of _ 1]) simp
      show ?thesis
      proof (cases acc)
        case Nil
        then show ?thesis using 2 False True up by (cases rooted) simp_all
      next
        case (Cons a as)
        then show ?thesis using 2 False True clean_acc_up [of rooted a as] by (cases "a = ''..''") simp_all
      qed
    next
      case up: False
      with False 2(8) have "plain_name c" by (simp add: plain_name_def)
      then have "clean_acc rooted (c # acc)" using 2(7) by (simp add: clean_acc_def)
      then show ?thesis using 2 False up by simp
    qed
  qed
qed simp

lemma clean_comps_ups: "clean_comps False (replicate j ''..'') (replicate k ''..'') = replicate (j + k) ''..''"
proof (induction k arbitrary: j)
  case (Suc k)
  have "(case replicate j ''..'' of [] \<Rightarrow> clean_comps False [''..''] (replicate k ''..'')
      | a # as \<Rightarrow> if a = ''..'' then clean_comps False (''..'' # replicate j ''..'') (replicate k ''..'') else clean_comps False as (replicate k ''..''))
      = clean_comps False (replicate (Suc j) ''..'') (replicate k ''..'')"
    by (cases j) simp_all
  then show ?case using Suc [of "Suc j"] by simp
qed simp

lemma clean_comps_idem: "clean_acc rooted acc \<Longrightarrow> clean_comps rooted [] (rev acc) = rev acc"
proof (induction acc)
  case (Cons c acc)
  show ?case
  proof (cases "plain_name c")
    case True
    then show ?thesis using Cons clean_comps_plain [of "[c]" rooted "[]" "rev acc"] by (simp add: clean_acc_def)
  next
    case False
    with Cons.prems obtain k where "c # acc = replicate k ''..''" "rooted \<longrightarrow> k = 0" by (auto simp: clean_acc_def)
    moreover from this have "\<not> rooted" by (cases k) auto
    ultimately show ?thesis using clean_comps_ups [of 0 k] by simp
  qed
qed simp

lemma split_join:
  "names \<noteq> [] \<Longrightarrow> \<forall>n \<in> set names. CHR ''/'' \<notin> set n \<Longrightarrow> split_on (CHR ''/'') (join_with (CHR ''/'') names) = names"
proof (induction names)
  case (Cons n names)
  then show ?case by (cases "names = []") (auto simp: join_with_Cons split_on_append split_on_plain)
qed simp

lemma join_head:
  assumes "cs \<noteq> []" "\<forall>n \<in> set cs. n \<noteq> [] \<and> CHR ''/'' \<notin> set n"
  shows "join_with (CHR ''/'') cs \<noteq> [] \<and> hd (join_with (CHR ''/'') cs) \<noteq> CHR ''/''"
proof (cases cs)
  case (Cons x xs)
  then have "x \<noteq> []" "CHR ''/'' \<notin> set x" using assms(2) by auto
  then have "x \<noteq> []" "hd x \<noteq> CHR ''/''" using hd_in_set by fastforce+
  with Cons show ?thesis by (cases xs) simp_all
qed (use assms(1) in simp)

lemma split_on_sep: "x \<in> set (split_on c s) \<Longrightarrow> c \<notin> set x"
  by (induction s arbitrary: x) (auto split: list.splits if_splits)

lemma clean_comps_subset: "set (clean_comps rooted acc cs) \<subseteq> set acc \<union> set cs"
  by (induction rooted acc cs rule: clean_comps.induct) (auto split: if_splits list.splits)

lemma path_comps_render:
  assumes "path_comps s \<noteq> []"
  shows "path_comps (path_render (is_abs s) (path_comps s)) = path_comps s" "is_abs (path_render (is_abs s) (path_comps s)) = is_abs s"
proof -
  let ?cs = "path_comps s"
  have sep: "\<forall>n \<in> set ?cs. CHR ''/'' \<notin> set n"
    using clean_comps_subset [of "is_abs s" "[]" "split_on (CHR ''/'') s"] split_on_sep unfolding path_comps_def by fastforce
  have ne: "\<forall>n \<in> set ?cs. n \<noteq> []" using clean_comps_nonempty unfolding path_comps_def by fastforce
  have "clean_acc (is_abs s) []" by (simp add: clean_acc_def)
  then have "clean_acc (is_abs s) (rev ?cs)"
    using clean_comps_clean_acc split_on_sep unfolding path_comps_def by blast
  then have idem: "clean_comps (is_abs s) [] ?cs = ?cs" using clean_comps_idem by fastforce
  have join: "join_with (CHR ''/'') ?cs \<noteq> []" "hd (join_with (CHR ''/'') ?cs) \<noteq> CHR ''/''"
    using assms sep ne join_head by auto
  show abs: "is_abs (path_render (is_abs s) ?cs) = is_abs s"
    using join by (cases "join_with (CHR ''/'') ?cs") (auto simp: path_render_def is_abs_def Let_def)
  show "path_comps (path_render (is_abs s) ?cs) = ?cs"
    using split_join [OF assms sep] idem join(1) abs by (cases "is_abs s") (auto simp: path_comps_def path_render_def Let_def)
qed

lemma path_Clean_idem: "path_Clean (path_Clean s) = path_Clean s"
proof (cases "path_comps s = []")
  case True
  then have "path_Clean s = ''/'' \<or> path_Clean s = ''.''" by (simp add: path_Clean_def path_render_def)
  moreover have "path_Clean ''/'' = ''/''" "path_Clean ''.'' = ''.''"
    by (simp_all add: path_Clean_def path_render_def path_comps_def is_abs_def)
  ultimately show ?thesis by auto
next
  case False
  from path_comps_render [OF this] show ?thesis by (simp add: path_Clean_def)
qed

lemma path_Clean_Join: "ys \<noteq> [] \<Longrightarrow> hd ys \<noteq> [] \<Longrightarrow> path_Clean (path_Join ys) = path_Join ys"
  by (cases ys) (simp_all add: path_Join_def path_Clean_idem)

lemma path_comps_nonempty: "c \<in> set (path_comps s) \<Longrightarrow> c \<noteq> []"
  using clean_comps_nonempty unfolding path_comps_def by fastforce

lemma path_Join_snoc:
  assumes "dir \<noteq> []" "names \<noteq> []" "\<forall>n \<in> set names. plain_name n" "plain_name n"
  shows "path_Join (dir # names @ [n]) = path_Join (dir # names) @ CHR ''/'' # n"
proof -
  have "\<forall>c \<in> set (path_comps dir @ names). c \<noteq> []" using assms(3) path_comps_nonempty by (auto simp: plain_name_def)
  then show ?thesis
    using path_Join_names [OF assms(1), of "names @ [n]"] path_Join_names [OF assms(1-3)] assms path_render_snoc [of "path_comps dir @ names"] by simp
qed

lemma path_Join_Join:
  assumes "dir \<noteq> []" "names \<noteq> []" "\<forall>n \<in> set names. plain_name n" "plain_name n"
  shows "path_Join [path_Join (dir # names), n] = path_Join (dir # names) @ CHR ''/'' # n"
proof -
  let ?s = "dir @ CHR ''/'' # join_with (CHR ''/'') names"
  have comps: "path_comps ?s = path_comps dir @ names" "is_abs ?s = is_abs dir"
    using assms by (simp_all add: path_comps_def is_abs_append split_on_append split_join_plain clean_comps_plain)
  then have d: "path_Join (dir # names) = path_render (is_abs ?s) (path_comps ?s)" using path_Join_names [OF assms(1-3)] by simp
  have ne: "path_comps ?s \<noteq> []" "\<forall>c \<in> set (path_comps ?s). c \<noteq> []" using comps(1) assms(2) path_comps_nonempty [of _ ?s] by auto
  note render = path_comps_render [OF ne(1), folded d]
  have "path_Join (dir # names) \<noteq> []" using d ne(1) by (auto simp: path_render_def Let_def)
  then have "path_Join [path_Join (dir # names), n] = path_render (is_abs ?s) (path_comps ?s @ [n])"
    using path_Join_plain [OF _ assms(4)] render by simp
  then show ?thesis using path_render_snoc [OF ne(2,1)] d by simp
qed

end
