(* ===== verification/Agents.thy ===== *)
theory Agents
  imports Cp_Config Paths
begin

text \<open>
  The predicates on agents that every reconciler shares (\<^verbatim>\<open>replication.go\<close>, \<^verbatim>\<open>erasure_distributed.go\<close>,
  \<^verbatim>\<open>cas_reconcile.go\<close>, \<^verbatim>\<open>worker.go\<close>): may it be used, is its data readable, does it accept new
  data, does its copy count, its failure domain and pool, its bandwidth.
\<close>

definition agentReadable :: "agent \<Rightarrow> storage_data_config \<Rightarrow> bool" where
  "agentReadable a cfg = (if \<not> sc_Enabled cfg then True else a_StorageHealth a \<noteq> HealthUnhealthy)"

definition agentAcceptsPlacement :: "agent \<Rightarrow> storage_data_config \<Rightarrow> bool" where
  "agentAcceptsPlacement a cfg =
     (if \<not> sc_Enabled cfg then True
      else if a_StorageHealth a = HealthUnhealthy \<or> a_StorageHealth a = HealthDegraded
              \<or> TrimSpace (a_StorageHealth a) = [] then False
      else if sc_MinFreeBytes cfg > 0 \<and> a_StorageFreeBytes a > 0
              \<and> a_StorageFreeBytes a < sc_MinFreeBytes cfg then False
      else if sc_MinFreePercent cfg > 0 \<and> a_StorageTotalBytes a > 0
              \<and> a_StorageFreePercent a < sc_MinFreePercent cfg then False
      else True)"

definition agentCountsDurable :: "agent \<Rightarrow> storage_data_config \<Rightarrow> bool" where
  "agentCountsDurable a cfg =
     (if \<not> sc_Enabled cfg then True
      else if a_StorageHealth a = HealthUnhealthy \<or> TrimSpace (a_StorageHealth a) = [] then False
      else if sc_EvacuateDegraded cfg \<and> a_StorageHealth a = HealthDegraded then False
      else True)"

text \<open>\<^verbatim>\<open>a.StorageFreeBytes-objectBytes\<close> is 64-bit arithmetic.\<close>

definition agentHasCapacityFor :: "agent \<Rightarrow> storage_data_config \<Rightarrow> int \<Rightarrow> bool" where
  "agentHasCapacityFor a cfg objectBytes =
     (if \<not> agentAcceptsPlacement a cfg then False
      else if objectBytes \<le> 0 \<or> a_StorageFreeBytes a \<le> 0 then True
      else wrap64 (a_StorageFreeBytes a - objectBytes) \<ge> max (sc_MinFreeBytes cfg) 0)"

text \<open>\<^verbatim>\<open>fmt.Sscanf(s, "%d", &n)\<close>: sign and digits; \<open>n\<close> stays zero when they are missing or too large.\<close>

definition is_digit :: "char \<Rightarrow> bool" where
  "is_digit c = (48 \<le> (of_char c :: nat) \<and> (of_char c :: nat) \<le> 57)"

definition digits_val :: "string \<Rightarrow> int" where
  "digits_val s = foldl (\<lambda>n c. 10 * n + (of_char c - 48)) 0 s"

definition scan_int :: "string \<Rightarrow> int" where
  "scan_int s =
     (let neg = HasPrefix s ''-''; rest = (if neg \<or> HasPrefix s ''+'' then tl s else s);
          ds = takeWhile is_digit rest; v = (if neg then - digits_val ds else digits_val ds)
      in if ds = [] \<or> v < min_int64 \<or> v > max_int64 then 0 else v)"

text \<open>\<^verbatim>\<open>int(x)\<close> truncates towards zero.\<close>

definition trunc_rat :: "rat \<Rightarrow> int" where
  "trunc_rat q = (if 0 \<le> q then \<lfloor>q\<rfloor> else \<lceil>q\<rceil>)"

definition agentBandwidthMbps :: "agent \<Rightarrow> int" where
  "agentBandwidthMbps a =
     (case UnmarshalAnyMap (a_LabelsJSON a) of
        None \<Rightarrow> 0
      | Some labels \<Rightarrow>
          (case gget labels ''bandwidth_mbps'' of
             None \<Rightarrow> 0
           | Some (JNum q) \<Rightarrow> trunc_rat q
           | Some (JStr s) \<Rightarrow> scan_int (TrimSpace s)
           | Some _ \<Rightarrow> 0))"

definition agentFailureDomain :: "agent \<Rightarrow> string \<Rightarrow> string" where
  "agentFailureDomain a key0 =
     (let key = TrimSpace key0 in
      if key = [] then []
      else if a_ID a = LocalWorkerAffinity then ''__local__''
      else (case UnmarshalStringMap (a_LabelsJSON a) of
              None \<Rightarrow> []
            | Some labels \<Rightarrow> (case gget labels key of None \<Rightarrow> [] | Some v \<Rightarrow> TrimSpace v)))"

definition agentAllowed :: "string \<Rightarrow> string list \<Rightarrow> string list \<Rightarrow> bool" where
  "agentAllowed ident allowed excluded =
     (if \<exists>x \<in> set excluded. EqualFold (TrimSpace x) ident then False
      else if allowed = [] then True
      else \<exists>x \<in> set allowed. EqualFold (TrimSpace x) ident)"

text \<open>\<^verbatim>\<open>strings.TrimSpace(fmt.Sprint(v)) != ""\<close>: only a blank string prints as blank.\<close>

definition agentInShardPool :: "agent \<Rightarrow> string \<Rightarrow> bool" where
  "agentInShardPool a label0 =
     (let label = TrimSpace label0 in
      if label = [] then True
      else (case UnmarshalAnyMap (a_LabelsJSON a) of
              None \<Rightarrow> False
            | Some m \<Rightarrow> (case gget m label of
                None \<Rightarrow> False | Some (JStr s) \<Rightarrow> TrimSpace s \<noteq> [] | Some _ \<Rightarrow> True)))"

definition agentPool :: "agent \<Rightarrow> string \<Rightarrow> string" where
  "agentPool a label0 =
     (let label = TrimSpace label0 in
      if label = [] then ''default''
      else (case UnmarshalStringMap (a_LabelsJSON a) of
              None \<Rightarrow> ''default''
            | Some m \<Rightarrow> (case gget m label of
                None \<Rightarrow> ''default'' | Some v \<Rightarrow> if TrimSpace v \<noteq> [] then TrimSpace v else ''default'')))"

text \<open>\<^verbatim>\<open>now.Sub(a.LastSeenAt) > timeout\<close>\<close>

definition agent_stale :: "time \<Rightarrow> duration \<Rightarrow> agent \<Rightarrow> bool" where
  "agent_stale now timeout a = (time_Sub now (a_LastSeenAt a) > timeout)"

definition AffinityFromMetaPath :: "string \<Rightarrow> string" where
  "AffinityFromMetaPath metaPath =
     (if \<not> HasPrefix metaPath ''agent://'' then LocalWorkerAffinity
      else TrimSpace (takeWhile (\<lambda>c. c \<noteq> CHR ''/'') (TrimPrefix metaPath ''agent://'')))"

definition spool_char :: "char \<Rightarrow> char" where
  "spool_char ch = (let n = (of_char ch :: nat) in
     if 97 \<le> n \<and> n \<le> 122 \<or> 65 \<le> n \<and> n \<le> 90 \<or> 48 \<le> n \<and> n \<le> 57 \<or> ch = CHR ''-'' \<or> ch = CHR ''_''
     then ch else CHR ''_'')"

definition replicationSpoolPath :: "string \<Rightarrow> string \<Rightarrow> string" where
  "replicationSpoolPath dir transferID = path_Join [dir, map spool_char transferID @ ''.blob'']"

section \<open>Consequences\<close>

lemma agentAcceptsPlacement_durable: "agentAcceptsPlacement a cfg \<Longrightarrow> agentCountsDurable a cfg"
  by (auto simp: agentAcceptsPlacement_def agentCountsDurable_def split: if_splits)

lemma agentCountsDurable_readable: "agentCountsDurable a cfg \<Longrightarrow> agentReadable a cfg"
  by (auto simp: agentCountsDurable_def agentReadable_def split: if_splits)

lemma agentHasCapacityFor_accepts: "agentHasCapacityFor a cfg n \<Longrightarrow> agentAcceptsPlacement a cfg"
  by (simp add: agentHasCapacityFor_def split: if_splits)

lemma agentHasCapacityFor_reserve:
  assumes "agentHasCapacityFor a cfg n" "0 < n" "0 < a_StorageFreeBytes a"
    and "a_StorageFreeBytes a \<le> max_int64" "n \<le> max_int64"
  shows "max (sc_MinFreeBytes cfg) 0 + n \<le> a_StorageFreeBytes a"
  using assms wrap64_id [of "a_StorageFreeBytes a - n"]
  by (auto simp: agentHasCapacityFor_def min_int64_def max_int64_def split: if_splits)

lemma spool_char_not_slash [simp]: "spool_char c \<noteq> CHR ''/''"
  by (auto simp: spool_char_def Let_def)

lemma spool_name_plain: "plain_name (map spool_char t @ ''.blob'')"
proof -
  let ?n = "map spool_char t @ ''.blob''"
  have "length ?n \<ge> 5" by simp
  then have "?n \<noteq> []" "?n \<noteq> ''.''" "?n \<noteq> ''..''" by (auto simp: append_eq_Cons_conv)
  moreover have "CHR ''/'' \<notin> set ?n"
    by (auto dest: arg_cong [of _ "CHR ''/''" spool_char] simp: image_iff) (metis spool_char_not_slash)
  ultimately show ?thesis by (simp add: plain_name_def)
qed

end
