(* ===== verification/Payloads.thy ===== *)
theory Payloads
  imports Agents
begin

text \<open>
  The payloads of the transfer jobs (\<^verbatim>\<open>replication.go\<close>, \<^verbatim>\<open>cas_reconcile.go\<close>, \<^verbatim>\<open>repair_distributed.go\<close>) with
  their JSON encoding and decoding, and the check of a transfer's identity against the leased
  source job (\<^verbatim>\<open>transfer_meta.go\<close>).
\<close>

record replicate_generation_payload =
  rg_TransferID :: string
  rg_RepositoryID :: string
  rg_Repository :: string
  rg_GenerationID :: string
  rg_SourceAgent :: string
  rg_TargetAgent :: string
  rg_TargetReplicationPubKey :: string

record erasure_shard_transfer =
  et_ObjectSHA256 :: string
  et_ShardIndex :: int
  et_ShardSHA256 :: string
  et_ShardBytes :: int
  et_LeaseID :: string

record replicate_cas_payload =
  rca_TransferID :: string
  rca_SourceAgent :: string
  rca_TargetAgent :: string
  rca_TargetReplicationPubKey :: string
  rca_PoolAgents :: "string list"
  rca_Factor :: int
  rca_Prefixes :: "string list"
  rca_Digests :: "string list"
  rca_Erasure :: "erasure_shard_transfer option"
  rca_SourceInventoryRoot :: string
  rca_TargetInventoryRoot :: string

record repair_shard =
  rs_Index :: int
  rs_Digest :: string
  rs_Bytes :: int

record repair_object_payload =
  ro_Digest :: string
  ro_OriginalBytes :: int
  ro_DataShards :: int
  ro_ParityShards :: int
  ro_BlockBytes :: int
  ro_Shards :: "repair_shard list"

section \<open>Encoding\<close>

definition jint :: "int \<Rightarrow> json" where "jint n = JNum (of_int n)"
definition jstrs :: "string list \<Rightarrow> json" where "jstrs xs = JArr (map JStr xs)"

definition omitempty_strs :: "string \<Rightarrow> string list \<Rightarrow> (string \<times> json) list" where
  "omitempty_strs name xs = (if xs = [] then [] else [(name, jstrs xs)])"

definition marshal_replicate_generation :: "replicate_generation_payload \<Rightarrow> json_text" where
  "marshal_replicate_generation p = Some (JObj
     [(''transfer_id'', JStr (rg_TransferID p)), (''repository_id'', JStr (rg_RepositoryID p)),
      (''repository'', JStr (rg_Repository p)), (''generation_id'', JStr (rg_GenerationID p)),
      (''source_agent'', JStr (rg_SourceAgent p)), (''target_agent'', JStr (rg_TargetAgent p)),
      (''target_replication_public_key'', JStr (rg_TargetReplicationPubKey p))])"

definition json_erasure_transfer :: "erasure_shard_transfer \<Rightarrow> json" where
  "json_erasure_transfer e = JObj
     ([(''object_sha256'', JStr (et_ObjectSHA256 e)), (''shard_index'', jint (et_ShardIndex e)),
       (''shard_sha256'', JStr (et_ShardSHA256 e)), (''shard_bytes'', jint (et_ShardBytes e))]
      @ omitempty ''lease_id'' (et_LeaseID e))"

definition marshal_replicate_cas :: "replicate_cas_payload \<Rightarrow> json_text" where
  "marshal_replicate_cas p = Some (JObj
     ([(''transfer_id'', JStr (rca_TransferID p)), (''source_agent'', JStr (rca_SourceAgent p)),
       (''target_agent'', JStr (rca_TargetAgent p)),
       (''target_replication_public_key'', JStr (rca_TargetReplicationPubKey p)),
       (''pool_agents'', jstrs (rca_PoolAgents p)), (''factor'', jint (rca_Factor p))]
      @ omitempty_strs ''prefixes'' (rca_Prefixes p) @ omitempty_strs ''digests'' (rca_Digests p)
      @ (case rca_Erasure p of None \<Rightarrow> [] | Some e \<Rightarrow> [(''erasure'', json_erasure_transfer e)])
      @ [(''source_inventory_root'', JStr (rca_SourceInventoryRoot p)),
         (''target_inventory_root'', JStr (rca_TargetInventoryRoot p))]))"

definition json_repair_shard :: "repair_shard \<Rightarrow> json" where
  "json_repair_shard s = JObj [(''index'', jint (rs_Index s)), (''digest'', JStr (rs_Digest s)),
     (''bytes'', jint (rs_Bytes s))]"

definition marshal_repair_object :: "repair_object_payload \<Rightarrow> json_text" where
  "marshal_repair_object p = Some (JObj
     [(''digest'', JStr (ro_Digest p)), (''original_bytes'', jint (ro_OriginalBytes p)),
      (''data_shards'', jint (ro_DataShards p)), (''parity_shards'', jint (ro_ParityShards p)),
      (''block_bytes'', jint (ro_BlockBytes p)), (''shards'', JArr (map json_repair_shard (ro_Shards p)))])"

section \<open>Decoding\<close>

fun um_str :: "json \<Rightarrow> string option" where
  "um_str (JStr s) = Some s"
| "um_str JNull = Some []"
| "um_str _ = None"

fun um_list :: "(json \<Rightarrow> 'a option) \<Rightarrow> json list \<Rightarrow> 'a list option" where
  "um_list f [] = Some []"
| "um_list f (x # xs) = (case f x of None \<Rightarrow> None | Some y \<Rightarrow> map_option ((#) y) (um_list f xs))"

definition strs_field :: "string \<Rightarrow> (string \<times> json) list \<Rightarrow> string list option" where
  "strs_field name fs = (case member name fs of
     None \<Rightarrow> Some [] | Some JNull \<Rightarrow> Some [] | Some (JArr xs) \<Rightarrow> um_list um_str xs | Some _ \<Rightarrow> None)"

definition unmarshal_replicate_generation :: "json_text \<Rightarrow> replicate_generation_payload option" where
  "unmarshal_replicate_generation t = (case t of
     Some (JObj fs) \<Rightarrow>
       (case (str_field ''transfer_id'' fs, str_field ''repository_id'' fs, str_field ''repository'' fs,
              str_field ''generation_id'' fs, str_field ''source_agent'' fs, str_field ''target_agent'' fs,
              str_field ''target_replication_public_key'' fs) of
          (Some a, Some b, Some c, Some d, Some e, Some f, Some g) \<Rightarrow>
            Some \<lparr>rg_TransferID = a, rg_RepositoryID = b, rg_Repository = c, rg_GenerationID = d,
                  rg_SourceAgent = e, rg_TargetAgent = f, rg_TargetReplicationPubKey = g\<rparr>
        | _ \<Rightarrow> None)
   | Some JNull \<Rightarrow> Some \<lparr>rg_TransferID = [], rg_RepositoryID = [], rg_Repository = [],
        rg_GenerationID = [], rg_SourceAgent = [], rg_TargetAgent = [], rg_TargetReplicationPubKey = []\<rparr>
   | _ \<Rightarrow> None)"

definition um_erasure_transfer :: "(string \<times> json) list \<Rightarrow> erasure_shard_transfer option" where
  "um_erasure_transfer fs =
     (case (str_field ''object_sha256'' fs, int_field ''shard_index'' fs, str_field ''shard_sha256'' fs,
            int_field ''shard_bytes'' fs, str_field ''lease_id'' fs) of
        (Some a, Some b, Some c, Some d, Some e) \<Rightarrow>
          Some \<lparr>et_ObjectSHA256 = a, et_ShardIndex = b, et_ShardSHA256 = c, et_ShardBytes = d, et_LeaseID = e\<rparr>
      | _ \<Rightarrow> None)"

definition erasure_field :: "(string \<times> json) list \<Rightarrow> erasure_shard_transfer option option" where
  "erasure_field fs = (case member ''erasure'' fs of
     None \<Rightarrow> Some None | Some JNull \<Rightarrow> Some None
   | Some (JObj gs) \<Rightarrow> map_option Some (um_erasure_transfer gs) | Some _ \<Rightarrow> None)"

definition unmarshal_replicate_cas :: "json_text \<Rightarrow> replicate_cas_payload option" where
  "unmarshal_replicate_cas t = (case t of
     Some (JObj fs) \<Rightarrow>
       (case (str_field ''transfer_id'' fs, str_field ''source_agent'' fs, str_field ''target_agent'' fs,
              str_field ''target_replication_public_key'' fs, strs_field ''pool_agents'' fs,
              int_field ''factor'' fs, strs_field ''prefixes'' fs, strs_field ''digests'' fs,
              erasure_field fs, str_field ''source_inventory_root'' fs,
              str_field ''target_inventory_root'' fs) of
          (Some a, Some b, Some c, Some d, Some e, Some f, Some g, Some h, Some i, Some j, Some k) \<Rightarrow>
            Some \<lparr>rca_TransferID = a, rca_SourceAgent = b, rca_TargetAgent = c,
                  rca_TargetReplicationPubKey = d, rca_PoolAgents = e, rca_Factor = f, rca_Prefixes = g,
                  rca_Digests = h, rca_Erasure = i, rca_SourceInventoryRoot = j, rca_TargetInventoryRoot = k\<rparr>
        | _ \<Rightarrow> None)
   | Some JNull \<Rightarrow> Some \<lparr>rca_TransferID = [], rca_SourceAgent = [], rca_TargetAgent = [],
        rca_TargetReplicationPubKey = [], rca_PoolAgents = [], rca_Factor = 0, rca_Prefixes = [],
        rca_Digests = [], rca_Erasure = None, rca_SourceInventoryRoot = [], rca_TargetInventoryRoot = []\<rparr>
   | _ \<Rightarrow> None)"

section \<open>Round trips\<close>

definition int64_ok :: "int \<Rightarrow> bool" where
  "int64_ok n = (min_int64 \<le> n \<and> n \<le> max_int64)"

lemma um_list_strs [simp]: "um_list um_str (map JStr xs) = Some xs"
  by (induction xs) auto

lemma payload_names:
  "ToLower ''block_bytes'' = ''block_bytes''"
  "ToLower ''bytes'' = ''bytes''"
  "ToLower ''data_shards'' = ''data_shards''"
  "ToLower ''digest'' = ''digest''"
  "ToLower ''digests'' = ''digests''"
  "ToLower ''erasure'' = ''erasure''"
  "ToLower ''factor'' = ''factor''"
  "ToLower ''generation_id'' = ''generation_id''"
  "ToLower ''index'' = ''index''"
  "ToLower ''lease_id'' = ''lease_id''"
  "ToLower ''object_sha256'' = ''object_sha256''"
  "ToLower ''original_bytes'' = ''original_bytes''"
  "ToLower ''parity_shards'' = ''parity_shards''"
  "ToLower ''pool_agents'' = ''pool_agents''"
  "ToLower ''prefixes'' = ''prefixes''"
  "ToLower ''repository'' = ''repository''"
  "ToLower ''repository_id'' = ''repository_id''"
  "ToLower ''shard_bytes'' = ''shard_bytes''"
  "ToLower ''shard_index'' = ''shard_index''"
  "ToLower ''shard_sha256'' = ''shard_sha256''"
  "ToLower ''shards'' = ''shards''"
  "ToLower ''source_agent'' = ''source_agent''"
  "ToLower ''source_inventory_root'' = ''source_inventory_root''"
  "ToLower ''target_agent'' = ''target_agent''"
  "ToLower ''target_inventory_root'' = ''target_inventory_root''"
  "ToLower ''target_replication_public_key'' = ''target_replication_public_key''"
  "ToLower ''transfer_id'' = ''transfer_id''"
  by (simp_all add: ToLower_def lower_char_def)

lemmas payload_simps = str_field_def strs_field_def int_field_def jint_def jstrs_def omitempty_def
  omitempty_strs_def member_Cons EqualFold_def payload_names int64_ok_def

lemma unmarshal_marshal_replicate_generation:
  "unmarshal_replicate_generation (marshal_replicate_generation p) = Some p"
  by (cases p) (simp add: unmarshal_replicate_generation_def marshal_replicate_generation_def payload_simps)

lemma um_json_erasure_transfer:
  assumes "int64_ok (et_ShardIndex e)" "int64_ok (et_ShardBytes e)"
  shows "\<exists>gs. json_erasure_transfer e = JObj gs \<and> um_erasure_transfer gs = Some e"
  using assms by (cases e) (simp add: json_erasure_transfer_def um_erasure_transfer_def payload_simps)

lemma unmarshal_marshal_replicate_cas:
  assumes "int64_ok (rca_Factor p)"
    and "\<And>e. rca_Erasure p = Some e \<Longrightarrow> int64_ok (et_ShardIndex e) \<and> int64_ok (et_ShardBytes e)"
  shows "unmarshal_replicate_cas (marshal_replicate_cas p) = Some p"
proof (cases "rca_Erasure p")
  case None
  with assms(1) show ?thesis
    by (cases p) (simp add: unmarshal_replicate_cas_def marshal_replicate_cas_def erasure_field_def payload_simps)
next
  case (Some e)
  then obtain gs where gs: "json_erasure_transfer e = JObj gs" "um_erasure_transfer gs = Some e"
    using um_json_erasure_transfer assms(2) by blast
  with Some assms(1) show ?thesis
    by (cases p) (simp add: unmarshal_replicate_cas_def marshal_replicate_cas_def erasure_field_def payload_simps)
qed

section \<open>Installation payloads\<close>

record install_replica_payload =
  ir_TransferID :: string
  ir_RepositoryID :: string
  ir_Repository :: string
  ir_GenerationID :: string
  ir_SourceAgent :: string
  ir_TargetAgent :: string
  ir_CipherSHA256 :: string
  ir_CipherBytes :: int

record install_cas_payload =
  ic_TransferID :: string
  ic_SourceAgent :: string
  ic_TargetAgent :: string
  ic_CipherSHA256 :: string
  ic_CipherBytes :: int
  ic_Erasure :: "erasure_shard_transfer option"

definition marshal_install_replica :: "install_replica_payload \<Rightarrow> json_text" where
  "marshal_install_replica p = Some (JObj
     ([(''transfer_id'', JStr (ir_TransferID p)), (''repository_id'', JStr (ir_RepositoryID p)),
       (''repository'', JStr (ir_Repository p)), (''generation_id'', JStr (ir_GenerationID p)),
       (''source_agent'', JStr (ir_SourceAgent p)), (''target_agent'', JStr (ir_TargetAgent p))]
      @ omitempty ''cipher_sha256'' (ir_CipherSHA256 p)
      @ (if ir_CipherBytes p = 0 then [] else [(''cipher_bytes'', jint (ir_CipherBytes p))])))"

definition marshal_install_cas :: "install_cas_payload \<Rightarrow> json_text" where
  "marshal_install_cas p = Some (JObj
     ([(''transfer_id'', JStr (ic_TransferID p)), (''source_agent'', JStr (ic_SourceAgent p)),
       (''target_agent'', JStr (ic_TargetAgent p)), (''cipher_sha256'', JStr (ic_CipherSHA256 p)),
       (''cipher_bytes'', jint (ic_CipherBytes p))]
      @ (case ic_Erasure p of None \<Rightarrow> [] | Some e \<Rightarrow> [(''erasure'', json_erasure_transfer e)])))"

definition unmarshal_install_replica :: "json_text \<Rightarrow> install_replica_payload option" where
  "unmarshal_install_replica t = (case t of
     Some (JObj fs) \<Rightarrow>
       (case (str_field ''transfer_id'' fs, str_field ''repository_id'' fs, str_field ''repository'' fs,
              str_field ''generation_id'' fs, str_field ''source_agent'' fs, str_field ''target_agent'' fs,
              str_field ''cipher_sha256'' fs, int_field ''cipher_bytes'' fs) of
          (Some a, Some b, Some c, Some d, Some e, Some f, Some g, Some h) \<Rightarrow>
            Some \<lparr>ir_TransferID = a, ir_RepositoryID = b, ir_Repository = c, ir_GenerationID = d,
                  ir_SourceAgent = e, ir_TargetAgent = f, ir_CipherSHA256 = g, ir_CipherBytes = h\<rparr>
        | _ \<Rightarrow> None)
   | Some JNull \<Rightarrow> Some \<lparr>ir_TransferID = [], ir_RepositoryID = [], ir_Repository = [], ir_GenerationID = [],
        ir_SourceAgent = [], ir_TargetAgent = [], ir_CipherSHA256 = [], ir_CipherBytes = 0\<rparr>
   | _ \<Rightarrow> None)"

definition unmarshal_install_cas :: "json_text \<Rightarrow> install_cas_payload option" where
  "unmarshal_install_cas t = (case t of
     Some (JObj fs) \<Rightarrow>
       (case (str_field ''transfer_id'' fs, str_field ''source_agent'' fs, str_field ''target_agent'' fs,
              str_field ''cipher_sha256'' fs, int_field ''cipher_bytes'' fs, erasure_field fs) of
          (Some a, Some b, Some c, Some d, Some e, Some f) \<Rightarrow>
            Some \<lparr>ic_TransferID = a, ic_SourceAgent = b, ic_TargetAgent = c, ic_CipherSHA256 = d,
                  ic_CipherBytes = e, ic_Erasure = f\<rparr>
        | _ \<Rightarrow> None)
   | Some JNull \<Rightarrow> Some \<lparr>ic_TransferID = [], ic_SourceAgent = [], ic_TargetAgent = [], ic_CipherSHA256 = [],
        ic_CipherBytes = 0, ic_Erasure = None\<rparr>
   | _ \<Rightarrow> None)"

lemma install_names:
  "ToLower ''cipher_sha256'' = ''cipher_sha256''" "ToLower ''cipher_bytes'' = ''cipher_bytes''"
  by (simp_all add: ToLower_def lower_char_def)

lemma unmarshal_marshal_install_replica:
  "int64_ok (ir_CipherBytes p) \<Longrightarrow> unmarshal_install_replica (marshal_install_replica p) = Some p"
  by (cases p) (simp add: unmarshal_install_replica_def marshal_install_replica_def payload_simps install_names)

lemma unmarshal_marshal_install_cas:
  assumes "int64_ok (ic_CipherBytes p)"
    and "\<And>e. ic_Erasure p = Some e \<Longrightarrow> int64_ok (et_ShardIndex e) \<and> int64_ok (et_ShardBytes e)"
  shows "unmarshal_install_cas (marshal_install_cas p) = Some p"
proof (cases "ic_Erasure p")
  case None
  with assms(1) show ?thesis
    by (cases p) (simp add: unmarshal_install_cas_def marshal_install_cas_def erasure_field_def payload_simps install_names)
next
  case (Some e)
  then obtain gs where gs: "json_erasure_transfer e = JObj gs" "um_erasure_transfer gs = Some e"
    using um_json_erasure_transfer assms(2) by blast
  with Some assms(1) show ?thesis
    by (cases p) (simp add: unmarshal_install_cas_def marshal_install_cas_def erasure_field_def payload_simps install_names)
qed

section \<open>Repair payloads\<close>

fun um_repair_shard :: "json \<Rightarrow> repair_shard option" where
  "um_repair_shard (JObj fs) =
     (case (int_field ''index'' fs, str_field ''digest'' fs, int_field ''bytes'' fs) of
        (Some a, Some b, Some c) \<Rightarrow> Some \<lparr>rs_Index = a, rs_Digest = b, rs_Bytes = c\<rparr> | _ \<Rightarrow> None)"
| "um_repair_shard JNull = Some \<lparr>rs_Index = 0, rs_Digest = [], rs_Bytes = 0\<rparr>"
| "um_repair_shard _ = None"

definition shards_field :: "(string \<times> json) list \<Rightarrow> repair_shard list option" where
  "shards_field fs = (case member ''shards'' fs of
     None \<Rightarrow> Some [] | Some JNull \<Rightarrow> Some [] | Some (JArr xs) \<Rightarrow> um_list um_repair_shard xs | Some _ \<Rightarrow> None)"

definition unmarshal_repair_object :: "json_text \<Rightarrow> repair_object_payload option" where
  "unmarshal_repair_object t = (case t of
     Some (JObj fs) \<Rightarrow>
       (case (str_field ''digest'' fs, int_field ''original_bytes'' fs, int_field ''data_shards'' fs, int_field ''parity_shards'' fs,
              int_field ''block_bytes'' fs, shards_field fs) of
          (Some a, Some b, Some c, Some d, Some e, Some f) \<Rightarrow>
            Some \<lparr>ro_Digest = a, ro_OriginalBytes = b, ro_DataShards = c, ro_ParityShards = d, ro_BlockBytes = e, ro_Shards = f\<rparr>
        | _ \<Rightarrow> None)
   | Some JNull \<Rightarrow> Some \<lparr>ro_Digest = [], ro_OriginalBytes = 0, ro_DataShards = 0, ro_ParityShards = 0, ro_BlockBytes = 0, ro_Shards = []\<rparr>
   | _ \<Rightarrow> None)"

section \<open>Transfer identity\<close>

record transfer_source_meta =
  tm_Kind :: string
  tm_TransferID :: string
  tm_SourceAgent :: string
  tm_TargetAgent :: string
  tm_TargetReplicationPubKey :: string
  tm_GenerationID :: string
  tm_RepositoryID :: string
  tm_Repository :: string
  tm_CAS :: "replicate_cas_payload option"

definition decodeTransferSourceJob :: "job \<Rightarrow> string \<Rightarrow> string \<Rightarrow> transfer_source_meta result" where
  "decodeTransferSourceJob j agent transfer =
     (if j_Kind j = ''replicate-generation'' then
        (case unmarshal_replicate_generation (j_Payload j) of
           None \<Rightarrow> Inl (GoErr ''invalid replication job'')
         | Some p \<Rightarrow>
             if transfer = [] \<or> transfer \<noteq> rg_TransferID p \<or> rg_SourceAgent p \<noteq> agent
             then Inl (GoErr ''replication transfer identity mismatch'')
             else Inr \<lparr>tm_Kind = j_Kind j, tm_TransferID = rg_TransferID p,
                 tm_SourceAgent = rg_SourceAgent p, tm_TargetAgent = rg_TargetAgent p,
                 tm_TargetReplicationPubKey = rg_TargetReplicationPubKey p,
                 tm_GenerationID = rg_GenerationID p, tm_RepositoryID = rg_RepositoryID p,
                 tm_Repository = rg_Repository p, tm_CAS = None\<rparr>)
      else if j_Kind j = ''replicate-cas'' then
        (case unmarshal_replicate_cas (j_Payload j) of
           None \<Rightarrow> Inl (GoErr ''invalid CAS replication job'')
         | Some p \<Rightarrow>
             if transfer = [] \<or> transfer \<noteq> rca_TransferID p \<or> rca_SourceAgent p \<noteq> agent
             then Inl (GoErr ''CAS transfer identity mismatch'')
             else Inr \<lparr>tm_Kind = j_Kind j, tm_TransferID = rca_TransferID p,
                 tm_SourceAgent = rca_SourceAgent p, tm_TargetAgent = rca_TargetAgent p,
                 tm_TargetReplicationPubKey = rca_TargetReplicationPubKey p,
                 tm_GenerationID = ''cas:'' @ rca_SourceAgent p @ ''>'' @ rca_TargetAgent p,
                 tm_RepositoryID = ''__cas__'', tm_Repository = [], tm_CAS = Some p\<rparr>)
      else Inl (GoErr ''job is not a replication source''))"

lemma decodeTransferSourceJob_identity:
  assumes "decodeTransferSourceJob j agent transfer = Inr m"
  shows "transfer \<noteq> []" "tm_TransferID m = transfer" "tm_SourceAgent m = agent" "tm_Kind m = j_Kind j"
  using assms by (auto simp: decodeTransferSourceJob_def split: if_splits option.splits)

end
