(* ===== verification/Replication.thy ===== *)
theory Replication
  imports Store_Interface Payloads
begin

text \<open>
  Generation replication (\<^verbatim>\<open>replication.go\<close>): which agents may hold and serve copies, the plan of
  copies for one generation, the loop over generations, the choice of the node that serves a
  restore, the health report, and the reaping of expired transfers.
\<close>

section \<open>Agents by role\<close>

text \<open>\<^verbatim>\<open>base64.RawStdEncoding.DecodeString\<close> succeeds: line breaks are skipped, no padding.\<close>

definition b64_char :: "char \<Rightarrow> bool" where
  "b64_char c = (let n = (of_char c :: nat) in
     65 \<le> n \<and> n \<le> 90 \<or> 97 \<le> n \<and> n \<le> 122 \<or> 48 \<le> n \<and> n \<le> 57 \<or> n = 43 \<or> n = 47)"

definition raw_b64_ok :: "string \<Rightarrow> bool" where
  "raw_b64_ok s = (let t = filter (\<lambda>c. (of_char c :: nat) \<notin> {10, 13}) s
     in list_all b64_char t \<and> length t mod 4 \<noteq> 1)"

record roles =
  ro_placement :: "(string, agent) gomap"
  ro_online :: "(string, agent) gomap"
  ro_target :: "(string, agent) gomap"

definition add_agent ::
  "replication_config \<Rightarrow> storage_data_config \<Rightarrow> time \<Rightarrow> agent \<Rightarrow> roles \<Rightarrow> roles" where
  "add_agent cfg scfg now a r =
     (if \<not> agentAllowed (a_ID a) (rc_AllowedAgents cfg) (rc_ExcludedAgents cfg) then r
      else
        let r1 = r\<lparr>ro_placement := gput (a_ID a) a (ro_placement r)\<rparr> in
        if agent_stale now (agent_timeout cfg) a \<or> TrimSpace (a_ReplicationPublicKey a) = [] then r1
        else if \<not> raw_b64_ok (a_ReplicationPublicKey a) then r1
        else
          let r2 = r1\<lparr>ro_online := gput (a_ID a) a (ro_online r1)\<rparr> in
          if agentAcceptsPlacement a scfg then r2\<lparr>ro_target := gput (a_ID a) a (ro_target r2)\<rparr> else r2)"

definition local_labels :: json_text where
  "local_labels = Some (JObj [(''__repoark_local_domain'', JStr ''local'')])"

definition local_agent :: "string \<Rightarrow> json_text \<Rightarrow> storage_report \<Rightarrow> time \<Rightarrow> agent" where
  "local_agent pub labels hr now = zero_agent\<lparr>a_ID := LocalWorkerAffinity, a_Name := LocalWorkerAffinity,
     a_LabelsJSON := labels, a_ReplicationPublicKey := pub, a_LastSeenAt := now, a_Status := ''online'',
     a_StorageHealth := hr_Health hr, a_StorageTotalBytes := wrap64 (int (hr_TotalBytes hr)),
     a_StorageFreeBytes := wrap64 (int (hr_FreeBytes hr)), a_StorageFreePercent := hr_FreePercent hr,
     a_StorageProbeMS := hr_ProbeMS hr, a_StorageError := hr_Error hr\<rparr>"

definition add_local :: "storage_data_config \<Rightarrow> agent \<Rightarrow> roles \<Rightarrow> roles" where
  "add_local scfg a r =
     (let r1 = r\<lparr>ro_placement := gput LocalWorkerAffinity a (ro_placement r),
                 ro_online := gput LocalWorkerAffinity a (ro_online r)\<rparr>
      in if agentAcceptsPlacement a scfg
         then r1\<lparr>ro_target := gput LocalWorkerAffinity a (ro_target r1)\<rparr> else r1)"

text \<open>\<open>pub\<close> is what \<^verbatim>\<open>replication.EnsureKey\<close> returns, \<open>hr\<close> the storage probe of the generations root.\<close>

definition agent_roles ::
  "config \<Rightarrow> string result \<Rightarrow> storage_report \<Rightarrow> time \<Rightarrow> agent list \<Rightarrow> roles result" where
  "agent_roles c pub hr now agents =
     (let cfg = c_Replication c; scfg = c_Storage c;
          r = fold (add_agent cfg scfg now) agents \<lparr>ro_placement = [], ro_online = [], ro_target = []\<rparr>
      in if rc_IncludeLocal cfg
         then (case pub of Inl e \<Rightarrow> Inl e
               | Inr p \<Rightarrow> Inr (add_local scfg (local_agent p local_labels hr now) r))
         else Inr r)"

section \<open>The copies of one generation\<close>

record gen_view =
  gv_ready :: "(string, generation_replica) gomap"
  gv_healthy :: "(string, generation_replica) gomap"
  gv_domains :: "string list"

definition view_replica ::
  "replication_config \<Rightarrow> storage_data_config \<Rightarrow> roles \<Rightarrow> generation_replica \<Rightarrow> gen_view \<Rightarrow> gen_view" where
  "view_replica cfg scfg ro rp v =
     (if rp_State rp \<noteq> ReplicaReady then v
      else (case gget (ro_placement ro) (rp_AgentID rp) of
        None \<Rightarrow> v
      | Some a \<Rightarrow>
          let v1 = (if \<not> sc_EvacuateDegraded scfg \<or> agentCountsDurable a scfg
                    then v\<lparr>gv_ready := gput (rp_AgentID rp) rp (gv_ready v)\<rparr> else v)
          in (case gget (ro_target ro) (rp_AgentID rp) of
                None \<Rightarrow> v1
              | Some a' \<Rightarrow>
                  let v2 = v1\<lparr>gv_healthy := gput (rp_AgentID rp) rp (gv_healthy v1)\<rparr>;
                      d = agentFailureDomain a' (rc_FailureDomainLabel cfg)
                  in if d \<noteq> [] then v2\<lparr>gv_domains := List.insert d (gv_domains v2)\<rparr> else v2)))"

definition view_generation ::
  "replication_config \<Rightarrow> storage_data_config \<Rightarrow> roles \<Rightarrow> generation_replica list \<Rightarrow> gen_view" where
  "view_generation cfg scfg ro reps =
     fold (view_replica cfg scfg ro) reps \<lparr>gv_ready = [], gv_healthy = [], gv_domains = []\<rparr>"

definition domains_required :: "replication_config \<Rightarrow> bool" where
  "domains_required cfg = (TrimSpace (rc_FailureDomainLabel cfg) \<noteq> [] \<and> rc_MinFailureDomains cfg > 0)"

definition generation_satisfied :: "replication_config \<Rightarrow> gen_view \<Rightarrow> bool" where
  "generation_satisfied cfg v =
     (int (length (gv_ready v)) \<ge> rc_Factor cfg \<and> int (length (gv_healthy v)) \<ge> rc_MinHealthy cfg
      \<and> (domains_required cfg \<longrightarrow> int (length (gv_domains v)) \<ge> rc_MinFailureDomains cfg))"

definition agent_in :: "(string, agent) gomap \<Rightarrow> string \<Rightarrow> agent" where
  "agent_in m i = (case gget m i of None \<Rightarrow> zero_agent | Some a \<Rightarrow> a)"

definition source_before :: "storage_data_config \<Rightarrow> roles \<Rightarrow> string \<Rightarrow> string \<Rightarrow> bool" where
  "source_before scfg ro x y =
     (let ax = agent_in (ro_online ro) x; ay = agent_in (ro_online ro) y in
      if agentCountsDurable ax scfg \<noteq> agentCountsDurable ay scfg then agentCountsDurable ax scfg
      else if agentBandwidthMbps ax \<noteq> agentBandwidthMbps ay
      then agentBandwidthMbps ax > agentBandwidthMbps ay
      else x < y)"

definition generation_sources ::
  "storage_data_config \<Rightarrow> roles \<Rightarrow> generation_replica list \<Rightarrow> string list" where
  "generation_sources scfg ro reps = sort_less (source_before scfg ro)
     (map rp_AgentID (filter (\<lambda>rp. rp_State rp = ReplicaReady \<and> gget (ro_online ro) (rp_AgentID rp) \<noteq> None) reps))"

definition generation_bytes :: "generation_replica list \<Rightarrow> int" where
  "generation_bytes reps = fold (\<lambda>rp n. if rp_Bytes rp > n then rp_Bytes rp else n) reps 0"

definition new_domain :: "gen_view \<Rightarrow> string \<Rightarrow> bool" where
  "new_domain v d = (d \<noteq> [] \<and> d \<notin> set (gv_domains v))"

definition target_before :: "replication_config \<Rightarrow> roles \<Rightarrow> gen_view \<Rightarrow> string \<Rightarrow> string \<Rightarrow> bool" where
  "target_before cfg ro v x y =
     (let ax = agent_in (ro_target ro) x; ay = agent_in (ro_target ro) y;
          dx = agentFailureDomain ax (rc_FailureDomainLabel cfg);
          dy = agentFailureDomain ay (rc_FailureDomainLabel cfg) in
      if new_domain v dx \<and> (dy = [] \<or> dy \<in> set (gv_domains v)) then True
      else if new_domain v dy \<and> (dx = [] \<or> dx \<in> set (gv_domains v)) then False
      else if agentBandwidthMbps ax \<noteq> agentBandwidthMbps ay
      then agentBandwidthMbps ax > agentBandwidthMbps ay
      else if a_StorageFreePercent ax \<noteq> a_StorageFreePercent ay
      then a_StorageFreePercent ax > a_StorageFreePercent ay
      else if a_StorageFreeBytes ax \<noteq> a_StorageFreeBytes ay
      then a_StorageFreeBytes ax > a_StorageFreeBytes ay
      else x < y)"

definition generation_targets ::
  "replication_config \<Rightarrow> storage_data_config \<Rightarrow> roles \<Rightarrow> gen_view \<Rightarrow> generation_replica list \<Rightarrow> string list" where
  "generation_targets cfg scfg ro v reps = sort_less (target_before cfg ro v)
     (map fst (filter (\<lambda>(i, a). gget (gv_ready v) i = None
         \<and> agentHasCapacityFor a scfg (generation_bytes reps)) (ro_target ro)))"

definition generation_need :: "replication_config \<Rightarrow> gen_view \<Rightarrow> int" where
  "generation_need cfg v =
     (let needCopies = max 0 (rc_Factor cfg - int (length (gv_ready v)));
          needHealthy = max 0 (rc_MinHealthy cfg - int (length (gv_healthy v)));
          needDomains = (if domains_required cfg
             then max 0 (rc_MinFailureDomains cfg - int (length (gv_domains v))) else 0)
      in max (max needCopies needHealthy) needDomains)"

text \<open>The copies to make: pairs of source and target agent, in order.\<close>

definition generation_plan ::
  "config \<Rightarrow> roles \<Rightarrow> generation_replica list \<Rightarrow> (string \<times> string) list" where
  "generation_plan c ro reps =
     (let cfg = c_Replication c; scfg = c_Storage c;
          v = view_generation cfg scfg ro reps;
          sources = generation_sources scfg ro reps;
          targets = generation_targets cfg scfg ro v reps;
          need = min (nat (generation_need cfg v)) (length targets)
      in if generation_satisfied cfg v \<or> sources = [] then []
         else map (\<lambda>i. (sources ! (i mod length sources), targets ! i)) [0..<need])"

section \<open>The loop over generations\<close>

definition active_placement :: "job list \<Rightarrow> string list" where
  "active_placement jobs = map j_Target (filter (\<lambda>j.
     (j_Kind j = ''replicate-generation'' \<or> j_Kind j = ''install-replica'') \<and> job_active j) jobs)"

definition queue_copy ::
  "'s store_iface \<Rightarrow> (string \<Rightarrow> nat \<Rightarrow> string) \<Rightarrow> config \<Rightarrow> time \<Rightarrow> roles \<Rightarrow> string list \<Rightarrow> generation \<Rightarrow>
   string \<times> string \<Rightarrow> 's run \<Rightarrow> 's run" where
  "queue_copy S newID c now ro busy g st r =
     (case st of (source, target) \<Rightarrow>
       let jobTarget = g_ID g @ ''@'' @ target in
       if jobTarget \<in> set busy then r
       else
         let payload = \<lparr>rg_TransferID = newID ''repl'' (rn_ids r), rg_RepositoryID = g_RepositoryID g,
               rg_Repository = g_Repository g, rg_GenerationID = g_ID g, rg_SourceAgent = source,
               rg_TargetAgent = target,
               rg_TargetReplicationPubKey = a_ReplicationPublicKey (agent_in (ro_target ro) target)\<rparr>
         in queue_job S newID now
              (mk_job ''replicate-generation'' jobTarget (marshal_replicate_generation payload) source 150
                 (wk_MaxAttempts (c_Workers c)) now) (r\<lparr>rn_ids := rn_ids r + 1\<rparr>))"

definition replicate_generation ::
  "'s store_iface \<Rightarrow> (string \<Rightarrow> nat \<Rightarrow> string) \<Rightarrow> config \<Rightarrow> time \<Rightarrow> roles \<Rightarrow> string list \<Rightarrow> generation \<Rightarrow>
   's run \<Rightarrow> 's run" where
  "replicate_generation S newID c now ro busy g r =
     (case i_ListReplicas S (g_ID g) (rn_st r) of
        Inl e \<Rightarrow> r\<lparr>rn_err := Some e\<rparr>
      | Inr reps \<Rightarrow> loop (queue_copy S newID c now ro busy g) (generation_plan c ro reps) r)"

definition replicate_generations ::
  "'s store_iface \<Rightarrow> (string \<Rightarrow> nat \<Rightarrow> string) \<Rightarrow> config \<Rightarrow> string result \<Rightarrow> storage_report \<Rightarrow> time \<Rightarrow>
   's run \<Rightarrow> 's run" where
  "replicate_generations S newID c pub hr now r =
     (case i_ListAgents S (rn_st r) of Inl e \<Rightarrow> r\<lparr>rn_err := Some e\<rparr> | Inr agents \<Rightarrow>
     (case agent_roles c pub hr now agents of Inl e \<Rightarrow> r\<lparr>rn_err := Some e\<rparr> | Inr ro \<Rightarrow>
     (case i_ListAllGenerations S 20000 (rn_st r) of Inl e \<Rightarrow> r\<lparr>rn_err := Some e\<rparr> | Inr gens \<Rightarrow>
       let busy = (case i_ListJobs S 10000 (rn_st r) of Inl _ \<Rightarrow> [] | Inr jobs \<Rightarrow> active_placement jobs)
       in loop (replicate_generation S newID c now ro busy) gens r)))"

section \<open>Where to restore from\<close>

definition SelectRestoreAffinityWithStorage ::
  "'s store_iface \<Rightarrow> string \<Rightarrow> string \<Rightarrow> replication_config \<Rightarrow> storage_data_config \<Rightarrow> time \<Rightarrow> 's \<Rightarrow>
   string result" where
  "SelectRestoreAffinityWithStorage S gid preferredMetaPath cfg scfg now st =
     (let preferred = AffinityFromMetaPath preferredMetaPath in
      case i_ListAgents S st of Inl e \<Rightarrow> Inl e | Inr agents \<Rightarrow>
      let online = LocalWorkerAffinity # map a_ID (filter (\<lambda>a. time_Sub now (a_LastSeenAt a) \<le> agent_timeout cfg
             \<and> agentReadable a scfg) agents) in
      (case i_ListReplicas S gid st of Inl e \<Rightarrow> Inl e | Inr reps \<Rightarrow>
      let available = map rp_AgentID (filter (\<lambda>rp. rp_State rp = ReplicaReady \<and> rp_AgentID rp \<in> set online) reps) in
      if preferred \<in> set available then Inr preferred
      else (case sort_strings (remdups available) of
              [] \<Rightarrow> Inl (GoErr (''generation '' @ gid @ '' has no online ready replica''))
            | x # _ \<Rightarrow> Inr x)))"

section \<open>Health\<close>

record replication_health_report =
  rh_Enabled :: bool
  rh_Generations :: nat
  rh_HealthyGenerations :: nat
  rh_Deficits :: nat
  rh_ReadyReplicas :: nat
  rh_OnlineReadyReplicas :: nat
  rh_MinHealthy :: int
  rh_MinFailureDomains :: int
  rh_FailureDomainDeficits :: nat

definition online_agents ::
  "replication_config \<Rightarrow> storage_data_config \<Rightarrow> time \<Rightarrow> agent list \<Rightarrow> (string, agent) gomap" where
  "online_agents cfg scfg now agents =
     fold (\<lambda>a m. if agentAllowed (a_ID a) (rc_AllowedAgents cfg) (rc_ExcludedAgents cfg)
               \<and> time_Sub now (a_LastSeenAt a) \<le> agent_timeout cfg \<and> agentCountsDurable a scfg
             then gput (a_ID a) a m else m) agents
       (if rc_IncludeLocal cfg
        then [(LocalWorkerAffinity, zero_agent\<lparr>a_ID := LocalWorkerAffinity, a_LabelsJSON := local_labels\<rparr>)]
        else [])"

definition health_generation ::
  "replication_config \<Rightarrow> (string, agent) gomap \<Rightarrow> generation_replica list \<Rightarrow>
   replication_health_report \<Rightarrow> replication_health_report" where
  "health_generation cfg online reps rep =
     (let ready = filter (\<lambda>rp. rp_State rp = ReplicaReady) reps;
          live = filter (\<lambda>rp. gget online (rp_AgentID rp) \<noteq> None) ready;
          domains = remdups (filter (\<lambda>d. d \<noteq> [])
             (map (\<lambda>rp. agentFailureDomain (agent_in online (rp_AgentID rp)) (rc_FailureDomainLabel cfg)) live));
          domainsOK = (domains_required cfg \<longrightarrow> int (length domains) \<ge> rc_MinFailureDomains cfg);
          rep1 = rep\<lparr>rh_ReadyReplicas := rh_ReadyReplicas rep + length ready,
                     rh_OnlineReadyReplicas := rh_OnlineReadyReplicas rep + length live,
                     rh_FailureDomainDeficits := rh_FailureDomainDeficits rep + (if domainsOK then 0 else 1)\<rparr>
      in if int (length live) \<ge> rh_MinHealthy rep \<and> domainsOK
         then rep1\<lparr>rh_HealthyGenerations := rh_HealthyGenerations rep + 1\<rparr>
         else rep1\<lparr>rh_Deficits := rh_Deficits rep + 1\<rparr>)"

primrec health_loop ::
  "'s store_iface \<Rightarrow> replication_config \<Rightarrow> (string, agent) gomap \<Rightarrow> 's \<Rightarrow> generation list \<Rightarrow>
   replication_health_report \<Rightarrow> replication_health_report \<times> go_error option" where
  "health_loop S cfg online st [] rep = (rep, None)"
| "health_loop S cfg online st (g # gs) rep =
     (case i_ListReplicas S (g_ID g) st of
        Inl e \<Rightarrow> (rep, Some e)
      | Inr reps \<Rightarrow> health_loop S cfg online st gs (health_generation cfg online reps rep))"

definition ReplicationHealthWithStorage ::
  "'s store_iface \<Rightarrow> replication_config \<Rightarrow> storage_data_config \<Rightarrow> time \<Rightarrow> 's \<Rightarrow>
   replication_health_report \<times> go_error option" where
  "ReplicationHealthWithStorage S cfg scfg now st =
     (let rep = \<lparr>rh_Enabled = rc_Enabled cfg, rh_Generations = 0, rh_HealthyGenerations = 0, rh_Deficits = 0,
            rh_ReadyReplicas = 0, rh_OnlineReadyReplicas = 0,
            rh_MinHealthy = (if rc_MinHealthy cfg < 1 then 1 else rc_MinHealthy cfg),
            rh_MinFailureDomains = rc_MinFailureDomains cfg, rh_FailureDomainDeficits = 0\<rparr> in
      case i_ListAgents S st of Inl e \<Rightarrow> (rep, Some e) | Inr agents \<Rightarrow>
      (case i_ListAllGenerations S 20000 st of Inl e \<Rightarrow> (rep, Some e) | Inr gens \<Rightarrow>
        health_loop S cfg (online_agents cfg scfg now agents) st gens
          (rep\<lparr>rh_Generations := length gens\<rparr>)))"

section \<open>Expired transfers\<close>

text \<open>
  \<open>files\<close> are the paths present on disk; removing an absent one is an ignored error.  The spool
  path comes from the transfer's identifier, never from the stored \<^verbatim>\<open>SpoolPath\<close>.
\<close>

primrec cleanup_loop ::
  "'s store_iface \<Rightarrow> replication_config \<Rightarrow> replication_transfer list \<Rightarrow>
   int \<times> string list \<times> 's \<Rightarrow> int \<times> go_error option \<times> string list \<times> 's" where
  "cleanup_loop S cfg [] acc = (case acc of (n, files, st) \<Rightarrow> (n, None, files, st))"
| "cleanup_loop S cfg (t # ts) acc =
     (case acc of (n, files, st) \<Rightarrow>
       let p = replicationSpoolPath (rc_SpoolRoot cfg) (t_ID t);
           files1 = removeAll (p @ ''.part'') (removeAll p files)
       in (case i_DeleteReplicationTransfer S (t_ID t) st of
             (Inl e, st1) \<Rightarrow> (n, Some e, files1, st1)
           | (Inr _, st1) \<Rightarrow> cleanup_loop S cfg ts (n + 1, files1, st1)))"

definition CleanupExpiredReplicationTransfers ::
  "'s store_iface \<Rightarrow> replication_config \<Rightarrow> time \<Rightarrow> string list \<Rightarrow> 's \<Rightarrow>
   int \<times> go_error option \<times> string list \<times> 's" where
  "CleanupExpiredReplicationTransfers S cfg now files st =
     (case i_ListExpiredReplicationTransfers S now 1000 st of
        Inl e \<Rightarrow> (0, Some e, files, st)
      | Inr ts \<Rightarrow> cleanup_loop S cfg ts (0, files, st))"

end
