(* ===== verification/Fmt.thy ===== *)
theory Fmt
  imports Prelude
begin

text \<open>Decimal formatting, as \<^verbatim>\<open>fmt\<close>'s \<^verbatim>\<open>%d\<close> and \<^verbatim>\<open>%03d\<close> print integers.\<close>

fun show_nat :: "nat \<Rightarrow> string" where
  "show_nat n = (if n < 10 then [char_of (48 + n)] else show_nat (n div 10) @ [char_of (48 + n mod 10)])"

declare show_nat.simps [simp del]

definition itoa :: "int \<Rightarrow> string" where
  "itoa n = (if n < 0 then CHR ''-'' # show_nat (nat (- n)) else show_nat (nat n))"

definition pad0 :: "nat \<Rightarrow> nat \<Rightarrow> string" where
  "pad0 w n = (let s = show_nat n in replicate (w - length s) (CHR ''0'') @ s)"

text \<open>An error wrapped with a prefix, as \<^verbatim>\<open>fmt.Errorf\<close> with \<^verbatim>\<open>%w\<close> does.\<close>

definition prefix_error :: "string \<Rightarrow> go_error \<Rightarrow> go_error" where
  "prefix_error p e = (case e of GoErr msg \<Rightarrow> GoErr (p @ msg) | GoPanic msg \<Rightarrow> GoPanic msg)"

definition undigits :: "string \<Rightarrow> nat" where
  "undigits s = foldl (\<lambda>n c. 10 * n + (of_char c - 48)) 0 s"

lemma undigits_append: "undigits (s @ [c]) = 10 * undigits s + (of_char c - 48)"
  by (simp add: undigits_def)

lemma undigits_show_nat [simp]: "undigits (show_nat n) = n"
proof (induction n rule: show_nat.induct)
  case (1 n)
  have small: "of_char (char_of (48 + k) :: char) = (48 + k :: nat)" if "k < 10" for k :: nat
    using that by simp
  show ?case
  proof (cases "n < 10")
    case True
    then show ?thesis using small [of n] by (simp add: show_nat.simps [of n] undigits_def)
  next
    case False
    then show ?thesis using 1 small [of "n mod 10"]
      by (simp add: show_nat.simps [of n] undigits_append)
  qed
qed

lemma inj_show_nat: "show_nat m = show_nat n \<longleftrightarrow> m = n"
  by (metis undigits_show_nat)

lemma undigits_zeros: "undigits (replicate k (CHR ''0'') @ s) = undigits s"
  by (induction k) (simp_all add: undigits_def)

lemma inj_pad0: "pad0 w m = pad0 w n \<longleftrightarrow> m = n"
  by (metis pad0_def undigits_show_nat undigits_zeros)

lemma show_nat_digits: "c \<in> set (show_nat n) \<Longrightarrow> \<exists>k<10. c = char_of (48 + k :: nat)"
proof (induction n rule: show_nat.induct)
  case (1 n)
  show ?case
  proof (cases "n < 10")
    case True
    then show ?thesis using 1(2) by (auto simp: show_nat.simps [of n])
  next
    case False
    then consider "c \<in> set (show_nat (n div 10))" | "c = char_of (48 + n mod 10)" using 1(2) by (auto simp: show_nat.simps [of n])
    then show ?thesis
    proof cases
      case 1
      with \<open>\<not> n < 10\<close> "1.IH" show ?thesis by blast
    next
      case 2
      then show ?thesis by (intro exI [of _ "n mod 10"]) simp
    qed
  qed
qed

lemma digit_range: "c \<in> set (pad0 w n) \<Longrightarrow> (of_char c :: nat) \<in> {48..57}" "c \<in> set (show_nat n) \<Longrightarrow> (of_char c :: nat) \<in> {48..57}"
  using show_nat_digits [of c n] by (auto simp: pad0_def Let_def)

lemma slash_not_digit: "CHR ''/'' \<notin> set (pad0 w n)"
  using digit_range(1) [of "CHR ''/''" w n] by auto

section \<open>Dates\<close>

text \<open>Years, months and days of the Gregorian calendar, counted from the first of March of the year 0.\<close>

definition civil_date :: "time \<Rightarrow> nat \<times> nat \<times> nat" where
  "civil_date t =
     (let z = nat (t div (24 * hour)) + 306; era = z div 146097; doe = z mod 146097;
          yoe = (doe - doe div 1460 + doe div 36524 - doe div 146096) div 365;
          doy = doe - (365 * yoe + yoe div 4 - yoe div 100); mp = (5 * doy + 2) div 153;
          m = (if mp < 10 then mp + 3 else mp - 9)
      in (yoe + era * 400 + (if m \<le> 2 then 1 else 0), m, doy - (153 * mp + 2) div 5 + 1))"

definition date_text :: "time \<Rightarrow> string" where
  "date_text t = (case civil_date t of (y, m, d) \<Rightarrow> pad0 4 y @ ''-'' @ pad0 2 m @ ''-'' @ pad0 2 d)"

text \<open>The layouts \<^verbatim>\<open>20060102T150405Z\<close> and \<^verbatim>\<open>20060102T150405.000000000Z\<close>.\<close>

definition compact_date :: "time \<Rightarrow> string" where
  "compact_date t = (case civil_date t of (y, m, d) \<Rightarrow>
     let s = nat ((t div second) mod 86400) in
     pad0 4 y @ pad0 2 m @ pad0 2 d @ ''T'' @ pad0 2 (s div 3600) @ pad0 2 (s div 60 mod 60) @ pad0 2 (s mod 60))"

lemma compact_date_head: "\<exists>k ks. compact_date t = k # ks \<and> (of_char k :: nat) \<in> {48..57}"
proof -
  obtain y m d where c: "civil_date t = (y, m, d)" by (cases "civil_date t") auto
  have "pad0 4 y \<noteq> []" by (simp add: pad0_def Let_def show_nat.simps [of y])
  then obtain k ks where "pad0 4 y = k # ks" by (cases "pad0 4 y") auto
  then show ?thesis using c digit_range(1) [of k 4 y] by (simp add: compact_date_def Let_def)
qed

definition stamp_seconds :: "time \<Rightarrow> string" where
  "stamp_seconds t = compact_date t @ ''Z''"

definition stamp_nanos :: "time \<Rightarrow> string" where
  "stamp_nanos t = compact_date t @ ''.'' @ pad0 9 (nat (t mod second)) @ ''Z''"

end
