(* ===== verification/Shard_Placement.thy ===== *)
theory Shard_Placement
  imports Fmt Agents
begin

text \<open>
  Placement of erasure shards over failure domains: \<^verbatim>\<open>desiredShardAgents\<close> and \<^verbatim>\<open>rendezvousScore\<close> of
  \<^verbatim>\<open>erasure_distributed.go\<close>.  \<open>sha256\<close> stands for the digest function; nothing depends on what it
  computes.
\<close>

definition be_uint64 :: "string \<Rightarrow> nat" where
  "be_uint64 bs = foldl (\<lambda>n b. 256 * n + of_char b) 0 (take 8 bs)"

definition rendezvousScore :: "(string \<Rightarrow> string) \<Rightarrow> string \<Rightarrow> nat \<Rightarrow> nat \<Rightarrow> string \<Rightarrow> nat" where
  "rendezvousScore sha256 obj index copyIndex agnt =
     be_uint64 (sha256 (obj @ '':'' @ show_nat index @ '':'' @ show_nat copyIndex @ '':'' @ agnt))"

text \<open>The inner loop: the unused candidate with the highest score, the first one on a tie.\<close>

definition pick_best :: "(string \<Rightarrow> nat) \<Rightarrow> string list \<Rightarrow> string list \<Rightarrow> string \<times> nat \<Rightarrow> string \<times> nat" where
  "pick_best score used ids start = foldl (\<lambda>(best, bestScore) i.
     if i \<in> set used then (best, bestScore)
     else if best = [] \<or> score i > bestScore then (i, score i) else (best, bestScore)) start ids"

definition shard_domain :: "string \<Rightarrow> string \<times> agent \<Rightarrow> string" where
  "shard_domain key e = (let d = agentFailureDomain (snd e) key
     in if d = [] then ''__agent__:'' @ fst e else d)"

definition by_domain :: "string \<Rightarrow> (string, agent) gomap \<Rightarrow> string \<Rightarrow> string list" where
  "by_domain key agents d = sort_strings (map fst (filter (\<lambda>e. shard_domain key e = d) agents))"

definition shard_domains :: "string \<Rightarrow> (string, agent) gomap \<Rightarrow> string list" where
  "shard_domains key agents = sort_strings (remdups (map (shard_domain key) agents))"

text \<open>One round: the best unused agent of the round's domain, or of all agents when it has none left.\<close>

definition next_agent ::
  "(string \<Rightarrow> string) \<Rightarrow> string \<Rightarrow> nat \<Rightarrow> (string, agent) gomap \<Rightarrow> string \<Rightarrow> nat \<Rightarrow> string list \<Rightarrow> string" where
  "next_agent sha256 obj index agents key copyIndex out =
     (let domains = shard_domains key agents;
          d = domains ! ((index + copyIndex) mod length domains);
          score = rendezvousScore sha256 obj index copyIndex;
          p = pick_best score out (by_domain key agents d) ([], 0)
      in if fst p = [] then fst (pick_best score out (map fst agents) p) else fst p)"

fun desired_loop ::
  "(string \<Rightarrow> string) \<Rightarrow> string \<Rightarrow> nat \<Rightarrow> (string, agent) gomap \<Rightarrow> string \<Rightarrow> nat \<Rightarrow> nat \<Rightarrow> string list \<Rightarrow> string list" where
  "desired_loop sha256 obj index agents key 0 copyIndex out = out"
| "desired_loop sha256 obj index agents key (Suc n) copyIndex out =
     (let best = next_agent sha256 obj index agents key copyIndex out in
      if best = [] then out
      else desired_loop sha256 obj index agents key n (copyIndex + 1) (out @ [best]))"

definition desiredShardAgents ::
  "(string \<Rightarrow> string) \<Rightarrow> string \<Rightarrow> nat \<Rightarrow> int \<Rightarrow> (string, agent) gomap \<Rightarrow> string \<Rightarrow> string list" where
  "desiredShardAgents sha256 obj index copies agents key =
     (if copies < 1 \<or> agents = [] then []
      else desired_loop sha256 obj index agents key (min (nat copies) (length agents)) 0 [])"

section \<open>Picking\<close>

lemma pick_best_result:
  assumes "[] \<notin> set ids"
  shows "fst (pick_best score used ids start) = fst start \<or>
    (fst (pick_best score used ids start) \<in> set ids \<and> fst (pick_best score used ids start) \<notin> set used)"
  using assms
proof (induction ids arbitrary: start)
  case (Cons i ids)
  obtain b s where start: "start = (b, s)" by fastforce
  let ?start' = "if i \<in> set used then (b, s) else if b = [] \<or> score i > s then (i, score i) else (b, s)"
  have step: "pick_best score used (i # ids) start = pick_best score used ids ?start'"
    by (simp add: pick_best_def start)
  from Cons.IH [of ?start'] Cons.prems show ?case
    unfolding step by (auto simp: start split: if_splits)
qed (simp add: pick_best_def)

lemma pick_best_keeps:
  "fst start \<noteq> [] \<Longrightarrow> [] \<notin> set ids \<Longrightarrow> fst (pick_best score used ids start) \<noteq> []"
  using pick_best_result [of ids score used start] by fastforce

lemma pick_best_finds:
  assumes "[] \<notin> set ids" "i \<in> set ids" "i \<notin> set used" "start = ([], n)"
  shows "fst (pick_best score used ids start) \<noteq> []"
  using assms
proof (induction ids arbitrary: start n)
  case (Cons j ids)
  show ?case
  proof (cases "j \<in> set used")
    case True
    then have "pick_best score used (j # ids) start = pick_best score used ids start"
      by (simp add: pick_best_def Cons.prems(4))
    with Cons True show ?thesis by auto
  next
    case False
    then have "pick_best score used (j # ids) start = pick_best score used ids (j, score j)"
      by (simp add: pick_best_def Cons.prems(4))
    with Cons.prems(1) pick_best_keeps [of "(j, score j)" ids] show ?thesis by auto
  qed
qed simp

section \<open>The loop\<close>

lemma set_by_domain: "i \<in> set (by_domain key agents d) \<longleftrightarrow> (\<exists>a. (i, a) \<in> set agents \<and> shard_domain key (i, a) = d)"
  by (force simp: by_domain_def)

lemma next_agent_new:
  assumes "[] \<notin> set (map fst agents)"
  shows "next_agent sha256 obj index agents key c out = [] \<or>
    (next_agent sha256 obj index agents key c out \<in> set (map fst agents)
     \<and> next_agent sha256 obj index agents key c out \<notin> set out)"
proof -
  let ?d = "shard_domains key agents ! ((index + c) mod length (shard_domains key agents))"
  have sub: "set (by_domain key agents ?d) \<subseteq> set (map fst agents)" by (force simp: set_by_domain)
  then have "[] \<notin> set (by_domain key agents ?d)" using assms by auto
  note p = pick_best_result [OF this, of "rendezvousScore sha256 obj index c" out "([], 0)"]
  note q = pick_best_result [OF assms, of "rendezvousScore sha256 obj index c" out
      "pick_best (rendezvousScore sha256 obj index c) out (by_domain key agents ?d) ([], 0)"]
  show ?thesis using p q sub by (auto simp: next_agent_def Let_def)
qed

lemma next_agent_finds:
  assumes "[] \<notin> set (map fst agents)" "i \<in> set (map fst agents)" "i \<notin> set out"
  shows "next_agent sha256 obj index agents key c out \<noteq> []"
proof -
  have "fst (pick_best score out (map fst agents) p) \<noteq> []" if "fst p = []" for p score
    using pick_best_finds [OF assms, of p "snd p"] that by (metis prod.collapse)
  then show ?thesis by (simp add: next_agent_def Let_def)
qed

lemma next_agent_domain:
  assumes "[] \<notin> set (map fst agents)" "agents \<noteq> []"
    and d: "d = shard_domains key agents ! ((index + c) mod length (shard_domains key agents))"
    and unused: "\<And>i a. (i, a) \<in> set agents \<Longrightarrow> shard_domain key (i, a) = d \<Longrightarrow> i \<notin> set out"
  shows "\<exists>a. (next_agent sha256 obj index agents key c out, a) \<in> set agents
    \<and> shard_domain key (next_agent sha256 obj index agents key c out, a) = d"
proof -
  have ne: "shard_domains key agents \<noteq> []" using assms(2) by (simp add: shard_domains_def)
  then have "d \<in> set (shard_domains key agents)" unfolding d by (intro nth_mem) simp
  then obtain i a where ia: "(i, a) \<in> set agents" "shard_domain key (i, a) = d"
    by (auto simp: shard_domains_def)
  then have i: "i \<in> set (by_domain key agents d)" by (auto simp: set_by_domain)
  have no_empty: "[] \<notin> set (by_domain key agents d)" using assms(1) by (force simp: set_by_domain)
  let ?p = "pick_best (rendezvousScore sha256 obj index c) out (by_domain key agents d) ([], 0)"
  have "fst ?p \<noteq> []" using pick_best_finds [OF no_empty i unused [OF ia]] by simp
  moreover from this have "fst ?p \<in> set (by_domain key agents d)"
    using pick_best_result [OF no_empty, of "rendezvousScore sha256 obj index c" out "([], 0)"] by auto
  ultimately show ?thesis by (simp add: next_agent_def d [symmetric] Let_def set_by_domain)
qed

lemma desired_loop_props:
  assumes "[] \<notin> set (map fst agents)" "gwf agents"
  shows "distinct out \<Longrightarrow> set out \<subseteq> set (map fst agents) \<Longrightarrow> length out + n \<le> length agents \<Longrightarrow>
    distinct (desired_loop sha256 obj index agents key n c out)
    \<and> set (desired_loop sha256 obj index agents key n c out) \<subseteq> set (map fst agents)
    \<and> length (desired_loop sha256 obj index agents key n c out) = length out + n"
proof (induction n arbitrary: c out)
  case (Suc n)
  let ?b = "next_agent sha256 obj index agents key c out"
  have "card (set out) < card (set (map fst agents))"
    using Suc.prems assms(2) by (simp add: distinct_card del: set_map)
  then obtain i where "i \<in> set (map fst agents)" "i \<notin> set out"
    by (metis List.finite_set card_mono not_le subsetI)
  from next_agent_finds [OF assms(1) this] have "?b \<noteq> []" .
  with next_agent_new [OF assms(1)] have b: "?b \<in> set (map fst agents)" "?b \<notin> set out" by blast+
  with Suc.IH [of "out @ [?b]" "c + 1"] Suc.prems \<open>?b \<noteq> []\<close> show ?case by (simp add: Let_def)
qed simp

section \<open>Spreading over domains\<close>

definition agent_domain :: "string \<Rightarrow> (string, agent) gomap \<Rightarrow> string \<Rightarrow> string" where
  "agent_domain key agents i = (case gget agents i of None \<Rightarrow> [] | Some a \<Rightarrow> shard_domain key (i, a))"

lemma agent_domain_eq: "gwf agents \<Longrightarrow> (i, a) \<in> set agents \<Longrightarrow> agent_domain key agents i = shard_domain key (i, a)"
  by (simp add: agent_domain_def)

lemma distinct_shard_domains: "distinct (shard_domains key agents)"
  by (simp add: shard_domains_def)

lemma mod_shift_le:
  fixes k c n :: nat
  assumes "(index + c) mod n = (index + k) mod n" "k \<le> c" "c < n"
  shows "k = c"
proof -
  have "n dvd (index + c) - (index + k)" using assms(1,2) by (subst mod_eq_dvd_iff_nat [symmetric]) auto
  then have "n dvd c - k" by simp
  with assms(2,3) show ?thesis by (auto dest: dvd_imp_le)
qed

lemma mod_shift_inj:
  fixes k c n :: nat
  assumes "(index + k) mod n = (index + c) mod n" "k < n" "c < n"
  shows "k = c"
  using assms mod_shift_le [of index c n k] mod_shift_le [of index k n c] by (cases "k \<le> c") auto

definition on_schedule :: "string \<Rightarrow> nat \<Rightarrow> (string, agent) gomap \<Rightarrow> string list \<Rightarrow> bool" where
  "on_schedule key index agents out = (\<forall>k < length out. out ! k \<in> set (map fst agents) \<and>
     agent_domain key agents (out ! k)
       = shard_domains key agents ! ((index + k) mod length (shard_domains key agents)))"

lemma on_schedule_snoc:
  assumes ids: "[] \<notin> set (map fst agents)" "gwf agents" "agents \<noteq> []"
    and sched: "on_schedule key index agents out" and room: "length out < length (shard_domains key agents)"
  shows "on_schedule key index agents (out @ [next_agent sha256 obj index agents key (length out) out])"
proof -
  let ?D = "shard_domains key agents" and ?c = "length out"
  let ?d = "?D ! ((index + ?c) mod length ?D)" and ?b = "next_agent sha256 obj index agents key (length out) out"
  have "i \<notin> set out" if ia: "(i, a) \<in> set agents" "shard_domain key (i, a) = ?d" for i a
  proof
    assume "i \<in> set out"
    then obtain k where k: "k < ?c" "out ! k = i" by (auto simp: in_set_conv_nth)
    with sched ia agent_domain_eq [OF ids(2) ia(1), of key]
    have "?D ! ((index + k) mod length ?D) = ?d" by (auto simp: on_schedule_def)
    moreover have "(index + k) mod length ?D < length ?D" "(index + ?c) mod length ?D < length ?D"
      using room by (auto intro: mod_less_divisor)
    ultimately have "(index + k) mod length ?D = (index + ?c) mod length ?D"
      using distinct_shard_domains nth_eq_iff_index_eq by blast
    with mod_shift_inj [of index k "length ?D" ?c] k(1) room show False by simp
  qed
  then have "\<exists>a. (?b, a) \<in> set agents \<and> shard_domain key (?b, a) = ?d"
    by (intro next_agent_domain [OF ids(1,3) refl]) auto
  then obtain a where "(?b, a) \<in> set agents" "shard_domain key (?b, a) = ?d" by blast
  then have "?b \<in> set (map fst agents)" "agent_domain key agents ?b = ?d"
    using agent_domain_eq [OF ids(2)] by (force, metis)
  then show ?thesis using sched by (auto simp: on_schedule_def nth_append less_Suc_eq)
qed

lemma desired_loop_schedule:
  assumes "[] \<notin> set (map fst agents)" "gwf agents" "agents \<noteq> []"
  shows "on_schedule key index agents out \<Longrightarrow> length out + n \<le> length (shard_domains key agents) \<Longrightarrow>
    on_schedule key index agents (desired_loop sha256 obj index agents key n (length out) out)"
proof (induction n arbitrary: out)
  case (Suc n)
  let ?b = "next_agent sha256 obj index agents key (length out) out"
  have s: "on_schedule key index agents (out @ [?b])" using on_schedule_snoc [OF assms Suc.prems(1)] Suc.prems(2) by simp
  have "(out @ [?b]) ! length out \<in> set (map fst agents)"
    using s unfolding on_schedule_def by fastforce
  then have "?b \<noteq> []" using assms(1) by (metis nth_append_length)
  with Suc.IH [OF s] Suc.prems(2) show ?case by (simp add: Let_def)
qed simp

lemma on_schedule_distinct:
  assumes "on_schedule key index agents out" "length out \<le> length (shard_domains key agents)"
  shows "distinct (map (agent_domain key agents) out)"
proof (subst distinct_conv_nth, intro allI impI, unfold length_map)
  fix k c
  let ?D = "shard_domains key agents"
  assume kc: "k < length out" "c < length out" "k \<noteq> c"
  then have "(index + k) mod length ?D \<noteq> (index + c) mod length ?D"
    using mod_shift_inj [of index k "length ?D" c] assms(2) by auto
  moreover have "(index + k) mod length ?D < length ?D" "(index + c) mod length ?D < length ?D"
    using kc assms(2) by (auto intro: mod_less_divisor)
  ultimately show "map (agent_domain key agents) out ! k \<noteq> map (agent_domain key agents) out ! c"
    using assms(1) kc nth_eq_iff_index_eq [OF distinct_shard_domains, of "(index + k) mod length ?D" key agents]
    by (simp add: on_schedule_def)
qed

section \<open>Properties\<close>

text \<open>
  C7. The placement of a shard's copies is complete and spread: as many different eligible agents as
  copies are wanted (all of them when there are fewer), and, as long as there are at least as many
  failure domains as copies, each copy in a different failure domain.
\<close>

theorem shard_placement_spread:
  assumes "[] \<notin> set (map fst agents)" "gwf agents" "1 \<le> copies"
  shows "distinct (desiredShardAgents sha256 obj index copies agents key)
    \<and> set (desiredShardAgents sha256 obj index copies agents key) \<subseteq> set (map fst agents)
    \<and> length (desiredShardAgents sha256 obj index copies agents key) = min (nat copies) (length agents)
    \<and> (copies \<le> int (length (shard_domains key agents)) \<longrightarrow>
        distinct (map (agent_domain key agents) (desiredShardAgents sha256 obj index copies agents key)))"
proof (cases "agents = []")
  case False
  let ?out = "desired_loop sha256 obj index agents key (min (nat copies) (length agents)) 0 []"
  have props: "distinct ?out \<and> set ?out \<subseteq> set (map fst agents) \<and> length ?out = min (nat copies) (length agents)"
    using desired_loop_props [OF assms(1,2), of "[]" "min (nat copies) (length agents)"] by simp
  have "distinct (map (agent_domain key agents) ?out)" if "copies \<le> int (length (shard_domains key agents))"
  proof -
    have "on_schedule key index agents ?out"
      using desired_loop_schedule [OF assms(1,2) False, of key index "[]" "min (nat copies) (length agents)" sha256 obj] that
      by (auto simp: on_schedule_def)
    then show ?thesis using on_schedule_distinct props that by fastforce
  qed
  with props False assms(3) show ?thesis by (simp add: desiredShardAgents_def)
qed (simp add: desiredShardAgents_def)

definition rack_agent :: "string \<Rightarrow> string \<Rightarrow> agent" where
  "rack_agent i rack = zero_agent\<lparr>a_ID := i, a_LabelsJSON := Some (JObj [(''rack'', JStr rack)])\<rparr>"

theorem shard_placement_spread_witness:
  "distinct (map (agent_domain ''rack'' [(''a'', rack_agent ''a'' ''r1''), (''b'', rack_agent ''b'' ''r2'')])
     (desiredShardAgents (\<lambda>s. s) ''o'' 1 2 [(''a'', rack_agent ''a'' ''r1''), (''b'', rack_agent ''b'' ''r2'')] ''rack''))"
  using shard_placement_spread [of "[(''a'', rack_agent ''a'' ''r1''), (''b'', rack_agent ''b'' ''r2'')]" 2
      "\<lambda>s. s" "''o''" 1 "''rack''"]
  by (simp add: shard_domains_def shard_domain_def agentFailureDomain_def rack_agent_def zero_agent_def
      TrimSpace_def is_space_def LocalWorkerAffinity_def)

end
