(* ===== verification/Erasure_Dist.thy ===== *)
theory Erasure_Dist
  imports Replication Shard_Placement
begin

text \<open>
  Distributed erasure coding (\<^verbatim>\<open>erasure_distributed.go\<close>) and distributed repair
  (\<^verbatim>\<open>repair_distributed.go\<close>): the reconciler that asks nodes to protect objects and spreads shards,
  the health evaluation, and the scheduling of a repair from remote shards.
\<close>

section \<open>Helpers over job and shard lists\<close>

definition recentlyRanJob :: "job list \<Rightarrow> string \<Rightarrow> string \<Rightarrow> duration \<Rightarrow> time \<Rightarrow> bool" where
  "recentlyRanJob jobs kind affinity interval now =
     (\<exists>j \<in> set jobs. j_Kind j = kind \<and> j_Affinity j = affinity
        \<and> (job_active j \<or> (j_Status j = JobSucceeded \<and> time_Sub now (j_UpdatedAt j) < interval)))"

definition activeJobExists :: "job list \<Rightarrow> string \<Rightarrow> string \<Rightarrow> bool" where
  "activeJobExists jobs kind target = (\<exists>j \<in> set jobs. j_Kind j = kind \<and> j_Target j = target \<and> job_active j)"

definition hasReadyShardOn :: "erasure_shard list \<Rightarrow> string \<Rightarrow> bool" where
  "hasReadyShardOn xs agnt = (\<exists>sh \<in> set xs. sh_AgentID sh = agnt \<and> sh_State sh = ShardReady)"

definition selectShardSource :: "erasure_shard list \<Rightarrow> (string, agent) gomap \<Rightarrow> string \<Rightarrow> string" where
  "selectShardSource xs agents digest =
     (case sort_strings (map sh_AgentID (filter (\<lambda>sh. sh_State sh = ShardReady
          \<and> EqualFold (sh_ShardSHA256 sh) digest \<and> gget agents (sh_AgentID sh) \<noteq> None) xs)) of
        [] \<Rightarrow> [] | i # _ \<Rightarrow> i)"

text \<open>\<^verbatim>\<open>byIndex[idx]\<close>\<close>

definition ready_at :: "erasure_shard list \<Rightarrow> int \<Rightarrow> erasure_shard list" where
  "ready_at shards idx = filter (\<lambda>sh. sh_State sh = ShardReady \<and> sh_ShardIndex sh = idx) shards"

section \<open>The reconciler\<close>

definition local_erasure_agent :: "config \<Rightarrow> string result \<Rightarrow> storage_report \<Rightarrow> time \<Rightarrow> agent result" where
  "local_erasure_agent c pub hr now = (case pub of Inl e \<Rightarrow> Inl e
     | Inr p \<Rightarrow> Inr (local_agent p (Some (JObj (map (\<lambda>(k, v). (k, JStr v)) (c_AgentLabels c)))) hr now))"

text \<open>The pair of the maps \<^verbatim>\<open>readable\<close> and \<^verbatim>\<open>eligible\<close>.\<close>

definition note_agent ::
  "storage_data_config \<Rightarrow> agent \<Rightarrow> (string, agent) gomap \<times> (string, agent) gomap \<Rightarrow>
   (string, agent) gomap \<times> (string, agent) gomap" where
  "note_agent scfg a m =
     ((if agentReadable a scfg then gput (a_ID a) a (fst m) else fst m),
      (if agentAcceptsPlacement a scfg then gput (a_ID a) a (snd m) else snd m))"

definition erasure_roles ::
  "config \<Rightarrow> string result \<Rightarrow> storage_report \<Rightarrow> time \<Rightarrow> agent list \<Rightarrow> (string, agent) gomap \<times> (string, agent) gomap" where
  "erasure_roles c pub hr now agents =
     (let rcfg = c_Replication c; scfg = c_Storage c;
          m = fold (\<lambda>a m. if \<not> agentAllowed (a_ID a) (rc_AllowedAgents rcfg) (rc_ExcludedAgents rcfg)
                    \<or> agent_stale now (agent_timeout rcfg) a \<or> TrimSpace (a_ReplicationPublicKey a) = []
                    \<or> \<not> agentInShardPool a (ec_ShardPoolLabel (sc_Erasure scfg)) then m
                 else note_agent scfg a m) agents ([], [])
      in if rc_IncludeLocal rcfg
         then (case local_erasure_agent c pub hr now of Inl _ \<Rightarrow> m | Inr a \<Rightarrow> note_agent scfg a m) else m)"

definition queue_protect ::
  "'s store_iface \<Rightarrow> (string \<Rightarrow> nat \<Rightarrow> string) \<Rightarrow> config \<Rightarrow> time \<Rightarrow> job list \<Rightarrow> string \<Rightarrow> 's run \<Rightarrow> 's run" where
  "queue_protect S newID c now jobs i r =
     (if recentlyRanJob jobs ''protect-erasure'' i
           (dur_or (5 * minute) (ec_ReconcileInterval (sc_Erasure (c_Storage c)))) now then r
      else queue_job S newID now
             (mk_job ''protect-erasure'' i (Some (JObj [])) i 90 (wk_MaxAttempts (c_Workers c)) now) r)"

definition shard_payload ::
  "string \<Rightarrow> string \<Rightarrow> string \<Rightarrow> string \<Rightarrow> string \<Rightarrow> int \<Rightarrow> string \<Rightarrow> int \<Rightarrow> string \<Rightarrow> replicate_cas_payload" where
  "shard_payload transferID source target key obj idx digest bytes leaseID =
     \<lparr>rca_TransferID = transferID, rca_SourceAgent = source, rca_TargetAgent = target,
      rca_TargetReplicationPubKey = key, rca_PoolAgents = [target], rca_Factor = 1, rca_Prefixes = [],
      rca_Digests = [digest], rca_Erasure = Some \<lparr>et_ObjectSHA256 = obj, et_ShardIndex = idx,
        et_ShardSHA256 = digest, et_ShardBytes = bytes, et_LeaseID = leaseID\<rparr>,
      rca_SourceInventoryRoot = [], rca_TargetInventoryRoot = []\<rparr>"

text \<open>Acquire the object lease that protects the shard during the transfer, then queue the transfer.\<close>

definition lease_then_queue ::
  "'s store_iface \<Rightarrow> (string \<Rightarrow> nat \<Rightarrow> string) \<Rightarrow> config \<Rightarrow> time \<Rightarrow> string \<Rightarrow> string \<Rightarrow> string \<Rightarrow>
   (string \<Rightarrow> string \<Rightarrow> job) \<Rightarrow> string \<Rightarrow> 's run \<Rightarrow> 's run" where
  "lease_then_queue S newID c now idPrefix leasePrefix owner mk digest r =
     (let transferID = newID idPrefix (rn_ids r); leaseID = leasePrefix @ transferID;
          l = \<lparr>ol_ID = leaseID, ol_Digest = digest, ol_Owner = owner,
               ol_ExpiresAt = now + transfer_ttl (c_Replication c), ol_UpdatedAt = zero_time\<rparr>
      in (case i_AcquireObjectLease S now [] l (rn_st r) of
            (Inl e, st) \<Rightarrow> r\<lparr>rn_err := Some e, rn_ids := rn_ids r + 1, rn_st := st\<rparr>
          | (Inr _, st) \<Rightarrow> queue_job S newID now (mk transferID leaseID) (r\<lparr>rn_ids := rn_ids r + 1, rn_st := st\<rparr>)))"

definition shard_job_target :: "string \<Rightarrow> nat \<Rightarrow> string \<Rightarrow> string" where
  "shard_job_target obj idx target = ''ers:'' @ obj @ '':'' @ pad0 3 idx @ ''@'' @ target"

definition queue_shard_copy ::
  "'s store_iface \<Rightarrow> (string \<Rightarrow> nat \<Rightarrow> string) \<Rightarrow> config \<Rightarrow> time \<Rightarrow> job list \<Rightarrow>
   (string, agent) gomap \<times> (string, agent) gomap \<Rightarrow> string \<Rightarrow> nat \<Rightarrow> erasure_shard list \<Rightarrow> string \<Rightarrow> 's run \<Rightarrow> 's run" where
  "queue_shard_copy S newID c now jobs ro obj idx existing target r =
     (let shardDigest = sh_ShardSHA256 (hd existing); shardBytes = sh_Bytes (hd existing);
          source = selectShardSource existing (fst ro) shardDigest; ta = agent_in (snd ro) target;
          jobTarget = shard_job_target obj idx target
      in if hasReadyShardOn existing target then r
         else if source = [] \<or> source = target then r
         else if \<not> agentHasCapacityFor ta (c_Storage c) shardBytes then r
         else if activeJobExists jobs ''replicate-cas'' jobTarget then r
         else lease_then_queue S newID c now ''ersrepl'' ''xfer:'' jobTarget
                (\<lambda>transferID leaseID. mk_job ''replicate-cas'' jobTarget
                   (marshal_replicate_cas (shard_payload transferID source target (a_ReplicationPublicKey ta)
                      obj (int idx) shardDigest shardBytes leaseID))
                   source 135 (wk_MaxAttempts (c_Workers c)) now) shardDigest r)"

definition spread_set ::
  "'s store_iface \<Rightarrow> (string \<Rightarrow> nat \<Rightarrow> string) \<Rightarrow> (string \<Rightarrow> string) \<Rightarrow> config \<Rightarrow> time \<Rightarrow> job list \<Rightarrow>
   (string, agent) gomap \<times> (string, agent) gomap \<Rightarrow> erasure_set \<Rightarrow> 's run \<Rightarrow> 's run" where
  "spread_set S newID sha256 c now jobs ro e r =
     (case i_ListErasureShards S (es_ObjectSHA256 e) (rn_st r) of
        Inl err \<Rightarrow> r\<lparr>rn_err := Some err\<rparr>
      | Inr shards \<Rightarrow>
          loop (\<lambda>idx r. let existing = ready_at shards (int idx); ecfg = sc_Erasure (c_Storage c) in
             if existing = [] then r
             else loop (queue_shard_copy S newID c now jobs ro (es_ObjectSHA256 e) idx existing)
                    (desiredShardAgents sha256 (es_ObjectSHA256 e) idx (ec_ShardReplication ecfg) (snd ro)
                       (ec_FailureDomainLabel ecfg)) r)
            [0..<nat (es_DataShards e + es_ParityShards e)] r)"

definition ErasureReconcile ::
  "'s store_iface \<Rightarrow> (string \<Rightarrow> nat \<Rightarrow> string) \<Rightarrow> (string \<Rightarrow> string) \<Rightarrow> config \<Rightarrow> string result \<Rightarrow> storage_report \<Rightarrow>
   time \<Rightarrow> 's run \<Rightarrow> 's run" where
  "ErasureReconcile S newID sha256 c pub hr now r =
     (let cfg = sc_Erasure (c_Storage c) in
      if \<not> ec_Enabled cfg \<or> \<not> ec_Distributed cfg then r
      else (case i_ListAgents S (rn_st r) of Inl e \<Rightarrow> r\<lparr>rn_err := Some e\<rparr> | Inr agents \<Rightarrow>
        let ro = erasure_roles c pub hr now agents;
            jobs = (case i_ListJobs S 50000 (rn_st r) of Inl _ \<Rightarrow> [] | Inr js \<Rightarrow> js);
            r1 = loop (queue_protect S newID c now jobs) (map fst (fst ro)) r
        in if \<not> ok r1 then r1
           else (case i_ListErasureSets S 20000 (rn_st r1) of
                   Inl e \<Rightarrow> r1\<lparr>rn_err := Some e\<rparr>
                 | Inr sets \<Rightarrow> loop (spread_set S newID sha256 c now jobs ro) sets r1)))"

section \<open>Health\<close>

record distributed_erasure_health =
  eh_Sets :: nat
  eh_Healthy :: nat
  eh_Degraded :: nat
  eh_Unrecoverable :: nat
  eh_ShardCopies :: nat
  eh_FailureDomainDeficits :: nat

definition online_shard_agents :: "config \<Rightarrow> time \<Rightarrow> agent list \<Rightarrow> (string, agent) gomap" where
  "online_shard_agents c now agents =
     fold (\<lambda>a m. if time_Sub now (a_LastSeenAt a) \<le> agent_timeout (c_Replication c)
               \<and> agentCountsDurable a (c_Storage c)
               \<and> agentInShardPool a (ec_ShardPoolLabel (sc_Erasure (c_Storage c)))
             then gput (a_ID a) a m else m) agents []"

text \<open>The index and the failure domain of every ready copy on a counted agent.\<close>

definition live_copies :: "string \<Rightarrow> (string, agent) gomap \<Rightarrow> erasure_shard list \<Rightarrow> (int \<times> string) list" where
  "live_copies key online shards =
     map (\<lambda>sh. (sh_ShardIndex sh, shard_domain key (sh_AgentID sh, agent_in online (sh_AgentID sh))))
       (filter (\<lambda>sh. sh_State sh = ShardReady \<and> gget online (sh_AgentID sh) \<noteq> None) shards)"

text \<open>How many shard indices keep a copy outside the failure domain \<open>lost\<close>.\<close>

definition remaining :: "(int \<times> string) list \<Rightarrow> string \<Rightarrow> nat" where
  "remaining live lost = length (remdups (map fst (filter (\<lambda>(i, d). d \<noteq> lost) live)))"

definition health_set ::
  "erasure_config \<Rightarrow> (string, agent) gomap \<Rightarrow> erasure_set \<Rightarrow> erasure_shard list \<Rightarrow>
   distributed_erasure_health \<Rightarrow> distributed_erasure_health" where
  "health_set cfg online e shards h =
     (let live = live_copies (ec_FailureDomainLabel cfg) online shards;
          h1 = h\<lparr>eh_ShardCopies := eh_ShardCopies h + length live\<rparr>;
          domains = remdups (map snd live);
          resilient = list_all (\<lambda>lost. int (remaining live lost) \<ge> es_DataShards e) domains
      in if int (length (remdups (map fst live))) < es_DataShards e
         then h1\<lparr>eh_Unrecoverable := eh_Unrecoverable h + 1\<rparr>
         else if int (length domains) < ec_MinFailureDomains cfg \<or> \<not> resilient
         then h1\<lparr>eh_Degraded := eh_Degraded h + 1, eh_FailureDomainDeficits := eh_FailureDomainDeficits h + 1\<rparr>
         else h1\<lparr>eh_Healthy := eh_Healthy h + 1\<rparr>)"

primrec health_sets ::
  "'s store_iface \<Rightarrow> erasure_config \<Rightarrow> (string, agent) gomap \<Rightarrow> 's \<Rightarrow> erasure_set list \<Rightarrow>
   distributed_erasure_health \<Rightarrow> distributed_erasure_health \<times> go_error option" where
  "health_sets S cfg online st [] h = (h, None)"
| "health_sets S cfg online st (e # es) h =
     (case i_ListErasureShards S (es_ObjectSHA256 e) st of
        Inl err \<Rightarrow> (h, Some err)
      | Inr shards \<Rightarrow> health_sets S cfg online st es (health_set cfg online e shards h))"

definition EvaluateDistributedErasureHealth ::
  "'s store_iface \<Rightarrow> config \<Rightarrow> time \<Rightarrow> 's \<Rightarrow> distributed_erasure_health \<times> go_error option" where
  "EvaluateDistributedErasureHealth S c now st =
     (let h = \<lparr>eh_Sets = 0, eh_Healthy = 0, eh_Degraded = 0, eh_Unrecoverable = 0, eh_ShardCopies = 0,
               eh_FailureDomainDeficits = 0\<rparr>; cfg = sc_Erasure (c_Storage c) in
      if \<not> ec_Enabled cfg \<or> \<not> ec_Distributed cfg then (h, None)
      else (case i_ListAgents S st of Inl e \<Rightarrow> (h, Some e) | Inr agents \<Rightarrow>
           (case i_ListErasureSets S 20000 st of Inl e \<Rightarrow> (h, Some e) | Inr sets \<Rightarrow>
             health_sets S cfg (online_shard_agents c now agents) st sets (h\<lparr>eh_Sets := length sets\<rparr>))))"

section \<open>Distributed repair\<close>

definition repair_online :: "config \<Rightarrow> time \<Rightarrow> agent list \<Rightarrow> (string, agent) gomap" where
  "repair_online c now agents =
     fold (\<lambda>a m. if time_Sub now (a_LastSeenAt a) \<le> agent_timeout (c_Replication c)
               \<and> agentReadable a (c_Storage c) \<and> TrimSpace (a_ReplicationPublicKey a) \<noteq> []
             then gput (a_ID a) a m else m) agents []"

text \<open>The loop over shard indices; it stops when enough shards are chosen or at an error.\<close>

fun repair_loop ::
  "'s store_iface \<Rightarrow> (string \<Rightarrow> nat \<Rightarrow> string) \<Rightarrow> config \<Rightarrow> time \<Rightarrow> (string, agent) gomap \<Rightarrow> string \<Rightarrow> string \<Rightarrow>
   int \<Rightarrow> erasure_shard list \<Rightarrow> int list \<Rightarrow> repair_shard list \<Rightarrow> 's run \<Rightarrow> repair_shard list \<times> 's run" where
  "repair_loop S newID c now online target digest need shards [] chosen r = (chosen, r)"
| "repair_loop S newID c now online target digest need shards (idx # idxs) chosen r =
     (if int (length chosen) \<ge> need then (chosen, r)
      else (case find (\<lambda>sh. gget online (sh_AgentID sh) \<noteq> None) (ready_at shards idx) of
        None \<Rightarrow> repair_loop S newID c now online target digest need shards idxs chosen r
      | Some sh \<Rightarrow>
          let chosen1 = chosen @ [\<lparr>rs_Index = idx, rs_Digest = sh_ShardSHA256 sh, rs_Bytes = sh_Bytes sh\<rparr>];
              r1 = (if sh_AgentID sh = target then r
                    else lease_then_queue S newID c now ''repairshard'' ''repair:'' (''repair:'' @ digest @ ''@'' @ target)
                      (\<lambda>transferID leaseID. mk_job ''replicate-cas''
                         (''repairshard:'' @ digest @ '':'' @ itoa idx @ ''@'' @ target)
                         (marshal_replicate_cas (shard_payload transferID (sh_AgentID sh) target
                            (a_ReplicationPublicKey (agent_in online target)) digest idx (sh_ShardSHA256 sh)
                            (sh_Bytes sh) leaseID))
                         (sh_AgentID sh) 190 (wk_MaxAttempts (c_Workers c)) now) (sh_ShardSHA256 sh) r)
          in if ok r1 then repair_loop S newID c now online target digest need shards idxs chosen1 r1
             else (chosen1, r1)))"

definition ScheduleDistributedRepair ::
  "'s store_iface \<Rightarrow> (string \<Rightarrow> nat \<Rightarrow> string) \<Rightarrow> config \<Rightarrow> time \<Rightarrow> string \<Rightarrow> string \<Rightarrow> 's run \<Rightarrow> 's run" where
  "ScheduleDistributedRepair S newID c now target digest r =
     (let fail = (\<lambda>e. r\<lparr>rn_err := Some e\<rparr>); st = rn_st r in
      case i_GetErasureSet S digest st of Inl e \<Rightarrow> fail e
      | Inr None \<Rightarrow> fail (GoErr (''no erasure set for '' @ digest))
      | Inr (Some e) \<Rightarrow>
        (case i_ListErasureShards S digest st of Inl err \<Rightarrow> fail err | Inr shards \<Rightarrow>
        (case i_ListAgents S st of Inl err \<Rightarrow> fail err | Inr agents \<Rightarrow>
          let online = repair_online c now agents in
          if gget online target = None
          then fail (GoErr (''repair target '' @ target @ '' is offline/unreadable''))
          else
            let indices = sort_less (<) (remdups (map sh_ShardIndex (filter (\<lambda>sh. sh_State sh = ShardReady) shards)));
                res = repair_loop S newID c now online target digest (es_DataShards e) shards indices [] r;
                chosen = fst res; r1 = snd res
            in if \<not> ok r1 then r1
               else if int (length chosen) < es_DataShards e
               then r1\<lparr>rn_err := Some (GoErr (''only '' @ show_nat (length chosen) @ ''/''
                      @ itoa (es_DataShards e) @ '' distinct repair shards online''))\<rparr>
               else queue_job S newID now (mk_job ''repair-object'' (''repair:'' @ digest @ ''@'' @ target)
                      (marshal_repair_object \<lparr>ro_Digest = digest, ro_OriginalBytes = es_OriginalBytes e,
                         ro_DataShards = es_DataShards e, ro_ParityShards = es_ParityShards e,
                         ro_BlockBytes = es_BlockBytes e, ro_Shards = chosen\<rparr>)
                      target 180 (max (wk_MaxAttempts (c_Workers c)) 8) (now + 5 * second)) r1)))"

end
