(* ===== verification/Replication_Plan.thy ===== *)
theory Replication_Plan
  imports Replication
begin

text \<open>
  Facts about the replication plan: what the roles of agents guarantee, which replicas a view
  counts, that planned copies are safe, and that executing a full plan removes the deficit.
\<close>

section \<open>Roles\<close>

definition roles_ok :: "storage_data_config \<Rightarrow> roles \<Rightarrow> bool" where
  "roles_ok scfg ro = (gwf (ro_placement ro) \<and> gwf (ro_online ro) \<and> gwf (ro_target ro)
     \<and> (\<forall>i a. gget (ro_target ro) i = Some a \<longrightarrow> gget (ro_online ro) i = Some a
          \<and> gget (ro_placement ro) i = Some a \<and> agentAcceptsPlacement a scfg \<and> a_ID a = i)
     \<and> (\<forall>i a. gget (ro_online ro) i = Some a \<longrightarrow> gget (ro_placement ro) i = Some a))"

definition roles_within :: "string set \<Rightarrow> roles \<Rightarrow> bool" where
  "roles_within A ro = (\<forall>i. gget (ro_placement ro) i \<noteq> None \<longrightarrow> i \<in> A)"

lemma roles_not_within:
  assumes "roles_ok scfg ro" "roles_within A ro" "i \<notin> A"
  shows "gget (ro_placement ro) i = None" "gget (ro_online ro) i = None" "gget (ro_target ro) i = None"
proof -
  show p: "gget (ro_placement ro) i = None" using assms(2,3) by (auto simp: roles_within_def)
  show o: "gget (ro_online ro) i = None"
    using assms(1) p by (cases "gget (ro_online ro) i") (auto simp: roles_ok_def)
  show "gget (ro_target ro) i = None"
    using assms(1) o by (cases "gget (ro_target ro) i") (auto simp: roles_ok_def)
qed

lemma roles_ok_put:
  assumes "roles_ok scfg ro" "gget (ro_online ro) i = None" "gget (ro_target ro) i = None" "a_ID a = i"
  shows "roles_ok scfg (ro\<lparr>ro_placement := gput i a (ro_placement ro)\<rparr>)"
    and "roles_ok scfg (ro\<lparr>ro_placement := gput i a (ro_placement ro), ro_online := gput i a (ro_online ro)\<rparr>)"
    and "agentAcceptsPlacement a scfg \<Longrightarrow> roles_ok scfg (ro\<lparr>ro_placement := gput i a (ro_placement ro),
       ro_online := gput i a (ro_online ro), ro_target := gput i a (ro_target ro)\<rparr>)"
  using assms by (simp_all add: roles_ok_def)

lemma add_agent_ok:
  assumes ok: "roles_ok scfg ro" and within: "roles_within A ro" and new: "a_ID a \<notin> A"
  shows "roles_ok scfg (add_agent cfg scfg now a ro)" "roles_within (insert (a_ID a) A) (add_agent cfg scfg now a ro)"
proof -
  note none = roles_not_within [OF ok within new]
  show "roles_ok scfg (add_agent cfg scfg now a ro)"
    using ok none by (simp add: add_agent_def Let_def roles_ok_put)
  show "roles_within (insert (a_ID a) A) (add_agent cfg scfg now a ro)"
    using within by (auto simp: roles_within_def add_agent_def Let_def split: if_splits)
qed

lemma fold_add_agent_ok:
  "roles_ok scfg ro \<Longrightarrow> roles_within A ro \<Longrightarrow> distinct (map a_ID agents) \<Longrightarrow> A \<inter> a_ID ` set agents = {} \<Longrightarrow>
   roles_ok scfg (fold (add_agent cfg scfg now) agents ro)
   \<and> roles_within (A \<union> a_ID ` set agents) (fold (add_agent cfg scfg now) agents ro)"
proof (induction agents arbitrary: ro A)
  case (Cons a as)
  then have "a_ID a \<notin> A" by auto
  note one = add_agent_ok [OF Cons.prems(1,2) this, of cfg now]
  show ?case
    using Cons.IH [OF one] Cons.prems(3,4) by auto
qed (simp add: roles_within_def)

lemma agent_roles_ok:
  assumes "agent_roles c pub hr now agents = Inr ro"
    and "distinct (map a_ID agents)" "LocalWorkerAffinity \<notin> a_ID ` set agents"
  shows "roles_ok (c_Storage c) ro"
proof -
  let ?empty = "\<lparr>ro_placement = [], ro_online = [], ro_target = []\<rparr>"
  let ?r = "fold (add_agent (c_Replication c) (c_Storage c) now) agents ?empty"
  have r: "roles_ok (c_Storage c) ?r" "roles_within (a_ID ` set agents) ?r"
    using fold_add_agent_ok [of "c_Storage c" ?empty "{}" agents "c_Replication c" now] assms(2)
    by (simp_all add: roles_ok_def roles_within_def)
  note none = roles_not_within [OF r assms(3)]
  have "roles_ok (c_Storage c) (add_local (c_Storage c) (local_agent p local_labels hr now) ?r)" for p
    using r(1) none by (simp add: add_local_def Let_def roles_ok_put local_agent_def)
  with assms(1) r(1) show ?thesis by (auto simp: agent_roles_def Let_def split: if_splits sum.splits)
qed

section \<open>What a view counts\<close>

definition counted :: "storage_data_config \<Rightarrow> roles \<Rightarrow> generation_replica \<Rightarrow> bool" where
  "counted scfg ro rp = (rp_State rp = ReplicaReady \<and> (\<exists>a. gget (ro_placement ro) (rp_AgentID rp) = Some a
     \<and> (\<not> sc_EvacuateDegraded scfg \<or> agentCountsDurable a scfg)))"

definition counted_healthy :: "roles \<Rightarrow> generation_replica \<Rightarrow> bool" where
  "counted_healthy ro rp = (rp_State rp = ReplicaReady \<and> gget (ro_placement ro) (rp_AgentID rp) \<noteq> None
     \<and> gget (ro_target ro) (rp_AgentID rp) \<noteq> None)"

lemma gkeys_gput: "set (gkeys (gput k v m)) = insert k (set (gkeys m))"
  by (simp add: update_keys) (auto simp: image_iff)

lemma view_snoc: "view_generation cfg scfg ro (reps @ [rp]) = view_replica cfg scfg ro rp (view_generation cfg scfg ro reps)"
  by (simp add: view_generation_def)

lemma view_keys:
  "set (gkeys (gv_ready (view_generation cfg scfg ro reps))) = rp_AgentID ` {rp \<in> set reps. counted scfg ro rp}"
  "set (gkeys (gv_healthy (view_generation cfg scfg ro reps))) = rp_AgentID ` {rp \<in> set reps. counted_healthy ro rp}"
proof (induction reps rule: rev_induct)
  case (snoc rp reps)
  let ?v = "view_generation cfg scfg ro reps"
  have 1: "set (gkeys (gv_ready (view_replica cfg scfg ro rp ?v)))
      = (if counted scfg ro rp then insert (rp_AgentID rp) (set (gkeys (gv_ready ?v))) else set (gkeys (gv_ready ?v)))"
    by (simp add: view_replica_def counted_def Let_def gkeys_gput del: set_map split: option.split)
  have 2: "set (gkeys (gv_healthy (view_replica cfg scfg ro rp ?v)))
      = (if counted_healthy ro rp then insert (rp_AgentID rp) (set (gkeys (gv_healthy ?v))) else set (gkeys (gv_healthy ?v)))"
    by (simp add: view_replica_def counted_healthy_def Let_def gkeys_gput del: set_map split: option.split)
  show "set (gkeys (gv_ready (view_generation cfg scfg ro (reps @ [rp])))) = rp_AgentID ` {r \<in> set (reps @ [rp]). counted scfg ro r}"
    unfolding view_snoc 1 snoc(1) by auto
  show "set (gkeys (gv_healthy (view_generation cfg scfg ro (reps @ [rp])))) = rp_AgentID ` {r \<in> set (reps @ [rp]). counted_healthy ro r}"
    unfolding view_snoc 2 snoc(2) by auto
qed (simp_all add: view_generation_def)

lemma view_wf:
  "gwf (gv_ready (view_generation cfg scfg ro reps)) \<and> gwf (gv_healthy (view_generation cfg scfg ro reps))"
proof (induction reps rule: rev_induct)
  case (snoc rp reps)
  then show ?case by (auto simp: view_snoc view_replica_def Let_def split: option.split)
qed (simp add: view_generation_def)

lemma view_length:
  "length (gv_ready (view_generation cfg scfg ro reps)) = card (rp_AgentID ` {rp \<in> set reps. counted scfg ro rp})"
  "length (gv_healthy (view_generation cfg scfg ro reps)) = card (rp_AgentID ` {rp \<in> set reps. counted_healthy ro rp})"
  using view_wf [of cfg scfg ro reps] view_keys [of cfg scfg ro reps]
  by (metis distinct_card length_map)+

section \<open>Safety of the plan\<close>

lemma targets_props:
  assumes "roles_ok scfg ro"
  shows "distinct (generation_targets cfg scfg ro v reps)"
    and "t \<in> set (generation_targets cfg scfg ro v reps) \<longleftrightarrow>
      (\<exists>a. gget (ro_target ro) t = Some a \<and> gget (gv_ready v) t = None
         \<and> agentHasCapacityFor a scfg (generation_bytes reps))"
proof -
  have wf: "gwf (ro_target ro)" using assms by (simp add: roles_ok_def)
  show "distinct (generation_targets cfg scfg ro v reps)"
    unfolding generation_targets_def distinct_sort_less by (rule distinct_map_filter [OF wf])
  show "t \<in> set (generation_targets cfg scfg ro v reps) \<longleftrightarrow>
      (\<exists>a. gget (ro_target ro) t = Some a \<and> gget (gv_ready v) t = None
         \<and> agentHasCapacityFor a scfg (generation_bytes reps))"
    using wf by (force simp: generation_targets_def map_of_eq_Some_iff)
qed

lemma sources_props:
  "s \<in> set (generation_sources scfg ro reps) \<longleftrightarrow>
     (\<exists>rp \<in> set reps. rp_AgentID rp = s \<and> rp_State rp = ReplicaReady \<and> gget (ro_online ro) s \<noteq> None)"
  by (auto simp: generation_sources_def)

lemma plan_snd:
  assumes "\<not> generation_satisfied (c_Replication c) (view_generation (c_Replication c) (c_Storage c) ro reps)"
    and "generation_sources (c_Storage c) ro reps \<noteq> []"
  shows "map snd (generation_plan c ro reps) =
    take (nat (generation_need (c_Replication c) (view_generation (c_Replication c) (c_Storage c) ro reps)))
      (generation_targets (c_Replication c) (c_Storage c) ro
         (view_generation (c_Replication c) (c_Storage c) ro reps) reps)"
  using assms by (auto simp: generation_plan_def Let_def comp_def intro!: nth_equalityI)

lemma plan_distinct: "roles_ok (c_Storage c) ro \<Longrightarrow> distinct (map snd (generation_plan c ro reps))"
proof (cases "generation_plan c ro reps = []")
  case False
  assume "roles_ok (c_Storage c) ro"
  then show ?thesis using False plan_snd [of c ro reps]
    by (auto simp: generation_plan_def Let_def targets_props(1) intro: distinct_take
        simp del: map_map split: if_splits)
qed simp

lemma plan_members:
  assumes "(s, t) \<in> set (generation_plan c ro reps)"
  shows "s \<in> set (generation_sources (c_Storage c) ro reps)"
    and "t \<in> set (generation_targets (c_Replication c) (c_Storage c) ro
         (view_generation (c_Replication c) (c_Storage c) ro reps) reps)"
  using assms by (auto simp: generation_plan_def Let_def split: if_splits)

lemma need_pos: "\<not> generation_satisfied cfg v \<Longrightarrow> 0 < generation_need cfg v"
  by (auto simp: generation_satisfied_def generation_need_def Let_def)

lemma need_bounds:
  "rc_Factor cfg - int (length (gv_ready v)) \<le> generation_need cfg v"
  "rc_MinHealthy cfg - int (length (gv_healthy v)) \<le> generation_need cfg v" "0 \<le> generation_need cfg v"
  by (simp_all add: generation_need_def Let_def)

text \<open>Among the agents that may take a copy, one that does not yet hold a counted copy holds none.\<close>

lemma target_not_counted:
  assumes "roles_ok scfg ro" "t \<in> set (generation_targets cfg scfg ro (view_generation cfg scfg ro reps) reps)"
    "rp \<in> set reps" "rp_AgentID rp = t"
  shows "rp_State rp \<noteq> ReplicaReady"
proof
  assume ready: "rp_State rp = ReplicaReady"
  from targets_props(2) [OF assms(1)] assms(2) obtain a where
    a: "gget (ro_target ro) t = Some a" "gget (gv_ready (view_generation cfg scfg ro reps)) t = None" by blast
  from a(1) assms(1) have "gget (ro_placement ro) t = Some a" "agentCountsDurable a scfg"
    by (auto simp: roles_ok_def agentAcceptsPlacement_durable)
  with ready assms(4) have "counted scfg ro rp" by (auto simp: counted_def)
  with assms(3,4) have "t \<in> set (gkeys (gv_ready (view_generation cfg scfg ro reps)))"
    unfolding view_keys(1) by auto
  with a(2) show False by (simp add: map_of_eq_None_iff)
qed

lemma copies_grow:
  assumes "distinct (map rp_AgentID copies)" "\<And>rp. rp \<in> set copies \<Longrightarrow> P rp"
    and "\<And>rp x. rp \<in> set reps \<Longrightarrow> P rp \<Longrightarrow> x \<in> set copies \<Longrightarrow> rp_AgentID rp \<noteq> rp_AgentID x"
  shows "card (rp_AgentID ` {rp \<in> set (reps @ copies). P rp})
    = card (rp_AgentID ` {rp \<in> set reps. P rp}) + length copies"
proof -
  have "rp_AgentID ` {rp \<in> set (reps @ copies). P rp} = rp_AgentID ` {rp \<in> set reps. P rp} \<union> set (map rp_AgentID copies)"
    using assms(2) by auto
  moreover have "card (set (map rp_AgentID copies)) = length copies"
    using distinct_card [OF assms(1)] by simp
  moreover have "card (rp_AgentID ` {rp \<in> set reps. P rp} \<union> set (map rp_AgentID copies))
      = card (rp_AgentID ` {rp \<in> set reps. P rp}) + card (set (map rp_AgentID copies))"
    by (rule card_Un_disjoint) (use assms(3) in auto)
  ultimately show ?thesis by simp
qed

text \<open>Ready replicas on a set of planned targets raise both counts by their number.\<close>

lemma view_grows:
  assumes ok: "roles_ok scfg ro" and d: "distinct (map rp_AgentID copies)"
    and T: "\<And>rp. rp \<in> set copies \<Longrightarrow> rp_State rp = ReplicaReady
      \<and> rp_AgentID rp \<in> set (generation_targets cfg scfg ro (view_generation cfg scfg ro reps) reps)"
  shows "length (gv_ready (view_generation cfg scfg ro (reps @ copies)))
      = length (gv_ready (view_generation cfg scfg ro reps)) + length copies"
    and "length (gv_healthy (view_generation cfg scfg ro (reps @ copies)))
      = length (gv_healthy (view_generation cfg scfg ro reps)) + length copies"
proof -
  have both: "counted scfg ro rp" "counted_healthy ro rp" if "rp \<in> set copies" for rp
  proof -
    from T [OF that] targets_props(2) [OF ok] obtain a where "gget (ro_target ro) (rp_AgentID rp) = Some a"
      by blast
    with ok T [OF that] show "counted scfg ro rp" "counted_healthy ro rp"
      by (auto simp: counted_def counted_healthy_def roles_ok_def agentAcceptsPlacement_durable)
  qed
  have disj: "rp_AgentID rp \<noteq> rp_AgentID x"
    if "rp \<in> set reps" "rp_State rp = ReplicaReady" "x \<in> set copies" for rp x
    using target_not_counted [OF ok] T [OF that(3)] that(1,2) by blast
  show "length (gv_ready (view_generation cfg scfg ro (reps @ copies)))
      = length (gv_ready (view_generation cfg scfg ro reps)) + length copies"
    unfolding view_length by (rule copies_grow [OF d both(1)]) (use disj in \<open>auto simp: counted_def\<close>)
  show "length (gv_healthy (view_generation cfg scfg ro (reps @ copies)))
      = length (gv_healthy (view_generation cfg scfg ro reps)) + length copies"
    unfolding view_length by (rule copies_grow [OF d both(2)]) (use disj in \<open>auto simp: counted_healthy_def\<close>)
qed

end
