(* ===== verification/Replication_Properties.thy ===== *)
theory Replication_Properties
  imports Replication_Plan
begin

text \<open>
  What generation replication guarantees: copies go only where they are safe, a full plan removes
  the copy deficit, restores are routed only to nodes that hold readable data, the health report
  accounts for every generation, spool files stay inside the spool directory, and the reconciler
  changes nothing in the job table but adding the jobs it counts.
\<close>

section \<open>Sample data\<close>

definition sample_replication :: replication_config where
  "sample_replication = \<lparr>rc_Enabled = True, rc_Factor = 2, rc_MinHealthy = 1, rc_ReconcileInterval = DurBlank,
     rc_AgentTimeout = DurBlank, rc_TransferTTL = DurBlank, rc_SpoolRoot = ''/spool'', rc_LocalKeyPath = [],
     rc_IncludeLocal = False, rc_MaxTransferBytes = 0, rc_FailureDomainLabel = [], rc_MinFailureDomains = 0,
     rc_AllowedAgents = [], rc_ExcludedAgents = []\<rparr>"

definition sample_storage :: storage_data_config where
  "sample_storage = \<lparr>sc_Enabled = True, sc_MinFreeBytes = 10, sc_MinFreePercent = 5, sc_MaxProbe = DurBlank,
     sc_EvacuateDegraded = True, sc_InventoryEnabled = False, sc_InventoryInterval = DurBlank,
     sc_ChunkBytes = 0, sc_ChunkRetries = 0, sc_BandwidthLimitMbps = 0,
     sc_ObjectReplicationFactor = 0, sc_ObjectPoolLabel = [],
     sc_DiskTelemetry = \<lparr>dt_Enabled = False, dt_Interval = DurBlank, dt_SmartctlPath = [], dt_NVMePath = [], dt_Device = [],
       dt_MaxTemperatureC = 0, dt_MaxPercentageUsed = 0, dt_MaxMediaErrors = 0, dt_RiskThreshold = 0\<rparr>,
     sc_Scrub = \<lparr>sb_Enabled = False, sb_Interval = DurBlank, sb_SampleObjects = 0, sb_Repair = False, sb_SeedSalt = []\<rparr>,
     sc_Tiering = \<lparr>ti_Enabled = False, ti_ColdRoot = [], ti_MinAge = DurBlank, ti_MinBytes = 0, ti_RcloneRemote = []\<rparr>,
     sc_Erasure = \<lparr>ec_Enabled = False, ec_MinObjectBytes = 0, ec_DataShards = 0, ec_ParityShards = 0,
       ec_BlockBytes = 0, ec_Distributed = False, ec_ShardReplication = 0, ec_FailureDomainLabel = [],
       ec_MinFailureDomains = 0, ec_ShardPoolLabel = [], ec_ReconcileInterval = DurBlank\<rparr>\<rparr>"

definition sample_config :: config where
  "sample_config = \<lparr>c_Workers = \<lparr>wk_Concurrency = 1, wk_PollInterval = DurBlank, wk_Lease = DurBlank, wk_MaxAttempts = 3\<rparr>,
     c_Scheduler = \<lparr>sd_Enabled = True, sd_Tick = DurBlank, sd_DiscoveryInterval = DurBlank,
       sd_DefaultInterval = DurBlank, sd_Policies = []\<rparr>, c_MirroringEnabled = False, c_AgentLabels = [],
     c_Replication = sample_replication, c_Storage = sample_storage, c_IncludeForks = True,
     c_IncludeArchived = True, c_BackupRoot = ''/b''\<rparr>"

definition sample_repo_id :: "string \<Rightarrow> string \<Rightarrow> string" where
  "sample_repo_id account name = account @ ''/'' @ name"

definition sample_agent :: "string \<Rightarrow> agent" where
  "sample_agent i = zero_agent\<lparr>a_ID := i, a_Name := i, a_ReplicationPublicKey := ''AAAA'',
     a_StorageHealth := HealthHealthy, a_LastSeenAt := 100, a_StorageTotalBytes := 1000,
     a_StorageFreeBytes := 500, a_StorageFreePercent := 50\<rparr>"

definition sample_replica :: "string \<Rightarrow> generation_replica" where
  "sample_replica i = \<lparr>rp_GenerationID = ''g1'', rp_RepositoryID = ''r1'', rp_AgentID = i, rp_MetaPath = [],
     rp_State = ReplicaReady, rp_Bytes = 100, rp_SHA256 = [], rp_VerifiedAt = 0, rp_UpdatedAt = 0\<rparr>"

definition sample_roles :: roles where
  "sample_roles = (let m = [(''a1'', sample_agent ''a1''), (''a2'', sample_agent ''a2'')]
     in \<lparr>ro_placement = m, ro_online = m, ro_target = m\<rparr>)"

lemmas sample_config_simps = sample_replication_def sample_storage_def sample_config_def sample_agent_def
  sample_replica_def sample_roles_def zero_agent_def ReplicaReady_def HealthHealthy_def HealthDegraded_def
  HealthUnhealthy_def TrimSpace_def is_space_def

lemma sample_accepts [simp]: "agentAcceptsPlacement (sample_agent i) sample_storage"
  by (simp add: agentAcceptsPlacement_def sample_config_simps)

lemma sample_capacity [simp]: "agentHasCapacityFor (sample_agent i) sample_storage 100"
  by (simp add: agentHasCapacityFor_def agentAcceptsPlacement_def sample_config_simps wrap64_def)

lemma sample_roles_ok: "roles_ok sample_storage sample_roles"
  by (simp add: roles_ok_def sample_roles_def Let_def) (simp add: sample_agent_def)

lemma sample_roles_from:
  "agent_roles sample_config (Inr []) hr 110 [sample_agent ''a1'', sample_agent ''a2''] = Inr sample_roles"
  by (simp add: agent_roles_def sample_config_simps Let_def add_agent_def agentAllowed_def agent_stale_def
      agent_timeout_def dur_or_def dur_defs time_Sub_def min_int64_def max_int64_def raw_b64_ok_def
      b64_char_def agentAcceptsPlacement_def)

abbreviation sample_view :: gen_view where
  "sample_view \<equiv> view_generation sample_replication sample_storage sample_roles [sample_replica ''a1'']"

lemma sample_view_sel:
  "gv_ready sample_view = [(''a1'', sample_replica ''a1'')]" "gv_healthy sample_view = [(''a1'', sample_replica ''a1'')]"
  by (simp_all add: view_generation_def view_replica_def sample_config_simps Let_def
      agentCountsDurable_def agentFailureDomain_def)

lemma sample_need:
  "length (gv_ready v) = 1 \<Longrightarrow> length (gv_healthy v) = 1 \<Longrightarrow>
   \<not> generation_satisfied sample_replication v \<and> generation_need sample_replication v = 1"
  by (simp add: generation_satisfied_def generation_need_def domains_required_def
      sample_replication_def TrimSpace_def)

lemma sample_targets:
  "generation_targets sample_replication sample_storage sample_roles sample_view [sample_replica ''a1''] = [''a2'']"
proof -
  have "generation_bytes [sample_replica ''a1''] = 100"
    by (simp add: generation_bytes_def sample_replica_def)
  then show ?thesis
    by (simp add: generation_targets_def sample_view_sel) (simp add: sample_roles_def Let_def)
qed

lemma sample_sources: "generation_sources sample_storage sample_roles [sample_replica ''a1''] = [''a1'']"
  by (simp add: generation_sources_def sample_config_simps Let_def)

lemma sample_plan:
  "generation_plan sample_config sample_roles [sample_replica ''a1''] = [(''a1'', ''a2'')]"
  using sample_sources sample_targets sample_need [of sample_view]
  by (simp add: generation_plan_def Let_def sample_config_def sample_view_sel)

section \<open>Placement\<close>

text \<open>
  C5. Every copy the reconciler plans is safe: its source is an online agent that holds a ready
  replica; its target is an online agent that accepts new data, has room for the generation above
  the configured reserve and holds no ready replica of it yet; and no target occurs twice.
\<close>

theorem replication_plan_safe:
  assumes "agent_roles c pub hr now agents = Inr ro"
    and "distinct (map a_ID agents)" "LocalWorkerAffinity \<notin> a_ID ` set agents"
  shows "distinct (map snd (generation_plan c ro reps)) \<and>
    (\<forall>(s, t) \<in> set (generation_plan c ro reps).
       (\<exists>rp \<in> set reps. rp_AgentID rp = s \<and> rp_State rp = ReplicaReady) \<and> gget (ro_online ro) s \<noteq> None
       \<and> (\<exists>a. gget (ro_online ro) t = Some a \<and> agentAcceptsPlacement a (c_Storage c)
            \<and> agentHasCapacityFor a (c_Storage c) (generation_bytes reps))
       \<and> (\<forall>rp \<in> set reps. rp_AgentID rp = t \<longrightarrow> rp_State rp \<noteq> ReplicaReady))"
proof -
  note ok = agent_roles_ok [OF assms]
  have "(\<exists>rp \<in> set reps. rp_AgentID rp = s \<and> rp_State rp = ReplicaReady) \<and> gget (ro_online ro) s \<noteq> None
       \<and> (\<exists>a. gget (ro_online ro) t = Some a \<and> agentAcceptsPlacement a (c_Storage c)
            \<and> agentHasCapacityFor a (c_Storage c) (generation_bytes reps))
       \<and> (\<forall>rp \<in> set reps. rp_AgentID rp = t \<longrightarrow> rp_State rp \<noteq> ReplicaReady)"
    if "(s, t) \<in> set (generation_plan c ro reps)" for s t
  proof -
    note st = plan_members [OF that]
    from st(2) targets_props(2) [OF ok] obtain a where a: "gget (ro_target ro) t = Some a"
      "agentHasCapacityFor a (c_Storage c) (generation_bytes reps)" by blast
    from a(1) ok have "gget (ro_online ro) t = Some a" by (simp add: roles_ok_def)
    moreover have "agentAcceptsPlacement a (c_Storage c)" using a(2) by (rule agentHasCapacityFor_accepts)
    moreover have "\<forall>rp \<in> set reps. rp_AgentID rp = t \<longrightarrow> rp_State rp \<noteq> ReplicaReady"
      using target_not_counted [OF ok st(2)] by blast
    ultimately show ?thesis using st(1) [unfolded sources_props] a(2) by blast
  qed
  then show ?thesis using plan_distinct [OF ok] by auto
qed

theorem replication_plan_safe_witness:
  "distinct (map snd (generation_plan sample_config sample_roles [sample_replica ''a1'']))
   \<and> generation_plan sample_config sample_roles [sample_replica ''a1''] = [(''a1'', ''a2'')]"
  using replication_plan_safe [OF sample_roles_from] sample_plan
  by (simp add: sample_agent_def zero_agent_def LocalWorkerAffinity_def)

text \<open>
  C6. A plan that is not limited by a lack of targets removes the copy deficit: once each planned
  target has a ready replica, the generation has at least the configured number of copies, at least
  the configured number of them on agents with healthy storage.
\<close>

theorem replication_plan_converges:
  assumes "agent_roles c pub hr now agents = Inr ro"
    and "distinct (map a_ID agents)" "LocalWorkerAffinity \<notin> a_ID ` set agents"
    and "generation_sources (c_Storage c) ro reps \<noteq> []"
    and "v = view_generation (c_Replication c) (c_Storage c) ro reps"
    and "generation_need (c_Replication c) v \<le> int (length (generation_targets (c_Replication c) (c_Storage c) ro v reps))"
    and "map rp_AgentID copies = map snd (generation_plan c ro reps)" "\<forall>rp \<in> set copies. rp_State rp = ReplicaReady"
    and "v' = view_generation (c_Replication c) (c_Storage c) ro (reps @ copies)"
  shows "rc_Factor (c_Replication c) \<le> int (length (gv_ready v'))
    \<and> rc_MinHealthy (c_Replication c) \<le> int (length (gv_healthy v'))"
proof (cases "generation_satisfied (c_Replication c) v")
  case True
  then have "generation_plan c ro reps = []" using assms(5) by (simp add: generation_plan_def Let_def)
  then have "v' = v" using assms(5,7,9) by simp
  with True show ?thesis by (simp add: generation_satisfied_def)
next
  case False
  note ok = agent_roles_ok [OF assms(1-3)]
  let ?need = "nat (generation_need (c_Replication c) v)"
  have snds: "map snd (generation_plan c ro reps)
      = take ?need (generation_targets (c_Replication c) (c_Storage c) ro v reps)"
    using plan_snd False assms(4,5) by blast
  then have len: "length copies = ?need" using assms(6,7)
    by (metis length_map length_take min.absorb2 nat_le_iff)
  have "rp_AgentID rp \<in> set (generation_targets (c_Replication c) (c_Storage c) ro v reps)"
    if "rp \<in> set copies" for rp
    using that assms(7) snds by (metis in_set_takeD image_eqI list.set_map)
  moreover have "distinct (map rp_AgentID copies)" using assms(7) plan_distinct [OF ok] by simp
  ultimately have "length (gv_ready v') = length (gv_ready v) + ?need"
    and "length (gv_healthy v') = length (gv_healthy v) + ?need"
    using view_grows [OF ok, of copies "c_Replication c" reps] assms(5,8,9) len by auto
  then show ?thesis using need_bounds [of "c_Replication c" v] by linarith
qed

theorem replication_plan_converges_witness:
  "2 \<le> length (gv_ready (view_generation sample_replication sample_storage sample_roles
      [sample_replica ''a1'', sample_replica ''a2'']))"
  using replication_plan_converges [OF sample_roles_from _ _ _ refl _ _ _ refl,
      of "[sample_replica ''a1'']" "[sample_replica ''a2'']"] sample_plan sample_sources sample_targets
    sample_need [of sample_view]
  by (simp add: sample_agent_def zero_agent_def LocalWorkerAffinity_def sample_config_def sample_view_sel)
    (simp add: sample_replica_def sample_replication_def)

section \<open>Restore routing\<close>

definition serves :: "replication_config \<Rightarrow> storage_data_config \<Rightarrow> time \<Rightarrow> agent list \<Rightarrow> generation_replica list \<Rightarrow> string \<Rightarrow> bool" where
  "serves cfg scfg now agents reps x \<longleftrightarrow>
     (\<exists>rp \<in> set reps. rp_AgentID rp = x \<and> rp_State rp = ReplicaReady)
     \<and> (x = LocalWorkerAffinity \<or> (\<exists>a \<in> set agents. a_ID a = x
           \<and> time_Sub now (a_LastSeenAt a) \<le> agent_timeout cfg \<and> agentReadable a scfg))"

text \<open>
  A restore is routed to a node exactly when some node can serve it: one that has a ready replica
  and is the local worker or an agent seen within the timeout whose storage is readable.  The node
  chosen always can serve it, and the node of the generation's own path is chosen whenever it can.
\<close>

theorem restore_affinity_correct:
  assumes "i_ListAgents S st = Inr agents" "i_ListReplicas S gid st = Inr reps"
  shows "(\<forall>x. SelectRestoreAffinityWithStorage S gid p cfg scfg now st = Inr x \<longrightarrow> serves cfg scfg now agents reps x)
    \<and> ((\<exists>x. serves cfg scfg now agents reps x) \<longleftrightarrow>
         (\<exists>x. SelectRestoreAffinityWithStorage S gid p cfg scfg now st = Inr x))
    \<and> (serves cfg scfg now agents reps (AffinityFromMetaPath p) \<longrightarrow>
         SelectRestoreAffinityWithStorage S gid p cfg scfg now st = Inr (AffinityFromMetaPath p))"
proof -
  define av where "av = map rp_AgentID (filter (\<lambda>rp. rp_State rp = ReplicaReady \<and> rp_AgentID rp \<in>
      set (LocalWorkerAffinity # map a_ID (filter (\<lambda>a. time_Sub now (a_LastSeenAt a) \<le> agent_timeout cfg
             \<and> agentReadable a scfg) agents))) reps)"
  have av: "x \<in> set av \<longleftrightarrow> serves cfg scfg now agents reps x" for x
    unfolding av_def serves_def set_map set_filter image_iff list.set(2) insert_iff
    by (auto, metis)
  have sel: "SelectRestoreAffinityWithStorage S gid p cfg scfg now st =
      (if AffinityFromMetaPath p \<in> set av then Inr (AffinityFromMetaPath p)
       else (case sort_strings (remdups av) of
              [] \<Rightarrow> Inl (GoErr (''generation '' @ gid @ '' has no online ready replica'')) | x # _ \<Rightarrow> Inr x))"
    by (simp only: SelectRestoreAffinityWithStorage_def Let_def assms sum.case av_def)
  have hd: "x \<in> set av" if "sort_strings (remdups av) = x # ys" for x ys
    using arg_cong [OF that, of set] by auto
  show ?thesis
    unfolding sel av [symmetric] by (cases "sort_strings (remdups av)") (auto dest: hd)
qed

theorem restore_affinity_correct_witness:
  "SelectRestoreAffinityWithStorage (mem_iface sample_repo_id) ''g1'' ''agent://a2/x'' sample_replication sample_storage 110
     (NewMemoryStore\<lparr>m_Agents := [(''a1'', sample_agent ''a1''), (''a2'', sample_agent ''a2'')],
        m_Replicas := [(''g1'', [sample_replica ''a1'', sample_replica ''a2''])]\<rparr>) = Inr ''a2''"
proof -
  let ?st = "NewMemoryStore\<lparr>m_Agents := [(''a1'', sample_agent ''a1''), (''a2'', sample_agent ''a2'')],
        m_Replicas := [(''g1'', [sample_replica ''a1'', sample_replica ''a2''])]\<rparr>"
  have "AffinityFromMetaPath ''agent://a2/x'' = ''a2''"
    by (simp add: AffinityFromMetaPath_def TrimPrefix_def TrimSpace_def is_space_def)
  moreover have "serves sample_replication sample_storage 110 [sample_agent ''a1'', sample_agent ''a2'']
      [sample_replica ''a1'', sample_replica ''a2''] ''a2''"
    by (simp add: serves_def sample_config_simps agent_timeout_def dur_or_def dur_defs time_Sub_def
        min_int64_def max_int64_def agentReadable_def)
  ultimately show ?thesis
    using restore_affinity_correct [of "mem_iface sample_repo_id" ?st "[sample_agent ''a1'', sample_agent ''a2'']" "''g1''"
        "[sample_replica ''a1'', sample_replica ''a2'']" "''agent://a2/x''" sample_replication sample_storage 110]
    by (simp add: mem_iface_def mem_ListAgents_def mem_ListReplicas_def slice_at_def)
qed

section \<open>Health report\<close>

definition report_adds_up :: "nat \<Rightarrow> replication_health_report \<Rightarrow> bool" where
  "report_adds_up n rep = (rh_HealthyGenerations rep + rh_Deficits rep = n
     \<and> rh_OnlineReadyReplicas rep \<le> rh_ReadyReplicas rep \<and> rh_FailureDomainDeficits rep \<le> rh_Deficits rep
     \<and> (1 \<le> rh_MinHealthy rep \<longrightarrow> rh_HealthyGenerations rep \<le> rh_OnlineReadyReplicas rep))"

lemma health_generation_adds_up:
  "report_adds_up n rep \<Longrightarrow> report_adds_up (Suc n) (health_generation cfg online reps rep)"
  using length_filter_le [of "\<lambda>rp. gget online (rp_AgentID rp) \<noteq> None" "filter (\<lambda>rp. rp_State rp = ReplicaReady) reps"]
  by (auto simp: report_adds_up_def health_generation_def Let_def simp del: length_filter_le not_None_eq)

lemma health_generation_fixed [simp]:
  "rh_Generations (health_generation cfg online reps rep) = rh_Generations rep"
  "rh_MinHealthy (health_generation cfg online reps rep) = rh_MinHealthy rep"
  by (simp_all add: health_generation_def Let_def)

lemma health_loop_adds_up:
  "report_adds_up n rep \<Longrightarrow> health_loop S cfg online st gs rep = (rep', None) \<Longrightarrow>
   report_adds_up (n + length gs) rep' \<and> rh_Generations rep' = rh_Generations rep \<and> rh_MinHealthy rep' = rh_MinHealthy rep"
proof (induction gs arbitrary: n rep)
  case (Cons g gs)
  then obtain reps where reps: "i_ListReplicas S (g_ID g) st = Inr reps"
    and rest: "health_loop S cfg online st gs (health_generation cfg online reps rep) = (rep', None)"
    by (auto split: sum.splits)
  from Cons.IH [OF health_generation_adds_up [OF Cons.prems(1)] rest] show ?case by simp
qed simp

text \<open>
  A health report without an error accounts for every generation exactly once, as healthy or as a
  deficit; it never reports more reachable than ready replicas, each healthy generation accounts
  for a reachable one, and a failure-domain deficit is a deficit.
\<close>

theorem replication_health_adds_up:
  assumes "ReplicationHealthWithStorage S cfg scfg now st = (rep, None)"
  shows "rh_HealthyGenerations rep + rh_Deficits rep = rh_Generations rep
    \<and> rh_HealthyGenerations rep \<le> rh_OnlineReadyReplicas rep \<and> rh_OnlineReadyReplicas rep \<le> rh_ReadyReplicas rep
    \<and> rh_FailureDomainDeficits rep \<le> rh_Deficits rep"
proof -
  from assms obtain agents gens rep0 where
    loop: "health_loop S cfg (online_agents cfg scfg now agents) st gens rep0 = (rep, None)"
    and rep0: "report_adds_up 0 rep0" "rh_Generations rep0 = length gens" "1 \<le> rh_MinHealthy rep0"
    by (auto simp: ReplicationHealthWithStorage_def Let_def report_adds_up_def split: sum.splits)
  from health_loop_adds_up [OF rep0(1) loop] rep0(2,3) show ?thesis
    by (simp add: report_adds_up_def)
qed

theorem replication_health_adds_up_witness:
  "rh_HealthyGenerations (fst (ReplicationHealthWithStorage (mem_iface sample_repo_id) sample_replication sample_storage 110 mem1))
    + rh_Deficits (fst (ReplicationHealthWithStorage (mem_iface sample_repo_id) sample_replication sample_storage 110 mem1))
    = rh_Generations (fst (ReplicationHealthWithStorage (mem_iface sample_repo_id) sample_replication sample_storage 110 mem1))"
proof -
  have "ReplicationHealthWithStorage (mem_iface sample_repo_id) sample_replication sample_storage 110 mem1
     = (fst (ReplicationHealthWithStorage (mem_iface sample_repo_id) sample_replication sample_storage 110 mem1), None)"
    by (simp add: ReplicationHealthWithStorage_def mem_iface_def mem_ListAllGenerations_def mem1_def
        mem_Enqueue_def NewMemoryStore_def Let_def limit_to_def)
  from replication_health_adds_up [OF this] show ?thesis by simp
qed

section \<open>Spool files and expired transfers\<close>

text \<open>
  Whatever a transfer identifier contains, slashes and dot-dot components included, its spool file
  is a direct entry of the configured spool directory.
\<close>

theorem spool_path_contained:
  assumes "dir \<noteq> []"
  shows "\<exists>name. plain_name name \<and>
    replicationSpoolPath dir t = path_render (is_abs dir) (path_comps dir @ [name])"
  using path_Join_plain [OF assms spool_name_plain, of t] spool_name_plain [of t]
  by (auto simp: replicationSpoolPath_def)

theorem spool_path_contained_witness:
  "replicationSpoolPath ''/spool'' ''../../etc/x'' = ''/spool/______etc_x.blob'' \<and>
   (\<exists>name. plain_name name \<and>
     replicationSpoolPath ''/spool'' ''../../etc/x'' = path_render True [''spool'', name])"
  using spool_path_contained [of "''/spool''" "''../../etc/x''"]
  by (simp add: replicationSpoolPath_def path_Join_def path_Clean_def path_comps_def path_render_def
      is_abs_def spool_char_def)

lemma cleanup_loop_sql:
  "cleanup_loop (sql_iface repo_id) cfg ts (n, files, st) = (n', e, files', st') \<Longrightarrow>
   e = None \<and> n' = n + int (length ts)
   \<and> (\<forall>i. gget (d_replication_transfers st') i =
        (if i \<in> t_ID ` set ts then None else gget (d_replication_transfers st) i))
   \<and> (\<forall>p. p \<in> set files' \<longleftrightarrow> p \<in> set files \<and> (\<forall>t \<in> set ts.
        p \<noteq> replicationSpoolPath (rc_SpoolRoot cfg) (t_ID t) \<and> p \<noteq> replicationSpoolPath (rc_SpoolRoot cfg) (t_ID t) @ ''.part''))"
proof (induction ts arbitrary: n files st)
  case (Cons t ts)
  then show ?case
    by (force simp: sql_iface_def sql_DeleteReplicationTransfer_def Let_def)
qed auto

text \<open>
  Reaping on the SQL store never fails: it deletes exactly the transfers listed as expired, up to a
  thousand, together with their complete and partial spool files, leaves every other transfer and
  file alone, and returns their number.
\<close>

theorem sql_cleanup_expired:
  "\<exists>n files' st'. CleanupExpiredReplicationTransfers (sql_iface repo_id) cfg now files st = (n, None, files', st')
     \<and> (let ts = sql_ListExpiredReplicationTransfers now 1000 st in n = int (length ts)
        \<and> (\<forall>i. gget (d_replication_transfers st') i =
             (if i \<in> t_ID ` set ts then None else gget (d_replication_transfers st) i))
        \<and> (\<forall>p. p \<in> set files' \<longleftrightarrow> p \<in> set files \<and> p \<notin> (\<lambda>t. replicationSpoolPath (rc_SpoolRoot cfg) (t_ID t)) ` set ts
             \<and> p \<notin> (\<lambda>t. replicationSpoolPath (rc_SpoolRoot cfg) (t_ID t) @ ''.part'') ` set ts))"
proof -
  obtain n e files' st' where r: "cleanup_loop (sql_iface repo_id) cfg
      (sql_ListExpiredReplicationTransfers now 1000 st) (0, files, st) = (n, e, files', st')"
    by (metis prod_cases4)
  note c = cleanup_loop_sql [OF r]
  have "CleanupExpiredReplicationTransfers (sql_iface repo_id) cfg now files st = (n, None, files', st')"
    using r c by (simp add: CleanupExpiredReplicationTransfers_def) (simp add: sql_iface_def)
  then show ?thesis using c by (intro exI [of _ n] exI [of _ files'] exI [of _ st']) (auto simp: Let_def)
qed

end
