(* ===== verification/Erasure_Properties.thy ===== *)
theory Erasure_Properties
  imports Erasure_Dist Replication_Properties
begin

text \<open>
  What the erasure components guarantee: a set reported healthy survives the loss of any single
  failure domain, the report accounts for every set, and a repair is queued only with enough
  distinct shards that are online.
\<close>

section \<open>Health\<close>

definition survives :: "string \<Rightarrow> (string, agent) gomap \<Rightarrow> erasure_shard list \<Rightarrow> string \<Rightarrow> int set" where
  "survives key online shards lost =
     {sh_ShardIndex sh |sh. sh \<in> set shards \<and> sh_State sh = ShardReady
        \<and> (\<exists>a. gget online (sh_AgentID sh) = Some a \<and> shard_domain key (sh_AgentID sh, a) \<noteq> lost)}"

lemma remaining_survives:
  "remaining (live_copies key online shards) lost = card (survives key online shards lost)"
proof -
  have "set (map fst (filter (\<lambda>(i, d). d \<noteq> lost) (live_copies key online shards))) = survives key online shards lost"
    by (force simp: live_copies_def survives_def agent_in_def image_iff)
  then show ?thesis unfolding remaining_def by (metis List.card_set)
qed

lemma remaining_all: "lost \<notin> set (map snd live) \<Longrightarrow> remaining live lost = length (remdups (map fst live))"
proof -
  assume "lost \<notin> set (map snd live)"
  then have "filter (\<lambda>(i, d). d \<noteq> lost) live = live" by (force intro: filter_True)
  then show ?thesis by (simp add: remaining_def)
qed

lemma health_set_healthy:
  assumes "eh_Healthy (health_set cfg online e shards h) \<noteq> eh_Healthy h"
  shows "es_DataShards e \<le> int (card (survives (ec_FailureDomainLabel cfg) online shards lost))"
proof -
  let ?live = "live_copies (ec_FailureDomainLabel cfg) online shards"
  from assms have a: "es_DataShards e \<le> int (length (remdups (map fst ?live)))"
    and b: "\<And>l. l \<in> set (map snd ?live) \<Longrightarrow> es_DataShards e \<le> int (remaining ?live l)"
    by (auto simp: health_set_def Let_def list_all_iff split: if_splits)
  show ?thesis
    unfolding remaining_survives [symmetric] using a b remaining_all [of lost ?live] by fastforce
qed

text \<open>
  C8. Resilience of healthy sets: an erasure set that the evaluation counts as healthy keeps at least as
  many distinct shard indices as it has data shards, whichever single failure domain is lost.
\<close>

theorem erasure_healthy_survives_domain_loss:
  assumes "eh_Healthy (health_set cfg online e shards h) = eh_Healthy h + 1"
  shows "es_DataShards e \<le> int (card (survives (ec_FailureDomainLabel cfg) online shards lost))"
  using health_set_healthy [of cfg online e shards h lost] assms by simp

definition sample_set :: erasure_set where
  "sample_set = \<lparr>es_ObjectSHA256 = ''o'', es_OriginalBytes = 10, es_DataShards = 1, es_ParityShards = 1,
     es_BlockBytes = 4, es_State = ErasureReady, es_CreatedAt = 0, es_UpdatedAt = 0\<rparr>"

definition sample_shard :: "int \<Rightarrow> string \<Rightarrow> erasure_shard" where
  "sample_shard i a = \<lparr>sh_ObjectSHA256 = ''o'', sh_ShardIndex = i, sh_ShardSHA256 = ''s'', sh_AgentID = a,
     sh_FailureDomain = [], sh_State = ShardReady, sh_Bytes = 5, sh_UpdatedAt = 0\<rparr>"

definition sample_health :: distributed_erasure_health where
  "sample_health = \<lparr>eh_Sets = 1, eh_Healthy = 0, eh_Degraded = 0, eh_Unrecoverable = 0, eh_ShardCopies = 0,
     eh_FailureDomainDeficits = 0\<rparr>"

definition sample_online :: "(string, agent) gomap" where
  "sample_online = [(''a1'', sample_agent ''a1''), (''a2'', sample_agent ''a2'')]"

theorem erasure_healthy_survives_domain_loss_witness:
  "1 \<le> card (survives [] sample_online [sample_shard 0 ''a1'', sample_shard 1 ''a2''] ''__agent__:a1'')"
  using erasure_healthy_survives_domain_loss [of "sc_Erasure sample_storage" sample_online sample_set
      "[sample_shard 0 ''a1'', sample_shard 1 ''a2'']" sample_health "''__agent__:a1''"]
  by (simp add: health_set_def live_copies_def sample_storage_def sample_online_def sample_shard_def sample_set_def
      sample_health_def Let_def remaining_def shard_domain_def agentFailureDomain_def TrimSpace_def)

definition erasure_adds_up :: "nat \<Rightarrow> distributed_erasure_health \<Rightarrow> bool" where
  "erasure_adds_up n h = (eh_Healthy h + eh_Degraded h + eh_Unrecoverable h = n
     \<and> eh_FailureDomainDeficits h = eh_Degraded h)"

lemma health_set_adds_up: "erasure_adds_up n h \<Longrightarrow> erasure_adds_up (Suc n) (health_set cfg online e shards h)
    \<and> eh_Sets (health_set cfg online e shards h) = eh_Sets h"
  by (auto simp: erasure_adds_up_def health_set_def Let_def)

lemma health_sets_adds_up:
  "erasure_adds_up n h \<Longrightarrow> health_sets S cfg online st es h = (h', None) \<Longrightarrow>
   erasure_adds_up (n + length es) h' \<and> eh_Sets h' = eh_Sets h"
proof (induction es arbitrary: n h)
  case (Cons e es)
  then obtain shards where
    rest: "health_sets S cfg online st es (health_set cfg online e shards h) = (h', None)"
    by (auto split: sum.splits)
  have s: "erasure_adds_up (Suc n) (health_set cfg online e shards h)"
    "eh_Sets (health_set cfg online e shards h) = eh_Sets h"
    using health_set_adds_up [OF Cons.prems(1)] by auto
  from Cons.IH [OF s(1) rest] s(2) show ?case by simp
qed simp

text \<open>
  An evaluation without an error counts every set exactly once, as healthy, degraded or
  unrecoverable, and reports a failure-domain deficit exactly for the degraded ones.
\<close>

theorem erasure_health_adds_up:
  assumes "EvaluateDistributedErasureHealth S c now st = (h, None)"
  shows "eh_Healthy h + eh_Degraded h + eh_Unrecoverable h = eh_Sets h \<and> eh_FailureDomainDeficits h = eh_Degraded h"
proof (cases "ec_Enabled (sc_Erasure (c_Storage c)) \<and> ec_Distributed (sc_Erasure (c_Storage c))")
  case True
  with assms obtain agents sets h0 where
    loop: "health_sets S (sc_Erasure (c_Storage c)) (online_shard_agents c now agents) st sets h0 = (h, None)"
    and h0: "erasure_adds_up 0 h0" "eh_Sets h0 = length sets"
    by (auto simp: EvaluateDistributedErasureHealth_def Let_def erasure_adds_up_def split: sum.splits)
  from health_sets_adds_up [OF h0(1) loop] h0(2) show ?thesis by (simp add: erasure_adds_up_def)
qed (use assms in \<open>auto simp: EvaluateDistributedErasureHealth_def Let_def\<close>)

theorem erasure_health_adds_up_witness:
  "\<exists>h. EvaluateDistributedErasureHealth (mem_iface sample_repo_id)
      (sample_config\<lparr>c_Storage := sample_storage\<lparr>sc_Erasure := (sc_Erasure sample_storage)\<lparr>ec_Enabled := True, ec_Distributed := True\<rparr>\<rparr>\<rparr>)
      110 (mem1\<lparr>m_ErasureSets := [(''o'', sample_set)]\<rparr>) = (h, None)
     \<and> eh_Sets h = 1 \<and> eh_Healthy h + eh_Degraded h + eh_Unrecoverable h = 1"
proof -
  let ?c = "sample_config\<lparr>c_Storage := sample_storage\<lparr>sc_Erasure := (sc_Erasure sample_storage)\<lparr>ec_Enabled := True, ec_Distributed := True\<rparr>\<rparr>\<rparr>"
  let ?st = "mem1\<lparr>m_ErasureSets := [(''o'', sample_set)]\<rparr>"
  obtain h where h: "EvaluateDistributedErasureHealth (mem_iface sample_repo_id) ?c 110 ?st = (h, None)" "eh_Sets h = 1"
    by (simp add: EvaluateDistributedErasureHealth_def mem_iface_def mem_ListErasureSets_def limit_to_def
        health_set_def Let_def)
  with erasure_health_adds_up [OF h(1)] show ?thesis by auto
qed

section \<open>Repair\<close>

text \<open>What a chosen shard is backed by: a ready copy of that index and digest on an online node.\<close>

definition backed :: "(string, agent) gomap \<Rightarrow> erasure_shard list \<Rightarrow> repair_shard \<Rightarrow> bool" where
  "backed online shards rs = (\<exists>sh \<in> set shards. sh_State sh = ShardReady \<and> sh_ShardIndex sh = rs_Index rs
     \<and> sh_ShardSHA256 sh = rs_Digest rs \<and> gget online (sh_AgentID sh) \<noteq> None)"

lemma repair_loop_chosen:
  "distinct (map rs_Index chosen @ idxs) \<Longrightarrow> \<forall>rs \<in> set chosen. backed online shards rs \<Longrightarrow>
   repair_loop S newID c now online target digest need shards idxs chosen r = (chosen', r') \<Longrightarrow>
   distinct (map rs_Index chosen') \<and> (\<forall>rs \<in> set chosen'. backed online shards rs)
   \<and> (int (length chosen) \<le> need \<longrightarrow> int (length chosen') \<le> need)"
proof (induction S newID c now online target digest need shards idxs chosen r rule: repair_loop.induct)
  case (2 S newID c now online target digest need shards idx idxs chosen r)
  show ?case
  proof (cases "int (length chosen) \<ge> need")
    case False
    show ?thesis
    proof (cases "find (\<lambda>sh. gget online (sh_AgentID sh) \<noteq> None) (ready_at shards idx)")
      case None
      with "2.IH"(1) [OF False None] "2.prems" False show ?thesis by simp
    next
      case (Some sh)
      let ?rs = "\<lparr>rs_Index = idx, rs_Digest = sh_ShardSHA256 sh, rs_Bytes = sh_Bytes sh\<rparr>"
      have sh: "sh \<in> set shards" "sh_State sh = ShardReady" "sh_ShardIndex sh = idx" "gget online (sh_AgentID sh) \<noteq> None"
        using Some by (auto simp: find_Some_iff ready_at_def dest!: nth_mem)
      then have b: "\<forall>rs \<in> set (chosen @ [?rs]). backed online shards rs"
        using "2.prems"(2) by (auto simp: backed_def)
      have d: "distinct (map rs_Index (chosen @ [?rs]) @ idxs)" using "2.prems"(1) by auto
      show ?thesis
        using "2.IH"(2) [OF False Some refl refl _ d b] "2.prems"(3) False b d Some
        by (auto simp: Let_def split: if_splits)
    qed
  qed (use "2.prems" in auto)
qed auto

text \<open>
  A distributed repair is scheduled without an error only if it can reconstruct: the shards it names
  have pairwise different indices, each with a ready copy on an online node, and there are exactly
  as many of them as the set has data shards; a repair job with those shards, or an active job of
  the same slot, is in the queue.
\<close>

theorem repair_uses_enough_shards:
  assumes "i_GetErasureSet S digest (rn_st r) = Inr (Some e)" "0 \<le> es_DataShards e"
    and "i_ListErasureShards S digest (rn_st r) = Inr shards" "i_ListAgents S (rn_st r) = Inr agents"
    and "ok (ScheduleDistributedRepair S newID c now target digest r)"
  shows "\<exists>chosen r1. distinct (map rs_Index chosen) \<and> int (length chosen) = es_DataShards e
    \<and> (\<forall>rs \<in> set chosen. backed (repair_online c now agents) shards rs)
    \<and> gget (repair_online c now agents) target \<noteq> None
    \<and> ScheduleDistributedRepair S newID c now target digest r =
        queue_job S newID now (mk_job ''repair-object'' (''repair:'' @ digest @ ''@'' @ target)
          (marshal_repair_object \<lparr>ro_Digest = digest, ro_OriginalBytes = es_OriginalBytes e,
             ro_DataShards = es_DataShards e, ro_ParityShards = es_ParityShards e,
             ro_BlockBytes = es_BlockBytes e, ro_Shards = chosen\<rparr>)
          target 180 (max (wk_MaxAttempts (c_Workers c)) 8) (now + 5 * second)) r1"
proof -
  let ?idx = "sort_less (<) (remdups (map sh_ShardIndex (filter (\<lambda>sh. sh_State sh = ShardReady) shards)))"
  obtain chosen r1 where l: "repair_loop S newID c now (repair_online c now agents) target digest
      (es_DataShards e) shards ?idx [] r = (chosen, r1)" by fastforce
  have "distinct (map rs_Index [] @ ?idx)" by simp
  from repair_loop_chosen [OF this _ l] assms(2)
  have c: "distinct (map rs_Index chosen)" "\<forall>rs \<in> set chosen. backed (repair_online c now agents) shards rs"
    "int (length chosen) \<le> es_DataShards e" by auto
  have on: "gget (repair_online c now agents) target \<noteq> None"
    and r1: "ok r1" "\<not> int (length chosen) < es_DataShards e"
    using assms l by (auto simp: ScheduleDistributedRepair_def Let_def ok_def split: if_splits)
  have "ScheduleDistributedRepair S newID c now target digest r =
        queue_job S newID now (mk_job ''repair-object'' (''repair:'' @ digest @ ''@'' @ target)
          (marshal_repair_object \<lparr>ro_Digest = digest, ro_OriginalBytes = es_OriginalBytes e,
             ro_DataShards = es_DataShards e, ro_ParityShards = es_ParityShards e,
             ro_BlockBytes = es_BlockBytes e, ro_Shards = chosen\<rparr>)
          target 180 (max (wk_MaxAttempts (c_Workers c)) 8) (now + 5 * second)) r1"
    using assms(1,3,4) on r1 l by (auto simp: ScheduleDistributedRepair_def Let_def)
  with c on r1 show ?thesis by (metis linorder_not_less order_antisym)
qed

definition sample_newID :: "string \<Rightarrow> nat \<Rightarrow> string" where
  "sample_newID prefix n = prefix @ ''_'' @ show_nat n"

definition repair_store :: mem_store where
  "repair_store = NewMemoryStore\<lparr>m_Agents := [(''a1'', sample_agent ''a1'')],
     m_ErasureSets := [(''o'', sample_set)], m_ErasureShards := [(''o'', [sample_shard 0 ''a1''])]\<rparr>"

definition repair_run :: "mem_store run" where
  "repair_run = \<lparr>rn_n = 0, rn_err = None, rn_ids = 0, rn_st = repair_store\<rparr>"

lemma repair_store_reads:
  "i_GetErasureSet (mem_iface f) ''o'' repair_store = Inr (Some sample_set)"
  "i_ListErasureShards (mem_iface f) ''o'' repair_store = Inr [sample_shard 0 ''a1'']"
  "i_ListAgents (mem_iface f) repair_store = Inr [sample_agent ''a1'']"
  "i_Enqueue (mem_iface f) = mem_Enqueue"
  by (simp_all add: mem_iface_def mem_GetErasureSet_def mem_ListErasureShards_def mem_ListAgents_def
      slice_at_def repair_store_def)

lemma sample_repair_online: "repair_online sample_config 110 [sample_agent ''a1''] = [(''a1'', sample_agent ''a1'')]"
  by (simp add: repair_online_def sample_config_simps agent_timeout_def dur_or_def dur_defs time_Sub_def
      min_int64_def max_int64_def agentReadable_def)

lemma repair_run_ok: "ok (ScheduleDistributedRepair (mem_iface f) sample_newID sample_config 110 ''a1'' ''o'' repair_run)"
proof -
  have e: "\<exists>x m'. mem_Enqueue t n j repair_store = (Inr (x, True), m')" for t n j
    by (simp add: mem_Enqueue_def repair_store_def NewMemoryStore_def Let_def)
  obtain x m' where "mem_Enqueue 110 (sample_newID ''job'' 0) (mk_job ''repair-object'' (''repair:'' @ ''o'' @ ''@'' @ ''a1'')
      (marshal_repair_object \<lparr>ro_Digest = ''o'', ro_OriginalBytes = 10, ro_DataShards = 1, ro_ParityShards = 1,
             ro_BlockBytes = 4, ro_Shards = [\<lparr>rs_Index = 0, rs_Digest = ''s'', rs_Bytes = 5\<rparr>]\<rparr>)
          ''a1'' 180 8 (110 + 5 * second)) repair_store = (Inr (x, True), m')" using e by blast
  then show ?thesis
    by (simp add: ScheduleDistributedRepair_def repair_run_def repair_store_reads sample_repair_online Let_def
        ready_at_def sample_shard_def sample_set_def queue_job_def ok_def) (simp add: sample_config_def)
qed

theorem repair_uses_enough_shards_witness:
  "\<exists>chosen. int (length chosen) = es_DataShards sample_set \<and> distinct (map rs_Index chosen)
     \<and> (\<forall>rs \<in> set chosen. backed (repair_online sample_config 110 [sample_agent ''a1'']) [sample_shard 0 ''a1''] rs)"
  using repair_uses_enough_shards [of "mem_iface sample_repo_id" "''o''" repair_run sample_set
      "[sample_shard 0 ''a1'']" "[sample_agent ''a1'']" sample_newID sample_config 110 "''a1''"]
    repair_run_ok [of sample_repo_id]
  by (auto simp: repair_run_def repair_store_reads sample_set_def)

lemma repair_online_ids: "gget (repair_online c now agents) i \<noteq> None \<Longrightarrow> i \<in> a_ID ` set agents"
  by (auto simp: repair_online_def dest!: gget_fold_gput_if)

text \<open>
  A corrupt object on the control plane's own storage is never repaired from remote shards: with
  the local worker as the target, which is what \<^verbatim>\<open>scrubCAS\<close> passes for it, scheduling always
  ends with an error and queues nothing, since only registered agents count as online.
\<close>

theorem local_repair_never_scheduled:
  assumes "\<forall>agents. i_ListAgents S (rn_st r) = Inr agents \<longrightarrow> LocalWorkerAffinity \<notin> a_ID ` set agents"
  shows "\<exists>e. ScheduleDistributedRepair S newID c now LocalWorkerAffinity digest r = r\<lparr>rn_err := Some e\<rparr>"
  using assms repair_online_ids [of c now _ LocalWorkerAffinity]
  by (auto simp: ScheduleDistributedRepair_def Let_def split: sum.split option.split)

theorem local_repair_never_scheduled_witness:
  "\<exists>e. ScheduleDistributedRepair (mem_iface sample_repo_id) sample_newID sample_config 110 LocalWorkerAffinity ''o''
     repair_run = repair_run\<lparr>rn_err := Some e\<rparr>"
  by (rule local_repair_never_scheduled)
    (simp add: repair_run_def repair_store_reads sample_agent_def LocalWorkerAffinity_def zero_agent_def)

section \<open>The reconciler only adds jobs\<close>

context enqueue_store
begin

lemma good_lease_then_queue:
  assumes g: "good newID P r0 r" and inj: "inj (newID ''job'')"
    and new: "\<And>t l. new_job (mk t l)" "\<And>t l x. queued_as (mk t l) x \<Longrightarrow> P x"
  shows "good newID P r0 (lease_then_queue S newID c now ip lp owner mk digest r)"
proof -
  define l where "l = \<lparr>ol_ID = lp @ newID ip (rn_ids r), ol_Digest = digest, ol_Owner = owner,
      ol_ExpiresAt = now + transfer_ttl (c_Replication c), ol_UpdatedAt = zero_time\<rparr>"
  obtain out st where a: "i_AcquireObjectLease S now [] l (rn_st r) = (out, st)" by fastforce
  have "good newID P r0 (r\<lparr>rn_st := st\<rparr>)" using good_lease [OF g, of now "[]" l] a by simp
  then have 1: "good newID P r0 (r\<lparr>rn_err := e, rn_ids := rn_ids r + 1, rn_st := st\<rparr>)"
    and 2: "good newID P r0 (r\<lparr>rn_ids := rn_ids r + 1, rn_st := st\<rparr>)" for e
    by (auto intro: good_step)
  have eq: "lease_then_queue S newID c now ip lp owner mk digest r = (case out of
      Inl e \<Rightarrow> r\<lparr>rn_err := Some e, rn_ids := rn_ids r + 1, rn_st := st\<rparr>
    | Inr _ \<Rightarrow> queue_job S newID now (mk (newID ip (rn_ids r)) (lp @ newID ip (rn_ids r)))
        (r\<lparr>rn_ids := rn_ids r + 1, rn_st := st\<rparr>))"
    using a by (simp add: lease_then_queue_def Let_def l_def split: sum.split)
  show ?thesis
    unfolding eq using 1 good_queue_job [OF 2 inj new(1) new(2)] by (simp split: sum.split)
qed

lemma good_spread_set:
  assumes "good newID P r0 r" "ok r" "inj (newID ''job'')" "0 \<le> wk_MaxAttempts (c_Workers c)"
    and P: "\<And>j x. j_Kind j = ''replicate-cas'' \<Longrightarrow> queued_as j x \<Longrightarrow> P x"
  shows "good newID P r0 (spread_set S newID sha256 c now js ro e r)"
proof -
  have one: "good newID P r0 (queue_shard_copy S newID c now js ro obj idx existing t r)"
    if "good newID P r0 r" for js obj idx existing t r
    using that assms(3,4) by (auto simp: queue_shard_copy_def Let_def intro!: good_lease_then_queue P)
  show ?thesis
    unfolding spread_set_def
    by (auto simp: Let_def split: sum.split intro!: good_loop one intro: good_step assms(1,2))
qed

lemma good_ErasureReconcile:
  assumes g: "good newID P r0 r" and k: "ok r" and inj: "inj (newID ''job'')" and m: "0 \<le> wk_MaxAttempts (c_Workers c)"
    and P: "\<And>j x. j_Kind j = ''replicate-cas'' \<or> j_Kind j = ''protect-erasure'' \<Longrightarrow> queued_as j x \<Longrightarrow> P x"
  shows "good newID P r0 (ErasureReconcile S newID sha256 c pub hr now r)"
proof -
  have protect: "good newID P r0 (queue_protect S newID c now js i r)" if "good newID P r0 r" for js i r
    using that by (auto simp: queue_protect_def intro!: good_queue_job inj P m)
  have first: "good newID P r0 (loop (queue_protect S newID c now js) ids r)" for js ids
    by (rule good_loop [OF g k]) (rule protect)
  have spread: "good newID P r0 (loop (spread_set S newID sha256 c now js ro) sets r1)"
    if "good newID P r0 r1" "ok r1" for js ro sets r1
    by (rule good_loop [OF that]) (auto intro: good_spread_set inj m P)
  show ?thesis
    using g first spread unfolding ErasureReconcile_def
    by (auto simp: Let_def split: sum.split)
qed

end

end
