(* ===== verification/Inventory.thy ===== *)
theory Inventory
  imports Store_Interface Payloads Fmt
begin

text \<open>
  The Merkle inventory of a content-addressed store (\<^verbatim>\<open>internal/objectinventory/inventory.go\<close>) and its use by
  the control plane (\<^verbatim>\<open>internal/controlplane/inventory.go\<close>).  \<open>H\<close> is the hexadecimal SHA-256 digest of a
  text; the directory walk is an argument: \<open>None\<close> when the directory does not exist, else the
  files it visits with their sizes or the error that ended it.
\<close>

record segment =
  sg_Prefix :: string
  sg_Root :: string
  sg_Count :: int
  sg_Bytes :: int

record inventory =
  iv_Version :: int
  iv_Root :: string
  iv_MerkleRoot :: string
  iv_Objects :: int
  iv_Bytes :: int
  iv_CreatedAt :: time
  iv_Segments :: "segment list"

definition zero_inventory :: inventory where
  "zero_inventory = \<lparr>iv_Version = 0, iv_Root = [], iv_MerkleRoot = [], iv_Objects = 0, iv_Bytes = 0,
     iv_CreatedAt = zero_time, iv_Segments = []\<rparr>"

definition newline :: char where "newline = CHR 0x0A"

definition unlines :: "string list \<Rightarrow> string" where
  "unlines ls = concat (map (\<lambda>l. l @ [newline]) ls)"

definition hashLines :: "(string \<Rightarrow> string) \<Rightarrow> string list \<Rightarrow> string" where
  "hashLines H ls = H (unlines ls)"

definition hex_char :: "char \<Rightarrow> bool" where
  "hex_char c = (let n = (of_char c :: nat) in 48 \<le> n \<and> n \<le> 57 \<or> 97 \<le> n \<and> n \<le> 102 \<or> 65 \<le> n \<and> n \<le> 70)"

text \<open>The checks on one visited file; the result is the leaf for it.\<close>

definition walk_entry :: "string \<times> nat \<Rightarrow> (string \<times> nat) result" where
  "walk_entry e =
     (let name = ToLower (TrimSpace (fst e)) in
      if length name \<noteq> 64 then Inl (GoErr (''invalid CAS object name '' @ fst e))
      else if \<not> list_all hex_char name then Inl (GoErr (''invalid CAS digest '' @ name))
      else Inr (name, snd e))"

fun walk_entries :: "(string \<times> nat) list \<Rightarrow> (string \<times> nat) list result" where
  "walk_entries [] = Inr []"
| "walk_entries (e # es) = (case walk_entry e of Inl err \<Rightarrow> Inl err
     | Inr l \<Rightarrow> (case walk_entries es of Inl err \<Rightarrow> Inl err | Inr ls \<Rightarrow> Inr (l # ls)))"

definition leaves_of :: "string \<Rightarrow> (string \<times> nat) list \<Rightarrow> (string \<times> nat) list" where
  "leaves_of p ls = sort_less (\<lambda>x y. fst x < fst y) (filter (\<lambda>l. take 2 (fst l) = p) ls)"

definition leaf_line :: "string \<times> nat \<Rightarrow> string" where
  "leaf_line l = fst l @ '':'' @ show_nat (snd l)"

definition mk_segment :: "(string \<Rightarrow> string) \<Rightarrow> (string \<times> nat) list \<Rightarrow> string \<Rightarrow> segment" where
  "mk_segment H ls p = (let xs = leaves_of p ls in
     \<lparr>sg_Prefix = p, sg_Root = hashLines H (map leaf_line xs), sg_Count = int (length xs), sg_Bytes = int (sum_list (map snd xs))\<rparr>)"

definition segment_line :: "segment \<Rightarrow> string" where
  "segment_line s = sg_Prefix s @ '':'' @ sg_Root s @ '':'' @ itoa (sg_Count s) @ '':'' @ itoa (sg_Bytes s)"

definition prefixes_of :: "(string \<times> nat) list \<Rightarrow> string list" where
  "prefixes_of ls = sort_strings (remdups (map (\<lambda>l. take 2 (fst l)) ls))"

definition inventory_Build ::
  "(string \<Rightarrow> string) \<Rightarrow> string \<Rightarrow> time \<Rightarrow> (string \<times> nat) list result option \<Rightarrow> inventory result" where
  "inventory_Build H casRoot now walk =
     (let iv = zero_inventory\<lparr>iv_Version := 1, iv_Root := casRoot, iv_CreatedAt := now\<rparr> in
      case walk of
        None \<Rightarrow> Inr (iv\<lparr>iv_MerkleRoot := hashLines H []\<rparr>)
      | Some (Inl e) \<Rightarrow> Inl e
      | Some (Inr files) \<Rightarrow>
          (case walk_entries files of
             Inl e \<Rightarrow> Inl e
           | Inr ls \<Rightarrow>
               let segs = map (mk_segment H ls) (prefixes_of ls)
               in Inr (iv\<lparr>iv_Objects := int (length ls), iv_Bytes := int (sum_list (map snd ls)), iv_Segments := segs,
                           iv_MerkleRoot := hashLines H (map segment_line segs)\<rparr>)))"

definition segment_map :: "inventory \<Rightarrow> (string, segment) gomap" where
  "segment_map iv = foldl (\<lambda>m s. gput (sg_Prefix s) s m) [] (iv_Segments iv)"

definition DivergentPrefixes :: "inventory \<Rightarrow> inventory \<Rightarrow> string list" where
  "DivergentPrefixes a b =
     (let am = segment_map a; bm = segment_map b in
      sort_strings (filter (\<lambda>k. case (gget am k, gget bm k) of
          (Some x, Some y) \<Rightarrow> sg_Root x \<noteq> sg_Root y \<or> sg_Count x \<noteq> sg_Count y \<or> sg_Bytes x \<noteq> sg_Bytes y
        | _ \<Rightarrow> True) (remdups (gkeys am @ gkeys bm))))"

section \<open>Compact encoding\<close>

text \<open>\<open>fmt_time\<close> and \<open>parse_time\<close> are the JSON encoding and decoding of \<^verbatim>\<open>time.Time\<close>.\<close>

definition json_segment :: "segment \<Rightarrow> json" where
  "json_segment s = JObj [(''prefix'', JStr (sg_Prefix s)), (''root'', JStr (sg_Root s)),
     (''count'', jint (sg_Count s)), (''bytes'', jint (sg_Bytes s))]"

definition EncodeCompact :: "(time \<Rightarrow> string) \<Rightarrow> inventory \<Rightarrow> json_text" where
  "EncodeCompact fmt_time iv = Some (JObj
     [(''version'', jint (iv_Version iv)), (''root'', JStr (iv_Root iv)),
      (''merkle_root'', JStr (iv_MerkleRoot iv)), (''objects'', jint (iv_Objects iv)),
      (''bytes'', jint (iv_Bytes iv)), (''created_at'', JStr (fmt_time (iv_CreatedAt iv))),
      (''segments'', if iv_Segments iv = [] then JNull else JArr (map json_segment (iv_Segments iv)))])"

fun um_segment :: "json \<Rightarrow> segment option" where
  "um_segment (JObj fs) = (case (str_field ''prefix'' fs, str_field ''root'' fs, int_field ''count'' fs, int_field ''bytes'' fs) of
     (Some a, Some b, Some c, Some d) \<Rightarrow> Some \<lparr>sg_Prefix = a, sg_Root = b, sg_Count = c, sg_Bytes = d\<rparr> | _ \<Rightarrow> None)"
| "um_segment JNull = Some \<lparr>sg_Prefix = [], sg_Root = [], sg_Count = 0, sg_Bytes = 0\<rparr>"
| "um_segment _ = None"

definition segments_field :: "(string \<times> json) list \<Rightarrow> segment list option" where
  "segments_field fs = (case member ''segments'' fs of
     None \<Rightarrow> Some [] | Some JNull \<Rightarrow> Some [] | Some (JArr xs) \<Rightarrow> um_list um_segment xs | Some _ \<Rightarrow> None)"

definition time_field :: "(string \<Rightarrow> time option) \<Rightarrow> (string \<times> json) list \<Rightarrow> time option" where
  "time_field parse_time fs = (case member ''created_at'' fs of
     None \<Rightarrow> Some zero_time | Some JNull \<Rightarrow> Some zero_time | Some (JStr s) \<Rightarrow> parse_time s | Some _ \<Rightarrow> None)"

definition DecodeCompact :: "(string \<Rightarrow> time option) \<Rightarrow> json_text \<Rightarrow> inventory option" where
  "DecodeCompact parse_time t = (case t of
     Some (JObj fs) \<Rightarrow>
       (case (int_field ''version'' fs, str_field ''root'' fs, str_field ''merkle_root'' fs, int_field ''objects'' fs,
              int_field ''bytes'' fs, time_field parse_time fs, segments_field fs) of
          (Some a, Some b, Some c, Some d, Some e, Some f, Some g) \<Rightarrow>
            Some \<lparr>iv_Version = a, iv_Root = b, iv_MerkleRoot = c, iv_Objects = d, iv_Bytes = e,
                  iv_CreatedAt = f, iv_Segments = g\<rparr>
        | _ \<Rightarrow> None)
   | Some JNull \<Rightarrow> Some zero_inventory
   | _ \<Rightarrow> None)"

section \<open>Inventories of agents\<close>

record agent_inventory =
  ai_AgentID :: string
  ai_Root :: string
  ai_Objects :: int
  ai_Bytes :: int
  ai_Segments :: "segment list"
  ai_Storage :: string

definition agent_inventory_row :: "(string \<Rightarrow> time option) \<Rightarrow> agent \<Rightarrow> agent_inventory" where
  "agent_inventory_row parse_time a =
     (let rw = \<lparr>ai_AgentID = a_ID a, ai_Root = a_InventoryRoot a, ai_Objects = a_InventoryObjects a,
               ai_Bytes = a_InventoryBytes a, ai_Segments = [], ai_Storage = a_StorageHealth a\<rparr>
      in case DecodeCompact parse_time (a_InventoryJSON a) of
           None \<Rightarrow> rw
         | Some iv \<Rightarrow> rw\<lparr>ai_Segments := iv_Segments iv,
             ai_Root := (if ai_Root rw = [] then iv_MerkleRoot iv else ai_Root rw),
             ai_Objects := (if ai_Objects rw = 0 then iv_Objects iv else ai_Objects rw),
             ai_Bytes := (if ai_Bytes rw = 0 then iv_Bytes iv else ai_Bytes rw)\<rparr>)"

definition AgentInventories :: "'s store_iface \<Rightarrow> (string \<Rightarrow> time option) \<Rightarrow> 's \<Rightarrow> agent_inventory list result" where
  "AgentInventories S parse_time st = (case i_ListAgents S st of Inl e \<Rightarrow> Inl e
     | Inr agents \<Rightarrow> Inr (sort_less (\<lambda>x y. ai_AgentID x < ai_AgentID y) (map (agent_inventory_row parse_time) agents)))"

record inventory_comparison =
  ic_Left :: string
  ic_Right :: string
  ic_Equal :: bool
  ic_DivergentPrefixes :: "string list"

text \<open>A text that is not JSON stands for both the empty and the malformed inventory text.\<close>

definition CompareInventories ::
  "'s store_iface \<Rightarrow> (string \<Rightarrow> time option) \<Rightarrow> string \<Rightarrow> string \<Rightarrow> 's \<Rightarrow> inventory_comparison result" where
  "CompareInventories S parse_time leftID rightID st =
     (case i_GetAgent S leftID st of Inl e \<Rightarrow> Inl e | Inr left \<Rightarrow>
     (case i_GetAgent S rightID st of Inl e \<Rightarrow> Inl e | Inr right \<Rightarrow>
      if a_InventoryJSON left = None \<or> a_InventoryJSON right = None
      then Inl (GoErr ''inventory unavailable for one or both agents'')
      else (case (DecodeCompact parse_time (a_InventoryJSON left), DecodeCompact parse_time (a_InventoryJSON right)) of
              (Some a, Some b) \<Rightarrow> (let diff = DivergentPrefixes a b in
                 Inr \<lparr>ic_Left = leftID, ic_Right = rightID, ic_Equal = (diff = []), ic_DivergentPrefixes = diff\<rparr>)
            | _ \<Rightarrow> Inl (GoErr ''invalid inventory''))))"

end
