(* ===== verification/Inventory_Properties.thy ===== *)
theory Inventory_Properties
  imports Inventory
begin

text \<open>
  The inventory comparison is exact: two stores diverge in a prefix exactly when their objects with
  that prefix differ, provided the digests of the compared segments do not collide; and the
  compact encoding round-trips.
\<close>

section \<open>Lines determine objects\<close>

lemma unlines_simps [simp]: "unlines [] = []" "unlines (l # ls) = l @ newline # unlines ls"
  by (simp_all add: unlines_def)

lemma append_newline_inject:
  "newline \<notin> set a \<Longrightarrow> newline \<notin> set b \<Longrightarrow> a @ newline # xs = b @ newline # ys \<longleftrightarrow> a = b \<and> xs = ys"
proof (induction a arbitrary: b)
  case Nil then show ?case by (cases b) auto
next
  case (Cons c a) then show ?case by (cases b) auto
qed

lemma unlines_inject:
  "(\<And>l. l \<in> set xs \<union> set ys \<Longrightarrow> newline \<notin> set l) \<Longrightarrow> unlines xs = unlines ys \<longleftrightarrow> xs = ys"
proof (induction xs arbitrary: ys)
  case Nil then show ?case by (cases ys) auto
next
  case (Cons x xs)
  show ?case
  proof (cases ys)
    case (Cons y ys')
    then have "newline \<notin> set x" "newline \<notin> set y" using Cons.prems by auto
    moreover have "unlines xs = unlines ys' \<longleftrightarrow> xs = ys'" using Cons.IH [of ys'] Cons.prems Cons by auto
    ultimately show ?thesis using Cons append_newline_inject by simp
  qed simp
qed

definition digest_leaf :: "string \<times> nat \<Rightarrow> bool" where
  "digest_leaf l = (length (fst l) = 64 \<and> list_all hex_char (fst l))"

lemma newline_code: "(of_char newline :: nat) = 10"
  by (simp add: newline_def)

lemma leaf_line_no_newline: "digest_leaf l \<Longrightarrow> newline \<notin> set (leaf_line l)"
proof
  assume d: "digest_leaf l" and n: "newline \<in> set (leaf_line l)"
  have "\<not> hex_char newline" by (simp add: hex_char_def newline_code Let_def)
  with d have "newline \<notin> set (fst l)" by (auto simp: digest_leaf_def list_all_iff)
  moreover have "newline \<noteq> CHR '':''" by (simp add: newline_def)
  ultimately have "newline \<in> set (show_nat (snd l))" using n by (auto simp: leaf_line_def)
  from digit_range(2) [OF this] show False by (simp add: newline_code)
qed

lemma leaf_line_inject: "digest_leaf x \<Longrightarrow> digest_leaf y \<Longrightarrow> leaf_line x = leaf_line y \<longleftrightarrow> x = y"
  by (cases x; cases y) (auto simp: leaf_line_def digest_leaf_def inj_show_nat)

lemma map_leaf_line_inject:
  "(\<And>l. l \<in> set xs \<union> set ys \<Longrightarrow> digest_leaf l) \<Longrightarrow> map leaf_line xs = map leaf_line ys \<longleftrightarrow> xs = ys"
proof (induction xs arbitrary: ys)
  case (Cons x xs)
  show ?case
  proof (cases ys)
    case (Cons y ys')
    then show ?thesis using Cons.IH [of ys'] Cons.prems leaf_line_inject [of x y] by auto
  qed simp
qed auto

lemma segment_text_inject:
  assumes "\<And>l. l \<in> set xs \<union> set ys \<Longrightarrow> digest_leaf l"
  shows "unlines (map leaf_line xs) = unlines (map leaf_line ys) \<longleftrightarrow> xs = ys"
proof -
  have "unlines (map leaf_line xs) = unlines (map leaf_line ys) \<longleftrightarrow> map leaf_line xs = map leaf_line ys"
    by (rule unlines_inject) (use assms leaf_line_no_newline in auto)
  then show ?thesis using map_leaf_line_inject [of xs ys] assms by blast
qed

section \<open>Sorted leaves determine the set of objects\<close>

lemma ordered_distinct_strict:
  fixes key :: "'a \<Rightarrow> 'b :: linorder"
  shows "ordered_by (\<lambda>x y. key x < key y) xs \<Longrightarrow> distinct (map key xs) \<Longrightarrow> sorted_wrt (\<lambda>x y. key x < key y) xs"
  by (induction xs) (auto simp: not_less order.order_iff_strict image_iff)

lemma strict_sorted_unique:
  fixes xs ys :: "(string \<times> 'a) list"
  assumes "sorted_wrt (\<lambda>x y. fst x < fst y) xs" "sorted_wrt (\<lambda>x y. fst x < fst y) ys" "set xs = set ys"
  shows "xs = ys"
proof -
  have m: "map fst xs = map fst ys"
    by (rule strict_sorted_equal) (use assms in \<open>simp_all add: sorted_wrt_map\<close>)
  have "distinct (map fst xs)" using assms(1) by (simp add: sorted_wrt_map [symmetric] strict_sorted_iff)
  then have "inj_on fst (set xs)" by (simp add: distinct_map)
  with m assms(3) show ?thesis by (metis map_inj_on Un_absorb)
qed

lemma leaves_of_sorted: "distinct (map fst ls) \<Longrightarrow> sorted_wrt (\<lambda>x y. fst x < fst y) (leaves_of p ls)"
  by (rule ordered_distinct_strict)
    (simp_all add: leaves_of_def ordered_sort_less distinct_map_filter)

lemma set_leaves_of: "set (leaves_of p ls) = {l \<in> set ls. take 2 (fst l) = p}"
  by (auto simp: leaves_of_def)

lemma leaves_of_eq_iff:
  assumes "distinct (map fst xs)" "distinct (map fst ys)"
  shows "leaves_of p xs = leaves_of p ys \<longleftrightarrow> {l \<in> set xs. take 2 (fst l) = p} = {l \<in> set ys. take 2 (fst l) = p}"
  using strict_sorted_unique [OF leaves_of_sorted [OF assms(1)] leaves_of_sorted [OF assms(2)]] set_leaves_of
  by metis

section \<open>The comparison\<close>

lemma gget_foldl_gput:
  assumes "\<And>p. key (f p) = p"
  shows "gget (foldl (\<lambda>m s. gput (key s) s m) m0 (map f ps)) k = (if k \<in> set ps then Some (f k) else gget m0 k)"
  using assms by (induction ps arbitrary: m0) auto

lemma segment_map_Build:
  assumes "inventory_Build H d t (Some (Inr files)) = Inr iv" "walk_entries files = Inr ls"
  shows "gget (segment_map iv) p = (if leaves_of p ls = [] then None else Some (mk_segment H ls p))"
proof -
  have segs: "iv_Segments iv = map (mk_segment H ls) (prefixes_of ls)"
    using assms by (auto simp: inventory_Build_def Let_def)
  have "sg_Prefix (mk_segment H ls p) = p" for p by (simp add: mk_segment_def Let_def)
  then have "gget (segment_map iv) p = (if p \<in> set (prefixes_of ls) then Some (mk_segment H ls p) else None)"
    using gget_foldl_gput [of sg_Prefix "mk_segment H ls" "[]"] by (simp add: segment_map_def segs)
  moreover have "p \<in> set (prefixes_of ls) \<longleftrightarrow> leaves_of p ls \<noteq> []"
    by (auto simp: prefixes_of_def leaves_of_def filter_empty_conv)
  ultimately show ?thesis by simp
qed

lemma walk_entries_leaves:
  "walk_entries files = Inr ls \<Longrightarrow> (\<forall>l \<in> set ls. digest_leaf l) \<and> map snd ls = map snd files
    \<and> map fst ls = map (\<lambda>e. ToLower (TrimSpace (fst e))) files"
  by (induction files arbitrary: ls)
    (auto simp: walk_entry_def Let_def digest_leaf_def split: sum.splits if_splits)

definition segment_text :: "(string \<times> nat) list \<Rightarrow> string \<Rightarrow> string" where
  "segment_text ls p = unlines (map leaf_line (leaves_of p ls))"

lemma in_DivergentPrefixes:
  "k \<in> set (DivergentPrefixes a b) \<longleftrightarrow> (case (gget (segment_map a) k, gget (segment_map b) k) of
     (None, None) \<Rightarrow> False
   | (Some x, Some y) \<Rightarrow> sg_Root x \<noteq> sg_Root y \<or> sg_Count x \<noteq> sg_Count y \<or> sg_Bytes x \<noteq> sg_Bytes y
   | _ \<Rightarrow> True)"
proof -
  have "k \<in> set (gkeys m) \<longleftrightarrow> gget m k \<noteq> None" for m :: "(string, segment) gomap"
    by (simp add: map_of_eq_None_iff)
  then show ?thesis
    by (auto simp: DivergentPrefixes_def Let_def simp del: set_map split: option.split)
qed

text \<open>
  C9. Comparing two inventories is exact: a prefix is reported as divergent exactly when the objects
  (digest and size) with that prefix differ between the two stores, provided the hash does not
  collide on the two segment texts of that prefix and object names are distinct.
\<close>

theorem divergent_prefixes_exact:
  assumes "inventory_Build H d1 t1 (Some (Inr files1)) = Inr iv1" "walk_entries files1 = Inr ls1"
    and "inventory_Build H d2 t2 (Some (Inr files2)) = Inr iv2" "walk_entries files2 = Inr ls2"
    and "distinct (map fst ls1)" "distinct (map fst ls2)"
    and "H (segment_text ls1 p) = H (segment_text ls2 p) \<longrightarrow> segment_text ls1 p = segment_text ls2 p"
  shows "p \<in> set (DivergentPrefixes iv1 iv2) \<longleftrightarrow>
    {l \<in> set ls1. take 2 (fst l) = p} \<noteq> {l \<in> set ls2. take 2 (fst l) = p}"
proof -
  have leafs: "digest_leaf l" if "l \<in> set (leaves_of p ls1) \<union> set (leaves_of p ls2)" for l
    using that walk_entries_leaves [OF assms(2)] walk_entries_leaves [OF assms(4)] by (auto simp: set_leaves_of)
  have root: "sg_Root (mk_segment H ls1 p) = sg_Root (mk_segment H ls2 p) \<longleftrightarrow> leaves_of p ls1 = leaves_of p ls2"
    using assms(7) segment_text_inject [OF leafs]
    by (auto simp: mk_segment_def hashLines_def segment_text_def Let_def)
  have "p \<in> set (DivergentPrefixes iv1 iv2) \<longleftrightarrow> leaves_of p ls1 \<noteq> leaves_of p ls2"
    unfolding in_DivergentPrefixes segment_map_Build [OF assms(1,2)] segment_map_Build [OF assms(3,4)]
    using root by (auto simp: mk_segment_def Let_def)
  then show ?thesis using leaves_of_eq_iff [OF assms(5,6)] by simp
qed

definition sample_digest :: "char \<Rightarrow> string" where
  "sample_digest c = replicate 63 (CHR ''a'') @ [c]"

lemma sample_walk:
  "walk_entries [(sample_digest (CHR ''b''), 5)] = Inr [(sample_digest (CHR ''b''), 5)]"
  by (simp add: walk_entry_def sample_digest_def TrimSpace_def is_space_def ToLower_def lower_char_def
      hex_char_def replicate_add [symmetric] numeral_eq_Suc)

theorem divergent_prefixes_exact_witness:
  "\<exists>iv. inventory_Build (\<lambda>s. s) ''/c'' 1 (Some (Inr [(sample_digest (CHR ''b''), 5)])) = Inr iv
     \<and> ''aa'' \<notin> set (DivergentPrefixes iv iv)"
proof -
  obtain iv where iv: "inventory_Build (\<lambda>s. s) ''/c'' 1 (Some (Inr [(sample_digest (CHR ''b''), 5)])) = Inr iv"
    by (simp add: inventory_Build_def sample_walk Let_def del: walk_entries.simps)
  from divergent_prefixes_exact [OF iv sample_walk iv sample_walk, of "''aa''"] iv show ?thesis by auto
qed

section \<open>The compact encoding\<close>

lemma inventory_names:
  "ToLower ''version'' = ''version''" "ToLower ''root'' = ''root''" "ToLower ''merkle_root'' = ''merkle_root''"
  "ToLower ''objects'' = ''objects''" "ToLower ''created_at'' = ''created_at''"
  "ToLower ''segments'' = ''segments''" "ToLower ''prefix'' = ''prefix''" "ToLower ''count'' = ''count''"
  by (simp_all add: ToLower_def lower_char_def)

definition segment_in_range :: "segment \<Rightarrow> bool" where
  "segment_in_range s = (int64_ok (sg_Count s) \<and> int64_ok (sg_Bytes s))"

definition inventory_in_range :: "inventory \<Rightarrow> bool" where
  "inventory_in_range iv = (int64_ok (iv_Version iv) \<and> int64_ok (iv_Objects iv) \<and> int64_ok (iv_Bytes iv)
     \<and> list_all segment_in_range (iv_Segments iv))"

lemma um_json_segment: "segment_in_range s \<Longrightarrow> um_segment (json_segment s) = Some s"
  by (cases s) (simp add: json_segment_def segment_in_range_def payload_simps inventory_names)

lemma um_list_segments: "list_all segment_in_range ss \<Longrightarrow> um_list um_segment (map json_segment ss) = Some ss"
  by (induction ss) (simp_all add: um_json_segment)

text \<open>
  The inventory a node puts into its heartbeat is the one the control plane decodes, whenever the
  time format round-trips and the counters fit in 64 bits.
\<close>

theorem inventory_roundtrip:
  assumes "parse_time (fmt_time (iv_CreatedAt iv)) = Some (iv_CreatedAt iv)" "inventory_in_range iv"
  shows "DecodeCompact parse_time (EncodeCompact fmt_time iv) = Some iv"
proof (cases "iv_Segments iv = []")
  case True
  with assms show ?thesis
    by (cases iv) (simp add: DecodeCompact_def EncodeCompact_def time_field_def segments_field_def
        inventory_in_range_def payload_simps inventory_names)
next
  case False
  with assms um_list_segments [of "iv_Segments iv"] show ?thesis
    by (cases iv) (simp add: DecodeCompact_def EncodeCompact_def time_field_def segments_field_def
        inventory_in_range_def payload_simps inventory_names)
qed

theorem inventory_roundtrip_witness:
  "DecodeCompact (\<lambda>s. Some (int (undigits s))) (EncodeCompact (\<lambda>t. show_nat (nat t))
     (zero_inventory\<lparr>iv_CreatedAt := 7, iv_Segments := [\<lparr>sg_Prefix = ''aa'', sg_Root = ''r'', sg_Count = 1, sg_Bytes = 5\<rparr>]\<rparr>))
   = Some (zero_inventory\<lparr>iv_CreatedAt := 7, iv_Segments := [\<lparr>sg_Prefix = ''aa'', sg_Root = ''r'', sg_Count = 1, sg_Bytes = 5\<rparr>]\<rparr>)"
  by (rule inventory_roundtrip)
    (simp_all add: inventory_in_range_def segment_in_range_def int64_ok_def min_int64_def max_int64_def zero_inventory_def)

end
