(* ===== verification/Reconcilers.thy ===== *)
theory Reconcilers
  imports Erasure_Properties Inventory_Properties
begin

text \<open>
  Object-level reconciliation (\<^verbatim>\<open>cas_reconcile.go\<close>), storage maintenance (\<^verbatim>\<open>storage_maintenance.go\<close>) and the
  whole reconciliation step that \<^verbatim>\<open>ReplicationReconciler.Reconcile\<close> composes from the parts.
\<close>

section \<open>CAS reconciliation\<close>

record cas_roles =
  cr_eligible :: "(string, agent) gomap"
  cr_inv :: "(string, inventory) gomap"
  cr_source :: "(string, string list) gomap"
  cr_target :: "(string, string list) gomap"

definition cas_add_agent ::
  "config \<Rightarrow> (string \<Rightarrow> time option) \<Rightarrow> time \<Rightarrow> agent \<Rightarrow> cas_roles \<Rightarrow> cas_roles" where
  "cas_add_agent c parse_time now a r =
     (let rcfg = c_Replication c; scfg = c_Storage c in
      if \<not> agentAllowed (a_ID a) (rc_AllowedAgents rcfg) (rc_ExcludedAgents rcfg)
         \<or> agent_stale now (agent_timeout rcfg) a \<or> TrimSpace (a_ReplicationPublicKey a) = []
         \<or> a_InventoryJSON a = None \<or> \<not> agentReadable a scfg then r
      else (case DecodeCompact parse_time (a_InventoryJSON a) of None \<Rightarrow> r | Some x \<Rightarrow>
        let pool = agentPool a (sc_ObjectPoolLabel scfg);
            r1 = r\<lparr>cr_eligible := gput (a_ID a) a (cr_eligible r), cr_inv := gput (a_ID a) x (cr_inv r),
                   cr_source := gput pool (slice_at (cr_source r) pool @ [a_ID a]) (cr_source r)\<rparr>
        in if agentAcceptsPlacement a scfg
           then r1\<lparr>cr_target := gput pool (slice_at (cr_target r1) pool @ [a_ID a]) (cr_target r1)\<rparr> else r1))"

definition inv_in :: "(string, inventory) gomap \<Rightarrow> string \<Rightarrow> inventory" where
  "inv_in m i = (case gget m i of None \<Rightarrow> zero_inventory | Some x \<Rightarrow> x)"

definition divergentSourceBytes :: "inventory \<Rightarrow> string list \<Rightarrow> int" where
  "divergentSourceBytes iv prefixes =
     (let want = map (\<lambda>p. ToLower (TrimSpace p)) prefixes
      in foldl (\<lambda>n s. if ToLower (sg_Prefix s) \<in> set want then wrap64 (n + sg_Bytes s) else n) 0 (iv_Segments iv))"

definition shortRoot :: "string \<Rightarrow> string" where
  "shortRoot s = (if length s > 12 then take 12 s else s)"

definition cas_job_target :: "string \<Rightarrow> string \<Rightarrow> inventory \<Rightarrow> inventory \<Rightarrow> string" where
  "cas_job_target source target si ti = ''cas:'' @ source @ ''>'' @ target @ '':'' @ shortRoot (iv_MerkleRoot si)
     @ '':'' @ shortRoot (iv_MerkleRoot ti)"

text \<open>\<^verbatim>\<open>known\<close>: the last listed job per target; a key already queued or done, or failed recently, is skipped.\<close>

definition known_jobs :: "job list \<Rightarrow> (string, job) gomap" where
  "known_jobs jobs = fold (\<lambda>j m. if j_Kind j = ''replicate-cas'' then gput (j_Target j) j m else m) jobs []"

definition cas_skip :: "duration \<Rightarrow> time \<Rightarrow> (string, job) gomap \<Rightarrow> string \<Rightarrow> bool" where
  "cas_skip cooldown now known key = (case gget known key of None \<Rightarrow> False
     | Some prev \<Rightarrow> job_active prev \<or> j_Status prev = JobSucceeded
         \<or> (j_Status prev = JobFailed \<and> time_Sub now (j_UpdatedAt prev) < cooldown))"

text \<open>One ordered pair of agents of a pool; the state carries \<^verbatim>\<open>known\<close> along.\<close>

definition cas_pair ::
  "'s store_iface \<Rightarrow> (string \<Rightarrow> nat \<Rightarrow> string) \<Rightarrow> config \<Rightarrow> time \<Rightarrow> cas_roles \<Rightarrow> string list \<Rightarrow> int \<Rightarrow> string \<times> string \<Rightarrow>
   (string, job) gomap \<times> 's run \<Rightarrow> (string, job) gomap \<times> 's run" where
  "cas_pair S newID c now ro targets factor st acc =
     (case (st, acc) of ((source, target), (known, r)) \<Rightarrow>
       let scfg = c_Storage c; ta = agent_in (cr_eligible ro) target;
           si = inv_in (cr_inv ro) source; ti = inv_in (cr_inv ro) target;
           diff = DivergentPrefixes si ti; key = cas_job_target source target si ti
       in if source = target \<or> diff = [] then acc
          else if \<not> agentHasCapacityFor ta scfg (divergentSourceBytes si diff) then acc
          else if cas_skip (dur_or (10 * minute) (sc_InventoryInterval scfg)) now known key then acc
          else
            let p = \<lparr>rca_TransferID = newID ''casrepl'' (rn_ids r), rca_SourceAgent = source, rca_TargetAgent = target,
                     rca_TargetReplicationPubKey = a_ReplicationPublicKey ta, rca_PoolAgents = targets,
                     rca_Factor = factor, rca_Prefixes = diff, rca_Digests = [], rca_Erasure = None,
                     rca_SourceInventoryRoot = iv_MerkleRoot si, rca_TargetInventoryRoot = iv_MerkleRoot ti\<rparr>;
                r1 = queue_job S newID now (mk_job ''replicate-cas'' key (marshal_replicate_cas p) source 120
                       (wk_MaxAttempts (c_Workers c)) now) (r\<lparr>rn_ids := rn_ids r + 1\<rparr>)
            in ((if rn_n r1 > rn_n r
                 then gput key (zero_job\<lparr>j_Target := key, j_Status := JobQueued, j_UpdatedAt := now\<rparr>) known else known), r1))"

primrec cas_pairs ::
  "'s store_iface \<Rightarrow> (string \<Rightarrow> nat \<Rightarrow> string) \<Rightarrow> config \<Rightarrow> time \<Rightarrow> cas_roles \<Rightarrow> string list \<Rightarrow> int \<Rightarrow> (string \<times> string) list \<Rightarrow>
   (string, job) gomap \<times> 's run \<Rightarrow> (string, job) gomap \<times> 's run" where
  "cas_pairs S newID c now ro targets factor [] acc = acc"
| "cas_pairs S newID c now ro targets factor (p # ps) acc =
     (let acc1 = cas_pair S newID c now ro targets factor p acc
      in if ok (snd acc1) then cas_pairs S newID c now ro targets factor ps acc1 else acc1)"

definition cas_pool ::
  "'s store_iface \<Rightarrow> (string \<Rightarrow> nat \<Rightarrow> string) \<Rightarrow> config \<Rightarrow> time \<Rightarrow> cas_roles \<Rightarrow> string \<times> string list \<Rightarrow>
   (string, job) gomap \<times> 's run \<Rightarrow> (string, job) gomap \<times> 's run" where
  "cas_pool S newID c now ro e acc =
     (let sources = sort_strings (snd e); targets = sort_strings (slice_at (cr_target ro) (fst e));
          factor = min (sc_ObjectReplicationFactor (c_Storage c)) (int (length targets))
      in if factor < 1 then acc
         else cas_pairs S newID c now ro targets factor (List.product sources targets) acc)"

primrec cas_pools ::
  "'s store_iface \<Rightarrow> (string \<Rightarrow> nat \<Rightarrow> string) \<Rightarrow> config \<Rightarrow> time \<Rightarrow> cas_roles \<Rightarrow> (string \<times> string list) list \<Rightarrow>
   (string, job) gomap \<times> 's run \<Rightarrow> (string, job) gomap \<times> 's run" where
  "cas_pools S newID c now ro [] acc = acc"
| "cas_pools S newID c now ro (e # es) acc =
     (let acc1 = cas_pool S newID c now ro e acc
      in if ok (snd acc1) then cas_pools S newID c now ro es acc1 else acc1)"

definition cas_agents :: "config \<Rightarrow> (string \<Rightarrow> time option) \<Rightarrow> time \<Rightarrow> agent list \<Rightarrow> cas_roles" where
  "cas_agents c parse_time now agents = fold (cas_add_agent c parse_time now) agents
     \<lparr>cr_eligible = [], cr_inv = [], cr_source = [], cr_target = []\<rparr>"

definition CASReconcile ::
  "'s store_iface \<Rightarrow> (string \<Rightarrow> nat \<Rightarrow> string) \<Rightarrow> (string \<Rightarrow> time option) \<Rightarrow> config \<Rightarrow> time \<Rightarrow> 's run \<Rightarrow> 's run" where
  "CASReconcile S newID parse_time c now r =
     (let scfg = c_Storage c in
      if \<not> sc_Enabled scfg \<or> \<not> sc_InventoryEnabled scfg \<or> sc_ObjectReplicationFactor scfg \<le> 0 then r
      else (case i_ListAgents S (rn_st r) of Inl e \<Rightarrow> r\<lparr>rn_err := Some e\<rparr> | Inr agents \<Rightarrow>
        let ro = cas_agents c parse_time now agents;
            known = (case i_ListJobs S 20000 (rn_st r) of Inl _ \<Rightarrow> [] | Inr js \<Rightarrow> known_jobs js)
        in snd (cas_pools S newID c now ro (cr_source ro) (known, r))))"

section \<open>Storage maintenance\<close>

definition queue_maintenance ::
  "'s store_iface \<Rightarrow> (string \<Rightarrow> nat \<Rightarrow> string) \<Rightarrow> config \<Rightarrow> time \<Rightarrow> job list \<Rightarrow> string \<Rightarrow> 's run \<Rightarrow> 's run" where
  "queue_maintenance S newID c now jobs affinity r =
     (let cfg = c_Storage c; ma = wk_MaxAttempts (c_Workers c);
          r1 = (if sb_Enabled (sc_Scrub cfg)
                   \<and> \<not> recentlyRanJob jobs ''scrub-cas'' affinity (dur_or (24 * hour) (sb_Interval (sc_Scrub cfg))) now
                then queue_job S newID now (mk_job ''scrub-cas'' affinity
                       (Some (JObj [(''sample_objects'', jint (sb_SampleObjects (sc_Scrub cfg)))])) affinity 70 ma now) r
                else r)
      in if \<not> ok r1 then r1
         else if ti_Enabled (sc_Tiering cfg) \<and> \<not> recentlyRanJob jobs ''tier-cas'' affinity (24 * hour) now
         then queue_job S newID now (mk_job ''tier-cas'' affinity (Some (JObj [])) affinity 40 ma now) r1
         else r1)"

definition MaintenanceReconcile ::
  "'s store_iface \<Rightarrow> (string \<Rightarrow> nat \<Rightarrow> string) \<Rightarrow> config \<Rightarrow> time \<Rightarrow> 's run \<Rightarrow> 's run" where
  "MaintenanceReconcile S newID c now r =
     (if \<not> sc_Enabled (c_Storage c) then r
      else
        let jobs = (case i_ListJobs S 50000 (rn_st r) of Inl _ \<Rightarrow> [] | Inr js \<Rightarrow> js)
        in (case i_ListAgents S (rn_st r) of Inl e \<Rightarrow> r\<lparr>rn_err := Some e\<rparr> | Inr agents \<Rightarrow>
             loop (queue_maintenance S newID c now jobs)
               (LocalWorkerAffinity # map a_ID (filter (\<lambda>a. agentReadable a (c_Storage c)) agents)) r))"

section \<open>The whole step\<close>

text \<open>
  Go on with the next part unless an error was returned; the count of a part that fails is dropped.
\<close>

definition and_then :: "'s run \<Rightarrow> ('s run \<Rightarrow> 's run) \<Rightarrow> 's run" where
  "and_then r f = (if ok r then (let r' = f r in if ok r' then r' else r'\<lparr>rn_n := rn_n r\<rparr>) else r)"

text \<open>\<open>hrg\<close> and \<open>hrc\<close> are the storage probes of the generations root and of the CAS root.\<close>

definition ReplicationReconcile ::
  "'s store_iface \<Rightarrow> (string \<Rightarrow> nat \<Rightarrow> string) \<Rightarrow> (string \<Rightarrow> time option) \<Rightarrow> (string \<Rightarrow> string) \<Rightarrow> config \<Rightarrow>
   string result \<Rightarrow> storage_report \<Rightarrow> storage_report \<Rightarrow> time \<Rightarrow> string list \<Rightarrow> 's run \<Rightarrow> string list \<times> 's run" where
  "ReplicationReconcile S newID parse_time sha256 c pub hrg hrc now files r =
     (if \<not> rc_Enabled (c_Replication c) then (files, r)
      else (case CleanupExpiredReplicationTransfers S (c_Replication c) now files (rn_st r) of
        (_, Some e, files1, st) \<Rightarrow> (files1, r\<lparr>rn_err := Some e, rn_st := st\<rparr>)
      | (_, None, files1, st) \<Rightarrow>
          let scfg = c_Storage c;
              r1 = replicate_generations S newID c pub hrg now (r\<lparr>rn_st := st\<rparr>);
              r2 = and_then r1 (\<lambda>r. if sc_ObjectReplicationFactor scfg > 0
                     then CASReconcile S newID parse_time c now r else r);
              r3 = and_then r2 (\<lambda>r. if ec_Enabled (sc_Erasure scfg) \<and> ec_Distributed (sc_Erasure scfg)
                     then ErasureReconcile S newID sha256 c pub hrc now r else r);
              r4 = and_then r3 (\<lambda>r. if sc_Enabled scfg then MaintenanceReconcile S newID c now r else r)
          in (files1, r4)))"

section \<open>Reconciliation only adds jobs\<close>

definition maintenance_kind :: "string \<Rightarrow> bool" where
  "maintenance_kind k = (k \<in> {''replicate-generation'', ''replicate-cas'', ''protect-erasure'', ''scrub-cas'', ''tier-cas''})"

context enqueue_store
begin

lemma good_queue_maintenance:
  assumes "good newID P r0 r" "inj (newID ''job'')" "0 \<le> wk_MaxAttempts (c_Workers c)"
    and P: "\<And>j x. maintenance_kind (j_Kind j) \<Longrightarrow> queued_as j x \<Longrightarrow> P x"
  shows "good newID P r0 (queue_maintenance S newID c now js i r)"
  using assms(1-3) by (auto simp: queue_maintenance_def Let_def maintenance_kind_def intro!: good_queue_job P)

lemma good_MaintenanceReconcile:
  assumes "good newID P r0 r" "ok r" "inj (newID ''job'')" "0 \<le> wk_MaxAttempts (c_Workers c)"
    and P: "\<And>j x. maintenance_kind (j_Kind j) \<Longrightarrow> queued_as j x \<Longrightarrow> P x"
  shows "good newID P r0 (MaintenanceReconcile S newID c now r)"
proof -
  have "good newID P r0 (loop (queue_maintenance S newID c now js) ids r)" for js ids
    by (rule good_loop [OF assms(1,2)]) (auto intro: good_queue_maintenance assms(3,4) P)
  then show ?thesis
    using assms(1) by (auto simp: MaintenanceReconcile_def Let_def split: sum.split simp del: loop.simps)
qed

lemma good_cas_pair:
  assumes "good newID P r0 (snd acc)" "inj (newID ''job'')" "0 \<le> wk_MaxAttempts (c_Workers c)"
    and P: "\<And>j x. maintenance_kind (j_Kind j) \<Longrightarrow> queued_as j x \<Longrightarrow> P x"
  shows "good newID P r0 (snd (cas_pair S newID c now ro targets factor p acc))"
proof -
  have "good newID P r0 ((snd acc)\<lparr>rn_ids := rn_ids (snd acc) + 1\<rparr>)" using assms(1) by (rule good_step) auto
  then show ?thesis
    using assms(1-3) by (auto simp: cas_pair_def Let_def maintenance_kind_def split: prod.split intro!: good_queue_job P)
qed

lemma good_cas_pairs:
  assumes "inj (newID ''job'')" "0 \<le> wk_MaxAttempts (c_Workers c)"
    and P: "\<And>j x. maintenance_kind (j_Kind j) \<Longrightarrow> queued_as j x \<Longrightarrow> P x"
  shows "good newID P r0 (snd acc) \<Longrightarrow> good newID P r0 (snd (cas_pairs S newID c now ro targets factor ps acc))"
  by (induction ps arbitrary: acc) (simp_all add: Let_def good_cas_pair assms)

lemma good_cas_pools:
  assumes "inj (newID ''job'')" "0 \<le> wk_MaxAttempts (c_Workers c)"
    and P: "\<And>j x. maintenance_kind (j_Kind j) \<Longrightarrow> queued_as j x \<Longrightarrow> P x"
  shows "good newID P r0 (snd acc) \<Longrightarrow> good newID P r0 (snd (cas_pools S newID c now ro es acc))"
  by (induction es arbitrary: acc) (simp_all add: Let_def cas_pool_def good_cas_pairs assms)

lemma good_CASReconcile:
  assumes "good newID P r0 r" "inj (newID ''job'')" "0 \<le> wk_MaxAttempts (c_Workers c)"
    and P: "\<And>j x. maintenance_kind (j_Kind j) \<Longrightarrow> queued_as j x \<Longrightarrow> P x"
  shows "good newID P r0 (CASReconcile S newID parse_time c now r)"
  using assms(1) by (auto simp: CASReconcile_def Let_def split: sum.split intro!: good_cas_pools assms)

lemma good_replicate_generations:
  assumes g: "good newID P r0 r" and k: "ok r" and inj: "inj (newID ''job'')" and m: "0 \<le> wk_MaxAttempts (c_Workers c)"
    and P: "\<And>j x. maintenance_kind (j_Kind j) \<Longrightarrow> queued_as j x \<Longrightarrow> P x"
  shows "good newID P r0 (replicate_generations S newID c pub hr now r)"
proof -
  have copy: "good newID P r0 (queue_copy S newID c now ro busy g st r)" if g: "good newID P r0 r" for ro busy g st r
  proof -
    have "good newID P r0 (r\<lparr>rn_ids := rn_ids r + 1\<rparr>)" using that by (rule good_step) auto
    then show ?thesis
      using that inj m by (auto simp: queue_copy_def Let_def maintenance_kind_def split: prod.split intro!: good_queue_job P)
  qed
  have one: "good newID P r0 (replicate_generation S newID c now ro busy g r)"
    if "good newID P r0 r" "ok r" for ro busy g r
    using that by (auto simp: replicate_generation_def split: sum.split intro!: good_loop copy)
  show ?thesis
    using g k by (auto simp: replicate_generations_def Let_def split: sum.split intro!: good_loop one)
qed

lemma good_and_then:
  "good newID P r0 r \<Longrightarrow> (good newID P r0 r \<Longrightarrow> ok r \<Longrightarrow> good newID P r0 (f r)) \<Longrightarrow> ok (and_then r f) \<Longrightarrow>
   good newID P r0 (and_then r f)"
  by (auto simp: and_then_def Let_def ok_def split: if_splits)

end

lemma ok_and_then: "ok (and_then r f) \<Longrightarrow> ok r"
  by (auto simp: and_then_def Let_def split: if_splits)

text \<open>A store whose transfer bookkeeping leaves the queue alone.\<close>

locale reconcile_store = enqueue_store +
  assumes delete_wf: "wf s \<Longrightarrow> wf (snd (i_DeleteReplicationTransfer S i s))"
    and delete_jobs: "jobs (snd (i_DeleteReplicationTransfer S i s)) = jobs s"
begin

lemma cleanup_loop_jobs:
  "cleanup_loop S cfg ts (n, files, st) = (n', e, files', st') \<Longrightarrow> wf st \<Longrightarrow> wf st' \<and> jobs st' = jobs st"
proof (induction ts arbitrary: n files st)
  case (Cons t ts)
  obtain out st1 where d: "i_DeleteReplicationTransfer S (t_ID t) st = (out, st1)" by fastforce
  have "wf st1" "jobs st1 = jobs st" using delete_wf [OF Cons.prems(2)] delete_jobs d by (metis snd_conv)+
  with Cons d show ?case by (cases out) (auto simp: Let_def)
qed simp

lemma cleanup_jobs:
  "CleanupExpiredReplicationTransfers S cfg now files st = (n, e, files', st') \<Longrightarrow> wf st \<Longrightarrow>
   wf st' \<and> jobs st' = jobs st"
  by (auto simp: CleanupExpiredReplicationTransfers_def split: sum.splits dest: cleanup_loop_jobs)

lemma reconcile_good:
  assumes "wf (rn_st r)" "fresh_ids jobs newID r" "inj (newID ''job'')" "0 \<le> wk_MaxAttempts (c_Workers c)" "ok r"
    and res: "ReplicationReconcile S newID parse_time sha256 c pub hrg hrc now files r = (files', r')" and k: "ok r'"
  shows "adds jobs (\<lambda>x. maintenance_kind (j_Kind x)) r r'"
proof (cases "rc_Enabled (c_Replication c)")
  case True
  let ?P = "\<lambda>x. maintenance_kind (j_Kind x)" and ?scfg = "c_Storage c"
  have P: "?P x" if "maintenance_kind (j_Kind j)" "queued_as j x" for j x
    using that by (simp add: queued_as_def same_slot_def)
  have PE: "?P x" if "j_Kind j = ''replicate-cas'' \<or> j_Kind j = ''protect-erasure''" "queued_as j x" for j x
    using P that by (auto simp: maintenance_kind_def)
  obtain n e files1 st where cl: "CleanupExpiredReplicationTransfers S (c_Replication c) now files (rn_st r) = (n, e, files1, st)"
    by (metis prod_cases4)
  have st: "wf st" "jobs st = jobs (rn_st r)" using cleanup_jobs [OF cl assms(1)] by auto
  have e: "e = None" using True res cl k by (cases e) (auto simp: ReplicationReconcile_def ok_def)
  define r0 where "r0 = r\<lparr>rn_st := st\<rparr>"
  define r1 where "r1 = replicate_generations S newID c pub hrg now r0"
  define r2 where "r2 = and_then r1 (\<lambda>r. if sc_ObjectReplicationFactor ?scfg > 0 then CASReconcile S newID parse_time c now r else r)"
  define r3 where "r3 = and_then r2 (\<lambda>r. if ec_Enabled (sc_Erasure ?scfg) \<and> ec_Distributed (sc_Erasure ?scfg)
      then ErasureReconcile S newID sha256 c pub hrc now r else r)"
  have r': "r' = and_then r3 (\<lambda>r. if sc_Enabled ?scfg then MaintenanceReconcile S newID c now r else r)"
    using True res cl e by (simp add: ReplicationReconcile_def r3_def r2_def r1_def r0_def Let_def)
  have ok3: "ok r3" using ok_and_then k r' by metis
  have ok2: "ok r2" using ok_and_then ok3 r3_def by metis
  have ok1: "ok r1" using ok_and_then ok2 r2_def by metis
  have g0: "good newID ?P r r0"
    using st assms(2) by (simp add: good_def fresh_ids_def r0_def adds_refl)
  have "ok r0" using assms(5) by (simp add: r0_def ok_def)
  from good_replicate_generations [OF g0 this assms(3,4) P] have g1: "good newID ?P r r1" unfolding r1_def .
  have cas: "good newID ?P r (CASReconcile S newID parse_time c now q)" if "good newID ?P r q" for q
    by (rule good_CASReconcile [OF that assms(3,4) P])
  have era: "good newID ?P r (ErasureReconcile S newID sha256 c pub hrc now q)" if "good newID ?P r q" "ok q" for q
    by (rule good_ErasureReconcile [OF that assms(3,4) PE])
  have mnt: "good newID ?P r (MaintenanceReconcile S newID c now q)" if "good newID ?P r q" "ok q" for q
    by (rule good_MaintenanceReconcile [OF that assms(3,4) P])
  have g2: "good newID ?P r r2" unfolding r2_def
    by (rule good_and_then [OF g1]) (use ok2 cas in \<open>auto simp: r2_def\<close>)
  have g3: "good newID ?P r r3" unfolding r3_def
    by (rule good_and_then [OF g2]) (use ok3 era in \<open>auto simp: r3_def\<close>)
  have "good newID ?P r r'" unfolding r'
    by (rule good_and_then [OF g3]) (use k mnt in \<open>auto simp: r'\<close>)
  then show ?thesis by (simp add: good_def)
qed (use res in \<open>simp add: ReplicationReconcile_def adds_refl\<close>)

end

interpretation mr: reconcile_store "mem_iface repo_id" m_Jobs mem_wf for repo_id
  by unfold_locales (simp_all add: mem_iface_def mem_DeleteReplicationTransfer_def mem_wf_def)

interpretation sr: reconcile_store "sql_iface repo_id" d_jobs sql_wf for repo_id
  by unfold_locales (simp_all add: sql_iface_def sql_DeleteReplicationTransfer_def sql_wf_def)


definition scrub_config_on :: config where
  "scrub_config_on = sample_config\<lparr>c_Storage := sample_storage\<lparr>sc_Scrub := (sc_Scrub sample_storage)\<lparr>sb_Enabled := True\<rparr>\<rparr>\<rparr>"

definition sql_run0 :: "database run" where
  "sql_run0 = \<lparr>rn_n = 0, rn_err = None, rn_ids = 0, rn_st = sql_Migrate\<rparr>"

definition sample_report :: storage_report where
  "sample_report = \<lparr>hr_Root = [], hr_Health = HealthHealthy, hr_TotalBytes = 0, hr_FreeBytes = 0, hr_FreePercent = 0,
     hr_ProbeMS = 0, hr_Error = [], hr_CheckedAt = 0\<rparr>"

lemma sql_Migrate_reads:
  "i_ListAgents (sql_iface f) sql_Migrate = Inr []" "i_ListJobs (sql_iface f) n sql_Migrate = Inr []"
  "i_ListAllGenerations (sql_iface f) n sql_Migrate = Inr []"
  "i_ListExpiredReplicationTransfers (sql_iface f) t n sql_Migrate = Inr []"
  by (simp_all add: sql_iface_def sql_Migrate_def sql_SetMeta_def sql_ListAgents_def sql_ListJobs_def
      sql_ListAllGenerations_def sql_ListExpiredReplicationTransfers_def top_n_def)

lemma sql_Migrate_enqueue:
  "new_job j \<Longrightarrow> \<exists>x s'. i_Enqueue (sql_iface f) now nid j sql_Migrate = (Inr (x, True), s')"
  by (simp add: sql_iface_def sql_Enqueue_def active_in_slot_def sql_Migrate_def sql_SetMeta_def insert_job_def
      slot_taken_def id_env_def Let_def)

lemma sql_run0_reconcile:
  "\<exists>r'. ReplicationReconcile (sql_iface f) sample_newID (\<lambda>_. None) (\<lambda>s. s) scrub_config_on (Inr []) sample_report
      sample_report 110 [] sql_run0 = ([], r') \<and> ok r' \<and> rn_n r' = 1"
proof -
  let ?j = "mk_job ''scrub-cas'' LocalWorkerAffinity (Some (JObj [(''sample_objects'', jint 0)])) LocalWorkerAffinity 70 3 110"
  obtain x s' where "i_Enqueue (sql_iface f) 110 (sample_newID ''job'' 0) ?j sql_Migrate = (Inr (x, True), s')"
    using sql_Migrate_enqueue [of ?j] by fastforce
  then show ?thesis
    by (simp add: ReplicationReconcile_def scrub_config_on_def sample_config_def sample_replication_def sample_storage_def
        CleanupExpiredReplicationTransfers_def sql_run0_def sql_Migrate_reads replicate_generations_def agent_roles_def
        and_then_def ok_def MaintenanceReconcile_def queue_maintenance_def recentlyRanJob_def queue_job_def Let_def)
qed


end
