(* ===== verification/Approvals.thy ===== *)
theory Approvals
  imports Memory_Queue Sql_Queue
begin

text \<open>
  Restore approvals, the four-eyes control in front of a restore: the life of one approval as a step
  relation (\<open>approval_step\<close>), the locale \<open>approval_store\<close> that both stores interpret, and what every
  run of store operations keeps.  \<^verbatim>\<open>Complete\<close> of a restore job consumes the approval its payload
  names, so the queue operations are steps of this machine as well.
\<close>

section \<open>The state machine of one approval\<close>

datatype approval_op =
  ApCreate time string restore_approval
| ApApprove time string string bool
| ApSchedule time string
| ApRelease time string
| ApExecute time string
| ApQueue queue_op

text \<open>\<open>sched_ok\<close> is the store's condition on the clock and the approval for scheduling it.\<close>

inductive approval_step ::
  "(time \<Rightarrow> restore_approval \<Rightarrow> bool) \<Rightarrow> approval_op \<Rightarrow> string \<Rightarrow> restore_approval option \<Rightarrow> restore_approval option \<Rightarrow> bool"
  for sched_ok where
  stay: "approval_step sched_ok q k x x"
| create: "ap_Status a' = ApprovalPending \<Longrightarrow> ap_RequestedBy a' = ap_RequestedBy a \<Longrightarrow> ap_ExpiresAt a' = ap_ExpiresAt a
    \<Longrightarrow> k = (if ap_ID a = [] then nid else ap_ID a) \<Longrightarrow> approval_step sched_ok (ApCreate now nid a) k None (Some a')"
| approve: "ap_Status a = ApprovalPending \<Longrightarrow> \<not> approval_lapsed now a \<Longrightarrow> (dst \<longrightarrow> ap_RequestedBy a \<noteq> actor)
    \<Longrightarrow> approval_step sched_ok (ApApprove now k actor dst) k (Some a)
          (Some (a\<lparr>ap_Status := ApprovalApproved, ap_ApprovedBy := actor, ap_UpdatedAt := now\<rparr>))"
| expire: "ap_Status a = ApprovalPending \<Longrightarrow> approval_lapsed now a
    \<Longrightarrow> approval_step sched_ok (ApApprove now k actor dst) k (Some a)
          (Some (a\<lparr>ap_Status := ApprovalExpired, ap_UpdatedAt := now\<rparr>))"
| schedule: "ap_Status a = ApprovalApproved \<Longrightarrow> sched_ok now a
    \<Longrightarrow> approval_step sched_ok (ApSchedule now k) k (Some a)
          (Some (a\<lparr>ap_Status := ApprovalScheduled, ap_UpdatedAt := now\<rparr>))"
| release: "ap_Status a = ApprovalScheduled
    \<Longrightarrow> approval_step sched_ok (ApRelease now k) k (Some a)
          (Some (a\<lparr>ap_Status := ApprovalApproved, ap_UpdatedAt := now\<rparr>))"
| execute: "ap_Status a = ApprovalScheduled
    \<Longrightarrow> approval_step sched_ok (ApExecute now k) k (Some a)
          (Some (a\<lparr>ap_Status := ApprovalExecuted, ap_UpdatedAt := now\<rparr>))"
| complete: "ap_Status a = ApprovalScheduled
    \<Longrightarrow> approval_step sched_ok (ApQueue (OpComplete now i owner)) k (Some a)
          (Some (a\<lparr>ap_Status := ApprovalExecuted, ap_UpdatedAt := now\<rparr>))"

inductive_cases approval_step_fromE: "approval_step sched_ok q k (Some a) y"

text \<open>Both callers of \<^verbatim>\<open>CreateRestoreApproval\<close> pass a new identifier and the pending status.\<close>

fun approval_pre :: "approval_op \<Rightarrow> (string, restore_approval) gomap \<Rightarrow> bool" where
  "approval_pre (ApCreate now nid a) m =
     (gget m (if ap_ID a = [] then nid else ap_ID a) = None \<and> ap_Status a \<in> {[], ApprovalPending})"
| "approval_pre _ m = True"

inductive approval_run ::
  "(approval_op \<Rightarrow> 's \<Rightarrow> 's) \<Rightarrow> ('s \<Rightarrow> (string, restore_approval) gomap) \<Rightarrow> 's \<Rightarrow> approval_op list \<Rightarrow> 's \<Rightarrow> bool"
  for step apps s0 where
  start: "approval_run step apps s0 [] s0"
| more: "approval_run step apps s0 qs s \<Longrightarrow> approval_pre q (apps s) \<Longrightarrow>
    approval_run step apps s0 (qs @ [q]) (step q s)"

text \<open>The approval was granted during the run, before it expired, by the recorded approver.\<close>

definition approved_in :: "approval_op list \<Rightarrow> string \<Rightarrow> restore_approval \<Rightarrow> bool" where
  "approved_in qs k a = (\<exists>now dst. ApApprove now k (ap_ApprovedBy a) dst \<in> set qs
     \<and> \<not> approval_lapsed now a \<and> (dst \<longrightarrow> ap_RequestedBy a \<noteq> ap_ApprovedBy a))"

definition scheduled_in ::
  "(time \<Rightarrow> restore_approval \<Rightarrow> bool) \<Rightarrow> approval_op list \<Rightarrow> string \<Rightarrow> restore_approval \<Rightarrow> bool" where
  "scheduled_in sched_ok qs k a = (\<exists>now b. ApSchedule now k \<in> set qs \<and> sched_ok now b
     \<and> ap_ExpiresAt b = ap_ExpiresAt a)"

definition approval_hist ::
  "(time \<Rightarrow> restore_approval \<Rightarrow> bool) \<Rightarrow> approval_op list \<Rightarrow> string \<Rightarrow> restore_approval \<Rightarrow> bool" where
  "approval_hist sched_ok qs k a =
     ((ap_Status a \<in> {ApprovalApproved, ApprovalScheduled, ApprovalExecuted} \<longrightarrow> approved_in qs k a)
      \<and> (ap_Status a \<in> {ApprovalScheduled, ApprovalExecuted} \<longrightarrow> scheduled_in sched_ok qs k a))"

lemma approved_in_mono: "approved_in qs k a \<Longrightarrow> set qs \<subseteq> set qs' \<Longrightarrow> approved_in qs' k a"
  unfolding approved_in_def by blast

lemma scheduled_in_mono: "scheduled_in ok qs k a \<Longrightarrow> set qs \<subseteq> set qs' \<Longrightarrow> scheduled_in ok qs' k a"
  unfolding scheduled_in_def by blast

lemma approved_in_update [simp]:
  "approved_in qs k (a\<lparr>ap_Status := v, ap_UpdatedAt := t\<rparr>) = approved_in qs k a"
  by (simp add: approved_in_def approval_lapsed_def)

lemma scheduled_in_update [simp]:
  "scheduled_in ok qs k (a\<lparr>ap_Status := v, ap_UpdatedAt := t\<rparr>) = scheduled_in ok qs k a"
  by (simp add: scheduled_in_def)

lemma approval_step_hist:
  assumes "approval_step sched_ok q k x (Some a')"
    and "\<And>a. x = Some a \<Longrightarrow> approval_hist sched_ok qs k a"
  shows "approval_hist sched_ok (qs @ [q]) k a'"
  using assms(1)
proof cases
  case stay
  with assms(2) [of a'] show ?thesis
    by (auto simp: approval_hist_def intro: approved_in_mono scheduled_in_mono)
next
  case (create a now nid)
  then show ?thesis by (simp add: approval_hist_def status_simps)
next
  case (approve a now dst actor)
  have "approved_in (qs @ [q]) k a'"
    unfolding approved_in_def using approve by (auto simp: approval_lapsed_def)
  with approve show ?thesis by (simp add: approval_hist_def status_simps)
next
  case (expire a now actor dst)
  then show ?thesis by (simp add: approval_hist_def status_simps)
next
  case (schedule a now)
  have "scheduled_in sched_ok (qs @ [q]) k a"
    unfolding scheduled_in_def using schedule by auto
  with schedule assms(2) [of a] show ?thesis
    by (auto simp: approval_hist_def status_simps intro: approved_in_mono)
next
  case (release a now)
  with assms(2) [of a] show ?thesis
    by (auto simp: approval_hist_def status_simps intro: approved_in_mono)
next
  case (execute a now)
  with assms(2) [of a] show ?thesis
    by (auto simp: approval_hist_def status_simps intro: approved_in_mono scheduled_in_mono)
next
  case (complete a now i owner)
  with assms(2) [of a] show ?thesis
    by (auto simp: approval_hist_def status_simps intro: approved_in_mono scheduled_in_mono)
qed

lemma approval_step_executed:
  "approval_step sched_ok q k (Some a) y \<Longrightarrow> ap_Status a = ApprovalExecuted \<Longrightarrow> y = Some a"
  by (erule approval_step_fromE) (auto simp: status_simps)

section \<open>The contract\<close>

locale approval_store =
  fixes step :: "approval_op \<Rightarrow> 's \<Rightarrow> 's"
    and apps :: "'s \<Rightarrow> (string, restore_approval) gomap"
    and sched_ok :: "time \<Rightarrow> restore_approval \<Rightarrow> bool"
  assumes step_refines: "approval_pre q (apps s) \<Longrightarrow>
    approval_step sched_ok q k (gget (apps s) k) (gget (apps (step q s)) k)"
begin

lemma run_hist:
  assumes "approval_run step apps s0 qs s" "apps s0 = []" "gget (apps s) k = Some a"
  shows "approval_hist sched_ok qs k a"
  using assms
proof (induction arbitrary: a)
  case start
  then show ?case by simp
next
  case (more qs s q)
  then show ?case using step_refines [OF more.hyps(2), of k] by (metis approval_step_hist)
qed

lemma run_executed:
  assumes "approval_run step apps s0 qs s" "gget (apps s0) k = Some a" "ap_Status a = ApprovalExecuted"
  shows "gget (apps s) k = Some a"
  using assms
proof (induction)
  case (more qs s q)
  then show ?case using step_refines [OF more.hyps(2), of k] by (metis approval_step_executed)
qed

end

section \<open>The two stores\<close>

fun mem_astep :: "approval_op \<Rightarrow> mem_store \<Rightarrow> mem_store" where
  "mem_astep (ApCreate now nid a) m = mem_CreateRestoreApproval now nid a m"
| "mem_astep (ApApprove now i actor dst) m = snd (mem_ApproveRestore now i actor dst m)"
| "mem_astep (ApSchedule now i) m = snd (mem_ScheduleRestore now i m)"
| "mem_astep (ApRelease now i) m = snd (mem_ReleaseRestoreSchedule now i m)"
| "mem_astep (ApExecute now i) m = snd (mem_MarkRestoreExecuted now i m)"
| "mem_astep (ApQueue q) m = snd (mem_step q m)"

fun sql_astep :: "approval_op \<Rightarrow> database \<Rightarrow> database" where
  "sql_astep (ApCreate now nid a) s = snd (sql_CreateRestoreApproval now nid a s)"
| "sql_astep (ApApprove now i actor dst) s = snd (sql_ApproveRestore now i actor dst s)"
| "sql_astep (ApSchedule now i) s = snd (sql_ScheduleRestore now i s)"
| "sql_astep (ApRelease now i) s = snd (sql_ReleaseRestoreSchedule now i s)"
| "sql_astep (ApExecute now i) s = snd (sql_MarkRestoreExecuted now i s)"
| "sql_astep (ApQueue q) s = snd (sql_step q s)"

text \<open>The in-memory store schedules at any time, the SQL store only before the approval expires.\<close>

definition any_time :: "time \<Rightarrow> restore_approval \<Rightarrow> bool" where
  "any_time now a = True"

definition unexpired :: "time \<Rightarrow> restore_approval \<Rightarrow> bool" where
  "unexpired now a = (ap_ExpiresAt a > now)"

lemma mem_step_approvals:
  "m_Approvals (snd (mem_step q m)) = m_Approvals m \<or>
   (\<exists>now i owner aid a. q = OpComplete now i owner \<and> gget (m_Approvals m) aid = Some a
      \<and> ap_Status a = ApprovalScheduled \<and> m_Approvals (snd (mem_step q m))
        = gput aid (a\<lparr>ap_Status := ApprovalExecuted, ap_UpdatedAt := now\<rparr>) (m_Approvals m))"
  by (cases q) (auto simp: mem_Enqueue_def mem_Lease_def mem_Complete_def mem_Fail_def mem_RetryJob_def Let_def
      split: option.splits if_splits prod.splits)

lemma update_approval_gget:
  "gget (d_restore_approvals (snd (update_approval now i cond to s))) k =
     (case gget (d_restore_approvals s) k of None \<Rightarrow> None
      | Some a \<Rightarrow> Some (if k = i \<and> cond a then a\<lparr>ap_Status := to, ap_UpdatedAt := now\<rparr> else a))"
  by (auto simp: update_approval_def split: option.splits)

lemma sql_step_approvals:
  "d_restore_approvals (snd (sql_step q s)) = d_restore_approvals s \<or>
   (\<exists>now i owner aid. q = OpComplete now i owner
      \<and> d_restore_approvals (snd (sql_step q s)) = d_restore_approvals
          (snd (update_approval now aid (\<lambda>a. ap_Status a = ApprovalScheduled) ApprovalExecuted s)))"
proof (cases q)
  case (OpEnqueue now nid j)
  then show ?thesis
    by (auto simp: sql_Enqueue_def insert_job_def id_env_def Let_def split: option.splits if_splits)
next
  case (OpComplete now i owner)
  then show ?thesis
    by (auto simp: sql_Complete_def Let_def split: option.splits if_splits prod.splits) (metis snd_conv)
qed (auto simp: sql_Lease_def sql_Fail_def sql_RetryJob_def id_env_def Let_def split: option.splits if_splits)

lemma mem_set_approval_gget:
  "gget (m_Approvals (snd (mem_set_approval now i from to m))) k =
     (case gget (m_Approvals m) k of None \<Rightarrow> None
      | Some a \<Rightarrow> Some (if k = i \<and> ap_Status a = from then a\<lparr>ap_Status := to, ap_UpdatedAt := now\<rparr> else a))"
  by (auto simp: mem_set_approval_def split: option.splits)

lemmas mem_approval_defs = mem_ScheduleRestore_def mem_ReleaseRestoreSchedule_def mem_MarkRestoreExecuted_def
lemmas sql_approval_defs = sql_ScheduleRestore_def sql_ReleaseRestoreSchedule_def sql_MarkRestoreExecuted_def
  affected_one_def

interpretation ma: approval_store mem_astep m_Approvals any_time
proof
  fix q k and s :: mem_store
  assume pre: "approval_pre q (m_Approvals s)"
  show "approval_step any_time q k (gget (m_Approvals s) k) (gget (m_Approvals (mem_astep q s)) k)"
  proof (cases q)
    case (ApCreate now nid a)
    with pre show ?thesis
      by (auto simp: mem_CreateRestoreApproval_def Let_def intro: approval_step.stay intro!: approval_step.create)
  next
    case (ApApprove now i actor dst)
    then show ?thesis
      by (auto simp: mem_ApproveRestore_def split: option.splits intro: approval_step.intros)
  next
    case (ApQueue p)
    then show ?thesis
      using mem_step_approvals [of p s] by (auto intro: approval_step.stay intro!: approval_step.complete)
  qed (auto simp: mem_approval_defs mem_set_approval_gget any_time_def split: option.splits intro: approval_step.intros)
qed

interpretation sa: approval_store sql_astep d_restore_approvals unexpired
proof
  fix q k and s :: database
  assume pre: "approval_pre q (d_restore_approvals s)"
  show "approval_step unexpired q k (gget (d_restore_approvals s) k) (gget (d_restore_approvals (sql_astep q s)) k)"
  proof (cases q)
    case (ApCreate now nid a)
    with pre show ?thesis
      by (auto simp: sql_CreateRestoreApproval_def Let_def intro: approval_step.stay intro!: approval_step.create)
  next
    case (ApApprove now i actor dst)
    then show ?thesis
      by (auto simp: sql_ApproveRestore_def update_approval_gget approval_lapsed_def
          split: option.splits intro: approval_step.intros)
  next
    case (ApQueue p)
    then show ?thesis
      using sql_step_approvals [of p s] by (auto simp: update_approval_gget split: option.splits intro: approval_step.intros)
  qed (auto simp: sql_approval_defs update_approval_gget unexpired_def split: option.splits intro: approval_step.intros)
qed

section \<open>Properties\<close>

text \<open>Every list of operations that meets the preconditions step by step is a run.\<close>

primrec approval_pres ::
  "(approval_op \<Rightarrow> 's \<Rightarrow> 's) \<Rightarrow> ('s \<Rightarrow> (string, restore_approval) gomap) \<Rightarrow> approval_op list \<Rightarrow> 's \<Rightarrow> bool" where
  "approval_pres step apps [] s = True"
| "approval_pres step apps (q # qs) s = (approval_pre q (apps s) \<and> approval_pres step apps qs (step q s))"

lemma approval_pres_append:
  "approval_pres step apps (qs @ rs) s \<longleftrightarrow> approval_pres step apps qs s \<and> approval_pres step apps rs (fold step qs s)"
  by (induction qs arbitrary: s) auto

lemma approval_run_fold: "approval_pres step apps qs s \<Longrightarrow> approval_run step apps s qs (fold step qs s)"
proof (induction qs rule: rev_induct)
  case Nil
  show ?case by (simp add: approval_run.start)
next
  case (snoc q qs)
  then show ?case using approval_run.more [of step apps s qs "fold step qs s" q] by (simp add: approval_pres_append)
qed

text \<open>The concrete runs the witnesses use.\<close>

definition sample_request :: restore_approval where
  "sample_request = \<lparr>ap_ID = ''r1'', ap_Repository = ''o/r'', ap_GenerationID = ''g1'', ap_Target = [],
     ap_RequestedBy = ''alice'', ap_ApprovedBy = [], ap_Status = ApprovalPending, ap_CreatedAt = 1,
     ap_ExpiresAt = 100, ap_UpdatedAt = 1\<rparr>"

definition sample_approval_ops :: "approval_op list" where
  "sample_approval_ops = [ApCreate 1 [] sample_request, ApApprove 10 ''r1'' ''bob'' True, ApSchedule 20 ''r1'',
     ApExecute 30 ''r1'']"

lemmas sample_approval_simps = sample_approval_ops_def sample_request_def approval_lapsed_def IsZero_def
  zero_time_def status_simps

lemma sample_executed_sql:
  "\<exists>a. gget (d_restore_approvals (fold sql_astep sample_approval_ops sql_Migrate)) ''r1'' = Some a
     \<and> ap_Status a = ApprovalExecuted"
  by (simp add: sample_approval_simps sql_Migrate_def sql_SetMeta_def sql_CreateRestoreApproval_def Let_def
      sql_ApproveRestore_def sql_approval_defs update_approval_def)

lemma sample_executed_mem:
  "\<exists>a. gget (m_Approvals (fold mem_astep sample_approval_ops NewMemoryStore)) ''r1'' = Some a
     \<and> ap_Status a = ApprovalExecuted"
  by (simp add: sample_approval_simps NewMemoryStore_def mem_CreateRestoreApproval_def Let_def
      mem_ApproveRestore_def mem_approval_defs mem_set_approval_def)

text \<open>
  C11. Four eyes on the SQL store: when approvers must differ from requesters, a restore approval counts
  as executed only if somebody other than the requester approved it before it expired and it was
  scheduled before it expired.
\<close>

theorem sql_two_person_rule:
  assumes "approval_run sql_astep d_restore_approvals s0 qs s" "d_restore_approvals s0 = []"
    and "gget (d_restore_approvals s) k = Some a" "ap_Status a = ApprovalExecuted"
    and "\<forall>now i actor. ApApprove now i actor False \<notin> set qs"
  shows "ap_ApprovedBy a \<noteq> ap_RequestedBy a
    \<and> (\<exists>now. ApApprove now k (ap_ApprovedBy a) True \<in> set qs \<and> \<not> approval_lapsed now a)
    \<and> (\<exists>now. ApSchedule now k \<in> set qs \<and> now < ap_ExpiresAt a)"
proof -
  have hist: "approved_in qs k a" "scheduled_in unexpired qs k a"
    using sa.run_hist [OF assms(1-3)] assms(4) by (simp_all add: approval_hist_def)
  obtain now dst where *: "ApApprove now k (ap_ApprovedBy a) dst \<in> set qs" "\<not> approval_lapsed now a"
    "dst \<longrightarrow> ap_RequestedBy a \<noteq> ap_ApprovedBy a"
    using hist(1) by (auto simp: approved_in_def)
  have dst using *(1) assms(5) by (cases dst) auto
  with * hist(2) show ?thesis by (auto simp: scheduled_in_def unexpired_def)
qed

theorem sql_two_person_rule_witness:
  "\<exists>a. gget (d_restore_approvals (fold sql_astep sample_approval_ops sql_Migrate)) ''r1'' = Some a
     \<and> ap_Status a = ApprovalExecuted \<and> ap_ApprovedBy a \<noteq> ap_RequestedBy a
     \<and> (\<exists>now. ApSchedule now ''r1'' \<in> set sample_approval_ops \<and> now < ap_ExpiresAt a)"
proof -
  let ?s = "fold sql_astep sample_approval_ops sql_Migrate"
  have "approval_pres sql_astep d_restore_approvals sample_approval_ops sql_Migrate"
    by (simp add: sample_approval_ops_def sample_request_def sql_Migrate_def sql_SetMeta_def)
  note run = approval_run_fold [OF this]
  obtain a where a: "gget (d_restore_approvals ?s) ''r1'' = Some a" "ap_Status a = ApprovalExecuted"
    using sample_executed_sql by auto
  have "d_restore_approvals sql_Migrate = []" by (simp add: sql_Migrate_def sql_SetMeta_def)
  moreover have "\<forall>now i actor. ApApprove now i actor False \<notin> set sample_approval_ops"
    by (simp add: sample_approval_ops_def)
  ultimately show ?thesis using sql_two_person_rule [OF run _ a] a by blast
qed

text \<open>
  The same for the in-memory store, except that scheduling does not look at the expiry.
\<close>

theorem mem_two_person_rule:
  assumes "approval_run mem_astep m_Approvals m0 qs m" "m_Approvals m0 = []"
    and "gget (m_Approvals m) k = Some a" "ap_Status a = ApprovalExecuted"
    and "\<forall>now i actor. ApApprove now i actor False \<notin> set qs"
  shows "ap_ApprovedBy a \<noteq> ap_RequestedBy a
    \<and> (\<exists>now. ApApprove now k (ap_ApprovedBy a) True \<in> set qs \<and> \<not> approval_lapsed now a)
    \<and> (\<exists>now. ApSchedule now k \<in> set qs)"
proof -
  have hist: "approved_in qs k a" "scheduled_in any_time qs k a"
    using ma.run_hist [OF assms(1-3)] assms(4) by (simp_all add: approval_hist_def)
  obtain now dst where *: "ApApprove now k (ap_ApprovedBy a) dst \<in> set qs" "\<not> approval_lapsed now a"
    "dst \<longrightarrow> ap_RequestedBy a \<noteq> ap_ApprovedBy a"
    using hist(1) by (auto simp: approved_in_def)
  have dst using *(1) assms(5) by (cases dst) auto
  with * hist(2) show ?thesis by (auto simp: scheduled_in_def)
qed

theorem mem_two_person_rule_witness:
  "\<exists>a. gget (m_Approvals (fold mem_astep sample_approval_ops NewMemoryStore)) ''r1'' = Some a
     \<and> ap_Status a = ApprovalExecuted \<and> ap_ApprovedBy a \<noteq> ap_RequestedBy a"
proof -
  let ?m = "fold mem_astep sample_approval_ops NewMemoryStore"
  have "approval_pres mem_astep m_Approvals sample_approval_ops NewMemoryStore"
    by (simp add: sample_approval_ops_def sample_request_def NewMemoryStore_def)
  note run = approval_run_fold [OF this]
  obtain a where a: "gget (m_Approvals ?m) ''r1'' = Some a" "ap_Status a = ApprovalExecuted"
    using sample_executed_mem by auto
  have "m_Approvals NewMemoryStore = []" by (simp add: NewMemoryStore_def)
  moreover have "\<forall>now i actor. ApApprove now i actor False \<notin> set sample_approval_ops"
    by (simp add: sample_approval_ops_def)
  ultimately show ?thesis using mem_two_person_rule [OF run _ a] a by blast
qed

text \<open>
  An approval is consumed at most once: once it is executed, no later run of operations on the SQL
  store changes it, and completing a further restore job that names it fails without an effect.
\<close>

theorem sql_approval_consumed_once:
  assumes "approval_run sql_astep d_restore_approvals s0 qs s"
    and "gget (d_restore_approvals s0) k = Some a" "ap_Status a = ApprovalExecuted"
    and "gget (d_jobs s) i = Some j" "job_approval j = Some k"
  shows "gget (d_restore_approvals s) k = Some a \<and> (\<exists>e. sql_Complete now i owner s = (Inl e, s))"
proof -
  have "gget (d_restore_approvals s) k = Some a" by (rule sa.run_executed [OF assms(1-3)])
  moreover from this assms(3) have "update_approval now k (\<lambda>a. ap_Status a = ApprovalScheduled) ApprovalExecuted s = (0, s)"
    by (simp add: update_approval_def status_simps)
  ultimately show ?thesis using assms(4,5) by (simp add: sql_Complete_def Let_def)
qed

definition restore_job :: job where
  "restore_job = zero_job\<lparr>j_ID := ''j1'', j_Kind := ''restore-generation'', j_Status := JobRunning, j_LeaseOwner := ''w'',
     j_Payload := marshal_restore_payload \<lparr>rsp_Repository = ''o/r'', rsp_GenerationID = ''g1'', rsp_Target = [],
       rsp_ApprovalID = ''r1''\<rparr>\<rparr>"

theorem sql_approval_consumed_once_witness:
  "\<exists>e. sql_Complete 40 ''j1'' ''w'' ((fold sql_astep sample_approval_ops sql_Migrate)\<lparr>d_jobs := [(''j1'', restore_job)]\<rparr>)
     = (Inl e, (fold sql_astep sample_approval_ops sql_Migrate)\<lparr>d_jobs := [(''j1'', restore_job)]\<rparr>)"
proof -
  let ?s = "(fold sql_astep sample_approval_ops sql_Migrate)\<lparr>d_jobs := [(''j1'', restore_job)]\<rparr>"
  obtain a where a: "gget (d_restore_approvals ?s) ''r1'' = Some a" "ap_Status a = ApprovalExecuted"
    using sample_executed_sql by auto
  have j: "gget (d_jobs ?s) ''j1'' = Some restore_job" by simp
  have "job_approval restore_job = Some ''r1''"
    by (simp add: restore_job_def job_approval_def zero_job_def marshal_restore_payload_def omitempty_def
        member_def str_field_def)
  from sql_approval_consumed_once [OF approval_run.start a j this] show ?thesis by blast
qed

end
