(* ===== verification/Object_Refs.thy ===== *)
theory Object_Refs
  imports Memory_Store Sql_Store
begin

text \<open>
  The reference counts that keep shared objects alive: \<^verbatim>\<open>EnsureObjectRef\<close>, \<^verbatim>\<open>ReleaseObjectRef\<close>, object leases
  and \<^verbatim>\<open>ProtectedObjectDigests\<close>, the set the garbage collector must not touch.  The contract
  \<open>ref_store\<close> abstracts a store to the set of (digest, owner) pairs that hold a reference; the
  counter of a digest is shown to be the number of its owners.
\<close>

section \<open>The contract\<close>

datatype ref_op =
  RefEnsure time object_ref string
| RefRelease time string string
| RefLease time string object_lease
| RefUnlease string

text \<open>Callers leave the counter of the reference they pass at zero.\<close>

fun ref_pre :: "ref_op \<Rightarrow> bool" where
  "ref_pre (RefEnsure now ref owner) = (or_RefCount ref = 0)"
| "ref_pre _ = True"

text \<open>The abstract effect on the pairs; \<open>key\<close> is the store's normalisation of digest and owner.\<close>

fun pairs_step :: "(string \<Rightarrow> string \<Rightarrow> string \<times> string) \<Rightarrow> ref_op \<Rightarrow> (string \<times> string) set \<Rightarrow> (string \<times> string) set" where
  "pairs_step key (RefEnsure now ref owner) X =
     (let p = key (or_Digest ref) owner in if fst p = [] \<or> snd p = [] then X else insert p X)"
| "pairs_step key (RefRelease now d owner) X = X - {key d owner}"
| "pairs_step key _ X = X"

definition holders :: "(string \<times> string) set \<Rightarrow> string \<Rightarrow> string set" where
  "holders X d = {w. (d, w) \<in> X}"

lemma holders_insert: "holders (insert (d, w) X) d' = (if d = d' then insert w (holders X d') else holders X d')"
  by (auto simp: holders_def)

lemma holders_remove: "holders (X - {(d, w)}) d' = (if d = d' then holders X d' - {w} else holders X d')"
  by (auto simp: holders_def)

lemma finite_holders: "finite X \<Longrightarrow> finite (holders X d)"
  unfolding holders_def by (rule finite_subset [of _ "snd ` X"]) force+

locale ref_store =
  fixes step :: "ref_op \<Rightarrow> 's \<Rightarrow> 's"
    and pairs :: "'s \<Rightarrow> (string \<times> string) set"
    and count :: "'s \<Rightarrow> string \<Rightarrow> int"
    and key :: "string \<Rightarrow> string \<Rightarrow> string \<times> string"
    and rep :: "'s \<Rightarrow> bool"
  assumes rep_step: "rep s \<Longrightarrow> ref_pre q \<Longrightarrow> rep (step q s)"
    and finite_pairs: "rep s \<Longrightarrow> finite (pairs s)"
    and pairs_refine: "rep s \<Longrightarrow> pairs (step q s) = pairs_step key q (pairs s)"
    and count_ensure: "rep s \<Longrightarrow> or_RefCount ref = 0 \<Longrightarrow> key (or_Digest ref) w = (e, v) \<Longrightarrow>
      count (step (RefEnsure now ref w) s) d = count s d + (if e = d \<and> e \<noteq> [] \<and> v \<noteq> [] \<and> (e, v) \<notin> pairs s then 1 else 0)"
    and count_release: "rep s \<Longrightarrow> key d' w = (e, v) \<Longrightarrow> ((e, v) \<in> pairs s \<longrightarrow> 0 < count s e) \<Longrightarrow>
      count (step (RefRelease now d' w) s) d = count s d - (if e = d \<and> (e, v) \<in> pairs s then 1 else 0)"
    and count_lease: "count (step (RefLease now nid l) s) d = count s d" "count (step (RefUnlease i) s) d = count s d"
begin

definition exact :: "'s \<Rightarrow> bool" where
  "exact s = (rep s \<and> (\<forall>d. count s d = int (card (holders (pairs s) d))))"

lemma exact_step:
  assumes "exact s" "ref_pre q"
  shows "exact (step q s)"
proof -
  have rep: "rep s" and count: "\<And>d. count s d = int (card (holders (pairs s) d))"
    using assms(1) by (auto simp: exact_def)
  have fin: "finite (holders (pairs s) d)" for d by (rule finite_holders [OF finite_pairs [OF rep]])
  have "count (step q s) d = int (card (holders (pairs (step q s)) d))" for d
  proof (cases q)
    case (RefEnsure now ref w)
    obtain e v where kv: "key (or_Digest ref) w = (e, v)" by fastforce
    show ?thesis
      using RefEnsure assms(2) count_ensure [OF rep _ kv] fin [of d]
      by (auto simp: pairs_refine [OF rep] kv count holders_insert Let_def card_insert_if) (simp add: holders_def)+
  next
    case (RefRelease now d' w)
    obtain e v where kv: "key d' w = (e, v)" by fastforce
    have "0 < count s e" if "(e, v) \<in> pairs s"
      unfolding count using that fin [of e] by (auto simp: card_gt_0_iff holders_def)
    then show ?thesis
      using RefRelease count_release [OF rep kv] fin [of d]
      by (auto simp: pairs_refine [OF rep] kv count holders_remove card_Diff_singleton_if Suc_le_eq card_gt_0_iff)
        (auto simp: holders_def Suc_le_eq card_gt_0_iff)
  qed (simp_all add: pairs_refine [OF rep] count count_lease)
  with rep_step [OF rep assms(2)] show ?thesis by (simp add: exact_def)
qed

lemma exact_run: "exact s \<Longrightarrow> \<forall>q \<in> set qs. ref_pre q \<Longrightarrow> exact (fold step qs s)"
  by (induction qs arbitrary: s) (auto intro: exact_step)

lemma pairs_run: "rep s \<Longrightarrow> \<forall>q \<in> set qs. ref_pre q \<Longrightarrow> pairs (fold step qs s) = fold (pairs_step key) qs (pairs s)"
  by (induction qs arbitrary: s) (simp_all add: pairs_refine rep_step)

lemma exact_positive:
  assumes "exact s"
  shows "0 < count s d \<longleftrightarrow> holders (pairs s) d \<noteq> {}"
proof -
  have "finite (holders (pairs s) d)" using assms finite_holders finite_pairs by (simp add: exact_def)
  with assms show ?thesis by (simp add: exact_def card_gt_0_iff)
qed

end

section \<open>The two stores\<close>

fun mem_rstep :: "ref_op \<Rightarrow> mem_store \<Rightarrow> mem_store" where
  "mem_rstep (RefEnsure now ref owner) m = snd (mem_EnsureObjectRef now ref owner m)"
| "mem_rstep (RefRelease now d owner) m = snd (mem_ReleaseObjectRef now d owner m)"
| "mem_rstep (RefLease now nid l) m = snd (mem_AcquireObjectLease now nid l m)"
| "mem_rstep (RefUnlease i) m = mem_ReleaseObjectLease i m"

fun sql_rstep :: "ref_op \<Rightarrow> database \<Rightarrow> database" where
  "sql_rstep (RefEnsure now ref owner) s = snd (sql_EnsureObjectRef now ref owner s)"
| "sql_rstep (RefRelease now d owner) s = snd (sql_ReleaseObjectRef now d owner s)"
| "sql_rstep (RefLease now nid l) s = snd (sql_AcquireObjectLease now nid l s)"
| "sql_rstep (RefUnlease i) s = sql_ReleaseObjectLease i s"

definition ref_count :: "(string, object_ref) gomap \<Rightarrow> string \<Rightarrow> int" where
  "ref_count t d = (case gget t d of None \<Rightarrow> 0 | Some r \<Rightarrow> or_RefCount r)"

definition mem_pairs :: "mem_store \<Rightarrow> (string \<times> string) set" where
  "mem_pairs m = {(d, w). w \<in> set (slice_at (m_ObjectRefOwners m) d)}"

definition mem_ref_rep :: "mem_store \<Rightarrow> bool" where
  "mem_ref_rep m = (gwf (m_ObjectRefs m) \<and> (\<forall>d. distinct (slice_at (m_ObjectRefOwners m) d))
     \<and> finite (mem_pairs m) \<and> (\<forall>p \<in> mem_pairs m. fst p \<noteq> [] \<and> snd p \<noteq> [])
     \<and> (\<forall>d r. gget (m_ObjectRefs m) d = Some r \<longrightarrow> or_Digest r \<noteq> [] \<or> or_RefCount r = 0))"

definition sql_pairs :: "database \<Rightarrow> (string \<times> string) set" where
  "sql_pairs s = set (gkeys (d_object_ref_owners s))"

definition sql_key :: "string \<Rightarrow> string \<Rightarrow> string \<times> string" where
  "sql_key d w = (ToLower (TrimSpace d), TrimSpace w)"

definition sql_ref_rep :: "database \<Rightarrow> bool" where
  "sql_ref_rep s = (gwf (d_object_refs s)
     \<and> (\<forall>d r. gget (d_object_refs s) d = Some r \<longrightarrow> or_Digest r = d)
     \<and> (\<forall>p \<in> sql_pairs s. fst p \<noteq> [] \<and> snd p \<noteq> []))"

lemma sql_pairs_iff: "p \<in> sql_pairs s \<longleftrightarrow> gget (d_object_ref_owners s) p \<noteq> None"
  by (simp add: sql_pairs_def map_of_eq_None_iff)

lemma ref_count_gput [simp]: "ref_count (gput d r t) d' = (if d = d' then or_RefCount r else ref_count t d')"
  by (simp add: ref_count_def)

lemma or_Digest_refresh [simp]: "or_Digest (refresh_ref c r) = or_Digest c"
  by (simp add: refresh_ref_def Let_def)

lemma sql_pairs_step:
  assumes "sql_ref_rep s"
  shows "sql_pairs (sql_rstep q s) = pairs_step sql_key q (sql_pairs s)"
proof (rule set_eqI)
  fix p
  show "p \<in> sql_pairs (sql_rstep q s) \<longleftrightarrow> p \<in> pairs_step sql_key q (sql_pairs s)"
  proof (cases q)
    case (RefEnsure now ref w)
    then show ?thesis by (auto simp: sql_EnsureObjectRef_def sql_key_def Let_def sql_pairs_iff)
  next
    case (RefRelease now d w)
    have "sql_key d w \<notin> sql_pairs s" if "fst (sql_key d w) = [] \<or> snd (sql_key d w) = []"
      using assms that by (auto simp: sql_ref_rep_def)
    with RefRelease show ?thesis
      by (auto simp: sql_ReleaseObjectRef_def sql_key_def Let_def sql_pairs_iff)
  qed (auto simp: sql_AcquireObjectLease_def sql_ReleaseObjectLease_def sql_pairs_def Let_def)
qed

lemma sql_rep_step:
  assumes "sql_ref_rep s"
  shows "sql_ref_rep (sql_rstep q s)"
proof -
  have "\<forall>p \<in> sql_pairs (sql_rstep q s). fst p \<noteq> [] \<and> snd p \<noteq> []"
    using assms by (cases q) (auto simp: sql_pairs_step [OF assms] sql_ref_rep_def Let_def simp del: sql_rstep.simps split: if_splits)
  moreover have "gwf (d_object_refs (sql_rstep q s))
      \<and> (\<forall>d r. gget (d_object_refs (sql_rstep q s)) d = Some r \<longrightarrow> or_Digest r = d)"
    using assms by (cases q) (auto simp: sql_ref_rep_def sql_EnsureObjectRef_def sql_ReleaseObjectRef_def update_row_def
        sql_AcquireObjectLease_def sql_ReleaseObjectLease_def Let_def split: option.splits if_splits)
  ultimately show ?thesis by (simp add: sql_ref_rep_def)
qed

interpretation so: ref_store sql_rstep sql_pairs "\<lambda>s. ref_count (d_object_refs s)" sql_key sql_ref_rep
proof (unfold_locales, goal_cases)
  case (3 s q)
  then show ?case by (rule sql_pairs_step)
next
  case (4 s ref w e v now d)
  then show ?case
    by (auto simp: sql_EnsureObjectRef_def sql_key_def Let_def sql_pairs_iff) (auto simp: ref_count_def split: option.splits)
next
  case (5 s d' w e v now d)
  have "(e, v) \<notin> sql_pairs s" if "e = [] \<or> v = []" using 5(1) that by (auto simp: sql_ref_rep_def)
  with 5 show ?case
    by (auto simp: sql_ReleaseObjectRef_def sql_key_def Let_def sql_pairs_iff update_row_def split: option.splits)
      (auto simp: ref_count_def)
qed (auto simp: sql_rep_step sql_pairs_def sql_AcquireObjectLease_def sql_ReleaseObjectLease_def Let_def)

lemma mem_pairs_step:
  assumes "mem_ref_rep m"
  shows "mem_pairs (mem_rstep q m) = pairs_step Pair q (mem_pairs m)"
proof (cases q)
  case (RefEnsure now ref w)
  then show ?thesis
    by (auto simp: mem_EnsureObjectRef_def Let_def mem_pairs_def split: if_splits)
next
  case (RefRelease now d w)
  have "distinct (slice_at (m_ObjectRefOwners m) d)" using assms by (simp add: mem_ref_rep_def)
  with RefRelease show ?thesis
    by (auto simp: mem_ReleaseObjectRef_def Let_def mem_pairs_def split: if_splits)
qed (auto simp: mem_AcquireObjectLease_def mem_ReleaseObjectLease_def mem_pairs_def Let_def)

lemma or_Digest_merge: "or_Digest (merge_ref c r) = (if or_Digest c = [] then or_Digest r else or_Digest c)"
  by (simp add: merge_ref_def Let_def)

lemma or_RefCount_merge: "or_RefCount (merge_ref c r) = (if or_Digest c = [] then or_RefCount r else or_RefCount c)"
  by (simp add: merge_ref_def Let_def)

lemma mem_rep_step:
  assumes "mem_ref_rep m" "ref_pre q"
  shows "mem_ref_rep (mem_rstep q m)"
proof -
  have "finite (mem_pairs (mem_rstep q m)) \<and> (\<forall>p \<in> mem_pairs (mem_rstep q m). fst p \<noteq> [] \<and> snd p \<noteq> [])"
    using assms(1) by (cases q) (auto simp: mem_pairs_step [OF assms(1)] mem_ref_rep_def Let_def simp del: mem_rstep.simps split: if_splits)
  moreover have "\<forall>d. distinct (slice_at (m_ObjectRefOwners (mem_rstep q m)) d)"
    using assms(1) by (cases q) (auto simp: mem_ref_rep_def mem_EnsureObjectRef_def mem_ReleaseObjectRef_def
        mem_AcquireObjectLease_def mem_ReleaseObjectLease_def Let_def)
  moreover have "gwf (m_ObjectRefs (mem_rstep q m))
      \<and> (\<forall>d r. gget (m_ObjectRefs (mem_rstep q m)) d = Some r \<longrightarrow> or_Digest r \<noteq> [] \<or> or_RefCount r = 0)"
    using assms by (cases q) (auto simp: mem_ref_rep_def mem_EnsureObjectRef_def mem_ReleaseObjectRef_def or_Digest_merge
        mem_AcquireObjectLease_def mem_ReleaseObjectLease_def ref_at_def zero_object_ref_def Let_def
        split: option.splits if_splits)
  ultimately show ?thesis by (simp add: mem_ref_rep_def)
qed

interpretation mo: ref_store mem_rstep mem_pairs "\<lambda>m. ref_count (m_ObjectRefs m)" Pair mem_ref_rep
proof (unfold_locales, goal_cases)
  case (4 m ref w e v now d)
  then show ?case
    by (auto simp: mem_EnsureObjectRef_def Let_def mem_pairs_def or_RefCount_merge)
      (auto simp: ref_count_def ref_at_def zero_object_ref_def mem_ref_rep_def split: option.splits)
next
  case (5 m d' w e v now d)
  then show ?case
    by (auto simp: mem_ReleaseObjectRef_def Let_def mem_pairs_def)
      (auto simp: ref_count_def ref_at_def split: option.splits)
next
  case (1 m q)
  then show ?case by (rule mem_rep_step)
next
  case (3 m q)
  then show ?case by (rule mem_pairs_step)
qed (auto simp: mem_ref_rep_def mem_AcquireObjectLease_def mem_ReleaseObjectLease_def Let_def)

section \<open>Properties\<close>

lemma sql_exact_Migrate: "so.exact sql_Migrate"
  by (simp add: so.exact_def sql_ref_rep_def sql_pairs_def sql_Migrate_def sql_SetMeta_def ref_count_def holders_def)

lemma mem_exact_New: "mo.exact NewMemoryStore"
  by (simp add: mo.exact_def mem_ref_rep_def mem_pairs_def NewMemoryStore_def ref_count_def holders_def slice_at_def)

lemma sql_protected_iff:
  assumes "sql_ref_rep s"
  shows "d \<in> set (sql_ProtectedObjectDigests now s) \<longleftrightarrow>
    0 < ref_count (d_object_refs s) d \<or> (\<exists>l \<in> set (gvals (d_object_leases s)). ol_Digest l = d \<and> ol_ExpiresAt l > now)"
proof -
  have "(\<exists>r \<in> set (gvals (d_object_refs s)). 0 < or_RefCount r \<and> or_Digest r = d)
      \<longleftrightarrow> 0 < ref_count (d_object_refs s) d"
  proof
    assume "\<exists>r \<in> set (gvals (d_object_refs s)). 0 < or_RefCount r \<and> or_Digest r = d"
    then obtain r where r: "r \<in> set (gvals (d_object_refs s))" "0 < or_RefCount r" "or_Digest r = d" by blast
    with assms obtain k where "gget (d_object_refs s) k = Some r"
      using in_vals_iff [of "d_object_refs s" r] by (force simp: sql_ref_rep_def)
    moreover from this assms r(3) have "k = d" by (auto simp: sql_ref_rep_def)
    ultimately show "0 < ref_count (d_object_refs s) d" using r(2) by (simp add: ref_count_def)
  next
    assume "0 < ref_count (d_object_refs s) d"
    then obtain r where "gget (d_object_refs s) d = Some r" "0 < or_RefCount r"
      by (auto simp: ref_count_def split: option.splits)
    with assms gget_in_vals [of "d_object_refs s" d r]
    show "\<exists>r \<in> set (gvals (d_object_refs s)). 0 < or_RefCount r \<and> or_Digest r = d"
      by (auto simp: sql_ref_rep_def)
  qed
  then show ?thesis by (auto simp: sql_ProtectedObjectDigests_def)
qed

lemma mem_protected_iff:
  assumes "mem_ref_rep m"
  shows "d \<in> set (mem_ProtectedObjectDigests now m) \<longleftrightarrow>
    0 < ref_count (m_ObjectRefs m) d \<or> (\<exists>l \<in> set (gvals (m_ObjectLeases m)). ol_Digest l = d \<and> ol_ExpiresAt l > now)"
proof -
  have "(\<exists>r. (d, r) \<in> set (m_ObjectRefs m) \<and> 0 < or_RefCount r) \<longleftrightarrow> 0 < ref_count (m_ObjectRefs m) d"
    using assms unfolding mem_ref_rep_def ref_count_def by (auto split: option.splits dest: map_of_SomeD)
  then show ?thesis by (force simp: mem_ProtectedObjectDigests_def)
qed

definition sample_ref :: object_ref where
  "sample_ref = \<lparr>or_Digest = ''ab'', or_Kind = ''erasure-shard'', or_Bytes = 7, or_RefCount = 0, or_UpdatedAt = 0\<rparr>"

definition sample_ref_ops :: "ref_op list" where
  "sample_ref_ops = [RefEnsure 1 sample_ref ''x'', RefEnsure 2 sample_ref ''y'', RefEnsure 3 sample_ref ''x'', RefRelease 4 ''ab'' ''y'']"



text \<open>
  The same for the in-memory store.
\<close>

theorem mem_refcount_exact:
  assumes "\<forall>q \<in> set qs. ref_pre q" "m = fold mem_rstep qs NewMemoryStore"
    and "X = holders (fold (pairs_step Pair) qs {}) d"
  shows "ref_count (m_ObjectRefs m) d = int (card X)
    \<and> (d \<in> set (mem_ProtectedObjectDigests now m) \<longleftrightarrow>
         X \<noteq> {} \<or> (\<exists>l \<in> set (gvals (m_ObjectLeases m)). ol_Digest l = d \<and> ol_ExpiresAt l > now))"
proof -
  have ex: "mo.exact m" using mo.exact_run [OF mem_exact_New assms(1)] assms(2) by simp
  have "mem_pairs NewMemoryStore = {}" by (simp add: mem_pairs_def NewMemoryStore_def slice_at_def)
  with mo.pairs_run [of NewMemoryStore qs] assms mem_exact_New have X: "X = holders (mem_pairs m) d"
    by (simp add: mo.exact_def)
  from ex X mem_protected_iff [of m d now] mo.exact_positive [OF ex, of d] show ?thesis
    by (auto simp: mo.exact_def)
qed

theorem mem_refcount_exact_witness:
  "ref_count (m_ObjectRefs (fold mem_rstep sample_ref_ops NewMemoryStore)) ''ab'' = 1
   \<and> ''ab'' \<in> set (mem_ProtectedObjectDigests 9 (fold mem_rstep sample_ref_ops NewMemoryStore))"
proof -
  have pre: "\<forall>q \<in> set sample_ref_ops. ref_pre q" by (simp add: sample_ref_ops_def sample_ref_def)
  have "holders (fold (pairs_step Pair) sample_ref_ops {}) ''ab'' = {''x''}"
    by (auto simp: sample_ref_ops_def sample_ref_def holders_def Let_def)
  from mem_refcount_exact [OF pre refl this [symmetric], of 9] show ?thesis by simp
qed

end
