(* ===== verification/Store_Properties.thy ===== *)
theory Store_Properties
  imports Queue_Properties Inventory
begin

text \<open>
  Properties of single operations of the SQL store that are not about the queue: pruning of generation
  records and the registration of repositories.
\<close>

section \<open>Pruning\<close>

definition keyed_generations :: "(string, generation) gomap \<Rightarrow> bool" where
  "keyed_generations t = (gwf t \<and> (\<forall>k g. gget t k = Some g \<longrightarrow> g_ID g = k))"

definition repo_generations :: "string \<Rightarrow> database \<Rightarrow> generation list" where
  "repo_generations rid s = sort_less generation_after (filter (\<lambda>g. g_RepositoryID g = rid) (gvals (d_generations s)))"

lemma gget_fold_delete_generation:
  "gget (d_generations (fold delete_generation ids s)) k = (if k \<in> set ids then None else gget (d_generations s) k)"
  by (induction ids arbitrary: s) (auto simp: delete_generation_def)

lemma replicas_fold_delete_generation:
  "set (d_generation_replicas (fold delete_generation ids s)) = {e \<in> set (d_generation_replicas s). fst (fst e) \<notin> set ids}"
  by (induction ids arbitrary: s) (auto simp: delete_generation_def)

lemma in_repo_generations:
  assumes "keyed_generations (d_generations s)"
  shows "g \<in> set (repo_generations rid s) \<longleftrightarrow> gget (d_generations s) (g_ID g) = Some g \<and> g_RepositoryID g = rid"
  using assms in_vals_iff [of "d_generations s" g] unfolding keyed_generations_def repo_generations_def by auto

lemma distinct_repo_generations:
  assumes "keyed_generations (d_generations s)"
  shows "distinct (map g_ID (repo_generations rid s))"
proof -
  have wf: "gwf (d_generations s)" and key: "\<And>k g. gget (d_generations s) k = Some g \<Longrightarrow> g_ID g = k"
    using assms by (auto simp: keyed_generations_def)
  have "map (g_ID \<circ> snd) (d_generations s) = map fst (d_generations s)"
    using wf key by (auto intro!: map_cong simp: map_of_eq_Some_iff)
  with wf have "distinct (map (g_ID \<circ> snd) (d_generations s))" by (simp only:)
  then show ?thesis unfolding repo_generations_def by (simp add: distinct_map_filter)
qed

lemma weak_order_generation_after: "weak_order generation_after"
  using weak_order_greater [of g_CreatedAt] by (simp add: generation_after_def [abs_def])

text \<open>In a list sorted newest first, what is dropped is never newer than what is taken.\<close>

lemma take_newer_than_drop:
  assumes "g \<in> set (take n (repo_generations rid s))" "h \<in> set (drop n (repo_generations rid s))"
  shows "g_CreatedAt h \<le> g_CreatedAt g"
proof -
  let ?xs = "repo_generations rid s"
  have "ordered_by generation_after ?xs"
    unfolding repo_generations_def by (rule ordered_sort_less [OF weak_order_generation_after])
  then have "ordered_by generation_after (take n ?xs @ drop n ?xs)" by simp
  with assms show ?thesis
    unfolding sorted_wrt_append by (auto simp: generation_after_def not_less)
qed

definition sample_generation :: "string \<Rightarrow> time \<Rightarrow> generation" where
  "sample_generation i t = \<lparr>g_ID = i, g_RepositoryID = ''r'', g_Repository = ''o/r'', g_MetaPath = [], g_CreatedAt = t,
     g_Verified = True, g_BundleSHA256 = [], g_LFSSHA256 = []\<rparr>"

definition prune_store :: database where
  "prune_store = sql_Migrate\<lparr>d_generations := [(''a'', sample_generation ''a'' 1), (''b'', sample_generation ''b'' 2)]\<rparr>"

text \<open>
  Pruning the generation records of a repository on the SQL store.  With at least \<open>keep\<close> records it
  keeps exactly \<open>keep\<close> of them, none older than a deleted one, leaves the records of every other repository alone
  and leaves no replica of a deleted generation; with fewer records it panics.
\<close>

theorem sql_prune_correct:
  assumes "keyed_generations (d_generations s)" "0 < keep"
    and "sql_PruneGenerationRecords rid keep s = (res, s')"
  shows "if int (length (repo_generations rid s)) < keep
    then res = Inl (GoPanic ''slice bounds out of range'') \<and> s' = s
    else res = Inr () \<and> (\<exists>gone. int (length (repo_generations rid s)) = keep + int (length gone)
      \<and> distinct (map g_ID gone) \<and> set gone \<subseteq> set (repo_generations rid s)
      \<and> (\<forall>k. gget (d_generations s') k = (if k \<in> g_ID ` set gone then None else gget (d_generations s) k))
      \<and> (\<forall>g \<in> set (repo_generations rid s) - set gone. \<forall>h \<in> set gone. g_CreatedAt h \<le> g_CreatedAt g)
      \<and> (\<forall>e \<in> set (d_generation_replicas s'). fst (fst e) \<notin> g_ID ` set gone))"
proof (cases "int (length (repo_generations rid s)) < keep")
  case True
  with assms(2,3) show ?thesis
    by (auto simp: sql_PruneGenerationRecords_def repo_generations_def Let_def)
next
  case False
  let ?xs = "repo_generations rid s"
  let ?gone = "drop (nat keep) ?xs"
  have res: "res = Inr ()" "s' = fold delete_generation (map g_ID ?gone) s"
    using False assms(2,3) by (auto simp: sql_PruneGenerationRecords_def repo_generations_def Let_def drop_map)
  have "\<forall>g \<in> set ?xs - set ?gone. \<forall>h \<in> set ?gone. g_CreatedAt h \<le> g_CreatedAt g"
    by (metis DiffE Un_iff append_take_drop_id set_append take_newer_than_drop)
  moreover have "distinct (map g_ID ?gone)"
    by (metis distinct_drop distinct_repo_generations [OF assms(1)] drop_map)
  ultimately have *: "int (length ?xs) = keep + int (length ?gone)
      \<and> distinct (map g_ID ?gone) \<and> set ?gone \<subseteq> set ?xs
      \<and> (\<forall>k. gget (d_generations s') k = (if k \<in> g_ID ` set ?gone then None else gget (d_generations s) k))
      \<and> (\<forall>g \<in> set ?xs - set ?gone. \<forall>h \<in> set ?gone. g_CreatedAt h \<le> g_CreatedAt g)
      \<and> (\<forall>e \<in> set (d_generation_replicas s'). fst (fst e) \<notin> g_ID ` set ?gone)"
    using False assms(2) by (auto simp: res(2) gget_fold_delete_generation replicas_fold_delete_generation dest: in_set_dropD)
  show ?thesis unfolding if_not_P [OF False] using res(1) * by blast
qed

theorem sql_prune_correct_witness:
  "fst (sql_PruneGenerationRecords ''r'' 5 prune_store) = Inl (GoPanic ''slice bounds out of range'')
   \<and> fst (sql_PruneGenerationRecords ''r'' 1 prune_store) = Inr ()"
proof -
  have k: "keyed_generations (d_generations prune_store)"
    by (auto simp: keyed_generations_def prune_store_def sample_generation_def)
  have n: "length (repo_generations ''r'' prune_store) = 2"
    by (simp add: repo_generations_def prune_store_def sample_generation_def)
  from n sql_prune_correct [OF k _ prod.collapse [symmetric], of 5 "''r''"]
    sql_prune_correct [OF k _ prod.collapse [symmetric], of 1 "''r''"]
  show ?thesis by simp
qed

section \<open>Registration of repositories\<close>

text \<open>\<open>H\<close> is the hexadecimal SHA-256 digest, of which \<^verbatim>\<open>RepositoryID\<close> keeps the first twelve bytes.\<close>

definition RepositoryID :: "(string \<Rightarrow> string) \<Rightarrow> string \<Rightarrow> string \<Rightarrow> string" where
  "RepositoryID H account fullName =
     ''repo_'' @ take 24 (H (ToLower (TrimSpace account) @ [CHR 0x00] @ ToLower (TrimSpace fullName)))"

definition sample_repository :: repository where
  "sample_repository = zero_repository\<lparr>r_ID := RepositoryID id ''o'' ''o/r'', r_Account := ''o'', r_FullName := ''o/r''\<rparr>"

text \<open>
  Repository identifiers ignore case but the SQL store looks registrations up by the exact name: once a
  repository is registered, registering it under a name that differs only in case fails and
  changes nothing.
\<close>

theorem sql_case_rename_fails:
  assumes "gget (d_repositories s) (RepositoryID H account name) \<noteq> None"
    and "\<forall>x \<in> set (gvals (d_repositories s)). r_Account x = account \<longrightarrow> r_FullName x \<noteq> name'"
    and "ToLower (TrimSpace name') = ToLower (TrimSpace name)"
    and "r_ID r = RepositoryID H account name'" "r_Account r = account" "r_FullName r = name'"
  shows "sql_UpsertRepository repo_id now r s = (Inl ErrConstraint, s)"
proof -
  have idn: "RepositoryID H account name' = RepositoryID H account name" using assms(3) by (simp add: RepositoryID_def)
  have "find (\<lambda>e. same_repo (snd e) (r\<lparr>r_NextRunAt := t, r_UpdatedAt := u\<rparr>)) (d_repositories s) = None" for t u
    using assms(2,5,6) by (auto simp: find_None_iff same_repo_def)
  moreover have "find (\<lambda>e. same_repo (snd e) (r\<lparr>r_UpdatedAt := u\<rparr>)) (d_repositories s) = None" for u
    using assms(2,5,6) by (auto simp: find_None_iff same_repo_def)
  moreover have "r_ID r \<noteq> []" by (simp add: assms(4) RepositoryID_def)
  ultimately show ?thesis
    using assms(1,4) idn by (simp add: sql_UpsertRepository_def Let_def)
qed

theorem sql_case_rename_fails_witness:
  "fst (sql_UpsertRepository (RepositoryID id) 9 (sample_repository\<lparr>r_FullName := ''O/R''\<rparr>)
     (sql_Migrate\<lparr>d_repositories := [(RepositoryID id ''o'' ''o/r'', sample_repository)]\<rparr>)) = Inl ErrConstraint"
proof -
  let ?s = "sql_Migrate\<lparr>d_repositories := [(RepositoryID id ''o'' ''o/r'', sample_repository)]\<rparr>"
  have low: "ToLower (TrimSpace ''O/R'') = ToLower (TrimSpace ''o/r'')"
    by code_simp
  have "sql_UpsertRepository (RepositoryID id) 9 (sample_repository\<lparr>r_FullName := ''O/R''\<rparr>) ?s = (Inl ErrConstraint, ?s)"
    by (rule sql_case_rename_fails [where H = id and account = "''o''" and name = "''o/r''" and name' = "''O/R''"])
      (use low in \<open>simp_all add: sample_repository_def zero_repository_def RepositoryID_def\<close>)
  then show ?thesis by simp
qed

end
