(* ===== verification/Path_Match.thy ===== *)
theory Path_Match
  imports Prelude
begin

text \<open>
  \<^verbatim>\<open>path.Match\<close> of the Go library, which selects the schedule policy of a repository: the matched result
  (a malformed pattern does not match).  A pattern is scanned in chunks separated by stars; a chunk
  matches a fixed number of characters, a star any characters but slashes.
\<close>

fun scan_chunk_end :: "bool \<Rightarrow> string \<Rightarrow> nat" where
  "scan_chunk_end inrange [] = 0"
| "scan_chunk_end inrange [c] = (if c = CHR ''*'' \<and> \<not> inrange then 0 else 1)"
| "scan_chunk_end inrange (c # d # cs) =
     (if c = CHR 0x5C then 2 + scan_chunk_end inrange cs
      else if c = CHR ''['' then 1 + scan_chunk_end True (d # cs)
      else if c = CHR '']'' then 1 + scan_chunk_end False (d # cs)
      else if c = CHR ''*'' \<and> \<not> inrange then 0
      else 1 + scan_chunk_end inrange (d # cs))"

definition scanChunk :: "string \<Rightarrow> bool \<times> string \<times> string" where
  "scanChunk pattern =
     (let p = dropWhile (\<lambda>c. c = CHR ''*'') pattern; i = scan_chunk_end False p
      in (p \<noteq> pattern, take i p, drop i p))"

text \<open>One bound of a range in a character class; more of the class must follow.\<close>

fun getEsc :: "string \<Rightarrow> (char \<times> string) option" where
  "getEsc [] = None"
| "getEsc (c # cs) =
     (if c = CHR ''-'' \<or> c = CHR '']'' then None
      else if c = CHR 0x5C then (case cs of d # e # es \<Rightarrow> Some (d, e # es) | _ \<Rightarrow> None)
      else if cs = [] then None else Some (c, cs))"

lemma getEsc_shorter: "getEsc s = Some (c, t) \<Longrightarrow> length t < length s"
  by (cases s) (auto split: if_splits list.splits)

text \<open>The ranges of a class up to its closing bracket, at least one: does one contain \<open>r\<close>, and the rest.\<close>

function class_match :: "char \<Rightarrow> bool \<Rightarrow> bool \<Rightarrow> string \<Rightarrow> (bool \<times> string) option" where
  "class_match r found some chunk =
     (if some \<and> chunk \<noteq> [] \<and> hd chunk = CHR '']'' then Some (found, tl chunk)
      else (case getEsc chunk of None \<Rightarrow> None | Some (lo, rest) \<Rightarrow>
        (if hd rest = CHR ''-''
         then (case getEsc (tl rest) of None \<Rightarrow> None
               | Some (hi, rest') \<Rightarrow> class_match r (found \<or> lo \<le> r \<and> r \<le> hi) True rest')
         else class_match r (found \<or> lo = r) True rest)))"
  by pat_completeness auto
termination
proof (relation "measure (\<lambda>(r, found, some, chunk). length chunk)", goal_cases)
  case (2 r found some chunk p lo rest q hi rest')
  then have "length rest' < length (tl rest)" "length rest < length chunk" by (auto dest: getEsc_shorter)
  then show ?case by simp
next
  case (3 r found some chunk p lo rest)
  then show ?case by (auto dest: getEsc_shorter)
qed simp

declare class_match.simps [simp del]

text \<open>What is left of the name after the chunk has matched at its start.\<close>

function matchChunk :: "string \<Rightarrow> string \<Rightarrow> string option" where
  "matchChunk [] s = Some s"
| "matchChunk (c # cs) [] = None"
| "matchChunk (c # cs) (r # s) =
     (if c = CHR ''['' then
        (let neg = (cs \<noteq> [] \<and> hd cs = CHR 0x5E) in
         case class_match r False False (if neg then tl cs else cs) of
           None \<Rightarrow> None
         | Some (found, rest) \<Rightarrow> if found = neg then None else matchChunk rest s)
      else if c = CHR ''?'' then (if r = CHR ''/'' then None else matchChunk cs s)
      else if c = CHR 0x5C then (case cs of [] \<Rightarrow> None | d # ds \<Rightarrow> if d = r then matchChunk ds s else None)
      else if c = r then matchChunk cs s else None)"
  by pat_completeness auto
termination by (relation "measure (length \<circ> snd)") auto

text \<open>The positions a star may skip to: past any characters before the first slash.\<close>

fun star_find :: "bool \<Rightarrow> string \<Rightarrow> string \<Rightarrow> string option" where
  "star_find fin chunk [] = None"
| "star_find fin chunk (c # cs) =
     (if c = CHR ''/'' then None
      else (case matchChunk chunk cs of
              Some t \<Rightarrow> if fin \<and> t \<noteq> [] then star_find fin chunk cs else Some t
            | None \<Rightarrow> star_find fin chunk cs))"

lemma scan_chunk_end_pos: "p \<noteq> [] \<Longrightarrow> hd p \<noteq> CHR ''*'' \<Longrightarrow> 0 < scan_chunk_end False p"
  by (cases "(False, p)" rule: scan_chunk_end.cases) auto

lemma scanChunk_shorter:
  assumes "pattern \<noteq> []" "scanChunk pattern = (star, chunk, rest)"
  shows "length rest < length pattern"
proof (cases "hd pattern = CHR ''*''")
  case True
  with assms(1) obtain cs where "pattern = CHR ''*'' # cs" by (cases pattern) auto
  with assms(2) length_dropWhile_le [of "\<lambda>c. c = CHR ''*''" cs] show ?thesis
    by (auto simp: scanChunk_def Let_def)
next
  case False
  with assms(1) have "dropWhile (\<lambda>c. c = CHR ''*'') pattern = pattern" by (cases pattern) auto
  with False assms scan_chunk_end_pos [of pattern] show ?thesis by (auto simp: scanChunk_def Let_def)
qed

function path_Match :: "string \<Rightarrow> string \<Rightarrow> bool" where
  "path_Match pattern name =
     (if pattern = [] then name = []
      else (case scanChunk pattern of (star, chunk, rest) \<Rightarrow>
        if star \<and> chunk = [] then CHR ''/'' \<notin> set name
        else (case matchChunk chunk name of
            Some t \<Rightarrow>
              if t = [] \<or> rest \<noteq> [] then path_Match rest t
              else if star then (case star_find True chunk name of None \<Rightarrow> False | Some t \<Rightarrow> path_Match rest t) else False
          | None \<Rightarrow>
              if star then (case star_find (rest = []) chunk name of None \<Rightarrow> False | Some t \<Rightarrow> path_Match rest t) else False)))"
  by pat_completeness auto
termination by (relation "measure (length \<circ> fst)") (auto dest: scanChunk_shorter [OF _ sym])

declare path_Match.simps [simp del]

section \<open>Patterns without special characters and with a final star\<close>

definition literal :: "string \<Rightarrow> bool" where
  "literal p = (list_all (\<lambda>c. c \<notin> {CHR ''*'', CHR ''?'', CHR ''['', CHR '']'', CHR 0x5C}) p)"

lemma literal_Cons [simp]: "literal (c # p) \<longleftrightarrow> c \<notin> {CHR ''*'', CHR ''?'', CHR ''['', CHR '']'', CHR 0x5C} \<and> literal p"
  by (simp add: literal_def)

lemma scan_literal: "literal p \<Longrightarrow> scan_chunk_end False (p @ q) = length p + scan_chunk_end False q"
proof (induction p)
  case (Cons c p)
  show ?case
  proof (cases "p @ q")
    case Nil
    with Cons show ?thesis by simp
  next
    case (Cons d ds)
    with Cons.prems Cons.IH show ?thesis by simp
  qed
qed simp

lemma matchChunk_literal: "literal p \<Longrightarrow> matchChunk p s = (if HasPrefix s p then Some (drop (length p) s) else None)"
  by (induction p s rule: matchChunk.induct) auto

lemma dropWhile_star_literal: "literal p \<Longrightarrow> p \<noteq> [] \<Longrightarrow> dropWhile (\<lambda>c. c = CHR ''*'') (p @ q) = p @ q"
  by (cases p) auto

lemma path_Match_literal:
  assumes "literal p"
  shows "path_Match p s \<longleftrightarrow> s = p"
proof (cases "p = []")
  case False
  have "scanChunk p = (False, p, [])"
    using dropWhile_star_literal [OF assms False, of "[]"] scan_literal [OF assms, of "[]"] by (simp add: scanChunk_def Let_def)
  then show ?thesis
    using False assms
    by (auto simp: path_Match.simps [of p s] path_Match.simps [of "[]"] matchChunk_literal HasPrefix_iff)
qed (simp add: path_Match.simps)

lemma path_Match_star:
  assumes "literal p" "p \<noteq> []"
  shows "path_Match (p @ ''*'') s \<longleftrightarrow> (\<exists>t. s = p @ t \<and> CHR ''/'' \<notin> set t)"
proof -
  have 1: "scanChunk (p @ ''*'') = (False, p, ''*'')"
    using dropWhile_star_literal [OF assms, of "''*''"] scan_literal [OF assms(1), of "''*''"]
    by (simp add: scanChunk_def Let_def)
  have 2: "path_Match ''*'' t \<longleftrightarrow> CHR ''/'' \<notin> set t" for t
    by (simp add: path_Match.simps scanChunk_def)
  show ?thesis
    using assms 1
    by (auto simp: path_Match.simps [of "p @ ''*''"] matchChunk_literal [OF assms(1)] 2 HasPrefix_iff)
qed

end
