(* ===== verification/Scheduler.thy ===== *)
theory Scheduler
  imports Store_Interface Store_Properties Cp_Config Path_Match
begin

text \<open>
  The scheduler (\<^verbatim>\<open>internal/controlplane/scheduler.go\<close>): the choice of a repository's policy, discovery, and the
  queueing of due backups.  What the GitHub client returns is an argument; the tickers of \<^verbatim>\<open>Run\<close> are
  not modelled.
\<close>

section \<open>Policies and discovery\<close>

definition policy_matches :: "repo_schedule_policy \<Rightarrow> string \<Rightarrow> bool" where
  "policy_matches p fullName = (po_Pattern p = ''*'' \<or> po_Pattern p = ''**'' \<or> path_Match (po_Pattern p) fullName)"

definition scheduleFor :: "config \<Rightarrow> string \<Rightarrow> duration \<times> int \<times> bool" where
  "scheduleFor c fullName =
     (let fallback = dur_or (24 * hour) (sd_DefaultInterval (c_Scheduler c)) in
      case find (\<lambda>p. policy_matches p fullName) (sd_Policies (c_Scheduler c)) of
        None \<Rightarrow> (fallback, 50, c_MirroringEnabled c)
      | Some p \<Rightarrow> (if dur_ok (po_Interval p) \<and> ParseDuration (po_Interval p) > 0 then ParseDuration (po_Interval p) else fallback,
                   po_Priority p, po_MirrorGitLab p))"

text \<open>The fields of \<^verbatim>\<open>githubapi.Repository\<close> that discovery reads.\<close>

record gh_repo =
  gh_ID :: int
  gh_Name :: string
  gh_FullName :: string
  gh_Private :: bool
  gh_Fork :: bool
  gh_Archived :: bool
  gh_Disabled :: bool
  gh_CloneURL :: string
  gh_SSHURL :: string
  gh_HTMLURL :: string
  gh_DefaultBranch :: string
  gh_Visibility :: string
  gh_HasWiki :: bool
  gh_HasDiscussions :: bool
  gh_UpdatedAt :: time

definition wanted_repos :: "config \<Rightarrow> gh_repo list \<Rightarrow> gh_repo list" where
  "wanted_repos c repos = filter (\<lambda>r. \<not> (gh_Fork r \<and> \<not> c_IncludeForks c) \<and> \<not> (gh_Archived r \<and> \<not> c_IncludeArchived c)) repos"

definition repo_record :: "(string \<Rightarrow> string) \<Rightarrow> config \<Rightarrow> time \<Rightarrow> string \<Rightarrow> gh_repo \<Rightarrow> repository" where
  "repo_record H c now login r =
     (case scheduleFor c (gh_FullName r) of (interval, priority, mirror) \<Rightarrow>
       zero_repository\<lparr>r_ID := RepositoryID H login (gh_FullName r), r_Account := login, r_FullName := gh_FullName r,
         r_BackupRoot := c_BackupRoot c, r_IntervalSeconds := interval div second, r_Priority := priority,
         r_MirrorGitLab := mirror, r_Enabled := True, r_NextRunAt := now\<rparr>)"

definition sync_one ::
  "'s store_iface \<Rightarrow> (string \<Rightarrow> string) \<Rightarrow> config \<Rightarrow> time \<Rightarrow> string \<Rightarrow> gh_repo \<Rightarrow> 's run \<Rightarrow> 's run" where
  "sync_one S H c now login g r =
     (case i_UpsertRepository S now (repo_record H c now login g) (rn_st r) of
        (Inl e, st) \<Rightarrow> r\<lparr>rn_err := Some e, rn_st := st\<rparr>
      | (Inr _, st) \<Rightarrow> r\<lparr>rn_n := rn_n r + 1, rn_st := st\<rparr>)"

text \<open>\<open>gh\<close> is the account login and its repositories, or the error of the token or of the client.\<close>

definition SyncRepositories ::
  "'s store_iface \<Rightarrow> (string \<Rightarrow> string) \<Rightarrow> config \<Rightarrow> time \<Rightarrow> (string \<times> gh_repo list) result \<Rightarrow> 's run \<Rightarrow> 's run" where
  "SyncRepositories S H c now gh r =
     (case gh of
        Inl e \<Rightarrow> r\<lparr>rn_err := Some e\<rparr>
      | Inr (login, repos) \<Rightarrow>
          let wanted = wanted_repos c repos; r1 = loop (sync_one S H c now login) wanted r;
              seen = map (\<lambda>g. RepositoryID H login (gh_FullName g)) wanted
          in if \<not> ok r1 then r1
             else (case i_DisableMissingRepositories S now login seen (rn_st r1) of
                     (Inl e, st) \<Rightarrow> r1\<lparr>rn_err := Some e, rn_st := st\<rparr>
                   | (Inr _, st) \<Rightarrow> r1\<lparr>rn_st := st\<rparr>))"

section \<open>Due backups\<close>

text \<open>
  The payload is written with \<^verbatim>\<open>%q\<close>, whose escapes are those of JSON only for printable characters and a
  few controls; any other character makes the text invalid JSON.
\<close>

definition json_quotable :: "string \<Rightarrow> bool" where
  "json_quotable s = list_all (\<lambda>c. let n = (of_char c :: nat) in 32 \<le> n \<and> n \<le> 126 \<or> n \<in> {8, 9, 10, 12, 13}) s"

definition backup_payload :: "repository \<Rightarrow> json_text" where
  "backup_payload r = (if json_quotable (r_ID r) \<and> json_quotable (r_FullName r)
     then Some (JObj [(''repository_id'', JStr (r_ID r)), (''full_name'', JStr (r_FullName r))]) else None)"

definition backup_job :: "config \<Rightarrow> time \<Rightarrow> repository \<Rightarrow> job" where
  "backup_job c now r = mk_job ''backup-repo'' (r_FullName r) (backup_payload r) [] (r_Priority r)
     (wk_MaxAttempts (c_Workers c)) now"

definition next_run :: "time \<Rightarrow> repository \<Rightarrow> time" where
  "next_run now r = now + wrap64 (r_IntervalSeconds r * second)"

definition enqueue_due ::
  "'s store_iface \<Rightarrow> (string \<Rightarrow> nat \<Rightarrow> string) \<Rightarrow> config \<Rightarrow> time \<Rightarrow> repository \<Rightarrow> 's run \<Rightarrow> 's run" where
  "enqueue_due S newID c now x r =
     (let r1 = queue_job S newID now (backup_job c now x) r in
      if \<not> ok r1 then r1
      else (case i_MarkScheduled S now (r_ID x) (next_run now x) (rn_st r1) of
              (Inl e, st) \<Rightarrow> r1\<lparr>rn_n := rn_n r, rn_err := Some e, rn_st := st\<rparr>
            | (Inr _, st) \<Rightarrow> r1\<lparr>rn_st := st\<rparr>))"

definition EnqueueDue ::
  "'s store_iface \<Rightarrow> (string \<Rightarrow> nat \<Rightarrow> string) \<Rightarrow> config \<Rightarrow> time \<Rightarrow> 's run \<Rightarrow> 's run" where
  "EnqueueDue S newID c now r =
     (case i_DueRepositories S now 500 (rn_st r) of
        Inl e \<Rightarrow> r\<lparr>rn_err := Some e\<rparr>
      | Inr repos \<Rightarrow> loop (enqueue_due S newID c now) repos r)"

section \<open>The contract of the scheduler's store\<close>

definition keyed_repos :: "(string, repository) gomap \<Rightarrow> bool" where
  "keyed_repos t = (gwf t \<and> (\<forall>k x. gget t k = Some x \<longrightarrow> r_ID x = k))"

definition active_for :: "job \<Rightarrow> (string, job) gomap \<Rightarrow> bool" where
  "active_for j m = (\<exists>k x. gget m k = Some x \<and> same_slot x j \<and> job_active x)"

locale schedule_store = enqueue_store S jobs wf
  for S :: "'s store_iface" and jobs :: "'s \<Rightarrow> (string, job) gomap" and wf :: "'s \<Rightarrow> bool" +
  fixes repos :: "'s \<Rightarrow> (string, repository) gomap"
  assumes enqueue_active: "wf s \<Longrightarrow> op_pre (OpEnqueue now nid j) (jobs s) \<Longrightarrow>
       i_Enqueue S now nid j s = (Inr (y, b), s') \<Longrightarrow> active_for j (jobs s')"
    and enqueue_repos: "repos (snd (i_Enqueue S now nid j s)) = repos s"
    and mark_repos: "gget (repos s) i = Some x \<Longrightarrow>
       gget (repos (snd (i_MarkScheduled S now i t s))) k =
         (if k = i then Some (x\<lparr>r_NextRunAt := t, r_UpdatedAt := now\<rparr>) else gget (repos s) k)"
    and mark_ok: "gget (repos s) i = Some x \<Longrightarrow> fst (i_MarkScheduled S now i t s) = Inr ()"
    and mark_jobs: "jobs (snd (i_MarkScheduled S now i t s)) = jobs s"
    and mark_wf: "wf s \<Longrightarrow> wf (snd (i_MarkScheduled S now i t s))"
begin

text \<open>What one step of the loop leaves: the repository is rescheduled and has an active backup job.\<close>

lemma enqueue_due_step:
  assumes g: "good newID P r0 r" and inj: "inj (newID ''job'')" and ma: "0 \<le> wk_MaxAttempts (c_Workers c)"
    and P: "\<And>x y. queued_as (backup_job c now x) y \<Longrightarrow> P y"
    and x: "gget (repos (rn_st r)) (r_ID x) = Some x'" and k: "ok r" and k': "ok (enqueue_due S newID c now x r)"
  shows "good newID P r0 (enqueue_due S newID c now x r)
    \<and> active_for (backup_job c now x) (jobs (rn_st (enqueue_due S newID c now x r)))
    \<and> (\<forall>i. gget (repos (rn_st (enqueue_due S newID c now x r))) i =
         (if i = r_ID x then Some (x'\<lparr>r_NextRunAt := next_run now x, r_UpdatedAt := now\<rparr>) else gget (repos (rn_st r)) i))"
proof -
  let ?j = "backup_job c now x" let ?r1 = "queue_job S newID now ?j r"
  let ?m = "i_MarkScheduled S now (r_ID x) (next_run now x) (rn_st ?r1)"
  have new: "new_job ?j" using ma by (simp add: backup_job_def)
  have g1: "good newID P r0 ?r1" by (rule good_queue_job [OF g inj new P])
  have k1: "ok ?r1" using k' by (auto simp: enqueue_due_def Let_def split: if_splits)
  have w: "wf (rn_st r)" and pre: "op_pre (OpEnqueue now (newID ''job'' (rn_ids r)) ?j) (jobs (rn_st r))"
    using g new by (simp_all add: good_def fresh_ids_def)
  obtain y b st where e: "i_Enqueue S now (newID ''job'' (rn_ids r)) ?j (rn_st r) = (Inr (y, b), st)"
    using k1 by (auto simp: queue_job_def ok_def split: prod.splits sum.splits)
  have st: "rn_st ?r1 = st" using e by (simp add: queue_job_def)
  have act: "active_for ?j (jobs st)" by (rule enqueue_active [OF w pre e])
  have rp: "repos st = repos (rn_st r)" using enqueue_repos [of now _ ?j "rn_st r"] e by (metis snd_conv)
  have x1: "gget (repos (rn_st ?r1)) (r_ID x) = Some x'" using x rp st by simp
  have res: "enqueue_due S newID c now x r = ?r1\<lparr>rn_st := snd ?m\<rparr>"
    using k1 mark_ok [OF x1, of now "next_run now x"] by (cases ?m) (simp add: enqueue_due_def Let_def)
  have "good newID P r0 (?r1\<lparr>rn_st := snd ?m\<rparr>)"
    using g1 by (simp add: good_def mark_wf mark_jobs fresh_ids_def adds_def)
  then show ?thesis
    using act mark_repos [OF x1, of now "next_run now x"] st rp by (simp add: res mark_jobs)
qed

lemma adds_keeps_active: "adds jobs P r r' \<Longrightarrow> active_for j (jobs (rn_st r)) \<Longrightarrow> active_for j (jobs (rn_st r'))"
  unfolding adds_def active_for_def by (metis option.distinct(1))

lemma enqueue_due_loop:
  assumes "good newID P r0 r" "ok r" "ok (loop (enqueue_due S newID c now) xs r)"
    and inj: "inj (newID ''job'')" and ma: "0 \<le> wk_MaxAttempts (c_Workers c)"
    and P: "\<And>x y. queued_as (backup_job c now x) y \<Longrightarrow> P y"
    and "distinct (map r_ID xs)" "\<And>x. x \<in> set xs \<Longrightarrow> gget (repos (rn_st r)) (r_ID x) = Some x"
  shows "good newID P r0 (loop (enqueue_due S newID c now) xs r)
    \<and> (\<forall>x \<in> set xs. active_for (backup_job c now x) (jobs (rn_st (loop (enqueue_due S newID c now) xs r)))
         \<and> gget (repos (rn_st (loop (enqueue_due S newID c now) xs r))) (r_ID x)
             = Some (x\<lparr>r_NextRunAt := next_run now x, r_UpdatedAt := now\<rparr>))
    \<and> (\<forall>i. i \<notin> r_ID ` set xs \<longrightarrow>
         gget (repos (rn_st (loop (enqueue_due S newID c now) xs r))) i = gget (repos (rn_st r)) i)"
  using assms(1-3,7,8)
proof (induction xs arbitrary: r0 r)
  case (Cons x xs)
  let ?r1 = "enqueue_due S newID c now x r"
  let ?l = "loop (enqueue_due S newID c now) xs ?r1"
  have k1: "ok ?r1" using Cons.prems(3) by (auto simp: Let_def split: if_splits)
  have xr: "gget (repos (rn_st r)) (r_ID x) = Some x" using Cons.prems(5) by simp
  note step = enqueue_due_step [OF Cons.prems(1) inj ma P xr Cons.prems(2) k1]
  have l: "loop (enqueue_due S newID c now) (x # xs) r = ?l" using k1 by (simp add: Let_def)
  have kl: "ok ?l" using Cons.prems(3) l by simp
  have xs: "distinct (map r_ID xs)" "\<And>y. y \<in> set xs \<Longrightarrow> gget (repos (rn_st ?r1)) (r_ID y) = Some y"
    using step Cons.prems(4,5) by (auto simp: image_iff)
  note ih = Cons.IH [OF _ k1 kl xs]
  have "good newID P ?r1 ?r1" using step by (simp add: good_def adds_refl)
  from ih [OF this] have "active_for (backup_job c now x) (jobs (rn_st ?l))"
    using step by (auto simp: good_def intro: adds_keeps_active)
  moreover have "gget (repos (rn_st ?l)) (r_ID x) = Some (x\<lparr>r_NextRunAt := next_run now x, r_UpdatedAt := now\<rparr>)"
    using ih [of r0] step Cons.prems(4) by auto
  ultimately show ?case unfolding l using ih [of r0] step by auto
qed simp

end

section \<open>The two stores\<close>

lemma mem_enqueue_active:
  assumes "mem_wf m" "op_pre (OpEnqueue now nid j) (m_Jobs m)" "mem_Enqueue now nid j m = (Inr (x, b), m')"
  shows "active_for j (m_Jobs m')"
proof (cases b)
  case True
  with assms mem_Enqueue_cases [OF assms(3)] show ?thesis
    by (auto simp: active_for_def queued_as_def job_active_def)
next
  case False
  with assms(3) have f: "find (\<lambda>x. same_slot x j \<and> job_active x) (gvals (m_Jobs m)) = Some x" and m': "m' = m"
    by (auto simp: mem_Enqueue_def Let_def split: option.splits)
  then have "x \<in> set (gvals (m_Jobs m))" "same_slot x j" "job_active x"
    by (metis find_Some_iff nth_mem)+
  moreover have "gwf (m_Jobs m)" using assms(1) by (simp add: mem_wf_def keyed_jobs_def)
  ultimately obtain k where "gget (m_Jobs m) k = Some x" "same_slot x j" "job_active x"
    using in_vals_iff [of "m_Jobs m" x] by blast
  then show ?thesis using m' by (auto simp: active_for_def)
qed

lemma same_slot_job_defaults [simp]: "same_slot x (job_defaults now nid j) = same_slot x j"
  by (simp add: job_defaults_def Let_def same_slot_def)

lemma sql_enqueue_active:
  assumes "sql_wf s" "op_pre (OpEnqueue now nid j) (d_jobs s)"
    and "sql_Enqueue id_env id_env id_env now nid j s = (Inr (x, b), s')"
  shows "active_for j (d_jobs s')"
proof (cases b)
  case True
  with assms sql_Enqueue_cases [OF assms(3)] show ?thesis
    by (auto simp: active_for_def queued_as_def job_active_def sql_wf_def)
next
  case False
  with assms(3) obtain i where "active_in_slot (job_defaults now nid j) s = Some i" "s' = s"
    by (auto simp: sql_Enqueue_def id_env_def Let_def split: option.splits)
  with active_in_slot_Some [of s "job_defaults now nid j" i] assms(1) show ?thesis
    by (auto simp: active_for_def sql_wf_def)
qed

interpretation ms: schedule_store "mem_iface repo_id" m_Jobs mem_wf m_Repos for repo_id
proof (unfold_locales, goal_cases)
  case (1 s now nid j y b s')
  then show ?case using mem_enqueue_active [of s now nid j y b s'] by (simp add: mem_iface_def)
next
  case (2 now nid j s)
  show ?case by (auto simp: mem_iface_def mem_Enqueue_def Let_def split: option.splits)
qed (auto simp: mem_iface_def mem_MarkScheduled_def mem_wf_def repo_at_def)

interpretation ss: schedule_store "sql_iface repo_id" d_jobs sql_wf d_repositories for repo_id
proof (unfold_locales, goal_cases)
  case (1 s now nid j y b s')
  then show ?case using sql_enqueue_active [of s now nid j y b s'] by (simp add: sql_iface_def)
next
  case (2 now nid j s)
  show ?case by (auto simp: sql_iface_def sql_Enqueue_def insert_job_def id_env_def Let_def split: option.splits)
qed (auto simp: sql_iface_def sql_MarkScheduled_def sql_wf_def update_row_def)

section \<open>Properties\<close>

lemma sql_due_list:
  assumes "keyed_repos (d_repositories s)"
    and "length (filter (\<lambda>x. r_Enabled x \<and> r_NextRunAt x \<le> now) (gvals (d_repositories s))) \<le> 500"
  shows "distinct (map r_ID (sql_DueRepositories now 500 s))"
    and "x \<in> set (sql_DueRepositories now 500 s) \<longleftrightarrow>
      gget (d_repositories s) (r_ID x) = Some x \<and> r_Enabled x \<and> r_NextRunAt x \<le> now"
proof -
  let ?due = "filter (\<lambda>x. r_Enabled x \<and> r_NextRunAt x \<le> now) (gvals (d_repositories s))"
  have wf: "gwf (d_repositories s)" and key: "\<And>k x. gget (d_repositories s) k = Some x \<Longrightarrow> r_ID x = k"
    using assms(1) by (auto simp: keyed_repos_def)
  have all: "sql_DueRepositories now 500 s = sort_less repo_due_before ?due"
    using assms(2) by (simp add: sql_DueRepositories_def top_n_def)
  have "map (r_ID \<circ> snd) (d_repositories s) = map fst (d_repositories s)"
    using wf key by (auto intro!: map_cong simp: map_of_eq_Some_iff)
  with wf have "distinct (map (r_ID \<circ> snd) (d_repositories s))" by (simp only:)
  then show "distinct (map r_ID (sql_DueRepositories now 500 s))"
    by (simp add: all distinct_map_filter)
  show "x \<in> set (sql_DueRepositories now 500 s) \<longleftrightarrow>
      gget (d_repositories s) (r_ID x) = Some x \<and> r_Enabled x \<and> r_NextRunAt x \<le> now"
    using in_vals_iff [OF wf, of x] key by (auto simp only: all set_sort_less set_filter mem_Collect_eq)
qed

definition sample_due_repo :: repository where
  "sample_due_repo = zero_repository\<lparr>r_ID := ''id'', r_FullName := ''o/r'', r_Enabled := True, r_NextRunAt := 5,
     r_IntervalSeconds := 60\<rparr>"

end
