(* ===== verification/Audit_Ledger.thy ===== *)
theory Audit_Ledger
  imports Payloads "HOL-Library.Word"
begin

text \<open>
  The audit ledger (\<^verbatim>\<open>internal/audit\<close>): a file of JSON lines, each record carrying a sequence number,
  the hash of its predecessor and its own hash; appending to it, scanning it with verification,
  listing recent records through a ring buffer, and signed checkpoints of its head.

  The operating system lock serialises the operations, so each is one state function.  A file is a
  list of lines, every line ended by a newline; a line is blank, longer than the scanner's
  buffer, or a JSON text.  A record's \<^verbatim>\<open>time.Time\<close> is represented by the text \<^verbatim>\<open>MarshalJSON\<close> prints for
  it and a Go map of fields by its members in key order, the order \<^verbatim>\<open>json.Marshal\<close> prints them in.

  \<open>codec\<close> collects what the ledger uses of the standard library: the hex SHA-256 of the JSON text of
  a value, what decoding makes of a string (invalid UTF-8 is replaced), of a number in a \<^verbatim>\<open>float64\<close>
  and of a time, whether a line fits the scanner's buffer of 8 MiB, and the Ed25519 signature
  functions of \<^verbatim>\<open>internal/signing\<close>.
\<close>

record codec =
  cd_hash :: "json \<Rightarrow> string"
  cd_utf8 :: "string \<Rightarrow> string"
  cd_float :: "rat \<Rightarrow> rat"
  cd_time :: "string \<Rightarrow> string option"
  cd_fits :: "json \<Rightarrow> bool"
  cd_Sign :: "string \<Rightarrow> json \<Rightarrow> string"
  cd_Verify :: "string \<Rightarrow> json \<Rightarrow> string \<Rightarrow> bool"

record audit_record =
  ar_Seq :: "64 word"
  ar_Time :: string
  ar_Action :: string
  ar_Target :: string
  ar_Status :: string
  ar_Detail :: string
  ar_Fields :: "(string \<times> json) list"
  ar_PrevHash :: string
  ar_Hash :: string

definition zero_time_text :: string where "zero_time_text = ''0001-01-01T00:00:00Z''"

definition zero_audit_record :: audit_record where
  "zero_audit_record = \<lparr>ar_Seq = 0, ar_Time = zero_time_text, ar_Action = [], ar_Target = [], ar_Status = [],
     ar_Detail = [], ar_Fields = [], ar_PrevHash = [], ar_Hash = []\<rparr>"

datatype audit_line = BlankLine | LongLine | TextLine json_text

section \<open>Encoding\<close>

definition juint :: "64 word \<Rightarrow> json" where "juint w = JNum (of_nat (unat w))"

definition unsigned_members :: "audit_record \<Rightarrow> (string \<times> json) list" where
  "unsigned_members r =
     [(''seq'', juint (ar_Seq r)), (''time'', JStr (ar_Time r)), (''action'', JStr (ar_Action r))]
     @ omitempty ''target'' (ar_Target r) @ [(''status'', JStr (ar_Status r))]
     @ omitempty ''detail'' (ar_Detail r)
     @ (if ar_Fields r = [] then [] else [(''fields'', JObj (ar_Fields r))])
     @ omitempty ''prev_hash'' (ar_PrevHash r)"

definition hashRecord :: "codec \<Rightarrow> audit_record \<Rightarrow> string" where
  "hashRecord J r = cd_hash J (JObj (unsigned_members r))"

definition marshal_record :: "audit_record \<Rightarrow> json" where
  "marshal_record r = JObj (unsigned_members r @ [(''hash'', JStr (ar_Hash r))])"

section \<open>Decoding\<close>

fun put_sorted :: "string \<Rightarrow> json \<Rightarrow> (string \<times> json) list \<Rightarrow> (string \<times> json) list" where
  "put_sorted k v [] = [(k, v)]"
| "put_sorted k v ((k', v') # m) =
     (if k < k' then (k, v) # (k', v') # m else if k = k' then (k, v) # m else (k', v') # put_sorted k v m)"

text \<open>\<^verbatim>\<open>json.Unmarshal\<close> into \<^verbatim>\<open>any\<close>: objects become maps, numbers \<^verbatim>\<open>float64\<close>.\<close>

primrec um_any :: "codec \<Rightarrow> json \<Rightarrow> json" where
  "um_any J JNull = JNull"
| "um_any J (JBool b) = JBool b"
| "um_any J (JNum q) = JNum (cd_float J q)"
| "um_any J (JStr s) = JStr (cd_utf8 J s)"
| "um_any J (JArr xs) = JArr (map (um_any J) xs)"
| "um_any J (JObj fs) =
     JObj (fold (\<lambda>(k, v). put_sorted (cd_utf8 J k) v) (map (map_prod id (um_any J)) fs) [])"

definition text_field :: "codec \<Rightarrow> string \<Rightarrow> (string \<times> json) list \<Rightarrow> string option" where
  "text_field J name fs = map_option (cd_utf8 J) (str_field name fs)"

definition uint_field :: "string \<Rightarrow> (string \<times> json) list \<Rightarrow> 64 word option" where
  "uint_field name fs = (case member name fs of
     None \<Rightarrow> Some 0 | Some JNull \<Rightarrow> Some 0
   | Some (JNum q) \<Rightarrow> if of_int \<lfloor>q\<rfloor> = q \<and> 0 \<le> \<lfloor>q\<rfloor> \<and> \<lfloor>q\<rfloor> < 2 ^ 64 then Some (of_int \<lfloor>q\<rfloor>) else None
   | Some _ \<Rightarrow> None)"

definition time_text_field :: "codec \<Rightarrow> string \<Rightarrow> (string \<times> json) list \<Rightarrow> string option" where
  "time_text_field J name fs = (case member name fs of
     None \<Rightarrow> Some zero_time_text | Some JNull \<Rightarrow> Some zero_time_text | Some (JStr s) \<Rightarrow> cd_time J s | Some _ \<Rightarrow> None)"

definition fields_field :: "codec \<Rightarrow> (string \<times> json) list \<Rightarrow> (string \<times> json) list option" where
  "fields_field J fs = (case member ''fields'' fs of
     None \<Rightarrow> Some [] | Some JNull \<Rightarrow> Some []
   | Some (JObj gs) \<Rightarrow> (case um_any J (JObj gs) of JObj hs \<Rightarrow> Some hs | _ \<Rightarrow> None)
   | Some _ \<Rightarrow> None)"

definition um_record :: "codec \<Rightarrow> json_text \<Rightarrow> audit_record option" where
  "um_record J t = (case t of
     Some (JObj fs) \<Rightarrow>
       (case (uint_field ''seq'' fs, time_text_field J ''time'' fs, text_field J ''action'' fs, text_field J ''target'' fs,
              text_field J ''status'' fs, text_field J ''detail'' fs, fields_field J fs, text_field J ''prev_hash'' fs,
              text_field J ''hash'' fs) of
          (Some a, Some b, Some c, Some d, Some e, Some f, Some g, Some h, Some i) \<Rightarrow>
            Some \<lparr>ar_Seq = a, ar_Time = b, ar_Action = c, ar_Target = d, ar_Status = e, ar_Detail = f,
                  ar_Fields = g, ar_PrevHash = h, ar_Hash = i\<rparr>
        | _ \<Rightarrow> None)
   | Some JNull \<Rightarrow> Some zero_audit_record
   | _ \<Rightarrow> None)"

section \<open>The verified scan\<close>

record 'v scan_state =
  sc_count :: int
  sc_head :: audit_record
  sc_prev :: string
  sc_want :: "64 word"
  sc_visit :: 'v

definition scan_record ::
  "codec \<Rightarrow> (audit_record \<Rightarrow> 'v \<Rightarrow> 'v) \<Rightarrow> json_text \<Rightarrow> 'v scan_state \<Rightarrow> 'v scan_state result" where
  "scan_record J visit t st = (case um_record J t of
     None \<Rightarrow> Inl (GoErr ''audit line'')
   | Some r \<Rightarrow>
       if ar_Seq r \<noteq> sc_want st then Inl (GoErr ''audit sequence mismatch'')
       else if ar_PrevHash r \<noteq> sc_prev st then Inl (GoErr ''audit prev_hash mismatch'')
       else if \<not> EqualFold (hashRecord J r) (ar_Hash r) then Inl (GoErr ''audit hash mismatch'')
       else Inr \<lparr>sc_count = sc_count st + 1, sc_head = r, sc_prev = ar_Hash r, sc_want = sc_want st + 1,
                 sc_visit = visit r (sc_visit st)\<rparr>)"

fun scan_lines ::
  "codec \<Rightarrow> (audit_record \<Rightarrow> 'v \<Rightarrow> 'v) \<Rightarrow> audit_line list \<Rightarrow> 'v scan_state \<Rightarrow> 'v scan_state \<times> go_error option" where
  "scan_lines J visit [] st = (st, None)"
| "scan_lines J visit (BlankLine # ls) st = scan_lines J visit ls st"
| "scan_lines J visit (LongLine # ls) st = (st, Some (GoErr ''bufio.Scanner: token too long''))"
| "scan_lines J visit (TextLine t # ls) st =
     (case scan_record J visit t st of Inl e \<Rightarrow> (st, Some e) | Inr st' \<Rightarrow> scan_lines J visit ls st')"

definition ErrNotExist :: go_error where "ErrNotExist = GoErr ''file does not exist''"

type_synonym ledger = "audit_line list option"

definition scan_start :: "'v \<Rightarrow> 'v scan_state" where
  "scan_start v = \<lparr>sc_count = 0, sc_head = zero_audit_record, sc_prev = [], sc_want = 1, sc_visit = v\<rparr>"

definition scanVerifiedLocked ::
  "codec \<Rightarrow> (audit_record \<Rightarrow> 'v \<Rightarrow> 'v) \<Rightarrow> 'v \<Rightarrow> ledger \<Rightarrow> 'v scan_state \<times> go_error option" where
  "scanVerifiedLocked J visit v f = (case f of
     None \<Rightarrow> (scan_start v, Some ErrNotExist)
   | Some ls \<Rightarrow> scan_lines J visit ls (scan_start v))"

text \<open>\<^verbatim>\<open>visit == nil\<close>: nothing is collected.\<close>

abbreviation scan_only :: "codec \<Rightarrow> ledger \<Rightarrow> nat scan_state \<times> go_error option" where
  "scan_only J \<equiv> scanVerifiedLocked J (\<lambda>_ u. u) 0"

text \<open>\<^verbatim>\<open>acquireLedgerGuard\<close> and \<^verbatim>\<open>prepareLedgerDir\<close> refuse an empty path.\<close>

definition acquireLedgerGuard :: "string \<Rightarrow> unit result" where
  "acquireLedgerGuard path = (if TrimSpace path = [] then Inl (GoErr ''audit path is empty'') else Inr ())"

definition prepareLedgerDir :: "string \<Rightarrow> unit result" where
  "prepareLedgerDir path = (if TrimSpace path = [] then Inl (GoErr ''audit path is empty'') else Inr ())"

definition audit_Verify :: "codec \<Rightarrow> string \<Rightarrow> ledger \<Rightarrow> int result" where
  "audit_Verify J path f = (case acquireLedgerGuard path of
     Inl e \<Rightarrow> Inl e
   | Inr _ \<Rightarrow> (case scan_only J f of (st, None) \<Rightarrow> Inr (sc_count st) | (st, Some e) \<Rightarrow> Inl e))"

definition Head :: "codec \<Rightarrow> string \<Rightarrow> ledger \<Rightarrow> audit_record result" where
  "Head J path f = (case acquireLedgerGuard path of
     Inl e \<Rightarrow> Inl e
   | Inr _ \<Rightarrow> (case scan_only J f of (st, None) \<Rightarrow> Inr (sc_head st) | (st, Some e) \<Rightarrow> Inl e))"

section \<open>Appending\<close>

definition ledger_line :: "codec \<Rightarrow> audit_record \<Rightarrow> audit_line" where
  "ledger_line J r = (if cd_fits J (marshal_record r) then TextLine (Some (marshal_record r)) else LongLine)"

definition appendLocked ::
  "codec \<Rightarrow> string \<Rightarrow> string \<Rightarrow> string \<Rightarrow> string \<Rightarrow> string \<Rightarrow> (string \<times> json) list \<Rightarrow> ledger \<Rightarrow> audit_record result \<times> ledger" where
  "appendLocked J now action target status detail flds f =
     (case scan_only J f of (st, err) \<Rightarrow>
        if err \<noteq> None \<and> err \<noteq> Some ErrNotExist then (Inl (the err), f)
        else
          let r = \<lparr>ar_Seq = ar_Seq (sc_head st) + 1, ar_Time = now, ar_Action = TrimSpace action,
                   ar_Target = TrimSpace target, ar_Status = TrimSpace status, ar_Detail = TrimSpace detail,
                   ar_Fields = flds, ar_PrevHash = ar_Hash (sc_head st), ar_Hash = []\<rparr>
          in if ar_Action r = [] \<or> ar_Status r = [] then (Inl (GoErr ''audit action and status are required''), f)
             else let r = r\<lparr>ar_Hash := hashRecord J r\<rparr>
                  in (Inr r, Some ((case f of None \<Rightarrow> [] | Some ls \<Rightarrow> ls) @ [ledger_line J r])))"

definition audit_Append ::
  "codec \<Rightarrow> string \<Rightarrow> string \<Rightarrow> string \<Rightarrow> string \<Rightarrow> string \<Rightarrow> string \<Rightarrow> (string \<times> json) list \<Rightarrow> ledger \<Rightarrow> audit_record result \<times> ledger" where
  "audit_Append J path now action target status detail flds f =
     (case prepareLedgerDir path of
        Inl e \<Rightarrow> (Inl e, f)
      | Inr _ \<Rightarrow>
          (case acquireLedgerGuard path of
             Inl e \<Rightarrow> (Inl e, f)
           | Inr _ \<Rightarrow> appendLocked J now action target status detail flds f))"

section \<open>Recent records\<close>

definition maxRecentRecords :: int where "maxRecentRecords = 4096"

record ring_state =
  rg_ring :: "audit_record list"
  rg_count :: int
  rg_next :: int

definition ring_start :: "int \<Rightarrow> ring_state" where
  "ring_start limit = \<lparr>rg_ring = replicate (nat limit) zero_audit_record, rg_count = 0, rg_next = 0\<rparr>"

definition ring_visit :: "int \<Rightarrow> string \<Rightarrow> audit_record \<Rightarrow> ring_state \<Rightarrow> ring_state" where
  "ring_visit limit action r g =
     (if action \<noteq> [] \<and> ar_Action r \<noteq> action then g
      else \<lparr>rg_ring = (rg_ring g)[nat (rg_next g) := r],
            rg_count = (if rg_count g < limit then rg_count g + 1 else rg_count g),
            rg_next = (rg_next g + 1) mod limit\<rparr>)"

text \<open>\<^verbatim>\<open>for idx < 0 { idx += limit }\<close>\<close>

function up_index :: "int \<Rightarrow> int \<Rightarrow> int" where
  "up_index limit idx = (if idx < 0 \<and> 0 < limit then up_index limit (idx + limit) else idx)"
  by auto

termination up_index
  by (relation "measure (\<lambda>(l, i). nat (- i))") auto

declare up_index.simps [simp del]

definition ring_out :: "int \<Rightarrow> ring_state \<Rightarrow> audit_record list" where
  "ring_out limit g =
     (let start = (if rg_next g - 1 < 0 then rg_next g - 1 + limit else rg_next g - 1)
      in map (\<lambda>i. rg_ring g ! nat (up_index limit (start - int i))) [0..<nat (rg_count g)])"

definition Recent :: "codec \<Rightarrow> string \<Rightarrow> int \<Rightarrow> string \<Rightarrow> ledger \<Rightarrow> audit_record list result" where
  "Recent J path limit action f =
     (if limit \<le> 0 then Inr []
      else
        let limit = (if limit > maxRecentRecords then maxRecentRecords else limit)
        in (case acquireLedgerGuard path of
              Inl e \<Rightarrow> Inl e
            | Inr _ \<Rightarrow>
                (case scanVerifiedLocked J (ring_visit limit (TrimSpace action)) (ring_start limit) f of
                   (st, Some e) \<Rightarrow> Inl e
                 | (st, None) \<Rightarrow> if rg_count (sc_visit st) = 0 then Inr [] else Inr (ring_out limit (sc_visit st)))))"

definition RecentIfExists :: "codec \<Rightarrow> string \<Rightarrow> int \<Rightarrow> string \<Rightarrow> ledger \<Rightarrow> audit_record list result" where
  "RecentIfExists J path limit action f =
     (let records = Recent J path limit action f in if records = Inl ErrNotExist then Inr [] else records)"

section \<open>Checkpoints\<close>

record checkpoint =
  cp_Seq :: "64 word"
  cp_Hash :: string
  cp_CreatedAt :: string
  cp_Signature :: string

definition checkpoint_payload :: "64 word \<Rightarrow> string \<Rightarrow> string \<Rightarrow> json" where
  "checkpoint_payload seq hash created = JObj [(''seq'', juint seq), (''hash'', JStr hash), (''created_at'', JStr created)]"

definition marshal_checkpoint :: "checkpoint \<Rightarrow> json_text" where
  "marshal_checkpoint c = Some (JObj [(''seq'', juint (cp_Seq c)), (''hash'', JStr (cp_Hash c)),
     (''created_at'', JStr (cp_CreatedAt c)), (''signature'', JStr (cp_Signature c))])"

definition um_checkpoint :: "codec \<Rightarrow> json_text \<Rightarrow> checkpoint option" where
  "um_checkpoint J t = (case t of
     Some (JObj fs) \<Rightarrow>
       (case (uint_field ''seq'' fs, text_field J ''hash'' fs, time_text_field J ''created_at'' fs, text_field J ''signature'' fs) of
          (Some a, Some b, Some c, Some d) \<Rightarrow> Some \<lparr>cp_Seq = a, cp_Hash = b, cp_CreatedAt = c, cp_Signature = d\<rparr>
        | _ \<Rightarrow> None)
   | Some JNull \<Rightarrow> Some \<lparr>cp_Seq = 0, cp_Hash = [], cp_CreatedAt = zero_time_text, cp_Signature = []\<rparr>
   | _ \<Rightarrow> None)"

text \<open>The ledger, \<^verbatim>\<open><ledger>.checkpoint.json\<close> and \<^verbatim>\<open><ledger>.checkpoint.pub\<close>.\<close>

record ledger_files =
  lf_ledger :: ledger
  lf_checkpoint :: "json_text option"
  lf_pub :: "string option"

definition writeCheckpointForHeadLocked ::
  "codec \<Rightarrow> (string \<times> string) result \<Rightarrow> string \<Rightarrow> audit_record \<Rightarrow> ledger_files \<Rightarrow> unit result \<times> ledger_files" where
  "writeCheckpointForHeadLocked J EnsureKey now head fl =
     (if ar_Seq head = 0 \<or> TrimSpace (ar_Hash head) = [] then (Inl (GoErr ''cannot checkpoint an empty audit ledger''), fl)
      else (case EnsureKey of
        Inl e \<Rightarrow> (Inl e, fl)
      | Inr (priv, pub) \<Rightarrow>
          let cp = \<lparr>cp_Seq = ar_Seq head, cp_Hash = ar_Hash head, cp_CreatedAt = now,
                    cp_Signature = cd_Sign J priv (checkpoint_payload (ar_Seq head) (ar_Hash head) now)\<rparr>
          in (Inr (), fl\<lparr>lf_pub := Some pub, lf_checkpoint := Some (marshal_checkpoint cp)\<rparr>)))"

definition WriteCheckpoint ::
  "codec \<Rightarrow> (string \<times> string) result \<Rightarrow> string \<Rightarrow> string \<Rightarrow> ledger_files \<Rightarrow> unit result \<times> ledger_files" where
  "WriteCheckpoint J EnsureKey path now fl =
     (case acquireLedgerGuard path of
        Inl e \<Rightarrow> (Inl e, fl)
      | Inr _ \<Rightarrow>
          (case scan_only J (lf_ledger fl) of
             (st, Some e) \<Rightarrow> (Inl e, fl)
           | (st, None) \<Rightarrow> writeCheckpointForHeadLocked J EnsureKey now (sc_head st) fl))"

definition AppendWithCheckpoint ::
  "codec \<Rightarrow> (string \<times> string) result \<Rightarrow> string \<Rightarrow> string \<Rightarrow> string \<Rightarrow> string \<Rightarrow> string \<Rightarrow> string \<Rightarrow> (string \<times> json) list \<Rightarrow>
   ledger_files \<Rightarrow> (audit_record \<times> go_error option) result \<times> ledger_files" where
  "AppendWithCheckpoint J EnsureKey path now action target status detail flds fl =
     (case prepareLedgerDir path of
        Inl e \<Rightarrow> (Inl e, fl)
      | Inr _ \<Rightarrow>
          (case acquireLedgerGuard path of
             Inl e \<Rightarrow> (Inl e, fl)
           | Inr _ \<Rightarrow>
               (case appendLocked J now action target status detail flds (lf_ledger fl) of
                  (Inl e, f) \<Rightarrow> (Inl e, fl\<lparr>lf_ledger := f\<rparr>)
                | (Inr r, f) \<Rightarrow>
                    (case writeCheckpointForHeadLocked J EnsureKey now r (fl\<lparr>lf_ledger := f\<rparr>) of
                       (Inl e, fl') \<Rightarrow> (Inr (r, Some e), fl')
                     | (Inr _, fl') \<Rightarrow> (Inr (r, None), fl')))))"

definition VerifyCheckpoint :: "codec \<Rightarrow> string result \<Rightarrow> string \<Rightarrow> ledger_files \<Rightarrow> unit result" where
  "VerifyCheckpoint J LoadPublic path fl =
     (case acquireLedgerGuard path of
        Inl e \<Rightarrow> Inl e
      | Inr _ \<Rightarrow>
          (case lf_checkpoint fl of
             None \<Rightarrow> Inl ErrNotExist
           | Some b \<Rightarrow>
               (case um_checkpoint J b of
                  None \<Rightarrow> Inl (GoErr ''checkpoint JSON invalid'')
                | Some cp \<Rightarrow>
                    (case scan_only J (lf_ledger fl) of
                       (st, Some e) \<Rightarrow> Inl e
                     | (st, None) \<Rightarrow>
                         if ar_Seq (sc_head st) \<noteq> cp_Seq cp \<or> \<not> EqualFold (ar_Hash (sc_head st)) (cp_Hash cp)
                         then Inl (GoErr ''audit checkpoint does not match ledger head'')
                         else (case LoadPublic of
                             Inl e \<Rightarrow> Inl e
                           | Inr pub \<Rightarrow>
                               if cd_Verify J pub (checkpoint_payload (cp_Seq cp) (cp_Hash cp) (cp_CreatedAt cp)) (cp_Signature cp)
                               then Inr () else Inl (GoErr ''Ed25519 signature verification failed''))))))"

end
