(* ===== verification/Audit_Properties.thy ===== *)
theory Audit_Properties
  imports Audit_Ledger
begin

text \<open>
  What the audit ledger promises: a verified scan accepts exactly the hash chains, appending extends
  the chain, a ledger that passes its signed checkpoint is the one that was signed, and the ring
  buffer of \<^verbatim>\<open>Recent\<close> returns the newest matching records.
\<close>

section \<open>The chain a scan accepts\<close>

fun ledger_records :: "codec \<Rightarrow> audit_line list \<Rightarrow> audit_record list option" where
  "ledger_records J [] = Some []"
| "ledger_records J (BlankLine # ls) = ledger_records J ls"
| "ledger_records J (LongLine # ls) = None"
| "ledger_records J (TextLine t # ls) =
     (case um_record J t of None \<Rightarrow> None | Some r \<Rightarrow> map_option ((#) r) (ledger_records J ls))"

fun chained :: "codec \<Rightarrow> string \<Rightarrow> 64 word \<Rightarrow> audit_record list \<Rightarrow> bool" where
  "chained J prev want [] = True"
| "chained J prev want (r # rs) = (ar_Seq r = want \<and> ar_PrevHash r = prev \<and> EqualFold (hashRecord J r) (ar_Hash r)
     \<and> chained J (ar_Hash r) (want + 1) rs)"

definition verified_ledger :: "codec \<Rightarrow> ledger \<Rightarrow> audit_record list \<Rightarrow> bool" where
  "verified_ledger J f rs = (\<exists>ls. f = Some ls \<and> ledger_records J ls = Some rs \<and> chained J [] 1 rs)"

definition scanned :: "(audit_record \<Rightarrow> 'v \<Rightarrow> 'v) \<Rightarrow> audit_record list \<Rightarrow> 'v scan_state \<Rightarrow> 'v scan_state" where
  "scanned visit rs st = \<lparr>sc_count = sc_count st + int (length rs),
     sc_head = (if rs = [] then sc_head st else last rs),
     sc_prev = (if rs = [] then sc_prev st else ar_Hash (last rs)),
     sc_want = sc_want st + of_nat (length rs), sc_visit = fold visit rs (sc_visit st)\<rparr>"

lemma scan_record_iff:
  "scan_record J visit t st = Inr st' \<longleftrightarrow>
   (\<exists>r. um_record J t = Some r \<and> chained J (sc_prev st) (sc_want st) [r] \<and> st' = scanned visit [r] st)"
  by (auto simp: scan_record_def scanned_def split: option.splits if_splits)

lemma scanned_Cons: "scanned visit rs (scanned visit [r] st) = scanned visit (r # rs) st"
  by (simp add: scanned_def)

lemma scan_lines_iff:
  "scan_lines J visit ls st = (st', None) \<longleftrightarrow>
   (\<exists>rs. ledger_records J ls = Some rs \<and> chained J (sc_prev st) (sc_want st) rs \<and> st' = scanned visit rs st)"
proof (induction J visit ls st arbitrary: st' rule: scan_lines.induct)
  case (1 J visit st)
  then show ?case by (auto simp: scanned_def)
next
  case (4 J visit t ls st)
  show ?case
  proof (cases "scan_record J visit t st")
    case (Inl e)
    then have "\<not> (\<exists>r. um_record J t = Some r \<and> chained J (sc_prev st) (sc_want st) [r])"
      using scan_record_iff [of J visit t st] by auto
    with Inl show ?thesis by (auto split: option.splits)
  next
    case (Inr st1)
    then obtain r where r: "um_record J t = Some r" "chained J (sc_prev st) (sc_want st) [r]" "st1 = scanned visit [r] st"
      using scan_record_iff [of J visit t st] by auto
    have s1: "sc_prev st1 = ar_Hash r" "sc_want st1 = sc_want st + 1" using r(3) by (simp_all add: scanned_def)
    have "scan_lines J visit (TextLine t # ls) st = (st', None) \<longleftrightarrow>
        (\<exists>rs. ledger_records J ls = Some rs \<and> chained J (ar_Hash r) (sc_want st + 1) rs \<and> st' = scanned visit (r # rs) st)"
      using "4.IH" [OF Inr, of st'] Inr s1 unfolding r(3) scanned_Cons by simp
    then show ?thesis using r(1,2) by (cases "ledger_records J ls") simp_all
  qed
qed simp_all

lemma scan_verified:
  "scanVerifiedLocked J visit v f = (st, None) \<longleftrightarrow>
   (\<exists>rs. verified_ledger J f rs \<and> st = scanned visit rs (scan_start v))"
  by (auto simp: scanVerifiedLocked_def scan_lines_iff verified_ledger_def scan_start_def split: option.splits)

lemma scan_not_verified:
  assumes "\<nexists>rs. verified_ledger J f rs"
  shows "\<exists>st e. scanVerifiedLocked J visit v f = (st, Some e)"
proof -
  obtain st err where "scanVerifiedLocked J visit v f = (st, err)" by fastforce
  with assms scan_verified [of J visit v f st] show ?thesis by (cases err) auto
qed

lemma verified_unique: "verified_ledger J f rs \<Longrightarrow> verified_ledger J f rs' \<Longrightarrow> rs = rs'"
  by (auto simp: verified_ledger_def)

lemma chained_snoc:
  "chained J p w (rs @ [r]) \<longleftrightarrow> chained J p w rs \<and> ar_Seq r = w + of_nat (length rs)
     \<and> ar_PrevHash r = (if rs = [] then p else ar_Hash (last rs)) \<and> EqualFold (hashRecord J r) (ar_Hash r)"
  by (induction rs arbitrary: p w) (auto simp: add.assoc)

lemma ledger_records_append:
  "ledger_records J (ls @ ks) =
     (case ledger_records J ls of None \<Rightarrow> None | Some rs \<Rightarrow> map_option ((@) rs) (ledger_records J ks))"
proof (induction J ls rule: ledger_records.induct)
  case (1 J)
  then show ?case by (cases "ledger_records J ks") simp_all
next
  case (4 J t ls)
  then show ?case by (cases "um_record J t"; cases "ledger_records J ls"; cases "ledger_records J ks") simp_all
qed simp_all

section \<open>Tamper evidence\<close>

text \<open>A SHA-256 in lower-case hexadecimal digits.\<close>

definition sha_hex :: "codec \<Rightarrow> bool" where
  "sha_hex J = (\<forall>x. length (cd_hash J x) = 64 \<and> ToLower (cd_hash J x) = cd_hash J x)"

definition hashed_texts :: "audit_record list \<Rightarrow> json set" where
  "hashed_texts rs = (\<lambda>r. JObj (unsigned_members r)) ` set rs"

definition fold_hash :: "audit_record \<Rightarrow> audit_record" where
  "fold_hash r = r\<lparr>ar_Hash := ToLower (ar_Hash r)\<rparr>"

lemma juint_inject [simp]: "juint v = juint w \<longleftrightarrow> v = w"
  unfolding juint_def by (simp only: json.inject of_nat_eq_iff word_unat_eq_iff)

lemma unsigned_inject:
  assumes "unsigned_members r = unsigned_members q"
  shows "r\<lparr>ar_Hash := []\<rparr> = q\<lparr>ar_Hash := []\<rparr>"
  using assms by (cases r; cases q) (auto simp: unsigned_members_def omitempty_def split: if_splits)

lemma chain_unique:
  assumes "sha_hex J" "inj_on (cd_hash J) (hashed_texts rs \<union> hashed_texts qs)"
    and "chained J [] 1 rs" "chained J [] 1 qs" "rs \<noteq> []" "qs \<noteq> []"
    and "EqualFold (ar_Hash (last rs)) (ar_Hash (last qs))"
  shows "map fold_hash rs = map fold_hash qs"
  using assms(2-)
proof (induction rs arbitrary: qs rule: rev_induct)
  case (snoc r rs)
  then obtain qs' q where q: "qs = qs' @ [q]" by (metis rev_exhaust)
  have c: "EqualFold (hashRecord J r) (ar_Hash r)" "EqualFold (hashRecord J q) (ar_Hash q)"
    "EqualFold (ar_Hash r) (ar_Hash q)"
    using snoc.prems q by (simp_all add: chained_snoc)
  then have "hashRecord J r = hashRecord J q"
    using assms(1) by (simp add: EqualFold_def sha_hex_def hashRecord_def)
  then have "JObj (unsigned_members r) = JObj (unsigned_members q)"
    unfolding hashRecord_def by (rule inj_onD [OF snoc.prems(1)]) (auto simp: hashed_texts_def q)
  then have "unsigned_members r = unsigned_members q" by simp
  then have same: "r\<lparr>ar_Hash := []\<rparr> = q\<lparr>ar_Hash := []\<rparr>" by (rule unsigned_inject)
  then have fr: "fold_hash r = fold_hash q" and prev: "ar_PrevHash r = ar_PrevHash q"
    using c(3) by (cases r; cases q; simp add: fold_hash_def EqualFold_def)+
  have hash_ne: "ar_Hash (last xs) \<noteq> []" if "chained J [] 1 xs" "xs \<noteq> []" for xs
  proof -
    from that obtain ys y where "xs = ys @ [y]" by (metis rev_exhaust)
    with that(1) have "EqualFold (hashRecord J y) (ar_Hash (last xs))" by (simp add: chained_snoc)
    moreover have "length (hashRecord J y) = 64" using assms(1) by (simp add: sha_hex_def hashRecord_def)
    ultimately show ?thesis by (metis EqualFold_def length_ToLower list.size(3) zero_neq_numeral)
  qed
  have cs: "chained J [] 1 rs" "chained J [] 1 qs'" using snoc.prems q by (simp_all add: chained_snoc)
  have prevs: "(if rs = [] then [] else ar_Hash (last rs)) = (if qs' = [] then [] else ar_Hash (last qs'))"
    using snoc.prems q prev by (simp add: chained_snoc)
  have "map fold_hash rs = map fold_hash qs'"
  proof (cases "rs = [] \<or> qs' = []")
    case True
    then show ?thesis using prevs hash_ne [OF cs(1)] hash_ne [OF cs(2)] by (auto split: if_splits)
  next
    case False
    have "inj_on (cd_hash J) (hashed_texts rs \<union> hashed_texts qs')"
      by (rule inj_on_subset [OF snoc.prems(1)]) (auto simp: hashed_texts_def q)
    with snoc.IH [OF _ cs] False prevs show ?thesis by simp
  qed
  with fr q show ?case by simp
qed simp

text \<open>The payload a checkpoint of a ledger signs.\<close>

definition head_payload :: "codec \<Rightarrow> audit_line list \<Rightarrow> json \<Rightarrow> bool" where
  "head_payload J ls p = (\<exists>rs created. verified_ledger J (Some ls) rs \<and> rs \<noteq> []
     \<and> p = checkpoint_payload (ar_Seq (last rs)) (ar_Hash (last rs)) created)"

lemma WriteCheckpoint_signs:
  assumes "WriteCheckpoint J (Inr (priv, pub)) path now fl = (Inr (), fl')" "lf_ledger fl = Some ls"
  shows "\<exists>cp. lf_checkpoint fl' = Some (marshal_checkpoint cp) \<and> lf_ledger fl' = Some ls
    \<and> head_payload J ls (checkpoint_payload (cp_Seq cp) (cp_Hash cp) (cp_CreatedAt cp))
    \<and> cp_Signature cp = cd_Sign J priv (checkpoint_payload (cp_Seq cp) (cp_Hash cp) (cp_CreatedAt cp))"
proof -
  obtain st where st: "scan_only J (Some ls) = (st, None)"
    and w: "writeCheckpointForHeadLocked J (Inr (priv, pub)) now (sc_head st) fl = (Inr (), fl')"
    using assms by (auto simp: WriteCheckpoint_def split: sum.splits option.splits prod.splits)
  obtain rs where rs: "verified_ledger J (Some ls) rs" "st = scanned (\<lambda>_ u. u) rs (scan_start 0)"
    using st by (auto simp: scan_verified)
  have "rs \<noteq> []"
    using w rs(2) by (auto simp: writeCheckpointForHeadLocked_def scanned_def scan_start_def zero_audit_record_def)
  then have head: "sc_head st = last rs" using rs(2) by (simp add: scanned_def)
  define cp where "cp = \<lparr>cp_Seq = ar_Seq (last rs), cp_Hash = ar_Hash (last rs), cp_CreatedAt = now,
      cp_Signature = cd_Sign J priv (checkpoint_payload (ar_Seq (last rs)) (ar_Hash (last rs)) now)\<rparr>"
  have fl': "fl' = fl\<lparr>lf_pub := Some pub, lf_checkpoint := Some (marshal_checkpoint cp)\<rparr>"
    using w head by (simp add: writeCheckpointForHeadLocked_def cp_def Let_def split: if_splits)
  show ?thesis
    by (rule exI [of _ cp]) (use fl' rs(1) \<open>rs \<noteq> []\<close> assms(2) in \<open>auto simp: head_payload_def cp_def\<close>)
qed


lemma VerifyCheckpoint_head:
  assumes "VerifyCheckpoint J (Inr pub) path fl = Inr ()"
  shows "\<exists>(cp :: checkpoint) rs. verified_ledger J (lf_ledger fl) rs
    \<and> ar_Seq (if rs = [] then zero_audit_record else last rs) = cp_Seq cp
    \<and> EqualFold (ar_Hash (if rs = [] then zero_audit_record else last rs)) (cp_Hash cp)
    \<and> cd_Verify J pub (checkpoint_payload (cp_Seq cp) (cp_Hash cp) (cp_CreatedAt cp)) (cp_Signature cp)"
proof -
  obtain cp :: checkpoint and st where st: "scan_only J (lf_ledger fl) = (st, None)"
    and cp: "ar_Seq (sc_head st) = cp_Seq cp" "EqualFold (ar_Hash (sc_head st)) (cp_Hash cp)"
      "cd_Verify J pub (checkpoint_payload (cp_Seq cp) (cp_Hash cp) (cp_CreatedAt cp)) (cp_Signature cp)"
    using assms by (auto simp: VerifyCheckpoint_def split: sum.splits option.splits prod.splits if_splits)
  from st obtain rs where "verified_ledger J (lf_ledger fl) rs" "st = scanned (\<lambda>_ u. u) rs (scan_start 0)"
    by (auto simp: scan_verified)
  with cp show ?thesis by (intro exI [of _ cp] exI [of _ rs]) (auto simp: scanned_def scan_start_def)
qed

text \<open>
  C14. Tamper evidence of checkpointed ledgers: if the trusted key only ever signed the heads of the
  ledgers in \<open>Ls\<close>, then a ledger that passes \<^verbatim>\<open>VerifyCheckpoint\<close> holds the same records as one of
  them, whatever was changed, inserted, reordered, removed or cut off; only the letter case
  of the stored hashes can differ.  SHA-256 is assumed not to collide on the records compared.
\<close>

theorem checkpoint_tamper_evident:
  assumes "sha_hex J" "VerifyCheckpoint J (Inr pub) path fl = Inr ()" "lf_ledger fl = Some ls'"
    and "\<And>p s. cd_Verify J pub p s \<Longrightarrow> \<exists>ls \<in> Ls. head_payload J ls p"
    and "\<And>ls rs rs'. ls \<in> Ls \<Longrightarrow> ledger_records J ls = Some rs \<Longrightarrow> ledger_records J ls' = Some rs' \<Longrightarrow>
      inj_on (cd_hash J) (hashed_texts rs' \<union> hashed_texts rs)"
  shows "\<exists>ls \<in> Ls. \<exists>rs rs'. ledger_records J ls = Some rs \<and> ledger_records J ls' = Some rs'
    \<and> map fold_hash rs' = map fold_hash rs"
proof -
  obtain cp :: checkpoint and rs' where rs': "verified_ledger J (Some ls') rs'"
    and cp: "ar_Seq (if rs' = [] then zero_audit_record else last rs') = cp_Seq cp"
      "EqualFold (ar_Hash (if rs' = [] then zero_audit_record else last rs')) (cp_Hash cp)"
      "cd_Verify J pub (checkpoint_payload (cp_Seq cp) (cp_Hash cp) (cp_CreatedAt cp)) (cp_Signature cp)"
    using VerifyCheckpoint_head [OF assms(2)] assms(3) by auto
  obtain ls rs where ls: "ls \<in> Ls" "verified_ledger J (Some ls) rs" "rs \<noteq> []"
    and eq: "cp_Seq cp = ar_Seq (last rs)" "cp_Hash cp = ar_Hash (last rs)"
    using assms(4) [OF cp(3)] by (auto simp: head_payload_def checkpoint_payload_def)
  have rec: "ledger_records J ls = Some rs" "chained J [] 1 rs" "ledger_records J ls' = Some rs'" "chained J [] 1 rs'"
    using ls(2) rs' by (simp_all add: verified_ledger_def)
  obtain qs q where q: "rs = qs @ [q]" using ls(3) by (metis rev_exhaust)
  have "length (ar_Hash (last rs)) = 64"
    using rec(2) q assms(1) by (metis EqualFold_def chained_snoc hashRecord_def last_snoc length_ToLower sha_hex_def)
  then have ne: "rs' \<noteq> []" using cp(2) eq(2) by (auto simp: zero_audit_record_def EqualFold_def ToLower_def)
  then have "EqualFold (ar_Hash (last rs')) (ar_Hash (last rs))" using cp(2) eq(2) by simp
  from chain_unique [OF assms(1) assms(5) [OF ls(1) rec(1,3)] rec(4,2) ne ls(3) this] rec ls(1) show ?thesis by blast
qed

section \<open>Appending\<close>

text \<open>Values that survive being printed and read again.\<close>

primrec plain_json :: "codec \<Rightarrow> json \<Rightarrow> bool" where
  "plain_json J JNull = True"
| "plain_json J (JBool b) = True"
| "plain_json J (JNum q) = (cd_float J q = q)"
| "plain_json J (JStr s) = (cd_utf8 J s = s)"
| "plain_json J (JArr xs) = list_all id (map (plain_json J) xs)"
| "plain_json J (JObj fs) = (sorted_wrt (<) (map fst fs) \<and> list_all (\<lambda>k. cd_utf8 J k = k) (map fst fs)
     \<and> list_all snd (map (map_prod id (plain_json J)) fs))"

lemma put_sorted_last: "\<forall>x \<in> set m. fst x < k \<Longrightarrow> put_sorted k v m = m @ [(k, v)]"
  by (induction k v m rule: put_sorted.induct) (auto dest: less_not_sym)

lemma fold_put_sorted:
  "sorted_wrt (<) (map fst (m @ fs)) \<Longrightarrow> list_all (\<lambda>k. u k = k) (map fst fs) \<Longrightarrow>
   fold (\<lambda>(k, v). put_sorted (u k) v) fs m = m @ fs"
proof (induction fs arbitrary: m)
  case (Cons p fs)
  obtain k v where p: "p = (k, v)" by fastforce
  from Cons.prems have "put_sorted (u k) v m = m @ [p]"
    by (simp add: p sorted_wrt_append) (rule put_sorted_last, blast)
  with Cons.IH [of "m @ [p]"] Cons.prems show ?case by (simp add: p)
qed simp

lemma um_any_plain: "plain_json J x \<Longrightarrow> um_any J x = x"
proof (induction x)
  case (JArr xs)
  then have "map (um_any J) xs = xs" by (intro map_idI) (auto simp: list_all_iff)
  then show ?case by simp
next
  case (JObj fs)
  then have "map (map_prod id (um_any J)) fs = fs"
    by (intro map_idI) (force simp: list_all_iff)
  moreover have "fold (\<lambda>(k, v). put_sorted (cd_utf8 J k) v) fs [] = [] @ fs"
    by (rule fold_put_sorted) (use JObj.prems in simp_all)
  ultimately show ?case by simp
qed simp_all

definition stable_record :: "codec \<Rightarrow> audit_record \<Rightarrow> bool" where
  "stable_record J r = (cd_time J (ar_Time r) = Some (ar_Time r) \<and> plain_json J (JObj (ar_Fields r))
     \<and> (\<forall>s \<in> {ar_Action r, ar_Target r, ar_Status r, ar_Detail r, ar_PrevHash r, ar_Hash r}. cd_utf8 J s = s))"

lemma audit_names:
  "ToLower ''seq'' = ''seq''" "ToLower ''time'' = ''time''" "ToLower ''action'' = ''action''"
  "ToLower ''target'' = ''target''" "ToLower ''status'' = ''status''" "ToLower ''detail'' = ''detail''"
  "ToLower ''fields'' = ''fields''" "ToLower ''prev_hash'' = ''prev_hash''" "ToLower ''hash'' = ''hash''"
  by (simp_all add: ToLower_def lower_char_def)

lemma uint_juint:
  assumes "member name fs = Some (juint w)"
  shows "uint_field name fs = Some w"
proof -
  define n where "n = unat w"
  have "unat w < 2 ^ LENGTH(64)" by (rule unsigned_less)
  then have n: "n < 2 ^ 64" by (simp add: n_def)
  have w: "w = of_nat n" by (simp add: n_def)
  have "member name fs = Some (JNum (of_nat n))" using assms by (simp only: juint_def n_def)
  with n show ?thesis by (simp add: uint_field_def w)
qed


text \<open>The record read back for a written one whose detail may change in its encoding.\<close>

definition reread_detail :: "codec \<Rightarrow> audit_record \<Rightarrow> audit_record" where
  "reread_detail J r = r\<lparr>ar_Detail := cd_utf8 J (ar_Detail r)\<rparr>"

lemma marshal_reread:
  assumes "stable_record J (reread_detail J r)"
  shows "um_record J (Some (marshal_record r)) = Some (reread_detail J r)"
proof -
  obtain a b c d e f g h i where r: "r = \<lparr>ar_Seq = a, ar_Time = b, ar_Action = c, ar_Target = d, ar_Status = e,
      ar_Detail = f, ar_Fields = g, ar_PrevHash = h, ar_Hash = i\<rparr>" by (cases r)
  let ?fs = "unsigned_members r @ [(''hash'', JStr i)]"
  note names = unsigned_members_def omitempty_def member_Cons EqualFold_def audit_names str_field_def
  have m: "member ''seq'' ?fs = Some (juint a)" "member ''time'' ?fs = Some (JStr b)"
    "str_field ''action'' ?fs = Some c" "str_field ''target'' ?fs = Some d" "str_field ''status'' ?fs = Some e"
    "str_field ''detail'' ?fs = Some f" "str_field ''prev_hash'' ?fs = Some h" "str_field ''hash'' ?fs = Some i"
    "member ''fields'' ?fs = (if g = [] then None else Some (JObj g))"
    by (simp_all add: names r)
  have u: "um_any J (JObj g) = JObj g"
    using assms by (intro um_any_plain) (simp add: stable_record_def r reread_detail_def)
  have "fields_field J ?fs = Some g" using m(9) u by (simp add: fields_field_def del: um_any.simps)
  moreover have "time_text_field J ''time'' ?fs = Some b"
    using m(2) assms by (simp add: time_text_field_def stable_record_def r reread_detail_def)
  moreover have "text_field J ''action'' ?fs = Some c" "text_field J ''target'' ?fs = Some d"
    "text_field J ''status'' ?fs = Some e" "text_field J ''detail'' ?fs = Some (cd_utf8 J f)"
    "text_field J ''prev_hash'' ?fs = Some h" "text_field J ''hash'' ?fs = Some i"
    using m(3-8) assms by (simp_all add: text_field_def stable_record_def r reread_detail_def)
  ultimately show ?thesis
    using uint_juint [OF m(1)] by (simp add: um_record_def marshal_record_def r reread_detail_def)
qed

lemma um_marshal_record:
  assumes "stable_record J r"
  shows "um_record J (Some (marshal_record r)) = Some r"
proof -
  have "reread_detail J r = r" using assms by (cases r) (simp add: reread_detail_def stable_record_def)
  with marshal_reread [of J r] assms show ?thesis by simp
qed

text \<open>The record an append writes after the records \<open>rs\<close>.\<close>

definition next_record ::
  "codec \<Rightarrow> string \<Rightarrow> string \<Rightarrow> string \<Rightarrow> string \<Rightarrow> string \<Rightarrow> (string \<times> json) list \<Rightarrow> audit_record list \<Rightarrow> audit_record" where
  "next_record J now action target status detail flds rs =
     (let r = \<lparr>ar_Seq = of_nat (length rs) + 1, ar_Time = now, ar_Action = TrimSpace action, ar_Target = TrimSpace target,
        ar_Status = TrimSpace status, ar_Detail = TrimSpace detail, ar_Fields = flds,
        ar_PrevHash = (if rs = [] then [] else ar_Hash (last rs)), ar_Hash = []\<rparr>
      in r\<lparr>ar_Hash := hashRecord J r\<rparr>)"

definition ledger_holds :: "codec \<Rightarrow> ledger \<Rightarrow> audit_record list \<Rightarrow> bool" where
  "ledger_holds J f rs = (verified_ledger J f rs \<or> f = None \<and> rs = [])"

lemma hashRecord_Hash [simp]: "hashRecord J (r\<lparr>ar_Hash := h\<rparr>) = hashRecord J r"
  by (simp add: hashRecord_def unsigned_members_def)

lemma next_record_sel:
  "ar_Seq (next_record J now a t s d m rs) = of_nat (length rs) + 1"
  "ar_PrevHash (next_record J now a t s d m rs) = (if rs = [] then [] else ar_Hash (last rs))"
  "ar_Hash (next_record J now a t s d m rs) = hashRecord J (next_record J now a t s d m rs)"
  by (simp_all add: next_record_def Let_def hashRecord_def unsigned_members_def)

lemma chained_head_seq: "chained J [] 1 rs \<Longrightarrow> rs \<noteq> [] \<Longrightarrow> ar_Seq (last rs) = of_nat (length rs)"
  by (cases rs rule: rev_cases) (simp_all add: chained_snoc)

lemma append_writes:
  assumes "ledger_holds J f rs" "TrimSpace path \<noteq> []" "TrimSpace action \<noteq> []" "TrimSpace status \<noteq> []"
  shows "audit_Append J path now action target status detail flds f =
    (let r = next_record J now action target status detail flds rs
     in (Inr r, Some ((case f of None \<Rightarrow> [] | Some ls \<Rightarrow> ls) @ [ledger_line J r])))"
proof -
  obtain st err where st: "scan_only J f = (st, err)" "err = None \<or> err = Some ErrNotExist"
    "ar_Seq (sc_head st) = of_nat (length rs)" "ar_Hash (sc_head st) = (if rs = [] then [] else ar_Hash (last rs))"
  proof (cases "verified_ledger J f rs")
    case True
    then have "scan_only J f = (scanned (\<lambda>_ u. u) rs (scan_start 0), None)" by (auto simp: scan_verified)
    with that True chained_head_seq [of J rs] show ?thesis
      by (auto simp: scanned_def scan_start_def zero_audit_record_def verified_ledger_def)
  next
    case False
    with assms(1) have "f = None" "rs = []" by (auto simp: ledger_holds_def)
    with that show ?thesis by (auto simp: scanVerifiedLocked_def scan_start_def zero_audit_record_def)
  qed
  then show ?thesis using assms(2-4)
    by (auto simp: audit_Append_def prepareLedgerDir_def acquireLedgerGuard_def appendLocked_def next_record_def Let_def)
qed

lemma scan_err_exists: "scan_lines J visit ls st = (st', Some e) \<Longrightarrow> e \<noteq> ErrNotExist"
  by (induction J visit ls st arbitrary: st' rule: scan_lines.induct)
    (auto simp: ErrNotExist_def scan_record_def split: sum.splits option.splits if_splits)

text \<open>A ledger that does not verify is never extended.\<close>

lemma append_refuses:
  assumes "\<nexists>rs. verified_ledger J (Some ls) rs"
  shows "\<exists>e. audit_Append J path now action target status detail flds (Some ls) = (Inl e, Some ls)"
proof (cases "TrimSpace path = []")
  case True
  then show ?thesis by (simp add: audit_Append_def prepareLedgerDir_def)
next
  case False
  obtain st e where "scan_only J (Some ls) = (st, Some e)" using scan_not_verified [OF assms, of "\<lambda>_ u. u" 0] by blast
  moreover from this have "e \<noteq> ErrNotExist" by (auto simp: scanVerifiedLocked_def dest: scan_err_exists)
  ultimately show ?thesis using False
    by (simp add: audit_Append_def prepareLedgerDir_def acquireLedgerGuard_def appendLocked_def)
qed

lemma Verify_iff:
  assumes "TrimSpace path \<noteq> []"
  shows "audit_Verify J path f = Inr n \<longleftrightarrow> (\<exists>rs. verified_ledger J f rs \<and> n = int (length rs))"
proof (cases "\<exists>rs. verified_ledger J f rs")
  case True
  then obtain rs where rs: "verified_ledger J f rs" by blast
  then have "scan_only J f = (scanned (\<lambda>_ u. u) rs (scan_start 0), None)" by (auto simp: scan_verified)
  moreover have "sc_count (scanned (\<lambda>_ u. u) rs (scan_start 0)) = int (length rs)" by (simp add: scanned_def scan_start_def)
  ultimately have "audit_Verify J path f = Inr (int (length rs))"
    using assms by (simp add: audit_Verify_def acquireLedgerGuard_def)
  with rs show ?thesis by (metis sum.inject(2) verified_unique)
next
  case False
  then obtain st e where "scan_only J f = (st, Some e)" using scan_not_verified [of J f "\<lambda>_ u. u" 0] by blast
  with False assms show ?thesis by (auto simp: audit_Verify_def acquireLedgerGuard_def)
qed

text \<open>
  C15. Appending extends the chain: on a ledger that verifies (or does not exist yet) with the records
  \<open>rs\<close>, \<^verbatim>\<open>Append\<close> succeeds and writes the record with the next sequence number and the head's hash, and
  when the record survives its own encoding the ledger then verifies as \<open>rs\<close> followed by that
  record.
\<close>

theorem append_extends:
  assumes "ledger_holds J f rs" "TrimSpace path \<noteq> []" "TrimSpace action \<noteq> []" "TrimSpace status \<noteq> []"
  shows "\<exists>r f'. audit_Append J path now action target status detail flds f = (Inr r, f')
    \<and> ar_Seq r = of_nat (length rs) + 1 \<and> ar_PrevHash r = (if rs = [] then [] else ar_Hash (last rs))
    \<and> ar_Action r = TrimSpace action \<and> ar_Detail r = TrimSpace detail \<and> ar_Fields r = flds
    \<and> (stable_record J r \<and> cd_fits J (marshal_record r) \<longrightarrow>
         ledger_holds J f' (rs @ [r]) \<and> audit_Verify J path f' = Inr (int (length rs) + 1))"
proof -
  define r where "r = next_record J now action target status detail flds rs"
  define ls where "ls = (case f of None \<Rightarrow> [] | Some ls \<Rightarrow> ls)"
  have app: "audit_Append J path now action target status detail flds f = (Inr r, Some (ls @ [ledger_line J r]))"
    using append_writes [OF assms] by (simp add: r_def ls_def Let_def)
  have ls: "ledger_records J ls = Some rs" "chained J [] 1 rs"
    using assms(1) by (auto simp: ls_def ledger_holds_def verified_ledger_def)
  have ver: "verified_ledger J (Some (ls @ [ledger_line J r])) (rs @ [r])"
    if "stable_record J r" "cd_fits J (marshal_record r)"
    using that ls next_record_sel [of J now action target status detail flds rs]
    by (simp add: verified_ledger_def ledger_line_def ledger_records_append um_marshal_record chained_snoc r_def)
  then have "audit_Verify J path (Some (ls @ [ledger_line J r])) = Inr (int (length rs) + 1)"
    if "stable_record J r" "cd_fits J (marshal_record r)"
    using that Verify_iff [OF assms(2)] by fastforce
  moreover have "ar_Action r = TrimSpace action" "ar_Detail r = TrimSpace detail" "ar_Fields r = flds"
    by (simp_all add: r_def next_record_def Let_def)
  ultimately show ?thesis using app ver next_record_sel [of J now action target status detail flds rs]
    by (auto simp: ledger_holds_def r_def)
qed


text \<open>
  C16. A defect: \<^verbatim>\<open>Append\<close> hashes the record before its encoding replaces invalid UTF-8.  A detail that
  decoding changes is accepted and written, but from then on the ledger fails verification
  and every later append to it is refused.
\<close>

theorem append_unreadable_detail:
  assumes "ledger_holds J f rs" "TrimSpace path \<noteq> []" "TrimSpace action \<noteq> []" "TrimSpace status \<noteq> []"
    and "r = next_record J now action target status detail flds rs" "stable_record J (reread_detail J r)"
    and "sha_hex J" "hashRecord J (reread_detail J r) \<noteq> hashRecord J r"
  shows "\<exists>f'. audit_Append J path now action target status detail flds f = (Inr r, f')
    \<and> \<not> is_ok (audit_Verify J path f')
    \<and> (\<forall>now' a t s d m. \<exists>e. audit_Append J path now' a t s d m f' = (Inl e, f'))"
proof -
  define ls where "ls = (case f of None \<Rightarrow> [] | Some ls \<Rightarrow> ls) @ [ledger_line J r]"
  have app: "audit_Append J path now action target status detail flds f = (Inr r, Some ls)"
    using append_writes [OF assms(1-4)] assms(5) by (simp add: ls_def Let_def)
  have "ar_Hash (reread_detail J r) = hashRecord J r"
    using next_record_sel(3) [of J now action target status detail flds rs] assms(5) by (simp add: reread_detail_def)
  then have bad: "\<not> EqualFold (hashRecord J (reread_detail J r)) (ar_Hash (reread_detail J r))"
    using assms(7,8) by (simp add: EqualFold_def sha_hex_def hashRecord_def)
  have no: "\<nexists>qs. verified_ledger J (Some ls) qs"
  proof
    assume "\<exists>qs. verified_ledger J (Some ls) qs"
    then obtain qs where qs: "ledger_records J ls = Some qs" "chained J [] 1 qs" by (auto simp: verified_ledger_def)
    then obtain qs' where "qs = qs' @ [reread_detail J r]"
      using marshal_reread [OF assms(6)]
      by (auto simp: ls_def ledger_records_append ledger_line_def split: option.splits if_splits)
    with qs(2) bad show False by (simp add: chained_snoc)
  qed
  then have "\<not> is_ok (audit_Verify J path (Some ls))"
    using Verify_iff [OF assms(2), of J "Some ls"] by (auto simp: is_ok_iff)
  with app append_refuses [OF no] show ?thesis by blast
qed

section \<open>The ring buffer of recent records\<close>

definition action_matches :: "string \<Rightarrow> audit_record \<Rightarrow> bool" where
  "action_matches action r = (action = [] \<or> ar_Action r = action)"

lemma fold_ring_visit:
  "fold (ring_visit limit action) rs g = fold (ring_visit limit []) (filter (action_matches action) rs) g"
  by (induction rs arbitrary: g) (auto simp: ring_visit_def action_matches_def)

lemma up_index_mod: "0 < limit \<Longrightarrow> idx < limit \<Longrightarrow> up_index limit idx = idx mod limit"
proof (induction limit idx rule: up_index.induct)
  case (1 limit idx)
  then show ?case by (cases "idx < 0") (simp_all add: up_index.simps [of limit idx])
qed

lemma mod_differs: "j < m \<Longrightarrow> m < j + n \<Longrightarrow> j mod n \<noteq> m mod n" for j m n :: nat
proof
  assume "j < m" "m < j + n" "j mod n = m mod n"
  then have "n dvd m - j" by (metis mod_eq_dvd_iff_nat less_imp_le)
  with \<open>j < m\<close> have "n \<le> m - j" by (simp add: dvd_imp_le)
  with \<open>j < m\<close> \<open>m < j + n\<close> show False by simp
qed

lemma ring_holds:
  assumes "0 < n" "g = fold (ring_visit (int n) []) ms (ring_start (int n))"
  shows "length (rg_ring g) = n \<and> rg_next g = int (length ms mod n) \<and> rg_count g = int (min (length ms) n)
    \<and> (\<forall>j < length ms. length ms \<le> j + n \<longrightarrow> rg_ring g ! (j mod n) = ms ! j)"
  using assms(2)
proof (induction ms arbitrary: g rule: rev_induct)
  case Nil
  then show ?case by (simp add: ring_start_def)
next
  case (snoc r ms)
  define h where "h = fold (ring_visit (int n) []) ms (ring_start (int n))"
  have h: "length (rg_ring h) = n" "rg_next h = int (length ms mod n)" "rg_count h = int (min (length ms) n)"
    "\<And>j. j < length ms \<Longrightarrow> length ms \<le> j + n \<Longrightarrow> rg_ring h ! (j mod n) = ms ! j"
    using snoc.IH [OF h_def] by blast+
  have g: "g = \<lparr>rg_ring = (rg_ring h)[length ms mod n := r],
      rg_count = (if rg_count h < int n then rg_count h + 1 else rg_count h), rg_next = (rg_next h + 1) mod int n\<rparr>"
  proof -
    have "g = ring_visit (int n) [] r h" using snoc.prems by (simp add: h_def)
    then show ?thesis using h(2) by (simp add: ring_visit_def)
  qed
  have "rg_next g = int (length (ms @ [r]) mod n)"
    using h(2) by (simp add: g zmod_int [symmetric] mod_Suc_eq add.commute flip: of_nat_Suc)
  moreover have "rg_ring g ! (j mod n) = (ms @ [r]) ! j" if "j < length (ms @ [r])" "length (ms @ [r]) \<le> j + n" for j
  proof (cases "j = length ms")
    case True
    with h(1) assms(1) show ?thesis by (simp add: g)
  next
    case False
    with that have "j < length ms" "length ms < j + n" by auto
    with mod_differs [OF this] h(4) [of j] show ?thesis by (simp add: g nth_append)
  qed
  ultimately show ?case using h(1,3) by (auto simp: g)
qed

lemma ring_out_newest:
  assumes "0 < n" "ms \<noteq> []"
  shows "ring_out (int n) (fold (ring_visit (int n) []) ms (ring_start (int n))) = take n (rev ms)"
proof -
  define g where "g = fold (ring_visit (int n) []) ms (ring_start (int n))"
  note inv = ring_holds [OF assms(1) g_def]
  let ?m = "length ms"
  define start where "start = (if rg_next g - 1 < 0 then rg_next g - 1 + int n else rg_next g - 1)"
  have start: "start = (int ?m - 1) mod int n"
  proof (cases "?m mod n = 0")
    case True
    then have "start = int n - 1" using inv by (simp add: start_def)
    moreover have "(int ?m - 1) mod int n = (int ?m mod int n - 1) mod int n" by (simp add: mod_diff_left_eq)
    moreover have "int ?m mod int n = 0" using True by (simp flip: zmod_int)
    ultimately show ?thesis using assms(1) by (simp add: zmod_minus1)
  next
    case False
    then have "start = int (?m mod n) - 1" using inv by (simp add: start_def)
    moreover have "(int ?m - 1) mod int n = (int ?m mod int n - 1) mod int n" by (simp add: mod_diff_left_eq)
    moreover have "int ?m mod int n = int (?m mod n)" by (simp add: zmod_int)
    moreover have "?m mod n < n" using assms(1) by simp
    ultimately show ?thesis using False by simp
  qed
  have idx: "nat (up_index (int n) (start - int i)) = (?m - 1 - i) mod n" if "i < ?m" for i
  proof -
    have "start < int n" using assms(1) by (simp add: start)
    then have "up_index (int n) (start - int i) = (start - int i) mod int n" using assms(1) by (intro up_index_mod) simp_all
    also have "\<dots> = (int ?m - 1 - int i) mod int n" by (simp add: start mod_diff_left_eq)
    also have "\<dots> = int ((?m - 1 - i) mod n)" using that by (simp add: zmod_int diff_diff_eq)
    finally show ?thesis by simp
  qed
  have "map (\<lambda>i. rg_ring g ! nat (up_index (int n) (start - int i))) [0..<min ?m n] = take n (rev ms)"
  proof (rule nth_equalityI)
    fix i assume "i < length (map (\<lambda>i. rg_ring g ! nat (up_index (int n) (start - int i))) [0..<min ?m n])"
    then have i: "i < ?m" "i < n" by simp_all
    have "\<And>j. j < ?m \<Longrightarrow> ?m \<le> j + n \<Longrightarrow> rg_ring g ! (j mod n) = ms ! j" using inv by blast
    from this [of "?m - 1 - i"] i have "rg_ring g ! ((?m - 1 - i) mod n) = ms ! (?m - 1 - i)" by simp
    with i show "map (\<lambda>i. rg_ring g ! nat (up_index (int n) (start - int i))) [0..<min ?m n] ! i = take n (rev ms) ! i"
      by (simp add: idx rev_nth)
  qed simp
  moreover have "ring_out (int n) g = map (\<lambda>i. rg_ring g ! nat (up_index (int n) (start - int i))) [0..<nat (rg_count g)]"
    by (simp only: ring_out_def start_def Let_def)
  moreover have "nat (rg_count g) = min ?m n" using inv by simp
  ultimately show ?thesis by (simp only: g_def)
qed

text \<open>
  \<^verbatim>\<open>Recent\<close> computes with a ring buffer what a reference definition computes on the whole ledger: the
  newest \<open>limit\<close> (at most 4096) records with the requested action, newest first.
\<close>

theorem recent_newest:
  assumes "verified_ledger J f rs" "TrimSpace path \<noteq> []"
  shows "Recent J path limit action f
    = Inr (take (nat (min limit 4096)) (rev (filter (action_matches (TrimSpace action)) rs)))"
proof (cases "limit \<le> 0")
  case True
  then show ?thesis by (simp add: Recent_def)
next
  case False
  define n where "n = nat (min limit 4096)"
  define ms where "ms = filter (action_matches (TrimSpace action)) rs"
  have n: "0 < n" "(if limit > maxRecentRecords then maxRecentRecords else limit) = int n"
    using False by (simp_all add: n_def maxRecentRecords_def)
  define st where "st = scanned (ring_visit (int n) (TrimSpace action)) rs (scan_start (ring_start (int n)))"
  have st: "scanVerifiedLocked J (ring_visit (int n) (TrimSpace action)) (ring_start (int n)) f = (st, None)"
    unfolding scan_verified st_def using assms(1) by blast
  have v: "sc_visit st = fold (ring_visit (int n) []) ms (ring_start (int n))"
    by (simp add: st_def scanned_def scan_start_def fold_ring_visit [of _ "TrimSpace action"] ms_def)
  have "Recent J path limit action f = (if rg_count (sc_visit st) = 0 then Inr [] else Inr (ring_out (int n) (sc_visit st)))"
    using False assms(2) n(2) st by (simp add: Recent_def acquireLedgerGuard_def Let_def)
  also have "\<dots> = Inr (take n (rev ms))"
  proof (cases "ms = []")
    case True
    with ring_holds [OF n(1) v] show ?thesis by simp
  next
    case False
    with ring_holds [OF n(1) v] n(1) have "rg_count (sc_visit st) \<noteq> 0" by simp
    with ring_out_newest [OF n(1) False] v show ?thesis by simp
  qed
  finally show ?thesis by (simp add: n_def ms_def)
qed

section \<open>Witnesses\<close>

text \<open>A codec for which one text is hashed apart from all others, and replacing byte \<open>255\<close> as invalid.\<close>

definition sample_record :: audit_record where
  "sample_record = \<lparr>ar_Seq = 1, ar_Time = ''2024'', ar_Action = ''backup'', ar_Target = [], ar_Status = ''ok'', ar_Detail = [],
     ar_Fields = [], ar_PrevHash = [], ar_Hash = replicate 64 (CHR ''a'')\<rparr>"

definition sample_hash :: "json \<Rightarrow> string" where
  "sample_hash x = (if x = JObj (unsigned_members sample_record) then replicate 64 (CHR ''a'') else replicate 64 (CHR ''b''))"

definition sample_utf8 :: "string \<Rightarrow> string" where
  "sample_utf8 s = map (\<lambda>c. if c = CHR 0xFF then CHR 0xEF else c) s"

definition sample_codec :: codec where
  "sample_codec = \<lparr>cd_hash = sample_hash, cd_utf8 = sample_utf8, cd_float = id, cd_time = Some, cd_fits = (\<lambda>_. True),
     cd_Sign = (\<lambda>_ _. ''sig''), cd_Verify = (\<lambda>_ p s. p = checkpoint_payload 1 (replicate 64 (CHR ''a'')) ''2024'')\<rparr>"

definition sample_lines :: "audit_line list" where
  "sample_lines = [TextLine (Some (marshal_record sample_record))]"

lemma sample_record_stable: "stable_record sample_codec sample_record"
  by (simp add: stable_record_def sample_codec_def sample_record_def sample_utf8_def)

lemma sample_verified: "verified_ledger sample_codec (Some sample_lines) [sample_record]"
  using um_marshal_record [OF sample_record_stable]
  by (simp add: verified_ledger_def sample_lines_def hashRecord_def sample_codec_def sample_hash_def)
    (simp add: sample_record_def)

lemma ToLower_replicate:
  "ToLower (replicate n (CHR ''a'')) = replicate n (CHR ''a'')" "ToLower (replicate n (CHR ''b'')) = replicate n (CHR ''b'')"
  by (simp_all add: ToLower_def lower_char_def)

lemma sample_sha: "sha_hex sample_codec"
  using ToLower_replicate by (simp add: sha_hex_def sample_codec_def sample_hash_def)

definition sample_files :: ledger_files where
  "sample_files = snd (WriteCheckpoint sample_codec (Inr (''priv'', ''pub'')) ''/audit'' ''2024''
     \<lparr>lf_ledger = Some sample_lines, lf_checkpoint = None, lf_pub = None\<rparr>)"

lemma sample_scan: "scan_only sample_codec (Some sample_lines) = (scanned (\<lambda>_ u. u) [sample_record] (scan_start 0), None)"
  unfolding scan_verified using sample_verified by blast

lemma sample_files_def': "lf_ledger sample_files = Some sample_lines"
    "VerifyCheckpoint sample_codec (Inr ''pub'') ''/audit'' sample_files = Inr ()"
proof -
  define cp where "cp = \<lparr>cp_Seq = 1, cp_Hash = replicate 64 (CHR ''a''), cp_CreatedAt = ''2024'', cp_Signature = ''sig''\<rparr>"
  have trim: "TrimSpace ''/audit'' \<noteq> []" "TrimSpace (replicate 64 (CHR ''a'')) \<noteq> []"
    by (simp_all add: TrimSpace_def is_space_def)
  have head: "sc_head (scanned (\<lambda>_ u. u) [sample_record] (scan_start 0)) = sample_record" by (simp add: scanned_def)
  have fl: "sample_files = \<lparr>lf_ledger = Some sample_lines, lf_checkpoint = Some (marshal_checkpoint cp), lf_pub = Some ''pub''\<rparr>"
    using trim by (simp add: sample_files_def WriteCheckpoint_def acquireLedgerGuard_def sample_scan head
        writeCheckpointForHeadLocked_def cp_def) (simp add: sample_record_def sample_codec_def)
  have "um_checkpoint sample_codec (marshal_checkpoint cp) = Some cp"
  proof -
    let ?fs = "[(''seq'', juint 1), (''hash'', JStr (replicate 64 (CHR ''a''))), (''created_at'', JStr ''2024''), (''signature'', JStr ''sig'')]"
    have "member ''seq'' ?fs = Some (juint 1)"
      by (simp add: member_Cons EqualFold_def ToLower_def lower_char_def)
    from uint_juint [OF this] show ?thesis
      by (simp add: um_checkpoint_def marshal_checkpoint_def cp_def text_field_def time_text_field_def str_field_def
          member_Cons EqualFold_def ToLower_def lower_char_def sample_codec_def sample_utf8_def)
  qed
  then show "VerifyCheckpoint sample_codec (Inr ''pub'') ''/audit'' sample_files = Inr ()"
    using trim by (simp add: VerifyCheckpoint_def acquireLedgerGuard_def fl sample_scan head)
      (simp add: cp_def sample_record_def sample_codec_def)
  show "lf_ledger sample_files = Some sample_lines" by (simp add: fl)
qed

theorem checkpoint_tamper_evident_witness:
  "\<exists>ls \<in> {sample_lines}. \<exists>rs rs'. ledger_records sample_codec ls = Some rs
     \<and> ledger_records sample_codec sample_lines = Some rs' \<and> map fold_hash rs' = map fold_hash rs"
proof (rule checkpoint_tamper_evident [OF sample_sha sample_files_def'(2,1)])
  fix p s assume "cd_Verify sample_codec ''pub'' p s"
  then show "\<exists>ls \<in> {sample_lines}. head_payload sample_codec ls p"
    using sample_verified unfolding head_payload_def
    by (intro bexI [of _ sample_lines] exI [of _ "[sample_record]"]) (auto simp: sample_codec_def sample_record_def)
next
  fix ls rs rs' assume "ls \<in> {sample_lines}" "ledger_records sample_codec ls = Some rs"
    "ledger_records sample_codec sample_lines = Some rs'"
  moreover have "ledger_records sample_codec sample_lines = Some [sample_record]"
    using sample_verified by (simp add: verified_ledger_def)
  ultimately have "rs = [sample_record]" "rs' = [sample_record]" by simp_all
  then show "inj_on (cd_hash sample_codec) (hashed_texts rs' \<union> hashed_texts rs)" by (simp add: hashed_texts_def)
qed

lemma trim_samples: "TrimSpace ''/audit'' = ''/audit''" "TrimSpace ''backup'' = ''backup''" "TrimSpace ''ok'' = ''ok''"
  "TrimSpace [] = []" "TrimSpace [CHR 0xFF] = [CHR 0xFF]"
  by (simp_all add: TrimSpace_def is_space_def)

theorem append_extends_witness:
  "\<exists>r f'. audit_Append sample_codec ''/audit'' ''2025'' ''backup'' [] ''ok'' [] [] (Some sample_lines) = (Inr r, f')
     \<and> ar_Seq r = 2 \<and> audit_Verify sample_codec ''/audit'' f' = Inr 2"
proof -
  let ?r = "next_record sample_codec ''2025'' ''backup'' [] ''ok'' [] [] [sample_record]"
  have "ledger_holds sample_codec (Some sample_lines) [sample_record]" using sample_verified by (simp add: ledger_holds_def)
  from append_extends [OF this, of "''/audit''" "''backup''" "''ok''" "''2025''" "[]" "[]" "[]"]
  obtain r f' where r: "audit_Append sample_codec ''/audit'' ''2025'' ''backup'' [] ''ok'' [] [] (Some sample_lines) = (Inr r, f')"
    "ar_Seq r = 2" "stable_record sample_codec r \<and> cd_fits sample_codec (marshal_record r) \<longrightarrow>
       audit_Verify sample_codec ''/audit'' f' = Inr 2" by (auto simp: trim_samples)
  have "r = ?r"
    using r(1) append_writes [of sample_codec "Some sample_lines" "[sample_record]" "''/audit''" "''backup''" "''ok''"]
      sample_verified by (simp add: ledger_holds_def trim_samples Let_def)
  then have "stable_record sample_codec r"
    using sample_sha by (simp add: next_record_def Let_def stable_record_def trim_samples sample_record_def)
      (simp add: sample_codec_def sample_utf8_def hashRecord_def sample_hash_def)
  with r show ?thesis by (auto simp: sample_codec_def)
qed

definition unreadable_record :: audit_record where
  "unreadable_record = sample_record\<lparr>ar_Detail := [CHR 0xFF]\<rparr>"

definition unreadable_codec :: codec where
  "unreadable_codec = sample_codec\<lparr>cd_hash := (\<lambda>x.
     if x = JObj (unsigned_members unreadable_record) then replicate 64 (CHR ''a'') else replicate 64 (CHR ''b''))\<rparr>"

theorem append_unreadable_detail_witness:
  "\<exists>f'. audit_Append unreadable_codec ''/audit'' ''2024'' ''backup'' [] ''ok'' [CHR 0xFF] [] None = (Inr unreadable_record, f')
     \<and> \<not> is_ok (audit_Verify unreadable_codec ''/audit'' f')"
proof -
  let ?r = "next_record unreadable_codec ''2024'' ''backup'' [] ''ok'' [CHR 0xFF] [] []"
  have r: "?r = unreadable_record"
    by (simp add: next_record_def Let_def trim_samples hashRecord_def)
      (simp add: unreadable_record_def unreadable_codec_def sample_record_def unsigned_members_def)
  have "sha_hex unreadable_codec"
    using ToLower_replicate by (simp add: sha_hex_def unreadable_codec_def)
  moreover have "stable_record unreadable_codec (reread_detail unreadable_codec unreadable_record)"
    by (simp add: stable_record_def reread_detail_def unreadable_codec_def unreadable_record_def sample_record_def
        sample_codec_def sample_utf8_def)
  moreover have "unsigned_members (reread_detail unreadable_codec unreadable_record) \<noteq> unsigned_members unreadable_record"
    by (simp add: reread_detail_def unreadable_codec_def unreadable_record_def sample_record_def
        sample_codec_def sample_utf8_def unsigned_members_def omitempty_def)
  then have "hashRecord unreadable_codec (reread_detail unreadable_codec unreadable_record) \<noteq> hashRecord unreadable_codec unreadable_record"
    by (simp add: hashRecord_def) (simp add: unreadable_codec_def)
  moreover have "ledger_holds unreadable_codec None []" by (simp add: ledger_holds_def)
  ultimately show ?thesis
    using append_unreadable_detail [of unreadable_codec None "[]" "''/audit''" "''backup''" "''ok''" unreadable_record
        "''2024''" "[]" "[CHR 0xFF]" "[]"] r by (auto simp: trim_samples)
qed

theorem recent_newest_witness:
  "Recent sample_codec ''/audit'' 5 ''backup'' (Some sample_lines) = Inr [sample_record]"
  using recent_newest [OF sample_verified, of "''/audit''" 5 "''backup''"]
  by (simp add: trim_samples action_matches_def sample_record_def)

end
