(* ===== verification/Worker_Pool.thy ===== *)
theory Worker_Pool
  imports Store_Interface Cp_Config
begin

text \<open>
  The worker pool (\<^verbatim>\<open>WorkerPool.Run\<close> and \<^verbatim>\<open>retryDelay\<close> of \<^verbatim>\<open>internal/controlplane/worker.go\<close>): one tick
  of a worker leases a job, runs it and completes or fails it with the backoff of its attempt.
  The runner is an argument: what running a job returns and does to the store.  The goroutines of a
  pool interleave at the granularity of the queue operations, which the queue's contract covers.
\<close>

text \<open>
  \<^verbatim>\<open>math.Min(900, math.Pow(2, float64(attempt)))\<close>: powers of two are exact in a \<^verbatim>\<open>float64\<close> until they
  become infinite, far above 900.
\<close>

definition retryDelay :: "int \<Rightarrow> duration" where
  "retryDelay attempt =
     (let n = (if attempt < 1 then 1 else attempt); sec = min 900 (2 ^ nat n) in sec * second)"

definition pool_lease :: "worker_config \<Rightarrow> duration" where
  "pool_lease wc = dur_or (2 * minute) (wk_Lease wc)"

definition pool_owner :: "string \<Rightarrow> string" where
  "pool_owner owner = (if owner = [] then LocalWorkerAffinity else owner)"

fun error_text :: "go_error \<Rightarrow> string" where
  "error_text (GoErr m) = m"
| "error_text (GoPanic m) = m"

definition finish_job ::
  "'s store_iface \<Rightarrow> (job \<Rightarrow> 's \<Rightarrow> go_error option \<times> 's) \<Rightarrow> string \<Rightarrow> time \<Rightarrow> job \<Rightarrow> 's \<Rightarrow> 's" where
  "finish_job S run owner fin j st =
     (case run j st of
        (None, st1) \<Rightarrow> snd (i_Complete S fin (j_ID j) owner st1)
      | (Some e, st1) \<Rightarrow> snd (i_Fail S fin (j_ID j) owner (error_text e) (retryDelay (j_Attempts j)) st1))"

definition pool_tick ::
  "'s store_iface \<Rightarrow> worker_config \<Rightarrow> (job \<Rightarrow> 's \<Rightarrow> go_error option \<times> 's) \<Rightarrow> string \<Rightarrow> time \<Rightarrow> time \<Rightarrow> 's \<Rightarrow> 's" where
  "pool_tick S wc run owner0 now fin st =
     (let owner = pool_owner owner0 in
      case i_Lease S now owner 1 (pool_lease wc) st of
        (Inl e, st1) \<Rightarrow> st1
      | (Inr jobs, st1) \<Rightarrow> fold (finish_job S run owner fin) jobs st1)"

section \<open>Backoff\<close>

lemma retryDelay_range: "2 * second \<le> retryDelay n \<and> retryDelay n \<le> 900 * second"
proof -
  have s: "0 < second" by (simp add: dur_defs)
  have "(2 :: int) ^ 1 \<le> 2 ^ nat (if n < 1 then 1 else n)" by (rule power_increasing) auto
  with s show ?thesis by (simp add: retryDelay_def Let_def mult_right_mono)
qed

lemma retryDelay_mono: "m \<le> n \<Longrightarrow> retryDelay m \<le> retryDelay n"
proof -
  assume "m \<le> n"
  then have "(2 :: int) ^ nat (if m < 1 then 1 else m) \<le> 2 ^ nat (if n < 1 then 1 else n)"
    by (intro power_increasing) auto
  moreover have "0 \<le> second" by (simp add: dur_defs)
  ultimately show ?thesis unfolding retryDelay_def Let_def by (intro mult_right_mono min.mono order_refl)
qed

lemma retryDelay_doubles: "1 \<le> n \<Longrightarrow> n \<le> 8 \<Longrightarrow> retryDelay (n + 1) = 2 * retryDelay n"
proof -
  assume "1 \<le> n" "n \<le> 8"
  then have "n \<in> {1, 2, 3, 4, 5, 6, 7, 8}" by auto
  then show ?thesis by (auto simp: retryDelay_def dur_defs)
qed

section \<open>Attempts\<close>

text \<open>How often a run of operations hands a job to a worker.\<close>

fun handed_out :: "queue_op \<Rightarrow> queue_out \<Rightarrow> string \<Rightarrow> bool" where
  "handed_out (OpLease now owner n d) (OutLeased (Inr js)) k = (k \<in> set (map j_ID js))"
| "handed_out _ _ k = False"

primrec handouts :: "(queue_op \<Rightarrow> 's \<Rightarrow> queue_out \<times> 's) \<Rightarrow> string \<Rightarrow> queue_op list \<Rightarrow> 's \<Rightarrow> nat" where
  "handouts step k [] s = 0"
| "handouts step k (q # qs) s =
     (if handed_out q (fst (step q s)) k then 1 else 0) + handouts step k qs (snd (step q s))"

fun_cases handed_outE: "handed_out q out k"

lemma job_trans_keeps:
  assumes "job_trans q k (Some j) new" "\<And>now. q \<noteq> OpRetry now k"
  shows "\<exists>j'. new = Some j' \<and> j_MaxAttempts j' = j_MaxAttempts j \<and> j_Attempts j \<le> j_Attempts j'"
  using assms
  by (cases q) (auto simp: same_identity_def reap_if_def reap_def take_lease_def)

context job_queue
begin

lemma step_attempts:
  assumes "wf s" "op_pre q (jobs s)" "gget (jobs s) k = Some j" "\<And>now. q \<noteq> OpRetry now k"
  shows "\<exists>j'. gget (jobs (snd (step q s))) k = Some j' \<and> j_MaxAttempts j' = j_MaxAttempts j
    \<and> j_Attempts j + (if handed_out q (fst (step q s)) k then 1 else 0) \<le> j_Attempts j'"
proof (cases "handed_out q (fst (step q s)) k")
  case True
  then obtain now owner n d js where q: "q = OpLease now owner n d"
    and js: "fst (step q s) = OutLeased (Inr js)" "k \<in> set (map j_ID js)"
    by (auto elim: handed_outE)
  then obtain x where x: "x \<in> set js" "j_ID x = k" by auto
  from lease_out [OF assms(1) js(1) [unfolded q] x(1)] assms(3) x(2) q
  have "gget (jobs (snd (step q s))) k = Some (take_lease now owner d j)" by auto
  then show ?thesis by (simp add: take_lease_def)
next
  case False
  have "job_trans q k (Some j) (gget (jobs (snd (step q s))) k)"
    using step_trans [OF assms(1,2), of k] assms(3) by simp
  from job_trans_keeps [OF this assms(4)] False show ?thesis by auto
qed

lemma run_handouts:
  assumes "wf s" "ops_pre step jobs qs s" "gget (jobs s) k = Some j" "\<And>now. OpRetry now k \<notin> set qs"
  shows "\<exists>j'. gget (jobs (run_ops step qs s)) k = Some j' \<and> j_MaxAttempts j' = j_MaxAttempts j
    \<and> j_Attempts j + int (handouts step k qs s) \<le> j_Attempts j'"
  using assms
proof (induction qs arbitrary: s j)
  case (Cons q qs)
  have "\<And>now. q \<noteq> OpRetry now k" using Cons.prems(4) by auto
  with step_attempts [of s q k j] Cons.prems obtain j1 where j1:
    "gget (jobs (snd (step q s))) k = Some j1" "j_MaxAttempts j1 = j_MaxAttempts j"
    "j_Attempts j + (if handed_out q (fst (step q s)) k then 1 else 0) \<le> j_Attempts j1" by auto
  have "wf (snd (step q s))" using Cons.prems by (simp add: step_wf)
  from Cons.IH [OF this _ j1(1)] Cons.prems j1(2,3) show ?case by (fastforce split: if_splits)
qed auto

lemma handouts_bounded:
  assumes "wf s" "queue_ok (jobs s)" "ops_pre step jobs qs s" "gget (jobs s) k = Some j"
    and "\<And>now. OpRetry now k \<notin> set qs"
  shows "j_Attempts j + int (handouts step k qs s) \<le> j_MaxAttempts j"
proof -
  from run_handouts [OF assms(1,3,4,5)] obtain j' where j': "gget (jobs (run_ops step qs s)) k = Some j'"
    "j_MaxAttempts j' = j_MaxAttempts j" "j_Attempts j + int (handouts step k qs s) \<le> j_Attempts j'" by blast
  with run_attempts_bounded [OF assms(1-3) j'(1)] show ?thesis by simp
qed

end

text \<open>
  C17. Retrying ends: whatever queue operations run against the SQL store, a job is handed to workers at most
  \<^verbatim>\<open>MaxAttempts\<close> times (counting the attempts it already had) unless somebody retries it by hand.
\<close>

theorem sql_handouts_bounded:
  assumes "sql_wf s" "queue_ok (d_jobs s)" "ops_pre sql_step d_jobs qs s" "gget (d_jobs s) k = Some j"
    and "\<forall>now. OpRetry now k \<notin> set qs"
  shows "j_Attempts j + int (handouts sql_step k qs s) \<le> j_MaxAttempts j"
  using sq.handouts_bounded [OF assms(1-4)] assms(5) by blast

theorem sql_handouts_bounded_witness:
  "int (handouts sql_step ''a'' [OpLease 15 ''w'' 1 60, OpFail 16 ''a'' ''w'' ''x'' 2, OpLease 20 ''w'' 1 60] sql1) \<le> 5"
proof -
  have q: "queue_ok (d_jobs sql1)"
    by (simp add: queue_ok_def queue_job_ok_def sql1_jobs job_ok_def lease_cleared_def sample_simps)
  obtain j where j: "gget (d_jobs sql1) ''a'' = Some j" "j_Attempts j = 0" "j_MaxAttempts j = 5"
    by (simp add: sql1_jobs sample_job_simps)
  have "ops_pre sql_step d_jobs [OpLease 15 ''w'' 1 60, OpFail 16 ''a'' ''w'' ''x'' 2, OpLease 20 ''w'' 1 60] sql1" by simp
  from sql_handouts_bounded [OF sql_wf_sql1 q this j(1)] j(2,3) show ?thesis by simp
qed




end
