(* ===== verification/Agent_Server.thy ===== *)
theory Agent_Server
  imports Worker_Pool Erasure_Dist Payloads
begin

text \<open>
  The agent API (\<^verbatim>\<open>internal/controlplane/agent_server.go\<close>): every handler as a function from the
  request and the server's state (the store, the spool directory, the identifiers handed out) to
  the response and the new state.

  A request carries the client certificate, the path values and its body by what the JSON decoder
  makes of it (\<open>None\<close> when \<^verbatim>\<open>Decode\<close> fails); an upload carries the bytes of the body and the error
  that ended it, if any.  The spool directory is a map from paths to contents; its operations do not fail.
  The clock, \<^verbatim>\<open>newID\<close>, the hex SHA-256 of a byte string and \<^verbatim>\<open>replication.EnsureKey\<close> are the environment.
  A response with status \<open>0\<close> is a connection aborted by a panic.
\<close>

record client_cert =
  cc_DNSNames :: "string list"
  cc_CommonName :: string
  cc_Subject :: string

record agent_server =
  as_Worker :: worker_config
  as_KeepPerRepo :: int
  as_Replication :: replication_config
  as_Storage :: storage_data_config

record server_env =
  en_now :: time
  en_newID :: "string \<Rightarrow> nat \<Rightarrow> string"
  en_sha :: "string \<Rightarrow> string"
  en_EnsureKey :: "string result"

record 's server_state =
  sv_store :: 's
  sv_ids :: nat
  sv_spool :: "(string, string) gomap"

record response =
  re_Status :: int
  re_Error :: string
  re_Offset :: "int option"
  re_State :: string
  re_Body :: string
  re_Jobs :: "job list"
  re_Created :: bool
  re_Ref :: "object_ref option"
  re_Payload :: json_text

definition reply :: "int \<Rightarrow> response" where
  "reply code = \<lparr>re_Status = code, re_Error = [], re_Offset = None, re_State = [], re_Body = [], re_Jobs = [],
     re_Created = False, re_Ref = None, re_Payload = None\<rparr>"

fun http_Error :: "int \<Rightarrow> go_error \<Rightarrow> response" where
  "http_Error code (GoErr m) = (reply code)\<lparr>re_Error := m\<rparr>"
| "http_Error code (GoPanic m) = reply 0"

type_synonym 's handled = "response \<times> 's server_state"

section \<open>Identity and authorisation\<close>

definition agentIdentity :: "client_cert option \<Rightarrow> string" where
  "agentIdentity cert = (case cert of
     None \<Rightarrow> []
   | Some c \<Rightarrow>
       if cc_DNSNames c \<noteq> [] \<and> TrimSpace (hd (cc_DNSNames c)) \<noteq> [] then TrimSpace (hd (cc_DNSNames c))
       else TrimSpace (cc_CommonName c))"

definition authorizeRunningJob :: "'s store_iface \<Rightarrow> client_cert option \<Rightarrow> string \<Rightarrow> 's \<Rightarrow> (job \<times> string) result" where
  "authorizeRunningJob S cert ident st =
     (let agent = agentIdentity cert in
      if agent = [] then Inl (GoErr ''client certificate identity missing'')
      else (case i_GetJob S ident st of
              Inl e \<Rightarrow> Inl e
            | Inr j \<Rightarrow>
                if j_Status j \<noteq> JobRunning \<or> j_LeaseOwner j \<noteq> agent
                then Inl (GoErr ''job is not leased by authenticated agent'')
                else Inr (j, agent)))"

text \<open>\<^verbatim>\<open>j, agent, err := s.authorizeRunningJob(r); if err != nil { http.Error(w, err.Error(), 403); return }\<close>\<close>

definition with_job ::
  "'s store_iface \<Rightarrow> client_cert option \<Rightarrow> string \<Rightarrow> 's server_state \<Rightarrow> (job \<Rightarrow> string \<Rightarrow> 's handled) \<Rightarrow> 's handled" where
  "with_job S cert ident sv k = (case authorizeRunningJob S cert ident (sv_store sv) of
     Inl e \<Rightarrow> (http_Error 403 e, sv)
   | Inr (j, agent) \<Rightarrow> k j agent)"

text \<open>The rest of a handler after a store operation: its error with a status, or the continuation.\<close>

definition store_do ::
  "int \<Rightarrow> 'a result \<times> 's \<Rightarrow> 's server_state \<Rightarrow> ('a \<Rightarrow> 's server_state \<Rightarrow> 's handled) \<Rightarrow> 's handled" where
  "store_do code out sv k = (case out of
     (Inl e, st) \<Rightarrow> (http_Error code e, sv\<lparr>sv_store := st\<rparr>)
   | (Inr x, st) \<Rightarrow> k x (sv\<lparr>sv_store := st\<rparr>))"

definition http_ok :: "'s server_state \<Rightarrow> 's handled" where
  "http_ok sv = (reply 200, sv)"

definition requireRepositoryBinding :: "'s store_iface \<Rightarrow> string \<Rightarrow> string \<Rightarrow> 's \<Rightarrow> unit result" where
  "requireRepositoryBinding S repositoryID target st = (case i_ListRepositories S st of
     Inl e \<Rightarrow> Inl e
   | Inr repos \<Rightarrow>
       if \<exists>r \<in> set repos. r_ID r = repositoryID \<and> r_FullName r = target then Inr ()
       else Inl (GoErr ''repository id does not match leased job''))"

section \<open>Heartbeat, lease, completion\<close>

record heartbeat_request =
  hb_Labels :: "(string, string) gomap option"
  hb_ReplicationPublicKey :: string
  hb_StorageHealth :: string
  hb_StorageTotalBytes :: int
  hb_StorageFreeBytes :: int
  hb_StorageFreePercent :: rat
  hb_StorageProbeMS :: int
  hb_StorageError :: string
  hb_DiskRiskScore :: int
  hb_DiskModel :: string
  hb_DiskSerial :: string
  hb_DiskTemperatureC :: rat
  hb_DiskPercentageUsed :: rat
  hb_DiskMediaErrors :: int
  hb_DiskCriticalWarning :: int
  hb_InventoryRoot :: string
  hb_InventoryObjects :: int
  hb_InventoryBytes :: int
  hb_InventoryJSON :: json_text

definition marshal_labels :: "(string, string) gomap option \<Rightarrow> json_text" where
  "marshal_labels m = Some (case m of None \<Rightarrow> JNull | Some ls \<Rightarrow> JObj (map (\<lambda>(k, v). (k, JStr v)) ls))"

definition heartbeat_agent :: "string \<Rightarrow> string \<Rightarrow> heartbeat_request \<Rightarrow> agent" where
  "heartbeat_agent ident subject req = zero_agent\<lparr>a_ID := ident, a_Name := ident, a_CertSubject := subject,
     a_LabelsJSON := marshal_labels (hb_Labels req), a_ReplicationPublicKey := TrimSpace (hb_ReplicationPublicKey req),
     a_Status := ''online'', a_StorageHealth := hb_StorageHealth req, a_StorageTotalBytes := hb_StorageTotalBytes req,
     a_StorageFreeBytes := hb_StorageFreeBytes req, a_StorageFreePercent := hb_StorageFreePercent req,
     a_StorageProbeMS := hb_StorageProbeMS req, a_StorageError := hb_StorageError req,
     a_DiskRiskScore := hb_DiskRiskScore req, a_DiskModel := hb_DiskModel req, a_DiskSerial := hb_DiskSerial req,
     a_DiskTemperatureC := hb_DiskTemperatureC req, a_DiskPercentageUsed := hb_DiskPercentageUsed req,
     a_DiskMediaErrors := hb_DiskMediaErrors req, a_DiskCriticalWarning := hb_DiskCriticalWarning req,
     a_InventoryRoot := hb_InventoryRoot req, a_InventoryObjects := hb_InventoryObjects req,
     a_InventoryBytes := hb_InventoryBytes req, a_InventoryJSON := hb_InventoryJSON req\<rparr>"

definition heartbeat ::
  "'s store_iface \<Rightarrow> server_env \<Rightarrow> client_cert option \<Rightarrow> heartbeat_request \<Rightarrow> 's server_state \<Rightarrow> 's handled" where
  "heartbeat S en cert req sv =
     (let ident = agentIdentity cert in
      if ident = [] then (http_Error 401 (GoErr ''client certificate identity missing''), sv)
      else store_do 500
        (i_HeartbeatAgent S (en_now en)
          (heartbeat_agent ident (case cert of None \<Rightarrow> [] | Some c \<Rightarrow> cc_Subject c) req) (sv_store sv))
        sv (\<lambda>_. http_ok))"

definition lease_jobs ::
  "'s store_iface \<Rightarrow> agent_server \<Rightarrow> server_env \<Rightarrow> client_cert option \<Rightarrow> 's server_state \<Rightarrow> 's handled" where
  "lease_jobs S srv en cert sv =
     (let ident = agentIdentity cert in
      if ident = [] then (http_Error 401 (GoErr ''client certificate identity missing''), sv)
      else store_do 500 (i_Lease S (en_now en) ident 1 (pool_lease (as_Worker srv)) (sv_store sv)) sv
        (\<lambda>js sv1. ((reply 200)\<lparr>re_Jobs := js\<rparr>, sv1)))"

text \<open>\<^verbatim>\<open>_ = os.Remove(path)\<close> and \<^verbatim>\<open>_ = s.Store.DeleteReplicationTransfer(...)\<close>\<close>

definition drop_transfer :: "'s store_iface \<Rightarrow> agent_server \<Rightarrow> string \<Rightarrow> 's server_state \<Rightarrow> 's server_state" where
  "drop_transfer S srv transfer sv =
     sv\<lparr>sv_spool := gdel (replicationSpoolPath (rc_SpoolRoot (as_Replication srv)) transfer) (sv_spool sv),
        sv_store := snd (i_DeleteReplicationTransfer S transfer (sv_store sv))\<rparr>"

definition complete ::
  "'s store_iface \<Rightarrow> agent_server \<Rightarrow> server_env \<Rightarrow> client_cert option \<Rightarrow> string \<Rightarrow> 's server_state \<Rightarrow> 's handled" where
  "complete S srv en cert ident sv = with_job S cert ident sv (\<lambda>j agent.
     store_do 409 (i_Complete S (en_now en) (j_ID j) agent (sv_store sv)) sv (\<lambda>_ sv1.
       if j_Kind j = ''install-cas'' then
         (case unmarshal_install_cas (j_Payload j) of
            None \<Rightarrow> http_ok sv1
          | Some p \<Rightarrow>
              if ic_TransferID p = [] then http_ok sv1
              else
                let sv2 = drop_transfer S srv (ic_TransferID p) sv1
                in http_ok (case ic_Erasure p of
                     None \<Rightarrow> sv2
                   | Some e \<Rightarrow> if et_LeaseID e = [] then sv2
                               else sv2\<lparr>sv_store := snd (i_ReleaseObjectLease S (et_LeaseID e) (sv_store sv2))\<rparr>))
       else http_ok sv1))"

definition fail_job ::
  "'s store_iface \<Rightarrow> server_env \<Rightarrow> client_cert option \<Rightarrow> string \<Rightarrow> string option \<Rightarrow> 's server_state \<Rightarrow> 's handled" where
  "fail_job S en cert ident body sv = with_job S cert ident sv (\<lambda>j agent.
     (case body of
        None \<Rightarrow> (http_Error 400 (GoErr ''invalid JSON''), sv)
      | Some detail \<Rightarrow>
          store_do 409 (i_Fail S (en_now en) (j_ID j) agent (take 4096 detail) (retryDelay (j_Attempts j)) (sv_store sv))
            sv (\<lambda>_. http_ok)))"

section \<open>Reports of backup jobs\<close>

definition generation_report ::
  "'s store_iface \<Rightarrow> agent_server \<Rightarrow> client_cert option \<Rightarrow> string \<Rightarrow> generation option \<Rightarrow> 's server_state \<Rightarrow> 's handled" where
  "generation_report S srv cert ident body sv = with_job S cert ident sv (\<lambda>j agent.
     (case body of
        None \<Rightarrow> (http_Error 400 (GoErr ''invalid JSON''), sv)
      | Some g \<Rightarrow>
          if g_Repository g \<noteq> j_Target j
          then (http_Error 409 (GoErr ''generation repository does not match leased job''), sv)
          else (case requireRepositoryBinding S (g_RepositoryID g) (j_Target j) (sv_store sv) of
              Inl e \<Rightarrow> (http_Error 409 e, sv)
            | Inr _ \<Rightarrow>
                store_do 500 (i_RecordGeneration S g (sv_store sv)) sv (\<lambda>_ sv1.
                  if as_KeepPerRepo srv > 0
                  then store_do 500 (i_PruneGenerationRecords S (g_RepositoryID g) (as_KeepPerRepo srv) (sv_store sv1)) sv1 (\<lambda>_. http_ok)
                  else http_ok sv1))))"

record backup_result =
  br_RepositoryID :: string
  br_OK :: bool
  br_GenerationID :: string
  br_At :: time

definition backupResult ::
  "'s store_iface \<Rightarrow> server_env \<Rightarrow> client_cert option \<Rightarrow> string \<Rightarrow> backup_result option \<Rightarrow> 's server_state \<Rightarrow> 's handled" where
  "backupResult S en cert ident body sv = with_job S cert ident sv (\<lambda>j agent.
     (case body of
        None \<Rightarrow> (http_Error 400 (GoErr ''invalid JSON''), sv)
      | Some req \<Rightarrow>
          (case requireRepositoryBinding S (br_RepositoryID req) (j_Target j) (sv_store sv) of
             Inl e \<Rightarrow> (http_Error 409 e, sv)
           | Inr _ \<Rightarrow>
               store_do 500 (i_MarkBackupResult S (en_now en) (br_RepositoryID req) (br_OK req) (br_GenerationID req)
                 (if IsZero (br_At req) then en_now en else br_At req) (sv_store sv)) sv (\<lambda>_. http_ok))))"

text \<open>\<^verbatim>\<open>strings.TrimLeft(strings.ReplaceAll(path, "\\", "/"), "/")\<close> under the agent's name.\<close>

definition agent_path :: "string \<Rightarrow> string \<Rightarrow> string" where
  "agent_path agent path =
     ''agent://'' @ agent @ ''/'' @ dropWhile (\<lambda>c. c = CHR ''/'') (map (\<lambda>c. if c = CHR 0x5C then CHR ''/'' else c) path)"

definition own_replica :: "time \<Rightarrow> string \<Rightarrow> generation_replica \<Rightarrow> generation_replica" where
  "own_replica now agent rp0 =
     (let rp1 = rp0\<lparr>rp_AgentID := agent\<rparr>;
          rp2 = (if rp_MetaPath rp1 \<noteq> [] \<and> \<not> HasPrefix (rp_MetaPath rp1) ''agent://''
                 then rp1\<lparr>rp_MetaPath := agent_path agent (rp_MetaPath rp1)\<rparr> else rp1);
          rp3 = (if rp_State rp2 = [] then rp2\<lparr>rp_State := ReplicaReady\<rparr> else rp2)
      in if IsZero (rp_VerifiedAt rp3) then rp3\<lparr>rp_VerifiedAt := now\<rparr> else rp3)"

definition replica ::
  "'s store_iface \<Rightarrow> agent_server \<Rightarrow> server_env \<Rightarrow> client_cert option \<Rightarrow> string \<Rightarrow> generation_replica option \<Rightarrow>
   's server_state \<Rightarrow> 's handled" where
  "replica S srv en cert ident body sv = with_job S cert ident sv (\<lambda>j agent.
     (case body of
        None \<Rightarrow> (http_Error 400 (GoErr ''invalid JSON''), sv)
      | Some rp \<Rightarrow>
          let record = (\<lambda>k. store_do 500 (i_RecordReplica S (en_now en) (own_replica (en_now en) agent rp) (sv_store sv)) sv (\<lambda>_. k)) in
          if j_Kind j = ''backup-repo'' then
            (case requireRepositoryBinding S (rp_RepositoryID rp) (j_Target j) (sv_store sv) of
               Inl e \<Rightarrow> (http_Error 409 e, sv)
             | Inr _ \<Rightarrow> record http_ok)
          else if j_Kind j = ''install-replica'' then
            (case unmarshal_install_replica (j_Payload j) of
               None \<Rightarrow> (http_Error 500 (GoErr ''invalid install job''), sv)
             | Some p \<Rightarrow>
                 if ir_TargetAgent p \<noteq> agent \<or> rp_GenerationID rp \<noteq> ir_GenerationID p \<or> rp_RepositoryID rp \<noteq> ir_RepositoryID p
                 then (http_Error 409 (GoErr ''replica does not match install job''), sv)
                 else record (\<lambda>sv1. http_ok (drop_transfer S srv (ir_TransferID p) sv1)))
          else (http_Error 403 (GoErr ''job kind may not report replicas''), sv)))"

definition enqueue_child ::
  "'s store_iface \<Rightarrow> server_env \<Rightarrow> client_cert option \<Rightarrow> string \<Rightarrow> job option \<Rightarrow> 's server_state \<Rightarrow> 's handled" where
  "enqueue_child S en cert ident body sv = with_job S cert ident sv (\<lambda>j agent.
     (case body of
        None \<Rightarrow> (http_Error 400 (GoErr ''invalid JSON''), sv)
      | Some child \<Rightarrow>
          if j_Target child \<noteq> j_Target j then (http_Error 409 (GoErr ''child job target must match parent job''), sv)
          else if j_Kind child \<noteq> ''mirror-gitlab''
          then (http_Error 403 (GoErr ''remote agents may only enqueue mirror-gitlab follow-up jobs''), sv)
          else store_do 500 (i_Enqueue S (en_now en) (en_newID en ''job'' (sv_ids sv)) (child\<lparr>j_Affinity := agent\<rparr>) (sv_store sv))
            (sv\<lparr>sv_ids := sv_ids sv + 1\<rparr>) (\<lambda>(job, created) sv1. ((reply 200)\<lparr>re_Jobs := [job], re_Created := created\<rparr>, sv1))))"

section \<open>Object references and erasure sets\<close>

definition object_job :: "job \<Rightarrow> bool" where
  "object_job j = (j_Kind j = ''install-cas'' \<or> j_Kind j = ''protect-erasure'' \<or> j_Kind j = ''repair-object'')"

record object_ref_request =
  oq_Ref :: object_ref
  oq_Delta :: int
  oq_Owner :: string
  oq_Ensure :: bool

definition objectRef ::
  "'s store_iface \<Rightarrow> server_env \<Rightarrow> client_cert option \<Rightarrow> string \<Rightarrow> object_ref_request option \<Rightarrow> 's server_state \<Rightarrow> 's handled" where
  "objectRef S en cert ident body sv = with_job S cert ident sv (\<lambda>j agent.
     if \<not> object_job j then (http_Error 403 (GoErr ''job may not mutate object refs''), sv)
     else (case body of
        None \<Rightarrow> (http_Error 400 (GoErr ''invalid JSON''), sv)
      | Some req \<Rightarrow>
          if or_Digest (oq_Ref req) = [] \<or> oq_Delta req < - 1 \<or> oq_Delta req > 1
          then (http_Error 400 (GoErr ''invalid object ref mutation''), sv)
          else if oq_Ensure req then
            if TrimSpace (oq_Owner req) = [] then (http_Error 400 (GoErr ''object ref owner required''), sv)
            else store_do 409 (i_EnsureObjectRef S (en_now en) (oq_Ref req) (oq_Owner req) (sv_store sv)) sv
              (\<lambda>created sv1. ((reply 200)\<lparr>re_Created := created\<rparr>, sv1))
          else store_do 409 (i_AdjustObjectRef S (en_now en) (oq_Ref req) (oq_Delta req) (sv_store sv)) sv
            (\<lambda>ref sv1. ((reply 200)\<lparr>re_Ref := Some ref\<rparr>, sv1))))"

definition erasureSet ::
  "'s store_iface \<Rightarrow> server_env \<Rightarrow> client_cert option \<Rightarrow> string \<Rightarrow> erasure_set option \<Rightarrow> 's server_state \<Rightarrow> 's handled" where
  "erasureSet S en cert ident body sv = with_job S cert ident sv (\<lambda>j agent.
     if \<not> object_job j then (http_Error 403 (GoErr ''job may not mutate erasure sets''), sv)
     else (case body of
        None \<Rightarrow> (http_Error 400 (GoErr ''invalid JSON''), sv)
      | Some e \<Rightarrow> store_do 409 (i_RecordErasureSet S (en_now en) e (sv_store sv)) sv (\<lambda>_. http_ok)))"

definition own_shard :: "'s store_iface \<Rightarrow> agent_server \<Rightarrow> string \<Rightarrow> 's \<Rightarrow> erasure_shard \<Rightarrow> erasure_shard" where
  "own_shard S srv agent st sh0 =
     (let sh = sh0\<lparr>sh_AgentID := agent\<rparr> in
      case i_GetAgent S agent st of
        Inl _ \<Rightarrow> sh
      | Inr a \<Rightarrow> sh\<lparr>sh_FailureDomain := agentFailureDomain a (ec_FailureDomainLabel (sc_Erasure (as_Storage srv)))\<rparr>)"

definition erasureShard ::
  "'s store_iface \<Rightarrow> agent_server \<Rightarrow> server_env \<Rightarrow> client_cert option \<Rightarrow> string \<Rightarrow> erasure_shard option \<Rightarrow>
   's server_state \<Rightarrow> 's handled" where
  "erasureShard S srv en cert ident body sv = with_job S cert ident sv (\<lambda>j agent.
     if \<not> object_job j then (http_Error 403 (GoErr ''job may not mutate erasure shards''), sv)
     else (case body of
        None \<Rightarrow> (http_Error 400 (GoErr ''invalid JSON''), sv)
      | Some sh \<Rightarrow>
          store_do 409 (i_RecordErasureShard S (en_now en) (own_shard S srv agent (sv_store sv) sh) (sv_store sv)) sv (\<lambda>_. http_ok)))"

text \<open>\<^verbatim>\<open>config.Config{ControlPlane: config.ControlPlaneConfig{Workers: ..., Replication: ..., Storage: ...}}\<close>\<close>

definition server_config :: "agent_server \<Rightarrow> config" where
  "server_config srv = \<lparr>c_Workers = as_Worker srv,
     c_Scheduler = \<lparr>sd_Enabled = False, sd_Tick = DurBlank, sd_DiscoveryInterval = DurBlank, sd_DefaultInterval = DurBlank, sd_Policies = []\<rparr>,
     c_MirroringEnabled = False, c_AgentLabels = [], c_Replication = as_Replication srv, c_Storage = as_Storage srv,
     c_IncludeForks = False, c_IncludeArchived = False, c_BackupRoot = []\<rparr>"

definition corruptObject ::
  "'s store_iface \<Rightarrow> agent_server \<Rightarrow> server_env \<Rightarrow> client_cert option \<Rightarrow> string \<Rightarrow> string option \<Rightarrow> 's server_state \<Rightarrow> 's handled" where
  "corruptObject S srv en cert ident body sv = with_job S cert ident sv (\<lambda>j agent.
     if j_Kind j \<noteq> ''scrub-cas'' then (http_Error 403 (GoErr ''job may not report object corruption''), sv)
     else (case body of
        None \<Rightarrow> (http_Error 400 (GoErr ''invalid digest''), sv)
      | Some digest \<Rightarrow>
          if length (TrimSpace digest) \<noteq> 64 then (http_Error 400 (GoErr ''invalid digest''), sv)
          else
            let r = ScheduleDistributedRepair S (en_newID en) (server_config srv) (en_now en) agent (ToLower (TrimSpace digest))
                  \<lparr>rn_n = 0, rn_err = None, rn_ids = sv_ids sv, rn_st = sv_store sv\<rparr>;
                sv1 = sv\<lparr>sv_store := rn_st r, sv_ids := rn_ids r\<rparr>
            in (case rn_err r of Some e \<Rightarrow> (http_Error 409 e, sv1) | None \<Rightarrow> http_ok sv1)))"

end
