(* ===== verification/Agent_Transfer.thy ===== *)
theory Agent_Transfer
  imports Agent_Server
begin

text \<open>
  The transfer part of the agent API (\<^verbatim>\<open>internal/controlplane/agent_server.go\<close>): whole and chunked
  uploads into the spool directory, their status, finalisation with the queueing of the
  installation job, and the download by the target agent.  File writes are modelled at the offset
  the operating system uses: a file that is opened and not positioned is written from its start.
\<close>

record upload =
  up_Transfer :: string
  up_Data :: string
  up_Err :: "go_error option"
  up_OffsetHeader :: string
  up_HashHeader :: string

text \<open>\<^verbatim>\<open>io.Copy(w, io.LimitReader(body, limit))\<close>: the bytes copied and the error that stopped the copy.\<close>

definition copy_limited :: "int \<Rightarrow> upload \<Rightarrow> string \<times> go_error option" where
  "copy_limited limit u =
     (if int (length (up_Data u)) \<ge> limit then (take (nat limit) (up_Data u), None) else (up_Data u, up_Err u))"

text \<open>\<^verbatim>\<open>f.Write\<close> on a file just opened, and \<^verbatim>\<open>f.Truncate\<close>.\<close>

definition write_start :: "string \<Rightarrow> string \<Rightarrow> string" where
  "write_start d c = d @ drop (length d) c"

definition truncate_file :: "int \<Rightarrow> string \<Rightarrow> string" where
  "truncate_file n c = take (nat n) c @ replicate (nat n - length c) (CHR 0x00)"

text \<open>\<^verbatim>\<open>strconv.ParseInt(s, 10, 64)\<close>\<close>

definition ParseInt :: "string \<Rightarrow> int option" where
  "ParseInt s =
     (let neg = HasPrefix s ''-''; ds = (if neg \<or> HasPrefix s ''+'' then tl s else s);
          v = (if neg then - digits_val ds else digits_val ds)
      in if ds = [] \<or> (\<exists>c \<in> set ds. \<not> is_digit c) \<or> v < min_int64 \<or> v > max_int64 then None else Some v)"

abbreviation spool_root :: "agent_server \<Rightarrow> string" where
  "spool_root srv \<equiv> rc_SpoolRoot (as_Replication srv)"

definition part_path :: "agent_server \<Rightarrow> string \<Rightarrow> string" where
  "part_path srv transfer = replicationSpoolPath (spool_root srv) transfer @ ''.part''"

definition key_current :: "'s store_iface \<Rightarrow> server_env \<Rightarrow> string \<Rightarrow> string \<Rightarrow> 's \<Rightarrow> bool" where
  "key_current S en target pubkey st =
     (if target = LocalWorkerAffinity then
        (case en_EnsureKey en of Inl _ \<Rightarrow> False | Inr pub \<Rightarrow> pub = pubkey)
      else
        (case i_GetAgent S target st of
           Inl _ \<Rightarrow> False
         | Inr a \<Rightarrow> TrimSpace (a_ReplicationPublicKey a) \<noteq> [] \<and> a_ReplicationPublicKey a = pubkey))"

definition validateTransferTargetKey :: "'s store_iface \<Rightarrow> server_env \<Rightarrow> transfer_source_meta \<Rightarrow> 's \<Rightarrow> unit result" where
  "validateTransferTargetKey S en p st =
     (if key_current S en (tm_TargetAgent p) (tm_TargetReplicationPubKey p) st then Inr ()
      else Inl (GoErr ''target replication key is not current''))"

definition zero_transfer :: replication_transfer where
  "zero_transfer = \<lparr>t_ID = [], t_GenerationID = [], t_RepositoryID = [], t_SourceAgent = [], t_TargetAgent = [],
     t_SpoolPath = [], t_State = [], t_Bytes = 0, t_SHA256 = [], t_ExpiresAt = zero_time, t_UpdatedAt = zero_time\<rparr>"

section \<open>Uploading at once\<close>

definition max_upload :: "agent_server \<Rightarrow> int" where
  "max_upload srv = (if rc_MaxTransferBytes (as_Replication srv) \<le> 0 then 20 * 2 ^ 30 else rc_MaxTransferBytes (as_Replication srv))"

definition replicationUpload ::
  "'s store_iface \<Rightarrow> agent_server \<Rightarrow> server_env \<Rightarrow> client_cert option \<Rightarrow> string \<Rightarrow> upload \<Rightarrow> 's server_state \<Rightarrow> 's handled" where
  "replicationUpload S srv en cert ident u sv = with_job S cert ident sv (\<lambda>j agent.
     if j_Kind j \<noteq> ''replicate-generation'' then (http_Error 403 (GoErr ''job is not replication source''), sv)
     else (case unmarshal_replicate_generation (j_Payload j) of
        None \<Rightarrow> (http_Error 500 (GoErr ''invalid replication job''), sv)
      | Some p \<Rightarrow>
          let transfer = up_Transfer u in
          if transfer = [] \<or> transfer \<noteq> rg_TransferID p \<or> rg_SourceAgent p \<noteq> agent
          then (http_Error 409 (GoErr ''replication transfer identity mismatch''), sv)
          else if \<not> key_current S en (rg_TargetAgent p) (rg_TargetReplicationPubKey p) (sv_store sv)
          then (http_Error 409 (GoErr ''target replication key is not current''), sv)
          else
            let spool = replicationSpoolPath (spool_root srv) transfer; part = part_path srv transfer;
                mx = max_upload srv; (got, copyErr) = copy_limited (mx + 1) u; n = int (length got);
                dropped = sv\<lparr>sv_spool := gdel part (sv_spool sv)\<rparr>
            in (case copyErr of
                  Some e \<Rightarrow> (http_Error 400 e, dropped)
                | None \<Rightarrow>
                    if n > mx then (http_Error 413 (GoErr ''replication transfer exceeds maximum''), dropped)
                    else
                      let sv1 = sv\<lparr>sv_spool := gput spool got (gdel part (sv_spool sv))\<rparr>;
                          sha = en_sha en got;
                          install = \<lparr>ir_TransferID = transfer, ir_RepositoryID = rg_RepositoryID p, ir_Repository = rg_Repository p,
                            ir_GenerationID = rg_GenerationID p, ir_SourceAgent = agent, ir_TargetAgent = rg_TargetAgent p,
                            ir_CipherSHA256 = sha, ir_CipherBytes = n\<rparr>;
                          lease = zero_transfer\<lparr>t_ID := transfer, t_GenerationID := rg_GenerationID p, t_RepositoryID := rg_RepositoryID p,
                            t_SourceAgent := agent, t_TargetAgent := rg_TargetAgent p, t_SpoolPath := spool, t_State := TransferReady,
                            t_Bytes := n, t_SHA256 := sha, t_ExpiresAt := replicationTransferExpiry (as_Replication srv) (en_now en)\<rparr>
                      in (case i_RecordReplicationTransfer S (en_now en) lease (sv_store sv1) of
                            (Inl e, st) \<Rightarrow> (http_Error 500 e, sv1\<lparr>sv_store := st, sv_spool := gdel spool (sv_spool sv1)\<rparr>)
                          | (Inr _, st) \<Rightarrow>
                              store_do 500
                                (i_Enqueue S (en_now en) (en_newID en ''job'' (sv_ids sv))
                                  (mk_job ''install-replica'' (rg_GenerationID p @ ''@'' @ rg_TargetAgent p) (marshal_install_replica install)
                                    (rg_TargetAgent p) (j_Priority j) (wk_MaxAttempts (as_Worker srv)) (en_now en)) st)
                                (sv1\<lparr>sv_ids := sv_ids sv + 1\<rparr>) (\<lambda>_ sv2. ((reply 200)\<lparr>re_Payload := marshal_install_replica install\<rparr>, sv2))))))"

section \<open>Uploading in chunks\<close>

definition replicationUploadStatus ::
  "'s store_iface \<Rightarrow> agent_server \<Rightarrow> client_cert option \<Rightarrow> string \<Rightarrow> string \<Rightarrow> 's server_state \<Rightarrow> 's handled" where
  "replicationUploadStatus S srv cert ident transfer sv = with_job S cert ident sv (\<lambda>j agent.
     (case decodeTransferSourceJob j agent transfer of
        Inl e \<Rightarrow> (http_Error 409 e, sv)
      | Inr p \<Rightarrow>
          let size = (case gget (sv_spool sv) (part_path srv (tm_TransferID p)) of None \<Rightarrow> 0 | Some c \<Rightarrow> int (length c));
              receiving = (reply 204)\<lparr>re_Offset := Some size, re_State := TransferReceiving\<rparr>
          in (case i_GetReplicationTransfer S (tm_TransferID p) (sv_store sv) of
                Inl _ \<Rightarrow> (receiving, sv)
              | Inr t \<Rightarrow>
                  if t_SourceAgent t \<noteq> agent \<or> t_TargetAgent t \<noteq> tm_TargetAgent p \<or> t_GenerationID t \<noteq> tm_GenerationID p
                  then (http_Error 409 (GoErr ''replication transfer metadata mismatch''), sv)
                  else if t_State t = TransferReady
                  then ((reply 204)\<lparr>re_Offset := Some (t_Bytes t), re_State := TransferReady\<rparr>, sv)
                  else (receiving, sv))))"

definition chunk_max :: "agent_server \<Rightarrow> int" where
  "chunk_max srv = (if sc_ChunkBytes (as_Storage srv) \<le> 0 then 8 * 2 ^ 20 else sc_ChunkBytes (as_Storage srv))"

text \<open>What the handler does to the part file once the offset is accepted: the response or the size to record.\<close>

definition write_chunk :: "agent_server \<Rightarrow> (string \<Rightarrow> string) \<Rightarrow> int \<Rightarrow> string \<Rightarrow> upload \<Rightarrow> string \<Rightarrow> response option \<times> string \<times> int" where
  "write_chunk srv sha wantOffset wantHash u c =
     (let (got, err) = copy_limited (chunk_max srv + 1) u; n = int (length got); c1 = write_start got c;
          undo = truncate_file wantOffset c1; mx = rc_MaxTransferBytes (as_Replication srv)
      in (case err of
            Some e \<Rightarrow> (Some (http_Error 400 e), undo, n)
          | None \<Rightarrow>
              if n > chunk_max srv then (Some (http_Error 413 (GoErr ''replication chunk too large'')), undo, n)
              else if sha got \<noteq> wantHash then (Some (http_Error 422 (GoErr ''replication chunk hash mismatch'')), undo, n)
              else if mx > 0 \<and> wantOffset + n > mx
              then (Some (http_Error 413 (GoErr ''replication transfer exceeds maximum'')), undo, n)
              else (None, c1, n)))"

definition replicationUploadChunk ::
  "'s store_iface \<Rightarrow> agent_server \<Rightarrow> server_env \<Rightarrow> client_cert option \<Rightarrow> string \<Rightarrow> upload \<Rightarrow> 's server_state \<Rightarrow> 's handled" where
  "replicationUploadChunk S srv en cert ident u sv = with_job S cert ident sv (\<lambda>j agent.
     (case decodeTransferSourceJob j agent (up_Transfer u) of
        Inl e \<Rightarrow> (http_Error 409 e, sv)
      | Inr p \<Rightarrow>
        (case validateTransferTargetKey S en p (sv_store sv) of
           Inl e \<Rightarrow> (http_Error 409 e, sv)
         | Inr _ \<Rightarrow>
           (case ParseInt (TrimSpace (up_OffsetHeader u)) of
              None \<Rightarrow> (http_Error 400 (GoErr ''invalid X-RepoArk-Offset''), sv)
            | Some wantOffset \<Rightarrow>
                let wantHash = ToLower (TrimSpace (up_HashHeader u)); part = part_path srv (tm_TransferID p);
                    c = (case gget (sv_spool sv) part of None \<Rightarrow> [] | Some c \<Rightarrow> c)
                in if wantOffset < 0 then (http_Error 400 (GoErr ''invalid X-RepoArk-Offset''), sv)
                   else if length wantHash \<noteq> 64 then (http_Error 400 (GoErr ''X-RepoArk-Chunk-SHA256 required''), sv)
                   else if int (length c) \<noteq> wantOffset
                   then ((http_Error 409 (GoErr ''upload offset mismatch''))\<lparr>re_Offset := Some (int (length c))\<rparr>,
                         sv\<lparr>sv_spool := gput part c (sv_spool sv)\<rparr>)
                   else (case write_chunk srv (en_sha en) wantOffset wantHash u c of
                       (Some r, c1, _) \<Rightarrow> (r, sv\<lparr>sv_spool := gput part c1 (sv_spool sv)\<rparr>)
                     | (None, c1, n) \<Rightarrow>
                         store_do 500
                           (i_RecordReplicationTransfer S (en_now en) (zero_transfer\<lparr>t_ID := tm_TransferID p,
                              t_GenerationID := tm_GenerationID p, t_RepositoryID := tm_RepositoryID p, t_SourceAgent := agent,
                              t_TargetAgent := tm_TargetAgent p, t_SpoolPath := part, t_State := TransferReceiving,
                              t_Bytes := wantOffset + n, t_ExpiresAt := replicationTransferExpiry (as_Replication srv) (en_now en)\<rparr>)
                              (sv_store sv))
                           (sv\<lparr>sv_spool := gput part c1 (sv_spool sv)\<rparr>)
                           (\<lambda>_ sv1. ((reply 200)\<lparr>re_Offset := Some (wantOffset + n)\<rparr>, sv1)))))))"

section \<open>Finalisation\<close>

record finalize_request =
  fz_SHA256 :: string
  fz_Bytes :: int

definition hashFileSHA256 :: "server_env \<Rightarrow> (string, string) gomap \<Rightarrow> string \<Rightarrow> (string \<times> int) result" where
  "hashFileSHA256 en spool path = (case gget spool path of
     None \<Rightarrow> Inl (GoErr ''file does not exist'') | Some c \<Rightarrow> Inr (en_sha en c, int (length c)))"

definition install_job :: "agent_server \<Rightarrow> time \<Rightarrow> job \<Rightarrow> transfer_source_meta \<Rightarrow> string \<Rightarrow> int \<Rightarrow> job" where
  "install_job srv now src p sha n =
     (if tm_Kind p = ''replicate-cas'' then
        mk_job ''install-cas'' (''cas@'' @ tm_TargetAgent p @ ''@'' @ tm_TransferID p)
          (marshal_install_cas \<lparr>ic_TransferID = tm_TransferID p, ic_SourceAgent = tm_SourceAgent p, ic_TargetAgent = tm_TargetAgent p,
             ic_CipherSHA256 = sha, ic_CipherBytes = n,
             ic_Erasure = (case tm_CAS p of None \<Rightarrow> None | Some c \<Rightarrow> rca_Erasure c)\<rparr>)
          (tm_TargetAgent p) (j_Priority src) (wk_MaxAttempts (as_Worker srv)) now
      else
        mk_job ''install-replica'' (tm_GenerationID p @ ''@'' @ tm_TargetAgent p @ ''@'' @ tm_TransferID p)
          (marshal_install_replica \<lparr>ir_TransferID = tm_TransferID p, ir_RepositoryID = tm_RepositoryID p,
             ir_Repository = tm_Repository p, ir_GenerationID = tm_GenerationID p, ir_SourceAgent = tm_SourceAgent p,
             ir_TargetAgent = tm_TargetAgent p, ir_CipherSHA256 = sha, ir_CipherBytes = n\<rparr>)
          (tm_TargetAgent p) (j_Priority src) (wk_MaxAttempts (as_Worker srv)) now)"

definition enqueueTransferInstall ::
  "'s store_iface \<Rightarrow> agent_server \<Rightarrow> server_env \<Rightarrow> job \<Rightarrow> transfer_source_meta \<Rightarrow> string \<Rightarrow> int \<Rightarrow> bool \<Rightarrow>
   's server_state \<Rightarrow> 's handled" where
  "enqueueTransferInstall S srv en src p sha n record sv =
     (let queue = (\<lambda>_ sv1. store_do 500
            (i_Enqueue S (en_now en) (en_newID en ''job'' (sv_ids sv1)) (install_job srv (en_now en) src p sha n) (sv_store sv1))
            (sv1\<lparr>sv_ids := sv_ids sv1 + 1\<rparr>)
            (\<lambda>_ sv2. ((reply 200)\<lparr>re_Payload := j_Payload (install_job srv (en_now en) src p sha n)\<rparr>, sv2)))
      in if record then store_do 500
           (i_RecordReplicationTransfer S (en_now en) (zero_transfer\<lparr>t_ID := tm_TransferID p, t_GenerationID := tm_GenerationID p,
              t_RepositoryID := tm_RepositoryID p, t_SourceAgent := tm_SourceAgent p, t_TargetAgent := tm_TargetAgent p,
              t_SpoolPath := replicationSpoolPath (spool_root srv) (tm_TransferID p), t_State := TransferReady, t_Bytes := n,
              t_SHA256 := sha, t_ExpiresAt := replicationTransferExpiry (as_Replication srv) (en_now en)\<rparr>) (sv_store sv)) sv queue
         else queue () sv)"

definition ready_transfer :: "'s store_iface \<Rightarrow> string \<Rightarrow> 's \<Rightarrow> replication_transfer option" where
  "ready_transfer S transfer st = (case i_GetReplicationTransfer S transfer st of
     Inl _ \<Rightarrow> None | Inr t \<Rightarrow> if t_State t = TransferReady then Some t else None)"

definition replicationUploadFinalize ::
  "'s store_iface \<Rightarrow> agent_server \<Rightarrow> server_env \<Rightarrow> client_cert option \<Rightarrow> string \<Rightarrow> string \<Rightarrow> finalize_request option \<Rightarrow>
   's server_state \<Rightarrow> 's handled" where
  "replicationUploadFinalize S srv en cert ident transfer body sv = with_job S cert ident sv (\<lambda>j agent.
     (case decodeTransferSourceJob j agent transfer of
        Inl e \<Rightarrow> (http_Error 409 e, sv)
      | Inr p \<Rightarrow>
        (case validateTransferTargetKey S en p (sv_store sv) of
           Inl e \<Rightarrow> (http_Error 409 e, sv)
         | Inr _ \<Rightarrow>
           (case body of
              None \<Rightarrow> (http_Error 400 (GoErr ''invalid finalize request''), sv)
            | Some req \<Rightarrow>
                let spool = replicationSpoolPath (spool_root srv) (tm_TransferID p); part = part_path srv (tm_TransferID p) in
                if fz_Bytes req < 0 \<or> length (TrimSpace (fz_SHA256 req)) \<noteq> 64
                then (http_Error 400 (GoErr ''invalid finalize request''), sv)
                else (case ready_transfer S (tm_TransferID p) (sv_store sv) of
                    Some t \<Rightarrow>
                      if t_SourceAgent t \<noteq> agent \<or> t_TargetAgent t \<noteq> tm_TargetAgent p \<or> t_GenerationID t \<noteq> tm_GenerationID p
                         \<or> t_RepositoryID t \<noteq> tm_RepositoryID p \<or> t_Bytes t \<noteq> fz_Bytes req \<or> \<not> EqualFold (t_SHA256 t) (fz_SHA256 req)
                      then (http_Error 409 (GoErr ''replication transfer metadata mismatch''), sv)
                      else enqueueTransferInstall S srv en j p (ToLower (fz_SHA256 req)) (fz_Bytes req) False sv
                  | None \<Rightarrow>
                      (case hashFileSHA256 en (sv_spool sv) part of
                         Inl e \<Rightarrow> (http_Error 404 e, sv)
                       | Inr (got, n) \<Rightarrow>
                           if n \<noteq> fz_Bytes req \<or> \<not> EqualFold got (fz_SHA256 req)
                           then (http_Error 422 (GoErr ''replication final checksum/size mismatch''), sv)
                           else
                             let c = the (gget (sv_spool sv) part);
                                 sv1 = sv\<lparr>sv_spool := gput spool c (gdel part (sv_spool sv))\<rparr>
                             in enqueueTransferInstall S srv en j p (ToLower (fz_SHA256 req)) n True sv1))))))"

section \<open>Download\<close>

text \<open>The transfer an installation job asks for: generation, repository, hash and size.\<close>

definition install_expectation :: "job \<Rightarrow> string \<Rightarrow> string \<Rightarrow> (response + (string \<times> string \<times> string \<times> string \<times> int))" where
  "install_expectation j agent transfer =
     (if j_Kind j = ''install-replica'' then
        (case unmarshal_install_replica (j_Payload j) of
           None \<Rightarrow> Inl (http_Error 500 (GoErr ''invalid install job''))
         | Some p \<Rightarrow>
             if transfer = [] \<or> transfer \<noteq> ir_TransferID p \<or> ir_TargetAgent p \<noteq> agent
             then Inl (http_Error 409 (GoErr ''replication transfer identity mismatch''))
             else Inr (ir_TargetAgent p, ir_GenerationID p, ir_RepositoryID p, ir_CipherSHA256 p, ir_CipherBytes p))
      else if j_Kind j = ''install-cas'' then
        (case unmarshal_install_cas (j_Payload j) of
           None \<Rightarrow> Inl (http_Error 500 (GoErr ''invalid CAS install job''))
         | Some p \<Rightarrow>
             if transfer = [] \<or> transfer \<noteq> ic_TransferID p \<or> ic_TargetAgent p \<noteq> agent
             then Inl (http_Error 409 (GoErr ''CAS transfer identity mismatch''))
             else Inr (ic_TargetAgent p, ''cas:'' @ ic_SourceAgent p @ ''>'' @ ic_TargetAgent p, ''__cas__'',
                       ic_CipherSHA256 p, ic_CipherBytes p))
      else Inl (http_Error 403 (GoErr ''job is not transfer installation'')))"

definition replicationDownload ::
  "'s store_iface \<Rightarrow> agent_server \<Rightarrow> server_env \<Rightarrow> client_cert option \<Rightarrow> string \<Rightarrow> string \<Rightarrow> 's server_state \<Rightarrow> 's handled" where
  "replicationDownload S srv en cert ident transfer sv = with_job S cert ident sv (\<lambda>j agent.
     (case install_expectation j agent transfer of
        Inl r \<Rightarrow> (r, sv)
      | Inr (target, generationID, repositoryID, sha, bytesN) \<Rightarrow>
          (case i_GetReplicationTransfer S transfer (sv_store sv) of
             Inl _ \<Rightarrow> (http_Error 404 (GoErr ''replication transfer unavailable''), sv)
           | Inr t \<Rightarrow>
               if \<not> IsZero (t_ExpiresAt t) \<and> \<not> t_ExpiresAt t > en_now en
               then (http_Error 410 (GoErr ''replication transfer expired''), sv)
               else if t_TargetAgent t \<noteq> target \<or> t_GenerationID t \<noteq> generationID \<or> t_RepositoryID t \<noteq> repositoryID
                 \<or> t_SHA256 t \<noteq> sha \<or> t_Bytes t \<noteq> bytesN
               then (http_Error 409 (GoErr ''replication transfer metadata mismatch''), sv)
               else (case gget (sv_spool sv) (replicationSpoolPath (spool_root srv) transfer) of
                   None \<Rightarrow> (http_Error 404 (GoErr ''replication blob unavailable''), sv)
                 | Some c \<Rightarrow>
                     if bytesN > 0 \<and> int (length c) \<noteq> bytesN
                     then (http_Error 409 (GoErr ''replication blob size mismatch''), sv)
                     else ((reply 200)\<lparr>re_Body := c\<rparr>, sv)))))"

section \<open>All requests\<close>

datatype agent_request =
  ReqHeartbeat heartbeat_request
| ReqLease
| ReqComplete string
| ReqFail string "string option"
| ReqGeneration string "generation option"
| ReqBackupResult string "backup_result option"
| ReqEnqueue string "job option"
| ReqReplica string "generation_replica option"
| ReqObjectRef string "object_ref_request option"
| ReqErasureSet string "erasure_set option"
| ReqErasureShard string "erasure_shard option"
| ReqCorruptObject string "string option"
| ReqUpload string upload
| ReqUploadStatus string string
| ReqUploadChunk string upload
| ReqFinalize string string "finalize_request option"
| ReqDownload string string
| ReqHealth

fun serve ::
  "'s store_iface \<Rightarrow> agent_server \<Rightarrow> server_env \<Rightarrow> client_cert option \<Rightarrow> agent_request \<Rightarrow> 's server_state \<Rightarrow> 's handled" where
  "serve S srv en cert (ReqHeartbeat req) sv = heartbeat S en cert req sv"
| "serve S srv en cert ReqLease sv = lease_jobs S srv en cert sv"
| "serve S srv en cert (ReqComplete i) sv = complete S srv en cert i sv"
| "serve S srv en cert (ReqFail i b) sv = fail_job S en cert i b sv"
| "serve S srv en cert (ReqGeneration i b) sv = generation_report S srv cert i b sv"
| "serve S srv en cert (ReqBackupResult i b) sv = backupResult S en cert i b sv"
| "serve S srv en cert (ReqEnqueue i b) sv = enqueue_child S en cert i b sv"
| "serve S srv en cert (ReqReplica i b) sv = replica S srv en cert i b sv"
| "serve S srv en cert (ReqObjectRef i b) sv = objectRef S en cert i b sv"
| "serve S srv en cert (ReqErasureSet i b) sv = erasureSet S en cert i b sv"
| "serve S srv en cert (ReqErasureShard i b) sv = erasureShard S srv en cert i b sv"
| "serve S srv en cert (ReqCorruptObject i b) sv = corruptObject S srv en cert i b sv"
| "serve S srv en cert (ReqUpload i u) sv = replicationUpload S srv en cert i u sv"
| "serve S srv en cert (ReqUploadStatus i tr) sv = replicationUploadStatus S srv cert i tr sv"
| "serve S srv en cert (ReqUploadChunk i u) sv = replicationUploadChunk S srv en cert i u sv"
| "serve S srv en cert (ReqFinalize i tr b) sv = replicationUploadFinalize S srv en cert i tr b sv"
| "serve S srv en cert (ReqDownload i tr) sv = replicationDownload S srv en cert i tr sv"
| "serve S srv en cert ReqHealth sv = http_ok sv"

text \<open>The job a request is about; the others are not bound to a job.\<close>

fun request_job :: "agent_request \<Rightarrow> string option" where
  "request_job (ReqHeartbeat req) = None"
| "request_job ReqLease = None"
| "request_job ReqHealth = None"
| "request_job (ReqComplete i) = Some i"
| "request_job (ReqFail i b) = Some i"
| "request_job (ReqGeneration i b) = Some i"
| "request_job (ReqBackupResult i b) = Some i"
| "request_job (ReqEnqueue i b) = Some i"
| "request_job (ReqReplica i b) = Some i"
| "request_job (ReqObjectRef i b) = Some i"
| "request_job (ReqErasureSet i b) = Some i"
| "request_job (ReqErasureShard i b) = Some i"
| "request_job (ReqCorruptObject i b) = Some i"
| "request_job (ReqUpload i u) = Some i"
| "request_job (ReqUploadStatus i tr) = Some i"
| "request_job (ReqUploadChunk i u) = Some i"
| "request_job (ReqFinalize i tr b) = Some i"
| "request_job (ReqDownload i tr) = Some i"

end
