(* ===== verification/Agent_Confinement.thy ===== *)
theory Agent_Confinement
  imports Agent_Transfer Store_Properties Replication_Properties
begin

text \<open>
  What an agent can do through the API: locales for the store operations the handlers call, with a
  relation \<open>R\<close> that bounds what a request of an agent may change, the proof that every request stays
  within it, and the SQL store's instance: leases of other agents, their shards, their replicas and
  their registrations are out of reach.
\<close>

locale agent_ops =
  fixes S :: "'s store_iface" and wf :: "'s \<Rightarrow> bool" and R :: "string \<Rightarrow> time \<Rightarrow> 's \<Rightarrow> 's \<Rightarrow> bool"
  assumes R_refl: "R a now s s"
    and R_trans: "R a now s s1 \<Longrightarrow> R a now s1 s2 \<Longrightarrow> R a now s s2"
    and R_heartbeat: "a \<noteq> [] \<Longrightarrow> a_ID x = a \<Longrightarrow> R a now s (snd (i_HeartbeatAgent S now x s))"
    and R_lease: "wf s \<Longrightarrow> a \<noteq> [] \<Longrightarrow> R a now s (snd (i_Lease S now a n d s))"
    and R_complete: "wf s \<Longrightarrow> a \<noteq> [] \<Longrightarrow> R a now s (snd (i_Complete S now i a s))"
    and R_fail: "wf s \<Longrightarrow> a \<noteq> [] \<Longrightarrow> R a now s (snd (i_Fail S now i a detail retry s))"
    and R_enqueue: "R a now s (snd (i_Enqueue S now nid j s))"
    and R_generation: "R a now s (snd (i_RecordGeneration S g s))"
    and R_prune: "R a now s (snd (i_PruneGenerationRecords S i keep s))"
    and R_result: "R a now s (snd (i_MarkBackupResult S now i b gid t s))"
    and R_replica: "rp_AgentID rp = a \<Longrightarrow> R a now s (snd (i_RecordReplica S now rp s))"
    and R_adjust: "R a now s (snd (i_AdjustObjectRef S now ref delta s))"
    and R_ensure: "R a now s (snd (i_EnsureObjectRef S now ref owner s))"
    and R_acquire: "R a now s (snd (i_AcquireObjectLease S now nid l s))"
    and R_release: "R a now s (snd (i_ReleaseObjectLease S i s))"
    and R_set: "R a now s (snd (i_RecordErasureSet S now e s))"
    and R_shard: "sh_AgentID sh = a \<Longrightarrow> R a now s (snd (i_RecordErasureShard S now sh s))"
begin

lemma authorized:
  "authorizeRunningJob S cert i s = Inr (j, agent) \<Longrightarrow> agent = agentIdentity cert \<and> agent \<noteq> []"
  by (auto simp: authorizeRunningJob_def Let_def split: if_splits sum.splits)

text \<open>The two combinators of the handlers keep within \<open>R\<close>.\<close>

lemma with_job_R:
  assumes "\<And>j. agentIdentity cert \<noteq> [] \<Longrightarrow> R (agentIdentity cert) now s (sv_store (snd (k j (agentIdentity cert))))"
    and "R (agentIdentity cert) now s (sv_store sv)"
  shows "R (agentIdentity cert) now s (sv_store (snd (with_job S cert i sv k)))"
proof (cases "authorizeRunningJob S cert i (sv_store sv)")
  case (Inr p)
  obtain j agent where p: "p = (j, agent)" by fastforce
  with Inr have "agent = agentIdentity cert" "agentIdentity cert \<noteq> []"
    using authorized [of cert i "sv_store sv" j agent] by auto
  with Inr p assms(1) show ?thesis by (simp add: with_job_def)
qed (simp add: with_job_def assms(2))

lemma store_do_R:
  assumes "R a now s (snd out)"
    and "\<And>x sv1. sv_store sv1 = snd out \<Longrightarrow> R a now s (sv_store (snd (k x sv1)))"
  shows "R a now s (sv_store (snd (store_do code out sv k)))"
  using assms by (cases out; cases "fst out") (auto simp: store_do_def)

lemma http_ok_snd [simp]: "snd (http_ok sv) = sv"
  by (simp add: http_ok_def)

lemma queue_job_R:
  assumes "R a now s (rn_st r)"
  shows "R a now s (rn_st (queue_job S newID now j r))"
proof -
  have "rn_st (queue_job S newID now j r) = snd (i_Enqueue S now (newID ''job'' (rn_ids r)) j (rn_st r))"
    by (auto simp: queue_job_def split: sum.splits prod.splits)
  with R_trans [OF assms R_enqueue] show ?thesis by simp
qed

lemma lease_then_queue_R:
  assumes "R a now s (rn_st r)"
  shows "R a now s (rn_st (lease_then_queue S newID c now p q owner mk digest r))"
proof -
  let ?l = "\<lparr>ol_ID = q @ newID p (rn_ids r), ol_Digest = digest, ol_Owner = owner,
    ol_ExpiresAt = now + transfer_ttl (c_Replication c), ol_UpdatedAt = zero_time\<rparr>"
  obtain out st where o: "i_AcquireObjectLease S now [] ?l (rn_st r) = (out, st)" by fastforce
  have "R a now s st" using R_trans [OF assms R_acquire [of a now "rn_st r" "[]" ?l]] o by simp
  then show ?thesis using o by (cases out) (auto simp: lease_then_queue_def Let_def intro!: queue_job_R)
qed

lemma repair_loop_R:
  "R a now s (rn_st r) \<Longrightarrow>
   R a now s (rn_st (snd (repair_loop S newID c now online target digest need shards idxs chosen r)))"
proof (induction idxs arbitrary: chosen r)
  case (Cons idx idxs)
  then show ?case
    by (auto simp: Let_def lease_then_queue_R split: option.splits)
qed simp

lemma ScheduleDistributedRepair_R:
  assumes "R a now s (rn_st r)"
  shows "R a now s (rn_st (ScheduleDistributedRepair S newID c now target digest r))"
  using assms repair_loop_R [OF assms]
  by (auto simp: ScheduleDistributedRepair_def Let_def intro: queue_job_R split: sum.splits option.splits)

text \<open>The requests that do not touch transfers.\<close>

lemma jobs_R:
  assumes "wf (sv_store sv)" "a = agentIdentity cert" "now = en_now en"
  shows "R a now (sv_store sv) (sv_store (snd (heartbeat S en cert hb sv)))"
    "R a now (sv_store sv) (sv_store (snd (lease_jobs S srv en cert sv)))"
    "R a now (sv_store sv) (sv_store (snd (fail_job S en cert i detail sv)))"
    "R a now (sv_store sv) (sv_store (snd (enqueue_child S en cert i child sv)))"
proof -
  show "R a now (sv_store sv) (sv_store (snd (heartbeat S en cert hb sv)))"
    unfolding assms by (auto simp: heartbeat_def Let_def R_refl heartbeat_agent_def intro!: store_do_R R_heartbeat)
  show "R a now (sv_store sv) (sv_store (snd (lease_jobs S srv en cert sv)))"
    unfolding assms by (auto simp: lease_jobs_def Let_def R_refl assms intro!: store_do_R R_lease)
  show "R a now (sv_store sv) (sv_store (snd (fail_job S en cert i detail sv)))"
    unfolding assms fail_job_def
    by (rule with_job_R) (auto simp: R_refl assms intro!: store_do_R R_fail split: option.splits)
  show "R a now (sv_store sv) (sv_store (snd (enqueue_child S en cert i child sv)))"
    unfolding assms enqueue_child_def
    by (rule with_job_R) (auto simp: R_refl assms intro!: store_do_R R_enqueue split: option.splits)
qed

lemma reports_R:
  assumes "a = agentIdentity cert" "now = en_now en"
  shows "R a now (sv_store sv) (sv_store (snd (generation_report S srv cert i g sv)))"
    "R a now (sv_store sv) (sv_store (snd (backupResult S en cert i br sv)))"
    "R a now (sv_store sv) (sv_store (snd (objectRef S en cert i oq sv)))"
    "R a now (sv_store sv) (sv_store (snd (erasureSet S en cert i es sv)))"
    "R a now (sv_store sv) (sv_store (snd (erasureShard S srv en cert i sh sv)))"
    "R a now (sv_store sv) (sv_store (snd (corruptObject S srv en cert i d sv)))"
proof -
  have pruned: "R x now s (snd (i_PruneGenerationRecords S r k (snd (i_RecordGeneration S y s))))" for x now s r k y
    by (rule R_trans [OF R_generation R_prune])
  show "R a now (sv_store sv) (sv_store (snd (generation_report S srv cert i g sv)))"
    unfolding assms generation_report_def
    by (rule with_job_R) (auto simp: R_refl pruned intro!: store_do_R R_generation split: option.splits sum.splits)
  show "R a now (sv_store sv) (sv_store (snd (backupResult S en cert i br sv)))"
    unfolding assms backupResult_def
    by (rule with_job_R) (auto simp: R_refl intro!: store_do_R R_result split: option.splits sum.splits)
  show "R a now (sv_store sv) (sv_store (snd (objectRef S en cert i oq sv)))"
    unfolding assms objectRef_def
    by (rule with_job_R) (auto simp: R_refl intro!: store_do_R R_ensure R_adjust split: option.splits)
  show "R a now (sv_store sv) (sv_store (snd (erasureSet S en cert i es sv)))"
    unfolding assms erasureSet_def
    by (rule with_job_R) (auto simp: R_refl intro!: store_do_R R_set split: option.splits)
  have own: "sh_AgentID (own_shard S srv x st y) = x" for st x y by (auto simp: own_shard_def Let_def split: sum.splits)
  show "R a now (sv_store sv) (sv_store (snd (erasureShard S srv en cert i sh sv)))"
    unfolding assms erasureShard_def
    by (rule with_job_R) (auto simp: R_refl own intro!: store_do_R R_shard split: option.splits)
  show "R a now (sv_store sv) (sv_store (snd (corruptObject S srv en cert i d sv)))"
    unfolding assms corruptObject_def Let_def
    by (rule with_job_R) (auto simp: R_refl intro!: ScheduleDistributedRepair_R split: option.splits)
qed

end

text \<open>With the operations on transfers every request is covered.\<close>

locale agent_backend = agent_ops S wf R
  for S :: "'s store_iface" and wf :: "'s \<Rightarrow> bool" and R :: "string \<Rightarrow> time \<Rightarrow> 's \<Rightarrow> 's \<Rightarrow> bool" +
  assumes R_transfer: "R a now s (snd (i_RecordReplicationTransfer S now tr s))"
    and R_delete: "R a now s (snd (i_DeleteReplicationTransfer S i s))"
begin

lemma drop_transfer_R: "R a now s (sv_store sv) \<Longrightarrow> R a now s (sv_store (drop_transfer S srv tr sv))"
  by (auto simp: drop_transfer_def intro: R_trans R_delete)

lemma enqueueTransferInstall_R:
  assumes "R a (en_now en) s (sv_store sv)"
  shows "R a (en_now en) s (sv_store (snd (enqueueTransferInstall S srv en j p sha n rec sv)))"
proof -
  have q: "R a (en_now en) s (sv_store (snd (store_do 500 (i_Enqueue S (en_now en) nid x (sv_store sv1)) sv2 (\<lambda>_ sv3. (resp, sv3)))))"
    if "R a (en_now en) s (sv_store sv1)" for sv1 sv2 :: "'s server_state" and nid x resp
    by (rule store_do_R) (use that in \<open>auto intro: R_trans R_enqueue\<close>)
  show ?thesis
    unfolding enqueueTransferInstall_def Let_def
    by (auto intro!: store_do_R q R_trans [OF assms R_transfer] simp: assms)
qed

lemma installs_R:
  assumes "wf (sv_store sv)" "a = agentIdentity cert" "now = en_now en"
  shows "R a now (sv_store sv) (sv_store (snd (complete S srv en cert i sv)))"
    "R a now (sv_store sv) (sv_store (snd (replica S srv en cert i rp sv)))"
proof -
  show "R a now (sv_store sv) (sv_store (snd (complete S srv en cert i sv)))"
    unfolding assms complete_def
    by (rule with_job_R, rule store_do_R)
      (auto simp: R_refl assms Let_def intro!: R_complete drop_transfer_R R_trans [OF drop_transfer_R R_release]
        split: option.splits)
  have own: "rp_AgentID (own_replica t x r) = x" for t x r by (simp add: own_replica_def Let_def)
  show "R a now (sv_store sv) (sv_store (snd (replica S srv en cert i rp sv)))"
    unfolding assms replica_def Let_def
    by (rule with_job_R) (auto simp: R_refl own intro!: store_do_R R_replica drop_transfer_R split: option.splits sum.splits)
qed

lemma transfers_R:
  assumes "a = agentIdentity cert" "now = en_now en"
  shows "R a now (sv_store sv) (sv_store (snd (replicationUpload S srv en cert i u sv)))"
    "R a now (sv_store sv) (sv_store (snd (replicationUploadStatus S srv cert i tr sv)))"
    "R a now (sv_store sv) (sv_store (snd (replicationUploadChunk S srv en cert i u sv)))"
    "R a now (sv_store sv) (sv_store (snd (replicationUploadFinalize S srv en cert i tr fz sv)))"
    "R a now (sv_store sv) (sv_store (snd (replicationDownload S srv en cert i tr sv)))"
proof -
  have rec: "R x t s st" if "i_RecordReplicationTransfer S t y s = (out, st)" for x t s y out st
    using R_transfer [of x t s y] that by simp
  show "R a now (sv_store sv) (sv_store (snd (replicationUpload S srv en cert i u sv)))"
    unfolding assms replicationUpload_def Let_def
    by (rule with_job_R) (auto simp: R_refl intro!: store_do_R intro: rec R_trans [OF rec R_enqueue]
        split: option.splits sum.splits prod.splits)
  show "R a now (sv_store sv) (sv_store (snd (replicationUploadStatus S srv cert i tr sv)))"
    unfolding assms replicationUploadStatus_def Let_def
    by (rule with_job_R) (auto simp: R_refl split: option.splits sum.splits)
  show "R a now (sv_store sv) (sv_store (snd (replicationUploadChunk S srv en cert i u sv)))"
    unfolding assms replicationUploadChunk_def Let_def
    by (rule with_job_R) (auto simp: R_refl intro!: store_do_R R_transfer split: option.splits sum.splits prod.splits)
  show "R a now (sv_store sv) (sv_store (snd (replicationUploadFinalize S srv en cert i tr fz sv)))"
    unfolding assms replicationUploadFinalize_def Let_def
    by (rule with_job_R) (auto simp: R_refl intro!: enqueueTransferInstall_R split: option.splits sum.splits prod.splits)
  show "R a now (sv_store sv) (sv_store (snd (replicationDownload S srv en cert i tr sv)))"
    unfolding assms replicationDownload_def
    by (rule with_job_R) (auto simp: R_refl split: option.splits sum.splits prod.splits)
qed

lemma serve_R:
  assumes "wf (sv_store sv)"
  shows "R (agentIdentity cert) (en_now en) (sv_store sv) (sv_store (snd (serve S srv en cert q sv)))"
  by (cases q) (simp_all add: jobs_R [OF assms] installs_R [OF assms] reports_R transfers_R R_refl)

end

text \<open>Whoever does not hold the job a request names is turned away and changes nothing.\<close>

lemma serve_unauthorized:
  assumes "request_job q = Some i" "authorizeRunningJob S cert i (sv_store sv) = Inl e"
  shows "serve S srv en cert q sv = (http_Error 403 e, sv)"
  using assms by (cases q)
    (simp_all add: with_job_def complete_def fail_job_def generation_report_def backupResult_def enqueue_child_def replica_def
      objectRef_def erasureSet_def erasureShard_def corruptObject_def replicationUpload_def replicationUploadStatus_def
      replicationUploadChunk_def replicationUploadFinalize_def replicationDownload_def)

lemma serve_anonymous:
  assumes "agentIdentity cert = []"
  shows "snd (serve S srv en cert q sv) = sv"
proof (cases "request_job q")
  case None
  with assms show ?thesis by (cases q) (simp_all add: heartbeat_def lease_jobs_def http_ok_def Let_def)
next
  case (Some i)
  have "authorizeRunningJob S cert i (sv_store sv) = Inl (GoErr ''client certificate identity missing'')"
    using assms by (simp add: authorizeRunningJob_def)
  from serve_unauthorized [OF Some this] show ?thesis by simp
qed

section \<open>The SQL store\<close>

text \<open>
  What a request of agent \<open>a\<close> at time \<open>now\<close> leaves alone: jobs that another agent holds under an
  unexpired lease, the erasure shards and the registrations of other agents; replicas of other agents
  can go (with a generation that is pruned) but neither appear nor change.
\<close>

definition sql_confined :: "string \<Rightarrow> time \<Rightarrow> database \<Rightarrow> database \<Rightarrow> bool" where
  "sql_confined a now s s' =
     ((\<forall>k j. gget (d_jobs s) k = Some j \<longrightarrow> j_Status j = JobRunning \<longrightarrow> j_LeaseOwner j \<noteq> a \<longrightarrow> now < j_LeaseUntil j \<longrightarrow>
         gget (d_jobs s') k = Some j)
      \<and> (\<forall>obj idx b. b \<noteq> a \<longrightarrow> gget (d_erasure_shards s') (obj, idx, b) = gget (d_erasure_shards s) (obj, idx, b))
      \<and> (\<forall>g b x. b \<noteq> a \<longrightarrow> ((g, b), x) \<in> set (d_generation_replicas s') \<longrightarrow> ((g, b), x) \<in> set (d_generation_replicas s))
      \<and> (\<forall>b. b \<noteq> a \<longrightarrow> gget (d_agents s') b = gget (d_agents s) b))"

lemma confined_same:
  "d_jobs s' = d_jobs s \<Longrightarrow> d_erasure_shards s' = d_erasure_shards s \<Longrightarrow>
   d_generation_replicas s' = d_generation_replicas s \<Longrightarrow> d_agents s' = d_agents s \<Longrightarrow> sql_confined a now s s'"
  by (simp add: sql_confined_def)

lemma confined_queue:
  assumes "sql_wf s" "op_pre q (d_jobs s)" "op_time q = now" "op_by q \<in> {None, Some a}" "s' = snd (sql_step q s)"
    and "d_erasure_shards s' = d_erasure_shards s" "d_generation_replicas s' = d_generation_replicas s" "d_agents s' = d_agents s"
  shows "sql_confined a now s s'"
proof -
  have "gget (d_jobs s') k = Some j"
    if "gget (d_jobs s) k = Some j" "j_Status j = JobRunning" "j_LeaseOwner j \<noteq> a" "now < j_LeaseUntil j" for k j
  proof -
    have "job_trans q k (Some j) (gget (d_jobs s') k)" using sql_step_trans [OF assms(1,2), of k] that(1) assms(5) by simp
    moreover have "holds_lease (j_LeaseOwner j) (j_LeaseUntil j) j" using that by (simp add: holds_lease_def)
    ultimately show ?thesis using that assms(3,4) by (intro job_trans_lease_kept) auto
  qed
  with assms(6-8) show ?thesis by (simp add: sql_confined_def)
qed

lemma sql_Enqueue_keeps:
  "gget (d_jobs s) k = Some j \<Longrightarrow> gget (d_jobs (snd (sql_Enqueue id_env id_env id_env now nid x s))) k = Some j"
  by (auto simp: sql_Enqueue_def insert_job_def id_env_def Let_def split: option.splits)

lemma in_set_gput: "(k', x) \<in> set (gput k v m) \<Longrightarrow> k' = k \<or> (k', x) \<in> set m"
  by (induction m) (auto split: if_splits)

lemma prune_other_tables:
  "d_jobs (fold delete_generation ids s) = d_jobs s" "d_erasure_shards (fold delete_generation ids s) = d_erasure_shards s"
  "d_agents (fold delete_generation ids s) = d_agents s"
  by (induction ids arbitrary: s) (simp_all add: delete_generation_def)

lemmas sql_tables = sql_Lease_def sql_Complete_def sql_Fail_def sql_Enqueue_def insert_job_def sql_RecordGeneration_def
  sql_MarkBackupResult_def sql_RecordReplicationTransfer_def sql_DeleteReplicationTransfer_def sql_AdjustObjectRef_def
  sql_EnsureObjectRef_def sql_AcquireObjectLease_def sql_ReleaseObjectLease_def sql_RecordErasureSet_def id_env_def Let_def
  update_approval_def

interpretation sb: agent_backend "sql_iface repo_id" sql_wf sql_confined for repo_id
proof unfold_locales
  fix a now and s s1 s2 :: database
  show "sql_confined a now s s" by (simp add: confined_same)
  show "sql_confined a now s s1 \<Longrightarrow> sql_confined a now s1 s2 \<Longrightarrow> sql_confined a now s s2"
    by (simp add: sql_confined_def)
next
  fix a now s and x :: agent assume "a \<noteq> []" "a_ID x = a"
  then show "sql_confined a now s (snd (i_HeartbeatAgent (sql_iface repo_id) now x s))"
    by (auto simp: sql_confined_def sql_iface_def sql_HeartbeatAgent_def Let_def)
next
  fix a :: string and now :: time and s :: database and n d assume "sql_wf s" "a \<noteq> []"
  then show "sql_confined a now s (snd (i_Lease (sql_iface repo_id) now a n d s))"
    by (intro confined_queue [of s "OpLease now a n d"]) (auto simp: sql_iface_def sql_Lease_def Let_def)
next
  fix a :: string and now :: time and s :: database and i assume "sql_wf s" "a \<noteq> []"
  then show "sql_confined a now s (snd (i_Complete (sql_iface repo_id) now i a s))"
    by (intro confined_queue [of s "OpComplete now i a"])
      (auto simp: sql_iface_def sql_Complete_def update_approval_def Let_def split: option.splits if_splits)
next
  fix a :: string and now :: time and s :: database and i detail retry assume "sql_wf s" "a \<noteq> []"
  then show "sql_confined a now s (snd (i_Fail (sql_iface repo_id) now i a detail retry s))"
    by (intro confined_queue [of s "OpFail now i a detail retry"])
      (auto simp: sql_iface_def sql_Fail_def id_env_def Let_def split: option.splits if_splits)
next
  fix a now s nid j
  have "d_erasure_shards s' = d_erasure_shards s \<and> d_generation_replicas s' = d_generation_replicas s \<and> d_agents s' = d_agents s"
    if "s' = snd (sql_Enqueue id_env id_env id_env now nid j s)" for s'
    using that by (auto simp: sql_Enqueue_def insert_job_def id_env_def Let_def split: option.splits if_splits)
  then show "sql_confined a now s (snd (i_Enqueue (sql_iface repo_id) now nid j s))"
    by (simp add: sql_confined_def sql_iface_def sql_Enqueue_keeps)
next
  fix a now s i keep
  show "sql_confined a now s (snd (i_PruneGenerationRecords (sql_iface repo_id) i keep s))"
    by (auto simp: sql_confined_def sql_iface_def sql_PruneGenerationRecords_def Let_def prune_other_tables replicas_fold_delete_generation)
next
  fix a now s and rp :: generation_replica assume "rp_AgentID rp = a"
  then show "sql_confined a now s (snd (i_RecordReplica (sql_iface repo_id) now rp s))"
    by (auto simp: sql_confined_def sql_iface_def sql_RecordReplica_def Let_def dest!: in_set_gput)
next
  fix a now s and sh :: erasure_shard assume "sh_AgentID sh = a"
  then show "sql_confined a now s (snd (i_RecordErasureShard (sql_iface repo_id) now sh s))"
    by (auto simp: sql_confined_def sql_iface_def sql_RecordErasureShard_def Let_def)
qed (auto simp: sql_iface_def sql_tables intro!: confined_same split: option.splits if_splits)


definition sample_server :: agent_server where
  "sample_server = \<lparr>as_Worker = \<lparr>wk_Concurrency = 1, wk_PollInterval = DurBad, wk_Lease = DurBad, wk_MaxAttempts = 5\<rparr>,
     as_KeepPerRepo = 0, as_Replication = sample_replication, as_Storage = sample_storage\<rparr>"

definition sample_env :: server_env where
  "sample_env = \<lparr>en_now = 30, en_newID = (\<lambda>p n. p @ replicate n (CHR ''x'')), en_sha = (\<lambda>c. replicate 64 (CHR ''a'')),
     en_EnsureKey = Inl (GoErr ''no key'')\<rparr>"

definition sample_cert :: client_cert where
  "sample_cert = \<lparr>cc_DNSNames = [], cc_CommonName = ''w2'', cc_Subject = ''CN=w2''\<rparr>"

text \<open>Agent \<open>w1\<close> holds job \<open>a\<close>; \<open>w2\<close> tries to complete it.\<close>

definition stolen_state :: "database server_state" where
  "stolen_state = \<lparr>sv_store = snd (sql_Lease 12 ''w1'' 1 60 sql1), sv_ids = 0, sv_spool = []\<rparr>"


end
