(* ===== verification/Agent_Integrity.thy ===== *)
theory Agent_Integrity
  imports Agent_Confinement
begin

text \<open>
  What the transfer endpoints guarantee about the bytes in the spool directory: a transfer recorded
  as ready has its file there with the recorded size and hash, through every request; a download
  delivers bytes with the size and hash of the installation job.
\<close>

section \<open>Spool paths\<close>

definition plain_id :: "string \<Rightarrow> bool" where
  "plain_id i = (map spool_char i = i)"

lemma join_with_snoc: "join_with c (cs @ [n]) = (if cs = [] then n else join_with c cs @ c # n)"
  by (induction c cs rule: join_with.induct) auto

lemma spool_path_shape:
  assumes "dir \<noteq> []"
  shows "\<exists>pre. \<forall>i. replicationSpoolPath dir i = pre @ map spool_char i @ ''.blob''"
proof -
  let ?cs = "path_comps dir"
  have "replicationSpoolPath dir i = (if is_abs dir then ''/'' else []) @ (if ?cs = [] then [] else join_with (CHR ''/'') ?cs @ ''/'')
      @ map spool_char i @ ''.blob''" for i
    using path_Join_plain [OF assms spool_name_plain [of i]]
    by (simp add: replicationSpoolPath_def path_render_def Let_def join_with_snoc)
  then show ?thesis by (metis append.assoc)
qed

lemma spool_path_inject:
  assumes "dir \<noteq> []" "plain_id i" "plain_id k"
  shows "replicationSpoolPath dir i = replicationSpoolPath dir k \<longleftrightarrow> i = k"
  using spool_path_shape [OF assms(1)] assms(2,3) by (auto simp: plain_id_def)

lemma spool_not_part:
  assumes "dir \<noteq> []"
  shows "replicationSpoolPath dir i \<noteq> replicationSpoolPath dir k @ ''.part''"
proof
  assume eq: "replicationSpoolPath dir i = replicationSpoolPath dir k @ ''.part''"
  obtain pre where "replicationSpoolPath dir i = pre @ map spool_char i @ ''.blob''"
    using spool_path_shape [OF assms] by blast
  with eq have "last (pre @ map spool_char i @ ''.blob'') = last (replicationSpoolPath dir k @ ''.part'')" by simp
  then show False by simp
qed

section \<open>The invariant\<close>

definition file_matches :: "(string \<Rightarrow> string) \<Rightarrow> agent_server \<Rightarrow> (string, string) gomap \<Rightarrow> string \<Rightarrow> replication_transfer \<Rightarrow> bool" where
  "file_matches sha srv spool i t =
     (if t_State t = TransferReady then
        plain_id i \<and> (\<exists>c. gget spool (replicationSpoolPath (spool_root srv) i) = Some c
          \<and> int (length c) = t_Bytes t \<and> EqualFold (sha c) (t_SHA256 t))
      else t_SHA256 t = [])"

definition spool_ok :: "(string \<Rightarrow> string) \<Rightarrow> agent_server \<Rightarrow> database server_state \<Rightarrow> bool" where
  "spool_ok sha srv sv = (\<forall>i t. gget (d_replication_transfers (sv_store sv)) i = Some t \<longrightarrow>
     file_matches sha srv (sv_spool sv) i t)"

text \<open>The transfer identifiers in the payloads of transfer jobs are made of letters, digits, dashes and underscores.\<close>

definition plain_transfer :: "job \<Rightarrow> bool" where
  "plain_transfer j =
     (case (if j_Kind j = ''replicate-generation'' then map_option rg_TransferID (unmarshal_replicate_generation (j_Payload j))
            else if j_Kind j = ''replicate-cas'' then map_option rca_TransferID (unmarshal_replicate_cas (j_Payload j))
            else if j_Kind j = ''install-replica'' then map_option ir_TransferID (unmarshal_install_replica (j_Payload j))
            else if j_Kind j = ''install-cas'' then map_option ic_TransferID (unmarshal_install_cas (j_Payload j))
            else None) of
        None \<Rightarrow> True
      | Some i \<Rightarrow> plain_id i)"

lemma file_matches_cong:
  "(plain_id i \<Longrightarrow> gget spool' (replicationSpoolPath (spool_root srv) i) = gget spool (replicationSpoolPath (spool_root srv) i)) \<Longrightarrow>
   file_matches sha srv spool' i t = file_matches sha srv spool i t"
  by (cases "plain_id i") (simp_all add: file_matches_def)

text \<open>Losing records and changing files of no recorded transfer keeps the invariant.\<close>

lemma spool_ok_less:
  assumes "spool_ok sha srv sv"
    and "\<And>i t. gget (d_replication_transfers (sv_store sv')) i = Some t \<Longrightarrow> gget (d_replication_transfers (sv_store sv)) i = Some t"
    and "\<And>i t. gget (d_replication_transfers (sv_store sv')) i = Some t \<Longrightarrow> plain_id i \<Longrightarrow>
      gget (sv_spool sv') (replicationSpoolPath (spool_root srv) i) = gget (sv_spool sv) (replicationSpoolPath (spool_root srv) i)"
  shows "spool_ok sha srv sv'"
  unfolding spool_ok_def
proof (intro allI impI)
  fix i t assume t: "gget (d_replication_transfers (sv_store sv')) i = Some t"
  with assms(1,2) have "file_matches sha srv (sv_spool sv) i t" by (simp add: spool_ok_def)
  then show "file_matches sha srv (sv_spool sv') i t" using file_matches_cong [OF assms(3) [OF t], of sha t] by simp
qed

lemma spool_ok_part:
  assumes "spool_ok sha srv sv" "spool_root srv \<noteq> []"
  shows "spool_ok sha srv (sv\<lparr>sv_spool := gput (part_path srv k) c (sv_spool sv)\<rparr>)"
    "spool_ok sha srv (sv\<lparr>sv_spool := gdel (part_path srv k) (sv_spool sv)\<rparr>)"
  by (rule spool_ok_less [OF assms(1)]; use spool_not_part [OF assms(2), of _ k] in \<open>simp add: part_path_def; metis\<close>)+

lemma spool_ok_drop:
  assumes "spool_ok sha srv sv" "spool_root srv \<noteq> []" "plain_id k"
  shows "spool_ok sha srv (drop_transfer (sql_iface f) srv k sv)"
proof (rule spool_ok_less [OF assms(1)])
  fix i t assume "gget (d_replication_transfers (sv_store (drop_transfer (sql_iface f) srv k sv))) i = Some t"
  then have i: "i \<noteq> k" "gget (d_replication_transfers (sv_store sv)) i = Some t"
    by (auto simp: drop_transfer_def sql_iface_def sql_DeleteReplicationTransfer_def split: if_splits)
  then show "gget (d_replication_transfers (sv_store sv)) i = Some t" by simp
  assume "plain_id i"
  with i(1) spool_path_inject [OF assms(2) assms(3), of i]
  show "gget (sv_spool (drop_transfer (sql_iface f) srv k sv)) (replicationSpoolPath (spool_root srv) i)
      = gget (sv_spool sv) (replicationSpoolPath (spool_root srv) i)"
    by (simp add: drop_transfer_def)
qed

text \<open>Recording a transfer whose file is in place, or that is still being received.\<close>

lemma spool_ok_record:
  assumes "spool_ok sha srv sv" "TrimSpace (t_ID t) \<noteq> []" "t_State t \<noteq> []"
    and "file_matches sha srv spool (t_ID t) t"
    and "\<And>i. plain_id i \<Longrightarrow> i \<noteq> t_ID t \<Longrightarrow> gget spool (replicationSpoolPath (spool_root srv) i)
           = gget (sv_spool sv) (replicationSpoolPath (spool_root srv) i)"
    and "sv_spool sv' = spool" "d_replication_transfers (sv_store sv')
           = d_replication_transfers (snd (sql_RecordReplicationTransfer now t (sv_store sv)))"
  shows "spool_ok sha srv sv'"
  using assms by (auto simp: spool_ok_def file_matches_def sql_RecordReplicationTransfer_def Let_def split: if_splits)

lemma plain_id_trim: "plain_id i \<Longrightarrow> i \<noteq> [] \<Longrightarrow> TrimSpace i \<noteq> []"
proof -
  assume "plain_id i" "i \<noteq> []"
  then have "\<not> is_space (hd i)" by (cases i) (auto simp: plain_id_def spool_char_def is_space_def Let_def split: if_splits)
  with \<open>i \<noteq> []\<close> show "TrimSpace i \<noteq> []"
    by (cases i) (auto simp: TrimSpace_def dropWhile_eq_Nil_conv)
qed

section \<open>Requests that leave transfers alone\<close>

interpretation st: agent_ops "sql_iface f" sql_wf "\<lambda>_ _ s s'. d_replication_transfers s' = d_replication_transfers s" for f
proof unfold_locales
  fix s :: database and i keep
  have "d_replication_transfers (fold delete_generation ids s) = d_replication_transfers s" for ids
    by (induction ids arbitrary: s) (simp_all add: delete_generation_def)
  then show "d_replication_transfers (snd (i_PruneGenerationRecords (sql_iface f) i keep s)) = d_replication_transfers s"
    by (simp add: sql_iface_def sql_PruneGenerationRecords_def Let_def)
qed (auto simp: sql_iface_def sql_tables sql_HeartbeatAgent_def sql_RecordReplica_def sql_RecordErasureShard_def
    split: option.splits if_splits)

lemma with_job_spool:
  "(\<And>j agent. sv_spool (snd (k j agent)) = sv_spool sv) \<Longrightarrow> sv_spool (snd (with_job S cert i sv k)) = sv_spool sv"
  by (auto simp: with_job_def split: sum.splits)

lemma store_do_spool:
  "sv_spool sv = c \<Longrightarrow> (\<And>x sv1. sv_spool sv1 = c \<Longrightarrow> sv_spool (snd (k x sv1)) = c) \<Longrightarrow> sv_spool (snd (store_do code out sv k)) = c"
  by (auto simp: store_do_def split: sum.splits prod.splits)


lemma other_spool:
  "sv_spool (snd (heartbeat S en cert hb sv)) = sv_spool sv"
  "sv_spool (snd (lease_jobs S srv en cert sv)) = sv_spool sv"
  "sv_spool (snd (fail_job S en cert i detail sv)) = sv_spool sv"
  "sv_spool (snd (enqueue_child S en cert i child sv)) = sv_spool sv"
  "sv_spool (snd (generation_report S srv cert i g sv)) = sv_spool sv"
  "sv_spool (snd (backupResult S en cert i br sv)) = sv_spool sv"
  "sv_spool (snd (objectRef S en cert i oq sv)) = sv_spool sv"
  "sv_spool (snd (erasureSet S en cert i es sv)) = sv_spool sv"
  "sv_spool (snd (erasureShard S srv en cert i sh sv)) = sv_spool sv"
  "sv_spool (snd (corruptObject S srv en cert i d sv)) = sv_spool sv"
  by (auto simp: heartbeat_def lease_jobs_def fail_job_def enqueue_child_def generation_report_def backupResult_def objectRef_def
      erasureSet_def erasureShard_def corruptObject_def Let_def intro!: with_job_spool store_do_spool
      split: option.splits sum.splits prod.splits)

section \<open>Requests on transfers\<close>

lemma with_job_cases:
  assumes "\<And>j. gget (d_jobs (sv_store sv)) i = Some j \<Longrightarrow> P (k j (agentIdentity cert))" "\<And>e. P (http_Error 403 e, sv)"
  shows "P (with_job (sql_iface f) cert i sv k)"
proof (cases "authorizeRunningJob (sql_iface f) cert i (sv_store sv)")
  case (Inr p)
  then obtain j where "p = (j, agentIdentity cert)" "gget (d_jobs (sv_store sv)) i = Some j"
    by (auto simp: authorizeRunningJob_def Let_def sql_iface_def sql_GetJob_def row_def split: if_splits option.splits)
  with Inr assms(1) show ?thesis by (simp add: with_job_def)
qed (simp add: with_job_def assms(2))

lemma store_do_cases:
  assumes "P (sv\<lparr>sv_store := snd out\<rparr>)"
    and "\<And>x sv1. fst out = Inr x \<Longrightarrow> sv1 = sv\<lparr>sv_store := snd out\<rparr> \<Longrightarrow> P sv1 \<Longrightarrow> P (snd (k x sv1))"
  shows "P (snd (store_do code out sv k))"
  using assms by (cases out; cases "fst out") (auto simp: store_do_def)


lemma spool_ok_same:
  assumes "spool_ok sha srv sv" "d_replication_transfers (sv_store sv') = d_replication_transfers (sv_store sv)" "sv_spool sv' = sv_spool sv"
  shows "spool_ok sha srv sv'"
  using assms by (simp add: spool_ok_def)

lemma source_transfer_plain:
  assumes "decodeTransferSourceJob j agent transfer = Inr p" "plain_transfer j"
  shows "plain_id (tm_TransferID p)" "tm_TransferID p \<noteq> []" "TrimSpace (tm_TransferID p) \<noteq> []"
proof -
  show "plain_id (tm_TransferID p)"
    using assms by (auto simp: decodeTransferSourceJob_def plain_transfer_def split: if_splits option.splits)
  moreover show "tm_TransferID p \<noteq> []" using decodeTransferSourceJob_identity [OF assms(1)] by simp
  ultimately show "TrimSpace (tm_TransferID p) \<noteq> []" by (rule plain_id_trim)
qed

lemma complete_spool:
  assumes ok: "spool_ok sha srv sv" and root: "spool_root srv \<noteq> []"
    and plain: "\<And>j. gget (d_jobs (sv_store sv)) i = Some j \<Longrightarrow> plain_transfer j"
  shows "spool_ok sha srv (snd (complete (sql_iface f) srv en cert i sv))"
  unfolding complete_def
proof (rule with_job_cases [where P = "\<lambda>h. spool_ok sha srv (snd h)"], goal_cases)
  case (1 j)
  then have pl: "plain_transfer j" by (rule plain)
  show ?case
  proof (rule store_do_cases, goal_cases)
    case 1
    show ?case
      by (rule spool_ok_same [OF ok])
        (auto simp: sql_iface_def sql_Complete_def update_approval_def id_env_def Let_def split: option.splits if_splits)
  next
    case (2 x sv1)
    have drop: "spool_ok sha srv (drop_transfer (sql_iface f) srv (ic_TransferID p) sv1)"
      if "unmarshal_install_cas (j_Payload j) = Some p" "j_Kind j = ''install-cas''" for p
      using spool_ok_drop [OF 2(3) root] pl that by (auto simp: plain_transfer_def)
    with 2(3) show ?case by (auto simp: Let_def st.R_release intro: spool_ok_same [OF drop] split: option.splits)
  qed
qed (simp add: ok)

lemma replica_spool:
  assumes ok: "spool_ok sha srv sv" and root: "spool_root srv \<noteq> []"
    and plain: "\<And>j. gget (d_jobs (sv_store sv)) i = Some j \<Longrightarrow> plain_transfer j"
  shows "spool_ok sha srv (snd (replica (sql_iface f) srv en cert i rp sv))"
  unfolding replica_def Let_def
proof (rule with_job_cases [where P = "\<lambda>h. spool_ok sha srv (snd h)"], goal_cases)
  case (1 j)
  then have pl: "plain_transfer j" by (rule plain)
  have rec: "spool_ok sha srv (snd (store_do 500 (i_RecordReplica (sql_iface f) (en_now en) r (sv_store sv)) sv (\<lambda>_. k)))"
    if "\<And>sv1. spool_ok sha srv sv1 \<Longrightarrow> spool_ok sha srv (snd (k sv1))" for k r
  proof (rule store_do_cases)
    show "spool_ok sha srv (sv\<lparr>sv_store := snd (i_RecordReplica (sql_iface f) (en_now en) r (sv_store sv))\<rparr>)"
      using st.R_replica [of r "rp_AgentID r" f "en_now en" "sv_store sv"] by (intro spool_ok_same [OF ok]) simp_all
  qed (rule that)
  have drop: "spool_ok sha srv (snd (http_ok (drop_transfer (sql_iface f) srv (ir_TransferID p) sv1)))"
    if "unmarshal_install_replica (j_Payload j) = Some p" "j_Kind j = ''install-replica''" "spool_ok sha srv sv1" for p sv1
    using spool_ok_drop [OF that(3) root] pl that(1,2) by (auto simp: plain_transfer_def)
  show ?case using ok by (auto intro!: rec drop split: option.splits sum.splits)
qed (simp add: ok)


lemma chunk_spool:
  assumes ok: "spool_ok sha srv sv" and root: "spool_root srv \<noteq> []"
    and plain: "\<And>j. gget (d_jobs (sv_store sv)) i = Some j \<Longrightarrow> plain_transfer j"
  shows "spool_ok sha srv (snd (replicationUploadChunk (sql_iface f) srv en cert i u sv))"
  unfolding replicationUploadChunk_def Let_def
proof (rule with_job_cases [where P = "\<lambda>h. spool_ok sha srv (snd h)"], goal_cases)
  case (1 j)
  then have pl: "plain_transfer j" by (rule plain)
  have rec: "spool_ok sha srv (snd (store_do 500 (i_RecordReplicationTransfer (sql_iface f) now
        (zero_transfer\<lparr>t_ID := tm_TransferID p, t_GenerationID := gid, t_RepositoryID := rid, t_SourceAgent := src,
           t_TargetAgent := tgt, t_SpoolPath := sp, t_State := TransferReceiving, t_Bytes := n, t_ExpiresAt := x\<rparr>) (sv_store sv))
        (sv\<lparr>sv_spool := gput (part_path srv tid) c (sv_spool sv)\<rparr>) (\<lambda>_ sv1. (r, sv1))))"
    if "decodeTransferSourceJob j a tr = Inr p" for p a tr now gid rid src tgt sp n x tid c r
  proof -
    let ?t = "zero_transfer\<lparr>t_ID := tm_TransferID p, t_GenerationID := gid, t_RepositoryID := rid, t_SourceAgent := src,
           t_TargetAgent := tgt, t_SpoolPath := sp, t_State := TransferReceiving, t_Bytes := n, t_ExpiresAt := x\<rparr>"
    let ?sv = "sv\<lparr>sv_spool := gput (part_path srv tid) c (sv_spool sv)\<rparr>"
    let ?out = "i_RecordReplicationTransfer (sql_iface f) now ?t (sv_store sv)"
    have "spool_ok sha srv (?sv\<lparr>sv_store := snd ?out\<rparr>)"
      by (rule spool_ok_record [OF spool_ok_part(1) [OF ok root], where t = ?t and now = now])
        (use source_transfer_plain [OF that pl] in \<open>auto simp: file_matches_def zero_transfer_def TransferReady_def TransferReceiving_def sql_iface_def\<close>)
    then show ?thesis by (rule store_do_cases) simp
  qed
  show ?case using ok root by (auto intro!: rec spool_ok_part(1) split: option.splits sum.splits prod.splits)
qed (simp add: ok)

lemma enqueue_install_spool:
  assumes "spool_ok sha srv sv"
  shows "spool_ok sha srv (snd (store_do 500 (i_Enqueue (sql_iface f) now nid x (sv_store sv)) (sv\<lparr>sv_ids := n\<rparr>) (\<lambda>_. Pair resp)))"
proof (rule store_do_cases)
  show "spool_ok sha srv (sv\<lparr>sv_ids := n, sv_store := snd (i_Enqueue (sql_iface f) now nid x (sv_store sv))\<rparr>)"
    by (rule spool_ok_same [OF assms]) (simp_all add: st.R_enqueue)
qed simp

text \<open>A complete file is put in place and recorded as ready.\<close>

abbreviation ready_record :: "string \<Rightarrow> string \<Rightarrow> string \<Rightarrow> string \<Rightarrow> string \<Rightarrow> string \<Rightarrow> int \<Rightarrow> string \<Rightarrow> time \<Rightarrow> replication_transfer" where
  "ready_record k gid rid src tgt sp n h x \<equiv> zero_transfer\<lparr>t_ID := k, t_GenerationID := gid, t_RepositoryID := rid,
     t_SourceAgent := src, t_TargetAgent := tgt, t_SpoolPath := sp, t_State := TransferReady, t_Bytes := n, t_SHA256 := h,
     t_ExpiresAt := x\<rparr>"

lemma spool_ok_ready:
  assumes "spool_ok sha srv sv" "spool_root srv \<noteq> []" "plain_id k" "k \<noteq> []" "int (length c) = n" "EqualFold (sha c) h"
    and "sv_spool sv' = gput (replicationSpoolPath (spool_root srv) k) c (gdel (part_path srv k) (sv_spool sv))"
    and "sv_store sv' = snd (i_RecordReplicationTransfer (sql_iface f) now (ready_record k gid rid src tgt sp n h x) (sv_store sv))"
  shows "spool_ok sha srv sv'"
proof (rule spool_ok_record [OF assms(1), where t = "ready_record k gid rid src tgt sp n h x" and now = now and spool = "sv_spool sv'"], goal_cases)
  case (4 i)
  then show ?case
    using spool_path_inject [OF assms(2) assms(3), of i] spool_not_part [OF assms(2), of i k]
    by (auto simp: assms(7) part_path_def)
qed (use assms plain_id_trim in \<open>auto simp: file_matches_def TransferReady_def sql_iface_def\<close>)

lemma enqueueTransferInstall_spool:
  assumes "\<not> rec \<Longrightarrow> spool_ok sha srv sv"
    and "\<And>sv'. rec \<Longrightarrow> sv_spool sv' = sv_spool sv \<Longrightarrow>
      sv_store sv' = snd (i_RecordReplicationTransfer (sql_iface f) (en_now en)
        (ready_record (tm_TransferID p) (tm_GenerationID p) (tm_RepositoryID p) (tm_SourceAgent p) (tm_TargetAgent p)
          (replicationSpoolPath (spool_root srv) (tm_TransferID p)) n h (replicationTransferExpiry (as_Replication srv) (en_now en)))
        (sv_store sv)) \<Longrightarrow> spool_ok sha srv sv'"
  shows "spool_ok sha srv (snd (enqueueTransferInstall (sql_iface f) srv en j p h n rec sv))"
proof (cases rec)
  case True
  show ?thesis unfolding enqueueTransferInstall_def Let_def if_P [OF True]
    by (rule store_do_cases, rule assms(2) [OF True], simp, simp, rule enqueue_install_spool)
qed (use assms(1) in \<open>simp add: enqueueTransferInstall_def enqueue_install_spool\<close>)

lemma finalize_spool:
  assumes ok: "spool_ok (en_sha en) srv sv" and root: "spool_root srv \<noteq> []"
    and plain: "\<And>j. gget (d_jobs (sv_store sv)) i = Some j \<Longrightarrow> plain_transfer j"
  shows "spool_ok (en_sha en) srv (snd (replicationUploadFinalize (sql_iface f) srv en cert i tr body sv))"
  unfolding replicationUploadFinalize_def Let_def
proof (rule with_job_cases [where P = "\<lambda>h. spool_ok (en_sha en) srv (snd h)"], goal_cases)
  case (1 j)
  then have pl: "plain_transfer j" by (rule plain)
  have move: "spool_ok (en_sha en) srv (snd (enqueueTransferInstall (sql_iface f) srv en j p (ToLower h) n True
      (sv\<lparr>sv_spool := gput (replicationSpoolPath (spool_root srv) (tm_TransferID p)) (the (gget (sv_spool sv) (part_path srv (tm_TransferID p))))
         (gdel (part_path srv (tm_TransferID p)) (sv_spool sv))\<rparr>)))"
    if "decodeTransferSourceJob j a t = Inr p" "hashFileSHA256 en (sv_spool sv) (part_path srv (tm_TransferID p)) = Inr (got, n)"
      "EqualFold got h" for p a t got n h
  proof (rule enqueueTransferInstall_spool, simp, goal_cases)
    case (1 sv')
    note h = that
    obtain c where "gget (sv_spool sv) (part_path srv (tm_TransferID p)) = Some c" "got = en_sha en c" "n = int (length c)"
      using h(2) by (auto simp: hashFileSHA256_def split: option.splits)
    with 1 that(3) show ?case
      by (intro spool_ok_ready [OF ok root source_transfer_plain(1,2) [OF that(1) pl]]) (auto simp: EqualFold_def)
  qed
  have again: "spool_ok (en_sha en) srv (snd (enqueueTransferInstall (sql_iface f) srv en j p h n False sv))" for p h n
    by (rule enqueueTransferInstall_spool) (simp_all add: ok)
  show ?case using ok by (auto intro!: move again split: option.splits sum.splits prod.splits)
qed (simp add: ok)

lemma upload_spool:
  assumes ok: "spool_ok (en_sha en) srv sv" and root: "spool_root srv \<noteq> []"
    and plain: "\<And>j. gget (d_jobs (sv_store sv)) i = Some j \<Longrightarrow> plain_transfer j"
  shows "spool_ok (en_sha en) srv (snd (replicationUpload (sql_iface f) srv en cert i u sv))"
  unfolding replicationUpload_def Let_def
proof (rule with_job_cases [where P = "\<lambda>h. spool_ok (en_sha en) srv (snd h)"], goal_cases)
  case (1 j)
  then have pl: "plain_transfer j" by (rule plain)
  have pid: "plain_id (rg_TransferID p)" if "unmarshal_replicate_generation (j_Payload j) = Some p" "j_Kind j = ''replicate-generation''" for p
    using pl that by (simp add: plain_transfer_def)
  have no_err: False if "i_RecordReplicationTransfer (sql_iface f) now (ready_record k gid rid src tgt sp n h x) s = (Inl e, st)"
    "plain_id k" "k \<noteq> []" for now k gid rid src tgt sp n h x s e st
    using that(1) plain_id_trim [OF that(2,3)] by (simp add: sql_iface_def sql_RecordReplicationTransfer_def Let_def)
  have ready: "spool_ok (en_sha en) srv (snd (store_do 500 (i_Enqueue (sql_iface f) now nid y st)
        (sv\<lparr>sv_spool := gput (replicationSpoolPath (spool_root srv) k) c (gdel (part_path srv k) (sv_spool sv)), sv_ids := m\<rparr>) (\<lambda>_. Pair resp)))"
    if "plain_id k" "k \<noteq> []" "i_RecordReplicationTransfer (sql_iface f) t1
        (ready_record k gid rid src tgt sp (int (length c)) (en_sha en c) x) (sv_store sv) = (r, st)"
    for k c m gid rid src tgt sp x r st now nid y t1 resp
  proof -
    let ?sv = "sv\<lparr>sv_spool := gput (replicationSpoolPath (spool_root srv) k) c (gdel (part_path srv k) (sv_spool sv)), sv_store := st\<rparr>"
    have "spool_ok (en_sha en) srv ?sv"
      by (rule spool_ok_ready [OF ok root that(1,2), where h = "en_sha en c" and f = f and now = t1 and gid = gid
            and rid = rid and src = src and tgt = tgt and sp = sp and x = x]) (use that(3) in auto)
    from enqueue_install_spool [OF this, of f now nid y m resp] show ?thesis by (simp add: store_do_def split: sum.splits prod.splits)
  qed
  show ?case
    using ok root
    by (auto intro!: spool_ok_part(2) ready pid dest: no_err [OF _ pid] split: option.splits sum.splits prod.splits)
qed (simp add: ok)

section \<open>Every request\<close>

lemma serve_spool:
  assumes "sql_wf (sv_store sv)" "spool_root srv \<noteq> []" "spool_ok (en_sha en) srv sv"
    and "\<And>i j. gget (d_jobs (sv_store sv)) i = Some j \<Longrightarrow> plain_transfer j"
  shows "spool_ok (en_sha en) srv (snd (serve (sql_iface f) srv en cert q sv))"
proof -
  note same = spool_ok_same [OF assms(3)] other_spool st.jobs_R [OF assms(1) refl refl] st.reports_R [OF refl refl]
  have "snd (replicationUploadStatus (sql_iface f) srv cert i tr sv) = sv" "snd (replicationDownload (sql_iface f) srv en cert i tr sv) = sv" for i tr
    by (simp_all add: replicationUploadStatus_def replicationDownload_def with_job_def Let_def split: sum.split option.split prod.split)
  then show ?thesis
    using assms(3) complete_spool [OF assms(3,2,4)] replica_spool [OF assms(3,2,4)] upload_spool [OF assms(3,2,4)]
      chunk_spool [OF assms(3,2,4)] finalize_spool [OF assms(3,2,4)]
    by (cases q) (simp_all add: same)
qed

lemma download_delivers:
  assumes ok: "spool_ok (en_sha en) srv sv"
    and "replicationDownload (sql_iface f) srv en cert i tr sv = (resp, sv')" "re_Status resp = 200"
  shows "\<exists>j gid rid h n. gget (d_jobs (sv_store sv)) i = Some j
      \<and> install_expectation j (agentIdentity cert) tr = Inr (agentIdentity cert, gid, rid, h, n)
      \<and> (h \<noteq> [] \<longrightarrow> int (length (re_Body resp)) = n \<and> EqualFold (en_sha en (re_Body resp)) h)"
proof -
  have "re_Status (fst hd) = 200 \<longrightarrow> (\<exists>j gid rid h n. gget (d_jobs (sv_store sv)) i = Some j
      \<and> install_expectation j (agentIdentity cert) tr = Inr (agentIdentity cert, gid, rid, h, n)
      \<and> (h \<noteq> [] \<longrightarrow> int (length (re_Body (fst hd))) = n \<and> EqualFold (en_sha en (re_Body (fst hd))) h))"
    if "hd = replicationDownload (sql_iface f) srv en cert i tr sv" for hd
    unfolding that replicationDownload_def
  proof (rule with_job_cases, goal_cases)
    case (1 j)
    have refused: "re_Status r \<noteq> 200" if "install_expectation j (agentIdentity cert) tr = Inl r" for r
      using that by (auto simp: install_expectation_def reply_def split: if_splits option.splits)
    have target: "t = agentIdentity cert" if "install_expectation j (agentIdentity cert) tr = Inr (t, gid, rid, h, n)" for t gid rid h n
      using that by (auto simp: install_expectation_def split: if_splits option.splits)
    have blob: "int (length c) = t_Bytes t \<and> EqualFold (en_sha en c) (t_SHA256 t)"
      if "i_GetReplicationTransfer (sql_iface f) tr (sv_store sv) = Inr t" "t_SHA256 t \<noteq> []"
        "gget (sv_spool sv) (replicationSpoolPath (spool_root srv) tr) = Some c" for t c
    proof -
      have "gget (d_replication_transfers (sv_store sv)) tr = Some t"
        using that(1) by (auto simp: sql_iface_def sql_GetReplicationTransfer_def row_def split: option.splits)
      with ok have "file_matches (en_sha en) srv (sv_spool sv) tr t" by (simp add: spool_ok_def)
      with that(2,3) show ?thesis by (auto simp: file_matches_def split: if_splits)
    qed
    show ?case
      by (auto simp: 1 reply_def refused dest: target blob split: sum.splits option.splits prod.splits)
  next
    case (2 e)
    show ?case by (cases e) (simp_all add: reply_def)
  qed
  from this [OF refl] assms(2,3) show ?thesis by simp
qed

text \<open>
  C20. The bytes of a transfer are what was announced, on the SQL store.  The invariant: a transfer recorded as
  ready has its file in the spool directory with the recorded size and hash, and every other one has
  no hash.  Every request keeps it, and a download that is answered 200 was asked for by the agent the
  installation job is addressed to and delivers exactly the bytes with the size and the hash the job
  expects.  (Transfer identifiers in job payloads are made of letters, digits, dashes and underscores, as
  \<^verbatim>\<open>newID\<close> makes them; others could share a file name.)
\<close>

theorem transfer_integrity:
  assumes "sql_wf (sv_store sv)" "spool_root srv \<noteq> []"
    and "\<And>i j. gget (d_jobs (sv_store sv)) i = Some j \<Longrightarrow> plain_transfer j"
    and "spool_ok (en_sha en) srv sv"
    and "serve (sql_iface f) srv en cert q sv = (resp, sv')"
  shows "spool_ok (en_sha en) srv sv'
    \<and> (\<forall>i tr. q = ReqDownload i tr \<longrightarrow> re_Status resp = 200 \<longrightarrow>
        (\<exists>j gid rid h n. gget (d_jobs (sv_store sv)) i = Some j
          \<and> install_expectation j (agentIdentity cert) tr = Inr (agentIdentity cert, gid, rid, h, n)
          \<and> (h \<noteq> [] \<longrightarrow> int (length (re_Body resp)) = n \<and> EqualFold (en_sha en (re_Body resp)) h)))"
  using serve_spool [OF assms(1,2,4,3), where f = f and cert = cert and q = q] assms(5)
    download_delivers [OF assms(4), where f = f and cert = cert and resp = resp] by auto

definition sample_install :: job where
  "sample_install = zero_job\<lparr>j_ID := ''i'', j_Kind := ''install-replica'', j_Status := JobRunning, j_LeaseOwner := ''w2'', j_LeaseUntil := 1000,
     j_Payload := marshal_install_replica \<lparr>ir_TransferID = ''t1'', ir_RepositoryID = ''r'', ir_Repository = ''o/r'', ir_GenerationID = ''g'',
       ir_SourceAgent = ''w1'', ir_TargetAgent = ''w2'', ir_CipherSHA256 = replicate 64 (CHR ''a''), ir_CipherBytes = 2\<rparr>\<rparr>"

definition ready_state :: "database server_state" where
  "ready_state = \<lparr>sv_store = sql_Migrate\<lparr>d_jobs := [(''i'', sample_install)],
     d_replication_transfers := [(''t1'', ready_record ''t1'' ''g'' ''r'' ''w1'' ''w2'' ''/spool/t1.blob'' 2 (replicate 64 (CHR ''a'')) zero_time)]\<rparr>,
     sv_ids = 0, sv_spool = [(''/spool/t1.blob'', ''hi'')]\<rparr>"

lemma spool_path_t1: "replicationSpoolPath (spool_root sample_server) ''t1'' = ''/spool/t1.blob''"
  by code_simp

lemma int64_ok_2: "int64_ok 2"
  by (simp add: int64_ok_def min_int64_def max_int64_def)

lemma sample_install_expectation:
  "install_expectation sample_install ''w2'' ''t1'' = Inr (''w2'', ''g'', ''r'', replicate 64 (CHR ''a''), 2)"
  by (simp add: install_expectation_def sample_install_def unmarshal_marshal_install_replica int64_ok_2)

theorem transfer_integrity_witness:
  "(case serve (sql_iface sample_repo_id) sample_server sample_env (Some sample_cert) (ReqDownload ''i'' ''t1'') ready_state of (resp, sv') \<Rightarrow>
     spool_ok (en_sha sample_env) sample_server sv' \<and> re_Status resp = 200 \<and> re_Body resp = ''hi''
     \<and> EqualFold (en_sha sample_env (re_Body resp)) (replicate 64 (CHR ''a'')))"
proof -
  let ?r = "serve (sql_iface sample_repo_id) sample_server sample_env (Some sample_cert) (ReqDownload ''i'' ''t1'') ready_state"
  have cert: "agentIdentity (Some sample_cert) = ''w2''"
    by (simp add: agentIdentity_def sample_cert_def TrimSpace_def is_space_def)
  have job: "gget (d_jobs (sv_store ready_state)) i = Some j \<longleftrightarrow> i = ''i'' \<and> j = sample_install" for i j
    by (auto simp: ready_state_def)
  have auth: "authorizeRunningJob (sql_iface sample_repo_id) (Some sample_cert) ''i'' (sv_store ready_state) = Inr (sample_install, ''w2'')"
    by (simp add: authorizeRunningJob_def Let_def cert sql_iface_def sql_GetJob_def row_def ready_state_def, simp add: sample_install_def)
  have out: "?r = ((reply 200)\<lparr>re_Body := ''hi''\<rparr>, ready_state)"
    by (simp add: replicationDownload_def with_job_def auth sample_install_expectation spool_path_t1)
      (simp add: sql_iface_def sql_GetReplicationTransfer_def row_def ready_state_def zero_transfer_def IsZero_def zero_time_def spool_path_t1)
  have wf: "sql_wf (sv_store ready_state)"
    by (simp add: sql_wf_def keyed_jobs_def unique_active_def ready_state_def sample_install_def)
  have plain: "plain_transfer sample_install"
    by (simp add: plain_transfer_def sample_install_def unmarshal_marshal_install_replica int64_ok_2 plain_id_def spool_char_def)
  have ok: "spool_ok (en_sha sample_env) sample_server ready_state"
    using spool_path_t1
    by (auto simp: spool_ok_def file_matches_def ready_state_def zero_transfer_def plain_id_def spool_char_def sample_env_def split: if_splits)
  have root: "spool_root sample_server \<noteq> []" by (simp add: sample_server_def sample_replication_def)
  have plains: "gget (d_jobs (sv_store ready_state)) i = Some j \<Longrightarrow> plain_transfer j" for i j using job plain by simp
  show ?thesis
    using transfer_integrity [OF wf root plains ok out] sample_install_expectation unfolding out
    by (auto simp: job cert reply_def)
qed

section \<open>Uploads in several chunks\<close>

lemma http_Error_not_ok: "k \<noteq> 200 \<Longrightarrow> re_Status (http_Error k e) \<noteq> 200"
  by (cases e) (simp_all add: reply_def)

lemma write_chunk_accepts:
  assumes "write_chunk srv sha off h u c = (None, c1, n)"
  shows "c1 = write_start (up_Data u) c \<and> n = int (length (up_Data u))"
  using assms
  by (auto simp: write_chunk_def copy_limited_def chunk_max_def Let_def split: if_splits option.splits)

lemma write_chunk_refuses: "write_chunk srv sha off h u c = (Some r, c1, n) \<Longrightarrow> re_Status r \<noteq> 200"
  by (auto simp: write_chunk_def Let_def http_Error_not_ok reply_def split: if_splits option.splits prod.splits)

text \<open>What the response 200 to a chunk says about the request and the part file.\<close>

definition chunk_stored :: "agent_server \<Rightarrow> upload \<Rightarrow> (string, string) gomap \<Rightarrow> response \<Rightarrow> (string, string) gomap \<Rightarrow> bool" where
  "chunk_stored srv u spool resp spool' =
     (let c = (case gget spool (part_path srv (up_Transfer u)) of None \<Rightarrow> [] | Some c \<Rightarrow> c)
      in ParseInt (TrimSpace (up_OffsetHeader u)) = Some (int (length c))
         \<and> re_Offset resp = Some (int (length c) + int (length (up_Data u)))
         \<and> gget spool' (part_path srv (up_Transfer u)) = Some (write_start (up_Data u) c))"

lemma store_do_ok:
  "re_Status (fst (store_do 500 out sv k)) = 200 \<Longrightarrow> \<exists>x. store_do 500 out sv k = k x (sv\<lparr>sv_store := snd out\<rparr>)"
  by (cases out; cases "fst out") (auto simp: store_do_def http_Error_not_ok)

lemma chunk_accepted:
  assumes "replicationUploadChunk (sql_iface f) srv en cert i u sv = (resp, sv')" "re_Status resp = 200"
  shows "chunk_stored srv u (sv_spool sv) resp (sv_spool sv')"
proof -
  have "re_Status (fst h) = 200 \<longrightarrow> chunk_stored srv u (sv_spool sv) (fst h) (sv_spool (snd h))"
    if "h = replicationUploadChunk (sql_iface f) srv en cert i u sv" for h
    unfolding that replicationUploadChunk_def Let_def
  proof (rule with_job_cases, goal_cases)
    case (1 j)
    show ?case
    proof (cases "decodeTransferSourceJob j (agentIdentity cert) (up_Transfer u)")
      case (Inr p)
      then have id: "tm_TransferID p = up_Transfer u" by (rule decodeTransferSourceJob_identity)
      show ?thesis
        unfolding Inr sum.case id
        by (auto simp: http_Error_not_ok chunk_stored_def Let_def reply_def dest: write_chunk_refuses dest!: store_do_ok write_chunk_accepts
            split: option.split sum.split prod.split if_split)
    qed (simp add: http_Error_not_ok)
  next
    case (2 e)
    show ?case by (simp add: http_Error_not_ok)
  qed
  from this [OF refl] assms show ?thesis by simp
qed


text \<open>
  C21. Uploads in several chunks do not work.  A chunk is accepted only at the size of the part file, yet it is
  written from the start of the file: it replaces the file's first bytes, and if it is not longer
  than what the file holds the file does not grow.  The server then announces an offset that no chunk
  can be sent at: every request at that offset is refused, by any agent, at any time, until something
  else changes the file.  Only the first chunk is stored as sent.
\<close>

theorem chunk_overwrites:
  assumes "replicationUploadChunk (sql_iface f) srv en cert i u sv = (resp, sv')" "re_Status resp = 200"
    and "part = part_path srv (up_Transfer u)" "old = (case gget (sv_spool sv) part of None \<Rightarrow> [] | Some c \<Rightarrow> c)"
  shows "gget (sv_spool sv') part = Some (up_Data u @ drop (length (up_Data u)) old)
    \<and> re_Offset resp = Some (int (length old) + int (length (up_Data u)))
    \<and> (0 < length old \<longrightarrow> up_Data u \<noteq> [] \<longrightarrow>
        (\<forall>g en' cert' i' u' sv''. sv_spool sv'' = sv_spool sv' \<longrightarrow> up_Transfer u' = up_Transfer u \<longrightarrow>
          ParseInt (TrimSpace (up_OffsetHeader u')) = re_Offset resp \<longrightarrow>
          re_Status (fst (replicationUploadChunk (sql_iface g) srv en' cert' i' u' sv'')) \<noteq> 200))"
proof (intro conjI impI allI notI)
  note stored = chunk_accepted [OF assms(1,2), unfolded chunk_stored_def Let_def, folded assms(3), folded assms(4)]
  show contents: "gget (sv_spool sv') part = Some (up_Data u @ drop (length (up_Data u)) old)"
    and off: "re_Offset resp = Some (int (length old) + int (length (up_Data u)))"
    using stored by (simp_all add: write_start_def)
  fix g en' cert' i' u' and sv'' :: "database server_state"
  assume some: "0 < length old" "up_Data u \<noteq> []" and same: "sv_spool sv'' = sv_spool sv'" "up_Transfer u' = up_Transfer u"
    and at: "ParseInt (TrimSpace (up_OffsetHeader u')) = re_Offset resp"
    and ok: "re_Status (fst (replicationUploadChunk (sql_iface g) srv en' cert' i' u' sv'')) = 200"
  obtain r' sv3 where r': "replicationUploadChunk (sql_iface g) srv en' cert' i' u' sv'' = (r', sv3)" by fastforce
  have "ParseInt (TrimSpace (up_OffsetHeader u')) = Some (int (length (up_Data u @ drop (length (up_Data u)) old)))"
    using chunk_accepted [OF r'] ok r' same contents assms(3) by (simp add: chunk_stored_def Let_def)
  with at off have "length old - length (up_Data u) = length old" by simp
  with some show False by (cases old; cases "up_Data u") simp_all
qed

text \<open>Agent \<open>w2\<close> has sent \<open>ab\<close> and sends \<open>cd\<close> at offset 2: the file holds \<open>cd\<close> and the next offset is 4.\<close>

definition sample_source :: job where
  "sample_source = zero_job\<lparr>j_ID := ''i'', j_Kind := ''replicate-generation'', j_Status := JobRunning, j_LeaseOwner := ''w2'',
     j_LeaseUntil := 1000, j_Payload := marshal_replicate_generation \<lparr>rg_TransferID = ''t1'', rg_RepositoryID = ''r'', rg_Repository = ''o/r'',
       rg_GenerationID = ''g'', rg_SourceAgent = ''w2'', rg_TargetAgent = ''w3'', rg_TargetReplicationPubKey = ''AAAA''\<rparr>\<rparr>"

definition receiving_state :: "database server_state" where
  "receiving_state = \<lparr>sv_store = sql_Migrate\<lparr>d_jobs := [(''i'', sample_source)], d_agents := [(''w3'', sample_agent ''w3'')]\<rparr>,
     sv_ids = 0, sv_spool = [(''/spool/t1.blob.part'', ''ab'')]\<rparr>"

definition sample_chunk :: upload where
  "sample_chunk = \<lparr>up_Transfer = ''t1'', up_Data = ''cd'', up_Err = None, up_OffsetHeader = ''2'', up_HashHeader = replicate 64 (CHR ''a'')\<rparr>"

lemma sample_part: "part_path sample_server ''t1'' = ''/spool/t1.blob.part''"
  by (simp add: part_path_def spool_path_t1)

theorem chunk_overwrites_witness:
  "(case replicationUploadChunk (sql_iface sample_repo_id) sample_server sample_env (Some sample_cert) ''i'' sample_chunk receiving_state of
     (resp, sv') \<Rightarrow> re_Status resp = 200 \<and> re_Offset resp = Some 4 \<and> gget (sv_spool sv') ''/spool/t1.blob.part'' = Some ''cd''
       \<and> re_Status (fst (replicationUploadChunk (sql_iface sample_repo_id) sample_server sample_env (Some sample_cert) ''i''
            (sample_chunk\<lparr>up_OffsetHeader := ''4''\<rparr>) sv')) \<noteq> 200)"
proof -
  obtain resp sv' where out: "replicationUploadChunk (sql_iface sample_repo_id) sample_server sample_env (Some sample_cert) ''i''
      sample_chunk receiving_state = (resp, sv')" by fastforce
  have "re_Status (fst (replicationUploadChunk (sql_iface sample_repo_id) sample_server sample_env (Some sample_cert) ''i''
      sample_chunk receiving_state)) = 200" by code_simp
  with out have ok: "re_Status resp = 200" by simp
  have nums: "ParseInt (TrimSpace ''4'') = Some 4" by code_simp
  show ?thesis
    using chunk_overwrites [OF out ok refl refl] unfolding out
    by (simp add: ok sample_chunk_def sample_part receiving_state_def nums)
qed

end
