(* ===== verification/Full_Config.thy ===== *)
theory Full_Config
  imports Cp_Config Paths
begin

text \<open>
  The whole configuration (\<^verbatim>\<open>internal/config/config.go\<close>): one record per struct, the defaults under a
  home directory, and the expansion of paths.  The control plane's own sections are the records of
  \<open>Cp_Config\<close>.  The environment is a function from variable names to values.
\<close>

section \<open>Structs\<close>

record github_config =
  gh_APIURL :: string
  gh_GraphQLURL :: string
  gh_TokenEnv :: string
  gh_CloneProtocol :: string
  gh_Metadata :: string
  gh_IncludeForks :: bool
  gh_IncludeArchived :: bool
  gh_ReleaseAssets :: bool
  gh_Discussions :: bool
  gh_Packages :: bool
  gh_OCIExport :: bool
  gh_MaxAssetBytes :: int
  gh_MaxArtifactBytes :: int
  gh_MaxMetadataPages :: int
  gh_ActionsArtifacts :: bool
  gh_ProjectsV2 :: bool

record backup_config =
  bk_Root :: string
  bk_Concurrency :: int
  bk_CreateBundles :: bool
  bk_FetchLFS :: bool
  bk_VerifyAfterBackup :: bool
  bk_KeepManifests :: int

record gitlab_restore_drill_config =
  gd_Enabled :: bool
  gd_WorkDir :: string
  gd_HTTPPort :: int
  gd_SSHPort :: int
  gd_Timeout :: dur_text
  gd_KeepOnFailure :: bool

record gitlab_config =
  gl_Enabled :: bool
  gl_URL :: string
  gl_TokenEnv :: string
  gl_Image :: string
  gl_Hostname :: string
  gl_HTTPPort :: int
  gl_HTTPSPort :: int
  gl_SSHPort :: int
  gl_DataDir :: string
  gl_Container :: string
  gl_RemoteHost :: string
  gl_PreserveNamespaces :: bool
  gl_RestoreDrill :: gitlab_restore_drill_config

record daemon_config =
  dm_Interval :: dur_text
  dm_RunOnStart :: bool

record kms_attestation_config =
  km_Enabled :: bool
  km_KeyID :: string
  km_SigningAlgorithm :: string
  km_Region :: string
  km_Profile :: string
  km_EndpointURL :: string
  km_RequireValid :: bool

record security_config =
  se_RequireVerification :: bool
  se_SignManifests :: bool
  se_SigningKeyPath :: string
  se_KMSAttestation :: kms_attestation_config

record object_lock_config =
  lk_Enabled :: bool
  lk_Bucket :: string
  lk_Prefix :: string
  lk_Region :: string
  lk_EndpointURL :: string
  lk_Profile :: string
  lk_RequireEnabled :: bool
  lk_ExpectedMode :: string
  lk_MinRetentionDays :: int

record offsite_config =
  ofs_Enabled :: bool
  ofs_Backend :: string
  ofs_RepositoryEnv :: string
  ofs_PasswordEnv :: string
  ofs_RcloneRemote :: string
  ofs_KeepDaily :: int
  ofs_KeepWeekly :: int
  ofs_KeepMonthly :: int
  ofs_Prune :: bool
  ofs_ObjectLock :: object_lock_config

record recovery_drill_config =
  rd_Enabled :: bool
  rd_SampleSize :: int
  rd_WorkDir :: string
  rd_VerifyRefs :: bool
  rd_KeepOnFailure :: bool

record observability_config =
  oc_Enabled :: bool
  oc_Listen :: string

record notification_config =
  no_Enabled :: bool
  no_OnSuccess :: bool
  no_OnFailure :: bool
  no_WebhookEnv :: string
  no_TelegramToken :: string
  no_TelegramChatID :: string

record fleet_account_config =
  fa_Name :: string
  fa_APIURL :: string
  fa_GraphQLURL :: string
  fa_TokenEnv :: string
  fa_BackupRoot :: string
  fa_CloneProtocol :: string

record fleet_config =
  fl_Enabled :: bool
  fl_Concurrency :: int
  fl_Accounts :: "fleet_account_config list"

record audit_config =
  au_Enabled :: bool
  au_Required :: bool
  au_Path :: string

record cas_config =
  ca_Enabled :: bool
  ca_Root :: string
  ca_MinFileSize :: int
  ca_AutoCompact :: bool

record policy_config =
  pc_Enabled :: bool
  pc_EnforceInHealth :: bool
  pc_MaxBackupAge :: dur_text
  pc_MaxFailedRepositories :: int
  pc_MaxWarnings :: int
  pc_RequireSignedManifest :: bool
  pc_RequireAudit :: bool
  pc_MaxRecoveryDrillAge :: dur_text
  pc_MaxGitLabDrillAge :: dur_text
  pc_MaxOffsiteAge :: dur_text
  pc_MaxRecoveryDrillDuration :: dur_text
  pc_MaxGitLabDrillDuration :: dur_text

record package_payload_config =
  pk_Enabled :: bool
  pk_NPM :: bool
  pk_NuGet :: bool
  pk_Maven :: bool
  pk_RubyGems :: bool
  pk_MaxBytes :: int
  pk_NPMRegistry :: string
  pk_NuGetRegistry :: string
  pk_MavenRegistry :: string
  pk_RubyGemsRegistry :: string

record store_config =
  so_Driver :: string
  so_SQLitePath :: string
  so_DSNEnv :: string

record generation_config =
  gn_Enabled :: bool
  gn_Root :: string
  gn_RestoreRoot :: string
  gn_KeepPerRepo :: int

record mirroring_config =
  mi_Enabled :: bool
  mi_AfterBackup :: bool

record agent_config =
  ag_Enabled :: bool
  ag_Listen :: string
  ag_ServerURL :: string
  ag_CAPath :: string
  ag_CAKeyPath :: string
  ag_ServerCertPath :: string
  ag_ServerKeyPath :: string
  ag_ClientCertPath :: string
  ag_ClientKeyPath :: string
  ag_AgentName :: string
  ag_Heartbeat :: dur_text
  ag_ReplicationKeyPath :: string
  ag_Labels :: "(string, string) gomap"

record restore_approval_config =
  ra_Enabled :: bool
  ra_ApprovalTTL :: dur_text
  ra_RequireDistinctApprover :: bool
  ra_Requesters :: "string list"
  ra_Approvers :: "string list"

record web_auth_config =
  wa_Enabled :: bool
  wa_Mode :: string
  wa_Issuer :: string
  wa_ClientID :: string
  wa_ClientSecretEnv :: string
  wa_RedirectURL :: string
  wa_SessionKeyEnv :: string
  wa_GroupClaim :: string
  wa_Scopes :: "string list"
  wa_StepUpACRValues :: "string list"
  wa_ViewerGroups :: "string list"
  wa_OperatorGroups :: "string list"
  wa_AdminGroups :: "string list"
  wa_RequiredAMR :: "string list"
  wa_SecureCookies :: bool

record control_plane_config =
  cp_Enabled :: bool
  cp_Store :: store_config
  cp_Workers :: worker_config
  cp_Scheduler :: scheduler_config
  cp_Generations :: generation_config
  cp_Mirroring :: mirroring_config
  cp_Agents :: agent_config
  cp_Replication :: replication_config
  cp_RestoreAuth :: restore_approval_config
  cp_Storage :: storage_data_config
  cp_WebAuth :: web_auth_config

record full_config =
  fc_Version :: int
  fc_GitHub :: github_config
  fc_Backup :: backup_config
  fc_GitLab :: gitlab_config
  fc_Daemon :: daemon_config
  fc_Security :: security_config
  fc_Offsite :: offsite_config
  fc_RecoveryDrill :: recovery_drill_config
  fc_Observability :: observability_config
  fc_Notifications :: notification_config
  fc_Fleet :: fleet_config
  fc_Audit :: audit_config
  fc_CAS :: cas_config
  fc_Policy :: policy_config
  fc_Packages :: package_payload_config
  fc_ControlPlane :: control_plane_config

text \<open>What the modelled control-plane components read of it.\<close>

definition control_config :: "full_config \<Rightarrow> config" where
  "control_config c = \<lparr>c_Workers = cp_Workers (fc_ControlPlane c), c_Scheduler = cp_Scheduler (fc_ControlPlane c),
     c_MirroringEnabled = mi_Enabled (cp_Mirroring (fc_ControlPlane c)), c_AgentLabels = ag_Labels (cp_Agents (fc_ControlPlane c)),
     c_Replication = cp_Replication (fc_ControlPlane c), c_Storage = cp_Storage (fc_ControlPlane c),
     c_IncludeForks = gh_IncludeForks (fc_GitHub c), c_IncludeArchived = gh_IncludeArchived (fc_GitHub c),
     c_BackupRoot = bk_Root (fc_Backup c)\<rparr>"

section \<open>Expansion of paths\<close>

text \<open>\<^verbatim>\<open>os.ExpandEnv\<close>, with the names of shell variables as \<^verbatim>\<open>os.getShellName\<close> finds them: the name and the bytes it takes.\<close>

definition is_special_var :: "char \<Rightarrow> bool" where
  "is_special_var c = (c \<in> set ''*#$@!?-0123456789'')"

definition is_upper_lower :: "char \<Rightarrow> bool" where
  "is_upper_lower c = (let n = (of_char (lower_char c) :: nat) in 97 \<le> n \<and> n \<le> 122)"

definition is_alnum :: "char \<Rightarrow> bool" where
  "is_alnum c = (is_upper_lower c \<or> of_char c \<in> {48 .. 57 :: nat} \<or> c = CHR ''_'')"

definition braced_name :: "string \<Rightarrow> string \<times> nat" where
  "braced_name s =
     (if length s > 1 \<and> is_special_var (hd s) \<and> s ! 1 = CHR ''}'' then (take 1 s, 3)
      else let name = takeWhile (\<lambda>c. c \<noteq> CHR ''}'') s
           in if length name = length s then ([], 1) else if name = [] then ([], 2) else (name, length name + 2))"

definition shell_name :: "string \<Rightarrow> string \<times> nat" where
  "shell_name s = (case s of [] \<Rightarrow> ([], 0)
     | c # cs \<Rightarrow> if c = CHR ''{'' then braced_name cs
                else if is_special_var c then ([c], 1)
                else let name = takeWhile is_alnum s in (name, length name))"

function ExpandEnv :: "(string \<Rightarrow> string) \<Rightarrow> string \<Rightarrow> string" where
  "ExpandEnv env [] = []"
| "ExpandEnv env (c # cs) =
     (if c = CHR ''$'' \<and> cs \<noteq> []
      then let (name, w) = shell_name cs
           in if name = [] \<and> w > 0 then ExpandEnv env (drop w cs)
              else if name = [] then c # ExpandEnv env cs
              else env name @ ExpandEnv env (drop w cs)
      else c # ExpandEnv env cs)"
  by pat_completeness auto

termination
  by (relation "measure (\<lambda>(env, s). length s)") auto

lemma ExpandEnv_plain: "CHR ''$'' \<notin> set s \<Longrightarrow> ExpandEnv env s = s"
  by (induction s) auto

definition expand :: "string \<Rightarrow> (string \<Rightarrow> string) \<Rightarrow> string \<Rightarrow> string" where
  "expand home env s =
     (if s = ''~'' then home
      else if HasPrefix s ''~/'' then path_Join [home, drop 2 s]
      else ExpandEnv env s)"

definition ExpandPaths :: "string \<Rightarrow> (string \<Rightarrow> string) \<Rightarrow> full_config \<Rightarrow> full_config" where
  "ExpandPaths home env c0 =
     (let e = expand home env;
          c1 = fc_Backup_update (bk_Root_update e) c0;
          c2 = fc_GitLab_update (gl_DataDir_update e) c1;
          c3 = fc_Security_update (se_SigningKeyPath_update e) c2;
          c4 = fc_RecoveryDrill_update (rd_WorkDir_update e) c3;
          c5 = fc_GitLab_update (gl_RestoreDrill_update (gd_WorkDir_update e)) c4;
          c6 = fc_Audit_update (au_Path_update e) c5;
          c7 = fc_CAS_update (ca_Root_update e) c6;
          c8 = fc_ControlPlane_update (cp_Store_update (so_SQLitePath_update e)) c7;
          c9 = fc_ControlPlane_update (cp_Generations_update (gn_Root_update e)) c8;
          c10 = fc_ControlPlane_update (cp_Generations_update (gn_RestoreRoot_update e)) c9;
          c11 = fc_ControlPlane_update (cp_Agents_update (ag_CAPath_update e)) c10;
          c12 = fc_ControlPlane_update (cp_Agents_update (ag_CAKeyPath_update e)) c11;
          c13 = fc_ControlPlane_update (cp_Agents_update (ag_ServerCertPath_update e)) c12;
          c14 = fc_ControlPlane_update (cp_Agents_update (ag_ServerKeyPath_update e)) c13;
          c15 = fc_ControlPlane_update (cp_Agents_update (ag_ClientCertPath_update e)) c14;
          c16 = fc_ControlPlane_update (cp_Agents_update (ag_ClientKeyPath_update e)) c15;
          c17 = fc_ControlPlane_update (cp_Agents_update (ag_ReplicationKeyPath_update e)) c16;
          c18 = fc_ControlPlane_update (cp_Replication_update (rc_SpoolRoot_update e)) c17;
          c19 = fc_ControlPlane_update (cp_Replication_update (rc_LocalKeyPath_update e)) c18;
          c20 = fc_ControlPlane_update (cp_Storage_update (sc_Tiering_update (ti_ColdRoot_update e))) c19
      in fc_Fleet_update (fl_Accounts_update (map (fa_BackupRoot_update e))) c20)"

section \<open>Defaults\<close>

definition seconds :: "int \<Rightarrow> dur_text" where "seconds n = DurOk (n * 1000000000)"
definition minutes :: "int \<Rightarrow> dur_text" where "minutes n = DurOk (n * 60 * 1000000000)"
definition hours :: "int \<Rightarrow> dur_text" where "hours n = DurOk (n * 3600 * 1000000000)"

lemmas dur_text_defs = seconds_def minutes_def hours_def

definition default_github :: github_config where
  "default_github = \<lparr>gh_APIURL = ''https://api.github.com'', gh_GraphQLURL = ''https://api.github.com/graphql'',
     gh_TokenEnv = ''GITHUB_TOKEN'', gh_CloneProtocol = ''https'', gh_Metadata = ''full'', gh_IncludeForks = True,
     gh_IncludeArchived = True, gh_ReleaseAssets = True, gh_Discussions = True, gh_Packages = True, gh_OCIExport = False,
     gh_MaxAssetBytes = 2 * 2 ^ 30, gh_MaxArtifactBytes = 2 * 2 ^ 30, gh_MaxMetadataPages = 100, gh_ActionsArtifacts = True,
     gh_ProjectsV2 = True\<rparr>"

definition default_gitlab :: "string \<Rightarrow> gitlab_config" where
  "default_gitlab home = \<lparr>gl_Enabled = False, gl_URL = ''http://gitlab.local:8080'', gl_TokenEnv = ''GITLAB_TOKEN'',
     gl_Image = ''gitlab/gitlab-ce:19.2.4-ce.0'', gl_Hostname = ''gitlab.local'', gl_HTTPPort = 8080, gl_HTTPSPort = 8443,
     gl_SSHPort = 2222, gl_DataDir = path_Join [home, ''.repoark'', ''gitlab''], gl_Container = ''repoark-gitlab'',
     gl_RemoteHost = [], gl_PreserveNamespaces = True,
     gl_RestoreDrill = \<lparr>gd_Enabled = False, gd_WorkDir = path_Join [home, ''.repoark'', ''gitlab-drills''], gd_HTTPPort = 18080,
       gd_SSHPort = 12222, gd_Timeout = minutes 20, gd_KeepOnFailure = True\<rparr>\<rparr>"

definition default_agents :: "string \<Rightarrow> agent_config" where
  "default_agents home =
     (let pki = (\<lambda>name. path_Join [home, ''.config'', ''repoark'', ''pki'', name]) in
      \<lparr>ag_Enabled = False, ag_Listen = ''127.0.0.1:9790'', ag_ServerURL = ''https://127.0.0.1:9790'', ag_CAPath = pki ''ca.pem'',
       ag_CAKeyPath = pki ''ca-key.pem'', ag_ServerCertPath = pki ''server.pem'', ag_ServerKeyPath = pki ''server-key.pem'',
       ag_ClientCertPath = pki ''agent.pem'', ag_ClientKeyPath = pki ''agent-key.pem'', ag_AgentName = ''local-agent'',
       ag_Heartbeat = seconds 15, ag_ReplicationKeyPath = pki ''replication-x25519.key'',
       ag_Labels = [(''role'', ''backup-worker'')]\<rparr>)"

definition default_storage :: "string \<Rightarrow> storage_data_config" where
  "default_storage home = \<lparr>sc_Enabled = True, sc_MinFreeBytes = 10 * 2 ^ 30, sc_MinFreePercent = 10, sc_MaxProbe = seconds 3,
     sc_EvacuateDegraded = True, sc_InventoryEnabled = True, sc_InventoryInterval = minutes 10, sc_ChunkBytes = 8 * 2 ^ 20,
     sc_ChunkRetries = 5, sc_BandwidthLimitMbps = 0, sc_ObjectReplicationFactor = 0, sc_ObjectPoolLabel = ''cas_pool'',
     sc_DiskTelemetry = \<lparr>dt_Enabled = False, dt_Interval = minutes 15, dt_SmartctlPath = ''smartctl'', dt_NVMePath = ''nvme'',
       dt_Device = [], dt_MaxTemperatureC = 70, dt_MaxPercentageUsed = 90, dt_MaxMediaErrors = 0, dt_RiskThreshold = 60\<rparr>,
     sc_Scrub = \<lparr>sb_Enabled = False, sb_Interval = hours 24, sb_SampleObjects = 100, sb_Repair = True, sb_SeedSalt = []\<rparr>,
     sc_Tiering = \<lparr>ti_Enabled = False, ti_ColdRoot = path_Join [home, ''.repoark'', ''cold-cas''], ti_MinAge = hours 168,
       ti_MinBytes = 64 * 2 ^ 20, ti_RcloneRemote = []\<rparr>,
     sc_Erasure = \<lparr>ec_Enabled = False, ec_MinObjectBytes = 4 * 2 ^ 30, ec_DataShards = 6, ec_ParityShards = 3,
       ec_BlockBytes = 2 ^ 20, ec_Distributed = False, ec_ShardReplication = 1, ec_FailureDomainLabel = ''zone'',
       ec_MinFailureDomains = 2, ec_ShardPoolLabel = ''cas_pool'', ec_ReconcileInterval = minutes 5\<rparr>\<rparr>"

definition default_control_plane :: "string \<Rightarrow> control_plane_config" where
  "default_control_plane home = \<lparr>cp_Enabled = False,
     cp_Store = \<lparr>so_Driver = ''sqlite'', so_SQLitePath = path_Join [home, ''.repoark'', ''control'', ''repoark.db''],
       so_DSNEnv = ''REPOARK_DATABASE_URL''\<rparr>,
     cp_Workers = \<lparr>wk_Concurrency = 2, wk_PollInterval = seconds 2, wk_Lease = minutes 2, wk_MaxAttempts = 5\<rparr>,
     cp_Scheduler = \<lparr>sd_Enabled = True, sd_Tick = seconds 30, sd_DiscoveryInterval = minutes 30, sd_DefaultInterval = hours 24,
       sd_Policies = [\<lparr>po_Pattern = ''*'', po_Interval = hours 24, po_Priority = 50, po_MirrorGitLab = True\<rparr>]\<rparr>,
     cp_Generations = \<lparr>gn_Enabled = True, gn_Root = path_Join [home, ''.repoark'', ''generations''],
       gn_RestoreRoot = path_Join [home, ''.repoark'', ''recovery''], gn_KeepPerRepo = 14\<rparr>,
     cp_Mirroring = \<lparr>mi_Enabled = False, mi_AfterBackup = True\<rparr>,
     cp_Agents = default_agents home,
     cp_Replication = \<lparr>rc_Enabled = False, rc_Factor = 2, rc_MinHealthy = 2, rc_ReconcileInterval = minutes 1,
       rc_AgentTimeout = minutes 2, rc_TransferTTL = hours 2, rc_SpoolRoot = path_Join [home, ''.repoark'', ''replication-spool''],
       rc_LocalKeyPath = path_Join [home, ''.config'', ''repoark'', ''pki'', ''replication-local-x25519.key''], rc_IncludeLocal = True,
       rc_MaxTransferBytes = 20 * 2 ^ 30, rc_FailureDomainLabel = [], rc_MinFailureDomains = 0, rc_AllowedAgents = [],
       rc_ExcludedAgents = []\<rparr>,
     cp_RestoreAuth = \<lparr>ra_Enabled = False, ra_ApprovalTTL = minutes 30, ra_RequireDistinctApprover = True, ra_Requesters = [],
       ra_Approvers = []\<rparr>,
     cp_Storage = default_storage home,
     cp_WebAuth = \<lparr>wa_Enabled = False, wa_Mode = ''oidc'', wa_Issuer = [], wa_ClientID = [],
       wa_ClientSecretEnv = ''REPOARK_OIDC_CLIENT_SECRET'', wa_RedirectURL = [], wa_SessionKeyEnv = ''REPOARK_SESSION_KEY'',
       wa_GroupClaim = ''groups'', wa_Scopes = [''profile'', ''email'', ''groups''], wa_StepUpACRValues = [], wa_ViewerGroups = [],
       wa_OperatorGroups = [], wa_AdminGroups = [], wa_RequiredAMR = [], wa_SecureCookies = True\<rparr>\<rparr>"

definition Default :: "string \<Rightarrow> full_config" where
  "Default home = \<lparr>fc_Version = 8, fc_GitHub = default_github,
     fc_Backup = \<lparr>bk_Root = path_Join [home, ''.repoark'', ''backups''], bk_Concurrency = 4, bk_CreateBundles = True,
       bk_FetchLFS = True, bk_VerifyAfterBackup = True, bk_KeepManifests = 30\<rparr>,
     fc_GitLab = default_gitlab home, fc_Daemon = \<lparr>dm_Interval = hours 24, dm_RunOnStart = True\<rparr>,
     fc_Security = \<lparr>se_RequireVerification = True, se_SignManifests = True,
       se_SigningKeyPath = path_Join [home, ''.config'', ''repoark'', ''manifest-ed25519.key''],
       se_KMSAttestation = \<lparr>km_Enabled = False, km_KeyID = [], km_SigningAlgorithm = ''ED25519_SHA_512'', km_Region = [],
         km_Profile = [], km_EndpointURL = [], km_RequireValid = True\<rparr>\<rparr>,
     fc_Offsite = \<lparr>ofs_Enabled = False, ofs_Backend = ''restic'', ofs_RepositoryEnv = ''RESTIC_REPOSITORY'',
       ofs_PasswordEnv = ''RESTIC_PASSWORD'', ofs_RcloneRemote = [], ofs_KeepDaily = 7, ofs_KeepWeekly = 8, ofs_KeepMonthly = 12,
       ofs_Prune = True, ofs_ObjectLock = \<lparr>lk_Enabled = False, lk_Bucket = [], lk_Prefix = [], lk_Region = [], lk_EndpointURL = [],
         lk_Profile = [], lk_RequireEnabled = False, lk_ExpectedMode = [], lk_MinRetentionDays = 0\<rparr>\<rparr>,
     fc_RecoveryDrill = \<lparr>rd_Enabled = False, rd_SampleSize = 3, rd_WorkDir = path_Join [home, ''.repoark'', ''drills''],
       rd_VerifyRefs = True, rd_KeepOnFailure = True\<rparr>,
     fc_Observability = \<lparr>oc_Enabled = False, oc_Listen = ''127.0.0.1:9787''\<rparr>,
     fc_Notifications = \<lparr>no_Enabled = False, no_OnSuccess = False, no_OnFailure = True, no_WebhookEnv = ''REPOARK_WEBHOOK_URL'',
       no_TelegramToken = ''REPOARK_TELEGRAM_TOKEN'', no_TelegramChatID = ''REPOARK_TELEGRAM_CHAT_ID''\<rparr>,
     fc_Fleet = \<lparr>fl_Enabled = False, fl_Concurrency = 2, fl_Accounts = []\<rparr>,
     fc_Audit = \<lparr>au_Enabled = True, au_Required = False, au_Path = path_Join [home, ''.repoark'', ''audit'', ''ledger.jsonl'']\<rparr>,
     fc_CAS = \<lparr>ca_Enabled = True, ca_Root = path_Join [home, ''.repoark'', ''cas''], ca_MinFileSize = 2 ^ 20, ca_AutoCompact = True\<rparr>,
     fc_Policy = \<lparr>pc_Enabled = True, pc_EnforceInHealth = True, pc_MaxBackupAge = hours 30, pc_MaxFailedRepositories = 0,
       pc_MaxWarnings = - 1, pc_RequireSignedManifest = True, pc_RequireAudit = False, pc_MaxRecoveryDrillAge = DurBlank,
       pc_MaxGitLabDrillAge = DurBlank, pc_MaxOffsiteAge = DurBlank, pc_MaxRecoveryDrillDuration = DurBlank,
       pc_MaxGitLabDrillDuration = DurBlank\<rparr>,
     fc_Packages = \<lparr>pk_Enabled = False, pk_NPM = True, pk_NuGet = True, pk_Maven = True, pk_RubyGems = True, pk_MaxBytes = 2 * 2 ^ 30,
       pk_NPMRegistry = ''https://npm.pkg.github.com'', pk_NuGetRegistry = ''https://nuget.pkg.github.com'',
       pk_MavenRegistry = ''https://maven.pkg.github.com'', pk_RubyGemsRegistry = ''https://rubygems.pkg.github.com''\<rparr>,
     fc_ControlPlane = default_control_plane home\<rparr>"

end
