(* ===== verification/Config_Validate.thy ===== *)
theory Config_Validate
  imports Full_Config Fmt
begin

text \<open>
  \<^verbatim>\<open>Config.Validate\<close> and \<^verbatim>\<open>Load\<close> (\<^verbatim>\<open>internal/config/config.go\<close>).  A sequence of guarded returns is the list of its
  conditions with their messages, of which the first that holds is reported; a loop over a map literal
  visits its entries in source order (the code in any order, which changes only which of several bad
  entries the message names).
\<close>

fun first_error :: "(bool \<times> string) list \<Rightarrow> go_error option" where
  "first_error [] = None"
| "first_error ((bad, msg) # cs) = (if bad then Some (GoErr msg) else first_error cs)"

lemma first_error_None: "first_error cs = None \<longleftrightarrow> (\<forall>(bad, msg) \<in> set cs. \<not> bad)"
  by (induction cs rule: first_error.induct) auto

definition when_on :: "bool \<Rightarrow> (bool \<times> string) list \<Rightarrow> (bool \<times> string) list" where
  "when_on b cs = (if b then cs else [])"

text \<open>\<^verbatim>\<open>d, err := time.ParseDuration(value); err != nil || d <= 0\<close>, and with blank texts skipped.\<close>

fun not_positive :: "dur_text \<Rightarrow> bool" where
  "not_positive (DurOk d) = (d \<le> 0)"
| "not_positive _ = True"

definition bad_unless_blank :: "dur_text \<Rightarrow> bool" where
  "bad_unless_blank t = (t \<noteq> DurBlank \<and> not_positive t)"

definition blank :: "string \<Rightarrow> bool" where
  "blank s = (TrimSpace s = [])"

definition upper_char :: "char \<Rightarrow> char" where
  "upper_char c = (if CHR ''a'' \<le> c \<and> c \<le> CHR ''z'' then char_of (of_char c - 32 :: nat) else c)"

definition ToUpper :: "string \<Rightarrow> string" where
  "ToUpper s = map upper_char s"

definition out_of :: "int \<Rightarrow> int \<Rightarrow> int \<Rightarrow> bool" where
  "out_of lo hi n = (n < lo \<or> n > hi)"

section \<open>The sections of the configuration\<close>

definition backup_checks :: "full_config \<Rightarrow> (bool \<times> string) list" where
  "backup_checks c = (let b = fc_Backup c; g = fc_GitHub c in
     [(bk_Root b = [], ''backup.root is empty''),
      (out_of 1 32 (bk_Concurrency b), ''backup.concurrency must be 1..32''),
      (bk_KeepManifests b < 0, ''backup.keep_manifests must be >= 0''),
      (gh_APIURL g = [] \<or> gh_GraphQLURL g = [], ''github api_url/graphql_url is empty''),
      (gh_CloneProtocol g \<noteq> ''https'' \<and> gh_CloneProtocol g \<noteq> ''ssh'', ''github.clone_protocol must be https or ssh''),
      (gh_Metadata g \<noteq> ''none'' \<and> gh_Metadata g \<noteq> ''basic'' \<and> gh_Metadata g \<noteq> ''full'', ''github.metadata must be none, basic or full''),
      (gh_MaxAssetBytes g < 0, ''github.max_asset_bytes must be >= 0''),
      (gh_MaxArtifactBytes g < 0, ''github.max_artifact_bytes must be >= 0''),
      (out_of 1 1000 (gh_MaxMetadataPages g), ''github.max_metadata_pages must be 1..1000'')])"

definition gitlab_checks :: "full_config \<Rightarrow> (bool \<times> string) list" where
  "gitlab_checks c = (let g = fc_GitLab c in when_on (gl_Enabled g)
     ((gl_URL g = [] \<or> gl_Image g = [] \<or> gl_DataDir g = [], ''gitlab url/image/data_dir required'')
      # map (\<lambda>(name, port). (out_of 1 65535 port, ''gitlab.'' @ name @ '' must be 1..65535''))
          [(''http_port'', gl_HTTPPort g), (''https_port'', gl_HTTPSPort g), (''ssh_port'', gl_SSHPort g)]))"

definition security_checks :: "full_config \<Rightarrow> (bool \<times> string) list" where
  "security_checks c = (let s = fc_Security c; k = se_KMSAttestation s in
     [(se_RequireVerification s \<and> \<not> bk_VerifyAfterBackup (fc_Backup c),
        ''security.require_verification requires backup.verify_after_backup: true''),
      (se_SignManifests s \<and> se_SigningKeyPath s = [], ''security.signing_key_path is required when sign_manifests is enabled'')]
     @ when_on (km_Enabled k)
       [(blank (km_KeyID k), ''security.kms_attestation.key_id is required''),
        (ToUpper (TrimSpace (km_SigningAlgorithm k)) \<noteq> ''ED25519_SHA_512'',
          ''security.kms_attestation currently requires ED25519_SHA_512 (RAW message mode)'')])"

definition offsite_checks :: "full_config \<Rightarrow> (bool \<times> string) list" where
  "offsite_checks c = (let o' = fc_Offsite c in when_on (ofs_Enabled o')
     (if ofs_Backend o' = ''restic'' then [(ofs_RepositoryEnv o' = [], ''offsite.repository_env is required for restic'')]
      else if ofs_Backend o' = ''rclone'' then [(blank (ofs_RcloneRemote o'), ''offsite.rclone_remote is required for rclone'')]
      else [(True, ''offsite.backend must be restic or rclone'')]))"

definition plain_checks :: "full_config \<Rightarrow> (bool \<times> string) list" where
  "plain_checks c =
     [(rd_SampleSize (fc_RecoveryDrill c) < 0, ''recovery_drill.sample_size must be >= 0''),
      (oc_Enabled (fc_Observability c) \<and> blank (oc_Listen (fc_Observability c)), ''observability.listen is required when enabled''),
      (au_Enabled (fc_Audit c) \<and> blank (au_Path (fc_Audit c)), ''audit.path is required when audit is enabled'')]
     @ when_on (ca_Enabled (fc_CAS c))
       [(blank (ca_Root (fc_CAS c)), ''cas.root is required when cas is enabled''),
        (ca_MinFileSize (fc_CAS c) < 0, ''cas.min_file_size must be >= 0'')]
     @ [(pk_MaxBytes (fc_Packages c) < 0, ''package_payloads.max_bytes must be >= 0'')]"

definition policy_checks :: "full_config \<Rightarrow> (bool \<times> string) list" where
  "policy_checks c = (let p = fc_Policy c in when_on (pc_Enabled p)
     (map (\<lambda>(name, value). (bad_unless_blank value, ''policy.'' @ name @ '' must be a positive duration''))
        [(''max_backup_age'', pc_MaxBackupAge p), (''max_recovery_drill_age'', pc_MaxRecoveryDrillAge p),
         (''max_gitlab_drill_age'', pc_MaxGitLabDrillAge p), (''max_offsite_age'', pc_MaxOffsiteAge p),
         (''max_recovery_drill_duration'', pc_MaxRecoveryDrillDuration p),
         (''max_gitlab_drill_duration'', pc_MaxGitLabDrillDuration p)]
      @ [(pc_MaxFailedRepositories p < 0, ''policy.max_failed_repositories must be >= 0'')]))"

fun account_checks :: "nat \<Rightarrow> string list \<Rightarrow> fleet_account_config list \<Rightarrow> (bool \<times> string) list" where
  "account_checks i seen [] = []"
| "account_checks i seen (a # as) =
     (blank (fa_Name a) \<or> blank (fa_TokenEnv a), ''fleet.accounts['' @ show_nat i @ ''] requires name and token_env'')
     # (fa_Name a \<in> set seen, ''duplicate fleet account name '' @ fa_Name a)
     # account_checks (i + 1) (fa_Name a # seen) as"

definition fleet_checks :: "full_config \<Rightarrow> (bool \<times> string) list" where
  "fleet_checks c = (let f = fc_Fleet c in when_on (fl_Enabled f)
     ((out_of 1 16 (fl_Concurrency f), ''fleet.concurrency must be 1..16'') # account_checks 0 [] (fl_Accounts f)))"

section \<open>The control plane\<close>

definition store_checks :: "store_config \<Rightarrow> (bool \<times> string) list" where
  "store_checks s = (let driver = ToLower (TrimSpace (so_Driver s)) in
     if driver = ''sqlite'' then [(blank (so_SQLitePath s), ''control_plane.store.sqlite_path is required'')]
     else if driver = ''postgres'' \<or> driver = ''postgresql''
     then [(blank (so_DSNEnv s), ''control_plane.store.dsn_env is required for postgres'')]
     else [(True, ''control_plane.store.driver must be sqlite or postgres'')])"

fun schedule_checks :: "nat \<Rightarrow> repo_schedule_policy list \<Rightarrow> (bool \<times> string) list" where
  "schedule_checks i [] = []"
| "schedule_checks i (p # ps) =
     (blank (po_Pattern p), ''control_plane.scheduler.policies['' @ show_nat i @ ''].pattern is empty'')
     # (not_positive (po_Interval p), ''control_plane.scheduler.policies['' @ show_nat i @ ''].interval must be positive'')
     # schedule_checks (i + 1) ps"

definition worker_checks :: "control_plane_config \<Rightarrow> (bool \<times> string) list" where
  "worker_checks p =
     [(out_of 1 64 (wk_Concurrency (cp_Workers p)), ''control_plane.workers.concurrency must be 1..64''),
      (out_of 1 100 (wk_MaxAttempts (cp_Workers p)), ''control_plane.workers.max_attempts must be 1..100'')]
     @ map (\<lambda>(name, value). (bad_unless_blank value, ''control_plane.'' @ name @ '' must be a positive duration''))
        [(''workers.poll_interval'', wk_PollInterval (cp_Workers p)), (''workers.lease'', wk_Lease (cp_Workers p)),
         (''scheduler.tick'', sd_Tick (cp_Scheduler p)), (''scheduler.discovery_interval'', sd_DiscoveryInterval (cp_Scheduler p)),
         (''scheduler.default_interval'', sd_DefaultInterval (cp_Scheduler p)), (''agents.heartbeat'', ag_Heartbeat (cp_Agents p))]
     @ when_on (gn_Enabled (cp_Generations p))
       [(blank (gn_Root (cp_Generations p)), ''control_plane.generations.root is required''),
        (gn_KeepPerRepo (cp_Generations p) < 1, ''control_plane.generations.keep_per_repo must be >= 1'')]
     @ schedule_checks 0 (sd_Policies (cp_Scheduler p))"

definition replication_checks :: "replication_config \<Rightarrow> (bool \<times> string) list" where
  "replication_checks r = when_on (rc_Enabled r)
     ([(out_of 2 32 (rc_Factor r), ''control_plane.replication.factor must be 2..32''),
       (out_of 1 (rc_Factor r) (rc_MinHealthy r), ''control_plane.replication.min_healthy must be 1..factor''),
       (if blank (rc_FailureDomainLabel r)
        then (rc_MinFailureDomains r \<noteq> 0, ''control_plane.replication.min_failure_domains requires failure_domain_label'')
        else (out_of 1 (rc_Factor r) (rc_MinFailureDomains r), ''control_plane.replication.min_failure_domains must be 1..factor'')),
       (blank (rc_SpoolRoot r) \<or> rc_MaxTransferBytes r \<le> 0,
         ''control_plane.replication spool_root and max_transfer_bytes are required'')]
      @ map (\<lambda>(name, value). (not_positive value, ''control_plane.'' @ name @ '' must be a positive duration''))
         [(''replication.reconcile_interval'', rc_ReconcileInterval r), (''replication.agent_timeout'', rc_AgentTimeout r),
          (''replication.transfer_ttl'', rc_TransferTTL r)]
      @ [(rc_IncludeLocal r \<and> blank (rc_LocalKeyPath r),
          ''control_plane.replication.local_key_path is required when include_local=true'')])"

definition erasure_checks :: "control_plane_config \<Rightarrow> erasure_config \<Rightarrow> (bool \<times> string) list" where
  "erasure_checks p e = when_on (ec_Enabled e)
     ([(out_of 2 32 (ec_DataShards e) \<or> out_of 1 16 (ec_ParityShards e) \<or> ec_DataShards e + ec_ParityShards e > 64,
         ''control_plane.storage.erasure shard counts are invalid''),
       (ec_MinObjectBytes e < 2 ^ 20 \<or> ec_BlockBytes e < 64 * 2 ^ 10, ''control_plane.storage.erasure size thresholds are invalid'')]
      @ when_on (ec_Distributed e)
        [(\<not> rc_Enabled (cp_Replication p) \<or> \<not> ag_Enabled (cp_Agents p), ''distributed erasure requires replication and agents''),
         (out_of 1 8 (ec_ShardReplication e), ''control_plane.storage.erasure.shard_replication must be 1..8''),
         (blank (ec_FailureDomainLabel e), ''distributed erasure requires failure_domain_label''),
         (ec_MinFailureDomains e < 1, ''distributed erasure min_failure_domains must be >= 1''),
         (not_positive (ec_ReconcileInterval e), ''distributed erasure reconcile_interval must be positive'')])"

definition tiering_checks :: "tiering_config \<Rightarrow> (bool \<times> string) list" where
  "tiering_checks t = when_on (ti_Enabled t)
     [(blank (ti_ColdRoot t) \<and> blank (ti_RcloneRemote t), ''control_plane.storage.tiering requires cold_root or rclone_remote''),
      (\<not> dur_ok (ti_MinAge t) \<or> ParseDuration (ti_MinAge t) < 0, ''control_plane.storage.tiering.min_age must be non-negative''),
      (ti_MinBytes t < 0, ''control_plane.storage.tiering.min_bytes must be >= 0'')]"

definition storage_checks :: "control_plane_config \<Rightarrow> (bool \<times> string) list" where
  "storage_checks p = (let s = cp_Storage p; t = sc_DiskTelemetry s; b = sc_Scrub s in when_on (sc_Enabled s)
     ([(sc_MinFreeBytes s < 0 \<or> sc_MinFreePercent s < 0 \<or> sc_MinFreePercent s > 100,
         ''control_plane.storage free-space thresholds are invalid''),
       (not_positive (sc_MaxProbe s), ''control_plane.storage.max_probe must be positive''),
       (not_positive (sc_InventoryInterval s), ''control_plane.storage.inventory_interval must be positive''),
       (out_of (64 * 2 ^ 10) (256 * 2 ^ 20) (sc_ChunkBytes s), ''control_plane.storage.chunk_bytes must be 64KiB..256MiB''),
       (out_of 1 20 (sc_ChunkRetries s), ''control_plane.storage.chunk_retries must be 1..20''),
       (sc_BandwidthLimitMbps s < 0, ''control_plane.storage.bandwidth_limit_mbps must be >= 0''),
       (out_of 0 32 (sc_ObjectReplicationFactor s), ''control_plane.storage.object_replication_factor must be 0..32'')]
      @ when_on (sc_ObjectReplicationFactor s > 0)
        [(\<not> rc_Enabled (cp_Replication p),
           ''control_plane.storage.object_replication_factor requires control_plane.replication.enabled''),
         (\<not> ag_Enabled (cp_Agents p), ''control_plane.storage.object_replication_factor requires control_plane.agents.enabled'')]
      @ when_on (dt_Enabled t)
        [(not_positive (dt_Interval t), ''control_plane.storage.disk_telemetry.interval must be positive''),
         (out_of 1 100 (dt_RiskThreshold t), ''control_plane.storage.disk_telemetry.risk_threshold must be 1..100'')]
      @ when_on (sb_Enabled b)
        [(not_positive (sb_Interval b), ''control_plane.storage.scrub.interval must be positive''),
         (sb_SampleObjects b < 1, ''control_plane.storage.scrub.sample_objects must be >= 1'')]
      @ tiering_checks (sc_Tiering s)
      @ erasure_checks p (sc_Erasure s)))"

definition auth_checks :: "control_plane_config \<Rightarrow> (bool \<times> string) list" where
  "auth_checks p = (let a = cp_WebAuth p; g = cp_Agents p in
     when_on (wa_Enabled a)
       [(ToLower (TrimSpace (wa_Mode a)) \<noteq> ''oidc'', ''control_plane.web_auth.mode must be oidc''),
        (blank (wa_Issuer a) \<or> blank (wa_ClientID a) \<or> blank (wa_RedirectURL a) \<or> blank (wa_ClientSecretEnv a) \<or> blank (wa_SessionKeyEnv a),
          ''control_plane.web_auth OIDC issuer/client_id/redirect_url/secret env/session env are required''),
        (length (wa_ViewerGroups a) + length (wa_OperatorGroups a) + length (wa_AdminGroups a) = 0,
          ''control_plane.web_auth requires at least one viewer/operator/admin group'')]
     @ when_on (ra_Enabled (cp_RestoreAuth p))
       [(not_positive (ra_ApprovalTTL (cp_RestoreAuth p)), ''control_plane.restore_approval.approval_ttl must be positive'')]
     @ when_on (ag_Enabled g)
       [(blank (ag_Listen g), ''control_plane.agents.listen is required''),
        (blank (ag_CAPath g) \<or> blank (ag_ServerCertPath g) \<or> blank (ag_ServerKeyPath g),
          ''control_plane.agents CA/server certificate paths are required'')])"

definition control_plane_checks :: "control_plane_config \<Rightarrow> (bool \<times> string) list" where
  "control_plane_checks p = when_on (cp_Enabled p)
     (store_checks (cp_Store p) @ worker_checks p @ replication_checks (cp_Replication p) @ storage_checks p @ auth_checks p)"

section \<open>All of it\<close>

definition lock_checks :: "object_lock_config \<Rightarrow> (bool \<times> string) list" where
  "lock_checks l = when_on (lk_Enabled l)
     (let mode = ToUpper (TrimSpace (lk_ExpectedMode l)) in
      [(blank (lk_Bucket l), ''offsite.object_lock.bucket is required''),
       (mode \<noteq> [] \<and> mode \<noteq> ''GOVERNANCE'' \<and> mode \<noteq> ''COMPLIANCE'', ''offsite.object_lock.expected_mode must be GOVERNANCE or COMPLIANCE''),
       (lk_MinRetentionDays l < 0, ''offsite.object_lock.min_retention_days must be >= 0'')])"

definition drill_checks :: "gitlab_restore_drill_config \<Rightarrow> (bool \<times> string) list" where
  "drill_checks d = when_on (gd_Enabled d)
     [(blank (gd_WorkDir d), ''gitlab.restore_drill.work_dir is required''),
      (out_of 1 65535 (gd_HTTPPort d) \<or> out_of 1 65535 (gd_SSHPort d), ''gitlab.restore_drill ports must be 1..65535''),
      (not_positive (gd_Timeout d), ''gitlab.restore_drill.timeout must be a positive duration'')]"

definition daemon_checks :: "daemon_config \<Rightarrow> (bool \<times> string) list" where
  "daemon_checks d =
     [(\<not> dur_ok (dm_Interval d), ''daemon.interval: invalid duration''),
      (ParseDuration (dm_Interval d) \<le> 0, ''daemon.interval must be greater than zero'')]"

definition Validate :: "full_config \<Rightarrow> go_error option" where
  "Validate c = first_error
     (backup_checks c @ gitlab_checks c @ security_checks c @ offsite_checks c @ plain_checks c @ policy_checks c @ fleet_checks c
      @ control_plane_checks (fc_ControlPlane c) @ lock_checks (ofs_ObjectLock (fc_Offsite c))
      @ drill_checks (gl_RestoreDrill (fc_GitLab c)) @ daemon_checks (fc_Daemon c))"

text \<open>
  \<^verbatim>\<open>Load\<close>: the file is \<open>None\<close> when it does not exist, otherwise what reading it and \<^verbatim>\<open>yaml.Unmarshal\<close> make of
  the defaults.  The configuration that comes with an error is not used.
\<close>

definition Load :: "string \<Rightarrow> (string \<Rightarrow> string) \<Rightarrow> (full_config \<Rightarrow> full_config result) option \<Rightarrow> full_config result" where
  "Load home env content =
     (case content of
        None \<Rightarrow> Inr (ExpandPaths home env (Default home))
      | Some decode \<Rightarrow>
          (case decode (Default home) of
             Inl e \<Rightarrow> Inl e
           | Inr c \<Rightarrow>
               let c1 = (if fc_Version c < 8 then c\<lparr>fc_Version := 8\<rparr> else c); c2 = ExpandPaths home env c1
               in (case Validate c2 of Some e \<Rightarrow> Inl e | None \<Rightarrow> Inr c2)))"

text \<open>\<^verbatim>\<open>Save\<close>: the configuration that is written, or the error that stops it.\<close>

definition Save :: "string \<Rightarrow> (string \<Rightarrow> string) \<Rightarrow> full_config \<Rightarrow> full_config result" where
  "Save home env c = (let c1 = ExpandPaths home env c in case Validate c1 of Some e \<Rightarrow> Inl e | None \<Rightarrow> Inr c1)"

end
