(* ===== verification/Erasure_Codec.thy ===== *)
theory Erasure_Codec
  imports Fmt Paths
begin

text \<open>
  The erasure codec (\<^verbatim>\<open>internal/erasure/erasure.go\<close>): an object is cut into blocks, each block into data
  shards with parity shards added, the shards go to one file each, and a manifest records sizes and
  hashes; the object is rebuilt from any sufficient number of shard files whose hash is right.

  The Reed-Solomon library is the record \<open>rs_codec\<close>, SHA-256 the argument \<open>sha\<close> (hex digest of a byte
  string).  A directory of shards is its manifest, by what decoding its JSON gives (\<open>None\<close> when the
  file is absent or malformed), and its files; staging directories and temporary files leave no trace,
  and reading and writing open files does not fail.
\<close>

record rs_codec =
  rs_New :: "int \<Rightarrow> int \<Rightarrow> go_error option"
  rs_Encode :: "int \<Rightarrow> int \<Rightarrow> string list \<Rightarrow> string list result"
  rs_Reconstruct :: "int \<Rightarrow> int \<Rightarrow> string option list \<Rightarrow> string list result"

record codec_config =
  cf_DataShards :: int
  cf_ParityShards :: int
  cf_BlockBytes :: int

record shard =
  sd_Index :: int
  sd_Name :: string
  sd_Bytes :: int
  sd_SHA256 :: string

record manifest =
  mf_Version :: int
  mf_ObjectSHA256 :: string
  mf_OriginalBytes :: int
  mf_DataShards :: int
  mf_ParityShards :: int
  mf_BlockBytes :: int
  mf_Blocks :: int
  mf_CreatedAt :: time
  mf_Shards :: "shard list"

record erasure_dir =
  ed_Manifest :: "manifest option"
  ed_Files :: "(string, string) gomap"

definition shard_name :: "nat \<Rightarrow> string" where
  "shard_name i = ''shard-'' @ pad0 3 i @ ''.rs''"

section \<open>Encoding\<close>

text \<open>\<^verbatim>\<open>buf\<close> cut into the slices of \<open>b\<close> bytes of the data shards, then empty parity shards.\<close>

definition slices :: "nat \<Rightarrow> nat \<Rightarrow> string \<Rightarrow> string list" where
  "slices k b buf = map (\<lambda>i. take b (drop (i * b) buf)) [0..<k]"

text \<open>
  The read loop: \<open>data\<close> is the rest of the object, \<open>outs\<close> the shard files so far.  With an empty buffer,
  which the configuration check excludes, it stops.
\<close>

function encode_loop :: "rs_codec \<Rightarrow> nat \<Rightarrow> nat \<Rightarrow> nat \<Rightarrow> string \<Rightarrow> string list \<Rightarrow> int \<Rightarrow> (string list \<times> int) result" where
  "encode_loop rs k p b data outs blocks =
     (if data = [] \<or> k * b = 0 then Inr (outs, blocks)
      else
        let got = take (k * b) data; buf = got @ replicate (k * b - length got) (CHR 0x00)
        in (case rs_Encode rs (int k) (int p) (slices k b buf @ replicate p (replicate b (CHR 0x00))) of
              Inl e \<Rightarrow> Inl e
            | Inr shards \<Rightarrow>
                let outs1 = map2 (@) outs shards in
                if length data < k * b then Inr (outs1, blocks + 1)
                else encode_loop rs k p b (drop (k * b) data) outs1 (blocks + 1)))"
  by pat_completeness auto

termination
  by (relation "measure (\<lambda>(rs, k, p, b, data, outs, blocks). length data)") auto

declare encode_loop.simps [simp del]

definition shard_entry :: "(string \<Rightarrow> string) \<Rightarrow> nat \<Rightarrow> string \<Rightarrow> shard" where
  "shard_entry sha i c = \<lparr>sd_Index = int i, sd_Name = shard_name i, sd_Bytes = int (length c), sd_SHA256 = sha c\<rparr>"

definition EncodeFile ::
  "rs_codec \<Rightarrow> (string \<Rightarrow> string) \<Rightarrow> time \<Rightarrow> codec_config \<Rightarrow> string option \<Rightarrow> erasure_dir option \<Rightarrow> manifest result \<times> erasure_dir option" where
  "EncodeFile rs sha now cfg src dst =
     (if cf_DataShards cfg < 2 \<or> cf_ParityShards cfg < 1 \<or> cf_BlockBytes cfg < 64 * 2 ^ 10
      then (Inl (GoErr ''invalid erasure configuration''), dst)
      else (case rs_New rs (cf_DataShards cfg) (cf_ParityShards cfg) of
          Some e \<Rightarrow> (Inl e, dst)
        | None \<Rightarrow>
          (case src of
             None \<Rightarrow> (Inl (GoErr ''no such file or directory''), dst)
           | Some data \<Rightarrow>
               let k = nat (cf_DataShards cfg); p = nat (cf_ParityShards cfg); total = k + p in
               (case encode_loop rs k p (nat (cf_BlockBytes cfg)) data (replicate total []) 0 of
                  Inl e \<Rightarrow> (Inl e, dst)
                | Inr (outs, blocks) \<Rightarrow>
                    let m = \<lparr>mf_Version = 1, mf_ObjectSHA256 = sha data, mf_OriginalBytes = int (length data),
                          mf_DataShards = cf_DataShards cfg, mf_ParityShards = cf_ParityShards cfg,
                          mf_BlockBytes = cf_BlockBytes cfg, mf_Blocks = blocks, mf_CreatedAt = now,
                          mf_Shards = map (\<lambda>i. shard_entry sha i (outs ! i)) [0..<total]\<rparr>
                    in (case dst of
                          None \<Rightarrow> (Inr m, Some \<lparr>ed_Manifest = Some m, ed_Files = map (\<lambda>i. (shard_name i, outs ! i)) [0..<total]\<rparr>)
                        | Some d \<Rightarrow>
                            (case ed_Manifest d of
                               Some old \<Rightarrow>
                                 if mf_ObjectSHA256 old = mf_ObjectSHA256 m then (Inr old, dst)
                                 else (Inl (GoErr ''erasure destination already exists''), dst)
                             | None \<Rightarrow> (Inl (GoErr ''erasure destination already exists''), dst)))))))"

section \<open>Verification and reconstruction\<close>

definition ReadManifest :: "erasure_dir \<Rightarrow> manifest result" where
  "ReadManifest d = (case ed_Manifest d of None \<Rightarrow> Inl (GoErr ''manifest unreadable'') | Some m \<Rightarrow> Inr m)"

definition shard_valid :: "(string \<Rightarrow> string) \<Rightarrow> erasure_dir \<Rightarrow> shard \<Rightarrow> bool" where
  "shard_valid sha d sh = (case gget (ed_Files d) (path_Base (sd_Name sh)) of
     None \<Rightarrow> False
   | Some c \<Rightarrow> int (length c) = sd_Bytes sh \<and> EqualFold (sha c) (sd_SHA256 sh))"

definition Verify :: "(string \<Rightarrow> string) \<Rightarrow> erasure_dir \<Rightarrow> manifest result" where
  "Verify sha d = (case ReadManifest d of
     Inl e \<Rightarrow> Inl e
   | Inr m \<Rightarrow>
       let valid = length (filter (shard_valid sha d) (mf_Shards m))
       in if int valid < mf_DataShards m
          then Inl (GoErr (''only '' @ show_nat valid @ ''/'' @ itoa (mf_DataShards m) @ '' required shards verify''))
          else Inr m)"

text \<open>The file of shard \<open>i\<close> if the manifest names it and its hash is right.\<close>

definition open_shard :: "(string \<Rightarrow> string) \<Rightarrow> erasure_dir \<Rightarrow> (int, shard) gomap \<Rightarrow> int \<Rightarrow> string option" where
  "open_shard sha d byIndex i = (case gget byIndex i of
     None \<Rightarrow> None
   | Some sh \<Rightarrow>
       (case gget (ed_Files d) (path_Base (sd_Name sh)) of
          None \<Rightarrow> None
        | Some c \<Rightarrow> if EqualFold (sha c) (sd_SHA256 sh) then Some c else None))"

text \<open>One block of every open file, and the rest of the files: \<^verbatim>\<open>io.ReadFull\<close> fails on a short file.\<close>

fun read_block :: "nat \<Rightarrow> string option list \<Rightarrow> (string option list \<times> string option list) result" where
  "read_block b [] = Inr ([], [])"
| "read_block b (None # ins) = (case read_block b ins of Inl e \<Rightarrow> Inl e | Inr (bs, rs) \<Rightarrow> Inr (None # bs, None # rs))"
| "read_block b (Some c # ins) =
     (if length c < b then Inl (GoErr (if c = [] then ''EOF'' else ''unexpected EOF''))
      else (case read_block b ins of Inl e \<Rightarrow> Inl e | Inr (bs, rs) \<Rightarrow> Inr (Some (take b c) # bs, Some (drop b c) # rs)))"

text \<open>The data shards of a block, until \<open>remaining\<close> bytes are written.\<close>

fun write_data :: "string list \<Rightarrow> int \<Rightarrow> string \<Rightarrow> string \<times> int" where
  "write_data [] remaining out = (out, remaining)"
| "write_data (s # ss) remaining out =
     (if remaining > 0
      then let n = min (int (length s)) remaining in write_data ss (remaining - n) (out @ take (nat n) s)
      else (out, remaining))"

fun reconstruct_loop :: "rs_codec \<Rightarrow> manifest \<Rightarrow> nat \<Rightarrow> string option list \<Rightarrow> int \<Rightarrow> string \<Rightarrow> (string \<times> int) result" where
  "reconstruct_loop rs m 0 ins remaining out = Inr (out, remaining)"
| "reconstruct_loop rs m (Suc n) ins remaining out =
     (if mf_BlockBytes m < 0 \<and> (\<exists>c \<in> set ins. c \<noteq> None) then Inl (GoPanic ''makeslice: len out of range'')
      else (case read_block (nat (mf_BlockBytes m)) ins of
          Inl e \<Rightarrow> Inl e
        | Inr (shards, rest) \<Rightarrow>
            (case rs_Reconstruct rs (mf_DataShards m) (mf_ParityShards m) shards of
               Inl e \<Rightarrow> Inl e
             | Inr full \<Rightarrow>
                 let (out1, remaining1) = write_data (take (nat (mf_DataShards m)) full) remaining out
                 in reconstruct_loop rs m n rest remaining1 out1)))"

text \<open>The outcome and the destination file.\<close>

definition Reconstruct :: "rs_codec \<Rightarrow> (string \<Rightarrow> string) \<Rightarrow> erasure_dir \<Rightarrow> string option \<Rightarrow> unit result \<times> string option" where
  "Reconstruct rs sha d dst = (case ReadManifest d of
     Inl e \<Rightarrow> (Inl e, dst)
   | Inr m \<Rightarrow>
       (case rs_New rs (mf_DataShards m) (mf_ParityShards m) of
          Some e \<Rightarrow> (Inl e, dst)
        | None \<Rightarrow>
            let total = mf_DataShards m + mf_ParityShards m;
                byIndex = fold (\<lambda>sh. gput (sd_Index sh) sh) (mf_Shards m) [];
                ins = map (\<lambda>i. open_shard sha d byIndex (int i)) [0..<nat total];
                available = length (filter (\<lambda>c. c \<noteq> None) ins)
            in if total < 0 then (Inl (GoPanic ''makeslice: len out of range''), dst)
               else if int available < mf_DataShards m
               then (Inl (GoErr (''insufficient valid shards: '' @ show_nat available @ '' < '' @ itoa (mf_DataShards m))), dst)
               else (case reconstruct_loop rs m (nat (mf_Blocks m)) ins (mf_OriginalBytes m) [] of
                   Inl e \<Rightarrow> (Inl e, dst)
                 | Inr (out, remaining) \<Rightarrow>
                     if remaining \<noteq> 0
                     then (Inl (GoErr (''reconstruction truncated: '' @ itoa remaining @ '' bytes missing'')), dst)
                     else if \<not> EqualFold (sha out) (mf_ObjectSHA256 m)
                     then (Inl (GoErr ''reconstructed object SHA-256 mismatch''), dst)
                     else (Inr (), Some out))))"

section \<open>Protecting the objects of a backup\<close>

text \<open>
  \<^verbatim>\<open>walked\<close> holds the regular files the walk over the given roots meets, with their contents; \<open>cas\<close> the
  objects of the content-addressed store by path; \<open>dirs\<close> the erasure directories by path.
\<close>

fun protect_loop ::
  "rs_codec \<Rightarrow> (string \<Rightarrow> string) \<Rightarrow> time \<Rightarrow> codec_config \<Rightarrow> string \<Rightarrow> (string, string) gomap \<Rightarrow> (string \<times> string) list \<Rightarrow>
   string list \<Rightarrow> int \<Rightarrow> (string, erasure_dir) gomap \<Rightarrow> int \<times> go_error option \<times> (string, erasure_dir) gomap" where
  "protect_loop rs sha now cfg casRoot cas [] seen n dirs = (n, None, dirs)"
| "protect_loop rs sha now cfg casRoot cas ((path, c) # files) seen n dirs =
     (let digest = sha c in
      if digest \<in> set seen then protect_loop rs sha now cfg casRoot cas files seen n dirs
      else if length digest < 2 then (n, Some (GoPanic ''slice bounds out of range''), dirs)
      else
        let obj = path_Join [casRoot, ''sha256'', take 2 digest, digest];
            dst = path_Join [casRoot, ''erasure'', take 2 digest, digest]
        in (case gget cas obj of
              None \<Rightarrow> protect_loop rs sha now cfg casRoot cas files (digest # seen) n dirs
            | Some content \<Rightarrow>
                (case EncodeFile rs sha now cfg (Some content) (gget dirs dst) of
                   (Inl e, _) \<Rightarrow> (n, Some e, dirs)
                 | (Inr _, None) \<Rightarrow> protect_loop rs sha now cfg casRoot cas files (digest # seen) (n + 1) dirs
                 | (Inr _, Some d) \<Rightarrow> protect_loop rs sha now cfg casRoot cas files (digest # seen) (n + 1) (gput dst d dirs))))"

definition ProtectPaths ::
  "rs_codec \<Rightarrow> (string \<Rightarrow> string) \<Rightarrow> time \<Rightarrow> codec_config \<Rightarrow> string \<Rightarrow> (string, string) gomap \<Rightarrow> (string \<times> string) list \<Rightarrow> int \<Rightarrow>
   (string, erasure_dir) gomap \<Rightarrow> int \<times> go_error option \<times> (string, erasure_dir) gomap" where
  "ProtectPaths rs sha now cfg casRoot cas walked minBytes dirs =
     protect_loop rs sha now cfg casRoot cas (sort_key fst (filter (\<lambda>(path, c). int (length c) \<ge> minBytes) walked)) [] 0 dirs"

end
