(* ===== verification/Erasure_Roundtrip.thy ===== *)
theory Erasure_Roundtrip
  imports Erasure_Codec
begin

text \<open>
  An encoded object survives the loss of shard files: as long as as many shard files as there are data
  shards are intact, reconstruction gives back the object, byte for byte.
\<close>

section \<open>The Reed-Solomon library\<close>

text \<open>
  What \<^verbatim>\<open>reedsolomon\<close> documents for \<open>k\<close> data and \<open>p\<close> parity shards of equal positive size: \<^verbatim>\<open>Encode\<close>
  keeps the data shards and fills the parity shards; \<^verbatim>\<open>Reconstruct\<close> fills in the shards that are missing
  when at least \<open>k\<close> of them are there.
\<close>

definition partial_shards :: "nat \<Rightarrow> string list \<Rightarrow> string option list \<Rightarrow> bool" where
  "partial_shards k full part =
     (length part = length full \<and> (\<forall>i < length full. part ! i = None \<or> part ! i = Some (full ! i))
      \<and> k \<le> length (filter (\<lambda>x. x \<noteq> None) part))"

definition rs_correct :: "rs_codec \<Rightarrow> nat \<Rightarrow> nat \<Rightarrow> bool" where
  "rs_correct rs k p =
     (rs_New rs (int k) (int p) = None
      \<and> (\<forall>b ds. 0 < b \<longrightarrow> length ds = k \<longrightarrow> (\<forall>d \<in> set ds. length d = b) \<longrightarrow>
          (\<exists>ps. rs_Encode rs (int k) (int p) (ds @ replicate p (replicate b (CHR 0x00))) = Inr (ds @ ps)
             \<and> length ps = p \<and> (\<forall>d \<in> set ps. length d = b)
             \<and> (\<forall>part. partial_shards k (ds @ ps) part \<longrightarrow> rs_Reconstruct rs (int k) (int p) part = Inr (ds @ ps)))))"

lemma rs_correctD:
  assumes "rs_correct rs k p" "0 < b" "length ds = k" "\<forall>d \<in> set ds. length d = b"
  obtains ps where "rs_Encode rs (int k) (int p) (ds @ replicate p (replicate b (CHR 0x00))) = Inr (ds @ ps)"
    "length ps = p" "\<forall>d \<in> set ps. length d = b"
    "\<And>part. partial_shards k (ds @ ps) part \<Longrightarrow> rs_Reconstruct rs (int k) (int p) part = Inr (ds @ ps)"
  using assms unfolding rs_correct_def by blast

section \<open>One block\<close>

lemma length_slices [simp]: "length (slices k b buf) = k"
  by (simp add: slices_def)

lemma slices_sizes:
  assumes "length buf = k * b"
  shows "\<forall>d \<in> set (slices k b buf). length d = b"
proof -
  have "min (k * b - i * b) b = b" if "i < k" for i
    using that mult_le_mono1 [of "Suc i" k b] by simp
  then show ?thesis using assms by (auto simp: slices_def)
qed

lemma concat_slices: "concat (slices k b buf) = take (k * b) buf"
proof (induction k)
  case (Suc k)
  have "concat (slices (Suc k) b buf) = concat (slices k b buf) @ take b (drop (k * b) buf)" by (simp add: slices_def)
  with Suc show ?case by (simp add: take_add [symmetric] add.commute)
qed (simp add: slices_def)

lemma write_data_concat: "write_data ss (int r) out = (out @ take r (concat ss), int (r - length (concat ss)))"
proof (induction ss arbitrary: r out)
  case (Cons s ss)
  have "int r - min (int (length s)) (int r) = int (r - length s)" by simp
  moreover have "nat (min (int (length s)) (int r)) = min (length s) r" by simp
  ultimately show ?case using Cons by (auto simp: Let_def min_def)
qed simp

lemma read_block_map:
  assumes "\<forall>i \<in> set is. length (x i) = b"
  shows "read_block b (map (\<lambda>i. if i \<in> A then Some (x i @ y i) else None) is)
    = Inr (map (\<lambda>i. if i \<in> A then Some (x i) else None) is, map (\<lambda>i. if i \<in> A then Some (y i) else None) is)"
  using assms by (induction "is") auto

lemma partial_map:
  assumes "length full = n" "k \<le> card (A \<inter> {0..<n})"
  shows "partial_shards k full (map (\<lambda>i. if i \<in> A then Some (full ! i) else None) [0..<n])"
proof -
  have "filter (\<lambda>x. x \<noteq> None) (map (\<lambda>i. if i \<in> A then Some (full ! i) else None) [0..<n])
      = map (\<lambda>i. Some (full ! i)) (filter (\<lambda>i. i \<in> A) [0..<n])"
    by (simp add: filter_map comp_def)
  moreover have "length (filter (\<lambda>i. i \<in> A) [0..<n]) = card (A \<inter> {0..<n})"
    by (simp add: distinct_length_filter Int_commute)
  ultimately show ?thesis using assms by (simp add: partial_shards_def)
qed

section \<open>All blocks\<close>

lemma map2_append_assoc:
  "length xs = n \<Longrightarrow> length ys = n \<Longrightarrow> length zs = n \<Longrightarrow>
   map2 (@) (map2 (@) xs ys) zs = map2 (@) xs (map2 (@) ys zs)"
  by (simp add: list_eq_iff_nth_eq)

lemma map2_append_empty: "length xs = n \<Longrightarrow> map2 (@) xs (replicate n []) = xs"
  by (simp add: list_eq_iff_nth_eq)

definition code_params :: "manifest \<Rightarrow> nat \<Rightarrow> nat \<Rightarrow> nat \<Rightarrow> bool" where
  "code_params m k p b = (mf_DataShards m = int k \<and> mf_ParityShards m = int p \<and> mf_BlockBytes m = int b)"

definition rebuilds :: "rs_codec \<Rightarrow> nat \<Rightarrow> nat \<Rightarrow> nat \<Rightarrow> nat \<Rightarrow> string list \<Rightarrow> string \<Rightarrow> bool" where
  "rebuilds rs k p b n fs data = (\<forall>A m out. code_params m k p b \<longrightarrow> k \<le> card (A \<inter> {0..<k + p}) \<longrightarrow>
     reconstruct_loop rs m n (map (\<lambda>i. if i \<in> A then Some (fs ! i) else None) [0..<k + p]) (int (length data)) out = Inr (out @ data, 0))"

lemma rebuilds_block:
  assumes "length ds = k" "length ps = p" "\<forall>d \<in> set (ds @ ps). length d = b"
    and rs: "\<And>part. partial_shards k (ds @ ps) part \<Longrightarrow> rs_Reconstruct rs (int k) (int p) part = Inr (ds @ ps)"
    and rest: "rebuilds rs k p b n fs (drop (k * b) data)" "length fs = k + p"
    and data: "take (length data) (concat ds) = take (k * b) data" "length (concat ds) = k * b"
  shows "rebuilds rs k p b (Suc n) (map2 (@) (ds @ ps) fs) data"
  unfolding rebuilds_def
proof (intro allI impI)
  fix A m out assume m: "code_params m k p b" and A: "k \<le> card (A \<inter> {0..<k + p})"
  have files: "map (\<lambda>i. if i \<in> A then Some (map2 (@) (ds @ ps) fs ! i) else None) [0..<k + p]
      = map (\<lambda>i. if i \<in> A then Some ((ds @ ps) ! i @ fs ! i) else None) [0..<k + p]"
    using assms(1,2) rest(2) by (auto intro!: map_cong)
  have read: "read_block b (map (\<lambda>i. if i \<in> A then Some ((ds @ ps) ! i @ fs ! i) else None) [0..<k + p])
      = Inr (map (\<lambda>i. if i \<in> A then Some ((ds @ ps) ! i) else None) [0..<k + p],
             map (\<lambda>i. if i \<in> A then Some (fs ! i) else None) [0..<k + p])"
    by (rule read_block_map) (use assms(1-3) nth_mem [of _ "ds @ ps"] in auto)
  have full: "rs_Reconstruct rs (int k) (int p) (map (\<lambda>i. if i \<in> A then Some ((ds @ ps) ! i) else None) [0..<k + p]) = Inr (ds @ ps)"
    by (rule rs, rule partial_map) (use assms(1,2) A in auto)
  have "write_data ds (int (length data)) out = (out @ take (k * b) data, int (length (drop (k * b) data)))"
    using write_data_concat [of ds "length data" out] data by simp
  with rest(1) m A read full show "reconstruct_loop rs m (Suc n) (map (\<lambda>i. if i \<in> A then Some (map2 (@) (ds @ ps) fs ! i) else None) [0..<k + p])
      (int (length data)) out = Inr (out @ data, 0)"
    unfolding files by (simp add: rebuilds_def code_params_def assms(1))
qed

lemma encode_loop_rebuilds:
  assumes rs: "rs_correct rs k p" and "0 < k" "0 < b"
  shows "length outs = k + p \<Longrightarrow> \<exists>fs n. encode_loop rs k p b data outs blocks = Inr (map2 (@) outs fs, blocks + int n)
    \<and> length fs = k + p \<and> rebuilds rs k p b n fs data"
proof (induction "length data" arbitrary: data outs blocks rule: less_induct)
  case less
  show ?case
  proof (cases "data = []")
    case True
    have "encode_loop rs k p b data outs blocks = Inr (map2 (@) outs (replicate (k + p) []), blocks + int 0)"
      using less.prems True by (simp add: encode_loop.simps [of _ _ _ _ "[]"] map2_append_empty)
    moreover have "rebuilds rs k p b 0 (replicate (k + p) []) data" using True by (simp add: rebuilds_def)
    ultimately show ?thesis by (metis length_replicate)
  next
    case False
    let ?kb = "k * b" and ?got = "take (k * b) data"
    define buf where "buf = ?got @ replicate (?kb - length ?got) (CHR 0x00)"
    define ds where "ds = slices k b buf"
    have len: "length buf = ?kb" by (simp add: buf_def)
    have padded: "take (length data) buf = ?got" by (cases "length data \<le> ?kb") (simp_all add: buf_def min_def)
    have ds: "length ds = k" "\<forall>d \<in> set ds. length d = b" "concat ds = buf"
      using slices_sizes [OF len] by (simp_all add: ds_def concat_slices len)
    obtain ps where ps: "rs_Encode rs (int k) (int p) (ds @ replicate p (replicate b (CHR 0x00))) = Inr (ds @ ps)"
      "length ps = p" "\<forall>d \<in> set ps. length d = b"
      "\<And>part. partial_shards k (ds @ ps) part \<Longrightarrow> rs_Reconstruct rs (int k) (int p) part = Inr (ds @ ps)"
      using rs_correctD [OF rs \<open>0 < b\<close> ds(1,2)] by blast
    have block: "rebuilds rs k p b (Suc n) (map2 (@) (ds @ ps) fs) data"
      if "rebuilds rs k p b n fs (drop ?kb data)" "length fs = k + p" for n fs
      by (rule rebuilds_block [OF ds(1) ps(2) _ ps(4) that]) (use ds ps(3) len padded in auto)
    have step: "encode_loop rs k p b data outs blocks =
        (if length data < ?kb then Inr (map2 (@) outs (ds @ ps), blocks + 1)
         else encode_loop rs k p b (drop ?kb data) (map2 (@) outs (ds @ ps)) (blocks + 1))"
      using False assms(2,3) ps(1) unfolding ds_def buf_def
      by (simp add: encode_loop.simps [of rs k p b data] Let_def)
    show ?thesis
    proof (cases "length data < ?kb")
      case True
      then have none: "drop ?kb data = []" by simp
      have "rebuilds rs k p b 0 (replicate (k + p) []) (drop ?kb data)" by (simp add: rebuilds_def none)
      from block [OF this] have "rebuilds rs k p b (Suc 0) (ds @ ps) data"
        using ds(1) ps(2) by (simp add: map2_append_empty)
      with True step ds(1) ps(2) show ?thesis
        by (intro exI [of _ "ds @ ps"] exI [of _ "Suc 0"]) simp
    next
      case long: False
      have lens: "length (map2 (@) outs (ds @ ps)) = k + p" using less.prems ds(1) ps(2) by simp
      have "length (drop ?kb data) < length data" using False assms(2,3) by simp
      from less.hyps [OF this lens, of "blocks + 1"]
      obtain fs n where fs: "encode_loop rs k p b (drop ?kb data) (map2 (@) outs (ds @ ps)) (blocks + 1)
          = Inr (map2 (@) (map2 (@) outs (ds @ ps)) fs, blocks + 1 + int n)"
        "length fs = k + p" "rebuilds rs k p b n fs (drop ?kb data)" by blast
      have "map2 (@) (map2 (@) outs (ds @ ps)) fs = map2 (@) outs (map2 (@) (ds @ ps) fs)"
        by (rule map2_append_assoc) (use less.prems ds(1) ps(2) fs(2) in auto)
      with fs block [OF fs(3,2)] step long ds(1) ps(2) show ?thesis
        by (intro exI [of _ "map2 (@) (ds @ ps) fs"] exI [of _ "Suc n"]) simp
    qed
  qed
qed

section \<open>Files and manifests\<close>

lemma shard_name_inject [simp]: "shard_name i = shard_name j \<longleftrightarrow> i = j"
  by (simp add: shard_name_def inj_pad0)

lemma path_Base_shard_name [simp]: "path_Base (shard_name i) = shard_name i"
proof -
  have "CHR ''/'' \<notin> set (shard_name i)" using slash_not_digit by (simp add: shard_name_def)
  moreover have "shard_name i \<noteq> []" "last (shard_name i) \<noteq> CHR ''/''" by (simp_all add: shard_name_def)
  moreover from this have "dropWhile (\<lambda>c. c = CHR ''/'') (rev (shard_name i)) = rev (shard_name i)"
    by (simp add: dropWhile_eq_self_iff hd_rev)
  ultimately show ?thesis by (simp add: path_Base_def split_on_plain)
qed

lemma gget_files: "gget (map (\<lambda>i. (shard_name i, outs ! i)) [0..<n]) (shard_name j) = (if j < n then Some (outs ! j) else None)"
  by (induction n) (auto simp: map_add_def less_Suc_eq split: option.splits)

lemma gget_by_index:
  "gget (fold (\<lambda>sh. gput (sd_Index sh) sh) (map (\<lambda>i. shard_entry sha i (outs ! i)) [0..<n]) []) (int j)
   = (if j < n then Some (shard_entry sha j (outs ! j)) else None)"
  by (induction n) (auto simp: shard_entry_def)

text \<open>
  A directory some of whose shard files were lost or changed: the manifest and the shards of \<open>keep\<close> are
  intact, and no changed file has the hash of the original.
\<close>

definition damaged :: "(string \<Rightarrow> string) \<Rightarrow> nat set \<Rightarrow> erasure_dir \<Rightarrow> erasure_dir \<Rightarrow> bool" where
  "damaged sha keep d d' =
     (ed_Manifest d' = ed_Manifest d
      \<and> (\<forall>i \<in> keep. gget (ed_Files d') (shard_name i) = gget (ed_Files d) (shard_name i))
      \<and> (\<forall>name c c'. gget (ed_Files d) name = Some c \<longrightarrow> gget (ed_Files d') name = Some c' \<longrightarrow> EqualFold (sha c') (sha c) \<longrightarrow> c' = c))"

lemma open_damaged:
  fixes outs :: "string list"
  assumes "damaged sha keep d d'" "ed_Files d = map (\<lambda>i. (shard_name i, outs ! i)) [0..<n]" "i < n"
    and "f = open_shard sha d' (fold (\<lambda>sh. gput (sd_Index sh) sh) (map (\<lambda>i. shard_entry sha i (outs ! i)) [0..<n]) []) (int i)"
  shows "f = None \<or> f = Some (outs ! i)" "i \<in> keep \<Longrightarrow> f \<noteq> None"
proof -
  have f: "f = (case gget (ed_Files d') (shard_name i) of None \<Rightarrow> None | Some c \<Rightarrow> if EqualFold (sha c) (sha (outs ! i)) then Some c else None)"
    using assms(3) unfolding assms(4) open_shard_def gget_by_index by (simp add: shard_entry_def split: option.split)
  show "f = None \<or> f = Some (outs ! i)"
    using assms(1,3) gget_files [of outs n i] unfolding f by (auto simp: damaged_def assms(2) split: option.splits)
  show "f \<noteq> None" if "i \<in> keep"
    using assms(1,3) that gget_files [of outs n i] unfolding f by (auto simp: damaged_def assms(2))
qed

lemma count_from_keep:
  fixes P :: "nat \<Rightarrow> bool"
  assumes "keep \<subseteq> {0..<n}" "\<And>i. i \<in> keep \<Longrightarrow> P i"
  shows "card keep \<le> length (filter P [0..<n])"
proof -
  have "keep \<subseteq> Collect P \<inter> {0..<n}" using assms by auto
  then have "card keep \<le> card (Collect P \<inter> {0..<n})" by (intro card_mono) auto
  then show ?thesis by (simp add: distinct_length_filter Int_commute)
qed

lemma Verify_damaged:
  fixes outs :: "string list"
  assumes "damaged sha keep d d'" "ed_Files d = map (\<lambda>i. (shard_name i, outs ! i)) [0..<n]" "ed_Manifest d = Some m"
    and "mf_Shards m = map (\<lambda>i. shard_entry sha i (outs ! i)) [0..<n]" "mf_DataShards m = int k" "keep \<subseteq> {0..<n}" "k \<le> card keep"
  shows "Verify sha d' = Inr m"
proof -
  have "shard_valid sha d' (shard_entry sha i (outs ! i))" if "i \<in> keep" for i
  proof -
    have "gget (ed_Files d') (shard_name i) = Some (outs ! i)"
      using assms(1,2,6) that gget_files [of outs n i] by (auto simp: damaged_def)
    then show ?thesis by (simp add: shard_valid_def shard_entry_def)
  qed
  then have "card keep \<le> length (filter (shard_valid sha d') (mf_Shards m))"
    using count_from_keep [OF assms(6), of "\<lambda>i. shard_valid sha d' (shard_entry sha i (outs ! i))"]
    by (simp add: assms(4) filter_map comp_def)
  with assms(1,3,5,7) show ?thesis by (simp add: Verify_def ReadManifest_def damaged_def)
qed

lemma Reconstruct_damaged:
  fixes outs :: "string list"
  assumes rs: "rs_correct rs k p" and d: "damaged sha keep d d'" "keep \<subseteq> {0..<k + p}" "k \<le> card keep"
    and files: "ed_Files d = map (\<lambda>i. (shard_name i, outs ! i)) [0..<k + p]" "ed_Manifest d = Some m"
    and m: "mf_Shards m = map (\<lambda>i. shard_entry sha i (outs ! i)) [0..<k + p]" "code_params m k p b" "mf_Blocks m = int n"
      "mf_OriginalBytes m = int (length data)" "mf_ObjectSHA256 m = sha data"
    and rebuild: "rebuilds rs k p b n outs data"
  shows "Reconstruct rs sha d' dst = (Inr (), Some data)"
proof -
  let ?idx = "fold (\<lambda>sh. gput (sd_Index sh) sh) (mf_Shards m) []"
  define A where "A = {i. open_shard sha d' ?idx (int i) \<noteq> None}"
  define ins where "ins = map (\<lambda>i. open_shard sha d' ?idx (int i)) [0..<k + p]"
  note opened = open_damaged [OF d(1) files(1) _ refl, folded m(1)]
  have ins: "ins = map (\<lambda>i. if i \<in> A then Some (outs ! i) else None) [0..<k + p]"
    unfolding ins_def
  proof (rule map_cong [OF refl])
    fix i assume "i \<in> set [0..<k + p]"
    with opened(1) [of i] show "open_shard sha d' ?idx (int i) = (if i \<in> A then Some (outs ! i) else None)" by (auto simp: A_def)
  qed
  have keep: "keep \<subseteq> A \<inter> {0..<k + p}" using opened(2) d(2) by (auto simp: A_def)
  then have "card keep \<le> card (A \<inter> {0..<k + p})" by (intro card_mono) auto
  then have enough: "k \<le> card (A \<inter> {0..<k + p})" using d(3) by simp
  have "length (filter (\<lambda>c. c \<noteq> None) ins) = length (filter (\<lambda>i. open_shard sha d' ?idx (int i) \<noteq> None) [0..<k + p])"
    unfolding ins_def filter_map length_map comp_def ..
  with count_from_keep [OF d(2), of "\<lambda>i. open_shard sha d' ?idx (int i) \<noteq> None"] opened(2) d(2,3)
  have "k \<le> length (filter (\<lambda>c. c \<noteq> None) ins)" by force
  moreover have "reconstruct_loop rs m n ins (int (length data)) [] = Inr (data, 0)"
    using rebuild enough m(2) unfolding ins by (simp add: rebuilds_def)
  moreover have "rs_New rs (int k) (int p) = None" using rs by (simp add: rs_correct_def)
  moreover have "nat (int k + int p) = k + p" by simp
  ultimately show ?thesis
    using d(1) files(2) m(2-) by (simp add: Reconstruct_def ReadManifest_def damaged_def code_params_def Let_def ins_def)
qed

lemma encode_survives:
  assumes "rs_correct rs k p" "cf_DataShards cfg = int k" "cf_ParityShards cfg = int p"
    and "2 \<le> k" "1 \<le> p" "65536 \<le> cf_BlockBytes cfg"
  shows "\<exists>m d. EncodeFile rs sha now cfg (Some data) None = (Inr m, Some d) \<and> mf_ObjectSHA256 m = sha data
    \<and> (\<forall>keep d' dst. damaged sha keep d d' \<longrightarrow> keep \<subseteq> {0..<k + p} \<longrightarrow> k \<le> card keep \<longrightarrow>
         Verify sha d' = Inr m \<and> Reconstruct rs sha d' dst = (Inr (), Some data))"
proof -
  let ?b = "nat (cf_BlockBytes cfg)"
  obtain outs n where loop: "encode_loop rs k p ?b data (replicate (k + p) []) 0 = Inr (outs, int n)"
    and outs: "length outs = k + p" "rebuilds rs k p ?b n outs data"
  proof -
    have "map2 (@) (replicate (k + p) []) fs = fs" if "length fs = k + p" for fs :: "string list"
      using that by (simp add: list_eq_iff_nth_eq)
    with that encode_loop_rebuilds [OF assms(1), of ?b "replicate (k + p) []" data 0] assms(4,6) show ?thesis by fastforce
  qed
  define m where "m = \<lparr>mf_Version = 1, mf_ObjectSHA256 = sha data, mf_OriginalBytes = int (length data), mf_DataShards = int k,
    mf_ParityShards = int p, mf_BlockBytes = cf_BlockBytes cfg, mf_Blocks = int n, mf_CreatedAt = now,
    mf_Shards = map (\<lambda>i. shard_entry sha i (outs ! i)) [0..<k + p]\<rparr>"
  define d where "d = \<lparr>ed_Manifest = Some m, ed_Files = map (\<lambda>i. (shard_name i, outs ! i)) [0..<k + p]\<rparr>"
  have "EncodeFile rs sha now cfg (Some data) None = (Inr m, Some d)"
    using assms loop by (simp add: EncodeFile_def rs_correct_def m_def d_def Let_def)
  moreover have "Verify sha d' = Inr m" if "damaged sha keep d d'" "keep \<subseteq> {0..<k + p}" "k \<le> card keep" for keep d'
    by (rule Verify_damaged [OF that(1), where outs = outs]) (use that in \<open>simp_all add: d_def m_def\<close>)
  moreover have "Reconstruct rs sha d' dst = (Inr (), Some data)"
    if "damaged sha keep d d'" "keep \<subseteq> {0..<k + p}" "k \<le> card keep" for keep d' dst
    by (rule Reconstruct_damaged [OF assms(1) that, where outs = outs and b = ?b and n = n and m = m])
      (use outs assms(6) in \<open>simp_all add: d_def m_def code_params_def\<close>)
  ultimately show ?thesis by (intro exI [of _ m] exI [of _ d]) (simp add: m_def)
qed

text \<open>
  C22. Encoding and reconstruction are inverse under any damage the code promises to survive.  For a valid
  configuration of \<open>k\<close> data and \<open>p\<close> parity shards, encoding any object into a fresh directory succeeds;
  and from every directory in which at least \<open>k\<close> shard files are intact, whatever happened to the
  others (deleted, truncated, overwritten with bytes of another hash), \<^verbatim>\<open>Verify\<close> accepts and
  \<^verbatim>\<open>Reconstruct\<close> writes exactly the original bytes.
\<close>

theorem erasure_roundtrip:
  assumes "rs_correct rs k p" "cf_DataShards cfg = int k" "cf_ParityShards cfg = int p"
    and "2 \<le> k" "1 \<le> p" "65536 \<le> cf_BlockBytes cfg"
  shows "\<exists>m d. EncodeFile rs sha now cfg (Some data) None = (Inr m, Some d) \<and> mf_ObjectSHA256 m = sha data
    \<and> (\<forall>keep d' dst. damaged sha keep d d' \<longrightarrow> keep \<subseteq> {0..<k + p} \<longrightarrow> k \<le> card keep \<longrightarrow>
         Verify sha d' = Inr m \<and> Reconstruct rs sha d' dst = (Inr (), Some data))"
  using assms by (rule encode_survives)

text \<open>A codec for two data shards and one parity shard, the bytewise sum.\<close>

definition sum_bytes :: "string \<Rightarrow> string \<Rightarrow> string" where
  "sum_bytes a b = map2 (\<lambda>x y. char_of ((of_char x + of_char y) :: nat)) a b"

definition diff_bytes :: "string \<Rightarrow> string \<Rightarrow> string" where
  "diff_bytes a b = map2 (\<lambda>x y. char_of ((of_char x + (256 - of_char y)) :: nat)) a b"

definition sum_reconstruct :: "string option list \<Rightarrow> string list result" where
  "sum_reconstruct part = (case part of
     [Some a, Some b, _] \<Rightarrow> Inr [a, b, sum_bytes a b]
   | [Some a, None, Some c] \<Rightarrow> Inr [a, diff_bytes c a, c]
   | [None, Some b, Some c] \<Rightarrow> Inr [diff_bytes c b, b, c]
   | _ \<Rightarrow> Inl (GoErr ''too few shards given''))"

definition sum_codec :: rs_codec where
  "sum_codec = \<lparr>rs_New = (\<lambda>k p. if k = 2 \<and> p = 1 then None else Some (GoErr ''unsupported'')),
     rs_Encode = (\<lambda>k p shards. case shards of [a, b, c] \<Rightarrow> Inr [a, b, sum_bytes a b] | _ \<Rightarrow> Inl (GoErr ''shard count'')),
     rs_Reconstruct = (\<lambda>k p part. sum_reconstruct part)\<rparr>"

lemma diff_sum:
  assumes "length a = length b"
  shows "diff_bytes (sum_bytes a b) a = b" "diff_bytes (sum_bytes a b) b = a"
proof -
  have byte: "char_of (((of_char x + of_char y) mod 256 + (256 - of_char x)) :: nat) = y"
    "char_of (((of_char x + of_char y) mod 256 + (256 - of_char y)) :: nat) = x" for x y :: char
  proof -
    define m n where "m = (of_char x :: nat)" and "n = (of_char y :: nat)"
    have lt: "m < 256" "n < 256" by (simp_all add: m_def n_def)
    then have "m + n + (256 - m) = n + 256" "m + n + (256 - n) = m + 256" by simp_all
    then have "(m + n + (256 - m)) mod 256 = n" "(m + n + (256 - n)) mod 256 = m" using lt by simp_all
    then have "of_char (char_of ((m + n) mod 256 + (256 - m)) :: char) = n" "of_char (char_of ((m + n) mod 256 + (256 - n)) :: char) = m"
      by (simp_all only: of_char_of mod_add_left_eq)
    then show "char_of (((of_char x + of_char y) mod 256 + (256 - of_char x)) :: nat) = y"
      "char_of (((of_char x + of_char y) mod 256 + (256 - of_char y)) :: nat) = x"
      unfolding m_def n_def by (simp_all only: of_char_eq_iff)
  qed
  show "diff_bytes (sum_bytes a b) a = b" "diff_bytes (sum_bytes a b) b = a"
    using assms by (induction a b rule: list_induct2) (simp_all add: sum_bytes_def diff_bytes_def byte)
qed

lemma list_three: "length xs = 3 \<longleftrightarrow> (\<exists>a b c. xs = [a, b, c])"
  by (auto simp: eval_nat_numeral length_Suc_conv)

lemma sum_reconstruct_partial:
  assumes "partial_shards 2 [a, b, sum_bytes a b] part" "length a = length b"
  shows "sum_reconstruct part = Inr [a, b, sum_bytes a b]"
proof -
  obtain x y z where part: "part = [x, y, z]" using assms(1) list_three [of part] by (auto simp: partial_shards_def)
  have "x \<in> {None, Some a}" "y \<in> {None, Some b}" "z \<in> {None, Some (sum_bytes a b)}"
    using assms(1) part less_Suc_eq by (auto simp: partial_shards_def All_less_Suc2)
  moreover have "2 \<le> length (filter (\<lambda>c. c \<noteq> None) [x, y, z])" using assms(1) part by (simp add: partial_shards_def)
  ultimately show ?thesis
    unfolding part using diff_sum [OF assms(2)] by (auto simp: sum_reconstruct_def split: if_splits)
qed

lemma sum_codec_correct: "rs_correct sum_codec 2 1"
proof -
  have "\<exists>ps. rs_Encode sum_codec 2 1 (ds @ [replicate n (CHR 0x00)]) = Inr (ds @ ps) \<and> length ps = 1 \<and> (\<forall>d \<in> set ps. length d = n)
      \<and> (\<forall>part. partial_shards 2 (ds @ ps) part \<longrightarrow> rs_Reconstruct sum_codec 2 1 part = Inr (ds @ ps))"
    if "length ds = 2" "\<forall>d \<in> set ds. length d = n" for ds n
  proof -
    from that(1) have "\<exists>a b. ds = [a, b]" by (auto simp: eval_nat_numeral length_Suc_conv)
    then obtain a b where ds: "ds = [a, b]" by blast
    then have len: "length a = n" "length b = n" using that(2) by auto
    show ?thesis
      by (rule exI [of _ "[sum_bytes a b]"]) (simp add: ds len sum_codec_def sum_bytes_def [of a b] sum_reconstruct_partial [unfolded sum_bytes_def])
  qed
  then show ?thesis by (simp add: rs_correct_def) (simp add: sum_codec_def)
qed

text \<open>The three-byte object survives the loss of its first shard.\<close>

theorem erasure_roundtrip_witness:
  "\<exists>m d. EncodeFile sum_codec (\<lambda>c. c) 7 \<lparr>cf_DataShards = 2, cf_ParityShards = 1, cf_BlockBytes = 65536\<rparr> (Some ''abc'') None = (Inr m, Some d)
     \<and> Reconstruct sum_codec (\<lambda>c. c) (d\<lparr>ed_Files := gdel (shard_name 0) (ed_Files d)\<rparr>) None = (Inr (), Some ''abc'')"
proof -
  let ?cfg = "\<lparr>cf_DataShards = 2, cf_ParityShards = 1, cf_BlockBytes = 65536\<rparr>"
  obtain m d where enc: "EncodeFile sum_codec (\<lambda>c. c) 7 ?cfg (Some ''abc'') None = (Inr m, Some d)"
    and rebuilt: "\<And>keep d' dst. damaged (\<lambda>c. c) keep d d' \<Longrightarrow> keep \<subseteq> {0..<2 + 1} \<Longrightarrow> 2 \<le> card keep \<Longrightarrow>
      Reconstruct sum_codec (\<lambda>c. c) d' dst = (Inr (), Some ''abc'')"
    using erasure_roundtrip [OF sum_codec_correct, of ?cfg "\<lambda>c. c" 7 "''abc''"] by auto
  have "damaged (\<lambda>c. c) {1, 2} d (d\<lparr>ed_Files := gdel (shard_name 0) (ed_Files d)\<rparr>)"
    by (auto simp: damaged_def split: if_splits)
  from rebuilt [OF this, of None] enc show ?thesis by auto
qed

end
