(* ===== verification/Config_Properties.thy ===== *)
theory Config_Properties
  imports Config_Validate Erasure_Roundtrip
begin

text \<open>
  What a configuration that passes validation guarantees to the components that read it, and that
  the defaults pass.
\<close>

section \<open>Checks that hold\<close>

lemma first_error_Cons: "first_error ((bad, msg) # cs) = None \<longleftrightarrow> \<not> bad \<and> first_error cs = None"
  by simp

lemma first_error_if: "first_error ((if b then x else y) # cs) = None \<longleftrightarrow> (if b then first_error (x # cs) else first_error (y # cs)) = None"
  by simp

declare first_error.simps(2) [simp del]

lemma first_error_append: "first_error (cs @ ds) = None \<longleftrightarrow> first_error cs = None \<and> first_error ds = None"
  by (auto simp: first_error_None)

lemma first_error_when_on: "first_error (when_on b cs) = None \<longleftrightarrow> (b \<longrightarrow> first_error cs = None)"
  by (simp add: when_on_def)

lemma first_error_accounts:
  "first_error (account_checks i seen as) = None \<longleftrightarrow>
   (\<forall>a \<in> set as. \<not> blank (fa_Name a) \<and> \<not> blank (fa_TokenEnv a)) \<and> distinct (map fa_Name as) \<and> set (map fa_Name as) \<inter> set seen = {}"
  by (induction i seen as rule: account_checks.induct) (auto simp: first_error_Cons)

lemma first_error_schedule:
  "first_error (schedule_checks i ps) = None \<longleftrightarrow> (\<forall>p \<in> set ps. \<not> blank (po_Pattern p) \<and> \<not> not_positive (po_Interval p))"
  by (induction i ps rule: schedule_checks.induct) (auto simp: first_error_Cons)

lemma not_positive_iff: "\<not> not_positive t \<longleftrightarrow> (\<exists>d. t = DurOk d \<and> 0 < d)"
  by (cases t) auto

lemmas accepted = first_error_Cons first_error_if first_error_append first_error_when_on first_error_accounts first_error_schedule

lemma Validate_sections:
  assumes "Validate c = None"
  shows "first_error (fleet_checks c) = None" "first_error (control_plane_checks (fc_ControlPlane c)) = None"
  using assms by (simp_all add: Validate_def first_error_append)

lemma control_plane_sections:
  assumes "first_error (control_plane_checks p) = None" "cp_Enabled p"
  shows "first_error (worker_checks p) = None" "first_error (replication_checks (cp_Replication p)) = None"
    "first_error (storage_checks p) = None"
  using assms by (simp_all add: control_plane_checks_def accepted)

text \<open>The codec configuration that the callers of the codec build from the erasure section.\<close>

definition erasure_codec_config :: "erasure_config \<Rightarrow> codec_config" where
  "erasure_codec_config e = \<lparr>cf_DataShards = ec_DataShards e, cf_ParityShards = ec_ParityShards e, cf_BlockBytes = ec_BlockBytes e\<rparr>"

definition replication_usable :: "replication_config \<Rightarrow> bool" where
  "replication_usable r = (rc_SpoolRoot r \<noteq> [] \<and> 2 \<le> rc_Factor r \<and> 1 \<le> rc_MinHealthy r \<and> rc_MinHealthy r \<le> rc_Factor r
     \<and> rc_MinFailureDomains r \<le> rc_Factor r \<and> (blank (rc_FailureDomainLabel r) \<longleftrightarrow> rc_MinFailureDomains r = 0)
     \<and> 0 < rc_MaxTransferBytes r \<and> rc_TransferTTL r = DurOk (transfer_ttl r) \<and> rc_AgentTimeout r = DurOk (agent_timeout r))"

lemma replication_accepted:
  assumes "first_error (replication_checks r) = None" "rc_Enabled r"
  shows "replication_usable r"
proof -
  have nonblank: "\<not> blank s \<Longrightarrow> s \<noteq> []" for s by (auto simp: blank_def TrimSpace_def)
  from assms show ?thesis
    by (cases "blank (rc_FailureDomainLabel r)")
      (auto simp: replication_checks_def accepted out_of_def replication_usable_def not_positive_iff transfer_ttl_def agent_timeout_def
        dur_or_def dest: nonblank)
qed

lemma erasure_accepted:
  assumes "first_error (erasure_checks p e) = None" "ec_Enabled e"
  obtains k q where "ec_DataShards e = int k" "ec_ParityShards e = int q" "2 \<le> k" "k \<le> 32" "1 \<le> q" "q \<le> 16" "65536 \<le> ec_BlockBytes e"
proof (rule that [of "nat (ec_DataShards e)" "nat (ec_ParityShards e)"])
qed (use assms in \<open>auto simp: erasure_checks_def accepted out_of_def\<close>)

section \<open>Accepted configurations\<close>

definition config_usable :: "full_config \<Rightarrow> bool" where
  "config_usable c = (let p = fc_ControlPlane c in
    (cp_Enabled p \<longrightarrow> 1 \<le> wk_MaxAttempts (cp_Workers p) \<and> wk_MaxAttempts (cp_Workers p) \<le> 100
        \<and> (\<forall>po \<in> set (sd_Policies (cp_Scheduler p)). po_Pattern po \<noteq> [] \<and> (\<exists>d > 0. po_Interval po = DurOk d))
        \<and> (rc_Enabled (cp_Replication p) \<longrightarrow> replication_usable (cp_Replication p))
        \<and> (sc_Enabled (cp_Storage p) \<longrightarrow> ec_Enabled (sc_Erasure (cp_Storage p)) \<longrightarrow>
            (\<forall>rs sha now data. rs_correct rs (nat (ec_DataShards (sc_Erasure (cp_Storage p)))) (nat (ec_ParityShards (sc_Erasure (cp_Storage p)))) \<longrightarrow>
              (\<exists>m d. EncodeFile rs sha now (erasure_codec_config (sc_Erasure (cp_Storage p))) (Some data) None = (Inr m, Some d)
                \<and> (\<forall>keep d' dst. damaged sha keep d d' \<longrightarrow>
                     keep \<subseteq> {0..<nat (ec_DataShards (sc_Erasure (cp_Storage p)) + ec_ParityShards (sc_Erasure (cp_Storage p)))} \<longrightarrow>
                     ec_DataShards (sc_Erasure (cp_Storage p)) \<le> int (card keep) \<longrightarrow>
                     Reconstruct rs sha d' dst = (Inr (), Some data))))))
      \<and> (fl_Enabled (fc_Fleet c) \<longrightarrow> distinct (map fa_Name (fl_Accounts (fc_Fleet c)))))"

lemma accepted_config:
  assumes "Validate c = None"
  shows "config_usable c"
proof -
  define p where "p = fc_ControlPlane c"
  have nonblank: "\<not> blank s \<Longrightarrow> s \<noteq> []" for s by (auto simp: blank_def TrimSpace_def)
  note sections = control_plane_sections [OF Validate_sections(2) [OF assms], folded p_def]
  have workers: "1 \<le> wk_MaxAttempts (cp_Workers p) \<and> wk_MaxAttempts (cp_Workers p) \<le> 100"
    "\<forall>po \<in> set (sd_Policies (cp_Scheduler p)). po_Pattern po \<noteq> [] \<and> (\<exists>d > 0. po_Interval po = DurOk d)" if "cp_Enabled p"
    using sections(1) [OF that] by (auto simp: worker_checks_def accepted out_of_def not_positive_iff dest: nonblank)
  have codec: "\<exists>m d. EncodeFile rs sha now (erasure_codec_config e) (Some data) None = (Inr m, Some d)
      \<and> (\<forall>keep d' dst. damaged sha keep d d' \<longrightarrow> keep \<subseteq> {0..<nat (ec_DataShards e + ec_ParityShards e)} \<longrightarrow>
           ec_DataShards e \<le> int (card keep) \<longrightarrow> Reconstruct rs sha d' dst = (Inr (), Some data))"
    if on: "cp_Enabled p" "sc_Enabled (cp_Storage p)" "ec_Enabled e" and e: "e = sc_Erasure (cp_Storage p)"
      and rs: "rs_correct rs (nat (ec_DataShards e)) (nat (ec_ParityShards e))" for rs sha now data e
  proof -
    have "first_error (erasure_checks p e) = None"
      using sections(3) [OF on(1)] on(2) by (simp add: storage_checks_def accepted Let_def e)
    then obtain k q where kq: "ec_DataShards e = int k" "ec_ParityShards e = int q" "2 \<le> k" "k \<le> 32" "1 \<le> q" "q \<le> 16" "65536 \<le> ec_BlockBytes e"
      using on(3) by (rule erasure_accepted)
    have good: "rs_correct rs k q" using rs kq by simp
    have cfg: "cf_DataShards (erasure_codec_config e) = int k" "cf_ParityShards (erasure_codec_config e) = int q"
      "65536 \<le> cf_BlockBytes (erasure_codec_config e)" using kq by (simp_all add: erasure_codec_config_def)
    have sum: "nat (int k + int q) = k + q" by simp
    show ?thesis
      using encode_survives [OF good cfg(1,2) kq(3,5) cfg(3), of sha now data] unfolding kq(1,2) sum by auto
  qed
  have "distinct (map fa_Name (fl_Accounts (fc_Fleet c)))" if "fl_Enabled (fc_Fleet c)"
    using Validate_sections(1) [OF assms] that by (simp add: fleet_checks_def accepted Let_def)
  with workers codec replication_accepted [OF sections(2)] show ?thesis by (simp add: config_usable_def p_def [symmetric])
qed

section \<open>The defaults\<close>

lemma set_join_with: "set (join_with c xs) \<subseteq> insert c (\<Union> (set ` set xs))"
  by (induction c xs rule: join_with.induct) auto

lemma set_split_on: "x \<in> set (split_on c s) \<Longrightarrow> set x \<subseteq> set s"
proof (induction s arbitrary: x)
  case (Cons a s)
  show ?case
  proof (cases "split_on c s")
    case (Cons y ys)
    then have "set y \<subseteq> set s" "\<And>z. z \<in> set ys \<Longrightarrow> set z \<subseteq> set s" using Cons.IH [of y] Cons.IH by auto
    with Cons.prems Cons show ?thesis by (auto split: if_splits)
  qed simp
qed simp

lemma set_clean_comps: "set (clean_comps r acc cs) \<subseteq> set acc \<union> set cs \<union> {''..''}"
  by (induction r acc cs rule: clean_comps.induct) (auto split: if_splits list.splits)

lemma path_Join_abs:
  assumes "is_abs home"
  shows "hd (path_Join (home # xs)) = CHR ''/''" "path_Join (home # xs) \<noteq> []"
    "set (path_Join (home # xs)) \<subseteq> {CHR ''/'', CHR ''.''} \<union> set home \<union> \<Union> (set ` set xs)"
proof -
  from assms obtain t where home: "home = CHR ''/'' # t" by (cases home) (auto simp: is_abs_def)
  define j where "j = join_with (CHR ''/'') (home # filter (\<lambda>x. x \<noteq> []) xs)"
  have abs: "is_abs j" by (cases "filter (\<lambda>x. x \<noteq> []) xs") (auto simp: j_def home is_abs_def)
  have eq: "path_Join (home # xs) = CHR ''/'' # join_with (CHR ''/'') (path_comps j)"
  proof -
    have "path_Join (home # xs) = path_Clean j" by (simp add: path_Join_def j_def home)
    with abs show ?thesis by (simp add: path_Clean_def path_render_def Let_def)
  qed
  then show "hd (path_Join (home # xs)) = CHR ''/''" "path_Join (home # xs) \<noteq> []" by simp_all
  have j: "set j \<subseteq> insert (CHR ''/'') (set home \<union> \<Union> (set ` set xs))"
    using set_join_with [of "CHR ''/''" "home # filter (\<lambda>x. x \<noteq> []) xs"] by (auto simp: j_def)
  have "set x \<subseteq> set j \<union> {CHR ''.''}" if "x \<in> set (path_comps j)" for x
    using set_clean_comps [of "is_abs j" "[]" "split_on (CHR ''/'') j"] set_split_on that by (fastforce simp: path_comps_def)
  then have "set (join_with (CHR ''/'') (path_comps j)) \<subseteq> {CHR ''/'', CHR ''.''} \<union> set j"
    using set_join_with [of "CHR ''/''" "path_comps j"] by blast
  with j show "set (path_Join (home # xs)) \<subseteq> {CHR ''/'', CHR ''.''} \<union> set home \<union> \<Union> (set ` set xs)"
    unfolding eq by auto
qed

lemma expand_default:
  assumes "is_abs home" "CHR ''$'' \<notin> set home" "CHR ''$'' \<notin> \<Union> (set ` set xs)"
  shows "expand home env (path_Join (home # xs)) = path_Join (home # xs)" "\<not> blank (path_Join (home # xs))"
proof -
  let ?p = "path_Join (home # xs)"
  note p = path_Join_abs [OF assms(1), of xs]
  have "CHR ''$'' \<notin> set ?p" using p(3) assms(2,3) by auto
  moreover have "?p \<noteq> ''~''" "\<not> HasPrefix ?p ''~/''" using p(1,2) by (cases ?p; auto)+
  ultimately show "expand home env ?p = ?p" by (simp add: expand_def ExpandEnv_plain)
  obtain t where t: "?p = CHR ''/'' # t" using p(1,2) by (cases ?p) auto
  then show "\<not> blank ?p" unfolding t by (simp add: blank_def TrimSpace_def is_space_def)
qed

lemma Default_expanded:
  assumes "is_abs home" "CHR ''$'' \<notin> set home"
  shows "ExpandPaths home env (Default home) = Default home"
  by (simp add: ExpandPaths_def Default_def default_gitlab_def default_control_plane_def default_agents_def default_storage_def Let_def
      expand_default(1) [OF assms])

lemma Default_valid:
  assumes "is_abs home" "CHR ''$'' \<notin> set home"
  shows "Validate (Default home) = None"
proof -
  have paths: "\<not> blank (path_Join (home # xs))" "path_Join (home # xs) \<noteq> []" if "CHR ''$'' \<notin> \<Union> (set ` set xs)" for xs
    using expand_default(2) [OF assms that] path_Join_abs(2) [OF assms(1)] by simp_all
  show ?thesis
    by (simp add: Validate_def first_error.simps backup_checks_def gitlab_checks_def security_checks_def offsite_checks_def plain_checks_def
        policy_checks_def fleet_checks_def control_plane_checks_def lock_checks_def drill_checks_def daemon_checks_def when_on_def Let_def
        Default_def default_github_def default_gitlab_def default_control_plane_def out_of_def bad_unless_blank_def dur_text_defs paths)
qed

lemma Load_valid:
  assumes "is_abs home" "CHR ''$'' \<notin> set home" "Load home env content = Inr c"
  shows "Validate c = None"
  using assms(3) Default_valid [OF assms(1,2)] Default_expanded [OF assms(1,2)]
  by (auto simp: Load_def Let_def split: option.splits sum.splits)

text \<open>
  C23. Every configuration that \<^verbatim>\<open>Load\<close> returns, from a file or for want of one, is usable by the components that
  read it (the home directory being an absolute path without a dollar sign).  With the control plane on:
  jobs get between 1 and 100 attempts; every schedule policy has a pattern and a positive interval;
  an enabled replication section has a spool directory, a factor that admits its minimum of healthy
  copies and of failure domains, and its configured timeouts are the ones in effect; with the erasure section on,
  every object encodes and is rebuilt from any \<^verbatim>\<open>DataShards\<close> intact shards, given a Reed-Solomon library that
  is right for the configured numbers of shards.  With the fleet on, its accounts have different names.
  Without a file the defaults are returned, and saving them writes them unchanged.
\<close>

theorem loaded_config_usable:
  assumes "is_abs home" "CHR ''$'' \<notin> set home" "Load home env content = Inr c"
  shows "Validate c = None \<and> config_usable c \<and> (content = None \<longrightarrow> c = Default home \<and> Save home env c = Inr c)"
  using Load_valid [OF assms] accepted_config assms(3) Default_valid [OF assms(1,2)] Default_expanded [OF assms(1,2)]
  by (auto simp: Load_def Save_def)

text \<open>A file that switches the control plane, replication and a small erasure code on.\<close>

definition sample_decode :: "full_config \<Rightarrow> full_config result" where
  "sample_decode c = Inr (c\<lparr>fc_ControlPlane := (fc_ControlPlane c)\<lparr>cp_Enabled := True,
     cp_Replication := (cp_Replication (fc_ControlPlane c))\<lparr>rc_Enabled := True\<rparr>,
     cp_Storage := (cp_Storage (fc_ControlPlane c))\<lparr>sc_Erasure := (sc_Erasure (cp_Storage (fc_ControlPlane c)))
       \<lparr>ec_Enabled := True, ec_DataShards := 2, ec_ParityShards := 1\<rparr>\<rparr>\<rparr>\<rparr>)"

theorem loaded_config_usable_witness:
  "\<exists>c. Load ''/root'' (\<lambda>_. []) (Some sample_decode) = Inr c \<and> rc_Enabled (cp_Replication (fc_ControlPlane c))
     \<and> replication_usable (cp_Replication (fc_ControlPlane c))
     \<and> (\<exists>m d. EncodeFile sum_codec (\<lambda>c. c) 7 (erasure_codec_config (sc_Erasure (cp_Storage (fc_ControlPlane c)))) (Some ''abc'') None
          = (Inr m, Some d))"
proof -
  have "is_ok (Load ''/root'' (\<lambda>_. []) (Some sample_decode))" by code_simp
  then obtain c where c: "Load ''/root'' (\<lambda>_. []) (Some sample_decode) = Inr c" by (auto simp: is_ok_iff)
  have on: "cp_Enabled (fc_ControlPlane c)" "rc_Enabled (cp_Replication (fc_ControlPlane c))" "sc_Enabled (cp_Storage (fc_ControlPlane c))"
    "ec_Enabled (sc_Erasure (cp_Storage (fc_ControlPlane c)))" "ec_DataShards (sc_Erasure (cp_Storage (fc_ControlPlane c))) = 2"
    "ec_ParityShards (sc_Erasure (cp_Storage (fc_ControlPlane c))) = 1"
    using c by (auto simp: Load_def sample_decode_def Let_def ExpandPaths_def Default_def default_control_plane_def default_storage_def
        split: option.splits)
  have "config_usable c" using loaded_config_usable [OF _ _ c] by (simp add: is_abs_def)
  with on sum_codec_correct c show ?thesis by (fastforce simp: config_usable_def Let_def)
qed

end
