(* ===== verification/Files.thy ===== *)
theory Files
  imports Paths
begin

text \<open>
  A file system with hard links, as far as the object store uses one: names lead to inodes, inodes hold
  contents and a modification time.  Directories are implied by the names below them (an empty
  one cannot be told from a missing one by the code modelled here), every entry is a regular file, and
  operations on open files do not fail.  A walk visits the files below a directory in the order
  of the name map, that is in any order.
\<close>

record files =
  fs_names :: "(string, nat) gomap"
  fs_inodes :: "(nat, string \<times> time) gomap"
  fs_next :: nat

definition file_inode :: "files \<Rightarrow> string \<Rightarrow> (string \<times> time) option" where
  "file_inode fs p = (case gget (fs_names fs) p of None \<Rightarrow> None | Some i \<Rightarrow> gget (fs_inodes fs) i)"

definition read_file :: "files \<Rightarrow> string \<Rightarrow> string option" where
  "read_file fs p = map_option fst (file_inode fs p)"

definition same_file :: "files \<Rightarrow> string \<Rightarrow> string \<Rightarrow> bool" where
  "same_file fs p q = (gget (fs_names fs) p \<noteq> None \<and> gget (fs_names fs) p = gget (fs_names fs) q)"

text \<open>A new file put in place under a name (a temporary file renamed to it).\<close>

definition put_file :: "time \<Rightarrow> string \<Rightarrow> string \<Rightarrow> files \<Rightarrow> files" where
  "put_file now p c fs = fs\<lparr>fs_names := gput p (fs_next fs) (fs_names fs),
     fs_inodes := gput (fs_next fs) (c, now) (fs_inodes fs), fs_next := fs_next fs + 1\<rparr>"

text \<open>Writing into the existing file, seen through all its names.\<close>

definition overwrite_file :: "time \<Rightarrow> string \<Rightarrow> string \<Rightarrow> files \<Rightarrow> files" where
  "overwrite_file now p c fs = (case gget (fs_names fs) p of
     None \<Rightarrow> fs | Some i \<Rightarrow> fs\<lparr>fs_inodes := gput i (c, now) (fs_inodes fs)\<rparr>)"

definition remove_file :: "string \<Rightarrow> files \<Rightarrow> files" where
  "remove_file p fs = fs\<lparr>fs_names := gdel p (fs_names fs)\<rparr>"

text \<open>A link to \<open>src\<close> renamed to \<open>dst\<close>.\<close>

definition link_over :: "string \<Rightarrow> string \<Rightarrow> files \<Rightarrow> files" where
  "link_over src dst fs = (case gget (fs_names fs) src of
     None \<Rightarrow> fs | Some i \<Rightarrow> fs\<lparr>fs_names := gput dst i (fs_names fs)\<rparr>)"

definition below :: "string \<Rightarrow> string \<Rightarrow> bool" where
  "below dir p = HasPrefix p (dir @ ''/'')"

definition walk :: "string \<Rightarrow> files \<Rightarrow> string list" where
  "walk dir fs = filter (below dir) (gkeys (fs_names fs))"

definition files_wf :: "files \<Rightarrow> bool" where
  "files_wf fs = (gwf (fs_names fs) \<and> (\<forall>p i. gget (fs_names fs) p = Some i \<longrightarrow> i < fs_next fs \<and> gget (fs_inodes fs) i \<noteq> None))"

lemma files_wf_ops [simp, intro]:
  assumes "files_wf fs"
  shows "files_wf (put_file now p c fs)" "files_wf (overwrite_file now p c fs)" "files_wf (remove_file p fs)" "files_wf (link_over q p fs)"
  using assms
  by (auto simp: files_wf_def put_file_def overwrite_file_def remove_file_def link_over_def less_Suc_eq split: option.splits)

lemma in_gkeys: "p \<in> set (gkeys m) \<longleftrightarrow> gget m p \<noteq> None"
  by (simp add: map_of_eq_None_iff)

lemma walk_files:
  assumes "files_wf fs"
  shows "p \<in> set (walk dir fs) \<longleftrightarrow> below dir p \<and> read_file fs p \<noteq> None"
proof -
  have "read_file fs p \<noteq> None \<longleftrightarrow> gget (fs_names fs) p \<noteq> None"
    using assms by (auto simp: files_wf_def read_file_def file_inode_def split: option.splits)
  then show ?thesis unfolding walk_def set_filter mem_Collect_eq in_gkeys by blast
qed

lemma read_put_file [simp]:
  assumes "files_wf fs"
  shows "read_file (put_file now p c fs) q = (if q = p then Some c else read_file fs q)"
  using assms by (auto simp: files_wf_def read_file_def file_inode_def put_file_def split: option.splits)

lemma read_remove_file [simp]: "read_file (remove_file p fs) q = (if q = p then None else read_file fs q)"
  by (simp add: read_file_def file_inode_def remove_file_def split: option.split)

lemma read_link_over [simp]:
  "read_file fs src \<noteq> None \<Longrightarrow> read_file (link_over src dst fs) q = (if q = dst then read_file fs src else read_file fs q)"
  by (auto simp: read_file_def file_inode_def link_over_def split: option.splits)

lemma read_overwrite_file:
  "read_file (overwrite_file now p c fs) q = (if same_file fs q p then Some c else read_file fs q)"
  by (auto simp: read_file_def file_inode_def overwrite_file_def same_file_def split: option.splits)

lemma same_file_read: "same_file fs p q \<Longrightarrow> read_file fs p = read_file fs q"
  by (simp add: same_file_def read_file_def file_inode_def)

text \<open>Opening with \<^verbatim>\<open>O_CREATE|O_TRUNC\<close> and writing: an existing file is written in place.\<close>

definition write_file :: "time \<Rightarrow> string \<Rightarrow> string \<Rightarrow> files \<Rightarrow> files" where
  "write_file now p c fs = (if read_file fs p = None then put_file now p c fs else overwrite_file now p c fs)"

lemma files_wf_write [simp, intro]: "files_wf fs \<Longrightarrow> files_wf (write_file now p c fs)"
  by (simp add: write_file_def)

lemma same_file_refl: "read_file fs p \<noteq> None \<Longrightarrow> same_file fs p p"
  by (auto simp: same_file_def read_file_def file_inode_def split: option.splits)

lemma read_names: "files_wf fs \<Longrightarrow> read_file fs p \<noteq> None \<longleftrightarrow> gget (fs_names fs) p \<noteq> None"
  by (auto simp: files_wf_def read_file_def file_inode_def split: option.splits)

lemma same_file_exists: "files_wf fs \<Longrightarrow> same_file fs q p \<Longrightarrow> read_file fs p \<noteq> None"
  unfolding same_file_def using read_names by metis

lemma read_write_file:
  assumes "files_wf fs"
  shows "read_file (write_file now p c fs) q = (if q = p \<or> same_file fs q p then Some c else read_file fs q)"
proof (cases "read_file fs p")
  case None
  then have "\<not> same_file fs q p" using same_file_exists [OF assms] by blast
  then show ?thesis using None assms by (simp add: write_file_def)
next
  case (Some old)
  then show ?thesis using same_file_refl [of fs p] by (simp add: write_file_def read_overwrite_file)
qed

end
