(* ===== verification/Cas_Store.thy ===== *)
theory Cas_Store
  imports Files Fmt
begin

text \<open>
  The content-addressed store (\<^verbatim>\<open>internal/cas/cas.go\<close>): objects by their SHA-256 under \<^verbatim>\<open>sha256/ab/\<close>, ingestion of
  files with replacement by hard links, verification, compaction of backup trees and garbage collection.
  SHA-256 is the argument \<open>sha\<close>; \<open>link_ok\<close> says for which paths the operating system lets the hard link be made
  and put in place.  The result that accompanies an error is not used by the callers.
\<close>

record cas_store =
  cs_Root :: string
  cs_MinFileSize :: int

record ingest_result =
  ig_SHA256 :: string
  ig_Size :: int
  ig_BlobPath :: string
  ig_Existing :: bool
  ig_HardLinked :: bool
  ig_ReclaimedBytes :: int

record cas_stats =
  cas_Objects :: int
  cas_PhysicalBytes :: int
  cas_LogicalFiles :: int
  cas_LogicalBytes :: int
  cas_Reclaimed :: int

record object_info =
  oi_Digest :: string
  oi_Path :: string
  oi_Bytes :: int
  oi_ModTime :: time

definition zero_stats :: cas_stats where
  "zero_stats = \<lparr>cas_Objects = 0, cas_PhysicalBytes = 0, cas_LogicalFiles = 0, cas_LogicalBytes = 0, cas_Reclaimed = 0\<rparr>"

definition cas_New :: "string \<Rightarrow> int \<Rightarrow> cas_store" where
  "cas_New dir minFileSize = \<lparr>cs_Root = dir, cs_MinFileSize = (if minFileSize < 0 then 0 else minFileSize)\<rparr>"

definition object_root :: "cas_store \<Rightarrow> string" where
  "object_root st = path_Join [cs_Root st, ''sha256'']"

definition blobPath :: "cas_store \<Rightarrow> string \<Rightarrow> string" where
  "blobPath st d = path_Join [cs_Root st, ''sha256'', take 2 d, d]"

definition BlobPath :: "cas_store \<Rightarrow> string \<Rightarrow> string" where
  "BlobPath st s = (let d = ToLower (TrimSpace s) in if length d \<noteq> 64 then [] else blobPath st d)"

definition bad_object :: "string \<Rightarrow> go_error" where
  "bad_object path = GoErr (''invalid CAS object name: '' @ path)"

fun list_objects :: "files \<Rightarrow> string list \<Rightarrow> object_info list result" where
  "list_objects fs [] = Inr []"
| "list_objects fs (path # paths) =
     (let digest = ToLower (path_Base path) in
      if length digest \<noteq> 64 then Inl (bad_object path)
      else (case file_inode fs path of
          None \<Rightarrow> Inl (GoErr ''file does not exist'')
        | Some (c, t) \<Rightarrow>
            (case list_objects fs paths of
               Inl e \<Rightarrow> Inl e
             | Inr os \<Rightarrow> Inr (\<lparr>oi_Digest = digest, oi_Path = path, oi_Bytes = int (length c), oi_ModTime = t\<rparr> # os))))"

definition ListObjects :: "cas_store \<Rightarrow> files \<Rightarrow> object_info list result" where
  "ListObjects st fs = (case list_objects fs (walk (object_root st) fs) of
     Inl e \<Rightarrow> Inl e | Inr os \<Rightarrow> Inr (sort_less (\<lambda>a b. oi_Digest a < oi_Digest b) os))"

definition HashFile :: "(string \<Rightarrow> string) \<Rightarrow> files \<Rightarrow> string \<Rightarrow> (string \<times> int) result" where
  "HashFile sha fs p = (case read_file fs p of
     None \<Rightarrow> Inl (GoErr ''file does not exist'') | Some c \<Rightarrow> Inr (sha c, int (length c)))"

section \<open>Ingestion\<close>

definition swap_name :: "string \<Rightarrow> string" where
  "swap_name path = path @ ''.repoark-cas-swap''"

text \<open>The object under its name: already there with the right size, or written now.\<close>

definition store_object :: "time \<Rightarrow> string \<Rightarrow> string \<Rightarrow> string \<Rightarrow> files \<Rightarrow> (bool \<times> files) result" where
  "store_object now d blob c fs = (case read_file fs blob of
     Some old \<Rightarrow> if length old \<noteq> length c then Inl (GoErr (''CAS collision/size mismatch for '' @ d)) else Inr (True, fs)
   | None \<Rightarrow> Inr (False, put_file now blob c fs))"

definition Ingest ::
  "(string \<Rightarrow> string) \<Rightarrow> time \<Rightarrow> (string \<Rightarrow> bool) \<Rightarrow> cas_store \<Rightarrow> string \<Rightarrow> files \<Rightarrow> ingest_result result \<times> files" where
  "Ingest sha now link_ok st path fs =
     (case read_file fs path of
        None \<Rightarrow> (Inl (GoErr ''file does not exist''), fs)
      | Some c \<Rightarrow>
          let zero = \<lparr>ig_SHA256 = [], ig_Size = 0, ig_BlobPath = [], ig_Existing = False, ig_HardLinked = False, ig_ReclaimedBytes = 0\<rparr> in
          if int (length c) < cs_MinFileSize st then (Inr zero, fs)
          else
            let d = sha c; size = int (length c); blob = blobPath st d;
                out = zero\<lparr>ig_SHA256 := d, ig_Size := size, ig_BlobPath := blob\<rparr>
            in (case store_object now d blob c fs of
                  Inl e \<Rightarrow> (Inl e, fs)
                | Inr (existing, fs1) \<Rightarrow>
                    let out1 = out\<lparr>ig_Existing := existing\<rparr> in
                    if same_file fs1 path blob then (Inr (out1\<lparr>ig_HardLinked := True\<rparr>), fs1)
                    else
                      let fs2 = remove_file (swap_name path) fs1 in
                      if link_ok path
                      then (Inr (out1\<lparr>ig_HardLinked := True, ig_ReclaimedBytes := (if existing then size else 0)\<rparr>), link_over blob path fs2)
                      else (Inr out1, fs2)))"

section \<open>Verification and compaction\<close>

fun verify_objects :: "(string \<Rightarrow> string) \<Rightarrow> files \<Rightarrow> string list \<Rightarrow> cas_stats \<Rightarrow> cas_stats result" where
  "verify_objects sha fs [] st = Inr st"
| "verify_objects sha fs (path # paths) st =
     (let name = path_Base path in
      if length name \<noteq> 64 then Inl (bad_object path)
      else (case HashFile sha fs path of
          Inl e \<Rightarrow> Inl e
        | Inr (got, n) \<Rightarrow>
            if \<not> EqualFold got name then Inl (GoErr (''CAS hash mismatch: '' @ path))
            else verify_objects sha fs paths
              (st\<lparr>cas_Objects := cas_Objects st + 1, cas_PhysicalBytes := cas_PhysicalBytes st + n\<rparr>)))"

definition cas_Verify :: "(string \<Rightarrow> string) \<Rightarrow> cas_store \<Rightarrow> files \<Rightarrow> cas_stats result" where
  "cas_Verify sha st fs = verify_objects sha fs (walk (object_root st) fs) zero_stats"

definition HasSuffix :: "string \<Rightarrow> string \<Rightarrow> bool" where
  "HasSuffix s t = HasPrefix (rev s) (rev t)"

definition str_Contains :: "string \<Rightarrow> string \<Rightarrow> bool" where
  "str_Contains s t = list_ex (\<lambda>i. HasPrefix (drop i s) t) [0..<Suc (length s)]"

definition compact_skips :: "string \<Rightarrow> bool" where
  "compact_skips path = (let ext = ToLower (path_Ext path)
     in ext = ''.json'' \<or> ext = ''.sig'' \<or> ext = ''.sha256'' \<or> HasSuffix path ''.sig.json'')"

text \<open>The files of one tree; \<open>skip\<close> tells the ones that are passed over.\<close>

fun compact_files ::
  "(string \<Rightarrow> string) \<Rightarrow> time \<Rightarrow> (string \<Rightarrow> bool) \<Rightarrow> cas_store \<Rightarrow> (string \<Rightarrow> bool) \<Rightarrow> string list \<Rightarrow> cas_stats \<times> files \<Rightarrow>
   cas_stats result \<times> files" where
  "compact_files sha now link_ok st skip [] (out, fs) = (Inr out, fs)"
| "compact_files sha now link_ok st skip (path # paths) (out, fs) =
     (case read_file fs path of
        None \<Rightarrow> (Inl (GoErr ''file does not exist''), fs)
      | Some c \<Rightarrow>
          if skip path \<or> int (length c) < cs_MinFileSize st then compact_files sha now link_ok st skip paths (out, fs)
          else (case Ingest sha now link_ok st path fs of
              (Inl e, fs1) \<Rightarrow> (Inl e, fs1)
            | (Inr r, fs1) \<Rightarrow>
                compact_files sha now link_ok st skip paths
                  (out\<lparr>cas_LogicalFiles := cas_LogicalFiles out + 1, cas_LogicalBytes := cas_LogicalBytes out + int (length c),
                       cas_Reclaimed := cas_Reclaimed out + ig_ReclaimedBytes r\<rparr>, fs1)))"

definition compact_root ::
  "(string \<Rightarrow> string) \<Rightarrow> time \<Rightarrow> (string \<Rightarrow> bool) \<Rightarrow> cas_store \<Rightarrow> string \<Rightarrow> cas_stats \<times> files \<Rightarrow> cas_stats result \<times> files" where
  "compact_root sha now link_ok st dir acc =
     (if read_file (snd acc) dir \<noteq> None then compact_files sha now link_ok st (\<lambda>_. False) [dir] acc
      else compact_files sha now link_ok st compact_skips (walk dir (snd acc)) acc)"

fun compact_roots ::
  "(string \<Rightarrow> string) \<Rightarrow> time \<Rightarrow> (string \<Rightarrow> bool) \<Rightarrow> cas_store \<Rightarrow> string list \<Rightarrow> cas_stats \<times> files \<Rightarrow> cas_stats result \<times> files" where
  "compact_roots sha now link_ok st [] (out, fs) = (Inr out, fs)"
| "compact_roots sha now link_ok st (dir # roots) acc =
     (case compact_root sha now link_ok st dir acc of
        (Inl e, fs1) \<Rightarrow> (Inl e, fs1)
      | (Inr out1, fs1) \<Rightarrow> compact_roots sha now link_ok st roots (out1, fs1))"

definition Compact ::
  "(string \<Rightarrow> string) \<Rightarrow> time \<Rightarrow> (string \<Rightarrow> bool) \<Rightarrow> cas_store \<Rightarrow> string list \<Rightarrow> files \<Rightarrow> cas_stats result \<times> files" where
  "Compact sha now link_ok st paths fs =
     (case compact_roots sha now link_ok st (sort_strings paths) (zero_stats, fs) of
        (Inl e, fs1) \<Rightarrow> (Inl e, fs1)
      | (Inr out, fs1) \<Rightarrow>
          (case cas_Verify sha st fs1 of
             Inl e \<Rightarrow> (Inl e, fs1)
           | Inr phys \<Rightarrow> (Inr (out\<lparr>cas_Objects := cas_Objects phys, cas_PhysicalBytes := cas_PhysicalBytes phys\<rparr>), fs1)))"

section \<open>Garbage collection\<close>

record gc_result =
  gc_ScannedFiles :: int
  gc_Reachable :: int
  gc_Removed :: int
  gc_RemovedBytes :: int
  gc_DryRun :: bool

definition skipLogical :: "string \<Rightarrow> bool" where
  "skipLogical path = (let lower = ToLower path
     in HasSuffix lower ''.json'' \<or> HasSuffix lower ''.sig'' \<or> HasSuffix lower ''.sha256'' \<or> HasSuffix lower ''.sig.json''
        \<or> str_Contains lower ''/manifests/'' \<or> str_Contains lower ''/state/'')"

definition scans :: "cas_store \<Rightarrow> files \<Rightarrow> string \<Rightarrow> bool" where
  "scans st fs path = (case read_file fs path of
     None \<Rightarrow> False | Some c \<Rightarrow> \<not> int (length c) < cs_MinFileSize st \<and> \<not> skipLogical path)"

text \<open>A root that is blank or lies in the store itself is passed over.\<close>

definition gc_root_skipped :: "string \<Rightarrow> cas_store \<Rightarrow> string \<Rightarrow> bool" where
  "gc_root_skipped cwd st dir =
     (TrimSpace dir = [] \<or> path_Abs cwd dir = path_Abs cwd (cs_Root st) \<or> below (path_Abs cwd (cs_Root st)) (path_Abs cwd dir))"

definition gc_scanned :: "string \<Rightarrow> cas_store \<Rightarrow> files \<Rightarrow> string list \<Rightarrow> string list" where
  "gc_scanned cwd st fs roots = concat (map (\<lambda>dir.
     filter (scans st fs) (if read_file fs dir \<noteq> None then [dir] else walk dir fs))
     (filter (\<lambda>dir. \<not> gc_root_skipped cwd st dir) roots))"

definition gc_reachable :: "(string \<Rightarrow> string) \<Rightarrow> string \<Rightarrow> cas_store \<Rightarrow> files \<Rightarrow> string list \<Rightarrow> string list \<Rightarrow> string list" where
  "gc_reachable sha cwd st fs roots protected =
     remdups (map (\<lambda>p. sha (the (read_file fs p))) (gc_scanned cwd st fs roots)
       @ map ToLower (filter (\<lambda>d. length d = 64) protected))"

fun gc_objects :: "string list \<Rightarrow> bool \<Rightarrow> string list \<Rightarrow> gc_result \<times> files \<Rightarrow> (gc_result \<times> go_error option) \<times> files" where
  "gc_objects reachable dryRun [] (out, fs) = ((out, None), fs)"
| "gc_objects reachable dryRun (path # paths) (out, fs) =
     (let name = path_Base path in
      if length name \<noteq> 64 then ((out, Some (bad_object path)), fs)
      else if name \<in> set reachable then gc_objects reachable dryRun paths (out, fs)
      else (case read_file fs path of
          None \<Rightarrow> ((out, Some (GoErr ''file does not exist'')), fs)
        | Some c \<Rightarrow>
            gc_objects reachable dryRun paths
              (out\<lparr>gc_Removed := gc_Removed out + 1, gc_RemovedBytes := gc_RemovedBytes out + int (length c)\<rparr>,
               if dryRun then fs else remove_file path fs)))"

definition GCProtected ::
  "(string \<Rightarrow> string) \<Rightarrow> string \<Rightarrow> cas_store \<Rightarrow> string list \<Rightarrow> bool \<Rightarrow> string list \<Rightarrow> files \<Rightarrow> (gc_result \<times> go_error option) \<times> files" where
  "GCProtected sha cwd st roots dryRun protected fs =
     (let reachable = gc_reachable sha cwd st fs roots protected
      in gc_objects reachable dryRun (walk (object_root st) fs)
           (\<lparr>gc_ScannedFiles = int (length (gc_scanned cwd st fs roots)), gc_Reachable = int (length reachable),
             gc_Removed = 0, gc_RemovedBytes = 0, gc_DryRun = dryRun\<rparr>, fs))"

definition GC :: "(string \<Rightarrow> string) \<Rightarrow> string \<Rightarrow> cas_store \<Rightarrow> string list \<Rightarrow> bool \<Rightarrow> files \<Rightarrow> (gc_result \<times> go_error option) \<times> files" where
  "GC sha cwd st roots dryRun fs = GCProtected sha cwd st roots dryRun [] fs"

end
