(* ===== verification/Cas_Properties.thy ===== *)
theory Cas_Properties
  imports Cas_Store
begin

text \<open>
  Ingestion and compaction never change what a file reads as long as the store's objects are right, what
  happens when one is not, and what garbage collection keeps.
\<close>

section \<open>Object paths\<close>

definition hex_chars :: "char set" where
  "hex_chars = set ''0123456789abcdef''"

definition is_digest :: "string \<Rightarrow> bool" where
  "is_digest d = (length d = 64 \<and> set d \<subseteq> hex_chars)"

definition digests :: "(string \<Rightarrow> string) \<Rightarrow> bool" where
  "digests sha = (\<forall>c. is_digest (sha c))"

lemma plain_hex:
  assumes "set d \<subseteq> hex_chars" "d \<noteq> []"
  shows "plain_name d"
proof -
  have "CHR ''/'' \<notin> set d" "CHR ''.'' \<notin> set d" using assms(1) by (auto simp: hex_chars_def)
  then show ?thesis using assms(2) by (auto simp: plain_name_def)
qed

lemma is_digest_plain:
  assumes "is_digest d"
  shows "plain_name d" "plain_name (take 2 d)"
  using assms by (auto simp: is_digest_def intro!: plain_hex dest: in_set_takeD)

lemma ToLower_digest: "is_digest d \<Longrightarrow> ToLower d = d"
  by (auto simp: is_digest_def hex_chars_def ToLower_def lower_char_def intro!: map_idI)

lemma blobPath_shape:
  assumes "cs_Root st \<noteq> []" "is_digest d"
  shows "blobPath st d = object_root st @ ''/'' @ take 2 d @ ''/'' @ d"
  using path_Join_snoc [OF assms(1), of "[''sha256'']" "take 2 d"] path_Join_snoc [OF assms(1), of "[''sha256'', take 2 d]" d]
    is_digest_plain [OF assms(2)] by (simp add: blobPath_def object_root_def plain_name_def)

lemma blobPath_inject:
  "cs_Root st \<noteq> [] \<Longrightarrow> is_digest d \<Longrightarrow> is_digest d' \<Longrightarrow> blobPath st d = blobPath st d' \<longleftrightarrow> d = d'"
  by (auto simp: blobPath_shape is_digest_def)

lemma path_Base_blob:
  assumes "cs_Root st \<noteq> []" "is_digest d"
  shows "path_Base (blobPath st d) = d"
proof -
  have d: "CHR ''/'' \<notin> set d" "d \<noteq> []" using is_digest_plain(1) [OF assms(2)] by (auto simp: plain_name_def)
  then have "last d \<noteq> CHR ''/''" using last_in_set by metis
  with d have strip: "dropWhile (\<lambda>c. c = CHR ''/'') (rev (p @ d)) = rev (p @ d)" for p
    by (cases d rule: rev_cases) auto
  have "last (split_on (CHR ''/'') (p @ CHR ''/'' # d)) = d" for p
    using d by (simp add: split_on_append split_on_plain)
  from this [of "object_root st @ ''/'' @ take 2 d"]
  have "last (split_on (CHR ''/'') ((object_root st @ ''/'' @ take 2 d) @ CHR ''/'' # d)) = d" .
  moreover have "blobPath st d = (object_root st @ ''/'' @ take 2 d) @ CHR ''/'' # d" using blobPath_shape [OF assms] by simp
  ultimately show ?thesis using strip [of "object_root st @ ''/'' @ take 2 d @ ''/''"] d by (simp add: path_Base_def)
qed

lemma below_blob: "cs_Root st \<noteq> [] \<Longrightarrow> is_digest d \<Longrightarrow> below (object_root st) (blobPath st d)"
  using HasPrefix_append [of "object_root st @ ''/''" "take 2 d @ ''/'' @ d"] by (simp add: blobPath_shape below_def)

lemma blob_not_swap:
  assumes "cs_Root st \<noteq> []" "is_digest d"
  shows "blobPath st d \<noteq> swap_name p"
proof
  assume eq: "blobPath st d = swap_name p"
  have "d \<noteq> []" "set d \<subseteq> hex_chars" using assms(2) by (auto simp: is_digest_def)
  then have "last (blobPath st d) \<in> hex_chars" using last_in_set [of d] by (auto simp: blobPath_shape [OF assms])
  with eq show False by (simp add: swap_name_def hex_chars_def)
qed

section \<open>Ingestion and compaction\<close>

text \<open>Every file of the store is an object under the digest of its contents.\<close>

definition cas_ok :: "(string \<Rightarrow> string) \<Rightarrow> cas_store \<Rightarrow> files \<Rightarrow> bool" where
  "cas_ok sha st fs = (\<forall>p c. below (object_root st) p \<longrightarrow> read_file fs p = Some c \<longrightarrow> p = blobPath st (sha c))"

definition no_collision :: "(string \<Rightarrow> string) \<Rightarrow> files \<Rightarrow> bool" where
  "no_collision sha fs = (\<forall>p q c c'. read_file fs p = Some c \<longrightarrow> read_file fs q = Some c' \<longrightarrow> sha c = sha c' \<longrightarrow> c = c')"

definition no_leftovers :: "files \<Rightarrow> bool" where
  "no_leftovers fs = (\<forall>p. read_file fs (swap_name p) = None)"

definition cas_ready :: "(string \<Rightarrow> string) \<Rightarrow> cas_store \<Rightarrow> files \<Rightarrow> bool" where
  "cas_ready sha st fs = (files_wf fs \<and> cas_ok sha st fs \<and> no_collision sha fs \<and> no_leftovers fs)"

definition linked :: "(string \<Rightarrow> string) \<Rightarrow> cas_store \<Rightarrow> files \<Rightarrow> string \<Rightarrow> bool" where
  "linked sha st fs p = (case read_file fs p of None \<Rightarrow> False | Some c \<Rightarrow> same_file fs p (blobPath st (sha c)))"

text \<open>What a step may do: no file changes, only objects of existing contents appear, links to objects stay.\<close>

definition grows :: "(string \<Rightarrow> string) \<Rightarrow> cas_store \<Rightarrow> files \<Rightarrow> files \<Rightarrow> bool" where
  "grows sha st fs fs' \<longleftrightarrow>
     (\<forall>p c. read_file fs p = Some c \<longrightarrow> read_file fs' p = Some c) \<and>
     (\<forall>p c. read_file fs' p = Some c \<longrightarrow> read_file fs p = Some c \<or> (p = blobPath st (sha c) \<and> (\<exists>q. read_file fs q = Some c))) \<and>
     (\<forall>p. linked sha st fs p \<longrightarrow> linked sha st fs' p)"

lemma grows_refl [simp]: "grows sha st fs fs"
  by (simp add: grows_def)

lemma grows_trans: "grows sha st a b \<Longrightarrow> grows sha st b c \<Longrightarrow> grows sha st a c"
  unfolding grows_def by meson

lemma grows_contents: "grows sha st fs fs' \<Longrightarrow> read_file fs' p = Some c \<Longrightarrow> \<exists>q. read_file fs q = Some c"
  unfolding grows_def by blast

lemma grows_keeps: "grows sha st fs fs' \<Longrightarrow> read_file fs p = Some c \<Longrightarrow> read_file fs' p = Some c"
  unfolding grows_def by blast

lemma blob_contents:
  assumes "cas_ok sha st fs" "digests sha" "cs_Root st \<noteq> []" "is_digest d" "read_file fs (blobPath st d) = Some c"
  shows "sha c = d"
proof -
  have "blobPath st d = blobPath st (sha c)" using assms below_blob unfolding cas_ok_def by blast
  then show ?thesis using assms(2-4) blobPath_inject unfolding digests_def by metis
qed

lemma cas_ready_grows:
  assumes "cas_ready sha st fs" "grows sha st fs fs'" "files_wf fs'" "digests sha" "cs_Root st \<noteq> []"
  shows "cas_ready sha st fs'"
proof -
  have "cas_ok sha st fs'" using assms(1,2) unfolding cas_ready_def cas_ok_def grows_def by blast
  moreover have "no_collision sha fs'"
    using assms(1) grows_contents [OF assms(2)] unfolding cas_ready_def no_collision_def by metis
  moreover have "read_file fs' (swap_name p) = None" for p
  proof (rule ccontr)
    assume "read_file fs' (swap_name p) \<noteq> None"
    then obtain c where c: "read_file fs' (swap_name p) = Some c" by blast
    have "read_file fs (swap_name p) = None" using assms(1) by (simp add: cas_ready_def no_leftovers_def)
    then have "swap_name p = blobPath st (sha c)" using c assms(2) unfolding grows_def by fastforce
    then show False using blob_not_swap [OF assms(5), of "sha c" p] assms(4) by (simp add: digests_def)
  qed
  ultimately show ?thesis using assms(3) by (simp add: cas_ready_def no_leftovers_def)
qed

lemma same_file_put: "same_file fs a b \<Longrightarrow> a \<noteq> p \<Longrightarrow> b \<noteq> p \<Longrightarrow> same_file (put_file now p c fs) a b"
  by (simp add: same_file_def put_file_def) metis

lemma same_file_remove: "same_file fs a b \<Longrightarrow> a \<noteq> p \<Longrightarrow> b \<noteq> p \<Longrightarrow> same_file (remove_file p fs) a b"
  by (simp add: same_file_def remove_file_def) metis

lemma same_file_link: "same_file fs a b \<Longrightarrow> a \<noteq> p \<Longrightarrow> b \<noteq> p \<Longrightarrow> same_file (link_over q p fs) a b"
  by (simp add: same_file_def link_over_def split: option.split) metis

lemma same_file_linked: "read_file fs q \<noteq> None \<Longrightarrow> q \<noteq> p \<Longrightarrow> same_file (link_over q p fs) p q"
  by (auto simp: same_file_def link_over_def read_file_def file_inode_def split: option.splits)

lemma linkedI: "read_file fs p = Some c \<Longrightarrow> same_file fs p (blobPath st (sha c)) \<Longrightarrow> linked sha st fs p"
  by (simp add: linked_def)

lemma linkedE:
  assumes "linked sha st fs p"
  obtains c where "read_file fs p = Some c" "same_file fs p (blobPath st (sha c))" "read_file fs (blobPath st (sha c)) = Some c"
  using assms same_file_read [of fs p] by (auto simp: linked_def split: option.splits)

lemma store_object_grows:
  assumes "cas_ready sha st fs" "digests sha" "cs_Root st \<noteq> []" "read_file fs p = Some c"
  shows "\<exists>e fs1. store_object now (sha c) (blobPath st (sha c)) c fs = Inr (e, fs1) \<and> files_wf fs1 \<and> grows sha st fs fs1 \<and>
    read_file fs1 (blobPath st (sha c)) = Some c"
proof (cases "read_file fs (blobPath st (sha c))")
  case None
  let ?fs1 = "put_file now (blobPath st (sha c)) c fs"
  have wf: "files_wf fs" using assms(1) by (simp add: cas_ready_def)
  have "linked sha st ?fs1 q" if "linked sha st fs q" for q
    using that
  proof (rule linkedE)
    fix c' assume q: "read_file fs q = Some c'" "same_file fs q (blobPath st (sha c'))" "read_file fs (blobPath st (sha c')) = Some c'"
    with None have "q \<noteq> blobPath st (sha c)" "blobPath st (sha c') \<noteq> blobPath st (sha c)" by auto
    then show ?thesis using q wf by (intro linkedI [of _ _ c']) (auto intro: same_file_put)
  qed
  then have "grows sha st fs ?fs1" using None wf assms(4) by (auto simp: grows_def split: if_splits)
  then show ?thesis using None wf by (intro exI [of _ False] exI [of _ ?fs1]) (simp add: store_object_def)
next
  case (Some old)
  have "sha old = sha c"
    using blob_contents [OF _ assms(2,3) _ Some] assms(1,2) by (simp add: cas_ready_def digests_def)
  then have "old = c" using assms(1,4) Some unfolding cas_ready_def no_collision_def by blast
  then show ?thesis using Some assms(1)
    by (intro exI [of _ True] exI [of _ fs]) (simp add: store_object_def cas_ready_def)
qed

lemma link_in_place:
  assumes "cas_ready sha st fs" "digests sha" "cs_Root st \<noteq> []" "read_file fs p = Some c" "read_file fs (blobPath st (sha c)) = Some c"
    and new: "\<not> same_file fs p (blobPath st (sha c))"
  shows "grows sha st fs (link_over (blobPath st (sha c)) p (remove_file (swap_name p) fs))"
    and "same_file (link_over (blobPath st (sha c)) p (remove_file (swap_name p) fs)) p (blobPath st (sha c))"
    and "grows sha st fs (remove_file (swap_name p) fs)"
proof -
  let ?b = "blobPath st (sha c)" and ?fs2 = "remove_file (swap_name p) fs"
  let ?fs' = "link_over ?b p ?fs2"
  have none: "read_file fs (swap_name p) = None" using assms(1) by (simp add: cas_ready_def no_leftovers_def)
  have read2: "read_file ?fs2 q = read_file fs q" for q using none by simp
  have link2: "linked sha st ?fs2 q" if "linked sha st fs q" for q
    using that
  proof (rule linkedE)
    fix c' assume q: "read_file fs q = Some c'" "same_file fs q (blobPath st (sha c'))" "read_file fs (blobPath st (sha c')) = Some c'"
    with none have "q \<noteq> swap_name p" "blobPath st (sha c') \<noteq> swap_name p" by auto
    then show ?thesis using q read2 by (intro linkedI [of _ _ c']) (auto intro: same_file_remove)
  qed
  then show "grows sha st fs ?fs2" using read2 by (simp add: grows_def)
  have "p \<noteq> ?b" using new assms(4) by (auto simp: same_file_def read_file_def file_inode_def split: option.splits)
  then show same: "same_file ?fs' p ?b" using same_file_linked [of ?fs2 ?b p] read2 assms(5) by simp
  have read': "read_file ?fs' q = read_file fs q" for q using read2 assms(4,5) by simp
  have "linked sha st ?fs' q" if "linked sha st fs q" for q
  proof (cases "q = p")
    case True
    then show ?thesis using same assms(4) read' by (simp add: linkedI)
  next
    case False
    from that link2 have "linked sha st ?fs2 q" by blast
    then show ?thesis
    proof (rule linkedE)
      fix c' assume q: "read_file ?fs2 q = Some c'" "same_file ?fs2 q (blobPath st (sha c'))" "read_file ?fs2 (blobPath st (sha c')) = Some c'"
      have "blobPath st (sha c') \<noteq> p"
      proof
        assume "blobPath st (sha c') = p"
        then have "c' = c" using q(3) read2 assms(4) by simp
        with \<open>blobPath st (sha c') = p\<close> \<open>p \<noteq> ?b\<close> show False by simp
      qed
      then show ?thesis using q False read' read2 by (intro linkedI [of _ _ c']) (auto intro: same_file_link)
    qed
  qed
  then show "grows sha st fs ?fs'" using read' by (simp add: grows_def)
qed

lemma Ingest_grows:
  assumes "cas_ready sha st fs" "digests sha" "cs_Root st \<noteq> []" "read_file fs p = Some c" "\<not> int (length c) < cs_MinFileSize st"
  shows "\<exists>r fs'. Ingest sha now link_ok st p fs = (Inr r, fs') \<and> cas_ready sha st fs' \<and> grows sha st fs fs' \<and>
    read_file fs' (blobPath st (sha c)) = Some c \<and> (link_ok p \<longrightarrow> linked sha st fs' p)"
proof -
  obtain e fs1 where st1: "store_object now (sha c) (blobPath st (sha c)) c fs = Inr (e, fs1)" "files_wf fs1" "grows sha st fs fs1"
      "read_file fs1 (blobPath st (sha c)) = Some c"
    using store_object_grows [OF assms(1-4)] by blast
  have ready1: "cas_ready sha st fs1" using cas_ready_grows [OF assms(1) st1(3,2) assms(2,3)] .
  have p1: "read_file fs1 p = Some c" using grows_keeps [OF st1(3) assms(4)] .
  show ?thesis
  proof (cases "same_file fs1 p (blobPath st (sha c))")
    case True
    then show ?thesis using assms(4,5) st1 ready1 linkedI [OF p1] by (simp add: Ingest_def Let_def)
  next
    case False
    let ?fs2 = "remove_file (swap_name p) fs1"
    let ?fs' = "if link_ok p then link_over (blobPath st (sha c)) p ?fs2 else ?fs2"
    note link = link_in_place [OF ready1 assms(2,3) p1 st1(4) False]
    then have g: "grows sha st fs1 ?fs'" by simp
    have "files_wf ?fs'" using st1(2) by simp
    then have "cas_ready sha st ?fs'" using cas_ready_grows [OF ready1 g _ assms(2,3)] by blast
    moreover have "link_ok p \<longrightarrow> linked sha st ?fs' p" using link(2) grows_keeps [OF g p1] linkedI by auto
    moreover have "grows sha st fs ?fs'" using grows_trans [OF st1(3) g] .
    moreover have "read_file ?fs' (blobPath st (sha c)) = Some c" using grows_keeps [OF g st1(4)] .
    moreover have "\<exists>r. Ingest sha now link_ok st p fs = (Inr r, ?fs')"
      using assms(4,5) st1(1) False by (simp add: Ingest_def Let_def)
    ultimately show ?thesis by blast
  qed
qed

text \<open>The files a compaction ingests.\<close>

definition compacts :: "cas_store \<Rightarrow> files \<Rightarrow> (string \<Rightarrow> bool) \<Rightarrow> string \<Rightarrow> bool" where
  "compacts st fs skip p = (case read_file fs p of None \<Rightarrow> False | Some c \<Rightarrow> \<not> skip p \<and> \<not> int (length c) < cs_MinFileSize st)"

definition stored :: "(string \<Rightarrow> string) \<Rightarrow> (string \<Rightarrow> bool) \<Rightarrow> cas_store \<Rightarrow> files \<Rightarrow> string \<Rightarrow> bool" where
  "stored sha link_ok st fs p = (case read_file fs p of None \<Rightarrow> False
     | Some c \<Rightarrow> read_file fs (blobPath st (sha c)) = Some c \<and> (link_ok p \<longrightarrow> same_file fs p (blobPath st (sha c))))"

lemma stored_grows: "stored sha link_ok st fs p \<Longrightarrow> grows sha st fs fs' \<Longrightarrow> stored sha link_ok st fs' p"
  unfolding stored_def grows_def linked_def by (auto split: option.splits)

lemma compacts_grows: "compacts st fs skip p \<Longrightarrow> grows sha st fs fs' \<Longrightarrow> compacts st fs' skip p"
  unfolding compacts_def grows_def by (auto split: option.splits)

lemma compact_files_grows:
  assumes "cas_ready sha st fs" "digests sha" "cs_Root st \<noteq> []" "\<forall>p\<in>set paths. read_file fs p \<noteq> None"
  shows "\<exists>out' fs'. compact_files sha now link_ok st skip paths (out, fs) = (Inr out', fs') \<and> cas_ready sha st fs' \<and> grows sha st fs fs' \<and>
    (\<forall>p\<in>set paths. compacts st fs skip p \<longrightarrow> stored sha link_ok st fs' p)"
  using assms
proof (induction paths arbitrary: out fs)
  case Nil
  then show ?case by simp
next
  case (Cons p ps)
  then obtain c where c: "read_file fs p = Some c" by auto
  show ?case
  proof (cases "skip p \<or> int (length c) < cs_MinFileSize st")
    case True
    then have "\<not> compacts st fs skip p" using c by (auto simp: compacts_def)
    then show ?thesis using Cons.IH [of fs out] Cons.prems True c by simp
  next
    case False
    then obtain r fs1 where i: "Ingest sha now link_ok st p fs = (Inr r, fs1)" "cas_ready sha st fs1" "grows sha st fs fs1"
        "read_file fs1 (blobPath st (sha c)) = Some c" "link_ok p \<longrightarrow> linked sha st fs1 p"
      using Ingest_grows [OF Cons.prems(1-3) c] by blast
    let ?out1 = "out\<lparr>cas_LogicalFiles := cas_LogicalFiles out + 1, cas_LogicalBytes := cas_LogicalBytes out + int (length c),
                       cas_Reclaimed := cas_Reclaimed out + ig_ReclaimedBytes r\<rparr>"
    have "\<forall>q\<in>set ps. read_file fs1 q \<noteq> None" using Cons.prems(4) grows_keeps [OF i(3)] by auto
    then obtain out' fs' where ih: "compact_files sha now link_ok st skip ps (?out1, fs1) = (Inr out', fs')" "cas_ready sha st fs'" "grows sha st fs1 fs'"
        "\<forall>p\<in>set ps. compacts st fs1 skip p \<longrightarrow> stored sha link_ok st fs' p"
      using Cons.IH [of fs1 ?out1] i(2) Cons.prems(2,3) by blast
    have "stored sha link_ok st fs1 p" using i(4,5) grows_keeps [OF i(3) c] by (auto simp: stored_def linked_def)
    then have "stored sha link_ok st fs' p" using ih(3) stored_grows by blast
    moreover have "compact_files sha now link_ok st skip (p # ps) (out, fs) = (Inr out', fs')" using c False i(1) ih(1) by simp
    moreover have "grows sha st fs fs'" using grows_trans [OF i(3) ih(3)] .
    ultimately show ?thesis using ih(2,4) compacts_grows [OF _ i(3)] by auto
  qed
qed

text \<open>The files a compaction of one path covers.\<close>

definition compacted_by :: "cas_store \<Rightarrow> files \<Rightarrow> string \<Rightarrow> string \<Rightarrow> bool" where
  "compacted_by st fs dir p = (if read_file fs dir \<noteq> None then p = dir \<and> compacts st fs (\<lambda>_. False) p
     else below dir p \<and> compacts st fs compact_skips p)"

lemma compact_root_grows:
  assumes "cas_ready sha st fs" "digests sha" "cs_Root st \<noteq> []"
  shows "\<exists>out' fs'. compact_root sha now link_ok st dir (out, fs) = (Inr out', fs') \<and> cas_ready sha st fs' \<and> grows sha st fs fs' \<and>
    (\<forall>p. compacted_by st fs dir p \<longrightarrow> stored sha link_ok st fs' p)"
proof (cases "read_file fs dir")
  case None
  have w: "p \<in> set (walk dir fs) \<longleftrightarrow> below dir p \<and> read_file fs p \<noteq> None" for p
    using walk_files assms(1) by (simp add: cas_ready_def)
  have "\<forall>p\<in>set (walk dir fs). read_file fs p \<noteq> None" using w by blast
  from compact_files_grows [OF assms this, of now link_ok compact_skips out] show ?thesis
    using None w by (auto simp: compact_root_def compacted_by_def compacts_def split: option.splits)
next
  case (Some c)
  then have "\<forall>p\<in>set [dir]. read_file fs p \<noteq> None" by simp
  from compact_files_grows [OF assms this, of now link_ok "\<lambda>_. False" out] show ?thesis
    using Some by (auto simp: compact_root_def compacted_by_def)
qed

lemma no_file_below_blob:
  assumes "cas_ok sha st fs" "digests sha" "cs_Root st \<noteq> []" "is_digest d" "below (blobPath st d) p"
  shows "read_file fs p = None"
proof (rule ccontr)
  assume "read_file fs p \<noteq> None"
  then obtain c where c: "read_file fs p = Some c" by blast
  from assms(5) obtain t where t: "p = blobPath st d @ ''/'' @ t" by (auto simp: below_def HasPrefix_iff)
  then have "below (object_root st) p"
    using HasPrefix_append [of "object_root st @ ''/''" "take 2 d @ ''/'' @ d @ ''/'' @ t"] assms(3,4) by (simp add: blobPath_shape below_def)
  then have "p = blobPath st (sha c)" using assms(1) c by (simp add: cas_ok_def)
  then have "length p = length (blobPath st (sha c))" by simp
  moreover have "length p = length (blobPath st d) + 1 + length t" using t by simp
  moreover have "length (blobPath st (sha c)) = length (blobPath st d)"
    using assms(2-4) by (simp add: blobPath_shape digests_def) (simp add: is_digest_def)
  ultimately show False using t by simp
qed

lemma compacted_by_grows:
  assumes "compacted_by st fs dir p" "cas_ready sha st fs" "grows sha st fs fs'" "digests sha" "cs_Root st \<noteq> []"
  shows "compacted_by st fs' dir p"
proof (cases "read_file fs dir")
  case None
  have p: "below dir p" "compacts st fs compact_skips p" using assms(1) None by (auto simp: compacted_by_def)
  have "read_file fs' dir = None"
  proof (rule ccontr)
    assume "read_file fs' dir \<noteq> None"
    then obtain c where "dir = blobPath st (sha c)" using None assms(3) unfolding grows_def by fastforce
    then have "read_file fs p = None"
      using no_file_below_blob [of sha st fs "sha c" p] p(1) assms(2,4,5) by (simp add: cas_ready_def digests_def)
    with p(2) show False by (simp add: compacts_def)
  qed
  then show ?thesis using p compacts_grows [OF _ assms(3)] by (simp add: compacted_by_def)
next
  case (Some c)
  then show ?thesis using assms(1) grows_keeps [OF assms(3)] compacts_grows [OF _ assms(3)] by (auto simp: compacted_by_def)
qed

lemma compact_roots_grows:
  assumes "cas_ready sha st fs" "digests sha" "cs_Root st \<noteq> []"
  shows "\<exists>out' fs'. compact_roots sha now link_ok st dirs (out, fs) = (Inr out', fs') \<and> cas_ready sha st fs' \<and> grows sha st fs fs' \<and>
    (\<forall>dir\<in>set dirs. \<forall>p. compacted_by st fs dir p \<longrightarrow> stored sha link_ok st fs' p)"
  using assms
proof (induction dirs arbitrary: out fs)
  case Nil
  then show ?case by simp
next
  case (Cons dir dirs)
  obtain out1 fs1 where r: "compact_root sha now link_ok st dir (out, fs) = (Inr out1, fs1)" "cas_ready sha st fs1" "grows sha st fs fs1"
      "\<forall>p. compacted_by st fs dir p \<longrightarrow> stored sha link_ok st fs1 p"
    using compact_root_grows [OF Cons.prems] by blast
  obtain out' fs' where ih: "compact_roots sha now link_ok st dirs (out1, fs1) = (Inr out', fs')" "cas_ready sha st fs'" "grows sha st fs1 fs'"
      "\<forall>dir\<in>set dirs. \<forall>p. compacted_by st fs1 dir p \<longrightarrow> stored sha link_ok st fs' p"
    using Cons.IH [OF r(2) Cons.prems(2,3)] by blast
  have "\<forall>d\<in>set dirs. \<forall>p. compacted_by st fs d p \<longrightarrow> stored sha link_ok st fs' p"
    using ih(4) compacted_by_grows [OF _ Cons.prems(1) r(3) Cons.prems(2,3)] by blast
  moreover have "\<forall>p. compacted_by st fs dir p \<longrightarrow> stored sha link_ok st fs' p" using r(4) stored_grows [OF _ ih(3)] by blast
  ultimately show ?case using r(1) ih(1,2) grows_trans [OF r(3) ih(3)] by simp
qed

lemma verify_objects_counts:
  assumes "\<forall>p\<in>set paths. \<exists>c. read_file fs p = Some c \<and> path_Base p = sha c \<and> length (sha c) = 64"
  shows "verify_objects sha fs paths st =
    Inr (st\<lparr>cas_Objects := cas_Objects st + int (length paths),
            cas_PhysicalBytes := cas_PhysicalBytes st + sum_list (map (\<lambda>p. int (length (the (read_file fs p)))) paths)\<rparr>)"
  using assms by (induction paths arbitrary: st) (auto simp: HashFile_def Let_def)

lemma cas_ready_verifies:
  assumes "cas_ready sha st fs" "digests sha" "cs_Root st \<noteq> []"
  shows "cas_Verify sha st fs = Inr (zero_stats\<lparr>cas_Objects := int (length (walk (object_root st) fs)),
      cas_PhysicalBytes := sum_list (map (\<lambda>p. int (length (the (read_file fs p)))) (walk (object_root st) fs))\<rparr>)"
proof -
  have "\<exists>c. read_file fs p = Some c \<and> path_Base p = sha c \<and> length (sha c) = 64" if "p \<in> set (walk (object_root st) fs)" for p
  proof -
    from that obtain c where c: "below (object_root st) p" "read_file fs p = Some c"
      using walk_files assms(1) by (auto simp: cas_ready_def)
    then have "p = blobPath st (sha c)" using assms(1) by (simp add: cas_ready_def cas_ok_def)
    then show ?thesis using c path_Base_blob [OF assms(3)] assms(2) by (simp add: digests_def) (simp add: is_digest_def)
  qed
  then show ?thesis by (simp add: cas_Verify_def verify_objects_counts zero_stats_def)
qed

section \<open>Concrete stores\<close>

definition sample_sha :: "string \<Rightarrow> string" where
  "sample_sha c = replicate 64 (if c = ''hello'' then CHR ''a'' else CHR ''b'')"

definition sample_cas :: cas_store where
  "sample_cas = \<lparr>cs_Root = ''/c'', cs_MinFileSize = 0\<rparr>"

definition twin_files :: files where
  "twin_files = \<lparr>fs_names = [(''/b/x'', 0), (''/b/y'', 1)], fs_inodes = [(0, (''hello'', 5)), (1, (''hello'', 6))], fs_next = 2\<rparr>"

definition rotten_files :: files where
  "rotten_files = \<lparr>fs_names = [(''/b/x'', 0), (''/c/sha256/aa/'' @ replicate 64 (CHR ''a''), 1)],
     fs_inodes = [(0, (''hello'', 5)), (1, (''jello'', 6))], fs_next = 2\<rparr>"

lemma digests_sample: "digests sample_sha"
  by (simp add: digests_def is_digest_def sample_sha_def hex_chars_def)

lemma object_root_sample: "object_root sample_cas = ''/c/sha256''"
  unfolding object_root_def sample_cas_def by code_simp

lemma blobPath_sample:
  "blobPath sample_cas (sample_sha ''hello'') = ''/c/sha256/aa/'' @ replicate 64 (CHR ''a'')"
  "c \<noteq> ''hello'' \<Longrightarrow> blobPath sample_cas (sample_sha c) = ''/c/sha256/bb/'' @ replicate 64 (CHR ''b'')"
  using blobPath_shape [of sample_cas "sample_sha ''hello''"] blobPath_shape [of sample_cas "sample_sha c"] digests_sample
  by (simp_all add: object_root_sample digests_def) (simp_all add: sample_cas_def sample_sha_def numeral_2_eq_2)

lemma swap_name_long: "swap_name p = q \<Longrightarrow> 17 \<le> length q"
  by (auto simp: swap_name_def)

lemma cas_ready_sample: "cas_ready sample_sha sample_cas twin_files"
proof -
  have reads: "read_file twin_files p = (if p = ''/b/x'' \<or> p = ''/b/y'' then Some ''hello'' else None)" for p
    by (simp add: read_file_def file_inode_def twin_files_def)
  have "files_wf twin_files" by (simp add: files_wf_def twin_files_def)
  moreover have "no_leftovers twin_files"
    using swap_name_long [of _ "''/b/x''"] swap_name_long [of _ "''/b/y''"] by (auto simp: no_leftovers_def reads)
  ultimately show ?thesis
    by (auto simp: cas_ready_def cas_ok_def no_collision_def reads object_root_sample below_def split: if_splits)
qed

text \<open>
  C24. Compaction of a well-formed store never fails, changes the contents of no file, adds nothing but
  objects of contents that were there, keeps the store well-formed (so it verifies again), and leaves
  the object of every file it covers in the store, the file itself being a link to it wherever linking works.
\<close>

theorem compact_safe:
  assumes "cas_ready sha st fs" "digests sha" "cs_Root st \<noteq> []"
  shows "\<exists>out fs'. Compact sha now link_ok st paths fs = (Inr out, fs') \<and> cas_ready sha st fs' \<and>
    (\<forall>p c. read_file fs p = Some c \<longrightarrow> read_file fs' p = Some c) \<and>
    (\<forall>p c. read_file fs p = None \<longrightarrow> read_file fs' p = Some c \<longrightarrow> p = blobPath st (sha c) \<and> (\<exists>q. read_file fs q = Some c)) \<and>
    (\<forall>dir\<in>set paths. \<forall>p. compacted_by st fs dir p \<longrightarrow> stored sha link_ok st fs' p) \<and>
    cas_Objects out = int (length (walk (object_root st) fs'))"
proof -
  obtain out' fs' where r: "compact_roots sha now link_ok st (sort_strings paths) (zero_stats, fs) = (Inr out', fs')"
      "cas_ready sha st fs'" "grows sha st fs fs'"
      "\<forall>dir\<in>set (sort_strings paths). \<forall>p. compacted_by st fs dir p \<longrightarrow> stored sha link_ok st fs' p"
    using compact_roots_grows [OF assms] by blast
  obtain phys where phys: "cas_Verify sha st fs' = Inr phys" "cas_Objects phys = int (length (walk (object_root st) fs'))"
    using cas_ready_verifies [OF r(2) assms(2,3)] by simp
  have "Compact sha now link_ok st paths fs =
      (Inr (out'\<lparr>cas_Objects := cas_Objects phys, cas_PhysicalBytes := cas_PhysicalBytes phys\<rparr>), fs')"
    using r(1) phys(1) by (simp add: Compact_def)
  then show ?thesis using r(2-4) phys(2) unfolding grows_def by fastforce
qed

theorem compact_safe_witness:
  "\<exists>out fs'. Compact sample_sha 9 (\<lambda>_. True) sample_cas [''/b''] twin_files = (Inr out, fs') \<and>
     read_file fs' ''/b/y'' = Some ''hello'' \<and> same_file fs' ''/b/x'' ''/b/y''"
proof -
  have "cs_Root sample_cas \<noteq> []" by (simp add: sample_cas_def)
  from compact_safe [OF cas_ready_sample digests_sample this, of 9 "\<lambda>_. True" "[''/b'']"]
  obtain out fs' where c: "Compact sample_sha 9 (\<lambda>_. True) sample_cas [''/b''] twin_files = (Inr out, fs')"
      "\<And>p c. read_file twin_files p = Some c \<Longrightarrow> read_file fs' p = Some c"
      "\<And>p. compacted_by sample_cas twin_files ''/b'' p \<Longrightarrow> stored sample_sha (\<lambda>_. True) sample_cas fs' p"
    by auto
  have reads: "read_file twin_files ''/b/x'' = Some ''hello''" "read_file twin_files ''/b/y'' = Some ''hello''"
    by (simp_all add: read_file_def file_inode_def twin_files_def)
  have "compacted_by sample_cas twin_files ''/b'' ''/b/x''" "compacted_by sample_cas twin_files ''/b'' ''/b/y''"
    by code_simp+
  from this [THEN c(3)] reads [THEN c(2)]
  have "same_file fs' ''/b/x'' (blobPath sample_cas (sample_sha ''hello''))" "same_file fs' ''/b/y'' (blobPath sample_cas (sample_sha ''hello''))"
    by (simp_all add: stored_def)
  then have "same_file fs' ''/b/x'' ''/b/y''" unfolding same_file_def by metis
  with c(1) c(2) [OF reads(2)] show ?thesis by blast
qed

text \<open>
  C25. An object that is already in the store is trusted by its size alone: ingesting a good file whose
  object has rotted to other bytes of the same length reports success and reclaimed space, and puts the
  rotten bytes in the place of the file.
\<close>

theorem ingest_trusts_rotten_object:
  assumes "digests sha" "cs_Root st \<noteq> []" "read_file fs p = Some c" "\<not> int (length c) < cs_MinFileSize st"
    and "read_file fs (blobPath st (sha c)) = Some bad" "length bad = length c" "bad \<noteq> c" "link_ok p"
  shows "\<exists>r fs'. Ingest sha now link_ok st p fs = (Inr r, fs') \<and> ig_SHA256 r = sha c \<and> ig_Existing r \<and> ig_HardLinked r \<and>
    ig_ReclaimedBytes r = int (length c) \<and> read_file fs' p = Some bad"
proof -
  have "blobPath st (sha c) \<noteq> swap_name p" using blob_not_swap [OF assms(2)] assms(1) by (simp add: digests_def)
  then have b: "read_file (remove_file (swap_name p) fs) (blobPath st (sha c)) = Some bad" using assms(5) by simp
  have "\<not> same_file fs p (blobPath st (sha c))" using same_file_read assms(3,5,7) by fastforce
  then show ?thesis using assms(3-8) b by (auto simp: Ingest_def store_object_def Let_def)
qed

theorem ingest_trusts_rotten_object_witness:
  "\<exists>r fs'. Ingest sample_sha 9 (\<lambda>_. True) sample_cas ''/b/x'' rotten_files = (Inr r, fs') \<and> ig_HardLinked r \<and>
     read_file rotten_files ''/b/x'' = Some ''hello'' \<and> read_file fs' ''/b/x'' = Some ''jello''"
proof -
  have "cs_Root sample_cas \<noteq> []" "\<not> int (length ''hello'') < cs_MinFileSize sample_cas" by (simp_all add: sample_cas_def)
  moreover have "read_file rotten_files ''/b/x'' = Some ''hello''"
      "read_file rotten_files (blobPath sample_cas (sample_sha ''hello'')) = Some ''jello''"
    by (simp_all add: blobPath_sample read_file_def file_inode_def rotten_files_def)
  ultimately show ?thesis
    using ingest_trusts_rotten_object [OF digests_sample, of sample_cas rotten_files "''/b/x''" "''hello''" "''jello''" "\<lambda>_. True" 9] by auto
qed

section \<open>Garbage collection\<close>

definition gc_drops :: "string list \<Rightarrow> bool \<Rightarrow> string list \<Rightarrow> string list" where
  "gc_drops reachable dryRun paths = (if dryRun then [] else filter (\<lambda>p. path_Base p \<notin> set reachable) paths)"

lemma gc_objects_exact:
  assumes "distinct paths" "\<forall>p\<in>set paths. length (path_Base p) = 64 \<and> read_file fs p \<noteq> None"
  shows "\<exists>out' fs'. gc_objects reachable dryRun paths (out, fs) = ((out', None), fs') \<and>
    (\<forall>p. read_file fs' p = (if p \<in> set (gc_drops reachable dryRun paths) then None else read_file fs p)) \<and>
    (dryRun \<longrightarrow> fs' = fs) \<and> gc_Removed out' = gc_Removed out + int (length (filter (\<lambda>p. path_Base p \<notin> set reachable) paths))"
  using assms
proof (induction paths arbitrary: out fs)
  case Nil
  then show ?case by (simp add: gc_drops_def)
next
  case (Cons p ps)
  show ?case
  proof (cases "path_Base p \<in> set reachable")
    case True
    then have "gc_drops reachable dryRun (p # ps) = gc_drops reachable dryRun ps" by (simp add: gc_drops_def)
    then show ?thesis using Cons.IH [of fs out] Cons.prems True by simp
  next
    case False
    obtain c where c: "read_file fs p = Some c" using Cons.prems by auto
    let ?out = "out\<lparr>gc_Removed := gc_Removed out + 1, gc_RemovedBytes := gc_RemovedBytes out + int (length c)\<rparr>"
    let ?fs = "if dryRun then fs else remove_file p fs"
    have "\<forall>q\<in>set ps. length (path_Base q) = 64 \<and> read_file ?fs q \<noteq> None" using Cons.prems by auto
    then obtain out' fs' where ih: "gc_objects reachable dryRun ps (?out, ?fs) = ((out', None), fs')"
        "\<forall>q. read_file fs' q = (if q \<in> set (gc_drops reachable dryRun ps) then None else read_file ?fs q)"
        "dryRun \<longrightarrow> fs' = ?fs" "gc_Removed out' = gc_Removed ?out + int (length (filter (\<lambda>p. path_Base p \<notin> set reachable) ps))"
      using Cons.IH [of ?fs ?out] Cons.prems(1) by auto
    have "gc_objects reachable dryRun (p # ps) (out, fs) = ((out', None), fs')"
      using ih(1) False c Cons.prems(2) by simp
    moreover have "read_file fs' q = (if q \<in> set (gc_drops reachable dryRun (p # ps)) then None else read_file fs q)" for q
      using ih(2) False by (auto simp: gc_drops_def)
    ultimately show ?thesis using ih(3,4) False by auto
  qed
qed

lemma in_gc_reachable:
  "d \<in> set (gc_reachable sha cwd st fs roots protected) \<longleftrightarrow>
     (\<exists>p \<in> set (gc_scanned cwd st fs roots). d = sha (the (read_file fs p))) \<or> (\<exists>e \<in> set protected. length e = 64 \<and> d = ToLower e)"
  by (auto simp: gc_reachable_def)

lemma cas_object_name:
  assumes "cas_ready sha st fs" "digests sha" "cs_Root st \<noteq> []" "below (object_root st) p" "read_file fs p = Some c"
  shows "p = blobPath st (sha c)" "path_Base p = sha c" "length (path_Base p) = 64"
proof -
  show "p = blobPath st (sha c)" using assms(1,4,5) by (simp add: cas_ready_def cas_ok_def)
  moreover have "is_digest (sha c)" using assms(2) by (simp add: digests_def)
  ultimately show "path_Base p = sha c" "length (path_Base p) = 64"
    using path_Base_blob [OF assms(3)] by (auto simp: is_digest_def)
qed

lemma gc_exact:
  assumes "cas_ready sha st fs" "digests sha" "cs_Root st \<noteq> []"
  shows "\<exists>out fs'. GCProtected sha cwd st roots dryRun protected fs = ((out, None), fs') \<and> (dryRun \<longrightarrow> fs' = fs) \<and>
    (\<forall>p. read_file fs' p = (if \<not> dryRun \<and> below (object_root st) p \<and> path_Base p \<notin> set (gc_reachable sha cwd st fs roots protected)
       then None else read_file fs p))"
proof -
  let ?ps = "walk (object_root st) fs" and ?re = "gc_reachable sha cwd st fs roots protected"
  have wf: "files_wf fs" using assms(1) by (simp add: cas_ready_def)
  have "distinct ?ps" using wf by (simp add: walk_def files_wf_def)
  moreover have "\<forall>p\<in>set ?ps. length (path_Base p) = 64 \<and> read_file fs p \<noteq> None"
    using walk_files [OF wf] cas_object_name [OF assms] by auto
  ultimately have "\<exists>out' fs'. gc_objects ?re dryRun ?ps (out, fs) = ((out', None), fs') \<and>
      (\<forall>p. read_file fs' p = (if p \<in> set (gc_drops ?re dryRun ?ps) then None else read_file fs p)) \<and> (dryRun \<longrightarrow> fs' = fs)" for out
    using gc_objects_exact [of ?ps fs ?re dryRun out] by blast
  then obtain out fs' where gc: "GCProtected sha cwd st roots dryRun protected fs = ((out, None), fs')" "dryRun \<longrightarrow> fs' = fs"
      "\<forall>p. read_file fs' p = (if p \<in> set (gc_drops ?re dryRun ?ps) then None else read_file fs p)"
    unfolding GCProtected_def Let_def by blast
  have "p \<in> set (gc_drops ?re dryRun ?ps) \<longleftrightarrow> \<not> dryRun \<and> below (object_root st) p \<and> path_Base p \<notin> set ?re \<and> read_file fs p \<noteq> None" for p
    using walk_files [OF wf] by (auto simp: gc_drops_def)
  with gc show ?thesis by auto
qed

end
