(* ===== verification/Cas_Command.thy ===== *)
theory Cas_Command
  imports Cas_Properties Full_Config Object_Refs Erasure_Codec
begin

text \<open>
  The \<^verbatim>\<open>cas\<close> command (\<^verbatim>\<open>internal/app/app.go\<close>, \<^verbatim>\<open>runCAS\<close>) over the content-addressed store, the erasure codec and the
  control-plane database, whose references and leases garbage collection has to respect.  The outcome
  of opening the database is part of the environment; the answer stands for what is printed.
\<close>

record cas_env =
  ce_rs :: rs_codec
  ce_sha :: "string \<Rightarrow> string"
  ce_now :: time
  ce_cwd :: string
  ce_link_ok :: "string \<Rightarrow> bool"
  ce_store :: "database result"

record cas_world =
  cw_files :: files
  cw_erasure :: "(string, erasure_dir) gomap"

datatype cas_answer = CasStats cas_stats | CasGC gc_result | CasCount int | CasManifest manifest | CasDone

definition compact_dirs :: "string \<Rightarrow> string list" where
  "compact_dirs dir = map (\<lambda>d. path_Join [dir, d])
     [''release-assets'', ''actions-artifacts'', ''oci'', ''packages'', ''official-exports'', ''lfs'', ''bundles'']"

definition account_roots :: "full_config \<Rightarrow> string list" where
  "account_roots cfg = filter (\<lambda>r. r \<noteq> []) (map fa_BackupRoot (fl_Accounts (fc_Fleet cfg)))"

definition gitlab_exports :: "full_config \<Rightarrow> string list" where
  "gitlab_exports cfg = (if gl_Enabled (fc_GitLab cfg) then [path_Join [gl_DataDir (fc_GitLab cfg), ''exports'']] else [])"

definition casCompactPaths :: "full_config \<Rightarrow> string list" where
  "casCompactPaths cfg = compact_dirs (bk_Root (fc_Backup cfg)) @ concat (map compact_dirs (account_roots cfg)) @ gitlab_exports cfg"

definition casReachabilityRoots :: "full_config \<Rightarrow> string list" where
  "casReachabilityRoots cfg = [bk_Root (fc_Backup cfg)] @ account_roots cfg @ gitlab_exports cfg"

definition cas_of :: "full_config \<Rightarrow> cas_store" where
  "cas_of cfg = cas_New (ca_Root (fc_CAS cfg)) (ca_MinFileSize (fc_CAS cfg))"

text \<open>The digests the control plane protects: none when it is disabled or its store does not open.\<close>

definition gc_protected :: "cas_env \<Rightarrow> full_config \<Rightarrow> string list" where
  "gc_protected en cfg = (if cp_Enabled (fc_ControlPlane cfg)
     then (case ce_store en of Inl e \<Rightarrow> [] | Inr db \<Rightarrow> sql_ProtectedObjectDigests (ce_now en) db)
     else [])"

definition runCAS_gc :: "cas_env \<Rightarrow> full_config \<Rightarrow> string list \<Rightarrow> cas_world \<Rightarrow> cas_answer result \<times> cas_world" where
  "runCAS_gc en cfg args w =
     (case GCProtected (ce_sha en) (ce_cwd en) (cas_of cfg) (casReachabilityRoots cfg) (''--dry-run'' \<in> set args) (gc_protected en cfg) (cw_files w) of
        ((gc, Some e), fs) \<Rightarrow> (Inl e, w\<lparr>cw_files := fs\<rparr>)
      | ((gc, None), fs) \<Rightarrow> (Inr (CasGC gc), w\<lparr>cw_files := fs\<rparr>))"

definition file_contents :: "files \<Rightarrow> string list \<Rightarrow> (string \<times> string) list" where
  "file_contents fs paths = map (\<lambda>p. (p, the (read_file fs p))) (filter (\<lambda>p. read_file fs p \<noteq> None) paths)"

definition runCAS_protect :: "cas_env \<Rightarrow> full_config \<Rightarrow> cas_world \<Rightarrow> cas_answer result \<times> cas_world" where
  "runCAS_protect en cfg w =
     (let ec = sc_Erasure (cp_Storage (fc_ControlPlane cfg)); dir = ca_Root (fc_CAS cfg); fs = cw_files w in
      if \<not> ec_Enabled ec then (Inl (GoErr ''control_plane.storage.erasure is disabled''), w)
      else
        (case ProtectPaths (ce_rs en) (ce_sha en) (ce_now en)
                \<lparr>cf_DataShards = ec_DataShards ec, cf_ParityShards = ec_ParityShards ec, cf_BlockBytes = ec_BlockBytes ec\<rparr>
                dir (file_contents fs (gkeys (fs_names fs))) (file_contents fs (walk (path_Join [dir, ''sha256'']) fs))
                (ec_MinObjectBytes ec) (cw_erasure w) of
           (n, Some e, dirs) \<Rightarrow> (Inl e, w\<lparr>cw_erasure := dirs\<rparr>)
         | (n, None, dirs) \<Rightarrow> (Inr (CasCount n), w\<lparr>cw_erasure := dirs\<rparr>)))"

definition erasure_at :: "full_config \<Rightarrow> cas_world \<Rightarrow> string \<Rightarrow> erasure_dir" where
  "erasure_at cfg w d = (case gget (cw_erasure w) (path_Join [ca_Root (fc_CAS cfg), ''erasure'', take 2 d, d]) of
     None \<Rightarrow> \<lparr>ed_Manifest = None, ed_Files = []\<rparr> | Some ed \<Rightarrow> ed)"

definition runCAS_verify_set :: "cas_env \<Rightarrow> full_config \<Rightarrow> string list \<Rightarrow> cas_world \<Rightarrow> cas_answer result \<times> cas_world" where
  "runCAS_verify_set en cfg args w = (case args of
     [] \<Rightarrow> (Inl (GoErr ''usage: repoark cas erasure-verify SHA256''), w)
   | a # _ \<Rightarrow>
       let d = ToLower (TrimSpace a) in
       if length d \<noteq> 64 then (Inl (GoErr ''SHA256 digest required''), w)
       else (case Verify (ce_sha en) (erasure_at cfg w d) of Inl e \<Rightarrow> (Inl e, w) | Inr m \<Rightarrow> (Inr (CasManifest m), w)))"

definition runCAS_reconstruct :: "cas_env \<Rightarrow> full_config \<Rightarrow> string list \<Rightarrow> cas_world \<Rightarrow> cas_answer result \<times> cas_world" where
  "runCAS_reconstruct en cfg args w = (case args of
     a # out # _ \<Rightarrow>
       let d = ToLower (TrimSpace a) in
       if length d \<noteq> 64 then (Inl (GoErr ''SHA256 digest required''), w)
       else (case Reconstruct (ce_rs en) (ce_sha en) (erasure_at cfg w d) (read_file (cw_files w) out) of
           (Inl e, _) \<Rightarrow> (Inl e, w)
         | (Inr _, None) \<Rightarrow> (Inr CasDone, w)
         | (Inr _, Some c) \<Rightarrow> (Inr CasDone, w\<lparr>cw_files := put_file (ce_now en) out c (cw_files w)\<rparr>))
   | _ \<Rightarrow> (Inl (GoErr ''usage: repoark cas erasure-reconstruct SHA256 OUTPUT''), w))"

definition runCAS :: "cas_env \<Rightarrow> full_config \<Rightarrow> string list \<Rightarrow> cas_world \<Rightarrow> cas_answer result \<times> cas_world" where
  "runCAS en cfg argv w =
     (if \<not> ca_Enabled (fc_CAS cfg) then (Inl (GoErr ''CAS is disabled in config''), w)
      else (case argv of
        [] \<Rightarrow> (Inl (GoErr ''usage: repoark cas <stats|verify|compact|gc|erasure-protect|erasure-verify|erasure-reconstruct>''), w)
      | cmd # args \<Rightarrow>
          if cmd = ''stats'' \<or> cmd = ''verify'' then
            (case cas_Verify (ce_sha en) (cas_of cfg) (cw_files w) of Inl e \<Rightarrow> (Inl e, w) | Inr st \<Rightarrow> (Inr (CasStats st), w))
          else if cmd = ''compact'' then
            (case Compact (ce_sha en) (ce_now en) (ce_link_ok en) (cas_of cfg) (casCompactPaths cfg) (cw_files w) of
               (Inl e, fs) \<Rightarrow> (Inl e, w\<lparr>cw_files := fs\<rparr>)
             | (Inr st, fs) \<Rightarrow> (Inr (CasStats st), w\<lparr>cw_files := fs\<rparr>))
          else if cmd = ''gc'' then runCAS_gc en cfg args w
          else if cmd = ''erasure-protect'' then runCAS_protect en cfg w
          else if cmd = ''erasure-verify'' then runCAS_verify_set en cfg args w
          else if cmd = ''erasure-reconstruct'' then runCAS_reconstruct en cfg args w
          else (Inl (GoErr (''unknown cas command '' @ [CHR 0x22] @ cmd @ [CHR 0x22])), w)))"

section \<open>Garbage collection under the control plane's protection\<close>

definition held :: "time \<Rightarrow> database \<Rightarrow> string \<Rightarrow> bool" where
  "held now db d = (0 < ref_count (d_object_refs db) d \<or> (\<exists>l \<in> set (gvals (d_object_leases db)). ol_Digest l = d \<and> ol_ExpiresAt l > now))"

definition scanned_object :: "cas_env \<Rightarrow> full_config \<Rightarrow> files \<Rightarrow> string \<Rightarrow> bool" where
  "scanned_object en cfg fs d =
     (\<exists>p \<in> set (gc_scanned (ce_cwd en) (cas_of cfg) fs (casReachabilityRoots cfg)). d = ce_sha en (the (read_file fs p)))"

definition gc_keeps :: "cas_env \<Rightarrow> full_config \<Rightarrow> files \<Rightarrow> string \<Rightarrow> bool" where
  "gc_keeps en cfg fs d = (scanned_object en cfg fs d \<or> (\<exists>e \<in> set (gc_protected en cfg). length e = 64 \<and> d = ToLower e))"

lemma runCAS_gc_run:
  assumes "cas_ready (ce_sha en) (cas_of cfg) (cw_files w)" "digests (ce_sha en)" "ca_Root (fc_CAS cfg) \<noteq> []" "ca_Enabled (fc_CAS cfg)"
  shows "\<exists>r fs'. runCAS en cfg (''gc'' # args) w = (Inr (CasGC r), w\<lparr>cw_files := fs'\<rparr>) \<and>
    (\<forall>p. \<not> below (object_root (cas_of cfg)) p \<or> ''--dry-run'' \<in> set args \<longrightarrow> read_file fs' p = read_file (cw_files w) p) \<and>
    (\<forall>d. is_digest d \<longrightarrow> ''--dry-run'' \<notin> set args \<longrightarrow> read_file fs' (blobPath (cas_of cfg) d) =
       (if gc_keeps en cfg (cw_files w) d then read_file (cw_files w) (blobPath (cas_of cfg) d) else None))"
proof -
  let ?st = "cas_of cfg" and ?dry = "''--dry-run'' \<in> set args"
  let ?re = "gc_reachable (ce_sha en) (ce_cwd en) ?st (cw_files w) (casReachabilityRoots cfg) (gc_protected en cfg)"
  have cs: "cs_Root ?st \<noteq> []" using assms(3) by (simp add: cas_of_def cas_New_def)
  obtain r fs' where gc: "GCProtected (ce_sha en) (ce_cwd en) ?st (casReachabilityRoots cfg) ?dry (gc_protected en cfg) (cw_files w) = ((r, None), fs')"
      "\<And>p. read_file fs' p = (if \<not> ?dry \<and> below (object_root ?st) p \<and> path_Base p \<notin> set ?re then None else read_file (cw_files w) p)"
    using gc_exact [OF assms(1,2) cs, of "ce_cwd en" "casReachabilityRoots cfg" ?dry "gc_protected en cfg"] by blast
  have "runCAS en cfg (''gc'' # args) w = (Inr (CasGC r), w\<lparr>cw_files := fs'\<rparr>)"
    using gc(1) assms(4) by (simp add: runCAS_def runCAS_gc_def)
  moreover have "d \<in> set ?re \<longleftrightarrow> gc_keeps en cfg (cw_files w) d" for d
    unfolding in_gc_reachable gc_keeps_def scanned_object_def ..
  ultimately show ?thesis
    using gc(2) below_blob [OF cs] path_Base_blob [OF cs] by (intro exI [of _ r] exI [of _ fs']) simp
qed

section \<open>A concrete collection\<close>

definition gc_config :: full_config where
  "gc_config = (Default ''/h'')\<lparr>fc_CAS := \<lparr>ca_Enabled = True, ca_Root = ''/c'', ca_MinFileSize = 0, ca_AutoCompact = False\<rparr>,
     fc_Backup := \<lparr>bk_Root = ''/b'', bk_Concurrency = 1, bk_CreateBundles = True, bk_FetchLFS = False, bk_VerifyAfterBackup = True, bk_KeepManifests = 3\<rparr>,
     fc_ControlPlane := default_control_plane ''/h''\<lparr>cp_Enabled := True\<rparr>\<rparr>"

definition gc_files :: files where
  "gc_files = \<lparr>fs_names = [(''/b/x'', 0), (''/c/sha256/aa/'' @ replicate 64 (CHR ''a''), 0), (''/c/sha256/bb/'' @ replicate 64 (CHR ''b''), 1)],
     fs_inodes = [(0, (''hello'', 5)), (1, (''shard'', 6))], fs_next = 2\<rparr>"

definition gc_database :: database where
  "gc_database = sql_Migrate\<lparr>d_object_refs := [(replicate 64 (CHR ''b''),
     sample_ref\<lparr>or_Digest := replicate 64 (CHR ''b''), or_RefCount := 1\<rparr>)]\<rparr>"

definition gc_env :: "database result \<Rightarrow> cas_env" where
  "gc_env r = \<lparr>ce_rs = \<lparr>rs_New = \<lambda>_ _. None, rs_Encode = \<lambda>_ _. Inr, rs_Reconstruct = \<lambda>_ _ _. Inr []\<rparr>, ce_sha = sample_sha, ce_now = 9,
     ce_cwd = ''/'', ce_link_ok = \<lambda>_. True, ce_store = r\<rparr>"

lemma gc_config_fields:
  "cas_of gc_config = sample_cas" "ca_Enabled (fc_CAS gc_config)" "ca_Root (fc_CAS gc_config) \<noteq> []" "cp_Enabled (fc_ControlPlane gc_config)"
  by (simp_all add: gc_config_def cas_of_def cas_New_def sample_cas_def)

lemma read_gc_files:
  "read_file gc_files p = (if p = ''/b/x'' \<or> p = ''/c/sha256/aa/'' @ replicate 64 (CHR ''a'') then Some ''hello''
     else if p = ''/c/sha256/bb/'' @ replicate 64 (CHR ''b'') then Some ''shard'' else None)"
  by (simp add: read_file_def file_inode_def gc_files_def)

lemma cas_ready_gc_files: "cas_ready sample_sha sample_cas gc_files"
proof -
  have "files_wf gc_files" by (simp add: files_wf_def gc_files_def)
  moreover have "read_file gc_files (swap_name p) = None" for p
  proof -
    have "last (swap_name p) = CHR ''p''" by (simp add: swap_name_def)
    then have "swap_name p \<noteq> ''/b/x''" "swap_name p \<noteq> ''/c/sha256/aa/'' @ replicate 64 (CHR ''a'')"
        "swap_name p \<noteq> ''/c/sha256/bb/'' @ replicate 64 (CHR ''b'')"
      by (auto simp: last_append)
    then show ?thesis by (simp add: read_gc_files)
  qed
  moreover have "cas_ok sample_sha sample_cas gc_files"
    by (auto simp: cas_ok_def read_gc_files object_root_sample below_def blobPath_sample split: if_splits)
  moreover have "sample_sha ''hello'' \<noteq> sample_sha ''shard''" by (simp add: sample_sha_def)
  then have "no_collision sample_sha gc_files" by (auto simp: no_collision_def read_gc_files split: if_splits)
  ultimately show ?thesis by (simp add: cas_ready_def no_leftovers_def)
qed

lemma gc_scanned_sample: "scanned_object (gc_env r) gc_config gc_files d \<longleftrightarrow> d = sample_sha ''hello''"
proof -
  have roots: "casReachabilityRoots gc_config = [''/b'']"
    by (simp add: casReachabilityRoots_def account_roots_def gitlab_exports_def gc_config_def Default_def default_gitlab_def)
  have "walk ''/b'' gc_files = [''/b/x'']" "read_file gc_files ''/b'' = None" "\<not> gc_root_skipped ''/'' sample_cas ''/b''" "scans sample_cas gc_files ''/b/x''"
    by (simp add: walk_def gc_files_def below_def, simp add: read_gc_files, code_simp, simp add: scans_def read_gc_files sample_cas_def, code_simp)
  then have "gc_scanned ''/'' sample_cas gc_files [''/b''] = [''/b/x'']" by (simp add: gc_scanned_def)
  then show ?thesis by (simp add: scanned_object_def roots gc_config_fields gc_env_def read_gc_files)
qed

lemma sql_ref_rep_gc: "sql_ref_rep gc_database"
  by (simp add: sql_ref_rep_def sql_pairs_def gc_database_def sql_Migrate_def sql_SetMeta_def)

text \<open>
  C26. Garbage collection with the control plane's store open: it succeeds, touches nothing outside the
  object directory (and nothing at all in a dry run), keeps every object that has a reference or an
  unexpired lease and the object of every file it scans below the backup roots, and drops every object
  that is neither scanned nor held under any spelling of its digest.
\<close>

theorem cas_gc_correct:
  assumes "cas_ready (ce_sha en) (cas_of cfg) (cw_files w)" "digests (ce_sha en)" "ca_Root (fc_CAS cfg) \<noteq> []" "ca_Enabled (fc_CAS cfg)"
    and "cp_Enabled (fc_ControlPlane cfg)" "ce_store en = Inr db" "sql_ref_rep db"
  shows "\<exists>r fs'. runCAS en cfg (''gc'' # args) w = (Inr (CasGC r), w\<lparr>cw_files := fs'\<rparr>) \<and>
    (\<forall>p. \<not> below (object_root (cas_of cfg)) p \<or> ''--dry-run'' \<in> set args \<longrightarrow> read_file fs' p = read_file (cw_files w) p) \<and>
    (\<forall>d. is_digest d \<longrightarrow> ''--dry-run'' \<notin> set args \<longrightarrow> held (ce_now en) db d \<or> scanned_object en cfg (cw_files w) d \<longrightarrow>
       read_file fs' (blobPath (cas_of cfg) d) = read_file (cw_files w) (blobPath (cas_of cfg) d)) \<and>
    (\<forall>d. is_digest d \<longrightarrow> ''--dry-run'' \<notin> set args \<longrightarrow> \<not> (\<exists>e. ToLower e = d \<and> held (ce_now en) db e) \<longrightarrow>
       \<not> scanned_object en cfg (cw_files w) d \<longrightarrow> read_file fs' (blobPath (cas_of cfg) d) = None)"
proof -
  have prot: "e \<in> set (gc_protected en cfg) \<longleftrightarrow> held (ce_now en) db e" for e
    using assms(5-7) by (simp add: gc_protected_def sql_protected_iff held_def)
  have keeps: "gc_keeps en cfg (cw_files w) d" if "is_digest d" "held (ce_now en) db d \<or> scanned_object en cfg (cw_files w) d" for d
    using that prot ToLower_digest [OF that(1)] unfolding gc_keeps_def is_digest_def by metis
  have drops: "\<not> gc_keeps en cfg (cw_files w) d" if "\<not> (\<exists>e. ToLower e = d \<and> held (ce_now en) db e)" "\<not> scanned_object en cfg (cw_files w) d" for d
    using that prot unfolding gc_keeps_def by metis
  obtain r fs' where run: "runCAS en cfg (''gc'' # args) w = (Inr (CasGC r), w\<lparr>cw_files := fs'\<rparr>)"
      "\<forall>p. \<not> below (object_root (cas_of cfg)) p \<or> ''--dry-run'' \<in> set args \<longrightarrow> read_file fs' p = read_file (cw_files w) p"
      "\<forall>d. is_digest d \<longrightarrow> ''--dry-run'' \<notin> set args \<longrightarrow> read_file fs' (blobPath (cas_of cfg) d) =
        (if gc_keeps en cfg (cw_files w) d then read_file (cw_files w) (blobPath (cas_of cfg) d) else None)"
    using runCAS_gc_run [OF assms(1-4), of args] by blast
  show ?thesis
    by (rule exI [of _ r], rule exI [of _ fs'], use run keeps drops in simp)
qed

theorem cas_gc_correct_witness:
  "\<exists>r fs'. runCAS (gc_env (Inr gc_database)) gc_config [''gc''] \<lparr>cw_files = gc_files, cw_erasure = []\<rparr> =
       (Inr (CasGC r), \<lparr>cw_files = fs', cw_erasure = []\<rparr>) \<and>
     read_file fs' (''/c/sha256/aa/'' @ replicate 64 (CHR ''a'')) = Some ''hello'' \<and>
     read_file fs' (''/c/sha256/bb/'' @ replicate 64 (CHR ''b'')) = Some ''shard''"
proof -
  let ?en = "gc_env (Inr gc_database)" and ?w = "\<lparr>cw_files = gc_files, cw_erasure = []\<rparr>"
  have "cas_ready (ce_sha ?en) (cas_of gc_config) (cw_files ?w)" "digests (ce_sha ?en)" "ce_store ?en = Inr gc_database"
    using cas_ready_gc_files digests_sample by (simp_all add: gc_env_def gc_config_fields)
  from cas_gc_correct [OF this(1,2) gc_config_fields(3,2,4) this(3) sql_ref_rep_gc, of "[]"]
  obtain r fs' where gc: "runCAS ?en gc_config [''gc''] ?w = (Inr (CasGC r), ?w\<lparr>cw_files := fs'\<rparr>)"
      "\<And>d. is_digest d \<Longrightarrow> held 9 gc_database d \<or> scanned_object ?en gc_config gc_files d \<Longrightarrow>
         read_file fs' (blobPath sample_cas d) = read_file gc_files (blobPath sample_cas d)"
    by (auto simp: gc_config_fields gc_env_def)
  have "held 9 gc_database (sample_sha ''shard'')"
    by (simp add: held_def ref_count_def gc_database_def sample_sha_def)
  then show ?thesis
    using gc(1) gc(2) [of "sample_sha ''hello''"] gc(2) [of "sample_sha ''shard''"] digests_sample
    by (simp add: gc_scanned_sample blobPath_sample read_gc_files digests_def)
qed

text \<open>
  C27. The protection fails open: when the control plane's store cannot be opened, the command reports
  success all the same and drops every object it does not reach from the backup roots, referenced or leased ones included.
\<close>

theorem cas_gc_fails_open:
  assumes "cas_ready (ce_sha en) (cas_of cfg) (cw_files w)" "digests (ce_sha en)" "ca_Root (fc_CAS cfg) \<noteq> []" "ca_Enabled (fc_CAS cfg)"
    and "ce_store en = Inl e" "''--dry-run'' \<notin> set args" "is_digest d" "\<not> scanned_object en cfg (cw_files w) d"
  shows "\<exists>r fs'. runCAS en cfg (''gc'' # args) w = (Inr (CasGC r), w\<lparr>cw_files := fs'\<rparr>) \<and> read_file fs' (blobPath (cas_of cfg) d) = None"
proof -
  have "gc_protected en cfg = []" using assms(5) unfolding gc_protected_def by simp
  then have "\<not> gc_keeps en cfg (cw_files w) d" using assms(8) by (simp add: gc_keeps_def)
  then show ?thesis using runCAS_gc_run [OF assms(1-4), of args] assms(6,7) by metis
qed

theorem cas_gc_fails_open_witness:
  "\<exists>r fs'. runCAS (gc_env (Inl (GoErr ''database is locked''))) gc_config [''gc''] \<lparr>cw_files = gc_files, cw_erasure = []\<rparr> =
       (Inr (CasGC r), \<lparr>cw_files = fs', cw_erasure = []\<rparr>) \<and>
     read_file fs' (''/c/sha256/bb/'' @ replicate 64 (CHR ''b'')) = None"
proof -
  let ?en = "gc_env (Inl (GoErr ''database is locked''))" and ?w = "\<lparr>cw_files = gc_files, cw_erasure = []\<rparr>"
  have "cas_ready (ce_sha ?en) (cas_of gc_config) (cw_files ?w)" "digests (ce_sha ?en)" "ce_store ?en = Inl (GoErr ''database is locked'')"
    using cas_ready_gc_files digests_sample by (simp_all add: gc_env_def gc_config_fields)
  moreover have "\<not> scanned_object ?en gc_config gc_files (sample_sha ''shard'')" "is_digest (sample_sha ''shard'')"
    using digests_sample by (simp_all add: gc_scanned_sample digests_def) (simp add: sample_sha_def)
  ultimately show ?thesis
    using cas_gc_fails_open [OF _ _ gc_config_fields(3,2), of ?en ?w _ "[]" "sample_sha ''shard''"]
    by (simp add: gc_config_fields blobPath_sample)
qed

end
