(* ===== verification/Cas_Sync.thy ===== *)
theory Cas_Sync
  imports Cas_Store Inventory
begin

text \<open>
  Synchronisation of the content-addressed store between hosts (\<^verbatim>\<open>internal/cassync/cassync.go\<close>): a tar stream of
  objects, chosen by divergent prefix and rendezvous placement or by an explicit list, closed by a manifest,
  and its verified installation.  A tar stream is the list of what \<^verbatim>\<open>Next\<close> returns; the JSON coding of the
  manifest is a pair of arguments.  Staged files live outside the modelled name space.
\<close>

record cas_object =
  co_Digest :: string
  co_Bytes :: int

record cas_manifest =
  cm_Version :: int
  cm_Objects :: "cas_object list"

record tar_entry =
  te_Name :: string
  te_Regular :: bool
  te_Size :: int
  te_Data :: string

type_synonym tar_stream = "(tar_entry result) list"

definition empty_manifest :: cas_manifest where
  "empty_manifest = \<lparr>cm_Version = 1, cm_Objects = []\<rparr>"

definition validDigest :: "string \<Rightarrow> bool" where
  "validDigest s = (length s = 64 \<and> list_all hex_char s)"

definition sync_path :: "string \<Rightarrow> string \<Rightarrow> string" where
  "sync_path casRoot digest = path_Join [casRoot, ''sha256'', take 2 digest, digest]"

definition desiredAgents :: "(string \<Rightarrow> string) \<Rightarrow> string \<Rightarrow> string list \<Rightarrow> int \<Rightarrow> string list" where
  "desiredAgents sha digest pool factor =
     (let xs = sort_less (\<lambda>a b. if snd a = snd b then fst a < fst b else snd a > snd b)
                 (map (\<lambda>i. (i, sha (digest @ [CHR 0x00] @ i))) pool)
      in map fst (take (nat factor) xs))"

section \<open>Archives\<close>

definition object_entry :: "string \<Rightarrow> string \<Rightarrow> tar_entry" where
  "object_entry digest c = \<lparr>te_Name = ''objects/'' @ digest, te_Regular = True, te_Size = int (length c), te_Data = c\<rparr>"

definition manifest_entry :: "(cas_manifest \<Rightarrow> string) \<Rightarrow> cas_manifest \<Rightarrow> tar_entry" where
  "manifest_entry enc m = \<lparr>te_Name = ''manifest.json'', te_Regular = True, te_Size = int (length (enc m)), te_Data = enc m\<rparr>"

text \<open>The files right in a directory, by name.\<close>

definition dir_files :: "string \<Rightarrow> files \<Rightarrow> string list" where
  "dir_files dir fs = sort_strings (filter (\<lambda>p. CHR ''/'' \<notin> set (drop (Suc (length dir)) p)) (walk dir fs))"

text \<open>Which files of a prefix directory are sent: named as a digest, placed on the target.\<close>

definition sends :: "(string \<Rightarrow> string) \<Rightarrow> string list \<Rightarrow> int \<Rightarrow> string \<Rightarrow> string \<Rightarrow> bool" where
  "sends sha pool factor target path =
     (let digest = ToLower (path_Base path) in validDigest digest \<and> target \<in> set (desiredAgents sha digest pool factor))"

fun archive_paths ::
  "(string \<Rightarrow> string) \<Rightarrow> files \<Rightarrow> string list \<Rightarrow> cas_object list \<times> tar_stream \<Rightarrow> go_error option \<times> cas_object list \<times> tar_stream" where
  "archive_paths sha fs [] acc = (None, acc)"
| "archive_paths sha fs (path # paths) acc =
     (let digest = ToLower (path_Base path) in
      case read_file fs path of
        None \<Rightarrow> archive_paths sha fs paths acc
      | Some c \<Rightarrow>
          if sha c \<noteq> digest then (Some (GoErr (''CAS object '' @ digest @ '' digest mismatch'')), acc)
          else archive_paths sha fs paths
                 (fst acc @ [\<lparr>co_Digest = digest, co_Bytes = int (length c)\<rparr>], snd acc @ [Inr (object_entry digest c)]))"

definition Archive ::
  "(string \<Rightarrow> string) \<Rightarrow> (cas_manifest \<Rightarrow> string) \<Rightarrow> string \<Rightarrow> string list \<Rightarrow> string list \<Rightarrow> int \<Rightarrow> string \<Rightarrow> files \<Rightarrow>
   cas_manifest result \<times> tar_stream" where
  "Archive sha enc casRoot prefixes pool factor0 target fs =
     (if factor0 \<le> 0 then (Inr empty_manifest, [])
      else
        let factor = min factor0 (int (length pool));
            allowed = filter (\<lambda>p. length p = 2) (remdups (map ToLower prefixes));
            paths = concat (map (\<lambda>p. dir_files (path_Join [path_Join [casRoot, ''sha256''], p]) fs) allowed)
        in (case archive_paths sha fs (filter (sends sha pool factor target) paths) ([], []) of
              (Some e, objs, tar) \<Rightarrow> (Inl e, tar)
            | (None, objs, tar) \<Rightarrow>
                let m = \<lparr>cm_Version = 1, cm_Objects = sort_less (\<lambda>a b. co_Digest a < co_Digest b) objs\<rparr>
                in (Inr m, tar @ [Inr (manifest_entry enc m)])))"

fun archive_digests ::
  "(string \<Rightarrow> string) \<Rightarrow> string \<Rightarrow> files \<Rightarrow> string list \<Rightarrow> cas_object list \<times> tar_stream \<Rightarrow> go_error option \<times> cas_object list \<times> tar_stream" where
  "archive_digests sha casRoot fs [] acc = (None, acc)"
| "archive_digests sha casRoot fs (d # ds) acc =
     (case read_file fs (sync_path casRoot d) of
        None \<Rightarrow> (Some (GoErr ''file does not exist''), acc)
      | Some c \<Rightarrow>
          if \<not> EqualFold (sha c) d then (Some (GoErr (''CAS object '' @ d @ '' digest mismatch'')), acc)
          else archive_digests sha casRoot fs ds
                 (fst acc @ [\<lparr>co_Digest = d, co_Bytes = int (length c)\<rparr>], snd acc @ [Inr (object_entry d c)]))"

definition ArchiveDigests ::
  "(string \<Rightarrow> string) \<Rightarrow> (cas_manifest \<Rightarrow> string) \<Rightarrow> string \<Rightarrow> string list \<Rightarrow> files \<Rightarrow> cas_manifest result \<times> tar_stream" where
  "ArchiveDigests sha enc casRoot ds0 fs =
     (let ds = map (\<lambda>d. ToLower (TrimSpace d)) ds0 in
      case find (\<lambda>d. \<not> validDigest d) ds of
        Some d \<Rightarrow> (Inl (GoErr (''invalid CAS digest '' @ [CHR 0x22] @ d @ [CHR 0x22])), [])
      | None \<Rightarrow>
          (case archive_digests sha casRoot fs (sort_strings (remdups ds)) ([], []) of
             (Some e, objs, tar) \<Rightarrow> (Inl e, tar)
           | (None, objs, tar) \<Rightarrow>
               let m = \<lparr>cm_Version = 1, cm_Objects = objs\<rparr> in (Inr m, tar @ [Inr (manifest_entry enc m)])))"

section \<open>Installation\<close>

text \<open>
  Reading the stream: the manifest, and the staged objects \<open>seen\<close> by digest.  The manifest decoder sees at most
  8 MiB; a second entry of a digest fails to open its staging file.
\<close>

fun extract_stream ::
  "(string \<Rightarrow> string) \<Rightarrow> (string \<Rightarrow> cas_manifest result) \<Rightarrow> tar_stream \<Rightarrow> cas_manifest \<times> (string, string) gomap \<Rightarrow>
   go_error option \<times> cas_manifest \<times> (string, string) gomap" where
  "extract_stream sha dec [] acc = (None, acc)"
| "extract_stream sha dec (Inl e # tar) acc = (Some e, acc)"
| "extract_stream sha dec (Inr h # tar) (m, seen) =
     (let name = te_Name h; digest = TrimPrefix name ''objects/'' in
      if name = ''manifest.json'' then
        (case dec (take (8 * 2 ^ 20) (te_Data h)) of
           Inl e \<Rightarrow> (Some e, m, seen) | Inr wire \<Rightarrow> extract_stream sha dec tar (wire, seen))
      else if \<not> te_Regular h \<or> \<not> HasPrefix name ''objects/''
      then (Some (GoErr (''unsafe CAS sync entry '' @ [CHR 0x22] @ name @ [CHR 0x22])), m, seen)
      else if \<not> validDigest digest \<or> CHR ''/'' \<in> set digest then (Some (GoErr ''invalid CAS digest entry''), m, seen)
      else if gget seen digest \<noteq> None then (Some (GoErr ''file exists''), m, seen)
      else if int (length (te_Data h)) \<noteq> te_Size h \<or> sha (te_Data h) \<noteq> digest
      then (Some (GoErr (''CAS sync object '' @ digest @ '' checksum mismatch'')), m, seen)
      else extract_stream sha dec tar (m, gput digest (te_Data h) seen))"

fun install_objects ::
  "(string \<Rightarrow> string) \<Rightarrow> time \<Rightarrow> string \<Rightarrow> (string \<times> string) list \<Rightarrow> files \<Rightarrow> go_error option \<times> files" where
  "install_objects sha now casRoot [] fs = (None, fs)"
| "install_objects sha now casRoot ((digest, c) # objs) fs =
     (let dst = sync_path casRoot digest in
      case HashFile sha fs dst of
        Inr (h, n) \<Rightarrow>
          if h \<noteq> digest then (Some (GoErr (''existing CAS object '' @ digest @ '' corrupt'')), fs)
          else install_objects sha now casRoot objs fs
      | Inl _ \<Rightarrow> install_objects sha now casRoot objs (put_file now dst c fs))"

fun check_manifest ::
  "(string \<Rightarrow> string) \<Rightarrow> string \<Rightarrow> (string, string) gomap \<Rightarrow> files \<Rightarrow> cas_object list \<Rightarrow> go_error option" where
  "check_manifest sha casRoot seen fs [] = None"
| "check_manifest sha casRoot seen fs (ob # objs) =
     (if (case gget seen (co_Digest ob) of None \<Rightarrow> False | Some c \<Rightarrow> int (length c) \<noteq> co_Bytes ob)
      then Some (GoErr ''CAS sync manifest size mismatch'')
      else if length (co_Digest ob) < 2 then Some (GoPanic ''slice bounds out of range'')
      else (case HashFile sha fs (sync_path casRoot (co_Digest ob)) of
          Inl _ \<Rightarrow> Some (GoErr (''CAS sync manifest object '' @ co_Digest ob @ '' missing after install''))
        | Inr (h, n) \<Rightarrow>
            if h \<noteq> co_Digest ob then Some (GoErr (''CAS sync manifest object '' @ co_Digest ob @ '' missing after install''))
            else check_manifest sha casRoot seen fs objs))"

definition Extract ::
  "(string \<Rightarrow> string) \<Rightarrow> (string \<Rightarrow> cas_manifest result) \<Rightarrow> time \<Rightarrow> tar_stream \<Rightarrow> string \<Rightarrow> files \<Rightarrow> cas_manifest result \<times> files" where
  "Extract sha dec now tar casRoot fs =
     (case extract_stream sha dec tar (empty_manifest, []) of
        (Some e, m, seen) \<Rightarrow> (Inl e, fs)
      | (None, m, seen) \<Rightarrow>
          (case install_objects sha now casRoot seen fs of
             (Some e, fs1) \<Rightarrow> (Inl e, fs1)
           | (None, fs1) \<Rightarrow>
               (case check_manifest sha casRoot seen fs1 (cm_Objects m) of
                  Some e \<Rightarrow> (Inl e, fs1) | None \<Rightarrow> (Inr m, fs1))))"

end
