(* ===== verification/Cas_Sync_Properties.thy ===== *)
theory Cas_Sync_Properties
  imports Cas_Sync Cas_Properties
begin

text \<open>
  Whatever stream it is given, the installation adds verified objects only and changes no file; a stream
  made from a good store installs on another, with the contents of the source.
\<close>

section \<open>Installation of any stream\<close>

definition cas_at :: "string \<Rightarrow> cas_store" where
  "cas_at casRoot = \<lparr>cs_Root = casRoot, cs_MinFileSize = 0\<rparr>"

lemma sync_path_blob [simp]: "sync_path casRoot d = blobPath (cas_at casRoot) d"
  by (simp add: sync_path_def blobPath_def cas_at_def)

text \<open>New files are objects under the digest of their contents.\<close>

definition installs :: "(string \<Rightarrow> string) \<Rightarrow> string \<Rightarrow> files \<Rightarrow> files \<Rightarrow> bool" where
  "installs sha casRoot fs fs' \<longleftrightarrow> files_wf fs' \<and> (\<forall>p c. read_file fs p = Some c \<longrightarrow> read_file fs' p = Some c) \<and>
     (\<forall>p c. read_file fs p = None \<longrightarrow> read_file fs' p = Some c \<longrightarrow> p = blobPath (cas_at casRoot) (sha c))"

lemma installs_refl: "files_wf fs \<Longrightarrow> installs sha casRoot fs fs"
  by (simp add: installs_def)

lemma installs_trans: "installs sha casRoot a b \<Longrightarrow> installs sha casRoot b c \<Longrightarrow> installs sha casRoot a c"
  unfolding installs_def by (metis option.exhaust)

lemma extract_stream_step:
  assumes "extract_stream sha dec (x # tar) (m0, seen0) = (r, m, seen)"
  obtains e where "r = Some e" "seen = seen0"
  | m1 where "extract_stream sha dec tar (m1, seen0) = (r, m, seen)"
  | m1 c where "extract_stream sha dec tar (m1, gput (sha c) c seen0) = (r, m, seen)"
proof (cases x)
  case (Inl e)
  then show ?thesis using assms that(1) by auto
next
  case (Inr h)
  let ?d = "TrimPrefix (te_Name h) ''objects/''"
  show ?thesis
  proof (cases "te_Name h = ''manifest.json''")
    case True
    then show ?thesis using assms Inr that(1,2) by (auto split: sum.splits)
  next
    case False
    show ?thesis
    proof (cases "sha (te_Data h) = ?d")
      case True
      then show ?thesis using assms Inr False that(1) that(3) [of m0 "te_Data h"] by (simp add: Let_def split: if_splits) blast+
    next
      case bad: False
      then show ?thesis using assms Inr False that(1) by (simp add: Let_def split: if_splits) blast+
    qed
  qed
qed

lemma extract_stream_verified:
  assumes "extract_stream sha dec tar (m0, seen0) = (r, m, seen)" "\<forall>d c. gget seen0 d = Some c \<longrightarrow> sha c = d" "gwf seen0"
  shows "(\<forall>d c. gget seen d = Some c \<longrightarrow> sha c = d) \<and> gwf seen"
  using assms
proof (induction tar arbitrary: m0 seen0)
  case (Cons x tar)
  from Cons.prems(1) show ?case
  proof (cases rule: extract_stream_step)
    case (1 e)
    then show ?thesis using Cons.prems(2,3) by blast
  next
    case (2 m1)
    then show ?thesis using Cons.IH Cons.prems(2,3) by blast
  next
    case (3 m1 c)
    have "\<forall>d c'. gget (gput (sha c) c seen0) d = Some c' \<longrightarrow> sha c' = d" using Cons.prems(2) by simp
    then show ?thesis using Cons.IH [OF 3 _ gwf_gput [OF Cons.prems(3)]] by blast
  qed
qed auto

lemma install_objects_installs:
  assumes "install_objects sha now casRoot objs fs = (r, fs')" "files_wf fs" "\<forall>(d, c)\<in>set objs. sha c = d"
  shows "installs sha casRoot fs fs'"
  using assms
proof (induction objs arbitrary: fs)
  case Nil
  then show ?case by (simp add: installs_refl)
next
  case (Cons ob objs)
  obtain d c where ob: "ob = (d, c)" by fastforce
  have put: "installs sha casRoot fs (put_file now (blobPath (cas_at casRoot) d) c fs)"
    if "read_file fs (blobPath (cas_at casRoot) d) = None"
    using that Cons.prems(2,3) ob by (auto simp: installs_def split: if_splits)
  show ?case
    using Cons put ob installs_refl [OF Cons.prems(2)] installs_trans
    by (auto simp: HashFile_def Let_def split: if_splits option.splits)
qed

lemma check_manifest_sound:
  "check_manifest sha casRoot seen fs objs = None \<Longrightarrow> ob \<in> set objs \<Longrightarrow>
     \<exists>c. read_file fs (blobPath (cas_at casRoot) (co_Digest ob)) = Some c \<and> sha c = co_Digest ob"
  by (induction objs) (auto simp: HashFile_def split: if_splits option.splits sum.splits)

text \<open>
  C29. Installing a CAS stream, from whatever peer and with whatever outcome, changes no existing file and adds only objects
  stored under the digest of their contents; when it succeeds every object of the manifest is in the store and verifies.
\<close>

theorem extract_verified:
  assumes "files_wf fs" "Extract sha dec now tar casRoot fs = (r, fs')"
  shows "(\<forall>p c. read_file fs p = Some c \<longrightarrow> read_file fs' p = Some c) \<and>
    (\<forall>p c. read_file fs p = None \<longrightarrow> read_file fs' p = Some c \<longrightarrow> p = blobPath (cas_at casRoot) (sha c)) \<and>
    (\<forall>m ob. r = Inr m \<longrightarrow> ob \<in> set (cm_Objects m) \<longrightarrow>
       (\<exists>c. read_file fs' (blobPath (cas_at casRoot) (co_Digest ob)) = Some c \<and> sha c = co_Digest ob))"
proof -
  obtain e m seen where st: "extract_stream sha dec tar (empty_manifest, []) = (e, m, seen)" by (metis prod_cases3)
  have seen: "\<forall>(d, c)\<in>set seen. sha c = d" using extract_stream_verified [OF st] map_of_is_SomeI [of seen] by auto
  obtain e1 fs1 where ins: "install_objects sha now casRoot seen fs = (e1, fs1)" by fastforce
  have i: "installs sha casRoot fs fs1" using install_objects_installs [OF ins assms(1) seen] .
  have "fs' = fs \<or> fs' = fs1" using assms(2) st ins by (auto simp: Extract_def split: option.splits)
  moreover have "\<exists>c. read_file fs' (blobPath (cas_at casRoot) (co_Digest ob)) = Some c \<and> sha c = co_Digest ob"
    if "r = Inr m'" "ob \<in> set (cm_Objects m')" for m' ob
    using that assms(2) st ins check_manifest_sound by (fastforce simp: Extract_def split: option.splits)
  ultimately show ?thesis using i unfolding installs_def by auto
qed

theorem extract_verified_witness:
  "\<exists>r fs'. Extract sample_sha (\<lambda>_. Inr empty_manifest) 9 [Inr (object_entry (sample_sha ''hello'') ''jello'')] ''/c'' twin_files = (r, fs') \<and>
     read_file fs' ''/b/x'' = Some ''hello''"
proof -
  obtain r fs' where run: "Extract sample_sha (\<lambda>_. Inr empty_manifest) 9 [Inr (object_entry (sample_sha ''hello'') ''jello'')] ''/c'' twin_files = (r, fs')"
    by fastforce
  have "files_wf twin_files" "read_file twin_files ''/b/x'' = Some ''hello''"
    by (simp_all add: files_wf_def read_file_def file_inode_def twin_files_def)
  with extract_verified [OF _ run] run show ?thesis by blast
qed

section \<open>From one store to another\<close>

lemma gget_fold_gput:
  "distinct (map fst ps) \<Longrightarrow> gget (fold (\<lambda>(k, v). gput k v) ps m) k = (case gget ps k of Some v \<Rightarrow> Some v | None \<Rightarrow> gget m k)"
proof (induction ps arbitrary: m)
  case (Cons p ps)
  have "gget ps (fst p) = None" using Cons.prems by (simp add: map_of_eq_None_iff)
  then show ?case using Cons by (cases p) (simp split: option.split)
qed simp

lemma gwf_fold_gput: "gwf m \<Longrightarrow> gwf (fold (\<lambda>(k, v). gput k v) ps m)"
  by (induction ps arbitrary: m) (auto split: prod.splits)

lemma is_digest_valid:
  assumes "is_digest d"
  shows "validDigest d" "CHR ''/'' \<notin> set d"
  using assms by (auto simp: is_digest_def validDigest_def hex_chars_def list_all_iff hex_char_def Let_def)

definition sync_pairs :: "(string \<Rightarrow> string) \<Rightarrow> (string \<times> string) list \<Rightarrow> bool" where
  "sync_pairs sha ps = (distinct (map fst ps) \<and> (\<forall>(d, c)\<in>set ps. is_digest d \<and> sha c = d))"

lemma extract_objects:
  assumes "sync_pairs sha ps" "\<forall>p\<in>set ps. gget seen (fst p) = None"
  shows "extract_stream sha dec (map (\<lambda>(d, c). Inr (object_entry d c)) ps @ tar) (m, seen) =
    extract_stream sha dec tar (m, fold (\<lambda>(d, c). gput d c) ps seen)"
  using assms
proof (induction ps arbitrary: seen)
  case (Cons p ps)
  obtain d c where p: "p = (d, c)" by fastforce
  have d: "is_digest d" "sha c = d" "gget seen d = None" using Cons.prems p by (auto simp: sync_pairs_def)
  have rest: "sync_pairs sha ps" "\<forall>q\<in>set ps. gget (gput d c seen) (fst q) = None"
    using Cons.prems p by (auto simp: sync_pairs_def)
  have "TrimPrefix (''objects/'' @ d) ''objects/'' = d" by (simp add: TrimPrefix_def)
  then show ?case
    using Cons.IH [OF rest] d is_digest_valid [OF d(1)] p by (simp add: object_entry_def Let_def)
qed simp

lemma install_objects_ok:
  assumes "cas_ok sha (cas_at casRoot) fs" "files_wf fs" "digests sha" "casRoot \<noteq> []" "\<forall>(d, c)\<in>set objs. is_digest d \<and> sha c = d"
  shows "\<exists>fs'. install_objects sha now casRoot objs fs = (None, fs') \<and> ran (read_file fs') \<subseteq> ran (read_file fs) \<union> snd ` set objs \<and>
    (\<forall>(d, c)\<in>set objs. \<exists>c'. read_file fs' (blobPath (cas_at casRoot) d) = Some c' \<and> sha c' = d)"
  using assms(1,2,5)
proof (induction objs arbitrary: fs)
  case Nil
  then show ?case by simp
next
  case (Cons ob objs)
  obtain d c where ob: "ob = (d, c)" by fastforce
  let ?b = "blobPath (cas_at casRoot) d"
  have d: "is_digest d" "sha c = d" and rest: "\<forall>(d, c)\<in>set objs. is_digest d \<and> sha c = d" using Cons.prems ob by auto
  have st: "cs_Root (cas_at casRoot) \<noteq> []" using assms(4) by (simp add: cas_at_def)
  define fs1 where "fs1 = (if read_file fs ?b = None then put_file now ?b c fs else fs)"
  have right: "\<exists>c'. read_file fs1 ?b = Some c' \<and> sha c' = d"
    using d Cons.prems(1,2) blob_contents [OF Cons.prems(1) assms(3) st d(1)] by (auto simp: fs1_def)
  have ok1: "cas_ok sha (cas_at casRoot) fs1" "files_wf fs1" "ran (read_file fs1) \<subseteq> ran (read_file fs) \<union> {c}"
    using Cons.prems(1,2) d(2) by (auto simp: fs1_def cas_ok_def ran_def split: if_splits)
  obtain fs' where ih: "install_objects sha now casRoot objs fs1 = (None, fs')" "ran (read_file fs') \<subseteq> ran (read_file fs1) \<union> snd ` set objs"
      "\<forall>(d, c)\<in>set objs. \<exists>c'. read_file fs' (blobPath (cas_at casRoot) d) = Some c' \<and> sha c' = d"
    using Cons.IH [OF ok1(1,2) rest] by blast
  have "installs sha casRoot fs1 fs'" using install_objects_installs [OF ih(1) ok1(2)] rest by auto
  then have "\<exists>c'. read_file fs' ?b = Some c' \<and> sha c' = d" using right by (auto simp: installs_def)
  moreover have "install_objects sha now casRoot (ob # objs) fs = (None, fs')"
    using ih(1) right ob blob_contents [OF Cons.prems(1) assms(3) st d(1)]
    by (auto simp: fs1_def HashFile_def Let_def split: option.splits if_splits)
  ultimately show ?case using ih(2,3) ok1(3) ob by auto
qed

lemma check_manifest_ok:
  assumes "\<forall>ob\<in>set objs. length (co_Digest ob) = 64 \<and> (\<exists>c. gget seen (co_Digest ob) = Some c \<and> co_Bytes ob = int (length c)) \<and>
    (\<exists>c. read_file fs (blobPath (cas_at casRoot) (co_Digest ob)) = Some c \<and> sha c = co_Digest ob)"
  shows "check_manifest sha casRoot seen fs objs = None"
  using assms by (induction objs) (auto simp: HashFile_def)

text \<open>A stream of verified objects closed by its manifest installs.\<close>

lemma extract_pairs:
  assumes "sync_pairs sha ps" "dec (take (8 * 2 ^ 20) (enc m)) = Inr m" "set (cm_Objects m) = (\<lambda>(d, c). \<lparr>co_Digest = d, co_Bytes = int (length c)\<rparr>) ` set ps"
    and "cas_ok sha (cas_at casRoot) fs" "files_wf fs" "digests sha" "casRoot \<noteq> []" "inj_on sha (snd ` set ps \<union> ran (read_file fs))"
  shows "\<exists>fs'. Extract sha dec now (map (\<lambda>(d, c). Inr (object_entry d c)) ps @ [Inr (manifest_entry enc m)]) casRoot fs = (Inr m, fs') \<and>
    (\<forall>(d, c)\<in>set ps. read_file fs' (blobPath (cas_at casRoot) d) = Some c)"
proof -
  let ?seen = "fold (\<lambda>(d, c). gput d c) ps []"
  have st: "extract_stream sha dec (map (\<lambda>(d, c). Inr (object_entry d c)) ps @ [Inr (manifest_entry enc m)]) (empty_manifest, []) = (None, m, ?seen)"
    using extract_objects [OF assms(1), of "[]"] assms(2) by (simp add: manifest_entry_def)
  have dist: "distinct (map fst ps)" using assms(1) by (simp add: sync_pairs_def)
  have seen: "gget ?seen d = Some c" if "(d, c) \<in> set ps" for d c
    using gget_fold_gput [OF dist, of "[]" d] map_of_is_SomeI [OF dist that] by simp
  have orig: "(d, c) \<in> set ps" if "(d, c) \<in> set ?seen" for d c
  proof -
    have "gget ?seen d = Some c" using map_of_is_SomeI [OF _ that] gwf_fold_gput [of "[]" ps] by simp
    then show ?thesis using gget_fold_gput [OF dist, of "[]" d] map_of_SomeD [of ps d] by (auto split: option.splits)
  qed
  have there: "(d, c) \<in> set ?seen" if "(d, c) \<in> set ps" for d c using seen [OF that] by (rule map_of_SomeD)
  have objs: "\<forall>(d, c)\<in>set ?seen. is_digest d \<and> sha c = d" using orig assms(1) unfolding sync_pairs_def by blast
  obtain fs' where ins: "install_objects sha now casRoot ?seen fs = (None, fs')" "ran (read_file fs') \<subseteq> ran (read_file fs) \<union> snd ` set ?seen"
      "\<forall>(d, c)\<in>set ?seen. \<exists>c'. read_file fs' (blobPath (cas_at casRoot) d) = Some c' \<and> sha c' = d"
    using install_objects_ok [OF assms(4-7) objs] by blast
  have copy: "read_file fs' (blobPath (cas_at casRoot) d) = Some c" if p: "(d, c) \<in> set ps" for d c
  proof -
    obtain c' where c': "read_file fs' (blobPath (cas_at casRoot) d) = Some c'" "sha c' = d" using ins(3) there [OF p] by auto
    have "c' \<in> ran (read_file fs')" using c'(1) by (rule ranI)
    then have "c' \<in> snd ` set ps \<union> ran (read_file fs)" using ins(2) orig by force
    moreover have "c \<in> snd ` set ps" "sha c = d" using p assms(1) by (force simp: sync_pairs_def)+
    ultimately have "c' = c" using assms(8) c'(2) by (auto dest: inj_onD)
    then show ?thesis using c'(1) by simp
  qed
  have "length d = 64 \<and> sha c = d" if "(d, c) \<in> set ps" for d c using that assms(1) by (auto simp: sync_pairs_def is_digest_def)
  then have "check_manifest sha casRoot ?seen fs' (cm_Objects m) = None"
    using copy seen by (intro check_manifest_ok) (auto simp: assms(3))
  then show ?thesis using st ins(1) copy by (auto simp: Extract_def)
qed

section \<open>What an archive holds\<close>

lemma archive_paths_pairs:
  assumes "archive_paths sha fs paths (objs, tar) = (None, objs', tar')" "\<forall>p\<in>set paths. read_file fs p \<noteq> None"
  defines "ps \<equiv> map (\<lambda>p. (ToLower (path_Base p), the (read_file fs p))) paths"
  shows "objs' = objs @ map (\<lambda>(d, c). \<lparr>co_Digest = d, co_Bytes = int (length c)\<rparr>) ps \<and> tar' = tar @ map (\<lambda>(d, c). Inr (object_entry d c)) ps \<and>
    (\<forall>(d, c)\<in>set ps. sha c = d)"
  using assms(1,2) unfolding ps_def
proof (induction paths arbitrary: objs tar)
  case (Cons p paths)
  then obtain c where c: "read_file fs p = Some c" by auto
  let ?d = "ToLower (path_Base p)"
  have d: "sha c = ?d" using Cons.prems(1) c by (simp add: Let_def split: if_splits)
  then have "archive_paths sha fs paths (objs @ [\<lparr>co_Digest = ?d, co_Bytes = int (length c)\<rparr>], tar @ [Inr (object_entry ?d c)]) = (None, objs', tar')"
    using Cons.prems(1) c by (simp add: Let_def)
  from Cons.IH [OF this] Cons.prems(2) show ?case using c d by simp
qed simp

lemma prefix_dir:
  "cs_Root st \<noteq> [] \<Longrightarrow> plain_name p \<Longrightarrow> path_Join [object_root st, p] = object_root st @ ''/'' @ p"
  using path_Join_Join [of "cs_Root st" "[''sha256'']" p] by (simp add: object_root_def plain_name_def)

text \<open>The objects of one prefix directory of a good store.\<close>

lemma prefix_files:
  assumes "cas_ok sha st fs" "files_wf fs" "digests sha" "cs_Root st \<noteq> []" "length pre = 2" "set pre \<subseteq> hex_chars"
  shows "q \<in> set (dir_files (path_Join [object_root st, pre]) fs) \<longleftrightarrow> (\<exists>c. read_file fs q = Some c \<and> q = blobPath st (sha c) \<and> take 2 (sha c) = pre)"
proof -
  have "plain_name pre" using plain_hex [OF assms(6)] assms(5) by (cases pre) auto
  then have dir: "path_Join [object_root st, pre] = object_root st @ ''/'' @ pre" using prefix_dir [OF assms(4)] by blast
  have dg: "is_digest (sha c)" for c using assms(3) by (simp add: digests_def)
  have mem: "q \<in> set (dir_files (path_Join [object_root st, pre]) fs) \<longleftrightarrow>
      below (object_root st @ ''/'' @ pre) q \<and> read_file fs q \<noteq> None \<and> CHR ''/'' \<notin> set (drop (Suc (length (object_root st @ ''/'' @ pre))) q)"
    using walk_files [OF assms(2)] unfolding dir_files_def dir by auto
  show ?thesis
  proof
    assume "q \<in> set (dir_files (path_Join [object_root st, pre]) fs)"
    then obtain c t where q: "read_file fs q = Some c" "q = object_root st @ ''/'' @ pre @ ''/'' @ t" using mem by (auto simp: below_def HasPrefix_iff)
    then have "below (object_root st) q" by (auto simp: below_def HasPrefix_iff)
    then have b: "q = blobPath st (sha c)" using assms(1) q(1) by (simp add: cas_ok_def)
    then have "pre @ ''/'' @ t = take 2 (sha c) @ ''/'' @ sha c" using q(2) blobPath_shape [OF assms(4) dg] by simp
    then have "take 2 (sha c) = pre" using assms(5) dg [of c] by (auto simp: is_digest_def)
    then show "\<exists>c. read_file fs q = Some c \<and> q = blobPath st (sha c) \<and> take 2 (sha c) = pre" using q(1) b by blast
  next
    assume "\<exists>c. read_file fs q = Some c \<and> q = blobPath st (sha c) \<and> take 2 (sha c) = pre"
    then obtain c where c: "read_file fs q = Some c" "q = object_root st @ ''/'' @ pre @ ''/'' @ sha c"
      using blobPath_shape [OF assms(4) dg] by auto
    then show "q \<in> set (dir_files (path_Join [object_root st, pre]) fs)"
      using is_digest_valid(2) [OF dg] unfolding mem by (auto simp: below_def HasPrefix_iff)
  qed
qed

lemma distinct_concat_map:
  "distinct xs \<Longrightarrow> (\<And>x. distinct (f x)) \<Longrightarrow> (\<And>x y. x \<in> set xs \<Longrightarrow> y \<in> set xs \<Longrightarrow> x \<noteq> y \<Longrightarrow> set (f x) \<inter> set (f y) = {}) \<Longrightarrow> distinct (concat (map f xs))"
  by (induction xs) auto

lemma distinct_dir_files: "files_wf fs \<Longrightarrow> distinct (dir_files dir fs)"
  by (simp add: dir_files_def walk_def files_wf_def)

definition good_prefix :: "string \<Rightarrow> bool" where
  "good_prefix p = (length p = 2 \<and> set p \<subseteq> hex_chars)"

lemma ToLower_hex: "set s \<subseteq> hex_chars \<Longrightarrow> ToLower s = s"
  by (auto simp: hex_chars_def ToLower_def lower_char_def intro!: map_idI)

lemma archive_source:
  assumes "cas_ok sha (cas_at casRoot) fs" "files_wf fs" "digests sha" "casRoot \<noteq> []" "\<forall>p\<in>set prefixes. good_prefix p"
  defines "paths \<equiv> concat (map (\<lambda>p. dir_files (path_Join [path_Join [casRoot, ''sha256''], p]) fs) (filter (\<lambda>p. length p = 2) (remdups (map ToLower prefixes))))"
  shows "distinct paths" "q \<in> set paths \<longleftrightarrow> (\<exists>c. read_file fs q = Some c \<and> q = blobPath (cas_at casRoot) (sha c) \<and> take 2 (sha c) \<in> set prefixes)"
proof -
  let ?st = "cas_at casRoot"
  have st: "cs_Root ?st \<noteq> []" "path_Join [casRoot, ''sha256''] = object_root ?st" using assms(4) by (simp_all add: cas_at_def object_root_def)
  have low: "map ToLower prefixes = prefixes" using assms(5) ToLower_hex by (simp add: good_prefix_def map_idI)
  have "filter (\<lambda>p. length p = 2) (remdups prefixes) = remdups prefixes" using assms(5) by (simp add: good_prefix_def filter_id_conv)
  then have paths: "paths = concat (map (\<lambda>p. dir_files (path_Join [object_root ?st, p]) fs) (remdups prefixes))"
    using low st(2) by (simp add: paths_def)
  have mem: "q \<in> set (dir_files (path_Join [object_root ?st, p]) fs) \<longleftrightarrow> (\<exists>c. read_file fs q = Some c \<and> q = blobPath ?st (sha c) \<and> take 2 (sha c) = p)"
    if "p \<in> set prefixes" for p q
    using prefix_files [OF assms(1-3) st(1)] assms(5) that by (simp add: good_prefix_def)
  show "q \<in> set paths \<longleftrightarrow> (\<exists>c. read_file fs q = Some c \<and> q = blobPath ?st (sha c) \<and> take 2 (sha c) \<in> set prefixes)"
    using mem unfolding paths by auto
  show "distinct paths" unfolding paths
    by (rule distinct_concat_map) (use mem distinct_dir_files [OF assms(2)] in auto)
qed


definition sync_source :: files where
  "sync_source = \<lparr>fs_names = [(''/c/sha256/aa/'' @ replicate 64 (CHR ''a''), 0)], fs_inodes = [(0, (''hello'', 5))], fs_next = 1\<rparr>"

definition no_files :: files where
  "no_files = \<lparr>fs_names = [], fs_inodes = [], fs_next = 0\<rparr>"

definition sync_manifest :: cas_manifest where
  "sync_manifest = \<lparr>cm_Version = 1, cm_Objects = [\<lparr>co_Digest = replicate 64 (CHR ''a''), co_Bytes = 5\<rparr>]\<rparr>"

lemma sync_archive: "fst (Archive sample_sha (\<lambda>_. ''m'') ''/c'' [''aa''] [''n1''] 1 ''n1'' sync_source) = Inr sync_manifest"
  by code_simp

lemma cas_at_sample: "cas_at ''/c'' = sample_cas"
  by (simp add: cas_at_def sample_cas_def)


end
