(* ===== verification/Scrub.thy ===== *)
theory Scrub
  imports Cas_Store Erasure_Codec Erasure_Dist
begin

text \<open>
  Scrubbing of the content-addressed store with repair from the local erasure sets (\<^verbatim>\<open>internal/scrub\<close>), the copy
  of cold objects to a second tier (\<^verbatim>\<open>internal/tiering\<close>), and the two jobs that run them
  (\<^verbatim>\<open>internal/controlplane/storage_maintenance.go\<close>).  \<open>cancelled i\<close> says whether the context is done before
  step \<open>i\<close>; \<open>dirs\<close> holds the erasure directories by path; the \<^verbatim>\<open>rclone\<close> program is an argument that answers with an
  error or nothing.  The result that accompanies an error of the tiering is only printed.
\<close>

record scrub_result =
  sr_StartedAt :: time
  sr_EndedAt :: time
  sr_Available :: int
  sr_Sampled :: int
  sr_Healthy :: int
  sr_Corrupt :: int
  sr_Repaired :: int
  sr_Failed :: int
  sr_Digests :: "string list"
  sr_UnrepairedDigests :: "string list"
  sr_DurationMS :: int

type_synonym repair_func = "string \<Rightarrow> string \<Rightarrow> files \<Rightarrow> go_error option \<times> files"

record scrubber =
  sx_CAS :: "cas_store option"
  sx_SampleObjects :: int
  sx_SeedSalt :: string
  sx_Repair :: "repair_func option"

section \<open>Scrubbing\<close>

definition zero_scrub :: "time \<Rightarrow> scrub_result" where
  "zero_scrub t = \<lparr>sr_StartedAt = t, sr_EndedAt = zero_time, sr_Available = 0, sr_Sampled = 0, sr_Healthy = 0, sr_Corrupt = 0, sr_Repaired = 0,
     sr_Failed = 0, sr_Digests = [], sr_UnrepairedDigests = [], sr_DurationMS = 0\<rparr>"

definition object_right :: "(string \<Rightarrow> string) \<Rightarrow> files \<Rightarrow> object_info \<Rightarrow> bool" where
  "object_right sha fs ob = (case HashFile sha fs (oi_Path ob) of Inl e \<Rightarrow> False | Inr (got, n) \<Rightarrow> got = oi_Digest ob)"

definition scrub_failed :: "object_info \<Rightarrow> scrub_result \<Rightarrow> scrub_result" where
  "scrub_failed ob out = out\<lparr>sr_Failed := sr_Failed out + 1, sr_UnrepairedDigests := sr_UnrepairedDigests out @ [oi_Digest ob]\<rparr>"

definition scrub_object ::
  "(string \<Rightarrow> string) \<Rightarrow> repair_func option \<Rightarrow> object_info \<Rightarrow> scrub_result \<times> files \<Rightarrow> scrub_result \<times> files" where
  "scrub_object sha repair ob acc =
     (let out = fst acc; fs = snd acc; out1 = out\<lparr>sr_Sampled := sr_Sampled out + 1\<rparr> in
      if object_right sha fs ob then (out1\<lparr>sr_Healthy := sr_Healthy out1 + 1\<rparr>, fs)
      else
        let out2 = out1\<lparr>sr_Corrupt := sr_Corrupt out1 + 1, sr_Digests := sr_Digests out1 @ [oi_Digest ob]\<rparr> in
        (case repair of
           None \<Rightarrow> (scrub_failed ob out2, fs)
         | Some rep \<Rightarrow>
             (case rep (oi_Digest ob) (oi_Path ob) fs of
                (Some e, fs1) \<Rightarrow> (scrub_failed ob out2, fs1)
              | (None, fs1) \<Rightarrow>
                  if object_right sha fs1 ob then (out2\<lparr>sr_Repaired := sr_Repaired out2 + 1\<rparr>, fs1)
                  else (scrub_failed ob out2, fs1))))"

fun scrub_objects ::
  "(string \<Rightarrow> string) \<Rightarrow> repair_func option \<Rightarrow> (nat \<Rightarrow> bool) \<Rightarrow> nat \<Rightarrow> object_info list \<Rightarrow> scrub_result \<times> files \<Rightarrow>
   go_error option \<times> scrub_result \<times> files" where
  "scrub_objects sha repair cancelled i [] acc = (None, acc)"
| "scrub_objects sha repair cancelled i (ob # obs) acc =
     (if cancelled i then (Some (GoErr ''context canceled''), acc)
      else scrub_objects sha repair cancelled (Suc i) obs (scrub_object sha repair ob acc))"

text \<open>The objects in the order of the day: by the hash of seed and digest.\<close>

definition scrub_order :: "(string \<Rightarrow> string) \<Rightarrow> string \<Rightarrow> object_info list \<Rightarrow> object_info list" where
  "scrub_order sha seed objects =
     map fst (sort_less (\<lambda>a b. if snd a = snd b then oi_Digest (fst a) < oi_Digest (fst b) else snd a < snd b)
       (map (\<lambda>ob. (ob, sha (seed @ [CHR 0x00] @ oi_Digest ob))) objects))"

definition scrub_limit :: "int \<Rightarrow> object_info list \<Rightarrow> nat" where
  "scrub_limit n objects = (if n \<le> 0 \<or> n > int (length objects) then length objects else nat n)"

definition milliseconds :: "duration \<Rightarrow> int" where
  "milliseconds d = (if d < 0 then - ((- d) div 1000000) else d div 1000000)"

text \<open>The three readings of the clock are the arguments \<open>t0\<close>, \<open>t1\<close> and \<open>t2\<close>.\<close>

definition scrub_Run ::
  "(string \<Rightarrow> string) \<Rightarrow> (nat \<Rightarrow> bool) \<Rightarrow> time \<times> time \<times> time \<Rightarrow> scrubber \<Rightarrow> files \<Rightarrow> (scrub_result \<times> go_error option) \<times> files" where
  "scrub_Run sha cancelled clock sx fs =
     (let t0 = fst clock; t1 = fst (snd clock); t2 = snd (snd clock); out0 = zero_scrub t0 in
      case sx_CAS sx of
        None \<Rightarrow> ((out0, Some (GoErr ''CAS store is required'')), fs)
      | Some st \<Rightarrow>
          (case ListObjects st fs of
             Inl e \<Rightarrow> ((out0, Some e), fs)
           | Inr objects \<Rightarrow>
               let out1 = out0\<lparr>sr_Available := int (length objects)\<rparr>;
                   ranked = scrub_order sha (date_text t1 @ [CHR 0x00] @ sx_SeedSalt sx) objects
               in (case scrub_objects sha (sx_Repair sx) cancelled 0 (take (scrub_limit (sx_SampleObjects sx) objects) ranked) (out1, fs) of
                     (Some e, out, fs1) \<Rightarrow> ((out, Some e), fs1)
                   | (None, out, fs1) \<Rightarrow>
                       let out' = out\<lparr>sr_EndedAt := t2, sr_DurationMS := milliseconds (time_Sub t2 (sr_StartedAt out))\<rparr> in
                       ((out', if sr_Failed out > 0
                               then Some (GoErr (''scrub found '' @ itoa (sr_Failed out) @ '' unrepaired corrupt objects'')) else None), fs1))))"

text \<open>
  The repair reconstructs into a temporary file, checks it, and then writes it into the object in place, so
  that every hard link to it is healed.
\<close>

definition LocalErasureRepair :: "rs_codec \<Rightarrow> (string \<Rightarrow> string) \<Rightarrow> time \<Rightarrow> (string, erasure_dir) gomap \<Rightarrow> string \<Rightarrow> repair_func" where
  "LocalErasureRepair rs sha now dirs casRoot digest0 path fs =
     (let digest = ToLower (TrimSpace digest0) in
      if length digest \<noteq> 64 then (Some (GoErr ''invalid digest''), fs)
      else
        let ed = (case gget dirs (path_Join [casRoot, ''erasure'', take 2 digest, digest]) of
                    None \<Rightarrow> \<lparr>ed_Manifest = None, ed_Files = []\<rparr> | Some ed \<Rightarrow> ed)
        in (case Reconstruct rs sha ed None of
              (Inl e, _) \<Rightarrow> (Some e, fs)
            | (Inr _, None) \<Rightarrow> (Some (GoErr ''file does not exist''), fs)
            | (Inr _, Some c) \<Rightarrow>
                if \<not> EqualFold (sha c) digest then (Some (GoErr ''reconstructed digest mismatch''), fs)
                else
                  let dst = BlobPath (cas_New casRoot 0) digest in
                  if read_file fs dst = None then (Some (GoErr ''file does not exist''), fs)
                  else
                    let fs1 = overwrite_file now dst c fs in
                    (case HashFile sha fs1 dst of
                       Inl e \<Rightarrow> (Some e, fs1)
                     | Inr (got, n) \<Rightarrow>
                         if \<not> EqualFold got digest then (Some (GoErr ''post-repair digest mismatch''), fs1) else (None, fs1))))"

section \<open>Tiering\<close>

record tier_config =
  tc_ColdRoot :: string
  tc_MinAge :: duration
  tc_MinBytes :: int
  tc_RcloneRemote :: string

record tier_result =
  tr_Scanned :: int
  tr_Eligible :: int
  tr_CopiedLocal :: int
  tr_CopiedS3 :: int
  tr_Bytes :: int
  tr_Skipped :: int

definition copyVerified :: "(string \<Rightarrow> string) \<Rightarrow> time \<Rightarrow> string \<Rightarrow> string \<Rightarrow> string \<Rightarrow> files \<Rightarrow> bool result \<times> files" where
  "copyVerified sha now src dst digest fs =
     (case HashFile sha fs dst of
        Inr (got, n) \<Rightarrow>
          if EqualFold got digest then (Inr False, fs)
          else (Inl (GoErr (''cold-tier object '' @ digest @ '' exists with wrong digest'')), fs)
      | Inl _ \<Rightarrow>
          (case read_file fs src of
             None \<Rightarrow> (Inl (GoErr ''file does not exist''), fs)
           | Some c \<Rightarrow>
               if \<not> EqualFold (sha c) digest then (Inl (GoErr ''cold-tier copy digest mismatch''), fs)
               else (Inr True, put_file now dst c fs)))"

definition tier_eligible :: "tier_config \<Rightarrow> time \<Rightarrow> object_info \<Rightarrow> bool" where
  "tier_eligible cfg now ob = (\<not> (oi_Bytes ob < tc_MinBytes cfg \<or> (tc_MinAge cfg > 0 \<and> time_Sub now (oi_ModTime ob) < tc_MinAge cfg)))"

definition cold_path :: "tier_config \<Rightarrow> object_info \<Rightarrow> string" where
  "cold_path cfg ob = path_Join [tc_ColdRoot cfg, ''sha256'', take 2 (oi_Digest ob), oi_Digest ob]"

definition remote_path :: "tier_config \<Rightarrow> object_info \<Rightarrow> string" where
  "remote_path cfg ob = rev (dropWhile (\<lambda>c. c = CHR ''/'') (rev (tc_RcloneRemote cfg)))
     @ ''/sha256/'' @ take 2 (oi_Digest ob) @ ''/'' @ oi_Digest ob"

definition tier_local :: "(string \<Rightarrow> string) \<Rightarrow> time \<Rightarrow> tier_config \<Rightarrow> object_info \<Rightarrow> tier_result \<times> files \<Rightarrow> tier_result result \<times> files" where
  "tier_local sha now cfg ob acc =
     (if TrimSpace (tc_ColdRoot cfg) = [] then (Inr (fst acc), snd acc)
      else (case copyVerified sha now (oi_Path ob) (cold_path cfg ob) (oi_Digest ob) (snd acc) of
          (Inl e, fs1) \<Rightarrow> (Inl e, fs1)
        | (Inr True, fs1) \<Rightarrow> (Inr ((fst acc)\<lparr>tr_CopiedLocal := tr_CopiedLocal (fst acc) + 1, tr_Bytes := tr_Bytes (fst acc) + oi_Bytes ob\<rparr>), fs1)
        | (Inr False, fs1) \<Rightarrow> (Inr (fst acc), fs1)))"

fun tier_objects ::
  "(string \<Rightarrow> string) \<Rightarrow> (nat \<Rightarrow> bool) \<Rightarrow> (string \<Rightarrow> string \<Rightarrow> go_error option) \<Rightarrow> time \<Rightarrow> tier_config \<Rightarrow> nat \<Rightarrow> object_info list \<Rightarrow>
   tier_result \<times> files \<Rightarrow> tier_result result \<times> files" where
  "tier_objects sha cancelled rclone now cfg i [] (out, fs) = (Inr out, fs)"
| "tier_objects sha cancelled rclone now cfg i (ob # obs) (out, fs) =
     (let out1 = out\<lparr>tr_Scanned := tr_Scanned out + 1\<rparr> in
      if cancelled i then (Inl (GoErr ''context canceled''), fs)
      else if \<not> tier_eligible cfg now ob
      then tier_objects sha cancelled rclone now cfg (Suc i) obs (out1\<lparr>tr_Skipped := tr_Skipped out1 + 1\<rparr>, fs)
      else (case tier_local sha now cfg ob (out1\<lparr>tr_Eligible := tr_Eligible out1 + 1\<rparr>, fs) of
          (Inl e, fs1) \<Rightarrow> (Inl e, fs1)
        | (Inr out2, fs1) \<Rightarrow>
            if TrimSpace (tc_RcloneRemote cfg) = [] then tier_objects sha cancelled rclone now cfg (Suc i) obs (out2, fs1)
            else (case rclone (oi_Path ob) (remote_path cfg ob) of
                Some e \<Rightarrow> (Inl e, fs1)
              | None \<Rightarrow> tier_objects sha cancelled rclone now cfg (Suc i) obs (out2\<lparr>tr_CopiedS3 := tr_CopiedS3 out2 + 1\<rparr>, fs1))))"

definition CopyTier ::
  "(string \<Rightarrow> string) \<Rightarrow> (nat \<Rightarrow> bool) \<Rightarrow> (string \<Rightarrow> string \<Rightarrow> go_error option) \<Rightarrow> cas_store \<Rightarrow> tier_config \<Rightarrow> time \<Rightarrow> files \<Rightarrow> tier_result result \<times> files" where
  "CopyTier sha cancelled rclone st cfg now fs =
     (case ListObjects st fs of
        Inl e \<Rightarrow> (Inl e, fs)
      | Inr objects \<Rightarrow> tier_objects sha cancelled rclone now cfg 0 objects
          (\<lparr>tr_Scanned = 0, tr_Eligible = 0, tr_CopiedLocal = 0, tr_CopiedS3 = 0, tr_Bytes = 0, tr_Skipped = 0\<rparr>, fs))"

section \<open>The jobs\<close>

text \<open>
  The scrub job on a worker whose store is the control plane's own: what the local repair could not heal is
  handed to the distributed repair, whose errors are dropped.
\<close>

definition scrubCAS ::
  "'s store_iface \<Rightarrow> (string \<Rightarrow> nat \<Rightarrow> string) \<Rightarrow> rs_codec \<Rightarrow> (string \<Rightarrow> string) \<Rightarrow> (nat \<Rightarrow> bool) \<Rightarrow> time \<times> time \<times> time \<Rightarrow> (string, erasure_dir) gomap \<Rightarrow>
   string \<Rightarrow> config \<Rightarrow> job \<Rightarrow> files \<Rightarrow> 's run \<Rightarrow> (scrub_result \<times> go_error option) \<times> files \<times> 's run" where
  "scrubCAS S newID rs sha cancelled clock dirs casRoot c job fs r =
     (let cfg = sc_Scrub (c_Storage c); ec = sc_Erasure (c_Storage c); now = snd (snd clock);
          repair = (if sb_Repair cfg then Some (LocalErasureRepair rs sha now dirs casRoot) else None);
          res = scrub_Run sha cancelled clock \<lparr>sx_CAS = Some (cas_New casRoot 0), sx_SampleObjects = sb_SampleObjects cfg,
                  sx_SeedSalt = sb_SeedSalt cfg, sx_Repair = repair\<rparr> fs;
          target = (if j_LeaseOwner job \<noteq> [] then j_LeaseOwner job else LocalWorkerAffinity);
          r1 = (if sb_Repair cfg \<and> ec_Enabled ec \<and> ec_Distributed ec
                then fold (\<lambda>digest r. (ScheduleDistributedRepair S newID c now target digest r)\<lparr>rn_err := None\<rparr>)
                       (sr_UnrepairedDigests (fst (fst res))) r
                else r)
      in (fst res, snd res, r1))"

definition tierCAS ::
  "(string \<Rightarrow> string) \<Rightarrow> (nat \<Rightarrow> bool) \<Rightarrow> (string \<Rightarrow> string \<Rightarrow> go_error option) \<Rightarrow> time \<Rightarrow> string \<Rightarrow> config \<Rightarrow> files \<Rightarrow> tier_result result \<times> files" where
  "tierCAS sha cancelled rclone now casRoot c fs =
     (let cfg = sc_Tiering (c_Storage c)
      in CopyTier sha cancelled rclone (cas_New casRoot 0)
           \<lparr>tc_ColdRoot = ti_ColdRoot cfg, tc_MinAge = ParseDuration (ti_MinAge cfg), tc_MinBytes = ti_MinBytes cfg, tc_RcloneRemote = ti_RcloneRemote cfg\<rparr> now fs)"

end
