(* ===== verification/Scrub_Properties.thy ===== *)
theory Scrub_Properties
  imports Scrub Cas_Properties Erasure_Roundtrip
begin

text \<open>
  A scrub of a store whose rotten objects have enough good shards heals all of them, through every hard
  link; tiering copies only verified bytes and changes nothing that is there.
\<close>

section \<open>The objects of a store\<close>

text \<open>The files of the store are named as objects, whatever their contents; no two objects share an inode.\<close>

definition cas_named :: "cas_store \<Rightarrow> files \<Rightarrow> bool" where
  "cas_named st fs = (\<forall>p. below (object_root st) p \<longrightarrow> read_file fs p \<noteq> None \<longrightarrow> (\<exists>d. is_digest d \<and> p = blobPath st d))"

definition cas_separate :: "cas_store \<Rightarrow> files \<Rightarrow> bool" where
  "cas_separate st fs = (\<forall>d e. is_digest d \<longrightarrow> is_digest e \<longrightarrow> same_file fs (blobPath st d) (blobPath st e) \<longrightarrow> d = e)"

lemma list_objects_named:
  assumes "\<forall>p\<in>set paths. \<exists>d c t. is_digest d \<and> p = blobPath st d \<and> file_inode fs p = Some (c, t)" "cs_Root st \<noteq> []"
  shows "\<exists>os. list_objects fs paths = Inr os \<and> map oi_Path os = paths \<and> (\<forall>ob\<in>set os. is_digest (oi_Digest ob) \<and> oi_Path ob = blobPath st (oi_Digest ob))"
  using assms(1)
proof (induction paths)
  case Nil
  then show ?case by simp
next
  case (Cons p ps)
  then obtain d c t where d: "is_digest d" "p = blobPath st d" "file_inode fs p = Some (c, t)" by auto
  obtain os where os: "list_objects fs ps = Inr os" "map oi_Path os = ps" "\<forall>ob\<in>set os. is_digest (oi_Digest ob) \<and> oi_Path ob = blobPath st (oi_Digest ob)"
    using Cons by auto
  have "ToLower (path_Base p) = d" using d path_Base_blob [OF assms(2)] ToLower_digest by simp
  moreover have "length d = 64" using d(1) by (simp add: is_digest_def)
  ultimately show ?case using d os by (simp add: Let_def)
qed

lemma read_inode: "read_file fs p \<noteq> None \<longleftrightarrow> (\<exists>c t. file_inode fs p = Some (c, t))"
  by (auto simp: read_file_def)

lemma ListObjects_named:
  assumes "files_wf fs" "cas_named st fs" "cs_Root st \<noteq> []"
  shows "\<exists>os. ListObjects st fs = Inr os \<and> distinct os \<and>
    (\<forall>ob\<in>set os. is_digest (oi_Digest ob) \<and> oi_Path ob = blobPath st (oi_Digest ob) \<and> read_file fs (oi_Path ob) \<noteq> None) \<and>
    (\<forall>d. is_digest d \<longrightarrow> read_file fs (blobPath st d) \<noteq> None \<longrightarrow> (\<exists>ob\<in>set os. oi_Digest ob = d))"
proof -
  let ?ps = "walk (object_root st) fs"
  have w: "p \<in> set ?ps \<longleftrightarrow> below (object_root st) p \<and> read_file fs p \<noteq> None" for p using walk_files [OF assms(1)] .
  have "\<forall>p\<in>set ?ps. \<exists>d c t. is_digest d \<and> p = blobPath st d \<and> file_inode fs p = Some (c, t)"
    using w assms(2) unfolding cas_named_def read_inode by blast
  then obtain os where os: "list_objects fs ?ps = Inr os" "map oi_Path os = ?ps"
      "\<forall>ob\<in>set os. is_digest (oi_Digest ob) \<and> oi_Path ob = blobPath st (oi_Digest ob)"
    using list_objects_named [OF _ assms(3)] by blast
  have "distinct ?ps" using assms(1) by (simp add: walk_def files_wf_def)
  then have "distinct os" using os(2) by (metis distinct_map)
  moreover have "\<exists>ob\<in>set os. oi_Digest ob = d" if "is_digest d" "read_file fs (blobPath st d) \<noteq> None" for d
  proof -
    have "blobPath st d \<in> set (map oi_Path os)" using that below_blob [OF assms(3)] w os(2) by simp
    then obtain ob where "ob \<in> set os" "oi_Path ob = blobPath st d" by auto
    then show ?thesis using os(3) that(1) blobPath_inject [OF assms(3)] by metis
  qed
  moreover have "read_file fs (oi_Path ob) \<noteq> None" if "ob \<in> set os" for ob using that w os(2) by (metis in_set_conv_nth length_map nth_map)
  ultimately show ?thesis using os(1,3) by (simp add: ListObjects_def)
qed

section \<open>Healing\<close>

definition erasure_dir_of :: "cas_store \<Rightarrow> string \<Rightarrow> string" where
  "erasure_dir_of st d = path_Join [cs_Root st, ''erasure'', take 2 d, d]"

text \<open>
  The object \<open>d\<close> was protected with \<open>k\<close> data and \<open>p\<close> parity shards when it was good, and at least \<open>k\<close> of its shard files are intact.
\<close>

definition recoverable :: "rs_codec \<Rightarrow> (string \<Rightarrow> string) \<Rightarrow> nat \<Rightarrow> nat \<Rightarrow> codec_config \<Rightarrow> (string, erasure_dir) gomap \<Rightarrow> cas_store \<Rightarrow> string \<Rightarrow> bool" where
  "recoverable rs sha k p cfg dirs st d = (\<exists>c t m ed0 ed keep. sha c = d \<and> EncodeFile rs sha t cfg (Some c) None = (Inr m, Some ed0) \<and>
     gget dirs (erasure_dir_of st d) = Some ed \<and> damaged sha keep ed0 ed \<and> keep \<subseteq> {0..<k + p} \<and> k \<le> card keep)"

definition code_ok :: "rs_codec \<Rightarrow> nat \<Rightarrow> nat \<Rightarrow> codec_config \<Rightarrow> bool" where
  "code_ok rs k p cfg = (rs_correct rs k p \<and> cf_DataShards cfg = int k \<and> cf_ParityShards cfg = int p \<and> 2 \<le> k \<and> 1 \<le> p \<and> 65536 \<le> cf_BlockBytes cfg)"

lemma recoverable_rebuilds:
  assumes "code_ok rs k p cfg" "recoverable rs sha k p cfg dirs st d"
  obtains ed c where "gget dirs (erasure_dir_of st d) = Some ed" "sha c = d" "Reconstruct rs sha ed None = (Inr (), Some c)"
proof -
  from assms(2) obtain c t m ed0 ed keep where r: "sha c = d" "EncodeFile rs sha t cfg (Some c) None = (Inr m, Some ed0)"
      "gget dirs (erasure_dir_of st d) = Some ed" "damaged sha keep ed0 ed" "keep \<subseteq> {0..<k + p}" "k \<le> card keep"
    unfolding recoverable_def by blast
  then have "Reconstruct rs sha ed None = (Inr (), Some c)"
    using encode_survives [of rs k p cfg sha t c] assms(1) unfolding code_ok_def by fastforce
  with r(1,3) that show thesis by blast
qed

lemma TrimSpace_digest: "is_digest d \<Longrightarrow> TrimSpace d = d"
proof -
  assume d: "is_digest d"
  then have plain: "\<not> is_space x" if "x \<in> set d" for x using that by (auto simp: is_digest_def hex_chars_def is_space_def)
  have "dropWhile is_space xs = xs" if "set xs \<subseteq> set d" for xs using that plain by (cases xs) auto
  then show ?thesis by (simp add: TrimSpace_def)
qed

lemma repair_overwrites:
  assumes "code_ok rs k p cfg" "recoverable rs sha k p cfg dirs st d" "is_digest d" "read_file fs (blobPath st d) \<noteq> None"
  shows "\<exists>c. sha c = d \<and> LocalErasureRepair rs sha now dirs (cs_Root st) d path fs = (None, overwrite_file now (blobPath st d) c fs)"
proof -
  obtain ed c where r: "gget dirs (erasure_dir_of st d) = Some ed" "sha c = d" "Reconstruct rs sha ed None = (Inr (), Some c)"
    using recoverable_rebuilds [OF assms(1,2)] .
  have len: "length d = 64" using assms(3) by (simp add: is_digest_def)
  have blob: "BlobPath (cas_New (cs_Root st) 0) d = blobPath st d"
    using len ToLower_digest TrimSpace_digest assms(3) by (simp add: BlobPath_def blobPath_def cas_New_def)
  have "same_file fs (blobPath st d) (blobPath st d)"
    using assms(4) by (auto simp: same_file_def read_file_def file_inode_def split: option.splits)
  then have "HashFile sha (overwrite_file now (blobPath st d) c fs) (blobPath st d) = Inr (d, int (length c))"
    using r(2) by (simp add: HashFile_def read_overwrite_file)
  then show ?thesis using r len blob assms(3,4) ToLower_digest TrimSpace_digest
    by (intro exI [of _ c]) (simp add: LocalErasureRepair_def erasure_dir_of_def Let_def)
qed

definition named_object :: "cas_store \<Rightarrow> files \<Rightarrow> object_info \<Rightarrow> bool" where
  "named_object st fs ob = (is_digest (oi_Digest ob) \<and> oi_Path ob = blobPath st (oi_Digest ob) \<and> read_file fs (oi_Path ob) \<noteq> None)"

text \<open>What healing the objects \<open>obs\<close> does to the files.\<close>

definition healed :: "(string \<Rightarrow> string) \<Rightarrow> object_info list \<Rightarrow> files \<Rightarrow> files \<Rightarrow> bool" where
  "healed sha obs fs fs' \<longleftrightarrow> fs_names fs' = fs_names fs \<and> files_wf fs' \<and> (\<forall>ob\<in>set obs. object_right sha fs' ob) \<and>
     (\<forall>q. (\<forall>ob\<in>set obs. same_file fs q (oi_Path ob) \<longrightarrow> object_right sha fs ob) \<longrightarrow> read_file fs' q = read_file fs q)"

lemma scrub_object_heals:
  assumes "code_ok rs k p cfg" "files_wf fs" "named_object st fs ob"
    and "\<not> object_right sha fs ob \<Longrightarrow> recoverable rs sha k p cfg dirs st (oi_Digest ob)"
  shows "\<exists>out' fs'. scrub_object sha (Some (LocalErasureRepair rs sha now dirs (cs_Root st))) ob (out, fs) = (out', fs') \<and>
    healed sha [ob] fs fs' \<and> sr_Failed out' = sr_Failed out \<and> sr_Sampled out' = sr_Sampled out + 1 \<and>
    sr_Repaired out' - sr_Repaired out = sr_Corrupt out' - sr_Corrupt out"
proof (cases "object_right sha fs ob")
  case True
  then show ?thesis using assms(2) by (simp add: scrub_object_def healed_def Let_def)
next
  case False
  have n: "is_digest (oi_Digest ob)" "oi_Path ob = blobPath st (oi_Digest ob)" "read_file fs (oi_Path ob) \<noteq> None"
    using assms(3) by (auto simp: named_object_def)
  obtain c where c: "sha c = oi_Digest ob" "LocalErasureRepair rs sha now dirs (cs_Root st) (oi_Digest ob) (oi_Path ob) fs =
      (None, overwrite_file now (oi_Path ob) c fs)"
    using repair_overwrites [OF assms(1) assms(4) [OF False] n(1)] n(2,3) by metis
  let ?fs' = "overwrite_file now (oi_Path ob) c fs"
  have "same_file fs (oi_Path ob) (oi_Path ob)"
    using n(3) by (auto simp: same_file_def read_file_def file_inode_def split: option.splits)
  then have right: "object_right sha ?fs' ob" using c(1) by (simp add: object_right_def HashFile_def read_overwrite_file)
  moreover have "fs_names ?fs' = fs_names fs" by (simp add: overwrite_file_def split: option.split)
  ultimately have "healed sha [ob] fs ?fs'" using assms(2) False by (simp add: healed_def read_overwrite_file)
  then show ?thesis using False c(2) right by (simp add: scrub_object_def Let_def)
qed

lemma same_file_names: "fs_names fs' = fs_names fs \<Longrightarrow> same_file fs' a b = same_file fs a b"
  by (simp add: same_file_def)

lemma object_right_read: "read_file fs' (oi_Path ob) = read_file fs (oi_Path ob) \<Longrightarrow> object_right sha fs' ob = object_right sha fs ob"
  by (simp add: object_right_def HashFile_def)

lemma same_object:
  assumes "cas_separate st fs" "named_object st fs a" "named_object st fs b" "same_file fs (oi_Path a) (oi_Path b)"
  shows "object_right sha fs' a = object_right sha fs' b"
proof -
  have "oi_Digest a = oi_Digest b" using assms unfolding cas_separate_def named_object_def by metis
  moreover from this have "oi_Path a = oi_Path b" using assms(2,3) by (simp add: named_object_def)
  ultimately show ?thesis unfolding object_right_def by metis
qed

lemma named_object_names:
  assumes "named_object st fs a" "fs_names fs1 = fs_names fs" "files_wf fs1"
  shows "named_object st fs1 a"
proof -
  have "gget (fs_names fs) (oi_Path a) \<noteq> None"
    using assms(1) by (auto simp: named_object_def read_file_def file_inode_def split: option.splits)
  then have "read_file fs1 (oi_Path a) \<noteq> None" unfolding read_names [OF assms(3)] assms(2) .
  then show ?thesis using assms(1) by (simp add: named_object_def)
qed

lemma healed_keeps_right:
  assumes "healed sha obs fs fs'" "cas_separate st fs" "\<forall>ob\<in>set obs. named_object st fs ob" "named_object st fs a" "object_right sha fs a"
  shows "object_right sha fs' a"
proof -
  have "read_file fs' (oi_Path a) = read_file fs (oi_Path a)"
    using assms same_object [OF assms(2,4)] unfolding healed_def by metis
  then show ?thesis using object_right_read assms(5) by blast
qed

lemma healed_trans:
  assumes "healed sha [ob] fs fs1" "healed sha obs fs1 fs'" "cas_separate st fs" "\<forall>ob\<in>set (ob # obs). named_object st fs ob"
  shows "healed sha (ob # obs) fs fs'"
proof -
  have names: "fs_names fs1 = fs_names fs" "fs_names fs' = fs_names fs1" "files_wf fs1" "files_wf fs'"
    using assms(1,2) by (auto simp: healed_def)
  have named1: "named_object st fs1 a" if "a \<in> set (ob # obs)" for a
    using assms(4) that named_object_names [OF _ names(1,3)] by blast
  have sep1: "cas_separate st fs1" using assms(3) same_file_names [OF names(1)] by (simp add: cas_separate_def)
  have "object_right sha fs' ob"
    using healed_keeps_right [OF assms(2) sep1, of ob] named1 assms(1) by (simp add: healed_def)
  moreover have "read_file fs' q = read_file fs q" if q: "\<forall>a\<in>set (ob # obs). same_file fs q (oi_Path a) \<longrightarrow> object_right sha fs a" for q
  proof -
    have "read_file fs1 q = read_file fs q" using q assms(1) by (simp add: healed_def)
    moreover have "object_right sha fs1 a" if "a \<in> set obs" "same_file fs1 q (oi_Path a)" for a
      using that q healed_keeps_right [OF assms(1,3), of a] assms(4) same_file_names [OF names(1)] by simp
    ultimately show ?thesis using assms(2) unfolding healed_def by metis
  qed
  ultimately show ?thesis using assms(2) names unfolding healed_def by simp
qed

lemma scrub_objects_heals:
  assumes "code_ok rs k p cfg" "files_wf fs" "cas_separate st fs" "\<forall>ob\<in>set obs. named_object st fs ob" "\<And>i. \<not> cancelled i"
    and "\<forall>ob\<in>set obs. \<not> object_right sha fs ob \<longrightarrow> recoverable rs sha k p cfg dirs st (oi_Digest ob)"
  shows "\<exists>out' fs'. scrub_objects sha (Some (LocalErasureRepair rs sha now dirs (cs_Root st))) cancelled i obs (out, fs) = (None, out', fs') \<and>
    healed sha obs fs fs' \<and> sr_Failed out' = sr_Failed out \<and> sr_Sampled out' = sr_Sampled out + int (length obs) \<and>
    sr_Repaired out' - sr_Repaired out = sr_Corrupt out' - sr_Corrupt out"
  using assms(2-4,6)
proof (induction obs arbitrary: i out fs)
  case Nil
  then show ?case by (simp add: healed_def)
next
  case (Cons ob obs)
  let ?rep = "Some (LocalErasureRepair rs sha now dirs (cs_Root st))"
  obtain out1 fs1 where o1: "scrub_object sha ?rep ob (out, fs) = (out1, fs1)" "healed sha [ob] fs fs1" "sr_Failed out1 = sr_Failed out"
      "sr_Sampled out1 = sr_Sampled out + 1" "sr_Repaired out1 - sr_Repaired out = sr_Corrupt out1 - sr_Corrupt out"
    using scrub_object_heals [OF assms(1) Cons.prems(1), of st ob sha dirs now out] Cons.prems(3,4) by auto
  have names: "fs_names fs1 = fs_names fs" "files_wf fs1" using o1(2) by (auto simp: healed_def)
  have sep1: "cas_separate st fs1" using Cons.prems(2) same_file_names [OF names(1)] by (simp add: cas_separate_def)
  have named1: "\<forall>a\<in>set obs. named_object st fs1 a"
    using Cons.prems(3) named_object_names [OF _ names] by simp
  have "\<forall>a\<in>set obs. \<not> object_right sha fs1 a \<longrightarrow> recoverable rs sha k p cfg dirs st (oi_Digest a)"
    using healed_keeps_right [OF o1(2) Cons.prems(2)] Cons.prems(3,4) by auto
  from Cons.IH [OF names(2) sep1 named1 this, of "Suc i" out1]
  obtain out' fs' where ih: "scrub_objects sha ?rep cancelled (Suc i) obs (out1, fs1) = (None, out', fs')" "healed sha obs fs1 fs'"
      "sr_Failed out' = sr_Failed out1" "sr_Sampled out' = sr_Sampled out1 + int (length obs)"
      "sr_Repaired out' - sr_Repaired out1 = sr_Corrupt out' - sr_Corrupt out1"
    by blast
  have "healed sha (ob # obs) fs fs'" using healed_trans [OF o1(2) ih(2) Cons.prems(2,3)] .
  moreover have "scrub_objects sha ?rep cancelled i (ob # obs) (out, fs) = (None, out', fs')" using o1(1) ih(1) assms(5) by simp
  moreover have "sr_Repaired out' - sr_Repaired out = sr_Corrupt out' - sr_Corrupt out" using o1(5) ih(5) by linarith
  ultimately show ?case using o1(3,4) ih(3,4) by simp
qed

lemma scrub_object_available: "sr_Available (fst (scrub_object sha rep ob acc)) = sr_Available (fst acc)"
  by (simp add: scrub_object_def scrub_failed_def Let_def split: option.split prod.split)

lemma scrub_objects_available:
  "scrub_objects sha rep cancelled i obs acc = (e, out', fs') \<Longrightarrow> sr_Available out' = sr_Available (fst acc)"
  by (induction obs arbitrary: i acc) (auto simp: scrub_object_available split: if_splits)

lemma set_scrub_order [simp]: "set (scrub_order sha seed obs) = set obs" "length (scrub_order sha seed obs) = length obs"
  by (auto simp: scrub_order_def image_iff)

text \<open>
  C28. A full scrub with local repair heals the store: when every rotten object was erasure-coded while it was
  good and enough of its shard files are intact, the scrub reports no failure, every object hashes to
  its name afterwards, every hard link to an object reads the healed bytes, and a file that is linked to
  no rotten object keeps its contents.
\<close>

theorem scrub_heals:
  assumes "code_ok rs k p cfg" "files_wf fs" "cas_named st fs" "cas_separate st fs" "cs_Root st \<noteq> []"
    and "\<forall>d c. is_digest d \<longrightarrow> read_file fs (blobPath st d) = Some c \<longrightarrow> sha c \<noteq> d \<longrightarrow> recoverable rs sha k p cfg dirs st d"
    and "sx_CAS sx = Some st" "sx_Repair sx = Some (LocalErasureRepair rs sha now dirs (cs_Root st))" "sx_SampleObjects sx \<le> 0" "\<forall>i. \<not> cancelled i"
  shows "\<exists>out fs'. scrub_Run sha cancelled clock sx fs = ((out, None), fs') \<and>
    sr_Sampled out = sr_Available out \<and> sr_Repaired out = sr_Corrupt out \<and> sr_Failed out = 0 \<and>
    (\<forall>q. read_file fs' q = None \<longleftrightarrow> read_file fs q = None) \<and>
    (\<forall>d c. is_digest d \<longrightarrow> read_file fs' (blobPath st d) = Some c \<longrightarrow> sha c = d) \<and>
    (\<forall>q d. is_digest d \<longrightarrow> same_file fs q (blobPath st d) \<longrightarrow> read_file fs' q = read_file fs' (blobPath st d)) \<and>
    (\<forall>q. (\<forall>d c. is_digest d \<longrightarrow> same_file fs q (blobPath st d) \<longrightarrow> read_file fs q = Some c \<longrightarrow> sha c = d) \<longrightarrow> read_file fs' q = read_file fs q)"
proof -
  obtain obs where obs: "ListObjects st fs = Inr obs" "\<forall>ob\<in>set obs. named_object st fs ob"
      "\<And>d. is_digest d \<Longrightarrow> read_file fs (blobPath st d) \<noteq> None \<Longrightarrow> \<exists>ob\<in>set obs. oi_Digest ob = d"
    using ListObjects_named [OF assms(2,3,5)] unfolding named_object_def by blast
  define ranked where "ranked = scrub_order sha (date_text (fst (snd clock)) @ CHR 0x00 # sx_SeedSalt sx) obs"
  have ranked: "set ranked = set obs" "length ranked = length obs" by (auto simp: ranked_def)
  have right_iff: "object_right sha X ob \<longleftrightarrow> (\<exists>c. read_file X (blobPath st (oi_Digest ob)) = Some c \<and> sha c = oi_Digest ob)" if "ob \<in> set obs" for ob X
    using obs(2) that by (auto simp: object_right_def HashFile_def named_object_def split: option.splits)
  have "\<forall>ob\<in>set ranked. \<not> object_right sha fs ob \<longrightarrow> recoverable rs sha k p cfg dirs st (oi_Digest ob)"
    using assms(6) obs(2) right_iff unfolding ranked(1) named_object_def by fastforce
  from scrub_objects_heals [where cancelled = cancelled and now = now and i = 0 and out = "zero_scrub (fst clock)\<lparr>sr_Available := int (length obs)\<rparr>",
      OF assms(1,2,4) _ spec [OF assms(10)] this]
  obtain out fs' where run: "scrub_objects sha (sx_Repair sx) cancelled 0 ranked (zero_scrub (fst clock)\<lparr>sr_Available := int (length obs)\<rparr>, fs) = (None, out, fs')"
      "healed sha ranked fs fs'" "sr_Failed out = 0" "sr_Sampled out = int (length obs)" "sr_Repaired out = sr_Corrupt out"
    using obs(2) ranked assms(8) by (auto simp: zero_scrub_def)
  have names: "fs_names fs' = fs_names fs" "files_wf fs'" using run(2) by (auto simp: healed_def)
  have "\<exists>out. scrub_Run sha cancelled clock sx fs = ((out, None), fs') \<and> sr_Sampled out = sr_Available out \<and>
      sr_Repaired out = sr_Corrupt out \<and> sr_Failed out = 0"
    using run obs(1) assms(7,9) ranked(2) scrub_objects_available [OF run(1)]
    by (simp add: scrub_Run_def Let_def scrub_limit_def ranked_def [symmetric] del: set_scrub_order)
  moreover have "read_file fs' q = None \<longleftrightarrow> read_file fs q = None" for q
    using read_names [OF names(2), of q] read_names [OF assms(2), of q] names(1) by (metis (no_types))
  moreover have "sha c = d" if dc: "is_digest d" "read_file fs' (blobPath st d) = Some c" for d c
  proof -
    have "read_file fs (blobPath st d) \<noteq> None" using dc(2) names read_names [OF assms(2)] by (auto simp: read_file_def file_inode_def split: option.splits)
    then obtain ob where "ob \<in> set obs" "oi_Digest ob = d" using obs(3) dc(1) by blast
    then show ?thesis using run(2) right_iff [of ob fs'] dc(2) ranked(1) by (auto simp: healed_def)
  qed
  moreover have "read_file fs' q = read_file fs' (blobPath st d)" if "same_file fs q (blobPath st d)" for q d
    using that same_file_names [OF names(1)] same_file_read by blast
  moreover have "read_file fs' q = read_file fs q"
    if q: "\<forall>d c. is_digest d \<longrightarrow> same_file fs q (blobPath st d) \<longrightarrow> read_file fs q = Some c \<longrightarrow> sha c = d" for q
  proof -
    have "object_right sha fs ob" if "ob \<in> set obs" "same_file fs q (oi_Path ob)" for ob
      using that q obs(2) same_file_read [OF that(2)] right_iff [OF that(1)] by (fastforce simp: named_object_def)
    then show ?thesis using run(2) ranked(1) by (simp add: healed_def)
  qed
  ultimately show ?thesis by blast
qed

definition linked_rotten_files :: files where
  "linked_rotten_files = \<lparr>fs_names = [(''/b/x'', 1), (''/c/sha256/aa/'' @ replicate 64 (CHR ''a''), 1)], fs_inodes = [(1, (''jello'', 6))], fs_next = 2\<rparr>"

lemma read_linked_rotten:
  "read_file linked_rotten_files p = (if p = ''/b/x'' \<or> p = ''/c/sha256/aa/'' @ replicate 64 (CHR ''a'') then Some ''jello'' else None)"
  by (simp add: read_file_def file_inode_def linked_rotten_files_def)

lemma linked_rotten_store:
  "files_wf linked_rotten_files" "cas_named sample_cas linked_rotten_files" "cas_separate sample_cas linked_rotten_files"
proof -
  have d: "is_digest (sample_sha ''hello'')" using digests_sample by (simp add: digests_def)
  have st: "cs_Root sample_cas \<noteq> []" by (simp add: sample_cas_def)
  show "files_wf linked_rotten_files" by (simp add: files_wf_def linked_rotten_files_def)
  have "\<not> below (object_root sample_cas) ''/b/x''" by (simp add: object_root_sample below_def)
  then show "cas_named sample_cas linked_rotten_files"
    using d blobPath_sample(1) [symmetric] unfolding cas_named_def read_linked_rotten by (metis (no_types, lifting))
  have "blobPath sample_cas e = ''/c/sha256/aa/'' @ replicate 64 (CHR ''a'')" if "is_digest e" "gget (fs_names linked_rotten_files) (blobPath sample_cas e) \<noteq> None" for e
  proof -
    have "blobPath sample_cas e \<noteq> ''/b/x''" using below_blob [OF st that(1)] by (auto simp: object_root_sample below_def)
    then show ?thesis using that(2) by (simp add: linked_rotten_files_def split: if_splits)
  qed
  then show "cas_separate sample_cas linked_rotten_files"
    using blobPath_inject [OF st] unfolding cas_separate_def same_file_def by metis
qed

theorem scrub_heals_witness:
  "\<exists>dirs out fs'. scrub_Run sample_sha (\<lambda>_. False) (1, 2, 3) \<lparr>sx_CAS = Some sample_cas, sx_SampleObjects = 0, sx_SeedSalt = [],
       sx_Repair = Some (LocalErasureRepair sum_codec sample_sha 9 dirs ''/c'')\<rparr> linked_rotten_files = ((out, None), fs') \<and>
     read_file linked_rotten_files ''/b/x'' = Some ''jello'' \<and> read_file fs' ''/b/x'' = Some ''hello''"
proof -
  let ?cfg = "\<lparr>cf_DataShards = 2, cf_ParityShards = 1, cf_BlockBytes = 65536\<rparr>" and ?d = "sample_sha ''hello''"
  have code: "code_ok sum_codec 2 1 ?cfg" using sum_codec_correct by (simp add: code_ok_def)
  obtain m ed0 where enc: "EncodeFile sum_codec sample_sha 7 ?cfg (Some ''hello'') None = (Inr m, Some ed0)"
    using encode_survives [OF sum_codec_correct, of ?cfg sample_sha 7 "''hello''"] by auto
  let ?ed = "ed0\<lparr>ed_Files := gdel (shard_name 0) (ed_Files ed0)\<rparr>"
  let ?dirs = "[(erasure_dir_of sample_cas ?d, ?ed)]"
  have "damaged sample_sha {1, 2} ed0 ?ed" by (auto simp: damaged_def split: if_splits)
  then have rec: "recoverable sum_codec sample_sha 2 1 ?cfg ?dirs sample_cas ?d"
    using enc unfolding recoverable_def by (intro exI [of _ "''hello''"] exI [of _ 7] exI [of _ m] exI [of _ ed0] exI [of _ ?ed] exI [of _ "{1, 2}"]) simp
  have st: "cs_Root sample_cas = ''/c''" by (simp add: sample_cas_def)
  have d: "is_digest ?d" using digests_sample by (simp add: digests_def)
  have single: "recoverable sum_codec sample_sha 2 1 ?cfg ?dirs sample_cas e"
    if "is_digest e" "read_file linked_rotten_files (blobPath sample_cas e) = Some c" for e c
  proof -
    have "blobPath sample_cas e \<noteq> ''/b/x''" using below_blob [of sample_cas e] that(1) st by (auto simp: object_root_sample below_def)
    then have "blobPath sample_cas e = blobPath sample_cas ?d" using that(2) by (simp add: read_linked_rotten blobPath_sample split: if_splits)
    then show ?thesis using rec that(1) d blobPath_inject [of sample_cas] st by simp
  qed
  have linked: "same_file linked_rotten_files ''/b/x'' (blobPath sample_cas ?d)"
    by (simp add: same_file_def linked_rotten_files_def blobPath_sample)
  let ?sx = "\<lparr>sx_CAS = Some sample_cas, sx_SampleObjects = 0, sx_SeedSalt = [], sx_Repair = Some (LocalErasureRepair sum_codec sample_sha 9 ?dirs ''/c'')\<rparr>"
  obtain out fs' where run: "scrub_Run sample_sha (\<lambda>_. False) (1, 2, 3) ?sx linked_rotten_files = ((out, None), fs')"
      "read_file fs' ''/b/x'' \<noteq> None" "\<And>c. read_file fs' (blobPath sample_cas ?d) = Some c \<Longrightarrow> sample_sha c = ?d"
      "read_file fs' ''/b/x'' = read_file fs' (blobPath sample_cas ?d)"
  proof -
    have sx: "cs_Root sample_cas \<noteq> []" "sx_CAS ?sx = Some sample_cas" "sx_SampleObjects ?sx \<le> 0" "\<forall>i::nat. \<not> (\<lambda>_. False) i"
        "sx_Repair ?sx = Some (LocalErasureRepair sum_codec sample_sha 9 ?dirs (cs_Root sample_cas))" using st by simp_all
    have all: "\<forall>e c. is_digest e \<longrightarrow> read_file linked_rotten_files (blobPath sample_cas e) = Some c \<longrightarrow> sample_sha c \<noteq> e \<longrightarrow>
        recoverable sum_codec sample_sha 2 1 ?cfg ?dirs sample_cas e" using single by blast
    from scrub_heals [OF code linked_rotten_store sx(1) all sx(2,5,3,4), of "(1, 2, 3)"]
    obtain out fs' where r: "scrub_Run sample_sha (\<lambda>_. False) (1, 2, 3) ?sx linked_rotten_files = ((out, None), fs')"
        "\<forall>q. read_file fs' q = None \<longleftrightarrow> read_file linked_rotten_files q = None"
        "\<forall>d c. is_digest d \<longrightarrow> read_file fs' (blobPath sample_cas d) = Some c \<longrightarrow> sample_sha c = d"
        "\<forall>q d. is_digest d \<longrightarrow> same_file linked_rotten_files q (blobPath sample_cas d) \<longrightarrow> read_file fs' q = read_file fs' (blobPath sample_cas d)"
      by (elim exE conjE) (rule that)
    have "read_file fs' ''/b/x'' \<noteq> None" unfolding r(2) [rule_format] by (simp add: read_linked_rotten)
    moreover have "read_file fs' ''/b/x'' = read_file fs' (blobPath sample_cas ?d)" using r(4) d linked by blast
    ultimately show thesis using that [OF r(1)] r(3) d by blast
  qed
  then have "read_file fs' ''/b/x'' = Some ''hello''" by (auto simp: sample_sha_def split: if_splits)
  with run(1) show ?thesis by (auto simp: read_linked_rotten)
qed

section \<open>Tiering\<close>

text \<open>A verified copy in the cold tier.\<close>

definition cold_copy :: "(string \<Rightarrow> string) \<Rightarrow> tier_config \<Rightarrow> files \<Rightarrow> object_info \<Rightarrow> bool" where
  "cold_copy sha cfg fs ob = (case read_file fs (cold_path cfg ob) of None \<Rightarrow> False | Some c \<Rightarrow> EqualFold (sha c) (oi_Digest ob))"

definition tiered :: "(string \<Rightarrow> string) \<Rightarrow> tier_config \<Rightarrow> time \<Rightarrow> object_info list \<Rightarrow> files \<Rightarrow> files \<Rightarrow> bool" where
  "tiered sha cfg now obs fs fs' \<longleftrightarrow> files_wf fs' \<and> (\<forall>p c. read_file fs p = Some c \<longrightarrow> read_file fs' p = Some c) \<and>
     (\<forall>p c. read_file fs' p = Some c \<longrightarrow> read_file fs p = Some c \<or>
        (\<exists>ob\<in>set obs. tier_eligible cfg now ob \<and> p = cold_path cfg ob \<and> EqualFold (sha c) (oi_Digest ob)))"

lemma tiered_refl: "files_wf fs \<Longrightarrow> tiered sha cfg now obs fs fs"
  by (simp add: tiered_def)

lemma tiered_trans: "tiered sha cfg now [ob] fs fs1 \<Longrightarrow> tiered sha cfg now obs fs1 fs' \<Longrightarrow> tiered sha cfg now (ob # obs) fs fs'"
  unfolding tiered_def by (simp only: list.set ball_simps bex_simps simp_thms) meson

lemma cold_copy_tiered: "cold_copy sha cfg fs ob \<Longrightarrow> tiered sha cfg now obs fs fs' \<Longrightarrow> cold_copy sha cfg fs' ob"
  by (auto simp: cold_copy_def tiered_def split: option.splits)

lemma tier_local_tiered:
  assumes "files_wf fs" "tier_eligible cfg now ob" "tier_local sha now cfg ob (out, fs) = (r, fs1)"
  shows "tiered sha cfg now [ob] fs fs1" "is_ok r \<Longrightarrow> TrimSpace (tc_ColdRoot cfg) \<noteq> [] \<Longrightarrow> cold_copy sha cfg fs1 ob"
  using assms
  by (auto simp: tier_local_def copyVerified_def HashFile_def tiered_def cold_copy_def is_ok_def split: if_splits option.splits)

lemma tier_objects_tiered:
  assumes "files_wf fs" "tier_objects sha cancelled rclone now cfg i obs (out, fs) = (r, fs')"
  shows "tiered sha cfg now obs fs fs' \<and> (is_ok r \<longrightarrow> TrimSpace (tc_ColdRoot cfg) \<noteq> [] \<longrightarrow>
    (\<forall>ob\<in>set obs. tier_eligible cfg now ob \<longrightarrow> cold_copy sha cfg fs' ob))"
  using assms
proof (induction obs arbitrary: i out fs)
  case Nil
  then show ?case by (auto simp: tiered_refl)
next
  case (Cons ob obs)
  show ?case
  proof (cases "\<not> cancelled i \<and> tier_eligible cfg now ob")
    case False
    then consider "cancelled i" | "\<not> cancelled i" "\<not> tier_eligible cfg now ob" by blast
    then show ?thesis
    proof cases
      case 1
      then show ?thesis using Cons.prems by (auto simp: tiered_refl is_ok_def)
    next
      case 2
      then show ?thesis using Cons.IH [OF Cons.prems(1)] Cons.prems(2) tiered_trans [OF tiered_refl [OF Cons.prems(1)]] by (auto simp: Let_def)
    qed
  next
    case True
    let ?out1 = "out\<lparr>tr_Scanned := tr_Scanned out + 1, tr_Eligible := tr_Eligible out + 1\<rparr>"
    obtain r1 fs1 where l: "tier_local sha now cfg ob (?out1, fs) = (r1, fs1)" by fastforce
    note t = tier_local_tiered [OF Cons.prems(1) _ l]
    have wf1: "files_wf fs1" using t(1) True by (simp add: tiered_def)
    consider e where "r = Inl e" "fs' = fs1" | out2 j where "r1 = Inr out2" "\<exists>out3. tier_objects sha cancelled rclone now cfg j obs (out3, fs1) = (r, fs')"
      using Cons.prems(2) True l by (auto simp: Let_def split: sum.splits if_splits option.splits)
    then show ?thesis
    proof cases
      case 1
      then show ?thesis using tiered_trans [OF t(1) tiered_refl [OF wf1]] True by (simp add: is_ok_def)
    next
      case 2
      then have ih: "tiered sha cfg now obs fs1 fs'" "is_ok r \<longrightarrow> TrimSpace (tc_ColdRoot cfg) \<noteq> [] \<longrightarrow>
          (\<forall>ob\<in>set obs. tier_eligible cfg now ob \<longrightarrow> cold_copy sha cfg fs' ob)"
        using Cons.IH [OF wf1] by blast+
      then show ?thesis using tiered_trans [OF t(1) ih(1)] cold_copy_tiered [OF t(2) ih(1)] True 2(1) by (auto simp: is_ok_def)
    qed
  qed
qed

text \<open>
  Tiering never changes or removes a file; what it adds are copies of eligible objects, at their place in the
  cold tier, whose contents hash to the digest; and when it succeeds every eligible object has such a copy.
\<close>

theorem tier_copies_verified:
  assumes "files_wf fs" "CopyTier sha cancelled rclone st cfg now fs = (r, fs')"
  shows "(\<forall>p c. read_file fs p = Some c \<longrightarrow> read_file fs' p = Some c) \<and>
    (\<forall>p c. read_file fs p = None \<longrightarrow> read_file fs' p = Some c \<longrightarrow> (\<exists>os ob. ListObjects st fs = Inr os \<and> ob \<in> set os \<and>
       tier_eligible cfg now ob \<and> p = cold_path cfg ob \<and> EqualFold (sha c) (oi_Digest ob))) \<and>
    (is_ok r \<longrightarrow> TrimSpace (tc_ColdRoot cfg) \<noteq> [] \<longrightarrow> (\<exists>os. ListObjects st fs = Inr os \<and>
       (\<forall>ob\<in>set os. tier_eligible cfg now ob \<longrightarrow> cold_copy sha cfg fs' ob)))"
proof (cases "ListObjects st fs")
  case (Inl e)
  then show ?thesis using assms(2) by (auto simp: CopyTier_def is_ok_def)
next
  case (Inr os)
  then show ?thesis
    using tier_objects_tiered [OF assms(1), of sha cancelled rclone now cfg 0 os _ r fs'] assms(2) unfolding CopyTier_def tiered_def by fastforce
qed

theorem tier_copies_verified_witness:
  "\<exists>r fs'. CopyTier sample_sha (\<lambda>_. False) (\<lambda>_ _. None) sample_cas \<lparr>tc_ColdRoot = ''/cold'', tc_MinAge = 0, tc_MinBytes = 0, tc_RcloneRemote = []\<rparr> 9 twin_files = (r, fs') \<and>
     read_file fs' ''/b/x'' = Some ''hello''"
proof -
  obtain r fs' where run: "CopyTier sample_sha (\<lambda>_. False) (\<lambda>_ _. None) sample_cas
      \<lparr>tc_ColdRoot = ''/cold'', tc_MinAge = 0, tc_MinBytes = 0, tc_RcloneRemote = []\<rparr> 9 twin_files = (r, fs')" by fastforce
  have "files_wf twin_files" "read_file twin_files ''/b/x'' = Some ''hello''"
    by (simp_all add: files_wf_def read_file_def file_inode_def twin_files_def)
  with tier_copies_verified [OF _ run] run show ?thesis by blast
qed

end
