(* ===== verification/Generations.thy ===== *)
theory Generations
  imports Files Fmt
begin

text \<open>
  The generation store (\<^verbatim>\<open>internal/generation/generation.go\<close>): immutable snapshots of a repository's bundle or
  mirror and its LFS archive, in one directory each with a signed description; and the archive of a
  whole generation that replication sends (\<^verbatim>\<open>internal/replication/archive.go\<close>).

  The state holds files and the directories that were made.  The libraries are the record \<open>gen_lib\<close>: JSON coding of the
  description, packing and unpacking of compressed tar files (a stream is the list of what \<^verbatim>\<open>Next\<close> returns), key
  files and signatures, and \<^verbatim>\<open>git clone\<close> as a function of source, target and state.
  Directory entries of an archive carry no data and are made by the files below them.
\<close>

record repo_result =
  rr_FullName :: string
  rr_SourceVisibility :: string
  rr_MirrorPath :: string
  rr_BundlePath :: string
  rr_BundleSHA256 :: string
  rr_UpdatedAt :: time
  rr_DurationMS :: int
  rr_Verified :: bool
  rr_LFSFetched :: bool
  rr_LFSArchivePath :: string
  rr_LFSArchiveSHA256 :: string
  rr_WikiBackedUp :: bool
  rr_MetadataBackedUp :: bool
  rr_ReleaseAssetsBackedUp :: int
  rr_DiscussionsBackedUp :: bool
  rr_PackagesBackedUp :: int
  rr_PackagePayloadsBackedUp :: int
  rr_OCIArtifactsBackedUp :: int
  rr_ActionArtifactsBackedUp :: int
  rr_Error :: string
  rr_Warnings :: "string list"

record gen_meta =
  gm_Version :: int
  gm_ID :: string
  gm_Repository :: string
  gm_CreatedAt :: time
  gm_SourceUpdatedAt :: time
  gm_Verified :: bool
  gm_BundlePath :: string
  gm_BundleSHA256 :: string
  gm_LFSPath :: string
  gm_LFSSHA256 :: string
  gm_MirrorArchive :: string
  gm_MirrorSHA256 :: string
  gm_SourceMirrorPath :: string
  gm_SignatureType :: string

datatype entry_type = TarDir | TarReg | TarOther

record archive_entry =
  ae_Name :: string
  ae_Type :: entry_type
  ae_Data :: string

record gen_state =
  gs_files :: files
  gs_dirs :: "string list"

record gen_lib =
  lb_marshal :: "gen_meta \<Rightarrow> string"
  lb_unmarshal :: "string \<Rightarrow> gen_meta result"
  lb_pack :: "archive_entry list \<Rightarrow> string"
  lb_unpack :: "string \<Rightarrow> archive_entry result list"
  lb_ensure_key :: "string \<Rightarrow> go_error option"
  lb_sign :: "string \<Rightarrow> string \<Rightarrow> string"
  lb_verify :: "string \<Rightarrow> string \<Rightarrow> string \<Rightarrow> go_error option"
  lb_clone :: "string \<Rightarrow> string \<Rightarrow> gen_state \<Rightarrow> gen_state result"

section \<open>Directories\<close>

definition mkdir_all :: "string \<Rightarrow> gen_state \<Rightarrow> gen_state" where
  "mkdir_all dir s = s\<lparr>gs_dirs := List.insert dir (gs_dirs s)\<rparr>"

definition first_comp :: "string \<Rightarrow> string \<Rightarrow> string" where
  "first_comp base p = takeWhile (\<lambda>c. c \<noteq> CHR ''/'') (drop (Suc (length base)) p)"

text \<open>The names of the directories right below a directory, in order.\<close>

definition subdirs :: "string \<Rightarrow> gen_state \<Rightarrow> string list" where
  "subdirs base s = sort_strings (remdups (map (first_comp base) (filter (below base) (gs_dirs s)
     @ filter (\<lambda>p. CHR ''/'' \<in> set (drop (Suc (length base)) p)) (walk base (gs_files s)))))"

definition exists_path :: "string \<Rightarrow> gen_state \<Rightarrow> bool" where
  "exists_path p s = (read_file (gs_files s) p \<noteq> None \<or> p \<in> set (gs_dirs s) \<or> list_ex (below p) (gs_dirs s) \<or> walk p (gs_files s) \<noteq> [])"

definition in_tree :: "string \<Rightarrow> string \<Rightarrow> bool" where
  "in_tree dir p = (p = dir \<or> below dir p)"

definition remove_all :: "string \<Rightarrow> gen_state \<Rightarrow> gen_state" where
  "remove_all dir s = s\<lparr>gs_files := (gs_files s)\<lparr>fs_names := filter (\<lambda>(p, i). \<not> in_tree dir p) (fs_names (gs_files s))\<rparr>,
     gs_dirs := filter (\<lambda>p. \<not> in_tree dir p) (gs_dirs s)\<rparr>"

definition put_state :: "time \<Rightarrow> string \<Rightarrow> string \<Rightarrow> gen_state \<Rightarrow> gen_state" where
  "put_state now p c s = s\<lparr>gs_files := write_file now p c (gs_files s)\<rparr>"

section \<open>Capture\<close>

definition Cut :: "string \<Rightarrow> string \<times> string \<times> bool" where
  "Cut s = (let a = takeWhile (\<lambda>c. c \<noteq> CHR ''/'') s; r = dropWhile (\<lambda>c. c \<noteq> CHR ''/'') s
     in (a, tl r, r \<noteq> []))"

definition resolve :: "string \<Rightarrow> string \<Rightarrow> string" where
  "resolve dir p = (if is_abs p then p else path_Join [dir, p])"

definition fileSHA256 :: "(string \<Rightarrow> string) \<Rightarrow> string \<Rightarrow> gen_state \<Rightarrow> string result" where
  "fileSHA256 sha p s = (case read_file (gs_files s) p of None \<Rightarrow> Inl (GoErr ''file does not exist'') | Some c \<Rightarrow> Inr (sha c))"

definition linkOrCopy :: "time \<Rightarrow> (string \<Rightarrow> bool) \<Rightarrow> string \<Rightarrow> string \<Rightarrow> gen_state \<Rightarrow> go_error option \<times> gen_state" where
  "linkOrCopy now link_ok src dst s = (case read_file (gs_files s) src of
     None \<Rightarrow> (Some (GoErr ''file does not exist''), s)
   | Some c \<Rightarrow>
       if link_ok src \<and> read_file (gs_files s) dst = None then (None, s\<lparr>gs_files := link_over src dst (gs_files s)\<rparr>)
       else (None, put_state now dst c s))"

definition archive_names :: "string \<Rightarrow> gen_state \<Rightarrow> archive_entry list" where
  "archive_names src s = map (\<lambda>p. \<lparr>ae_Name = path_Join [''mirror.git'', drop (Suc (length src)) p], ae_Type = TarReg, ae_Data = the (read_file (gs_files s) p)\<rparr>)
     (walk src (gs_files s))"

definition archiveDir :: "gen_lib \<Rightarrow> time \<Rightarrow> string \<Rightarrow> string \<Rightarrow> gen_state \<Rightarrow> go_error option \<times> gen_state" where
  "archiveDir L now src dst s =
     (if \<not> exists_path src s then (Some (GoErr ''file does not exist''), put_state now dst (lb_pack L []) s)
      else (None, put_state now dst (lb_pack L (archive_names src s)) s))"

text \<open>A payload put into the generation's directory, with its checksum.\<close>

definition capture_file ::
  "(string \<Rightarrow> string) \<Rightarrow> time \<Rightarrow> (string \<Rightarrow> bool) \<Rightarrow> string \<Rightarrow> string \<Rightarrow> string \<Rightarrow> string \<Rightarrow> gen_state \<Rightarrow> string result \<times> gen_state" where
  "capture_file sha now link_ok src dst want changed s =
     (case linkOrCopy now link_ok src dst s of
        (Some e, s1) \<Rightarrow> (Inl e, s1)
      | (None, s1) \<Rightarrow>
          (case fileSHA256 sha dst s1 of
             Inl e \<Rightarrow> (Inl e, s1)
           | Inr got \<Rightarrow> if want \<noteq> [] \<and> got \<noteq> want then (Inl (GoErr changed), s1) else (Inr got, s1)))"

definition capture_source ::
  "gen_lib \<Rightarrow> (string \<Rightarrow> string) \<Rightarrow> time \<Rightarrow> (string \<Rightarrow> bool) \<Rightarrow> string \<Rightarrow> string \<Rightarrow> repo_result \<Rightarrow> gen_meta \<Rightarrow> gen_state \<Rightarrow> gen_meta result \<times> gen_state" where
  "capture_source L sha now link_ok backupRoot dir r m s =
     (if rr_BundlePath r \<noteq> [] then
        (case capture_file sha now link_ok (resolve backupRoot (rr_BundlePath r)) (path_Join [dir, ''repo.bundle'']) (rr_BundleSHA256 r)
                ''generation bundle checksum changed during capture'' s of
           (Inl e, s1) \<Rightarrow> (Inl e, s1)
         | (Inr got, s1) \<Rightarrow> (Inr (m\<lparr>gm_BundlePath := ''repo.bundle'', gm_BundleSHA256 := got\<rparr>), s1))
      else
        (case archiveDir L now (resolve backupRoot (rr_MirrorPath r)) (path_Join [dir, ''mirror.tar.gz'']) s of
           (Some e, s1) \<Rightarrow> (Inl e, s1)
         | (None, s1) \<Rightarrow>
             (case fileSHA256 sha (path_Join [dir, ''mirror.tar.gz'']) s1 of
                Inl e \<Rightarrow> (Inl e, s1)
              | Inr got \<Rightarrow> (Inr (m\<lparr>gm_MirrorArchive := ''mirror.tar.gz'', gm_MirrorSHA256 := got\<rparr>), s1))))"

definition capture_lfs ::
  "(string \<Rightarrow> string) \<Rightarrow> time \<Rightarrow> (string \<Rightarrow> bool) \<Rightarrow> string \<Rightarrow> string \<Rightarrow> repo_result \<Rightarrow> gen_meta \<Rightarrow> gen_state \<Rightarrow> gen_meta result \<times> gen_state" where
  "capture_lfs sha now link_ok backupRoot dir r m s =
     (if rr_LFSArchivePath r = [] then (Inr m, s)
      else
        (case capture_file sha now link_ok (resolve backupRoot (rr_LFSArchivePath r)) (path_Join [dir, ''lfs.tar.gz'']) (rr_LFSArchiveSHA256 r)
                ''generation LFS checksum changed during capture'' s of
           (Inl e, s1) \<Rightarrow> (Inl e, s1)
         | (Inr got, s1) \<Rightarrow> (Inr (m\<lparr>gm_LFSPath := ''lfs.tar.gz'', gm_LFSSHA256 := got\<rparr>), s1)))"

text \<open>The oldest directories go until \<open>keep\<close> are left; the names are in order.\<close>

fun prune_names :: "string \<Rightarrow> int \<Rightarrow> string list \<Rightarrow> gen_state \<Rightarrow> gen_state" where
  "prune_names base keep [] s = s"
| "prune_names base keep (n # ns) s =
     (if int (length (n # ns)) > keep then prune_names base keep ns (remove_all (path_Join [base, n]) s) else s)"

definition prune :: "string \<Rightarrow> int \<Rightarrow> gen_state \<Rightarrow> gen_state" where
  "prune base keep s = prune_names base keep (subdirs base s) s"

definition new_meta :: "time \<Rightarrow> repo_result \<Rightarrow> gen_meta" where
  "new_meta now r = \<lparr>gm_Version = 1, gm_ID = stamp_nanos now, gm_Repository = rr_FullName r, gm_CreatedAt = now, gm_SourceUpdatedAt = rr_UpdatedAt r,
     gm_Verified = rr_Verified r, gm_BundlePath = [], gm_BundleSHA256 = [], gm_LFSPath = [], gm_LFSSHA256 = [], gm_MirrorArchive = [], gm_MirrorSHA256 = [],
     gm_SourceMirrorPath = rr_MirrorPath r, gm_SignatureType = []\<rparr>"

definition Capture ::
  "gen_lib \<Rightarrow> (string \<Rightarrow> string) \<Rightarrow> time \<Rightarrow> (string \<Rightarrow> bool) \<Rightarrow> string \<Rightarrow> string \<Rightarrow> repo_result \<Rightarrow> int \<Rightarrow> gen_state \<Rightarrow> gen_meta result \<times> gen_state" where
  "Capture L sha now link_ok backupRoot generationRoot r keep s =
     (case Cut (rr_FullName r) of (owner, repo, found) \<Rightarrow>
        if TrimSpace (rr_FullName r) = [] then (Inl (GoErr ''generation repository is empty''), s)
        else if \<not> found \<or> owner = [] \<or> repo = [] then (Inl (GoErr (''invalid repository '' @ rr_FullName r)), s)
        else
          let dir = path_Join [generationRoot, owner, repo, stamp_nanos now]; s0 = mkdir_all dir s in
          (case capture_source L sha now link_ok backupRoot dir r (new_meta now r) s0 of
             (Inl e, s1) \<Rightarrow> (Inl e, s1)
           | (Inr m1, s1) \<Rightarrow>
               (case capture_lfs sha now link_ok backupRoot dir r m1 s1 of
                  (Inl e, s2) \<Rightarrow> (Inl e, s2)
                | (Inr m, s2) \<Rightarrow>
                    let s3 = put_state now (path_Join [dir, ''generation.json'']) (lb_marshal L m) s2
                    in (Inr m, if keep > 0 then prune (path_Join [generationRoot, owner, repo]) keep s3 else s3))))"

section \<open>Looking generations up\<close>

definition Read :: "gen_lib \<Rightarrow> string \<Rightarrow> gen_state \<Rightarrow> gen_meta result" where
  "Read L dir s = (case read_file (gs_files s) (path_Join [dir, ''generation.json'']) of
     None \<Rightarrow> Inl (GoErr ''file does not exist'') | Some b \<Rightarrow> lb_unmarshal L b)"

fun read_metas :: "gen_meta result list \<Rightarrow> gen_meta list" where
  "read_metas [] = []"
| "read_metas (Inl e # rs) = read_metas rs"
| "read_metas (Inr m # rs) = m # read_metas rs"

definition gen_List :: "gen_lib \<Rightarrow> string \<Rightarrow> string \<Rightarrow> gen_state \<Rightarrow> gen_meta list result" where
  "gen_List L dir fullName s =
     (case Cut fullName of (owner, repo, found) \<Rightarrow>
        if \<not> found then Inl (GoErr (''invalid repository '' @ fullName))
        else let base = path_Join [dir, owner, repo]
             in Inr (sort_less (\<lambda>a b. gm_CreatedAt a > gm_CreatedAt b)
                  (read_metas (map (\<lambda>n. Read L (path_Join [base, n]) s) (subdirs base s)))))"

definition Find :: "gen_lib \<Rightarrow> string \<Rightarrow> string \<Rightarrow> string \<Rightarrow> gen_state \<Rightarrow> (gen_meta \<times> string) result" where
  "Find L root_dir fullName id0 s =
     (case Cut fullName of (owner, repo, found) \<Rightarrow>
        if \<not> found then Inl (GoErr (''invalid repository '' @ fullName))
        else
          (case (if id0 = [] \<or> id0 = ''latest''
                 then (case gen_List L root_dir fullName s of Inl e \<Rightarrow> Inl e | Inr [] \<Rightarrow> Inl (GoErr ''file does not exist'') | Inr (m # ms) \<Rightarrow> Inr (gm_ID m))
                 else Inr id0) of
             Inl e \<Rightarrow> Inl e
           | Inr i \<Rightarrow>
               let dir = path_Join [root_dir, owner, repo, i]
               in (case Read L dir s of Inl e \<Rightarrow> Inl e | Inr m \<Rightarrow> Inr (m, dir))))"

section \<open>Signatures\<close>

definition CaptureSigned ::
  "gen_lib \<Rightarrow> (string \<Rightarrow> string) \<Rightarrow> time \<Rightarrow> (string \<Rightarrow> bool) \<Rightarrow> string \<Rightarrow> string \<Rightarrow> repo_result \<Rightarrow> int \<Rightarrow> string \<Rightarrow> gen_state \<Rightarrow> gen_meta result \<times> gen_state" where
  "CaptureSigned L sha now link_ok backupRoot generationRoot r keep keyPath s =
     (case Capture L sha now link_ok backupRoot generationRoot r keep s of
        (Inl e, s1) \<Rightarrow> (Inl e, s1)
      | (Inr m0, s1) \<Rightarrow>
          (case Find L generationRoot (rr_FullName r) (gm_ID m0) s1 of
             Inl e \<Rightarrow> (Inl e, s1)
           | Inr (_, dir) \<Rightarrow>
               let m = m0\<lparr>gm_SignatureType := ''ed25519-detached-v1''\<rparr>; b = lb_marshal L m; metaPath = path_Join [dir, ''generation.json''];
                   s2 = put_state now metaPath b s1
               in (case lb_ensure_key L keyPath of
                     Some e \<Rightarrow> (Inl e, s2)
                   | None \<Rightarrow> (Inr m, put_state now (metaPath @ ''.sig'') (lb_sign L keyPath b @ [CHR 0x0A]) s2))))"

definition VerifySignature :: "gen_lib \<Rightarrow> string \<Rightarrow> string \<Rightarrow> gen_state \<Rightarrow> go_error option" where
  "VerifySignature L dir trusted s =
     (case read_file (gs_files s) (path_Join [dir, ''generation.json'']) of
        None \<Rightarrow> Some (GoErr ''file does not exist'')
      | Some data \<Rightarrow>
          (case read_file (gs_files s) (path_Join [dir, ''generation.json.sig'']) of
             None \<Rightarrow> Some (GoErr ''file does not exist'')
           | Some sig \<Rightarrow> lb_verify L trusted data (TrimSpace sig)))"

section \<open>Restoring\<close>

definition verifyFile :: "(string \<Rightarrow> string) \<Rightarrow> string \<Rightarrow> string \<Rightarrow> gen_state \<Rightarrow> go_error option" where
  "verifyFile sha path want s = (case fileSHA256 sha path s of
     Inl e \<Rightarrow> Some e
   | Inr got \<Rightarrow> if want \<noteq> [] \<and> got \<noteq> want then Some (GoErr (''checksum mismatch for '' @ path)) else None)"

fun extract_entries :: "time \<Rightarrow> string \<Rightarrow> archive_entry result list \<Rightarrow> gen_state \<Rightarrow> go_error option \<times> gen_state" where
  "extract_entries now dst [] s = (None, s)"
| "extract_entries now dst (Inl e # hs) s = (Some e, s)"
| "extract_entries now dst (Inr h # hs) s =
     (let name = path_Clean (ae_Name h); out = path_Join [dst, name] in
      if name = ''.'' \<or> is_abs name \<or> HasPrefix name ''../'' then (Some (GoErr ''unsafe archive path''), s)
      else if \<not> HasPrefix (path_Clean out) (path_Clean dst @ ''/'') then (Some (GoErr ''archive path escaped target''), s)
      else extract_entries now dst hs
             (case ae_Type h of TarDir \<Rightarrow> mkdir_all out s | TarReg \<Rightarrow> put_state now out (ae_Data h) s | TarOther \<Rightarrow> s))"

definition extractTarGz :: "gen_lib \<Rightarrow> time \<Rightarrow> string \<Rightarrow> string \<Rightarrow> gen_state \<Rightarrow> go_error option \<times> gen_state" where
  "extractTarGz L now path dst s = (case read_file (gs_files s) path of
     None \<Rightarrow> (Some (GoErr ''file does not exist''), s)
   | Some c \<Rightarrow> extract_entries now dst (lb_unpack L c) s)"

text \<open>The working copy comes from the bundle or from the mirror unpacked in the temporary directory \<open>tmp\<close>.\<close>

definition restore_source :: "gen_lib \<Rightarrow> (string \<Rightarrow> string) \<Rightarrow> time \<Rightarrow> string \<Rightarrow> string \<Rightarrow> gen_meta \<Rightarrow> string \<Rightarrow> gen_state \<Rightarrow> go_error option \<times> gen_state" where
  "restore_source L sha now tmp dir m target s =
     (if gm_BundlePath m \<noteq> [] then
        let bundle = path_Join [dir, gm_BundlePath m] in
        (case verifyFile sha bundle (gm_BundleSHA256 m) s of
           Some e \<Rightarrow> (Some e, s)
         | None \<Rightarrow> (case lb_clone L bundle target s of Inl e \<Rightarrow> (Some e, s) | Inr s1 \<Rightarrow> (None, s1)))
      else if gm_MirrorArchive m \<noteq> [] then
        let archive = path_Join [dir, gm_MirrorArchive m] in
        (case verifyFile sha archive (gm_MirrorSHA256 m) s of
           Some e \<Rightarrow> (Some e, s)
         | None \<Rightarrow>
             (case extractTarGz L now archive tmp s of
                (Some e, s1) \<Rightarrow> (Some e, remove_all tmp s1)
              | (None, s1) \<Rightarrow>
                  (case lb_clone L (path_Join [tmp, ''mirror.git'']) target s1 of
                     Inl e \<Rightarrow> (Some e, remove_all tmp s1) | Inr s2 \<Rightarrow> (None, remove_all tmp s2))))
      else (Some (GoErr ''generation has neither bundle nor mirror archive''), s))"

definition restore_lfs :: "gen_lib \<Rightarrow> (string \<Rightarrow> string) \<Rightarrow> time \<Rightarrow> string \<Rightarrow> gen_meta \<Rightarrow> string \<Rightarrow> gen_state \<Rightarrow> go_error option \<times> gen_state" where
  "restore_lfs L sha now dir m target s =
     (if gm_LFSPath m = [] then (None, s)
      else
        let archive = path_Join [dir, gm_LFSPath m]; gitDir = path_Join [target, ''.git''] in
        (case verifyFile sha archive (gm_LFSSHA256 m) s of
           Some e \<Rightarrow> (Some e, s)
         | None \<Rightarrow> if exists_path gitDir s \<and> read_file (gs_files s) gitDir = None
             then extractTarGz L now archive (path_Join [gitDir, ''lfs'']) s else (None, s)))"

definition Restore :: "gen_lib \<Rightarrow> (string \<Rightarrow> string) \<Rightarrow> time \<Rightarrow> string \<Rightarrow> string \<Rightarrow> string \<Rightarrow> string \<Rightarrow> string \<Rightarrow> gen_state \<Rightarrow> go_error option \<times> gen_state" where
  "Restore L sha now tmp root_dir fullName i target0 s =
     (case Find L root_dir fullName i s of
        Inl e \<Rightarrow> (Some e, s)
      | Inr (m, dir) \<Rightarrow>
          let target = (if target0 = [] then fst (snd (Cut fullName)) else target0) in
          if exists_path target s then (Some (GoErr (''restore target already exists: '' @ target)), s)
          else (case restore_source L sha now tmp dir m target s of
              (Some e, s1) \<Rightarrow> (Some e, s1)
            | (None, s1) \<Rightarrow> restore_lfs L sha now dir m target s1))"

definition RestoreVerified ::
  "gen_lib \<Rightarrow> (string \<Rightarrow> string) \<Rightarrow> time \<Rightarrow> string \<Rightarrow> string \<Rightarrow> string \<Rightarrow> string \<Rightarrow> string \<Rightarrow> string \<Rightarrow> gen_state \<Rightarrow> go_error option \<times> gen_state" where
  "RestoreVerified L sha now tmp root_dir fullName i target trusted s =
     (case Find L root_dir fullName i s of
        Inl e \<Rightarrow> (Some e, s)
      | Inr (m, dir) \<Rightarrow>
          (case VerifySignature L dir trusted s of
             Some e \<Rightarrow> (Some (prefix_error ''generation signature: '' e), s) | None \<Rightarrow> Restore L sha now tmp root_dir fullName i target s))"

definition verify_payload :: "(string \<Rightarrow> string) \<Rightarrow> string \<Rightarrow> string \<Rightarrow> string \<Rightarrow> gen_state \<Rightarrow> go_error option" where
  "verify_payload sha dir name want s = (if name = [] then None else verifyFile sha (path_Join [dir, name]) want s)"

definition VerifyDir :: "gen_lib \<Rightarrow> (string \<Rightarrow> string) \<Rightarrow> string \<Rightarrow> string \<Rightarrow> gen_state \<Rightarrow> gen_meta result" where
  "VerifyDir L sha dir trusted s =
     (case Read L dir s of
        Inl e \<Rightarrow> Inl e
      | Inr m \<Rightarrow>
          (case (if trusted = [] then None else VerifySignature L dir trusted s) of
             Some e \<Rightarrow> Inl (prefix_error ''generation signature: '' e)
           | None \<Rightarrow>
               (case verify_payload sha dir (gm_BundlePath m) (gm_BundleSHA256 m) s of
                  Some e \<Rightarrow> Inl e
                | None \<Rightarrow>
                    (case verify_payload sha dir (gm_MirrorArchive m) (gm_MirrorSHA256 m) s of
                       Some e \<Rightarrow> Inl e
                     | None \<Rightarrow> (case verify_payload sha dir (gm_LFSPath m) (gm_LFSSHA256 m) s of Some e \<Rightarrow> Inl e | None \<Rightarrow> Inr m)))))"

section \<open>Archives of whole generations\<close>

definition generation_entries :: "string \<Rightarrow> gen_state \<Rightarrow> archive_entry list" where
  "generation_entries src s = map (\<lambda>p. \<lparr>ae_Name = drop (Suc (length src)) p, ae_Type = TarReg, ae_Data = the (read_file (gs_files s) p)\<rparr>) (walk src (gs_files s))"

definition ArchiveGeneration :: "gen_lib \<Rightarrow> string \<Rightarrow> gen_state \<Rightarrow> string result" where
  "ArchiveGeneration L src s = (if \<not> exists_path src s then Inl (GoErr ''file does not exist'') else Inr (lb_pack L (generation_entries src s)))"

fun replica_entries :: "time \<Rightarrow> string \<Rightarrow> string \<Rightarrow> archive_entry result list \<Rightarrow> gen_state \<Rightarrow> go_error option \<times> gen_state" where
  "replica_entries now cwd dir [] s = (None, s)"
| "replica_entries now cwd dir (Inl e # hs) s = (Some e, s)"
| "replica_entries now cwd dir (Inr h # hs) s =
     (let clean = path_Clean (ae_Name h); path = path_Join [dir, clean]; full = path_Abs cwd path in
      if clean = ''.'' \<or> is_abs clean \<or> clean = ''..'' \<or> HasPrefix clean ''../'' then (Some (GoErr (''unsafe replication archive path '' @ ae_Name h)), s)
      else if full \<noteq> dir \<and> \<not> below dir full then (Some (GoErr (''replication archive path escapes destination: '' @ ae_Name h)), s)
      else (case ae_Type h of
          TarDir \<Rightarrow> replica_entries now cwd dir hs (mkdir_all path s)
        | TarReg \<Rightarrow> replica_entries now cwd dir hs (put_state now path (ae_Data h) s)
        | TarOther \<Rightarrow> (Some (GoErr ''unsupported replication archive entry type''), s)))"

definition ExtractGeneration :: "gen_lib \<Rightarrow> time \<Rightarrow> string \<Rightarrow> string \<Rightarrow> string \<Rightarrow> gen_state \<Rightarrow> go_error option \<times> gen_state" where
  "ExtractGeneration L now cwd c dstDir s = replica_entries now cwd (path_Abs cwd dstDir) (lb_unpack L c) s"

end
