(* ===== verification/Generation_Properties.thy ===== *)
theory Generation_Properties
  imports Generations
begin

text \<open>
  Archives unpack below their target only; a verified restore hands on signed contents only; a captured
  generation verifies and holds the bytes of the backup; what pruning keeps, and what failed captures cost.
\<close>

section \<open>Unpacking\<close>

lemma same_file_write:
  assumes "files_wf fs" "same_file (write_file now out c fs) p q"
  shows "p = out \<or> same_file fs p q"
proof (cases "read_file fs out")
  case None
  show ?thesis
  proof (cases "p = out \<or> q = out")
    case True
    have "gget (fs_names fs) p \<noteq> Some (fs_next fs)" using assms(1) by (auto simp: files_wf_def)
    then show ?thesis using assms(2) None True by (auto simp: same_file_def write_file_def put_file_def split: if_splits)
  next
    case False
    then show ?thesis using assms(2) None by (simp add: same_file_def write_file_def put_file_def split: if_splits) metis
  qed
next
  case (Some old)
  have "fs_names (overwrite_file now out c fs) = fs_names fs" by (simp add: overwrite_file_def split: option.split)
  then have "same_file (overwrite_file now out c fs) p q = same_file fs p q" by (simp only: same_file_def)
  then show ?thesis using assms(2) Some by (simp add: write_file_def)
qed

text \<open>Only files below a directory change, or other names of such files.\<close>

definition confined :: "string \<Rightarrow> files \<Rightarrow> files \<Rightarrow> bool" where
  "confined dir fs fs' \<longleftrightarrow> files_wf fs' \<and> (\<forall>p. below dir p \<or> (\<exists>q. below dir q \<and> same_file fs p q) \<or> read_file fs' p = read_file fs p) \<and>
     (\<forall>p q. same_file fs' p q \<longrightarrow> below dir p \<or> same_file fs p q)"

lemma confined_refl: "files_wf fs \<Longrightarrow> confined dir fs fs"
  by (simp add: confined_def)

lemma confined_trans: "confined dir a b \<Longrightarrow> confined dir b c \<Longrightarrow> confined dir a c"
  unfolding confined_def by metis

lemma confined_write: "files_wf fs \<Longrightarrow> below dir out \<Longrightarrow> confined dir fs (write_file now out c fs)"
  using same_file_write [of fs now out c] unfolding confined_def by (auto simp: read_write_file)

lemma extract_entries_confined:
  assumes "extract_entries now dst hs s = (e, s')" "files_wf (gs_files s)" "dst \<noteq> []"
  shows "confined (path_Clean dst) (gs_files s) (gs_files s')"
  using assms(1,2)
proof (induction hs arbitrary: s)
  case Nil
  then show ?case by (simp add: confined_refl)
next
  case (Cons x hs)
  show ?case
  proof (cases x)
    case (Inl err)
    then show ?thesis using Cons.prems by (simp add: confined_refl)
  next
    case (Inr h)
    let ?out = "path_Join [dst, path_Clean (ae_Name h)]"
    let ?s1 = "case ae_Type h of TarDir \<Rightarrow> mkdir_all ?out s | TarReg \<Rightarrow> put_state now ?out (ae_Data h) s | TarOther \<Rightarrow> s"
    have clean: "path_Clean ?out = ?out" using path_Clean_Join [of "[dst, path_Clean (ae_Name h)]"] assms(3) by simp
    consider "s' = s" | "below (path_Clean dst) ?out" "extract_entries now dst hs ?s1 = (e, s')"
      using Cons.prems(1) Inr clean by (auto simp: Let_def below_def split: if_splits)
    then show ?thesis
    proof cases
      case 1
      then show ?thesis using Cons.prems(2) by (simp add: confined_refl)
    next
      case 2
      have step: "confined (path_Clean dst) (gs_files s) (gs_files ?s1)"
        using confined_write [OF Cons.prems(2) 2(1)] confined_refl [OF Cons.prems(2)]
        by (simp add: mkdir_all_def put_state_def split: entry_type.split)
      then have "files_wf (gs_files ?s1)" by (simp add: confined_def)
      from Cons.IH [OF 2(2) this] show ?thesis using confined_trans step by blast
    qed
  qed
qed

text \<open>
  C33. Unpacking an archive, whatever entries it holds and whether it succeeds or not, changes no file outside
  the target directory, unless that file is another name of a file inside it.
\<close>

theorem extract_confined:
  assumes "extractTarGz L now path dst s = (e, s')" "files_wf (gs_files s)" "dst \<noteq> []"
    and "\<not> below (path_Clean dst) p" "\<not> (\<exists>q. below (path_Clean dst) q \<and> same_file (gs_files s) p q)"
  shows "read_file (gs_files s') p = read_file (gs_files s) p"
proof -
  have "confined (path_Clean dst) (gs_files s) (gs_files s')"
    using assms(1) extract_entries_confined [OF _ assms(2,3)] confined_refl [OF assms(2)]
    by (auto simp: extractTarGz_def split: option.splits)
  then show ?thesis using assms(4,5) unfolding confined_def by blast
qed

section \<open>Restoring\<close>

lemma verifyFile_ok:
  "verifyFile sha p want s = None \<Longrightarrow> \<exists>c. read_file (gs_files s) p = Some c \<and> (want \<noteq> [] \<longrightarrow> sha c = want)"
  by (auto simp: verifyFile_def fileSHA256_def split: option.splits if_splits)

text \<open>The payload file \<open>name\<close> of a generation is there, with the checksum its description gives.\<close>

definition payload_checked :: "(string \<Rightarrow> string) \<Rightarrow> string \<Rightarrow> string \<Rightarrow> string \<Rightarrow> gen_state \<Rightarrow> bool" where
  "payload_checked sha dir name want s = (case read_file (gs_files s) (path_Join [dir, name]) of
     None \<Rightarrow> False | Some c \<Rightarrow> want \<noteq> [] \<longrightarrow> sha c = want)"

lemma verifyFile_checked: "verifyFile sha (path_Join [dir, name]) want s = None \<Longrightarrow> payload_checked sha dir name want s"
  by (auto dest!: verifyFile_ok simp: payload_checked_def)

lemma restore_source_checked:
  assumes "restore_source L sha now tmp dir m target s = (None, s')"
  shows "(gm_BundlePath m \<noteq> [] \<and> payload_checked sha dir (gm_BundlePath m) (gm_BundleSHA256 m) s \<and> (\<exists>s1. lb_clone L (path_Join [dir, gm_BundlePath m]) target s = Inr s1)) \<or>
    (gm_BundlePath m = [] \<and> gm_MirrorArchive m \<noteq> [] \<and> payload_checked sha dir (gm_MirrorArchive m) (gm_MirrorSHA256 m) s \<and>
       (\<exists>s1 s2. extractTarGz L now (path_Join [dir, gm_MirrorArchive m]) tmp s = (None, s1) \<and> lb_clone L (path_Join [tmp, ''mirror.git'']) target s1 = Inr s2))"
  using assms verifyFile_checked
  by (auto simp: restore_source_def Let_def split: if_splits option.splits prod.splits sum.splits)

text \<open>
  C32. A verified restore that succeeds worked from a description that was signed with the trusted key: what
  \<^verbatim>\<open>git\<close> cloned is the bundle, or the contents of the mirror archive, whose checksum that description
  gives, and the target did not exist before.
\<close>

theorem restore_authentic:
  assumes "RestoreVerified L sha now tmp root_dir fullName i target trusted s = (None, s')"
    and "\<forall>data sig. lb_verify L trusted data sig = None \<longrightarrow> data \<in> signed"
  shows "\<exists>data m dir goal. data \<in> signed \<and> lb_unmarshal L data = Inr m \<and> read_file (gs_files s) (path_Join [dir, ''generation.json'']) = Some data \<and>
    goal = (if target = [] then fst (snd (Cut fullName)) else target) \<and> \<not> exists_path goal s \<and>
    ((gm_BundlePath m \<noteq> [] \<and> payload_checked sha dir (gm_BundlePath m) (gm_BundleSHA256 m) s \<and> (\<exists>s1. lb_clone L (path_Join [dir, gm_BundlePath m]) goal s = Inr s1)) \<or>
     (gm_BundlePath m = [] \<and> gm_MirrorArchive m \<noteq> [] \<and> payload_checked sha dir (gm_MirrorArchive m) (gm_MirrorSHA256 m) s \<and>
       (\<exists>s1 s2. extractTarGz L now (path_Join [dir, gm_MirrorArchive m]) tmp s = (None, s1) \<and> lb_clone L (path_Join [tmp, ''mirror.git'']) goal s1 = Inr s2)))"
proof -
  obtain m dir where f: "Find L root_dir fullName i s = Inr (m, dir)" "VerifySignature L dir trusted s = None"
      "Restore L sha now tmp root_dir fullName i target s = (None, s')"
    using assms(1) by (auto simp: RestoreVerified_def split: sum.splits option.splits)
  let ?goal = "if target = [] then fst (snd (Cut fullName)) else target"
  obtain s1 where r: "\<not> exists_path ?goal s" "restore_source L sha now tmp dir m ?goal s = (None, s1)"
    using f(1,3) by (auto simp: Restore_def Let_def split: if_splits prod.splits option.splits)
  obtain data where d: "read_file (gs_files s) (path_Join [dir, ''generation.json'']) = Some data" "data \<in> signed"
    using f(2) assms(2) by (auto simp: VerifySignature_def split: option.splits)
  have "Read L dir s = Inr m" using f(1) by (auto simp: Find_def Let_def split: sum.splits prod.splits if_splits)
  then have "lb_unmarshal L data = Inr m" using d(1) by (simp add: Read_def)
  then show ?thesis using d r(1) restore_source_checked [OF r(2)] by blast
qed

section \<open>Names\<close>

lemma stamp_plain: "plain_name (stamp_nanos t)"
proof -
  have "CHR ''/'' \<notin> set (stamp_nanos t)"
    using slash_not_digit by (simp add: stamp_nanos_def compact_date_def Let_def split: prod.split)
  moreover have "CHR ''T'' \<in> set (stamp_nanos t)" by (cases "civil_date t") (simp add: stamp_nanos_def compact_date_def Let_def)
  ultimately show ?thesis by (auto simp: plain_name_def)
qed

lemma stamp_not_latest: "stamp_nanos t \<noteq> ''latest''" "stamp_nanos t \<noteq> []"
proof -
  have "last (stamp_nanos t) = CHR ''Z''" by (simp add: stamp_nanos_def)
  then show "stamp_nanos t \<noteq> ''latest''" "stamp_nanos t \<noteq> []" using stamp_plain by (auto simp: plain_name_def)
qed

lemma Cut_names: "CHR ''/'' \<notin> set owner \<Longrightarrow> Cut (owner @ CHR ''/'' # repo) = (owner, repo, True)"
  by (simp add: Cut_def takeWhile_append dropWhile_append Let_def)

lemma TrimSpace_slash: "CHR ''/'' \<in> set s \<Longrightarrow> TrimSpace s \<noteq> []"
proof
  assume "CHR ''/'' \<in> set s" "TrimSpace s = []"
  then have "\<forall>x\<in>set (rev (dropWhile is_space s)). is_space x" unfolding TrimSpace_def by simp
  then have "dropWhile is_space s = []" using hd_dropWhile [of is_space s] by (metis hd_in_set set_rev)
  then have "is_space (CHR ''/'')" using \<open>CHR ''/'' \<in> set s\<close> by simp
  then show False by (simp add: is_space_def)
qed

section \<open>Pruning\<close>

lemma below_child: "below dir (dir @ CHR ''/'' # n)"
  by (simp add: below_def HasPrefix_iff)

lemma in_tree_child:
  assumes "CHR ''/'' \<notin> set a" "CHR ''/'' \<notin> set b" "in_tree (base @ CHR ''/'' # a) p" "in_tree (base @ CHR ''/'' # b) p"
  shows "a = b"
proof -
  have first: "takeWhile (\<lambda>c. c \<noteq> CHR ''/'') (drop (Suc (length base)) p) = n" if "CHR ''/'' \<notin> set n" "in_tree (base @ CHR ''/'' # n) p" for n
    using that by (auto simp: in_tree_def below_def HasPrefix_iff takeWhile_append)
  from first [OF assms(1,3)] first [OF assms(2,4)] show ?thesis by simp
qed

lemma gget_filter_keys: "gget (filter (\<lambda>(k, v). P k) m) k = (if P k then gget m k else None)"
  by (induction m) (auto split: if_splits)

definition remove_trees :: "string list \<Rightarrow> gen_state \<Rightarrow> gen_state" where
  "remove_trees ds s = fold remove_all ds s"

lemma remove_trees_facts:
  assumes "files_wf (gs_files s)"
  shows "files_wf (gs_files (remove_trees ds s))"
    and "read_file (gs_files (remove_trees ds s)) p = (if \<exists>d\<in>set ds. in_tree d p then None else read_file (gs_files s) p)"
    and "gs_dirs (remove_trees ds s) = filter (\<lambda>p. \<forall>d\<in>set ds. \<not> in_tree d p) (gs_dirs s)"
    and "\<not> (\<exists>d\<in>set ds. in_tree d p) \<Longrightarrow> same_file (gs_files (remove_trees ds s)) q p \<Longrightarrow> same_file (gs_files s) q p"
proof -
  have names: "fs_names (gs_files (fold remove_all ds s)) = filter (\<lambda>(p, i). \<forall>d\<in>set ds. \<not> in_tree d p) (fs_names (gs_files s)) \<and>
      fs_inodes (gs_files (fold remove_all ds s)) = fs_inodes (gs_files s) \<and> fs_next (gs_files (fold remove_all ds s)) = fs_next (gs_files s) \<and>
      gs_dirs (fold remove_all ds s) = filter (\<lambda>p. \<forall>d\<in>set ds. \<not> in_tree d p) (gs_dirs s)" for s
    by (induction ds arbitrary: s) (auto simp: remove_all_def case_prod_beta intro!: filter_cong)
  have get: "gget (fs_names (gs_files (remove_trees ds s))) q = (if \<forall>d\<in>set ds. \<not> in_tree d q then gget (fs_names (gs_files s)) q else None)" for q
    unfolding remove_trees_def conjunct1 [OF names] by (rule gget_filter_keys)
  have wf: "gwf (filter (\<lambda>(p, i). \<forall>d\<in>set ds. \<not> in_tree d p) (fs_names (gs_files s)))"
    using assms by (auto simp: files_wf_def distinct_map intro: inj_on_subset)
  show "files_wf (gs_files (remove_trees ds s))"
    using assms wf names [of s] get by (auto simp: files_wf_def remove_trees_def split: if_splits)
  have ino: "fs_inodes (gs_files (remove_trees ds s)) = fs_inodes (gs_files s)" using names [of s] by (simp add: remove_trees_def)
  show "read_file (gs_files (remove_trees ds s)) p = (if \<exists>d\<in>set ds. in_tree d p then None else read_file (gs_files s) p)"
    unfolding read_file_def file_inode_def get ino by simp
  show "gs_dirs (remove_trees ds s) = filter (\<lambda>p. \<forall>d\<in>set ds. \<not> in_tree d p) (gs_dirs s)" using names [of s] by (simp add: remove_trees_def)
  show "same_file (gs_files s) q p" if "\<not> (\<exists>d\<in>set ds. in_tree d p)" "same_file (gs_files (remove_trees ds s)) q p"
    using that get [of p] get [of q] unfolding same_file_def by (metis (no_types))
qed

definition pruned :: "int \<Rightarrow> string list \<Rightarrow> string list" where
  "pruned keep ns = take (nat (int (length ns) - keep)) ns"

lemma prune_trees: "prune base keep s = remove_trees (map (\<lambda>n. path_Join [base, n]) (pruned keep (subdirs base s))) s" if "0 \<le> keep"
proof -
  have "prune_names base keep ns s = remove_trees (map (\<lambda>n. path_Join [base, n]) (pruned keep ns)) s" for ns
  proof (induction ns arbitrary: s)
    case (Cons n ns)
    show ?case
    proof (cases "int (length (n # ns)) > keep")
      case True
      then have "nat (int (length (n # ns)) - keep) = Suc (nat (int (length ns) - keep))" by (simp add: nat_eq_iff)
      then show ?thesis using Cons True by (simp add: pruned_def remove_trees_def)
    next
      case False
      then show ?thesis by (simp add: pruned_def remove_trees_def)
    qed
  qed (simp add: pruned_def remove_trees_def)
  then show ?thesis by (simp add: prune_def)
qed

lemma pruned_keeps_newest:
  assumes "sorted ns" "distinct ns" "x \<in> set ns" "\<forall>n\<in>set ns. n \<le> x" "1 \<le> keep"
  shows "x \<notin> set (pruned keep ns)"
proof -
  obtain ms y where ns: "ns = ms @ [y]" using assms(3) by (cases ns rule: rev_cases) auto
  have "y = x" using assms(1,3,4) ns by (auto simp: sorted_append intro: antisym)
  then have "x \<notin> set ms" using assms(2) ns by simp
  moreover have "nat (int (length ns) - keep) \<le> length ms" using ns assms(5) by simp
  then have "set (pruned keep ns) \<subseteq> set ms" using set_take_subset [of _ ms] by (simp add: pruned_def ns)
  ultimately show ?thesis by blast
qed

section \<open>Capturing\<close>

definition gen_base :: "string \<Rightarrow> string \<Rightarrow> string \<Rightarrow> string" where
  "gen_base dir owner repo = path_Join [dir, owner, repo]"

definition gen_dir :: "string \<Rightarrow> string \<Rightarrow> string \<Rightarrow> time \<Rightarrow> string" where
  "gen_dir dir owner repo now = path_Join [dir, owner, repo, stamp_nanos now]"

lemma gen_paths:
  assumes "dir \<noteq> []" "plain_name owner" "plain_name repo"
  shows "gen_dir dir owner repo now = gen_base dir owner repo @ CHR ''/'' # stamp_nanos now"
    and "plain_name n \<Longrightarrow> path_Join [gen_base dir owner repo, n] = gen_base dir owner repo @ CHR ''/'' # n"
    and "plain_name n \<Longrightarrow> path_Join [gen_dir dir owner repo now, n] = gen_dir dir owner repo now @ CHR ''/'' # n"
  using path_Join_snoc [OF assms(1), of "[owner, repo]" "stamp_nanos now"] path_Join_Join [OF assms(1), of "[owner, repo]" n]
    path_Join_Join [OF assms(1), of "[owner, repo, stamp_nanos now]" n] assms(2,3) stamp_plain
  by (simp_all add: gen_dir_def gen_base_def)

text \<open>The only change to the files is the new file \<open>p\<close>, whose inode has no other name unless it is a link.\<close>

definition adds_file :: "string \<Rightarrow> string \<Rightarrow> gen_state \<Rightarrow> gen_state \<Rightarrow> bool" where
  "adds_file p c s s' \<longleftrightarrow> files_wf (gs_files s') \<and> gs_dirs s' = gs_dirs s \<and>
     (\<forall>q. read_file (gs_files s') q = (if q = p then Some c else read_file (gs_files s) q))"

lemma put_state_adds:
  assumes "files_wf (gs_files s)" "read_file (gs_files s) p = None"
  shows "adds_file p c s (put_state now p c s)"
  using assms by (simp add: adds_file_def put_state_def write_file_def)

lemma linkOrCopy_adds:
  assumes "files_wf (gs_files s)" "read_file (gs_files s) src = Some c" "read_file (gs_files s) dst = None"
  shows "\<exists>s'. linkOrCopy now link_ok src dst s = (None, s') \<and> adds_file dst c s s'"
  using assms put_state_adds [OF assms(1,3), of c now] by (auto simp: linkOrCopy_def adds_file_def)

definition source_ok :: "(string \<Rightarrow> string) \<Rightarrow> string \<Rightarrow> string \<Rightarrow> gen_state \<Rightarrow> bool" where
  "source_ok sha src want s = (case read_file (gs_files s) src of None \<Rightarrow> False | Some c \<Rightarrow> want = [] \<or> sha c = want)"

lemma capture_file_adds:
  assumes "files_wf (gs_files s)" "source_ok sha src want s" "read_file (gs_files s) dst = None"
  shows "\<exists>c s'. read_file (gs_files s) src = Some c \<and> capture_file sha now link_ok src dst want msg s = (Inr (sha c), s') \<and> adds_file dst c s s'"
proof -
  obtain c where c: "read_file (gs_files s) src = Some c" "want = [] \<or> sha c = want" using assms(2) by (auto simp: source_ok_def split: option.splits)
  obtain s' where s': "linkOrCopy now link_ok src dst s = (None, s')" "adds_file dst c s s'" using linkOrCopy_adds [OF assms(1) c(1) assms(3)] by blast
  then have "fileSHA256 sha dst s' = Inr (sha c)" by (simp add: fileSHA256_def adds_file_def)
  then show ?thesis using c s' by (auto simp: capture_file_def)
qed

definition capture_ready :: "(string \<Rightarrow> string) \<Rightarrow> time \<Rightarrow> string \<Rightarrow> string \<Rightarrow> string \<Rightarrow> string \<Rightarrow> repo_result \<Rightarrow> gen_state \<Rightarrow> bool" where
  "capture_ready sha now backupRoot dir owner repo r s \<longleftrightarrow> files_wf (gs_files s) \<and> dir \<noteq> [] \<and> plain_name owner \<and> plain_name repo \<and>
     rr_FullName r = owner @ CHR ''/'' # repo \<and> (\<forall>p. in_tree (gen_dir dir owner repo now) p \<longrightarrow> read_file (gs_files s) p = None) \<and>
     (\<forall>n\<in>set (subdirs (gen_base dir owner repo) s). plain_name n \<and> n \<le> stamp_nanos now) \<and>
     (if rr_BundlePath r \<noteq> [] then source_ok sha (resolve backupRoot (rr_BundlePath r)) (rr_BundleSHA256 r) s
      else exists_path (resolve backupRoot (rr_MirrorPath r)) s) \<and>
     (rr_LFSArchivePath r \<noteq> [] \<longrightarrow> source_ok sha (resolve backupRoot (rr_LFSArchivePath r)) (rr_LFSArchiveSHA256 r) s)"

text \<open>What a capture leaves: the description \<open>m\<close> and, in the generation's directory of \<open>s'\<close>, the payloads of the backup in \<open>s\<close>.\<close>

definition payload_from :: "(string \<Rightarrow> string) \<Rightarrow> string option \<Rightarrow> string \<Rightarrow> string \<Rightarrow> gen_state \<Rightarrow> bool" where
  "payload_from sha source p hash s' = (\<exists>c. source = Some c \<and> read_file (gs_files s') p = Some c \<and> hash = sha c)"

definition captured_source ::
  "gen_lib \<Rightarrow> (string \<Rightarrow> string) \<Rightarrow> string \<Rightarrow> string \<Rightarrow> repo_result \<Rightarrow> gen_state \<Rightarrow> gen_meta \<Rightarrow> gen_state \<Rightarrow> bool" where
  "captured_source L sha backupRoot dir r s m s' =
     (if rr_BundlePath r \<noteq> []
      then gm_BundlePath m = ''repo.bundle'' \<and> gm_MirrorArchive m = [] \<and>
        payload_from sha (read_file (gs_files s) (resolve backupRoot (rr_BundlePath r))) (path_Join [dir, ''repo.bundle'']) (gm_BundleSHA256 m) s'
      else gm_BundlePath m = [] \<and> gm_MirrorArchive m = ''mirror.tar.gz'' \<and>
        payload_from sha (Some (lb_pack L (archive_names (resolve backupRoot (rr_MirrorPath r)) s))) (path_Join [dir, ''mirror.tar.gz'']) (gm_MirrorSHA256 m) s')"

definition captured_lfs :: "(string \<Rightarrow> string) \<Rightarrow> string \<Rightarrow> string \<Rightarrow> repo_result \<Rightarrow> gen_state \<Rightarrow> gen_meta \<Rightarrow> gen_state \<Rightarrow> bool" where
  "captured_lfs sha backupRoot dir r s m s' =
     (if rr_LFSArchivePath r = [] then gm_LFSPath m = []
      else gm_LFSPath m = ''lfs.tar.gz'' \<and>
        payload_from sha (read_file (gs_files s) (resolve backupRoot (rr_LFSArchivePath r))) (path_Join [dir, ''lfs.tar.gz'']) (gm_LFSSHA256 m) s')"

lemma payload_from_cong: "read_file (gs_files a) p = read_file (gs_files b) p \<Longrightarrow> payload_from sha src p h a = payload_from sha src p h b"
  by (simp add: payload_from_def)

lemma capture_source_ok:
  assumes "files_wf (gs_files s)" "gm_BundlePath m = []" "gm_MirrorArchive m = []"
    and "if rr_BundlePath r \<noteq> [] then source_ok sha (resolve backupRoot (rr_BundlePath r)) (rr_BundleSHA256 r) s
         else exists_path (resolve backupRoot (rr_MirrorPath r)) s"
    and "read_file (gs_files s) (path_Join [dir, ''repo.bundle'']) = None" "read_file (gs_files s) (path_Join [dir, ''mirror.tar.gz'']) = None"
  shows "\<exists>m1 p c s1. capture_source L sha now link_ok backupRoot dir r m s = (Inr m1, s1) \<and> adds_file p c s s1 \<and>
    (p = path_Join [dir, ''repo.bundle''] \<or> p = path_Join [dir, ''mirror.tar.gz'']) \<and> captured_source L sha backupRoot dir r s m1 s1 \<and>
    (\<exists>b bh a ah. m1 = m\<lparr>gm_BundlePath := b, gm_BundleSHA256 := bh, gm_MirrorArchive := a, gm_MirrorSHA256 := ah\<rparr>)"
proof (cases "rr_BundlePath r \<noteq> []")
  case True
  obtain c s1 where c: "read_file (gs_files s) (resolve backupRoot (rr_BundlePath r)) = Some c" "adds_file (path_Join [dir, ''repo.bundle'']) c s s1"
      "capture_file sha now link_ok (resolve backupRoot (rr_BundlePath r)) (path_Join [dir, ''repo.bundle'']) (rr_BundleSHA256 r)
         ''generation bundle checksum changed during capture'' s = (Inr (sha c), s1)"
    using capture_file_adds [OF assms(1) _ assms(5)] assms(4) True by fastforce
  let ?m1 = "m\<lparr>gm_BundlePath := ''repo.bundle'', gm_BundleSHA256 := sha c\<rparr>"
  have "capture_source L sha now link_ok backupRoot dir r m s = (Inr ?m1, s1)" using True c(3) by (simp add: capture_source_def)
  moreover have "captured_source L sha backupRoot dir r s ?m1 s1"
    using True c(1,2) assms(3) by (simp add: captured_source_def payload_from_def adds_file_def)
  moreover have "\<exists>b bh a ah. ?m1 = m\<lparr>gm_BundlePath := b, gm_BundleSHA256 := bh, gm_MirrorArchive := a, gm_MirrorSHA256 := ah\<rparr>"
    by (rule exI [of _ "''repo.bundle''"], rule exI [of _ "sha c"], rule exI [of _ "gm_MirrorArchive m"], rule exI [of _ "gm_MirrorSHA256 m"]) simp
  ultimately show ?thesis using c(2) by blast
next
  case False
  let ?mir = "resolve backupRoot (rr_MirrorPath r)" and ?p = "path_Join [dir, ''mirror.tar.gz'']"
  let ?c = "lb_pack L (archive_names ?mir s)" and ?s1 = "put_state now ?p (lb_pack L (archive_names ?mir s)) s"
  let ?m1 = "m\<lparr>gm_MirrorArchive := ''mirror.tar.gz'', gm_MirrorSHA256 := sha ?c\<rparr>"
  have add: "adds_file ?p ?c s ?s1" using put_state_adds [OF assms(1,6)] .
  then have "fileSHA256 sha ?p ?s1 = Inr (sha ?c)" by (simp add: fileSHA256_def adds_file_def)
  then have "capture_source L sha now link_ok backupRoot dir r m s = (Inr ?m1, ?s1)"
    using False assms(4) by (simp add: capture_source_def archiveDir_def)
  moreover have "captured_source L sha backupRoot dir r s ?m1 ?s1"
    using False add assms(2) by (simp add: captured_source_def payload_from_def adds_file_def)
  moreover have "\<exists>b bh a ah. ?m1 = m\<lparr>gm_BundlePath := b, gm_BundleSHA256 := bh, gm_MirrorArchive := a, gm_MirrorSHA256 := ah\<rparr>"
    by (rule exI [of _ "gm_BundlePath m"], rule exI [of _ "gm_BundleSHA256 m"], rule exI [of _ "''mirror.tar.gz''"], rule exI [of _ "sha ?c"]) simp
  ultimately show ?thesis using add by blast
qed

lemma capture_lfs_ok:
  assumes "files_wf (gs_files s)" "gm_LFSPath m = []"
    and "rr_LFSArchivePath r \<noteq> [] \<Longrightarrow> source_ok sha (resolve backupRoot (rr_LFSArchivePath r)) (rr_LFSArchiveSHA256 r) s"
    and "read_file (gs_files s) (path_Join [dir, ''lfs.tar.gz'']) = None"
  shows "\<exists>m1 s1. capture_lfs sha now link_ok backupRoot dir r m s = (Inr m1, s1) \<and> (s1 = s \<or> (\<exists>c. adds_file (path_Join [dir, ''lfs.tar.gz'']) c s s1)) \<and>
    captured_lfs sha backupRoot dir r s m1 s1 \<and> (\<exists>l h. m1 = m\<lparr>gm_LFSPath := l, gm_LFSSHA256 := h\<rparr>)"
proof (cases "rr_LFSArchivePath r = []")
  case True
  have "\<exists>l h. m = m\<lparr>gm_LFSPath := l, gm_LFSSHA256 := h\<rparr>" by (rule exI [of _ "gm_LFSPath m"], rule exI [of _ "gm_LFSSHA256 m"]) simp
  then show ?thesis using True assms(2) by (simp add: capture_lfs_def captured_lfs_def)
next
  case False
  obtain c s1 where c: "read_file (gs_files s) (resolve backupRoot (rr_LFSArchivePath r)) = Some c" "adds_file (path_Join [dir, ''lfs.tar.gz'']) c s s1"
      "capture_file sha now link_ok (resolve backupRoot (rr_LFSArchivePath r)) (path_Join [dir, ''lfs.tar.gz'']) (rr_LFSArchiveSHA256 r)
         ''generation LFS checksum changed during capture'' s = (Inr (sha c), s1)"
    using capture_file_adds [OF assms(1) assms(3) [OF False] assms(4)] by blast
  let ?m1 = "m\<lparr>gm_LFSPath := ''lfs.tar.gz'', gm_LFSSHA256 := sha c\<rparr>"
  have "capture_lfs sha now link_ok backupRoot dir r m s = (Inr ?m1, s1)" using False c(3) by (simp add: capture_lfs_def)
  moreover have "captured_lfs sha backupRoot dir r s ?m1 s1" using False c(1,2) by (simp add: captured_lfs_def payload_from_def adds_file_def)
  ultimately show ?thesis using c(2) by blast
qed

lemma in_subdirs:
  assumes "files_wf (gs_files s)"
  shows "n \<in> set (subdirs base s) \<longleftrightarrow> (\<exists>p. below base p \<and> n = first_comp base p \<and>
    (p \<in> set (gs_dirs s) \<or> (read_file (gs_files s) p \<noteq> None \<and> CHR ''/'' \<in> set (drop (Suc (length base)) p))))"
  using walk_files [OF assms] by (auto simp: subdirs_def image_iff)

lemma subdirs_order: "sorted (subdirs base s)" "distinct (subdirs base s)"
  using sorted_sort_strings by (simp_all add: subdirs_def)

lemma first_comp_tree: "CHR ''/'' \<notin> set n \<Longrightarrow> in_tree (base @ CHR ''/'' # n) p \<Longrightarrow> first_comp base p = n"
  by (auto simp: first_comp_def in_tree_def below_def HasPrefix_iff takeWhile_append)

text \<open>Pruning keeps the newest directory.\<close>

lemma prune_keeps_newest:
  assumes "files_wf (gs_files s)" "dir \<noteq> []" "plain_name owner" "plain_name repo" "\<forall>n\<in>set (subdirs (gen_base dir owner repo) s). plain_name n \<and> n \<le> x"
    and "x \<in> set (subdirs (gen_base dir owner repo) s)" "1 \<le> keep"
  defines "s' \<equiv> prune (gen_base dir owner repo) keep s" and "D \<equiv> gen_base dir owner repo @ CHR ''/'' # x"
  shows "files_wf (gs_files s')" "in_tree D p \<Longrightarrow> read_file (gs_files s') p = read_file (gs_files s) p"
    and "in_tree D p \<Longrightarrow> same_file (gs_files s') q p \<Longrightarrow> same_file (gs_files s) q p" "D \<in> set (gs_dirs s) \<Longrightarrow> D \<in> set (gs_dirs s')"
proof -
  let ?base = "gen_base dir owner repo"
  let ?ds = "map (\<lambda>n. path_Join [?base, n]) (pruned keep (subdirs ?base s))"
  have s': "s' = remove_trees ?ds s" using prune_trees [of keep ?base s] assms(7) by (simp add: s'_def)
  have not_x: "x \<notin> set (pruned keep (subdirs ?base s))" using pruned_keeps_newest [OF subdirs_order assms(6) _ assms(7)] assms(5) by blast
  have away: "\<not> (\<exists>d\<in>set ?ds. in_tree d p)" if "in_tree D p" for p
  proof
    assume "\<exists>d\<in>set ?ds. in_tree d p"
    then obtain n where n: "n \<in> set (pruned keep (subdirs ?base s))" "in_tree (path_Join [?base, n]) p" by auto
    then have "n \<in> set (subdirs ?base s)" by (auto simp: pruned_def dest: in_set_takeD)
    then have "plain_name n" using assms(5) by blast
    then have "in_tree (?base @ CHR ''/'' # n) p" using n(2) gen_paths(2) [OF assms(2-4)] by simp
    moreover have "plain_name x" using assms(5,6) by blast
    ultimately have "n = x" using in_tree_child that \<open>plain_name n\<close> unfolding D_def plain_name_def by blast
    then show False using n(1) not_x by simp
  qed
  show "files_wf (gs_files s')" unfolding s' by (rule remove_trees_facts(1) [OF assms(1)])
  show "in_tree D p \<Longrightarrow> read_file (gs_files s') p = read_file (gs_files s) p" unfolding s' remove_trees_facts(2) [OF assms(1)] using away by simp
  show "in_tree D p \<Longrightarrow> same_file (gs_files s') q p \<Longrightarrow> same_file (gs_files s) q p"
    unfolding s' using remove_trees_facts(4) [OF assms(1) away] by blast
  show "D \<in> set (gs_dirs s) \<Longrightarrow> D \<in> set (gs_dirs s')"
    unfolding s' remove_trees_facts(3) [OF assms(1)] using away [of D] by (simp add: in_tree_def)
qed

lemma put_state_unshared:
  assumes "files_wf (gs_files s)" "read_file (gs_files s) p = None" "same_file (gs_files (put_state now p c s)) q p"
  shows "q = p"
proof (rule ccontr)
  assume "q \<noteq> p"
  have "same_file (write_file now p c (gs_files s)) q p" using assms(3) by (simp add: put_state_def)
  then have "same_file (gs_files s) q p" using same_file_write [OF assms(1)] \<open>q \<noteq> p\<close> by blast
  then show False using same_file_exists [OF assms(1)] assms(2) by blast
qed

lemma adds_file_read: "adds_file p c s s' \<Longrightarrow> q \<noteq> p \<Longrightarrow> read_file (gs_files s') q = read_file (gs_files s) q"
  by (simp add: adds_file_def)

lemma captured_source_cong:
  assumes "\<And>n. n \<in> {''repo.bundle'', ''mirror.tar.gz''} \<Longrightarrow> read_file (gs_files b) (path_Join [dir, n]) = read_file (gs_files a) (path_Join [dir, n])"
    and "gm_BundlePath m' = gm_BundlePath m" "gm_BundleSHA256 m' = gm_BundleSHA256 m" "gm_MirrorArchive m' = gm_MirrorArchive m" "gm_MirrorSHA256 m' = gm_MirrorSHA256 m"
    and "gs_files t = gs_files s"
  shows "captured_source L sha backupRoot dir r s m a \<Longrightarrow> captured_source L sha backupRoot dir r t m' b"
  using assms by (auto simp: captured_source_def payload_from_def archive_names_def split: if_splits)

lemma source_ok_files: "gs_files t = gs_files s \<Longrightarrow> source_ok sha src want t = source_ok sha src want s"
  by (simp add: source_ok_def)

text \<open>The state just before the description is written.\<close>

lemma capture_payloads:
  assumes "capture_ready sha now backupRoot dir owner repo r s"
  defines "D \<equiv> gen_dir dir owner repo now"
  shows "\<exists>m1 s1 m s2. capture_source L sha now link_ok backupRoot D r (new_meta now r) (mkdir_all D s) = (Inr m1, s1) \<and>
    capture_lfs sha now link_ok backupRoot D r m1 s1 = (Inr m, s2) \<and> files_wf (gs_files s2) \<and> gs_dirs s2 = gs_dirs (mkdir_all D s) \<and>
    (\<forall>q. \<not> below D q \<longrightarrow> read_file (gs_files s2) q = read_file (gs_files s) q) \<and>
    read_file (gs_files s2) (path_Join [D, ''generation.json'']) = None \<and> read_file (gs_files s2) (path_Join [D, ''generation.json.sig'']) = None \<and>
    captured_source L sha backupRoot D r s m s2 \<and> captured_lfs sha backupRoot D r s m s2 \<and> gm_ID m = stamp_nanos now \<and> gm_Repository m = rr_FullName r"
proof -
  let ?s0 = "mkdir_all D s"
  have rd: "files_wf (gs_files s)" "dir \<noteq> []" "plain_name owner" "plain_name repo" "\<And>p. in_tree D p \<Longrightarrow> read_file (gs_files s) p = None"
    using assms(1) by (auto simp: capture_ready_def D_def)
  have F: "path_Join [D, n] = D @ CHR ''/'' # n" if "plain_name n" for n using gen_paths(3) [OF rd(2-4) that] by (simp add: D_def)
  have plain: "plain_name ''repo.bundle''" "plain_name ''mirror.tar.gz''" "plain_name ''lfs.tar.gz''" "plain_name ''generation.json''" "plain_name ''generation.json.sig''"
    by (simp_all add: plain_name_def)
  have fresh: "read_file (gs_files s) (D @ CHR ''/'' # n) = None" for n using rd(5) by (simp add: in_tree_def below_child)
  have s0: "gs_files ?s0 = gs_files s" by (simp add: mkdir_all_def)
  have wf0: "files_wf (gs_files ?s0)" using rd(1) s0 by simp
  have blank: "gm_BundlePath (new_meta now r) = []" "gm_MirrorArchive (new_meta now r) = []" by (simp_all add: new_meta_def)
  have grow: "exists_path q s \<Longrightarrow> exists_path q ?s0" for q by (auto simp: exists_path_def mkdir_all_def list_ex_iff)
  have ready0: "if rr_BundlePath r \<noteq> [] then source_ok sha (resolve backupRoot (rr_BundlePath r)) (rr_BundleSHA256 r) ?s0
      else exists_path (resolve backupRoot (rr_MirrorPath r)) ?s0"
    using assms(1) grow source_ok_files [OF s0] by (simp add: capture_ready_def split: if_splits)
  have fresh0: "read_file (gs_files ?s0) (path_Join [D, ''repo.bundle'']) = None" "read_file (gs_files ?s0) (path_Join [D, ''mirror.tar.gz'']) = None"
    unfolding s0 F [OF plain(1)] F [OF plain(2)] by (rule fresh)+
  obtain m1 p c s1 where src: "capture_source L sha now link_ok backupRoot D r (new_meta now r) ?s0 = (Inr m1, s1)" "adds_file p c ?s0 s1"
      "p = path_Join [D, ''repo.bundle''] \<or> p = path_Join [D, ''mirror.tar.gz'']" "captured_source L sha backupRoot D r ?s0 m1 s1"
      "\<exists>b bh a ah. m1 = (new_meta now r)\<lparr>gm_BundlePath := b, gm_BundleSHA256 := bh, gm_MirrorArchive := a, gm_MirrorSHA256 := ah\<rparr>"
    using capture_source_ok [OF wf0 blank(1,2) ready0 fresh0] by blast
  have wf1: "files_wf (gs_files s1)" using src(2) by (simp add: adds_file_def)
  have p: "p = D @ CHR ''/'' # ''repo.bundle'' \<or> p = D @ CHR ''/'' # ''mirror.tar.gz''" using src(3) F plain by auto
  have read1: "read_file (gs_files s1) q = read_file (gs_files s) q" if "q \<noteq> p" for q using adds_file_read [OF src(2) that] s0 by simp
  have ex1: "read_file (gs_files s1) q = read_file (gs_files s) q" if "read_file (gs_files s) q \<noteq> None" for q using read1 fresh p that by metis
  have lfs_src: "source_ok sha (resolve backupRoot (rr_LFSArchivePath r)) (rr_LFSArchiveSHA256 r) s1 \<and>
      read_file (gs_files s1) (resolve backupRoot (rr_LFSArchivePath r)) = read_file (gs_files s) (resolve backupRoot (rr_LFSArchivePath r))"
    if "rr_LFSArchivePath r \<noteq> []"
  proof -
    have "source_ok sha (resolve backupRoot (rr_LFSArchivePath r)) (rr_LFSArchiveSHA256 r) s" using assms(1) that by (simp add: capture_ready_def)
    moreover from this have "read_file (gs_files s) (resolve backupRoot (rr_LFSArchivePath r)) \<noteq> None" by (auto simp: source_ok_def split: option.splits)
    ultimately show ?thesis using ex1 by (simp add: source_ok_def)
  qed
  have lfs_fresh: "read_file (gs_files s1) (path_Join [D, ''lfs.tar.gz'']) = None" using read1 fresh F plain p by auto
  have "gm_LFSPath m1 = []" using src(5) by (auto simp: new_meta_def)
  then obtain m s2 where lfs: "capture_lfs sha now link_ok backupRoot D r m1 s1 = (Inr m, s2)"
      "s2 = s1 \<or> (\<exists>c. adds_file (path_Join [D, ''lfs.tar.gz'']) c s1 s2)" "captured_lfs sha backupRoot D r s1 m s2"
      "\<exists>l h. m = m1\<lparr>gm_LFSPath := l, gm_LFSSHA256 := h\<rparr>"
    using capture_lfs_ok [OF wf1 _ _ lfs_fresh] lfs_src by blast
  have wf2: "files_wf (gs_files s2)" "gs_dirs s2 = gs_dirs ?s0" using lfs(2) wf1 src(2) by (auto simp: adds_file_def)
  have read2: "read_file (gs_files s2) q = read_file (gs_files s1) q" if "q \<noteq> D @ CHR ''/'' # ''lfs.tar.gz''" for q
    using lfs(2) F [OF plain(3)] that by (auto simp: adds_file_def)
  have keep: "read_file (gs_files s2) (path_Join [D, n]) = read_file (gs_files s1) (path_Join [D, n])" if "n \<in> {''repo.bundle'', ''mirror.tar.gz''}" for n
    using that read2 [of "D @ CHR ''/'' # n"] F [of n] plain by auto
  have "captured_source L sha backupRoot D r s m s2"
    using captured_source_cong [OF keep _ _ _ _ _ src(4), of m s] s0 lfs(4) by auto
  moreover have "captured_lfs sha backupRoot D r s m s2" using lfs(3) lfs_src by (auto simp: captured_lfs_def)
  moreover have "read_file (gs_files s2) q = read_file (gs_files s) q" if "\<not> below D q" for q
    using that read1 read2 p below_child by metis
  moreover have "read_file (gs_files s2) (path_Join [D, n]) = None" if "n = ''generation.json'' \<or> n = ''generation.json.sig''" for n
    using that read2 read1 fresh p F plain by auto
  moreover have "gm_ID m = stamp_nanos now" "gm_Repository m = rr_FullName r" using lfs(4) src(5) by (auto simp: new_meta_def)
  ultimately show ?thesis using src(1) lfs(1) wf2 by blast
qed

text \<open>Making one more directory below \<open>base\<close>, and files in it, adds its name.\<close>

lemma new_subdir:
  assumes "files_wf (gs_files s)" "files_wf (gs_files t)" "CHR ''/'' \<notin> set x" "gs_dirs t = List.insert (base @ CHR ''/'' # x) (gs_dirs s)"
    and "\<And>q. \<not> in_tree (base @ CHR ''/'' # x) q \<Longrightarrow> read_file (gs_files t) q = read_file (gs_files s) q"
    and "\<And>q. in_tree (base @ CHR ''/'' # x) q \<Longrightarrow> read_file (gs_files s) q = None"
  shows "set (subdirs base t) = insert x (set (subdirs base s))"
proof -
  let ?D = "base @ CHR ''/'' # x"
  have comp: "first_comp base p = x" if "in_tree ?D p" for p using first_comp_tree [OF assms(3) that] .
  have new: "x \<in> set (subdirs base t)"
    using in_subdirs [OF assms(2)] comp [of ?D] below_child [of base x] assms(4) by (metis in_tree_def insert_iff List.set_insert)
  have old: "(p \<in> set (gs_dirs t) \<or> (read_file (gs_files t) p \<noteq> None \<and> P)) = (p \<in> set (gs_dirs s) \<or> (read_file (gs_files s) p \<noteq> None \<and> P))"
    if "\<not> in_tree ?D p" for p P
    using assms(4,5) that by (auto simp: in_tree_def)
  have grow: "p \<in> set (gs_dirs s) \<or> read_file (gs_files s) p \<noteq> None \<and> P \<Longrightarrow> p \<in> set (gs_dirs t) \<or> read_file (gs_files t) p \<noteq> None \<and> P" for p P
    using assms(4,5,6) by (cases "in_tree ?D p") auto
  show ?thesis
  proof (intro set_eqI iffI)
    fix n assume "n \<in> set (subdirs base t)"
    then show "n \<in> insert x (set (subdirs base s))" using in_subdirs [OF assms(1)] in_subdirs [OF assms(2)] old comp by (metis insertCI)
  next
    fix n assume "n \<in> insert x (set (subdirs base s))"
    then show "n \<in> set (subdirs base t)" using new in_subdirs [OF assms(1)] in_subdirs [OF assms(2)] grow by (metis insertE)
  qed
qed

definition captured :: "gen_lib \<Rightarrow> (string \<Rightarrow> string) \<Rightarrow> string \<Rightarrow> string \<Rightarrow> repo_result \<Rightarrow> gen_state \<Rightarrow> gen_meta \<Rightarrow> gen_state \<Rightarrow> bool" where
  "captured L sha backupRoot dir r s m s' \<longleftrightarrow> captured_source L sha backupRoot dir r s m s' \<and> captured_lfs sha backupRoot dir r s m s'"

lemma captured_cong:
  assumes "\<And>n. n \<in> {''repo.bundle'', ''mirror.tar.gz'', ''lfs.tar.gz''} \<Longrightarrow> read_file (gs_files b) (path_Join [dir, n]) = read_file (gs_files a) (path_Join [dir, n])"
  shows "captured L sha backupRoot dir r s m a \<Longrightarrow> captured L sha backupRoot dir r s (m\<lparr>gm_SignatureType := x\<rparr>) b"
  and "captured L sha backupRoot dir r s m a \<Longrightarrow> captured L sha backupRoot dir r s m b"
  using assms by (simp_all add: captured_def captured_source_def captured_lfs_def payload_from_def split: if_splits)

lemma Capture_ok:
  assumes ready: "capture_ready sha now backupRoot dir owner repo r s"
  defines "D \<equiv> gen_dir dir owner repo now"
  shows "\<exists>m s'. Capture L sha now link_ok backupRoot dir r keep s = (Inr m, s') \<and> files_wf (gs_files s') \<and> gm_ID m = stamp_nanos now \<and>
    gm_Repository m = rr_FullName r \<and> captured L sha backupRoot D r s m s' \<and>
    read_file (gs_files s') (path_Join [D, ''generation.json'']) = Some (lb_marshal L m) \<and>
    read_file (gs_files s') (path_Join [D, ''generation.json.sig'']) = None \<and>
    (\<forall>q. same_file (gs_files s') q (path_Join [D, ''generation.json'']) \<longrightarrow> q = path_Join [D, ''generation.json''])"
proof -
  let ?json = "path_Join [D, ''generation.json'']"
  obtain m1 s1 m s2 where c: "capture_source L sha now link_ok backupRoot D r (new_meta now r) (mkdir_all D s) = (Inr m1, s1)"
      "capture_lfs sha now link_ok backupRoot D r m1 s1 = (Inr m, s2)" "files_wf (gs_files s2)" "gs_dirs s2 = gs_dirs (mkdir_all D s)"
      "\<And>q. \<not> below D q \<Longrightarrow> read_file (gs_files s2) q = read_file (gs_files s) q"
      "read_file (gs_files s2) ?json = None" "read_file (gs_files s2) (path_Join [D, ''generation.json.sig'']) = None"
      "captured_source L sha backupRoot D r s m s2" "captured_lfs sha backupRoot D r s m s2" "gm_ID m = stamp_nanos now" "gm_Repository m = rr_FullName r"
    using capture_payloads [OF ready, of L link_ok] unfolding D_def by blast
  have rd: "dir \<noteq> []" "plain_name owner" "plain_name repo" "rr_FullName r = owner @ CHR ''/'' # repo" using ready by (auto simp: capture_ready_def)
  have F: "path_Join [D, n] = D @ CHR ''/'' # n" if "plain_name n" for n using gen_paths(3) [OF rd(1-3) that] by (simp add: D_def)
  have plain: "plain_name ''repo.bundle''" "plain_name ''mirror.tar.gz''" "plain_name ''lfs.tar.gz''" "plain_name ''generation.json''" "plain_name ''generation.json.sig''"
    by (simp_all add: plain_name_def)
  define s3 where "s3 = put_state now ?json (lb_marshal L m) s2"
  have add: "adds_file ?json (lb_marshal L m) s2 s3" unfolding s3_def by (rule put_state_adds [OF c(3,6)])
  have json: "below D ?json" using F [OF plain(4)] below_child by simp
  have own: "same_file (gs_files s3) q ?json \<Longrightarrow> q = ?json" for q unfolding s3_def by (rule put_state_unshared [OF c(3,6)])
  define s' where "s' = (if keep > 0 then prune (gen_base dir owner repo) keep s3 else s3)"
  have kept: "files_wf (gs_files s') \<and> (\<forall>p. in_tree D p \<longrightarrow> read_file (gs_files s') p = read_file (gs_files s3) p) \<and>
      (\<forall>p q. in_tree D p \<longrightarrow> same_file (gs_files s') q p \<longrightarrow> same_file (gs_files s3) q p)"
  proof (cases "keep > 0")
    case True
    have wf3: "files_wf (gs_files s3)" "gs_dirs s3 = gs_dirs (mkdir_all D s)" using add c(4) by (simp_all add: adds_file_def)
    have out: "read_file (gs_files s3) q = read_file (gs_files s) q" if "\<not> below D q" for q
      using adds_file_read [OF add] json c(5) that by metis
    have D: "D = gen_base dir owner repo @ CHR ''/'' # stamp_nanos now" unfolding D_def by (rule gen_paths(1) [OF rd(1-3)])
    have names: "set (subdirs (gen_base dir owner repo) s3) = insert (stamp_nanos now) (set (subdirs (gen_base dir owner repo) s))"
      using ready wf3 out stamp_plain D by (intro new_subdir) (auto simp: capture_ready_def mkdir_all_def plain_name_def in_tree_def D_def)
    have newest: "\<forall>n\<in>set (subdirs (gen_base dir owner repo) s3). plain_name n \<and> n \<le> stamp_nanos now"
      using ready names stamp_plain by (auto simp: capture_ready_def)
    have "s' = prune (gen_base dir owner repo) keep s3" using True by (simp add: s'_def)
    then show ?thesis using prune_keeps_newest [OF wf3(1) rd(1-3) newest, of keep] names True D by force
  next
    case False
    then show ?thesis using add by (simp add: s'_def adds_file_def)
  qed
  have at: "read_file (gs_files s') (path_Join [D, n]) = read_file (gs_files s3) (path_Join [D, n])" if "plain_name n" for n
    using kept F [OF that] below_child by (auto simp: in_tree_def)
  have cap: "Capture L sha now link_ok backupRoot dir r keep s = (Inr m, s')"
    using c(1,2) Cut_names [of owner repo] rd TrimSpace_slash [of "rr_FullName r"]
    by (simp add: Capture_def plain_name_def Let_def s'_def s3_def D_def gen_dir_def gen_base_def)
  have same3: "read_file (gs_files s3) (path_Join [D, n]) = read_file (gs_files s2) (path_Join [D, n])" if "plain_name n" "n \<noteq> ''generation.json''" for n
    using adds_file_read [OF add] F [OF that(1)] F [OF plain(4)] that(2) by simp
  have pay: "read_file (gs_files s') (path_Join [D, n]) = read_file (gs_files s2) (path_Join [D, n])"
    if "n \<in> {''repo.bundle'', ''mirror.tar.gz'', ''lfs.tar.gz''}" for n
    using at [of n] same3 [of n] plain that by auto
  have "captured L sha backupRoot D r s m s2" using c(8,9) by (simp add: captured_def)
  then have "captured L sha backupRoot D r s m s'" using captured_cong(2) [where a = s2 and b = s' and dir = D, OF pay] by simp
  moreover have "read_file (gs_files s') ?json = Some (lb_marshal L m)" using at [OF plain(4)] add by (simp add: adds_file_def)
  moreover have "read_file (gs_files s') (path_Join [D, ''generation.json.sig'']) = None" using at [OF plain(5)] same3 [OF plain(5)] c(7) by simp
  moreover have "\<forall>q. same_file (gs_files s') q ?json \<longrightarrow> q = ?json" using kept own json by (auto simp: in_tree_def)
  ultimately show ?thesis using cap kept c(10,11) by blast
qed

section \<open>Captured generations verify\<close>

lemma captured_payloads:
  assumes "captured L sha backupRoot dir r s m s'"
  shows "verify_payload sha dir (gm_BundlePath m) (gm_BundleSHA256 m) s' = None" "verify_payload sha dir (gm_MirrorArchive m) (gm_MirrorSHA256 m) s' = None"
    "verify_payload sha dir (gm_LFSPath m) (gm_LFSSHA256 m) s' = None"
  using assms by (auto simp: captured_def captured_source_def captured_lfs_def payload_from_def verify_payload_def verifyFile_def fileSHA256_def split: if_splits)

text \<open>What is asked of the libraries: JSON reads back what it wrote, the key is there, and its signatures verify and carry no blanks at their ends.\<close>

definition lawful_lib :: "gen_lib \<Rightarrow> string \<Rightarrow> string \<Rightarrow> bool" where
  "lawful_lib L keyPath trusted \<longleftrightarrow> (\<forall>m. lb_unmarshal L (lb_marshal L m) = Inr m) \<and> lb_ensure_key L keyPath = None \<and>
     (\<forall>b. lb_verify L trusted b (lb_sign L keyPath b) = None \<and> TrimSpace (lb_sign L keyPath b @ [CHR 0x0A]) = lb_sign L keyPath b)"

lemma Find_stamp:
  assumes "dir \<noteq> []" "plain_name owner" "plain_name repo"
  shows "Find L dir (owner @ CHR ''/'' # repo) (stamp_nanos now) t =
    (case Read L (gen_dir dir owner repo now) t of Inl e \<Rightarrow> Inl e | Inr m \<Rightarrow> Inr (m, gen_dir dir owner repo now))"
  using Cut_names [of owner repo] assms stamp_not_latest by (simp add: Find_def plain_name_def gen_dir_def Let_def split: sum.split)

lemma CaptureSigned_ok:
  assumes "capture_ready sha now backupRoot dir owner repo r s" "lawful_lib L keyPath trusted"
  shows "\<exists>m s'. CaptureSigned L sha now link_ok backupRoot dir r keep keyPath s = (Inr m, s') \<and> gm_ID m = stamp_nanos now \<and> gm_Repository m = rr_FullName r \<and>
    Read L (gen_dir dir owner repo now) s' = Inr m \<and> VerifySignature L (gen_dir dir owner repo now) trusted s' = None \<and>
    captured L sha backupRoot (gen_dir dir owner repo now) r s m s'"
proof -
  let ?D = "gen_dir dir owner repo now"
  let ?json = "path_Join [?D, ''generation.json'']" and ?sig = "path_Join [?D, ''generation.json.sig'']"
  have rd: "dir \<noteq> []" "plain_name owner" "plain_name repo" "rr_FullName r = owner @ CHR ''/'' # repo" using assms(1) by (auto simp: capture_ready_def)
  have F: "path_Join [?D, n] = ?D @ CHR ''/'' # n" if "plain_name n" for n using gen_paths(3) [OF rd(1-3) that] .
  have plain: "plain_name ''repo.bundle''" "plain_name ''mirror.tar.gz''" "plain_name ''lfs.tar.gz''" "plain_name ''generation.json''" "plain_name ''generation.json.sig''"
    by (simp_all add: plain_name_def)
  have lawful: "\<And>m. lb_unmarshal L (lb_marshal L m) = Inr m" "lb_ensure_key L keyPath = None" "\<And>b. lb_verify L trusted b (lb_sign L keyPath b) = None"
      "\<And>b. TrimSpace (lb_sign L keyPath b @ [CHR 0x0A]) = lb_sign L keyPath b"
    using assms(2) by (auto simp: lawful_lib_def)
  note find = Find_stamp [OF rd(1-3), of L now, folded rd(4)]
  obtain m0 s1 where cap: "Capture L sha now link_ok backupRoot dir r keep s = (Inr m0, s1)" "files_wf (gs_files s1)" "gm_ID m0 = stamp_nanos now"
      "gm_Repository m0 = rr_FullName r" "captured L sha backupRoot ?D r s m0 s1" "read_file (gs_files s1) ?json = Some (lb_marshal L m0)"
      "read_file (gs_files s1) ?sig = None" "\<And>q. same_file (gs_files s1) q ?json \<Longrightarrow> q = ?json"
    using Capture_ok [OF assms(1), of L link_ok keep] by blast
  let ?m = "m0\<lparr>gm_SignatureType := ''ed25519-detached-v1''\<rparr>"
  let ?b = "lb_marshal L ?m"
  define s2 where "s2 = put_state now ?json ?b s1"
  define s3 where "s3 = put_state now ?sig (lb_sign L keyPath ?b @ [CHR 0x0A]) s2"
  have ne: "?sig \<noteq> ?json" unfolding F [OF plain(4)] F [OF plain(5)] by simp
  have r2: "read_file (gs_files s2) q = (if q = ?json then Some ?b else read_file (gs_files s1) q)" for q
    using read_write_file [OF cap(2)] cap(8) by (auto simp: s2_def put_state_def)
  have "adds_file ?sig (lb_sign L keyPath ?b @ [CHR 0x0A]) s2 s3"
    unfolding s3_def using r2 [of ?sig] ne cap(2,7) by (intro put_state_adds) (auto simp: s2_def put_state_def)
  then have r3: "read_file (gs_files s3) q = (if q = ?sig then Some (lb_sign L keyPath ?b @ [CHR 0x0A]) else if q = ?json then Some ?b else read_file (gs_files s1) q)" for q
    using r2 by (simp add: adds_file_def)
  have pay: "read_file (gs_files s3) (path_Join [?D, n]) = read_file (gs_files s1) (path_Join [?D, n])"
    if "n \<in> {''repo.bundle'', ''mirror.tar.gz'', ''lfs.tar.gz''}" for n
    unfolding r3 F [OF plain(4)] F [OF plain(5)] using F [of n] plain that by auto
  have done3: "captured L sha backupRoot ?D r s ?m s3" using captured_cong(1) [OF pay cap(5)] .
  have "?json @ ''.sig'' = ?sig" unfolding F [OF plain(4)] F [OF plain(5)] by simp
  then have signed: "CaptureSigned L sha now link_ok backupRoot dir r keep keyPath s = (Inr ?m, s3)"
    using cap(1,3,6) find lawful(1,2) by (simp add: CaptureSigned_def Read_def Let_def s2_def s3_def)
  have read3: "Read L ?D s3 = Inr ?m" using r3 ne lawful(1) by (simp add: Read_def)
  moreover have "VerifySignature L ?D trusted s3 = None" using r3 ne lawful(3,4) by (simp add: VerifySignature_def)
  ultimately show ?thesis using signed cap(3,4) done3 by fastforce
qed

text \<open>
  C31. A signed capture of a backup whose files are there succeeds.  The generation can then be found under its
  identifier, verifies against the trusted key, and holds the bytes of the backup's bundle or the archive of its mirror, and of
  its LFS archive, whatever number of generations is kept and whether files are linked or copied.
\<close>

theorem captured_generation_verifies:
  assumes "capture_ready sha now backupRoot dir owner repo r s" "lawful_lib L keyPath trusted"
  shows "\<exists>m s'. CaptureSigned L sha now link_ok backupRoot dir r keep keyPath s = (Inr m, s') \<and> gm_Repository m = rr_FullName r \<and>
    Find L dir (rr_FullName r) (gm_ID m) s' = Inr (m, gen_dir dir owner repo now) \<and>
    VerifyDir L sha (gen_dir dir owner repo now) trusted s' = Inr m \<and> captured L sha backupRoot (gen_dir dir owner repo now) r s m s'"
proof -
  obtain m s' where c: "CaptureSigned L sha now link_ok backupRoot dir r keep keyPath s = (Inr m, s')" "gm_ID m = stamp_nanos now" "gm_Repository m = rr_FullName r"
      "Read L (gen_dir dir owner repo now) s' = Inr m" "VerifySignature L (gen_dir dir owner repo now) trusted s' = None"
      "captured L sha backupRoot (gen_dir dir owner repo now) r s m s'"
    using CaptureSigned_ok [OF assms, of link_ok keep] by blast
  have rd: "dir \<noteq> []" "plain_name owner" "plain_name repo" "rr_FullName r = owner @ CHR ''/'' # repo" using assms(1) by (auto simp: capture_ready_def)
  have "VerifyDir L sha (gen_dir dir owner repo now) trusted s' = Inr m"
    using c(4,5) captured_payloads [OF c(6)] by (simp add: VerifyDir_def)
  then show ?thesis using c Find_stamp [OF rd(1-3), of L now s'] rd(4) by auto
qed

section \<open>Failed captures\<close>

text \<open>The directories stay and only files named in \<open>P\<close> may differ.\<close>

definition touches :: "string set \<Rightarrow> gen_state \<Rightarrow> gen_state \<Rightarrow> bool" where
  "touches P s s' \<longleftrightarrow> files_wf (gs_files s') \<and> gs_dirs s' = gs_dirs s \<and> (\<forall>q. q \<notin> P \<longrightarrow> read_file (gs_files s') q = read_file (gs_files s) q)"

lemma touches_trans: "touches P a b \<Longrightarrow> touches Q b c \<Longrightarrow> touches (P \<union> Q) a c"
  by (simp add: touches_def)

lemma touches_refl: "files_wf (gs_files s) \<Longrightarrow> touches P s s"
  by (simp add: touches_def)

lemma adds_touches: "adds_file p c s s' \<Longrightarrow> touches {p} s s'"
  by (simp add: adds_file_def touches_def)

lemma touches_mono: "touches P s s' \<Longrightarrow> P \<subseteq> Q \<Longrightarrow> touches Q s s'"
  by (auto simp: touches_def)

lemma capture_file_touches:
  assumes "files_wf (gs_files s)" "read_file (gs_files s) dst = None" "capture_file sha now link_ok src dst want msg s = (e, s')"
  shows "touches {dst} s s'"
proof (cases "read_file (gs_files s) src")
  case None
  then show ?thesis using assms touches_refl [OF assms(1)] by (simp add: capture_file_def linkOrCopy_def)
next
  case (Some c)
  then obtain s1 where s1: "linkOrCopy now link_ok src dst s = (None, s1)" "adds_file dst c s s1" using linkOrCopy_adds [OF assms(1) Some assms(2)] by blast
  then have "s' = s1" using assms(3) by (auto simp: capture_file_def split: sum.splits if_splits)
  then show ?thesis using adds_touches s1(2) by simp
qed

lemma capture_source_touches:
  assumes "files_wf (gs_files s)" "read_file (gs_files s) (path_Join [dir, ''repo.bundle'']) = None" "read_file (gs_files s) (path_Join [dir, ''mirror.tar.gz'']) = None"
    and "capture_source L sha now link_ok backupRoot dir r m s = (e, s')"
  shows "touches {path_Join [dir, ''repo.bundle''], path_Join [dir, ''mirror.tar.gz'']} s s'"
proof (cases "rr_BundlePath r = []")
  case True
  have "\<exists>c. s' = put_state now (path_Join [dir, ''mirror.tar.gz'']) c s"
    using assms(4) True by (auto simp: capture_source_def archiveDir_def split: if_splits sum.splits)
  then show ?thesis using adds_touches [OF put_state_adds [OF assms(1,3)]] touches_mono by blast
next
  case False
  then obtain x where "capture_file sha now link_ok (resolve backupRoot (rr_BundlePath r)) (path_Join [dir, ''repo.bundle'']) (rr_BundleSHA256 r)
      ''generation bundle checksum changed during capture'' s = (x, s')"
    using assms(4) by (auto simp: capture_source_def split: sum.splits prod.splits)
  then show ?thesis using capture_file_touches [OF assms(1,2)] touches_mono by blast
qed

lemma capture_lfs_touches:
  assumes "files_wf (gs_files s)" "read_file (gs_files s) (path_Join [dir, ''lfs.tar.gz'']) = None" "capture_lfs sha now link_ok backupRoot dir r m s = (e, s')"
  shows "touches {path_Join [dir, ''lfs.tar.gz'']} s s'"
proof (cases "rr_LFSArchivePath r = []")
  case True
  then show ?thesis using assms touches_refl by (simp add: capture_lfs_def)
next
  case False
  then obtain x where "capture_file sha now link_ok (resolve backupRoot (rr_LFSArchivePath r)) (path_Join [dir, ''lfs.tar.gz'']) (rr_LFSArchiveSHA256 r)
      ''generation LFS checksum changed during capture'' s = (x, s')"
    using assms(3) by (auto simp: capture_lfs_def split: sum.splits prod.splits)
  then show ?thesis by (rule capture_file_touches [OF assms(1,2)])
qed

text \<open>
  C34. A capture that fails, because a payload is missing or its checksum changed, leaves the directory it made, without a
  description: the generation cannot be read, yet its name joins those among which the next successful capture keeps the
  newest \<open>keep\<close>, so that each failure costs a good generation.
\<close>

theorem failed_capture_counts:
  assumes "Capture L sha now link_ok backupRoot dir r keep s = (Inl e, s')" "rr_FullName r = owner @ CHR ''/'' # repo"
    and "files_wf (gs_files s)" "dir \<noteq> []" "plain_name owner" "plain_name repo" "\<forall>p. in_tree (gen_dir dir owner repo now) p \<longrightarrow> read_file (gs_files s) p = None"
  shows "(\<exists>e'. Read L (gen_dir dir owner repo now) s' = Inl e') \<and>
    set (subdirs (gen_base dir owner repo) s') = insert (stamp_nanos now) (set (subdirs (gen_base dir owner repo) s))"
proof -
  let ?D = "gen_dir dir owner repo now" and ?base = "gen_base dir owner repo"
  let ?s0 = "mkdir_all ?D s"
  have F: "path_Join [?D, n] = ?D @ CHR ''/'' # n" if "plain_name n" for n using gen_paths(3) [OF assms(4-6) that] .
  have plain: "plain_name ''repo.bundle''" "plain_name ''mirror.tar.gz''" "plain_name ''lfs.tar.gz''" "plain_name ''generation.json''"
    by (simp_all add: plain_name_def)
  have fresh: "read_file (gs_files s) (?D @ CHR ''/'' # n) = None" for n using assms(7) by (simp add: in_tree_def below_child)
  have s0: "gs_files ?s0 = gs_files s" by (simp add: mkdir_all_def)
  have wf0: "files_wf (gs_files ?s0)" using assms(3) s0 by simp
  have cap: "capture_source L sha now link_ok backupRoot ?D r (new_meta now r) ?s0 = (Inl e, s') \<or>
      (\<exists>m1 s1. capture_source L sha now link_ok backupRoot ?D r (new_meta now r) ?s0 = (Inr m1, s1) \<and> capture_lfs sha now link_ok backupRoot ?D r m1 s1 = (Inl e, s'))"
    using assms(1,2,5,6) Cut_names [of owner repo] TrimSpace_slash [of "rr_FullName r"]
    by (auto simp: Capture_def Let_def plain_name_def gen_dir_def split: sum.splits prod.splits)
  let ?P = "{?D @ ''/repo.bundle'', ?D @ ''/mirror.tar.gz''}"
  have src: "touches ?P ?s0 s1" if "capture_source L sha now link_ok backupRoot ?D r (new_meta now r) ?s0 = (x, s1)" for x s1
    using capture_source_touches [OF wf0 _ _ that] fresh F plain s0 by simp
  have "touches (?P \<union> {?D @ ''/lfs.tar.gz''}) ?s0 s'"
    using cap
  proof (elim disjE exE conjE)
    fix m1 s1 assume c: "capture_source L sha now link_ok backupRoot ?D r (new_meta now r) ?s0 = (Inr m1, s1)" "capture_lfs sha now link_ok backupRoot ?D r m1 s1 = (Inl e, s')"
    have "read_file (gs_files s1) (?D @ ''/lfs.tar.gz'') = None" "files_wf (gs_files s1)" using src [OF c(1)] fresh [of "''lfs.tar.gz''"] s0 by (auto simp: touches_def)
    then have "touches {?D @ ''/lfs.tar.gz''} s1 s'" using capture_lfs_touches [OF _ _ c(2)] F plain by simp
    then show ?thesis using touches_trans [OF src [OF c(1)]] by blast
  qed (use src touches_mono in blast)
  then have t: "files_wf (gs_files s')" "gs_dirs s' = List.insert ?D (gs_dirs s)"
      "\<And>q. q \<notin> ?P \<union> {?D @ ''/lfs.tar.gz''} \<Longrightarrow> read_file (gs_files s') q = read_file (gs_files s) q"
    using s0 by (auto simp: touches_def mkdir_all_def)
  have "Read L ?D s' = Inl (GoErr ''file does not exist'')" using t(3) F [OF plain(4)] fresh [of "''generation.json''"] by (simp add: Read_def)
  moreover have "set (subdirs ?base s') = insert (stamp_nanos now) (set (subdirs ?base s))"
  proof (rule new_subdir [OF assms(3) t(1)])
    have D: "?D = ?base @ CHR ''/'' # stamp_nanos now" by (rule gen_paths(1) [OF assms(4-6)])
    show "CHR ''/'' \<notin> set (stamp_nanos now)" using stamp_plain by (simp add: plain_name_def)
    show "gs_dirs s' = List.insert (?base @ CHR ''/'' # stamp_nanos now) (gs_dirs s)" using t(2) D by simp
    show "read_file (gs_files s') q = read_file (gs_files s) q" if "\<not> in_tree (?base @ CHR ''/'' # stamp_nanos now) q" for q
    proof (rule t(3))
      show "q \<notin> ?P \<union> {?D @ ''/lfs.tar.gz''}" using that below_child [of ?D] D by (auto simp: in_tree_def)
    qed
    show "read_file (gs_files s) q = None" if "in_tree (?base @ CHR ''/'' # stamp_nanos now) q" for q
      using assms(7) that D by simp
  qed
  ultimately show ?thesis by blast
qed

section \<open>A concrete instance\<close>

text \<open>A coding of lists of strings as one string: a \<^verbatim>\<open>c\<close> before each character, an \<^verbatim>\<open>e\<close> after each string.\<close>

definition enc_strs :: "string list \<Rightarrow> string" where
  "enc_strs xs = concat (map (\<lambda>x. concat (map (\<lambda>c. [CHR ''c'', c]) x) @ ''e'') xs)"

fun dec_strs :: "string \<Rightarrow> string \<Rightarrow> string list" where
  "dec_strs acc (k # c # cs) = (if k = CHR ''e'' then rev acc # dec_strs [] (c # cs) else dec_strs (c # acc) cs)"
| "dec_strs acc [k] = [rev acc]"
| "dec_strs acc [] = []"

lemma dec_enc_strs: "dec_strs [] (enc_strs xs) = xs"
proof -
  have e: "dec_strs acc (CHR ''e'' # w) = rev acc # dec_strs [] w" for acc w by (cases w) auto
  have "dec_strs acc (concat (map (\<lambda>c. [CHR ''c'', c]) x) @ ''e'' @ w) = (rev acc @ x) # dec_strs [] w" for acc x w
    by (induction x arbitrary: acc) (simp_all add: e)
  from this [of "[]"] show ?thesis by (induction xs) (simp_all add: enc_strs_def)
qed

definition enc_int :: "int \<Rightarrow> string" where
  "enc_int i = (if i < 0 then CHR ''-'' else CHR ''+'') # show_nat (nat (abs i))"

definition dec_int :: "string \<Rightarrow> int" where
  "dec_int s = (if hd s = CHR ''-'' then - int (undigits (tl s)) else int (undigits (tl s)))"

lemma dec_enc_int: "dec_int (enc_int i) = i"
  by (simp add: dec_int_def enc_int_def)

definition enc_meta :: "gen_meta \<Rightarrow> string" where
  "enc_meta m = enc_strs [enc_int (gm_Version m), gm_ID m, gm_Repository m, enc_int (gm_CreatedAt m), enc_int (gm_SourceUpdatedAt m), (if gm_Verified m then ''t'' else []),
     gm_BundlePath m, gm_BundleSHA256 m, gm_LFSPath m, gm_LFSSHA256 m, gm_MirrorArchive m, gm_MirrorSHA256 m, gm_SourceMirrorPath m, gm_SignatureType m]"

definition dec_meta :: "string \<Rightarrow> gen_meta result" where
  "dec_meta s = (case dec_strs [] s of
     [v, i, r, c, u, y, b, bh, l, lh, a, ah, p, t] \<Rightarrow> Inr \<lparr>gm_Version = dec_int v, gm_ID = i, gm_Repository = r, gm_CreatedAt = dec_int c, gm_SourceUpdatedAt = dec_int u,
       gm_Verified = (y \<noteq> []), gm_BundlePath = b, gm_BundleSHA256 = bh, gm_LFSPath = l, gm_LFSSHA256 = lh, gm_MirrorArchive = a, gm_MirrorSHA256 = ah,
       gm_SourceMirrorPath = p, gm_SignatureType = t\<rparr>
   | _ \<Rightarrow> Inl (GoErr ''unexpected end of JSON input''))"

fun dec_entries :: "string list \<Rightarrow> archive_entry result list" where
  "dec_entries (n # d # ns) = Inr \<lparr>ae_Name = n, ae_Type = TarReg, ae_Data = d\<rparr> # dec_entries ns"
| "dec_entries _ = []"

definition sample_lib :: gen_lib where
  "sample_lib = \<lparr>lb_marshal = enc_meta, lb_unmarshal = dec_meta, lb_pack = (\<lambda>es. enc_strs (concat (map (\<lambda>h. [ae_Name h, ae_Data h]) es))),
     lb_unpack = (\<lambda>c. dec_entries (dec_strs [] c)), lb_ensure_key = (\<lambda>_. None), lb_sign = (\<lambda>k b. show_nat (length b)),
     lb_verify = (\<lambda>k b s. if s = show_nat (length b) then None else Some (GoErr ''signature verification failed'')),
     lb_clone = (\<lambda>src target s. case read_file (gs_files s) src of None \<Rightarrow> Inl (GoErr ''fatal'') | Some c \<Rightarrow> Inr (put_state 0 (target @ ''/README'') c s))\<rparr>"

lemma sample_lawful: "lawful_lib sample_lib keyPath trusted"
proof -
  have sig: "TrimSpace (show_nat n @ [CHR 0x0A]) = show_nat n" for n
  proof -
    have digit: "\<not> is_space c" if "c \<in> set (show_nat n)" for c using digit_range(2) [OF that] by (auto simp: is_space_def)
    have ne: "show_nat n \<noteq> []" by (simp add: show_nat.simps [of n])
    then have "dropWhile is_space (show_nat n @ [CHR 0x0A]) = show_nat n @ [CHR 0x0A]" using digit by (cases "show_nat n") auto
    moreover have "dropWhile is_space (rev (show_nat n)) = rev (show_nat n)" using digit ne by (metis dropWhile_eq_self_iff hd_in_set set_rev)
    ultimately show ?thesis by (simp add: TrimSpace_def is_space_def [of "CHR 0x0A"])
  qed
  have "dec_meta (enc_meta m) = Inr m" for m by (simp add: dec_meta_def enc_meta_def dec_enc_strs dec_enc_int)
  then show ?thesis using sig by (simp add: lawful_lib_def sample_lib_def)
qed

definition sample_result :: repo_result where
  "sample_result = \<lparr>rr_FullName = ''o/r'', rr_SourceVisibility = [], rr_MirrorPath = ''m'', rr_BundlePath = ''b'', rr_BundleSHA256 = ''5'', rr_UpdatedAt = 0, rr_DurationMS = 0,
     rr_Verified = True, rr_LFSFetched = False, rr_LFSArchivePath = [], rr_LFSArchiveSHA256 = [], rr_WikiBackedUp = False, rr_MetadataBackedUp = False,
     rr_ReleaseAssetsBackedUp = 0, rr_DiscussionsBackedUp = False, rr_PackagesBackedUp = 0, rr_PackagePayloadsBackedUp = 0, rr_OCIArtifactsBackedUp = 0,
     rr_ActionArtifactsBackedUp = 0, rr_Error = [], rr_Warnings = []\<rparr>"

text \<open>A backup with one bundle, and the staging directory of a replica beside the generations.\<close>

definition sample_backup :: gen_state where
  "sample_backup = \<lparr>gs_files = \<lparr>fs_names = [(''/k/b'', 0)], fs_inodes = [(0, (''hello'', 5))], fs_next = 1\<rparr>, gs_dirs = [''/g/o/r/.replica-1'']\<rparr>"

definition length_sha :: "string \<Rightarrow> string" where
  "length_sha c = show_nat (length c)"

lemma stamp_after_staging: "''.replica-1'' \<le> stamp_nanos t"
proof -
  obtain k ks where c: "compact_date t = k # ks" and "(of_char k :: nat) \<in> {48..57}" using compact_date_head by blast
  then have "CHR ''.'' < k" by (simp add: less_char_def)
  then show ?thesis using c by (simp add: stamp_nanos_def)
qed

lemma sample_backup_facts:
  "files_wf (gs_files sample_backup)" "subdirs (gen_base ''/g'' ''o'' ''r'') sample_backup = [''.replica-1'']"
  "in_tree (gen_dir ''/g'' ''o'' ''r'' now) p \<Longrightarrow> read_file (gs_files sample_backup) p = None"
proof -
  show "files_wf (gs_files sample_backup)" by (simp add: sample_backup_def files_wf_def)
  show "subdirs (gen_base ''/g'' ''o'' ''r'') sample_backup = [''.replica-1'']" by code_simp
  have base: "gen_base ''/g'' ''o'' ''r'' = ''/g/o/r''" by code_simp
  have "gen_dir ''/g'' ''o'' ''r'' now = ''/g/o/r'' @ CHR ''/'' # stamp_nanos now"
    using gen_paths(1) [of "''/g''" "''o''" "''r''" now] base by (simp add: plain_name_def)
  then show "read_file (gs_files sample_backup) p = None" if "in_tree (gen_dir ''/g'' ''o'' ''r'' now) p"
    using that by (auto simp: in_tree_def below_def HasPrefix_iff sample_backup_def read_file_def file_inode_def)
qed

lemma sample_ready: "capture_ready length_sha now ''/k'' ''/g'' ''o'' ''r'' sample_result sample_backup"
proof -
  have "source_ok length_sha (resolve ''/k'' (rr_BundlePath sample_result)) (rr_BundleSHA256 sample_result) sample_backup" by code_simp
  then show ?thesis using sample_backup_facts stamp_after_staging by (simp add: capture_ready_def sample_result_def plain_name_def)
qed

theorem captured_generation_verifies_witness:
  "\<exists>m s'. CaptureSigned sample_lib length_sha 7 (\<lambda>_. True) ''/k'' ''/g'' sample_result 1 ''/key'' sample_backup = (Inr m, s') \<and> gm_Repository m = rr_FullName sample_result \<and>
    Find sample_lib ''/g'' (rr_FullName sample_result) (gm_ID m) s' = Inr (m, gen_dir ''/g'' ''o'' ''r'' 7) \<and>
    VerifyDir sample_lib length_sha (gen_dir ''/g'' ''o'' ''r'' 7) ''/pub'' s' = Inr m \<and>
    captured sample_lib length_sha ''/k'' (gen_dir ''/g'' ''o'' ''r'' 7) sample_result sample_backup m s'"
  by (rule captured_generation_verifies [OF sample_ready sample_lawful])

definition changed_result :: repo_result where
  "changed_result = sample_result\<lparr>rr_BundleSHA256 := ''6''\<rparr>"

theorem failed_capture_counts_witness:
  "\<exists>e s'. Capture sample_lib length_sha 7 (\<lambda>_. True) ''/k'' ''/g'' changed_result 1 sample_backup = (Inl e, s') \<and>
     set (subdirs (gen_base ''/g'' ''o'' ''r'') s') = {stamp_nanos 7, ''.replica-1''}"
proof -
  have names: "Cut (rr_FullName changed_result) = (''o'', ''r'', True)" "TrimSpace (rr_FullName changed_result) \<noteq> []"
      "rr_BundlePath changed_result = ''b''" "rr_BundleSHA256 changed_result = ''6''" "resolve ''/k'' ''b'' = ''/k/b''" by code_simp+
  have src: "read_file (gs_files (mkdir_all d sample_backup)) ''/k/b'' = Some ''hello''" for d
    by (simp add: mkdir_all_def sample_backup_def read_file_def file_inode_def)
  let ?D = "gen_dir ''/g'' ''o'' ''r'' 7"
  have new: "read_file (gs_files (mkdir_all ?D sample_backup)) (path_Join [?D, ''repo.bundle'']) = None" and wf: "files_wf (gs_files (mkdir_all ?D sample_backup))"
    using sample_backup_facts(1,3) gen_paths(3) [of "''/g''" "''o''" "''r''" "''repo.bundle''" 7] below_child
    by (auto simp: mkdir_all_def plain_name_def in_tree_def)
  obtain s1 where s1: "linkOrCopy 7 (\<lambda>_. True) ''/k/b'' (path_Join [?D, ''repo.bundle'']) (mkdir_all ?D sample_backup) = (None, s1)"
      "read_file (gs_files s1) (path_Join [?D, ''repo.bundle'']) = Some ''hello''"
    using linkOrCopy_adds [OF wf src new, of 7 "\<lambda>_. True"] by (auto simp: adds_file_def)
  have "show_nat (Suc (Suc (Suc (Suc (Suc 0))))) \<noteq> ''6''" by code_simp
  then obtain e where run: "Capture sample_lib length_sha 7 (\<lambda>_. True) ''/k'' ''/g'' changed_result 1 sample_backup = (Inl e, s1)"
    using names s1 by (simp add: Capture_def capture_source_def capture_file_def fileSHA256_def length_sha_def gen_dir_def [symmetric] Let_def)
  have "rr_FullName changed_result = ''o'' @ CHR ''/'' # ''r''" by code_simp
  from failed_capture_counts [OF run this sample_backup_facts(1)] run show ?thesis
    using sample_backup_facts(2,3) by (auto simp: plain_name_def)
qed

text \<open>An archive with an entry that points out of the target.\<close>

definition hostile_state :: gen_state where
  "hostile_state = \<lparr>gs_files = \<lparr>fs_names = [(''/a'', 0), (''/etc/passwd'', 1)],
     fs_inodes = [(0, (enc_strs [''x'', ''1'', ''../etc/passwd'', ''2''], 5)), (1, (''secret'', 5))], fs_next = 2\<rparr>, gs_dirs = []\<rparr>"

theorem extract_confined_witness:
  "\<exists>e s'. extractTarGz sample_lib 7 ''/a'' ''/t'' hostile_state = (e, s') \<and> e \<noteq> None \<and> read_file (gs_files s') ''/t/x'' = Some ''1'' \<and>
     read_file (gs_files s') ''/etc/passwd'' = read_file (gs_files hostile_state) ''/etc/passwd''"
proof -
  obtain e s' where run: "extractTarGz sample_lib 7 ''/a'' ''/t'' hostile_state = (e, s')" by fastforce
  have "fst (extractTarGz sample_lib 7 ''/a'' ''/t'' hostile_state) \<noteq> None"
      "read_file (gs_files (snd (extractTarGz sample_lib 7 ''/a'' ''/t'' hostile_state))) ''/t/x'' = Some ''1''" by code_simp+
  moreover have "files_wf (gs_files hostile_state)" by (simp add: hostile_state_def files_wf_def)
  moreover have "\<not> below (path_Clean ''/t'') ''/etc/passwd''" by code_simp
  moreover have "path_Clean ''/t'' = ''/t''" by code_simp
  then have "\<not> (\<exists>q. below (path_Clean ''/t'') q \<and> same_file (gs_files hostile_state) ''/etc/passwd'' q)"
    by (auto simp: same_file_def hostile_state_def below_def HasPrefix_iff split: if_splits)
  ultimately show ?thesis using extract_confined [OF run] run by auto
qed

definition signed_text :: string where
  "signed_text = enc_meta ((new_meta 7 sample_result)\<lparr>gm_BundlePath := ''repo.bundle'', gm_BundleSHA256 := ''5''\<rparr>)"

definition signed_lib :: gen_lib where
  "signed_lib = sample_lib\<lparr>lb_verify := \<lambda>k b s. if b = signed_text \<and> s = ''sig'' then None else Some (GoErr ''signature verification failed'')\<rparr>"

definition signed_state :: gen_state where
  "signed_state = \<lparr>gs_files = \<lparr>fs_names = [(''/g/o/r/1/generation.json'', 0), (''/g/o/r/1/generation.json.sig'', 1), (''/g/o/r/1/repo.bundle'', 2)],
     fs_inodes = [(0, (signed_text, 5)), (1, (''sig'', 5)), (2, (''hello'', 5))], fs_next = 3\<rparr>, gs_dirs = []\<rparr>"

theorem restore_authentic_witness:
  "\<exists>data m dir. data = signed_text \<and> lb_unmarshal signed_lib data = Inr m \<and> read_file (gs_files signed_state) (path_Join [dir, ''generation.json'']) = Some data \<and>
     \<not> exists_path ''/t'' signed_state"
proof -
  have meta: "dec_meta signed_text = Inr ((new_meta 7 sample_result)\<lparr>gm_BundlePath := ''repo.bundle'', gm_BundleSHA256 := ''5''\<rparr>)"
    by (simp add: dec_meta_def signed_text_def enc_meta_def dec_enc_strs dec_enc_int new_meta_def)
  have "path_Join [''/g'', ''o'', ''r'', ''1''] = ''/g/o/r/1''" "path_Join [''/g/o/r/1'', ''generation.json''] = ''/g/o/r/1/generation.json''"
      "path_Join [''/g/o/r/1'', ''generation.json.sig''] = ''/g/o/r/1/generation.json.sig''" "path_Join [''/g/o/r/1'', ''repo.bundle''] = ''/g/o/r/1/repo.bundle''"
      "Cut ''o/r'' = (''o'', ''r'', True)" "TrimSpace ''sig'' = ''sig''" "length_sha ''hello'' = ''5''"
    by code_simp+
  moreover have "\<not> exists_path ''/t'' signed_state" by (simp add: exists_path_def signed_state_def read_file_def file_inode_def walk_def below_def HasPrefix_iff)
  ultimately obtain s' where "RestoreVerified signed_lib length_sha 7 ''/tmp'' ''/g'' ''o/r'' ''1'' ''/t'' ''/pub'' signed_state = (None, s')"
    using meta by (simp add: RestoreVerified_def Restore_def Find_def Read_def VerifySignature_def restore_source_def restore_lfs_def verifyFile_def fileSHA256_def
        signed_lib_def sample_lib_def signed_state_def read_file_def file_inode_def new_meta_def sample_result_def Let_def)
  note restored = restore_authentic [OF this, of "{signed_text}"]
  have "\<forall>data sig. lb_verify signed_lib ''/pub'' data sig = None \<longrightarrow> data \<in> {signed_text}" by (simp add: signed_lib_def)
  from restored [OF this] obtain data m dir where "data \<in> {signed_text}" "lb_unmarshal signed_lib data = Inr m"
      "read_file (gs_files signed_state) (path_Join [dir, ''generation.json'']) = Some data" by blast
  then show ?thesis using \<open>\<not> exists_path ''/t'' signed_state\<close> by blast
qed

end
