(* ===== verification/Repl_Crypto.thy ===== *)
theory Repl_Crypto
  imports Generations "HOL-Library.Word"
begin

text \<open>
  The encryption of replication streams (\<^verbatim>\<open>internal/replication/crypto.go\<close>): key files, the key derivation, and the framing of
  a stream as sealed chunks with 32-bit lengths.

  The libraries are the record \<open>crypto\<close>: base64, X25519, HMAC-SHA256 and AES-GCM.  A reader is the list of what its
  \<^verbatim>\<open>Read\<close> calls return.  The ephemeral key and the nonces are arguments; writing does not fail.
\<close>

unbundle bit_operations_syntax

record crypto =
  cr_encode :: "string \<Rightarrow> string"
  cr_decode :: "string \<Rightarrow> string result"
  cr_private :: "string \<Rightarrow> string result"
  cr_public :: "string \<Rightarrow> string result"
  cr_public_of :: "string \<Rightarrow> string"
  cr_ecdh :: "string \<Rightarrow> string \<Rightarrow> string result"
  cr_hmac :: "string \<Rightarrow> string \<Rightarrow> string"
  cr_seal :: "string \<Rightarrow> string \<Rightarrow> string \<Rightarrow> string"
  cr_open :: "string \<Rightarrow> string \<Rightarrow> string \<Rightarrow> string result"

definition crypto_magic :: string where "crypto_magic = ''RARKRPL1''"
definition chunkSize :: nat where "chunkSize = 1048576"
definition maxFrame :: nat where "maxFrame = chunkSize + 128"
definition keyVersion :: string where "keyVersion = ''x25519-v1''"

section \<open>Keys\<close>

definition key_space :: "char \<Rightarrow> bool" where
  "key_space c \<longleftrightarrow> c = CHR '' '' \<or> c = CHR 0x0A \<or> c = CHR 0x0D \<or> c = CHR 0x09"

definition stringTrimSpace :: "string \<Rightarrow> string" where
  "stringTrimSpace s = rev (dropWhile key_space (rev (dropWhile key_space s)))"

definition parsePrivate :: "crypto \<Rightarrow> string \<Rightarrow> string result" where
  "parsePrivate C b = (case cr_decode C (stringTrimSpace b) of
     Inl e \<Rightarrow> Inl (prefix_error ''decode replication private key: '' e)
   | Inr raw \<Rightarrow> (case cr_private C raw of Inl e \<Rightarrow> Inl (prefix_error ''replication private key: '' e) | Inr priv \<Rightarrow> Inr priv))"

text \<open>\<open>fresh\<close> is the key the generator would make.\<close>

definition EnsureKey :: "crypto \<Rightarrow> time \<Rightarrow> string \<Rightarrow> string \<Rightarrow> gen_state \<Rightarrow> string result \<times> gen_state" where
  "EnsureKey C now fresh path s =
     (if path = [] then (Inl (GoErr ''replication key path is empty''), s)
      else case read_file (gs_files s) path of
        Some b \<Rightarrow> (case parsePrivate C b of Inl e \<Rightarrow> (Inl e, s) | Inr priv \<Rightarrow> (Inr (cr_encode C (cr_public_of C priv)), s))
      | None \<Rightarrow> (Inr (cr_encode C (cr_public_of C fresh)), put_state now path (cr_encode C fresh @ [CHR 0x0A]) s))"

definition PublicFromPrivate :: "crypto \<Rightarrow> string \<Rightarrow> gen_state \<Rightarrow> string result" where
  "PublicFromPrivate C path s = (case read_file (gs_files s) path of
     None \<Rightarrow> Inl (GoErr ''file does not exist'')
   | Some b \<Rightarrow> (case parsePrivate C b of Inl e \<Rightarrow> Inl e | Inr priv \<Rightarrow> Inr (cr_encode C (cr_public_of C priv))))"

definition deriveKey :: "crypto \<Rightarrow> string \<Rightarrow> string \<Rightarrow> string \<Rightarrow> string" where
  "deriveKey C shared ephemeralPublic destinationPublic =
     take 32 (cr_hmac C (cr_hmac C ''repoark-replication-x25519-v1'' shared) (keyVersion @ ephemeralPublic @ destinationPublic @ [CHR 0x01]))"

section \<open>Frames\<close>

definition be32 :: "32 word \<Rightarrow> string" where
  "be32 w = map (\<lambda>k. char_of (unat (drop_bit k w))) [24, 16, 8, 0]"

definition un_be32 :: "string \<Rightarrow> 32 word" where
  "un_be32 s = foldl (\<lambda>w c. push_bit 8 w OR word_of_nat (of_char c)) 0 s"

datatype read_end = More | AtEOF | ReadFails go_error

definition seal_frame :: "crypto \<Rightarrow> string \<Rightarrow> string \<Rightarrow> string \<Rightarrow> string result" where
  "seal_frame C key nonce plain = (let sealed = cr_seal C key nonce plain in
     if length sealed > maxFrame then Inl (GoErr ''replication frame exceeded maximum'')
     else Inr (be32 (word_of_nat (length sealed)) @ nonce @ sealed))"

text \<open>The read loop; the \<open>i\<close>-th frame is sealed with \<open>nonce i\<close>.\<close>

fun encrypt_loop :: "crypto \<Rightarrow> string \<Rightarrow> (nat \<Rightarrow> string) \<Rightarrow> nat \<Rightarrow> (string \<times> read_end) list \<Rightarrow> string \<Rightarrow> string result" where
  "encrypt_loop C key nonce i [] out = Inr (out @ be32 0)"
| "encrypt_loop C key nonce i ((buf, e) # rs) out =
     (case (if buf = [] then Inr [] else seal_frame C key (nonce i) buf) of
        Inl err \<Rightarrow> Inl err
      | Inr frame \<Rightarrow>
          (case e of
             AtEOF \<Rightarrow> Inr (out @ frame @ be32 0)
           | ReadFails err \<Rightarrow> Inl err
           | More \<Rightarrow> encrypt_loop C key nonce (if buf = [] then i else Suc i) rs (out @ frame)))"

definition Encrypt :: "crypto \<Rightarrow> string \<Rightarrow> (nat \<Rightarrow> string) \<Rightarrow> (string \<times> read_end) list \<Rightarrow> string \<Rightarrow> string result" where
  "Encrypt C eph nonce src destinationPublicBase64 =
     (case cr_decode C destinationPublicBase64 of
        Inl e \<Rightarrow> Inl (prefix_error ''decode destination public key: '' e)
      | Inr pubRaw \<Rightarrow>
          (case cr_public C pubRaw of
             Inl e \<Rightarrow> Inl (prefix_error ''destination public key: '' e)
           | Inr dest \<Rightarrow>
               (case cr_ecdh C eph dest of
                  Inl e \<Rightarrow> Inl e
                | Inr shared \<Rightarrow>
                    encrypt_loop C (deriveKey C shared (cr_public_of C eph) dest) nonce 0 src (crypto_magic @ cr_public_of C eph))))"

definition ReadFull :: "nat \<Rightarrow> string \<Rightarrow> (string \<times> string) result" where
  "ReadFull n s = (if n \<le> length s then Inr (take n s, drop n s) else Inl (GoErr (if s = [] then ''EOF'' else ''unexpected EOF'')))"

text \<open>The frame loop; what was decrypted before an error has been written to the destination.\<close>

function decrypt_loop :: "crypto \<Rightarrow> string \<Rightarrow> string \<Rightarrow> string \<Rightarrow> go_error option \<times> string" where
  "decrypt_loop C key src out =
     (case ReadFull 4 src of
        Inl e \<Rightarrow> (Some e, out)
      | Inr (head, r1) \<Rightarrow>
          let n = un_be32 head in
          if n = 0 then (None, out)
          else if unat n > maxFrame then (Some (GoErr ''replication frame too large''), out)
          else (case ReadFull 12 r1 of
              Inl e \<Rightarrow> (Some e, out)
            | Inr (nonce, r2) \<Rightarrow>
                (case ReadFull (unat n) r2 of
                   Inl e \<Rightarrow> (Some e, out)
                 | Inr (sealed, r3) \<Rightarrow>
                     (case cr_open C key nonce sealed of
                        Inl e \<Rightarrow> (Some (prefix_error ''replication authentication failed: '' e), out)
                      | Inr plain \<Rightarrow> decrypt_loop C key r3 (out @ plain)))))"
  by pat_completeness auto

termination
  by (relation "measure (\<lambda>(C, key, src, out). length src)") (auto simp: ReadFull_def split: if_splits)

declare decrypt_loop.simps [simp del]

definition Decrypt :: "crypto \<Rightarrow> string \<Rightarrow> string \<Rightarrow> gen_state \<Rightarrow> go_error option \<times> string" where
  "Decrypt C src privateKeyPath s =
     (case read_file (gs_files s) privateKeyPath of
        None \<Rightarrow> (Some (GoErr ''file does not exist''), [])
      | Some b \<Rightarrow>
          (case parsePrivate C b of
             Inl e \<Rightarrow> (Some e, [])
           | Inr priv \<Rightarrow>
               (case ReadFull (length crypto_magic) src of
                  Inl e \<Rightarrow> (Some e, [])
                | Inr (head, r1) \<Rightarrow>
                    if head \<noteq> crypto_magic then (Some (GoErr ''invalid replication stream magic''), [])
                    else (case ReadFull 32 r1 of
                        Inl e \<Rightarrow> (Some e, [])
                      | Inr (ephRaw, r2) \<Rightarrow>
                          (case cr_public C ephRaw of
                             Inl e \<Rightarrow> (Some e, [])
                           | Inr eph \<Rightarrow>
                               (case cr_ecdh C priv eph of
                                  Inl e \<Rightarrow> (Some e, [])
                                | Inr shared \<Rightarrow> decrypt_loop C (deriveKey C shared ephRaw (cr_public_of C priv)) r2 []))))))"

end
