(* ===== verification/Runner.thy ===== *)
theory Runner
  imports Repl_Crypto Scrub Cas_Sync Full_Config Worker_Pool
begin

text \<open>
  The job runner (\<^verbatim>\<open>Runner\<close> of \<^verbatim>\<open>internal/controlplane/worker.go\<close>, \<^verbatim>\<open>repairObject\<close> of \<^verbatim>\<open>repair_distributed.go\<close>, \<^verbatim>\<open>protectErasure\<close> of
  \<^verbatim>\<open>erasure_distributed.go\<close>): what executing a job does
  to the store and to the files of the worker's host.

  The environment holds the store's operations, the configuration, the libraries, the clock, the names the system picks
  for temporary directories, and what lies outside: the backup of a repository with git, the GitLab mirror, the way a pipe splits
  what is written into it.  \<open>re_remote\<close> is the transfer part of a \<^verbatim>\<open>RemoteStore\<close>, which a worker of the control plane does not have.
  Temporary files outside the configured directories are values.
\<close>

section \<open>Payloads and environment\<close>

record backup_job_payload =
  bp_RepositoryID :: string
  bp_FullName :: string

definition unmarshal_backup :: "json_text \<Rightarrow> backup_job_payload option" where
  "unmarshal_backup t = (case t of
     Some (JObj fs) \<Rightarrow>
       (case (str_field ''repository_id'' fs, str_field ''full_name'' fs) of
          (Some a, Some b) \<Rightarrow> Some \<lparr>bp_RepositoryID = a, bp_FullName = b\<rparr> | _ \<Rightarrow> None)
   | Some JNull \<Rightarrow> Some \<lparr>bp_RepositoryID = [], bp_FullName = []\<rparr>
   | _ \<Rightarrow> None)"

record 's remote =
  rm_upload :: "string \<Rightarrow> string \<Rightarrow> 's \<Rightarrow> install_replica_payload result \<times> 's"
  rm_upload_file :: "string \<Rightarrow> string \<Rightarrow> int \<Rightarrow> int \<Rightarrow> int \<Rightarrow> 's \<Rightarrow> install_replica_payload result \<times> 's"
  rm_download :: "string \<Rightarrow> string result"
  rm_download_file :: "string \<Rightarrow> string \<Rightarrow> int \<Rightarrow> string \<Rightarrow> int \<Rightarrow> int \<Rightarrow> gen_state \<Rightarrow> go_error option \<times> gen_state"

record 's runner_state =
  ru_st :: 's
  ru_ids :: nat
  ru_gen :: gen_state
  ru_erasure :: "(string, erasure_dir) gomap"

record 's runner_env =
  re_store :: "'s store_iface"
  re_cfg :: full_config
  re_lib :: gen_lib
  re_crypto :: crypto
  re_rs :: rs_codec
  re_sha :: "string \<Rightarrow> string"
  re_now :: time
  re_link_ok :: "string \<Rightarrow> bool"
  re_newID :: "string \<Rightarrow> nat \<Rightarrow> string"
  re_cwd :: string
  re_tmp :: string
  re_suffix :: string
  re_eph :: string
  re_fresh :: string
  re_nonce :: "nat \<Rightarrow> string"
  re_pipe :: "string \<Rightarrow> (string \<times> read_end) list"
  re_cancelled :: "nat \<Rightarrow> bool"
  re_rclone :: "string \<Rightarrow> string \<Rightarrow> go_error option"
  re_backup :: "string \<Rightarrow> gen_state \<Rightarrow> repo_result result \<times> gen_state"
  re_mirror :: "repo_result \<Rightarrow> go_error option"
  re_marshal :: "repo_result \<Rightarrow> json_text"
  re_unmarshal :: "json_text \<Rightarrow> repo_result option"
  re_cas_marshal :: "cas_manifest \<Rightarrow> string"
  re_cas_unmarshal :: "string \<Rightarrow> cas_manifest result"
  re_tar :: "tar_stream \<Rightarrow> string"
  re_untar :: "string \<Rightarrow> tar_stream"
  re_remote :: "'s remote option"

text \<open>\<^verbatim>\<open>if err := f(); err != nil { return err }\<close>\<close>

definition and_then :: "go_error option \<times> 'r \<Rightarrow> ('r \<Rightarrow> go_error option \<times> 'r) \<Rightarrow> go_error option \<times> 'r" where
  "and_then r k = (case r of (Some e, s) \<Rightarrow> (Some e, s) | (None, s) \<Rightarrow> k s)"

definition st_call :: "('s \<Rightarrow> 'a result \<times> 's) \<Rightarrow> 's runner_state \<Rightarrow> go_error option \<times> 's runner_state" where
  "st_call f s = (case f (ru_st s) of (Inl e, st) \<Rightarrow> (Some e, s\<lparr>ru_st := st\<rparr>) | (Inr _, st) \<Rightarrow> (None, s\<lparr>ru_st := st\<rparr>))"

definition gen_call :: "(gen_state \<Rightarrow> go_error option \<times> gen_state) \<Rightarrow> 's runner_state \<Rightarrow> go_error option \<times> 's runner_state" where
  "gen_call f s = (case f (ru_gen s) of (e, g) \<Rightarrow> (e, s\<lparr>ru_gen := g\<rparr>))"

definition enqueue :: "'s runner_env \<Rightarrow> job \<Rightarrow> 's runner_state \<Rightarrow> go_error option \<times> 's runner_state" where
  "enqueue en j s = st_call (i_Enqueue (re_store en) (re_now en) (re_newID en ''job'' (ru_ids s)) j) (s\<lparr>ru_ids := ru_ids s + 1\<rparr>)"

abbreviation re_gn :: "'s runner_env \<Rightarrow> generation_config" where "re_gn en \<equiv> cp_Generations (fc_ControlPlane (re_cfg en))"
abbreviation re_rc :: "'s runner_env \<Rightarrow> replication_config" where "re_rc en \<equiv> cp_Replication (fc_ControlPlane (re_cfg en))"
abbreviation re_sc :: "'s runner_env \<Rightarrow> storage_data_config" where "re_sc en \<equiv> cp_Storage (fc_ControlPlane (re_cfg en))"
abbreviation re_signed :: "'s runner_env \<Rightarrow> bool" where "re_signed en \<equiv> se_SignManifests (fc_Security (re_cfg en))"
abbreviation re_key :: "'s runner_env \<Rightarrow> string" where "re_key en \<equiv> se_SigningKeyPath (fc_Security (re_cfg en))"
abbreviation re_attempts :: "'s runner_env \<Rightarrow> int" where "re_attempts en \<equiv> wk_MaxAttempts (cp_Workers (fc_ControlPlane (re_cfg en)))"

section \<open>Backup and mirroring\<close>

definition capture_generation :: "'s runner_env \<Rightarrow> repo_result \<Rightarrow> gen_state \<Rightarrow> gen_meta result \<times> gen_state" where
  "capture_generation en res g =
     (let dir = bk_Root (fc_Backup (re_cfg en)); groot = gn_Root (re_gn en); keep = gn_KeepPerRepo (re_gn en) in
      if re_signed en then CaptureSigned (re_lib en) (re_sha en) (re_now en) (re_link_ok en) dir groot res keep (re_key en) g
      else Capture (re_lib en) (re_sha en) (re_now en) (re_link_ok en) dir groot res keep g)"

text \<open>The generation is captured and recorded; the result is its identifier.\<close>

definition record_capture :: "'s runner_env \<Rightarrow> job \<Rightarrow> backup_job_payload \<Rightarrow> repo_result \<Rightarrow> 's runner_state \<Rightarrow> string result \<times> 's runner_state" where
  "record_capture en job p res s =
     (case capture_generation en res (ru_gen s) of
        (Inl e, g) \<Rightarrow> (Inl e, s\<lparr>ru_gen := g\<rparr>)
      | (Inr meta, g) \<Rightarrow>
          let S = re_store en; path = path_Join [gn_Root (re_gn en), bp_FullName p, gm_ID meta, ''generation.json''];
              rec = \<lparr>g_ID = gm_ID meta, g_RepositoryID = bp_RepositoryID p, g_Repository = bp_FullName p, g_MetaPath = path, g_CreatedAt = gm_CreatedAt meta,
                g_Verified = gm_Verified meta, g_BundleSHA256 = gm_BundleSHA256 meta, g_LFSSHA256 = gm_LFSSHA256 meta\<rparr>;
              replicaAgent = (if j_LeaseOwner job = [] then LocalWorkerAffinity else j_LeaseOwner job);
              replica = \<lparr>rp_GenerationID = gm_ID meta, rp_RepositoryID = bp_RepositoryID p, rp_AgentID = replicaAgent, rp_MetaPath = path, rp_State = ReplicaReady,
                rp_Bytes = 0, rp_SHA256 = [], rp_VerifiedAt = re_now en, rp_UpdatedAt = zero_time\<rparr>
          in (case and_then (st_call (i_RecordGeneration S rec) (s\<lparr>ru_gen := g\<rparr>)) (\<lambda>s.
                   and_then (st_call (i_RecordReplica S (re_now en) replica) s)
                     (st_call (i_PruneGenerationRecords S (bp_RepositoryID p) (gn_KeepPerRepo (re_gn en))))) of
                (Some e, s1) \<Rightarrow> (Inl e, s1)
              | (None, s1) \<Rightarrow> (Inr (gm_ID meta), s1)))"

definition queue_mirror :: "'s runner_env \<Rightarrow> job \<Rightarrow> backup_job_payload \<Rightarrow> repo_result \<Rightarrow> 's runner_state \<Rightarrow> go_error option \<times> 's runner_state" where
  "queue_mirror en job p res s =
     (let m = cp_Mirroring (fc_ControlPlane (re_cfg en)) in
      if mi_Enabled m \<and> mi_AfterBackup m \<and> gl_Enabled (fc_GitLab (re_cfg en))
      then enqueue en (mk_job ''mirror-gitlab'' (bp_FullName p) (re_marshal en res) (j_LeaseOwner job) (j_Priority job) (re_attempts en) (re_now en)) s
      else (None, s))"

definition backupRepository :: "'s runner_env \<Rightarrow> job \<Rightarrow> 's runner_state \<Rightarrow> go_error option \<times> 's runner_state" where
  "backupRepository en job s =
     (case unmarshal_backup (j_Payload job) of
        None \<Rightarrow> (Some (GoErr ''invalid character in payload''), s)
      | Some p0 \<Rightarrow>
          let p = (if bp_FullName p0 = [] then p0\<lparr>bp_FullName := j_Target job\<rparr> else p0); S = re_store en in
          (case re_backup en (bp_FullName p) (ru_gen s) of
             (Inl e, g) \<Rightarrow> (Some e, snd (st_call (i_MarkBackupResult S (re_now en) (bp_RepositoryID p) False [] (re_now en)) (s\<lparr>ru_gen := g\<rparr>)))
           | (Inr res, g) \<Rightarrow>
               (case (if gn_Enabled (re_gn en) then record_capture en job p res (s\<lparr>ru_gen := g\<rparr>) else (Inr [], s\<lparr>ru_gen := g\<rparr>)) of
                  (Inl e, s1) \<Rightarrow> (Some e, s1)
                | (Inr gid, s1) \<Rightarrow>
                    and_then (st_call (i_MarkBackupResult S (re_now en) (bp_RepositoryID p) True gid (re_now en)) s1) (queue_mirror en job p res))))"

definition mirrorRepository :: "'s runner_env \<Rightarrow> job \<Rightarrow> 's runner_state \<Rightarrow> go_error option \<times> 's runner_state" where
  "mirrorRepository en job s = (case re_unmarshal en (j_Payload job) of
     None \<Rightarrow> (Some (GoErr ''invalid character in payload''), s)
   | Some res \<Rightarrow> (re_mirror en (if rr_FullName res = [] then res\<lparr>rr_FullName := j_Target job\<rparr> else res), s))"

section \<open>Restoring\<close>

definition restoreGeneration :: "'s runner_env \<Rightarrow> job \<Rightarrow> 's runner_state \<Rightarrow> go_error option \<times> 's runner_state" where
  "restoreGeneration en job s = (case unmarshal_restore_payload (j_Payload job) of
     None \<Rightarrow> (Some (GoErr ''invalid character in payload''), s)
   | Some p \<Rightarrow>
       if rsp_Repository p = [] \<or> rsp_GenerationID p = [] then (Some (GoErr ''invalid restore-generation payload''), s)
       else
         let target = (if rsp_Target p = [] then path_Join [gn_RestoreRoot (re_gn en), rsp_Repository p, rsp_GenerationID p] else rsp_Target p);
             groot = gn_Root (re_gn en)
         in gen_call (\<lambda>g. let g1 = mkdir_all (path_Dir target) g in
              if re_signed en
              then RestoreVerified (re_lib en) (re_sha en) (re_now en) (re_tmp en) groot (rsp_Repository p) (rsp_GenerationID p) target (re_key en @ ''.pub'') g1
              else Restore (re_lib en) (re_sha en) (re_now en) (re_tmp en) groot (rsp_Repository p) (rsp_GenerationID p) target g1) s)"

section \<open>Sending a generation\<close>

text \<open>What the encryption reads from the pipe when the archive is written into it, or fails.\<close>

definition piped :: "'s runner_env \<Rightarrow> string result \<Rightarrow> (string \<times> read_end) list" where
  "piped en r = (case r of Inl e \<Rightarrow> [([], ReadFails e)] | Inr c \<Rightarrow> re_pipe en c)"

definition put_new :: "time \<Rightarrow> string \<Rightarrow> string \<Rightarrow> gen_state \<Rightarrow> gen_state" where
  "put_new now p c g = g\<lparr>gs_files := put_file now p c (gs_files g)\<rparr>"

definition drop_file :: "string \<Rightarrow> gen_state \<Rightarrow> gen_state" where
  "drop_file p g = g\<lparr>gs_files := remove_file p (gs_files g)\<rparr>"

text \<open>The local relay: the part file takes the place of the blob when it is not too large.\<close>

definition stage_blob :: "'s runner_env \<Rightarrow> string \<Rightarrow> string \<Rightarrow> gen_state \<Rightarrow> go_error option \<times> gen_state" where
  "stage_blob en spool c g =
     (let maxBytes = rc_MaxTransferBytes (re_rc en); n = max 0 (min (int (length c)) (maxBytes + 1));
          g1 = drop_file (spool @ ''.part'') (mkdir_all (rc_SpoolRoot (re_rc en)) g)
      in if n > maxBytes then (Some (GoErr ''replication transfer exceeds configured maximum''), g1)
         else (None, put_new (re_now en) spool c g1))"

definition relay_blob :: "'s runner_env \<Rightarrow> job \<Rightarrow> replicate_generation_payload \<Rightarrow> string \<Rightarrow> 's runner_state \<Rightarrow> go_error option \<times> 's runner_state" where
  "relay_blob en job p c s =
     (let spool = replicationSpoolPath (rc_SpoolRoot (re_rc en)) (rg_TransferID p); n = int (length c); sum = re_sha en c in
      and_then (gen_call (stage_blob en spool c) s) (\<lambda>s1.
        let install = \<lparr>ir_TransferID = rg_TransferID p, ir_RepositoryID = rg_RepositoryID p, ir_Repository = rg_Repository p, ir_GenerationID = rg_GenerationID p,
              ir_SourceAgent = rg_SourceAgent p, ir_TargetAgent = rg_TargetAgent p, ir_CipherSHA256 = sum, ir_CipherBytes = n\<rparr>;
            transfer = \<lparr>t_ID = rg_TransferID p, t_GenerationID = rg_GenerationID p, t_RepositoryID = rg_RepositoryID p, t_SourceAgent = rg_SourceAgent p,
              t_TargetAgent = rg_TargetAgent p, t_SpoolPath = spool, t_State = TransferReady, t_Bytes = n, t_SHA256 = sum,
              t_ExpiresAt = replicationTransferExpiry (re_rc en) (re_now en), t_UpdatedAt = zero_time\<rparr>
        in (case st_call (i_RecordReplicationTransfer (re_store en) (re_now en) transfer) s1 of
              (Some e, s2) \<Rightarrow> (Some e, s2\<lparr>ru_gen := drop_file spool (ru_gen s2)\<rparr>)
            | (None, s2) \<Rightarrow>
                enqueue en (mk_job ''install-replica'' (rg_GenerationID p @ ''@'' @ rg_TargetAgent p) (marshal_install_replica install)
                  (rg_TargetAgent p) (j_Priority job) (re_attempts en) (re_now en)) s2)))"

definition upload_blob :: "'s runner_env \<Rightarrow> 's remote \<Rightarrow> string \<Rightarrow> string \<Rightarrow> 's runner_state \<Rightarrow> go_error option \<times> 's runner_state" where
  "upload_blob en rm i c s =
     (if sc_ChunkBytes (re_sc en) > 0
      then st_call (rm_upload_file rm i c (sc_ChunkBytes (re_sc en)) (sc_ChunkRetries (re_sc en)) (sc_BandwidthLimitMbps (re_sc en))) s
      else st_call (rm_upload rm i c) s)"

definition replicateGeneration :: "'s runner_env \<Rightarrow> job \<Rightarrow> 's runner_state \<Rightarrow> go_error option \<times> 's runner_state" where
  "replicateGeneration en job s = (case unmarshal_replicate_generation (j_Payload job) of
     None \<Rightarrow> (Some (GoErr ''invalid character in payload''), s)
   | Some p \<Rightarrow>
       if rg_TransferID p = [] \<or> rg_Repository p = [] \<or> rg_GenerationID p = [] \<or> rg_TargetAgent p = [] \<or> rg_TargetReplicationPubKey p = []
       then (Some (GoErr ''invalid replicate-generation payload''), s)
       else (case Find (re_lib en) (gn_Root (re_gn en)) (rg_Repository p) (rg_GenerationID p) (ru_gen s) of
           Inl e \<Rightarrow> (Some e, s)
         | Inr (_, dir) \<Rightarrow>
             (case (if re_signed en then (case VerifyDir (re_lib en) (re_sha en) dir (re_key en @ ''.pub'') (ru_gen s) of Inl e \<Rightarrow> Some e | Inr _ \<Rightarrow> None) else None) of
                Some e \<Rightarrow> (Some e, s)
              | None \<Rightarrow>
                  (case Encrypt (re_crypto en) (re_eph en) (re_nonce en) (piped en (ArchiveGeneration (re_lib en) dir (ru_gen s))) (rg_TargetReplicationPubKey p) of
                     Inl e \<Rightarrow> (Some e, s)
                   | Inr c \<Rightarrow> (case re_remote en of Some rm \<Rightarrow> upload_blob en rm (rg_TransferID p) c s | None \<Rightarrow> relay_blob en job p c s)))))"

section \<open>Installing a generation\<close>

text \<open>The encrypted blob: a file below the generations for a resumable download, otherwise a temporary file.\<close>

definition cipher_part :: "string \<Rightarrow> string \<Rightarrow> string" where
  "cipher_part dir i = path_Join [path_Join [dir, ''.repoark-transfers''], i @ ''.cipher.part'']"

definition download_part ::
  "'s runner_env \<Rightarrow> 's remote \<Rightarrow> string \<Rightarrow> string \<Rightarrow> int \<Rightarrow> string \<Rightarrow> gen_state \<Rightarrow> string result \<times> gen_state" where
  "download_part en rm dir i bytes want g =
     (case rm_download_file rm i (cipher_part dir i) bytes want (sc_ChunkRetries (re_sc en)) (sc_BandwidthLimitMbps (re_sc en))
             (mkdir_all (path_Join [dir, ''.repoark-transfers'']) g) of
        (Some e, g1) \<Rightarrow> (Inl e, g1)
      | (None, g1) \<Rightarrow> (case read_file (gs_files g1) (cipher_part dir i) of None \<Rightarrow> (Inl (GoErr ''file does not exist''), g1) | Some c \<Rightarrow> (Inr c, g1)))"

definition read_spool :: "'s runner_env \<Rightarrow> install_replica_payload \<Rightarrow> 's runner_state \<Rightarrow> string result" where
  "read_spool en p s = (case i_GetReplicationTransfer (re_store en) (ir_TransferID p) (ru_st s) of
     Inl e \<Rightarrow> Inl e
   | Inr t \<Rightarrow>
       if \<not> IsZero (t_ExpiresAt t) \<and> \<not> t_ExpiresAt t > re_now en then Inl (GoErr ''replication transfer expired'')
       else if t_TargetAgent t \<noteq> ir_TargetAgent p \<or> t_GenerationID t \<noteq> ir_GenerationID p \<or> t_SHA256 t \<noteq> ir_CipherSHA256 p \<or> t_Bytes t \<noteq> ir_CipherBytes p
       then Inl (GoErr ''replication transfer metadata mismatch'')
       else (case read_file (gs_files (ru_gen s)) (replicationSpoolPath (rc_SpoolRoot (re_rc en)) (ir_TransferID p)) of
           None \<Rightarrow> Inl (GoErr ''file does not exist'') | Some c \<Rightarrow> Inr c))"

definition fetch_cipher :: "'s runner_env \<Rightarrow> install_replica_payload \<Rightarrow> 's runner_state \<Rightarrow> string result \<times> 's runner_state" where
  "fetch_cipher en p s = (case re_remote en of
     Some rm \<Rightarrow>
       if sc_ChunkBytes (re_sc en) > 0
       then (case download_part en rm (gn_Root (re_gn en)) (ir_TransferID p) (ir_CipherBytes p) (ir_CipherSHA256 p) (ru_gen s) of (r, g) \<Rightarrow> (r, s\<lparr>ru_gen := g\<rparr>))
       else (rm_download rm (ir_TransferID p), s)
   | None \<Rightarrow> (read_spool en p s, s))"

text \<open>\<^verbatim>\<open>os.Rename\<close> of a directory to a path that does not exist.\<close>

definition moved :: "string \<Rightarrow> string \<Rightarrow> string \<Rightarrow> string" where
  "moved src dst p = (if in_tree src p then dst @ drop (length src) p else p)"

definition rename_tree :: "string \<Rightarrow> string \<Rightarrow> gen_state \<Rightarrow> gen_state" where
  "rename_tree src dst g = g\<lparr>gs_files := (gs_files g)\<lparr>fs_names := map (\<lambda>(p, i). (moved src dst p, i)) (fs_names (gs_files g))\<rparr>,
     gs_dirs := map (moved src dst) (gs_dirs g)\<rparr>"

definition trusted_key :: "'s runner_env \<Rightarrow> string" where
  "trusted_key en = (if re_signed en then re_key en @ ''.pub'' else [])"

text \<open>Decryption, unpacking and verification in the staging directory, and the move to the final place.\<close>

definition unpack_staged :: "'s runner_env \<Rightarrow> string \<Rightarrow> string \<Rightarrow> string \<Rightarrow> gen_state \<Rightarrow> go_error option \<times> gen_state" where
  "unpack_staged en keyPath c stage g = (case Decrypt (re_crypto en) c keyPath g of
     (Some e, _) \<Rightarrow> (Some e, g)
   | (None, plain) \<Rightarrow> ExtractGeneration (re_lib en) (re_now en) (re_cwd en) plain stage g)"

definition place_generation :: "'s runner_env \<Rightarrow> install_replica_payload \<Rightarrow> string \<Rightarrow> string \<Rightarrow> gen_state \<Rightarrow> go_error option \<times> gen_state" where
  "place_generation en p stage final g =
     (case VerifyDir (re_lib en) (re_sha en) stage (trusted_key en) g of
        Inl e \<Rightarrow> (Some e, g)
      | Inr meta \<Rightarrow>
          if gm_Repository meta \<noteq> ir_Repository p \<or> gm_ID meta \<noteq> ir_GenerationID p then (Some (GoErr ''replicated generation identity mismatch''), g)
          else if exists_path final g
          then (case VerifyDir (re_lib en) (re_sha en) final (trusted_key en) g of Inl e \<Rightarrow> (Some e, g) | Inr _ \<Rightarrow> (None, g))
          else (None, rename_tree stage final g))"

text \<open>The destination's content-addressed store and its erasure sets take the new files in.\<close>

definition hydrate_cas :: "'s runner_env \<Rightarrow> string \<Rightarrow> 's runner_state \<Rightarrow> go_error option \<times> 's runner_state" where
  "hydrate_cas en final s =
     (let ca = fc_CAS (re_cfg en); ec = sc_Erasure (re_sc en); g = ru_gen s in
      if \<not> (ca_Enabled ca \<and> ca_AutoCompact ca) then (None, s)
      else (case Compact (re_sha en) (re_now en) (re_link_ok en) (cas_New (ca_Root ca) (ca_MinFileSize ca)) [final] (gs_files g) of
          (Inl e, fs) \<Rightarrow> (Some (prefix_error ''compact replicated generation into CAS: '' e), s\<lparr>ru_gen := g\<lparr>gs_files := fs\<rparr>\<rparr>)
        | (Inr _, fs) \<Rightarrow>
            let s1 = s\<lparr>ru_gen := g\<lparr>gs_files := fs\<rparr>\<rparr>; contents = (\<lambda>ps. map (\<lambda>q. (q, the (read_file fs q))) (filter (\<lambda>q. read_file fs q \<noteq> None) ps)) in
            if \<not> ec_Enabled ec then (None, s1)
            else (case ProtectPaths (re_rs en) (re_sha en) (re_now en)
                     \<lparr>cf_DataShards = ec_DataShards ec, cf_ParityShards = ec_ParityShards ec, cf_BlockBytes = ec_BlockBytes ec\<rparr>
                     (ca_Root ca) (contents (gkeys (fs_names fs))) (contents (walk final fs)) (ec_MinObjectBytes ec) (ru_erasure s) of
                (n, Some e, dirs) \<Rightarrow> (Some (prefix_error ''erasure-protect replicated CAS objects: '' e), s1\<lparr>ru_erasure := dirs\<rparr>)
              | (n, None, dirs) \<Rightarrow> (None, s1\<lparr>ru_erasure := dirs\<rparr>))))"

definition finish_install :: "'s runner_env \<Rightarrow> install_replica_payload \<Rightarrow> string \<Rightarrow> 's runner_state \<Rightarrow> go_error option \<times> 's runner_state" where
  "finish_install en p final s =
     (let S = re_store en;
          rp = \<lparr>rp_GenerationID = ir_GenerationID p, rp_RepositoryID = ir_RepositoryID p, rp_AgentID = ir_TargetAgent p,
            rp_MetaPath = path_Join [final, ''generation.json''], rp_State = ReplicaReady, rp_Bytes = ir_CipherBytes p, rp_SHA256 = ir_CipherSHA256 p,
            rp_VerifiedAt = re_now en, rp_UpdatedAt = zero_time\<rparr>
      in and_then (st_call (i_RecordReplica S (re_now en) rp) s) (\<lambda>s1.
           case re_remote en of
             Some rm \<Rightarrow> (None, if sc_ChunkBytes (re_sc en) > 0 then s1\<lparr>ru_gen := drop_file (cipher_part (gn_Root (re_gn en)) (ir_TransferID p)) (ru_gen s1)\<rparr> else s1)
           | None \<Rightarrow>
               let s2 = s1\<lparr>ru_gen := drop_file (replicationSpoolPath (rc_SpoolRoot (re_rc en)) (ir_TransferID p)) (ru_gen s1)\<rparr>
               in (None, snd (st_call (i_DeleteReplicationTransfer S (ir_TransferID p)) s2))))"

definition replication_key :: "'s runner_env \<Rightarrow> string" where
  "replication_key en = (case re_remote en of Some _ \<Rightarrow> ag_ReplicationKeyPath (cp_Agents (fc_ControlPlane (re_cfg en))) | None \<Rightarrow> rc_LocalKeyPath (re_rc en))"

definition installReplica :: "'s runner_env \<Rightarrow> job \<Rightarrow> 's runner_state \<Rightarrow> go_error option \<times> 's runner_state" where
  "installReplica en job s = (case unmarshal_install_replica (j_Payload job) of
     None \<Rightarrow> (Some (GoErr ''invalid character in payload''), s)
   | Some p \<Rightarrow>
       if ir_TransferID p = [] \<or> ir_Repository p = [] \<or> ir_GenerationID p = [] \<or> ir_TargetAgent p = []
       then (Some (GoErr ''invalid install-replica payload''), s)
       else (case fetch_cipher en p s of
           (Inl e, s1) \<Rightarrow> (Some e, s1)
         | (Inr c, s1) \<Rightarrow>
             (case EnsureKey (re_crypto en) (re_now en) (re_fresh en) (replication_key en) (ru_gen s1) of
                (Inl e, g2) \<Rightarrow> (Some e, s1\<lparr>ru_gen := g2\<rparr>)
              | (Inr _, g2) \<Rightarrow>
                  let parent = path_Join [gn_Root (re_gn en), ir_Repository p];
                      stage = path_Join [parent, ''.replica-'' @ ir_GenerationID p @ ''-'' @ re_suffix en];
                      final = path_Join [parent, ir_GenerationID p];
                      g3 = mkdir_all stage (mkdir_all parent g2);
                      run = and_then (unpack_staged en (replication_key en) c stage g3) (place_generation en p stage final);
                      done = and_then (fst run, s1\<lparr>ru_gen := snd run\<rparr>) (\<lambda>s4. and_then (hydrate_cas en final s4) (finish_install en p final))
                  in if CHR ''/'' \<in> set (ir_GenerationID p) then (Some (GoErr ''pattern contains path separator''), s1\<lparr>ru_gen := mkdir_all parent g2\<rparr>)
                     else (fst done, (snd done)\<lparr>ru_gen := remove_all stage (ru_gen (snd done))\<rparr>))))"

section \<open>Objects\<close>

definition replicateCAS :: "'s runner_env \<Rightarrow> job \<Rightarrow> 's runner_state \<Rightarrow> go_error option \<times> 's runner_state" where
  "replicateCAS en job s = (case unmarshal_replicate_cas (j_Payload job) of
     None \<Rightarrow> (Some (GoErr ''invalid character in payload''), s)
   | Some p \<Rightarrow>
       if rca_TransferID p = [] \<or> rca_SourceAgent p = [] \<or> rca_TargetAgent p = [] \<or> rca_TargetReplicationPubKey p = [] \<or> rca_Factor p < 1
       then (Some (GoErr ''invalid replicate-cas payload''), s)
       else
         let dir = ca_Root (fc_CAS (re_cfg en)); fs = gs_files (ru_gen s);
             archive = (if rca_Digests p \<noteq> [] then ArchiveDigests (re_sha en) (re_cas_marshal en) dir (rca_Digests p) fs
                        else Archive (re_sha en) (re_cas_marshal en) dir (rca_Prefixes p) (rca_PoolAgents p) (rca_Factor p) (rca_TargetAgent p) fs);
             bytes = (case fst archive of Inl e \<Rightarrow> Inl e | Inr _ \<Rightarrow> Inr (re_tar en (snd archive)))
         in (case Encrypt (re_crypto en) (re_eph en) (re_nonce en) (piped en bytes) (rca_TargetReplicationPubKey p) of
               Inl e \<Rightarrow> (Some e, s)
             | Inr c \<Rightarrow>
                 (case re_remote en of
                    None \<Rightarrow> (Some (GoErr ''CAS object replication requires resumable remote store''), s)
                  | Some rm \<Rightarrow> st_call (rm_upload_file rm (rca_TransferID p) c (sc_ChunkBytes (re_sc en)) (sc_ChunkRetries (re_sc en)) (sc_BandwidthLimitMbps (re_sc en))) s)))"

definition localFailureDomain :: "full_config \<Rightarrow> string \<Rightarrow> string \<Rightarrow> string" where
  "localFailureDomain cfg agentID key =
     (let v = TrimSpace (case gget (ag_Labels (cp_Agents (fc_ControlPlane cfg))) key of None \<Rightarrow> [] | Some v \<Rightarrow> v) in
      if agentID = LocalWorkerAffinity then (if TrimSpace key = [] then ''__local__'' else if v \<noteq> [] then v else ''__local__'')
      else if TrimSpace key = [] then [] else v)"

text \<open>An installed shard is referenced and recorded under the agent that holds it.\<close>

definition record_shard :: "'s runner_env \<Rightarrow> job \<Rightarrow> install_cas_payload \<Rightarrow> cas_manifest \<Rightarrow> erasure_shard_transfer \<Rightarrow> 's runner_state \<Rightarrow> go_error option \<times> 's runner_state" where
  "record_shard en job p m x s =
     (if \<not> list_ex (\<lambda>ob. EqualFold (co_Digest ob) (et_ShardSHA256 x)) (cm_Objects m)
      then (Some (GoErr (''erasure shard '' @ et_ShardSHA256 x @ '' missing from CAS transfer'')), s)
      else
        let agentID = (if j_LeaseOwner job = [] then ic_TargetAgent p else j_LeaseOwner job);
            domain = localFailureDomain (re_cfg en) agentID (ec_FailureDomainLabel (sc_Erasure (re_sc en)));
            owner = ''erasure:'' @ et_ObjectSHA256 x @ '':'' @ itoa (et_ShardIndex x)
        in and_then (st_call (i_EnsureObjectRef (re_store en) (re_now en)
               (zero_object_ref\<lparr>or_Digest := et_ShardSHA256 x, or_Kind := ''erasure-shard'', or_Bytes := et_ShardBytes x\<rparr>) owner) s)
             (st_call (i_RecordErasureShard (re_store en) (re_now en)
               \<lparr>sh_ObjectSHA256 = et_ObjectSHA256 x, sh_ShardIndex = et_ShardIndex x, sh_ShardSHA256 = et_ShardSHA256 x, sh_AgentID = agentID,
                 sh_FailureDomain = domain, sh_State = ShardReady, sh_Bytes = et_ShardBytes x, sh_UpdatedAt = zero_time\<rparr>)))"

definition installCAS :: "'s runner_env \<Rightarrow> job \<Rightarrow> 's runner_state \<Rightarrow> go_error option \<times> 's runner_state" where
  "installCAS en job s = (case unmarshal_install_cas (j_Payload job) of
     None \<Rightarrow> (Some (GoErr ''invalid character in payload''), s)
   | Some p \<Rightarrow>
       if ic_TransferID p = [] \<or> ic_TargetAgent p = [] \<or> ic_CipherSHA256 p = [] then (Some (GoErr ''invalid install-cas payload''), s)
       else (case re_remote en of
           None \<Rightarrow> (Some (GoErr ''CAS object installation requires resumable remote store''), s)
         | Some rm \<Rightarrow>
             let dir = ca_Root (fc_CAS (re_cfg en)) in
             (case download_part en rm dir (ic_TransferID p) (ic_CipherBytes p) (ic_CipherSHA256 p) (ru_gen s) of
                (Inl e, g1) \<Rightarrow> (Some e, s\<lparr>ru_gen := g1\<rparr>)
              | (Inr c, g1) \<Rightarrow>
                  (case Decrypt (re_crypto en) c (ag_ReplicationKeyPath (cp_Agents (fc_ControlPlane (re_cfg en)))) g1 of
                     (Some e, _) \<Rightarrow> (Some e, s\<lparr>ru_gen := g1\<rparr>)
                   | (None, plain) \<Rightarrow>
                       (case Extract (re_sha en) (re_cas_unmarshal en) (re_now en) (re_untar en plain) dir (gs_files g1) of
                          (Inl e, fs) \<Rightarrow> (Some e, s\<lparr>ru_gen := g1\<lparr>gs_files := fs\<rparr>\<rparr>)
                        | (Inr m, fs) \<Rightarrow>
                            and_then (case ic_Erasure p of
                                None \<Rightarrow> (None, s\<lparr>ru_gen := g1\<lparr>gs_files := fs\<rparr>\<rparr>)
                              | Some x \<Rightarrow> record_shard en job p m x (s\<lparr>ru_gen := g1\<lparr>gs_files := fs\<rparr>\<rparr>))
                              (\<lambda>s2. (None, s2\<lparr>ru_gen := drop_file (cipher_part dir (ic_TransferID p)) (ru_gen s2)\<rparr>)))))))"

section \<open>Repairing an object\<close>

definition overwriteVerified :: "(string \<Rightarrow> string) \<Rightarrow> time \<Rightarrow> string \<Rightarrow> string \<Rightarrow> string \<Rightarrow> files \<Rightarrow> go_error option \<times> files" where
  "overwriteVerified sha now b dst digest fs = (case read_file fs dst of
     None \<Rightarrow> (Some (GoErr ''file does not exist''), fs)
   | Some _ \<Rightarrow>
       let fs1 = overwrite_file now dst b fs in
       (case HashFile sha fs1 dst of
          Inl e \<Rightarrow> (Some e, fs1)
        | Inr (got, _) \<Rightarrow> if \<not> EqualFold got digest then (Some (GoErr ''post-repair digest mismatch''), fs1) else (None, fs1)))"

text \<open>The shards that are there and right, put into the staging directory.\<close>

fun stage_shards ::
  "(string \<Rightarrow> string) \<Rightarrow> time \<Rightarrow> (string \<Rightarrow> bool) \<Rightarrow> cas_store \<Rightarrow> string \<Rightarrow> int \<Rightarrow> repair_shard list \<Rightarrow> shard list \<times> int \<Rightarrow> files \<Rightarrow> (shard list \<times> int) \<times> files" where
  "stage_shards sha now link_ok st stage blockBytes [] acc fs = (acc, fs)"
| "stage_shards sha now link_ok st stage blockBytes (x # xs) (shs, blocks) fs =
     (let path = BlobPath st (rs_Digest x) in
      case read_file fs path of
        None \<Rightarrow> stage_shards sha now link_ok st stage blockBytes xs (shs, blocks) fs
      | Some c \<Rightarrow>
          if \<not> EqualFold (sha c) (rs_Digest x) then stage_shards sha now link_ok st stage blockBytes xs (shs, blocks) fs
          else
            let name = ''shard-'' @ (if rs_Index x < 0 then CHR ''-'' # pad0 2 (nat (- rs_Index x)) else pad0 3 (nat (rs_Index x))) @ ''.rs''; dst = path_Join [stage, name]; n = int (length c);
                fs1 = (if link_ok path \<and> read_file fs dst = None then link_over path dst fs else write_file now dst c fs)
            in stage_shards sha now link_ok st stage blockBytes xs
                 (shs @ [\<lparr>sd_Index = rs_Index x, sd_Name = name, sd_Bytes = n, sd_SHA256 = rs_Digest x\<rparr>], if n div blockBytes > blocks then n div blockBytes else blocks) fs1)"

definition staged_dir :: "string \<Rightarrow> manifest \<Rightarrow> files \<Rightarrow> erasure_dir" where
  "staged_dir stage m fs = \<lparr>ed_Manifest = Some m, ed_Files = map (\<lambda>p. (drop (Suc (length stage)) p, the (read_file fs p))) (walk stage fs)\<rparr>"

definition repairObject :: "'s runner_env \<Rightarrow> job \<Rightarrow> 's runner_state \<Rightarrow> go_error option \<times> 's runner_state" where
  "repairObject en job s = (case unmarshal_repair_object (j_Payload job) of
     None \<Rightarrow> (Some (GoErr ''invalid character in payload''), s)
   | Some p \<Rightarrow>
       if length (ro_Digest p) \<noteq> 64 \<or> ro_DataShards p < 2 \<or> ro_BlockBytes p \<le> 0 then (Some (GoErr ''invalid repair-object payload''), s)
       else
         let dir = ca_Root (fc_CAS (re_cfg en)); st = cas_New dir 0; stage = path_Join [path_Join [dir, ''.repoark-repair''], ''obj-'' @ re_suffix en];
             g0 = mkdir_all stage (mkdir_all (path_Join [dir, ''.repoark-repair'']) (ru_gen s)) in
         (case stage_shards (re_sha en) (re_now en) (re_link_ok en) st stage (ro_BlockBytes p) (ro_Shards p) ([], 0) (gs_files g0) of
            ((shs, blocks), fs) \<Rightarrow>
              let m = \<lparr>mf_Version = 1, mf_ObjectSHA256 = ro_Digest p, mf_OriginalBytes = ro_OriginalBytes p, mf_DataShards = ro_DataShards p,
                    mf_ParityShards = ro_ParityShards p, mf_BlockBytes = ro_BlockBytes p, mf_Blocks = blocks, mf_CreatedAt = re_now en, mf_Shards = shs\<rparr>;
                  run = (if int (length shs) < ro_DataShards p
                    then (Some (GoErr (''repair shards not available yet: '' @ show_nat (length shs) @ '' < '' @ itoa (ro_DataShards p))), fs)
                    else (case Reconstruct (re_rs en) (re_sha en) (staged_dir stage m fs) None of
                        (Inl e, _) \<Rightarrow> (Some e, fs)
                      | (Inr _, None) \<Rightarrow> (Some (GoErr ''file does not exist''), fs)
                      | (Inr _, Some b) \<Rightarrow>
                          if \<not> EqualFold (re_sha en b) (ro_Digest p) then (Some (GoErr ''distributed repair digest mismatch''), fs)
                          else overwriteVerified (re_sha en) (re_now en) b (BlobPath st (ro_Digest p)) (ro_Digest p) fs))
              in (fst run, s\<lparr>ru_gen := remove_all stage (g0\<lparr>gs_files := snd run\<rparr>)\<rparr>)))"

section \<open>Erasure protection\<close>

text \<open>The limit of the payload; a payload that cannot be decoded sets none.\<close>

definition unmarshal_limit :: "json_text \<Rightarrow> int" where
  "unmarshal_limit t = (case t of Some (JObj fs) \<Rightarrow> (case int_field ''limit'' fs of None \<Rightarrow> 0 | Some n \<Rightarrow> n) | _ \<Rightarrow> 0)"

text \<open>Ingesting a shard file of an erasure directory; the directory is a value outside the file system, so the file is put there for the call.\<close>

definition ingest_shard :: "'s runner_env \<Rightarrow> cas_store \<Rightarrow> string \<Rightarrow> string \<Rightarrow> erasure_dir \<Rightarrow> files \<Rightarrow> ingest_result result \<times> erasure_dir \<times> files" where
  "ingest_shard en st dir name d fs =
     (let path = path_Join [dir, path_Base name] in
      case gget (ed_Files d) (path_Base name) of
        None \<Rightarrow> (Inl (GoErr ''file does not exist''), d, fs)
      | Some c \<Rightarrow>
          (case Ingest (re_sha en) (re_now en) (re_link_ok en) st path (put_file (re_now en) path c fs) of
             (r, fs1) \<Rightarrow> (r, d\<lparr>ed_Files := gput (path_Base name) (case read_file fs1 path of None \<Rightarrow> c | Some c1 \<Rightarrow> c1) (ed_Files d)\<rparr>, remove_file path fs1)))"

text \<open>The shards of one object become referenced and recorded objects of the store.\<close>

fun protect_shards ::
  "'s runner_env \<Rightarrow> string \<Rightarrow> string \<Rightarrow> string \<Rightarrow> string \<Rightarrow> shard list \<Rightarrow> 's runner_state \<Rightarrow> go_error option \<times> 's runner_state" where
  "protect_shards en agentID domain digest dir [] s = (None, s)"
| "protect_shards en agentID domain digest dir (sh # shs) s =
     (case gget (ru_erasure s) dir of
        None \<Rightarrow> (Some (GoErr ''file does not exist''), s)
      | Some d \<Rightarrow>
          (case ingest_shard en (cas_New (ca_Root (fc_CAS (re_cfg en))) 0) dir (sd_Name sh) d (gs_files (ru_gen s)) of
             (r, d1, fs) \<Rightarrow>
               let s1 = s\<lparr>ru_erasure := gput dir d1 (ru_erasure s), ru_gen := (ru_gen s)\<lparr>gs_files := fs\<rparr>\<rparr>; lbl = digest @ ''/'' @ itoa (sd_Index sh) in
               (case r of
                  Inl e \<Rightarrow> (Some (prefix_error (''ingest erasure shard '' @ lbl @ '': '') e), s1)
                | Inr i \<Rightarrow>
                    if \<not> EqualFold (ig_SHA256 i) (sd_SHA256 sh) then (Some (GoErr (''erasure shard digest mismatch '' @ lbl)), s1)
                    else and_then (st_call (i_EnsureObjectRef (re_store en) (re_now en)
                           (zero_object_ref\<lparr>or_Digest := sd_SHA256 sh, or_Kind := ''erasure-shard'', or_Bytes := sd_Bytes sh\<rparr>)
                           (''erasure:'' @ digest @ '':'' @ itoa (sd_Index sh))) s1) (\<lambda>s2.
                         and_then (st_call (i_RecordErasureShard (re_store en) (re_now en)
                           \<lparr>sh_ObjectSHA256 = digest, sh_ShardIndex = sd_Index sh, sh_ShardSHA256 = sd_SHA256 sh, sh_AgentID = agentID, sh_FailureDomain = domain,
                             sh_State = ShardReady, sh_Bytes = sd_Bytes sh, sh_UpdatedAt = zero_time\<rparr>) s2)
                           (\<lambda>s3. protect_shards en agentID domain digest dir shs s3)))))"

text \<open>The manifest that is there, or the one of a new encoding.\<close>

definition shard_manifest :: "'s runner_env \<Rightarrow> object_info \<Rightarrow> string \<Rightarrow> 's runner_state \<Rightarrow> manifest result \<times> 's runner_state" where
  "shard_manifest en ob dir s =
     (let ec = sc_Erasure (re_sc en) in
      case (case gget (ru_erasure s) dir of None \<Rightarrow> Inl (GoErr ''file does not exist'') | Some d \<Rightarrow> ReadManifest d) of
        Inr m \<Rightarrow> (Inr m, s)
      | Inl _ \<Rightarrow>
          (case EncodeFile (re_rs en) (re_sha en) (re_now en)
                  \<lparr>cf_DataShards = ec_DataShards ec, cf_ParityShards = ec_ParityShards ec, cf_BlockBytes = ec_BlockBytes ec\<rparr>
                  (read_file (gs_files (ru_gen s)) (oi_Path ob)) (gget (ru_erasure s) dir) of
             (Inl e, _) \<Rightarrow> (Inl (prefix_error (''protect '' @ oi_Digest ob @ '': '') e), s)
           | (Inr m, None) \<Rightarrow> (Inr m, s)
           | (Inr m, Some d) \<Rightarrow> (Inr m, s\<lparr>ru_erasure := gput dir d (ru_erasure s)\<rparr>)))"

definition protect_object :: "'s runner_env \<Rightarrow> string \<Rightarrow> string \<Rightarrow> object_info \<Rightarrow> 's runner_state \<Rightarrow> go_error option \<times> 's runner_state" where
  "protect_object en agentID domain ob s =
     (let dir = path_Join [ca_Root (fc_CAS (re_cfg en)), ''erasure'', take 2 (oi_Digest ob), oi_Digest ob] in
      case shard_manifest en ob dir s of
        (Inl e, s1) \<Rightarrow> (Some e, s1)
      | (Inr m, s1) \<Rightarrow>
          if \<not> EqualFold (mf_ObjectSHA256 m) (oi_Digest ob) then (Some (GoErr (''erasure manifest/object mismatch for '' @ oi_Digest ob)), s1)
          else and_then (st_call (i_RecordErasureSet (re_store en) (re_now en)
                 \<lparr>es_ObjectSHA256 = oi_Digest ob, es_OriginalBytes = oi_Bytes ob, es_DataShards = mf_DataShards m, es_ParityShards = mf_ParityShards m,
                   es_BlockBytes = mf_BlockBytes m, es_State = ErasureReady, es_CreatedAt = mf_CreatedAt m, es_UpdatedAt = zero_time\<rparr>) s1)
                 (protect_shards en agentID domain (oi_Digest ob) dir (mf_Shards m)))"

fun protect_objects :: "'s runner_env \<Rightarrow> string \<Rightarrow> string \<Rightarrow> int \<Rightarrow> int \<Rightarrow> object_info list \<Rightarrow> 's runner_state \<Rightarrow> go_error option \<times> 's runner_state" where
  "protect_objects en agentID domain limit n [] s = (None, s)"
| "protect_objects en agentID domain limit n (ob # obs) s =
     (if oi_Bytes ob < ec_MinObjectBytes (sc_Erasure (re_sc en)) then protect_objects en agentID domain limit n obs s
      else if (case i_GetObjectRef (re_store en) (oi_Digest ob) (ru_st s) of Inl e \<Rightarrow> False | Inr (ref, found) \<Rightarrow> found \<and> or_Kind ref = ''erasure-shard'')
      then protect_objects en agentID domain limit n obs s
      else and_then (protect_object en agentID domain ob s) (\<lambda>s1.
             if limit > 0 \<and> n + 1 \<ge> limit then (None, s1) else protect_objects en agentID domain limit (n + 1) obs s1))"

definition protectErasure :: "'s runner_env \<Rightarrow> job \<Rightarrow> 's runner_state \<Rightarrow> go_error option \<times> 's runner_state" where
  "protectErasure en job s =
     (let ec = sc_Erasure (re_sc en) in
      if \<not> ec_Enabled ec then (None, s)
      else (case ListObjects (cas_New (ca_Root (fc_CAS (re_cfg en))) 0) (gs_files (ru_gen s)) of
          Inl e \<Rightarrow> (Some e, s)
        | Inr obs \<Rightarrow>
            let agentID = (if TrimSpace (j_LeaseOwner job) = [] then LocalWorkerAffinity else TrimSpace (j_LeaseOwner job))
            in protect_objects en agentID (localFailureDomain (re_cfg en) agentID (ec_FailureDomainLabel ec)) (unmarshal_limit (j_Payload job)) 0 obs s))"

section \<open>Dispatch\<close>

definition runner_Run :: "'s runner_env \<Rightarrow> job \<Rightarrow> 's runner_state \<Rightarrow> go_error option \<times> 's runner_state" where
  "runner_Run en job s =
     (let k = j_Kind job; c = control_config (re_cfg en); dir = ca_Root (fc_CAS (re_cfg en)); g = ru_gen s in
      if k = ''backup-repo'' then backupRepository en job s
      else if k = ''mirror-gitlab'' then mirrorRepository en job s
      else if k = ''restore-generation'' then restoreGeneration en job s
      else if k = ''replicate-generation'' then replicateGeneration en job s
      else if k = ''install-replica'' then installReplica en job s
      else if k = ''replicate-cas'' then replicateCAS en job s
      else if k = ''install-cas'' then installCAS en job s
      else if k = ''protect-erasure'' then protectErasure en job s
      else if k = ''scrub-cas'' then
        (case scrubCAS (re_store en) (re_newID en) (re_rs en) (re_sha en) (re_cancelled en) (re_now en, re_now en, re_now en) (ru_erasure s) dir c job (gs_files g)
                \<lparr>rn_n = 0, rn_err = None, rn_ids = ru_ids s, rn_st = ru_st s\<rparr> of
           ((_, e), fs, r) \<Rightarrow> (e, s\<lparr>ru_gen := g\<lparr>gs_files := fs\<rparr>, ru_ids := rn_ids r, ru_st := rn_st r\<rparr>))
      else if k = ''tier-cas'' then
        (case tierCAS (re_sha en) (re_cancelled en) (re_rclone en) (re_now en) dir c (gs_files g) of
           (Inl e, fs) \<Rightarrow> (Some e, s\<lparr>ru_gen := g\<lparr>gs_files := fs\<rparr>\<rparr>) | (Inr _, fs) \<Rightarrow> (None, s\<lparr>ru_gen := g\<lparr>gs_files := fs\<rparr>\<rparr>))
      else if k = ''repair-object'' then repairObject en job s
      else (Some (GoErr (''unsupported job kind '' @ [CHR 0x22] @ k @ [CHR 0x22])), s))"

end
