(* ===== verification/Repl_Crypto_Properties.thy ===== *)
theory Repl_Crypto_Properties
  imports Repl_Crypto
begin

text \<open>
  A stream encrypted for a destination decrypts there to the bytes that were read, however the reader splits
  them; and what the frames of a stream do not bind: their order and their number.
\<close>

section \<open>Lengths\<close>

lemma un_be32_be32: "un_be32 (be32 w) = w"
proof -
  have char: "word_of_nat (of_char (char_of n :: char)) = (take_bit 8 (word_of_nat n) :: 32 word)" for n :: nat
  proof -
    have "of_char (char_of n :: char) = (take_bit 8 n :: nat)" by (simp add: take_bit_eq_mod)
    then show ?thesis by (simp only: take_bit_of_nat)
  qed
  show ?thesis
    by (simp add: un_be32_def be32_def char del: of_char_of, rule bit_word_eqI, case_tac "n < 8"; case_tac "n < 16"; case_tac "n < 24")
      (auto simp: bit_simps)
qed

lemma length_be32 [simp]: "length (be32 w) = 4"
  by (simp add: be32_def)

lemma ReadFull_append: "length a = n \<Longrightarrow> ReadFull n (a @ b) = Inr (a, b)"
  by (simp add: ReadFull_def)

section \<open>Streams of frames\<close>

text \<open>A frame is a nonce with the plain text sealed under it.\<close>

type_synonym frame = "string \<times> string"

definition frame_bytes :: "crypto \<Rightarrow> string \<Rightarrow> frame \<Rightarrow> string" where
  "frame_bytes C key f = be32 (word_of_nat (length (cr_seal C key (fst f) (snd f)))) @ fst f @ cr_seal C key (fst f) (snd f)"

definition stream_bytes :: "crypto \<Rightarrow> string \<Rightarrow> frame list \<Rightarrow> string" where
  "stream_bytes C key fs = concat (map (frame_bytes C key) fs) @ be32 0"

definition good_frame :: "frame \<Rightarrow> bool" where
  "good_frame f \<longleftrightarrow> length (fst f) = 12 \<and> length (snd f) \<le> chunkSize"

text \<open>The documented behaviour of AES-GCM: a tag of 16 bytes, and opening undoes sealing.\<close>

definition aead_laws :: "crypto \<Rightarrow> bool" where
  "aead_laws C \<longleftrightarrow> (\<forall>k n p. length (cr_seal C k n p) = length p + 16 \<and> cr_open C k n (cr_seal C k n p) = Inr p)"

lemma decrypt_frame:
  assumes "aead_laws C" "good_frame f"
  shows "decrypt_loop C key (frame_bytes C key f @ rest) out = decrypt_loop C key rest (out @ snd f)"
proof -
  let ?c = "cr_seal C key (fst f) (snd f)" and ?w = "word_of_nat (length (cr_seal C key (fst f) (snd f))) :: 32 word"
  have len: "length ?c = length (snd f) + 16" "cr_open C key (fst f) ?c = Inr (snd f)" using assms(1) by (simp_all add: aead_laws_def)
  then have le: "length ?c \<le> maxFrame" "0 < length ?c" using assms(2) by (simp_all add: good_frame_def maxFrame_def)
  then have n: "unat ?w = length ?c" by (simp add: unat_of_nat maxFrame_def chunkSize_def)
  then have "?w \<noteq> 0" using le(2) by (metis unat_0 less_numeral_extra(3))
  moreover have "length (fst f) = 12" using assms(2) by (simp add: good_frame_def)
  ultimately show ?thesis
    using le n len(2) unfolding frame_bytes_def
    by (subst decrypt_loop.simps) (simp add: ReadFull_append un_be32_be32 Let_def)
qed

lemma decrypt_stream:
  assumes "aead_laws C" "\<forall>f\<in>set fs. good_frame f"
  shows "decrypt_loop C key (stream_bytes C key fs @ rest) out = (None, out @ concat (map snd fs))"
  using assms(2)
proof (induction fs arbitrary: out)
  case Nil
  show ?case by (subst decrypt_loop.simps) (simp add: stream_bytes_def ReadFull_append un_be32_be32 Let_def)
next
  case (Cons f fs)
  then show ?case using decrypt_frame [OF assms(1), of f key "stream_bytes C key fs @ rest" out] by (simp add: stream_bytes_def)
qed

text \<open>What a reader delivers before its end, in one piece and as the frames the loop makes of it.\<close>

fun read_all :: "(string \<times> read_end) list \<Rightarrow> string" where
  "read_all [] = []"
| "read_all ((b, e) # rs) = b @ (if e = More then read_all rs else [])"

fun read_frames :: "(nat \<Rightarrow> string) \<Rightarrow> nat \<Rightarrow> (string \<times> read_end) list \<Rightarrow> frame list" where
  "read_frames nonce i [] = []"
| "read_frames nonce i ((b, e) # rs) = (if b = [] then [] else [(nonce i, b)]) @ (if e = More then read_frames nonce (if b = [] then i else Suc i) rs else [])"

definition reads_ok :: "(string \<times> read_end) list \<Rightarrow> bool" where
  "reads_ok rs \<longleftrightarrow> (\<forall>(b, e)\<in>set rs. length b \<le> chunkSize \<and> (\<forall>x. e \<noteq> ReadFails x))"

lemma read_frames_facts:
  assumes "\<forall>i. length (nonce i) = 12" "reads_ok rs"
  shows "concat (map snd (read_frames nonce i rs)) = read_all rs" "\<forall>f\<in>set (read_frames nonce i rs). good_frame f"
  using assms(2) assms(1) by (induction nonce i rs rule: read_frames.induct) (auto simp: reads_ok_def good_frame_def)

lemma encrypt_loop_stream:
  assumes "aead_laws C" "reads_ok rs"
  shows "encrypt_loop C key nonce i rs out = Inr (out @ stream_bytes C key (read_frames nonce i rs))"
  using assms(2)
proof (induction rs arbitrary: i out)
  case Nil
  show ?case by (simp add: stream_bytes_def)
next
  case (Cons r rs)
  obtain b e where r: "r = (b, e)" by (cases r)
  have "length b \<le> chunkSize" "\<And>x. e \<noteq> ReadFails x" "reads_ok rs" using Cons.prems r by (auto simp: reads_ok_def)
  moreover from this have "b \<noteq> [] \<Longrightarrow> seal_frame C key (nonce i) b = Inr (frame_bytes C key (nonce i, b))"
    using assms(1) by (simp add: seal_frame_def frame_bytes_def aead_laws_def maxFrame_def Let_def)
  ultimately show ?case using Cons.IH r by (cases e) (auto simp: stream_bytes_def)
qed

section \<open>Encryption and decryption\<close>

text \<open>What is asked of the other libraries, for the destination's key \<open>priv\<close> and the sender's ephemeral key \<open>eph\<close>: base64 reads
  back and writes no blanks, the keys are valid, and both sides compute the same secret.\<close>

definition key_laws :: "crypto \<Rightarrow> string \<Rightarrow> string \<Rightarrow> bool" where
  "key_laws C priv eph \<longleftrightarrow> (\<forall>x. cr_decode C (cr_encode C x) = Inr x \<and> (\<forall>c\<in>set (cr_encode C x). \<not> key_space c)) \<and> cr_private C priv = Inr priv \<and>
     cr_public C (cr_public_of C priv) = Inr (cr_public_of C priv) \<and> cr_public C (cr_public_of C eph) = Inr (cr_public_of C eph) \<and>
     length (cr_public_of C eph) = 32 \<and> (\<exists>z. cr_ecdh C eph (cr_public_of C priv) = Inr z \<and> cr_ecdh C priv (cr_public_of C eph) = Inr z)"

lemma trim_encoded:
  assumes "\<forall>c\<in>set s. \<not> key_space c"
  shows "stringTrimSpace (s @ [CHR 0x0A]) = s"
proof -
  have nl: "key_space (CHR 0x0A)" by (simp add: key_space_def)
  have "dropWhile key_space (s @ [CHR 0x0A]) = (if s = [] then [] else s @ [CHR 0x0A])" using assms nl by (cases s) auto
  moreover have "dropWhile key_space (rev s) = rev s" using assms by (cases s rule: rev_cases) auto
  ultimately show ?thesis using nl by (simp add: stringTrimSpace_def)
qed

lemma parse_written_key: "key_laws C priv eph \<Longrightarrow> parsePrivate C (cr_encode C priv @ [CHR 0x0A]) = Inr priv"
  by (simp add: key_laws_def parsePrivate_def trim_encoded)

definition shared_key :: "crypto \<Rightarrow> string \<Rightarrow> string \<Rightarrow> string" where
  "shared_key C priv eph = deriveKey C (case cr_ecdh C eph (cr_public_of C priv) of Inr z \<Rightarrow> z | Inl e \<Rightarrow> []) (cr_public_of C eph) (cr_public_of C priv)"

lemma Decrypt_stream:
  assumes "key_laws C priv eph" "aead_laws C" "\<forall>f\<in>set fs. good_frame f" "read_file (gs_files s) keyPath = Some (cr_encode C priv @ [CHR 0x0A])"
  shows "Decrypt C (crypto_magic @ cr_public_of C eph @ stream_bytes C (shared_key C priv eph) fs) keyPath s = (None, concat (map snd fs))"
proof -
  obtain z where z: "cr_ecdh C eph (cr_public_of C priv) = Inr z" "cr_ecdh C priv (cr_public_of C eph) = Inr z" using assms(1) by (auto simp: key_laws_def)
  have k: "length (cr_public_of C eph) = 32" "cr_public C (cr_public_of C eph) = Inr (cr_public_of C eph)" using assms(1) by (simp_all add: key_laws_def)
  have "decrypt_loop C (deriveKey C z (cr_public_of C eph) (cr_public_of C priv)) (stream_bytes C (shared_key C priv eph) fs) [] = (None, concat (map snd fs))"
    using decrypt_stream [OF assms(2,3), of "shared_key C priv eph" "[]" "[]"] z(1) by (simp add: shared_key_def)
  then show ?thesis using parse_written_key [OF assms(1)] assms(4) z(2) k by (simp add: Decrypt_def ReadFull_append)
qed

lemma Encrypt_stream:
  assumes "key_laws C priv eph" "aead_laws C" "reads_ok src"
  shows "Encrypt C eph nonce src (cr_encode C (cr_public_of C priv)) =
    Inr (crypto_magic @ cr_public_of C eph @ stream_bytes C (shared_key C priv eph) (read_frames nonce 0 src))"
  using assms by (auto simp: Encrypt_def key_laws_def shared_key_def encrypt_loop_stream)

text \<open>
  C37. Whatever pieces the reader delivers, encrypting them for a destination succeeds, and the destination, whose key
  file is the one \<^verbatim>\<open>EnsureKey\<close> made, decrypts exactly the bytes that were read.
\<close>

theorem stream_roundtrip:
  assumes "key_laws C priv eph" "aead_laws C" "\<forall>i. length (nonce i) = 12" "reads_ok src"
    and "EnsureKey C now priv keyPath s = (Inr pub, s')" "read_file (gs_files s) keyPath = None" "files_wf (gs_files s)"
  shows "\<exists>c. Encrypt C eph nonce src pub = Inr c \<and> Decrypt C c keyPath s' = (None, read_all src)"
proof -
  have pub: "pub = cr_encode C (cr_public_of C priv)" "s' = put_state now keyPath (cr_encode C priv @ [CHR 0x0A]) s"
    using assms(5,6) by (auto simp: EnsureKey_def split: if_splits)
  have "read_file (gs_files s') keyPath = Some (cr_encode C priv @ [CHR 0x0A])" using assms(7) by (simp add: pub(2) put_state_def read_write_file)
  from Decrypt_stream [OF assms(1,2) read_frames_facts(2) [OF assms(3,4), of 0] this]
  show ?thesis using Encrypt_stream [OF assms(1,2,4), of nonce] unfolding pub(1) read_frames_facts(1) [OF assms(3,4)] by blast
qed

text \<open>
  The frames of a stream are sealed one by one: from the frames of an encrypted stream anyone can make another
  stream, with frames left out, repeated or in another order, which the destination decrypts without an error.
\<close>

theorem stream_frames_unbound:
  assumes "key_laws C priv eph" "aead_laws C" "\<forall>i. length (nonce i) = 12" "reads_ok src"
    and "read_file (gs_files s) keyPath = Some (cr_encode C priv @ [CHR 0x0A])"
  shows "\<exists>header k fs. Encrypt C eph nonce src (cr_encode C (cr_public_of C priv)) = Inr (header @ stream_bytes C k fs) \<and> concat (map snd fs) = read_all src \<and>
    (\<forall>fs'. set fs' \<subseteq> set fs \<longrightarrow> Decrypt C (header @ stream_bytes C k fs') keyPath s = (None, concat (map snd fs')))"
proof -
  let ?fs = "read_frames nonce 0 src"
  have "Decrypt C ((crypto_magic @ cr_public_of C eph) @ stream_bytes C (shared_key C priv eph) fs') keyPath s = (None, concat (map snd fs'))"
    if "set fs' \<subseteq> set ?fs" for fs'
  proof -
    have "\<forall>f\<in>set fs'. good_frame f" using read_frames_facts(2) [OF assms(3,4)] that by blast
    from Decrypt_stream [OF assms(1,2) this assms(5)] show ?thesis by simp
  qed
  moreover have "Encrypt C eph nonce src (cr_encode C (cr_public_of C priv)) = Inr ((crypto_magic @ cr_public_of C eph) @ stream_bytes C (shared_key C priv eph) ?fs)"
    using Encrypt_stream [OF assms(1,2,4)] by simp
  ultimately show ?thesis using read_frames_facts(1) [OF assms(3,4), of 0] by blast
qed

section \<open>A concrete instance\<close>

definition hex_encode :: "string \<Rightarrow> string" where
  "hex_encode s = concat (map (\<lambda>c. [char_of (65 + of_char c div 16 :: nat), char_of (65 + of_char c mod 16 :: nat)]) s)"

fun hex_decode :: "string \<Rightarrow> string result" where
  "hex_decode [] = Inr []"
| "hex_decode [x] = Inl (GoErr ''illegal base64 data'')"
| "hex_decode (a # b # s) = (case hex_decode s of Inl e \<Rightarrow> Inl e | Inr r \<Rightarrow> Inr (char_of (16 * (of_char a - 65) + (of_char b - 65) :: nat) # r))"

definition sample_crypto :: crypto where
  "sample_crypto = \<lparr>cr_encode = hex_encode, cr_decode = hex_decode, cr_private = Inr, cr_public = Inr, cr_public_of = (\<lambda>k. take 32 (k @ replicate 32 (CHR ''p''))),
     cr_ecdh = (\<lambda>a b. Inr ''z''), cr_hmac = (\<lambda>k m. k @ m), cr_seal = (\<lambda>k n p. p @ replicate 16 (CHR ''t'')),
     cr_open = (\<lambda>k n c. if 16 \<le> length c then Inr (take (length c - 16) c) else Inl (GoErr ''cipher: message authentication failed''))\<rparr>"

lemma sample_crypto_laws: "key_laws sample_crypto priv eph" "aead_laws sample_crypto"
proof -
  have bound: "(of_char c :: nat) < 256" for c :: char using of_char_mod_256 [of c, where ?'a = nat] by (metis mod_less_divisor zero_less_numeral)
  have small: "of_char c div 16 < (16 :: nat)" for c :: char using bound [of c] by (intro less_mult_imp_div_less) simp
  have "hex_decode (hex_encode s) = Inr s" for s
  proof (induction s)
    case (Cons c s)
    have "(65 + of_char c div 16) mod 256 = (65 + of_char c div 16 :: nat)" "(65 + of_char c mod 16) mod 256 = (65 + of_char c mod 16 :: nat)" using small [of c] by simp_all
    then have "16 * ((of_char (char_of (65 + of_char c div 16 :: nat) :: char)) - 65) + (of_char (char_of (65 + of_char c mod 16 :: nat) :: char) - 65) = (of_char c :: nat)"
      by simp
    then show ?case using Cons by (simp add: hex_encode_def)
  qed (simp add: hex_encode_def)
  moreover have "\<not> key_space c" if c: "c \<in> set (hex_encode s)" for c s
  proof -
    obtain x :: char where "c = char_of (65 + of_char x div 16 :: nat) \<or> c = char_of (65 + of_char x mod 16 :: nat)" using c by (auto simp: hex_encode_def)
    then obtain k :: nat where k: "c = char_of (65 + k)" "k < 16" using small [of x] by (metis mod_less_divisor zero_less_numeral)
    then have "(of_char c :: nat) \<ge> 65" by simp
    then show ?thesis by (auto simp: key_space_def)
  qed
  ultimately show "key_laws sample_crypto priv eph" by (simp add: key_laws_def sample_crypto_def)
  show "aead_laws sample_crypto" by (simp add: aead_laws_def sample_crypto_def)
qed

definition sample_reads :: "(string \<times> read_end) list" where
  "sample_reads = [(''hel'', More), ([], More), (''lo'', More), ([], AtEOF)]"

definition keyless :: gen_state where
  "keyless = \<lparr>gs_files = \<lparr>fs_names = [], fs_inodes = [], fs_next = 0\<rparr>, gs_dirs = []\<rparr>"

lemma sample_reads_ok: "reads_ok sample_reads" "files_wf (gs_files keyless)" "read_file (gs_files keyless) p = None"
  by (auto simp: sample_reads_def reads_ok_def chunkSize_def keyless_def files_wf_def read_file_def file_inode_def)

theorem stream_roundtrip_witness:
  "\<exists>pub s' c. EnsureKey sample_crypto 7 ''k'' ''/key'' keyless = (Inr pub, s') \<and> Encrypt sample_crypto ''e'' (\<lambda>i. replicate 12 (CHR ''n'')) sample_reads pub = Inr c \<and>
     Decrypt sample_crypto c ''/key'' s' = (None, ''hello'')"
proof -
  obtain pub s' where k: "EnsureKey sample_crypto 7 ''k'' ''/key'' keyless = (Inr pub, s')" by (simp add: EnsureKey_def sample_reads_ok)
  have "read_all sample_reads = ''hello''" by (simp add: sample_reads_def)
  then show ?thesis using stream_roundtrip [OF sample_crypto_laws(1) [of "''k''" "''e''"] sample_crypto_laws(2) _ sample_reads_ok(1) k sample_reads_ok(3,2), of "\<lambda>i. replicate 12 (CHR ''n'')"] k
    by (metis length_replicate)
qed

definition keyed :: gen_state where
  "keyed = \<lparr>gs_files = \<lparr>fs_names = [(''/key'', 0)], fs_inodes = [(0, (hex_encode ''k'' @ [CHR 0x0A], 5))], fs_next = 1\<rparr>, gs_dirs = []\<rparr>"

theorem stream_frames_unbound_witness:
  "\<exists>header k fs. Encrypt sample_crypto ''e'' (\<lambda>i. replicate 12 (CHR ''n'')) sample_reads (cr_encode sample_crypto (cr_public_of sample_crypto ''k'')) =
      Inr (header @ stream_bytes sample_crypto k fs) \<and> concat (map snd fs) = read_all sample_reads \<and>
     Decrypt sample_crypto (header @ stream_bytes sample_crypto k []) ''/key'' keyed = (None, [])"
proof -
  have "read_file (gs_files keyed) ''/key'' = Some (cr_encode sample_crypto ''k'' @ [CHR 0x0A])" by (simp add: keyed_def read_file_def file_inode_def sample_crypto_def)
  then obtain header k fs where u: "Encrypt sample_crypto ''e'' (\<lambda>i. replicate 12 (CHR ''n'')) sample_reads (cr_encode sample_crypto (cr_public_of sample_crypto ''k'')) =
      Inr (header @ stream_bytes sample_crypto k fs)" "concat (map snd fs) = read_all sample_reads"
      "\<forall>fs'. set fs' \<subseteq> set fs \<longrightarrow> Decrypt sample_crypto (header @ stream_bytes sample_crypto k fs') ''/key'' keyed = (None, concat (map snd fs'))"
    using stream_frames_unbound [OF sample_crypto_laws(1) [of "''k''" "''e''"] sample_crypto_laws(2) _ sample_reads_ok(1), of "\<lambda>i. replicate 12 (CHR ''n'')" keyed "''/key''"] by auto
  from spec [OF u(3), of "[]"] have "Decrypt sample_crypto (header @ stream_bytes sample_crypto k []) ''/key'' keyed = (None, [])" by simp
  then show ?thesis using u(1,2) by blast
qed

end
