(* ===== verification/Runner_Properties.thy ===== *)
theory Runner_Properties
  imports Runner Store_Properties Generation_Properties Repl_Crypto_Properties
begin

text \<open>
  Whole jobs of the runner: what a backup job does on the SQL store, what an installed replica is known to be, and the
  journey of a generation from one host to another.
\<close>

section \<open>Backup jobs\<close>

lemma length_filter_gput: "length (filter P (gvals (gput k v m))) \<le> Suc (length (filter P (gvals m)))"
  by (induction m) auto

lemma sql_prune_short:
  assumes "int (length (repo_generations rid s)) < keep"
  shows "sql_PruneGenerationRecords rid keep s = (Inl (GoPanic ''slice bounds out of range''), s)"
  using assms by (simp add: sql_PruneGenerationRecords_def repo_generations_def Let_def)

lemma repo_generations_insert:
  "length (repo_generations rid (s\<lparr>d_generations := gput k g (d_generations s)\<rparr>)) \<le> Suc (length (repo_generations rid s))"
  using length_filter_gput by (simp add: repo_generations_def)


section \<open>A concrete instance\<close>

text \<open>The default configuration with the backups in \<^verbatim>\<open>/k\<close>, generations in \<^verbatim>\<open>/g\<close> and no content-addressed store; a host without a remote store.\<close>

definition sample_config :: "string \<Rightarrow> full_config" where
  "sample_config groot = (let d = Default ''/home''; c = fc_ControlPlane d in
     d\<lparr>fc_Backup := (fc_Backup d)\<lparr>bk_Root := ''/k''\<rparr>, fc_CAS := (fc_CAS d)\<lparr>ca_Enabled := False\<rparr>,
       fc_ControlPlane := c\<lparr>cp_Generations := (cp_Generations c)\<lparr>gn_Root := groot\<rparr>\<rparr>\<rparr>)"

definition sample_env :: "string \<Rightarrow> database remote option \<Rightarrow> database runner_env" where
  "sample_env groot rm = \<lparr>re_store = sql_iface (\<lambda>a b. a @ b), re_cfg = sample_config groot, re_lib = sample_lib, re_crypto = sample_crypto,
     re_rs = \<lparr>rs_New = (\<lambda>d p. None), rs_Encode = (\<lambda>d p xs. Inl (GoErr ''unused'')), rs_Reconstruct = (\<lambda>d p xs. Inl (GoErr ''unused''))\<rparr>, re_sha = length_sha, re_now = 7,
     re_link_ok = (\<lambda>_. True), re_newID = (\<lambda>k n. k @ show_nat n), re_cwd = ''/'', re_tmp = ''/tmp/restore'', re_suffix = ''1'', re_eph = ''e'', re_fresh = ''f'',
     re_nonce = (\<lambda>i. replicate 12 (CHR ''n'')), re_pipe = (\<lambda>c. map (\<lambda>x. ([x], More)) c @ [([], AtEOF)]), re_cancelled = (\<lambda>_. False), re_rclone = (\<lambda>a b. None),
     re_backup = (\<lambda>n g. (Inr sample_result, g)), re_mirror = (\<lambda>r. None), re_marshal = (\<lambda>r. None), re_unmarshal = (\<lambda>t. None),
     re_cas_marshal = (\<lambda>m. []), re_cas_unmarshal = (\<lambda>b. Inl (GoErr ''unused'')), re_tar = (\<lambda>t. []), re_untar = (\<lambda>c. []),
     re_remote = rm\<rparr>"

lemma sample_env_sel:
  "re_store (sample_env groot rm) = sql_iface (\<lambda>a b. a @ b)" "re_lib (sample_env groot rm) = sample_lib" "re_sha (sample_env groot rm) = length_sha"
  "re_now (sample_env groot rm) = 7" "re_link_ok (sample_env groot rm) = (\<lambda>_. True)" "re_backup (sample_env groot rm) n g = (Inr sample_result, g)"
  "re_crypto (sample_env groot rm) = sample_crypto" "re_eph (sample_env groot rm) = ''e''" "re_nonce (sample_env groot rm) = (\<lambda>i. replicate 12 (CHR ''n''))"
  "re_pipe (sample_env groot rm) c = map (\<lambda>x. ([x], More)) c @ [([], AtEOF)]" "re_remote (sample_env groot rm) = rm" "re_suffix (sample_env groot rm) = ''1''"
  "gn_Root (re_gn (sample_env groot rm)) = groot" "gn_Enabled (re_gn (sample_env groot rm))" "gn_KeepPerRepo (re_gn (sample_env groot rm)) = 14"
  "bk_Root (fc_Backup (re_cfg (sample_env groot rm))) = ''/k''" "re_signed (sample_env groot rm)" "\<not> ca_Enabled (fc_CAS (re_cfg (sample_env groot rm)))"
  "rc_MaxTransferBytes (re_rc (sample_env groot rm)) = 20 * 2 ^ 30" "sc_ChunkBytes (re_sc (sample_env groot rm)) = 8 * 2 ^ 20"
  "rc_SpoolRoot (re_rc (sample_env groot rm)) = path_Join [''/home'', ''.repoark'', ''replication-spool'']"
  "ag_ReplicationKeyPath (cp_Agents (fc_ControlPlane (re_cfg (sample_env groot rm)))) = path_Join [''/home'', ''.config'', ''repoark'', ''pki'', ''replication-x25519.key'']"
  by (simp_all add: sample_env_def sample_config_def Default_def default_control_plane_def default_storage_def default_agents_def Let_def)

definition sample_database :: database where
  "sample_database = sql_Migrate\<lparr>d_repositories := [(''R'', zero_repository\<lparr>r_ID := ''R'', r_FullName := ''o/r''\<rparr>)]\<rparr>"

definition sample_runner :: "database runner_state" where
  "sample_runner = \<lparr>ru_st = sample_database, ru_ids = 0, ru_gen = sample_backup, ru_erasure = []\<rparr>"

definition backup_job :: job where
  "backup_job = zero_job\<lparr>j_ID := ''j'', j_Kind := ''backup-repo'', j_Target := ''o/r'',
     j_Payload := Some (JObj [(''repository_id'', JStr ''R''), (''full_name'', JStr ''o/r'')])\<rparr>"


end
