(* ===== verification/Replica_Journey.thy ===== *)
theory Replica_Journey
  imports Runner_Properties
begin

text \<open>
  A generation's way to another host: archived, encrypted and relayed by \<^verbatim>\<open>replicateGeneration\<close>, then fetched, decrypted, unpacked,
  verified and put in place by \<^verbatim>\<open>installReplica\<close>.
\<close>

section \<open>Directories of generations\<close>

text \<open>A directory named by plain names below an absolute one.\<close>

definition clean_dir :: "string \<Rightarrow> bool" where
  "clean_dir d \<longleftrightarrow> d \<noteq> [] \<and> (\<forall>cwd. path_Abs cwd d = d) \<and>
     (\<forall>n cwd. plain_name n \<longrightarrow> path_Join [d, n] = d @ CHR ''/'' # n \<and> path_Abs cwd (d @ CHR ''/'' # n) = d @ CHR ''/'' # n)"

lemma joined_abs:
  assumes "is_abs groot" "names \<noteq> []" "\<forall>n\<in>set names. plain_name n"
  shows "path_Abs cwd (path_Join (groot # names)) = path_Join (groot # names)" "path_Join (groot # names) \<noteq> []"
proof -
  have ne: "groot \<noteq> []" using assms(1) by (auto simp: is_abs_def)
  have r: "path_Join (groot # names) = path_render True (path_comps groot @ names)" using path_Join_names [OF ne assms(2,3)] assms(1) by simp
  then show "path_Join (groot # names) \<noteq> []" by (simp add: path_render_def Let_def)
  have "is_abs (path_Join (groot # names))" unfolding r by (simp add: path_render_def is_abs_def Let_def)
  then show "path_Abs cwd (path_Join (groot # names)) = path_Join (groot # names)" using path_Clean_Join [of "groot # names"] ne by (simp add: path_Abs_def)
qed

lemma clean_dir_joined:
  assumes "is_abs groot" "names \<noteq> []" "\<forall>n\<in>set names. plain_name n"
  shows "clean_dir (path_Join (groot # names))"
proof -
  have ne: "groot \<noteq> []" using assms(1) by (auto simp: is_abs_def)
  have "path_Abs cwd (path_Join (groot # names) @ CHR ''/'' # n) = path_Join (groot # names) @ CHR ''/'' # n" if "plain_name n" for n cwd
    using joined_abs(1) [OF assms(1), of "names @ [n]" cwd] path_Join_snoc [OF ne assms(2,3) that] assms(3) that by auto
  then show ?thesis using joined_abs [OF assms] path_Join_Join [OF ne assms(2,3)] by (simp add: clean_dir_def)
qed

lemma path_Clean_plain: "plain_name n \<Longrightarrow> path_Clean n = n"
proof -
  assume n: "plain_name n"
  then have "split_on (CHR ''/'') n = [n]" "\<not> is_abs n" by (simp_all add: plain_name_def split_on_plain is_abs_def) (cases n; auto simp: plain_name_def)
  then show ?thesis using n by (simp add: path_Clean_def path_comps_def path_render_def plain_name_def Let_def)
qed

section \<open>Unpacking\<close>

text \<open>An archive of plain files, with the contents they get.\<close>

definition flat_entries :: "archive_entry list \<Rightarrow> bool" where
  "flat_entries hs \<longleftrightarrow> distinct (map ae_Name hs) \<and> (\<forall>h\<in>set hs. plain_name (ae_Name h) \<and> ae_Type h = TarReg)"

lemma replica_entries_flat:
  assumes "clean_dir dir" "flat_entries hs" "files_wf (gs_files s)" "\<forall>h\<in>set hs. read_file (gs_files s) (dir @ CHR ''/'' # ae_Name h) = None"
  shows "\<exists>s'. replica_entries now cwd dir (map Inr hs) s = (None, s') \<and> files_wf (gs_files s') \<and> gs_dirs s' = gs_dirs s \<and>
    (\<forall>q. read_file (gs_files s') q = (case map_of (map (\<lambda>h. (dir @ CHR ''/'' # ae_Name h, ae_Data h)) hs) q of Some c \<Rightarrow> Some c | None \<Rightarrow> read_file (gs_files s) q))"
  using assms(2-4)
proof (induction hs arbitrary: s)
  case Nil
  then show ?case by simp
next
  case (Cons h hs)
  let ?p = "dir @ CHR ''/'' # ae_Name h"
  have h: "plain_name (ae_Name h)" "ae_Type h = TarReg" "flat_entries hs" "\<forall>x\<in>set hs. ae_Name x \<noteq> ae_Name h" using Cons.prems(1) by (auto simp: flat_entries_def image_iff)
  have name: "path_Clean (ae_Name h) = ae_Name h" "ae_Name h \<noteq> ''.''" "ae_Name h \<noteq> ''..''" "\<not> is_abs (ae_Name h)" "\<not> HasPrefix (ae_Name h) ''../''"
    using path_Clean_plain [OF h(1)] h(1) by (auto simp: plain_name_def is_abs_def HasPrefix_iff)
  have p: "path_Join [dir, ae_Name h] = ?p" "path_Abs cwd ?p = ?p" "below dir ?p" using assms(1) h(1) below_child by (auto simp: clean_dir_def)
  have add: "adds_file ?p (ae_Data h) s (put_state now ?p (ae_Data h) s)" using put_state_adds [OF Cons.prems(2)] Cons.prems(3) by simp
  have wf: "files_wf (gs_files (put_state now ?p (ae_Data h) s))" and dirs: "gs_dirs (put_state now ?p (ae_Data h) s) = gs_dirs s"
    and new: "\<forall>x\<in>set hs. read_file (gs_files (put_state now ?p (ae_Data h) s)) (dir @ CHR ''/'' # ae_Name x) = None"
    using add Cons.prems(3) h(4) by (auto simp: adds_file_def)
  from Cons.IH [OF h(3) wf new] dirs obtain s' where s': "replica_entries now cwd dir (map Inr hs) (put_state now ?p (ae_Data h) s) = (None, s')" "files_wf (gs_files s')"
      "gs_dirs s' = gs_dirs s"
      "\<And>q. read_file (gs_files s') q = (case map_of (map (\<lambda>h. (dir @ CHR ''/'' # ae_Name h, ae_Data h)) hs) q of Some c \<Rightarrow> Some c | None \<Rightarrow> read_file (gs_files (put_state now ?p (ae_Data h) s)) q)"
    by metis
  have "map_of (map (\<lambda>h. (dir @ CHR ''/'' # ae_Name h, ae_Data h)) hs) ?p = None" using h(4) by (auto simp: map_of_eq_None_iff)
  then have "read_file (gs_files s') q = (case map_of (map (\<lambda>h. (dir @ CHR ''/'' # ae_Name h, ae_Data h)) (h # hs)) q of Some c \<Rightarrow> Some c | None \<Rightarrow> read_file (gs_files s) q)" for q
    using s'(4) [of q] add by (auto simp: adds_file_def split: option.split)
  moreover have "replica_entries now cwd dir (map Inr (h # hs)) s = (None, s')"
    using s'(1) name p h(2) by (simp add: Let_def)
  ultimately show ?case using s'(2,3) by blast
qed

lemma option_ext: "(\<And>c. a = Some c \<longleftrightarrow> b = Some c) \<Longrightarrow> a = b"
  by (cases a; cases b) auto

text \<open>A generation whose files lie flat in its directory.\<close>

definition flat_generation :: "string \<Rightarrow> gen_state \<Rightarrow> bool" where
  "flat_generation dir g \<longleftrightarrow> files_wf (gs_files g) \<and> (\<forall>p. below dir p \<longrightarrow> read_file (gs_files g) p \<noteq> None \<longrightarrow> plain_name (drop (Suc (length dir)) p))"

lemma below_drop: "below dir p \<Longrightarrow> p = dir @ CHR ''/'' # drop (Suc (length dir)) p"
  by (auto simp: below_def HasPrefix_iff)

lemma generation_entries_flat:
  assumes "flat_generation dir g"
  shows "flat_entries (generation_entries dir g)"
    and "map_of (map (\<lambda>h. (t @ CHR ''/'' # ae_Name h, ae_Data h)) (generation_entries dir g)) (t @ CHR ''/'' # n) = read_file (gs_files g) (dir @ CHR ''/'' # n)"
proof -
  have wf: "files_wf (gs_files g)" using assms by (simp add: flat_generation_def)
  have "distinct (walk dir (gs_files g))" using wf by (simp add: walk_def files_wf_def)
  moreover have "inj_on (drop (Suc (length dir))) (set (walk dir (gs_files g)))"
    using walk_files [OF wf] below_drop by (intro inj_onI) metis
  ultimately have "distinct (map (drop (Suc (length dir))) (walk dir (gs_files g)))" by (simp add: distinct_map)
  moreover have "plain_name (drop (Suc (length dir)) p)" if "p \<in> set (walk dir (gs_files g))" for p
    using assms that walk_files [OF wf] by (simp add: flat_generation_def)
  ultimately show flat: "flat_entries (generation_entries dir g)"
    unfolding flat_entries_def generation_entries_def by (auto simp: comp_def)
  let ?m = "map (\<lambda>h. (t @ CHR ''/'' # ae_Name h, ae_Data h)) (generation_entries dir g)"
  have mem: "(t @ CHR ''/'' # n, c) \<in> set ?m \<longleftrightarrow> read_file (gs_files g) (dir @ CHR ''/'' # n) = Some c" for c
  proof
    assume "(t @ CHR ''/'' # n, c) \<in> set ?m"
    then obtain p where p: "p \<in> set (walk dir (gs_files g))" "n = drop (Suc (length dir)) p" "c = the (read_file (gs_files g) p)"
      by (auto simp: generation_entries_def)
    then show "read_file (gs_files g) (dir @ CHR ''/'' # n) = Some c" using walk_files [OF wf] below_drop [of dir p] by auto
  next
    assume r: "read_file (gs_files g) (dir @ CHR ''/'' # n) = Some c"
    then have "dir @ CHR ''/'' # n \<in> set (walk dir (gs_files g))" using walk_files [OF wf] below_child by simp
    then show "(t @ CHR ''/'' # n, c) \<in> set ?m" using r unfolding generation_entries_def by (force simp: image_iff)
  qed
  have "distinct (map fst ?m)" using flat by (simp add: flat_entries_def distinct_map comp_def inj_on_def)
  then have eq: "map_of ?m (t @ CHR ''/'' # n) = Some c \<longleftrightarrow> read_file (gs_files g) (dir @ CHR ''/'' # n) = Some c" for c
    using mem [of c] by (simp only: map_of_eq_Some_iff)
  show "map_of ?m (t @ CHR ''/'' # n) = read_file (gs_files g) (dir @ CHR ''/'' # n)"
    using eq by (intro option_ext) blast
qed

section \<open>Sending\<close>

lemma put_new_read: "files_wf (gs_files g) \<Longrightarrow> read_file (gs_files (put_new now p c g)) q = (if q = p then Some c else read_file (gs_files g) q)"
  by (simp add: put_new_def)

lemma drop_file_read: "read_file (gs_files (drop_file p g)) q = (if q = p then None else read_file (gs_files g) q)"
  by (simp add: drop_file_def)

lemma st_call_gen: "ru_gen (snd (st_call f s)) = ru_gen s"
  by (simp add: st_call_def split: prod.split sum.split)

lemma st_call_None: "st_call f s = (None, s') \<Longrightarrow> ru_gen s' = ru_gen s"
  using st_call_gen [of f s] by simp

lemma and_then_None: "and_then r k = (None, s') \<longleftrightarrow> (\<exists>s1. r = (None, s1) \<and> k s1 = (None, s'))"
  by (cases r; cases "fst r") (auto simp: and_then_def)

lemma cleaned_None: "(case r of (Some e, s1) \<Rightarrow> (Some e, F s1) | (None, s1) \<Rightarrow> k s1) = (None, s') \<longleftrightarrow> (\<exists>s1. r = (None, s1) \<and> k s1 = (None, s'))"
  by (cases r; cases "fst r") auto

lemma relay_blob_spool:
  assumes "relay_blob en job p c s = (None, s')" "files_wf (gs_files (ru_gen s))"
  shows "read_file (gs_files (ru_gen s')) (replicationSpoolPath (rc_SpoolRoot (re_rc en)) (rg_TransferID p)) = Some c"
proof -
  let ?spool = "replicationSpoolPath (rc_SpoolRoot (re_rc en)) (rg_TransferID p)"
  have gen2: "enqueue en j x = (None, y) \<Longrightarrow> ru_gen y = ru_gen x" for j x y unfolding enqueue_def by (drule st_call_None) simp
  obtain s1 where s1: "gen_call (stage_blob en ?spool c) s = (None, s1)" "ru_gen s' = ru_gen s1"
    using assms(1) gen2 st_call_None unfolding relay_blob_def Let_def and_then_None cleaned_None by metis
  then have "ru_gen s1 = put_new (re_now en) ?spool c (drop_file (?spool @ ''.part'') (mkdir_all (rc_SpoolRoot (re_rc en)) (ru_gen s)))"
    by (auto simp: gen_call_def stage_blob_def Let_def split: if_splits)
  then show ?thesis using assms(2) s1(2) by (simp add: put_new_def drop_file_def mkdir_all_def)
qed

text \<open>The source's side: a blob left in the spool holds the archive of the generation's directory.\<close>

lemma replicate_relays:
  assumes "replicateGeneration en job s = (None, s')" "re_remote en = None" "unmarshal_replicate_generation (j_Payload job) = Some p"
    and "Find (re_lib en) (gn_Root (re_gn en)) (rg_Repository p) (rg_GenerationID p) (ru_gen s) = Inr (m, dir)" "files_wf (gs_files (ru_gen s))"
  shows "\<exists>c. read_file (gs_files (ru_gen s')) (replicationSpoolPath (rc_SpoolRoot (re_rc en)) (rg_TransferID p)) = Some c \<and>
    Encrypt (re_crypto en) (re_eph en) (re_nonce en) (re_pipe en (lb_pack (re_lib en) (generation_entries dir (ru_gen s)))) (rg_TargetReplicationPubKey p) = Inr c"
proof -
  obtain c where c: "Encrypt (re_crypto en) (re_eph en) (re_nonce en) (piped en (ArchiveGeneration (re_lib en) dir (ru_gen s))) (rg_TargetReplicationPubKey p) = Inr c"
      "relay_blob en job p c s = (None, s')"
    using assms(1-4) by (auto simp: replicateGeneration_def split: if_splits option.splits sum.splits)
  have "Encrypt (re_crypto en) (re_eph en) (re_nonce en) [([], ReadFails e)] k \<noteq> Inr c" for e k
    by (auto simp: Encrypt_def split: sum.splits)
  then obtain b where "ArchiveGeneration (re_lib en) dir (ru_gen s) = Inr b" using c(1) by (cases "ArchiveGeneration (re_lib en) dir (ru_gen s)") (auto simp: piped_def)
  then have "b = lb_pack (re_lib en) (generation_entries dir (ru_gen s))" "ArchiveGeneration (re_lib en) dir (ru_gen s) = Inr b"
    by (auto simp: ArchiveGeneration_def split: if_splits)
  then show ?thesis using c relay_blob_spool [OF c(2) assms(5)] by (auto simp: piped_def)
qed

section \<open>Moving and verifying\<close>

lemma gget_map_key:
  assumes "inj_on f (insert k (set (gkeys m)))"
  shows "gget (map (\<lambda>(k, v). (f k, v)) m) (f k) = gget m k"
  using assms by (induction m) (auto simp: inj_on_def)

lemma moved_inj:
  assumes "\<And>p. p \<in> A \<Longrightarrow> \<not> in_tree dst p"
  shows "inj_on (moved src dst) A"
proof (rule inj_onI)
  have at: "in_tree dst (dst @ drop (length src) p)" if "in_tree src p" for p
    using that by (auto simp: in_tree_def below_def HasPrefix_iff)
  have split: "p = src @ drop (length src) p" if "in_tree src p" for p
    using that by (auto simp: in_tree_def below_def HasPrefix_iff)
  fix p q assume pq: "p \<in> A" "q \<in> A" "moved src dst p = moved src dst q"
  show "p = q"
  proof (cases "in_tree src p \<and> in_tree src q")
    case True
    then show ?thesis using pq(3) split [of p] split [of q] by (simp add: moved_def)
  next
    case False
    then show ?thesis using pq at [of p] at [of q] assms [OF pq(1)] assms [OF pq(2)] by (auto simp: moved_def split: if_splits)
  qed
qed

lemma rename_tree_read:
  assumes "files_wf (gs_files g)" "\<And>p. in_tree dst p \<Longrightarrow> read_file (gs_files g) p = None" "\<not> in_tree dst (src @ CHR ''/'' # n)"
  shows "read_file (gs_files (rename_tree src dst g)) (dst @ CHR ''/'' # n) = read_file (gs_files g) (src @ CHR ''/'' # n)"
proof -
  have "\<not> in_tree dst p" if "p \<in> set (gkeys (fs_names (gs_files g)))" for p
    using assms(1,2) that read_names in_gkeys by metis
  then have "inj_on (moved src dst) (insert (src @ CHR ''/'' # n) (set (gkeys (fs_names (gs_files g)))))" using assms(3) by (intro moved_inj) blast
  from gget_map_key [OF this] have "gget (map (\<lambda>(p, i). (moved src dst p, i)) (fs_names (gs_files g))) (dst @ CHR ''/'' # n) = gget (fs_names (gs_files g)) (src @ CHR ''/'' # n)"
    by (simp add: moved_def in_tree_def below_child)
  then show ?thesis by (simp add: read_file_def file_inode_def rename_tree_def split: option.split)
qed

text \<open>The files of a generation's directory have plain names.\<close>

definition plain_payloads :: "gen_meta \<Rightarrow> bool" where
  "plain_payloads m \<longleftrightarrow> (\<forall>n\<in>{gm_BundlePath m, gm_MirrorArchive m, gm_LFSPath m}. n = [] \<or> plain_name n)"

lemma verify_payload_cong:
  assumes "clean_dir a" "clean_dir b" "\<And>n. plain_name n \<Longrightarrow> read_file (gs_files s) (a @ CHR ''/'' # n) = read_file (gs_files t) (b @ CHR ''/'' # n)"
    and "name = [] \<or> plain_name name" "verify_payload sha a name want s = None"
  shows "verify_payload sha b name want t = None"
  using assms by (auto simp: verify_payload_def verifyFile_def fileSHA256_def clean_dir_def split: option.splits if_splits)

lemma VerifyDir_cong:
  assumes "clean_dir a" "clean_dir b" "\<And>n. plain_name n \<Longrightarrow> read_file (gs_files s) (a @ CHR ''/'' # n) = read_file (gs_files t) (b @ CHR ''/'' # n)"
    and "plain_payloads m" "VerifyDir L sha a trusted s = Inr m"
  shows "VerifyDir L sha b trusted t = Inr m"
proof -
  have plain: "plain_name ''generation.json''" "plain_name ''generation.json.sig''" by (simp_all add: plain_name_def)
  have join: "path_Join [d, ''generation.json''] = d @ CHR ''/'' # ''generation.json''" "path_Join [d, ''generation.json.sig''] = d @ CHR ''/'' # ''generation.json.sig''"
    if "clean_dir d" for d using that plain by (simp_all add: clean_dir_def)
  have same: "Read L b t = Read L a s" "VerifySignature L b trusted t = VerifySignature L a trusted s"
    unfolding Read_def VerifySignature_def join [OF assms(1)] join [OF assms(2)] assms(3) [OF plain(1)] assms(3) [OF plain(2)] by (rule refl)+
  have v: "Read L a s = Inr m" "trusted = [] \<or> VerifySignature L a trusted s = None" "verify_payload sha a (gm_BundlePath m) (gm_BundleSHA256 m) s = None"
      "verify_payload sha a (gm_MirrorArchive m) (gm_MirrorSHA256 m) s = None" "verify_payload sha a (gm_LFSPath m) (gm_LFSSHA256 m) s = None"
    using assms(5) by (auto simp: VerifyDir_def split: sum.splits option.splits if_splits)
  have pay: "verify_payload sha b n w t = None" if "n \<in> {gm_BundlePath m, gm_MirrorArchive m, gm_LFSPath m}" "verify_payload sha a n w s = None" for n w
    using verify_payload_cong [OF assms(1-3) _ that(2)] assms(4) that(1) unfolding plain_payloads_def by blast
  show ?thesis using v(1,2) same pay [OF _ v(3)] pay [OF _ v(4)] pay [OF _ v(5)] by (auto simp: VerifyDir_def)
qed

section \<open>Installing\<close>

lemma remove_all_read: "read_file (gs_files (remove_all d g)) p = (if in_tree d p then None else read_file (gs_files g) p)"
proof -
  have "gget (filter (\<lambda>(q, i). \<not> in_tree d q) m) p = (if in_tree d p then None else gget m p)" for m :: "(string, nat) gomap"
    using gget_filter_keys [of "\<lambda>q. \<not> in_tree d q" m p] by simp
  then show ?thesis by (simp add: read_file_def file_inode_def remove_all_def split: option.split)
qed

text \<open>The repository's directory, and in it the staging and the final directory of a replica.\<close>

definition replica_parent :: "'s runner_env \<Rightarrow> install_replica_payload \<Rightarrow> string" where
  "replica_parent en p = path_Join [gn_Root (re_gn en), ir_Repository p]"

definition replica_stage :: "'s runner_env \<Rightarrow> install_replica_payload \<Rightarrow> string" where
  "replica_stage en p = path_Join [replica_parent en p, ''.replica-'' @ ir_GenerationID p @ ''-'' @ re_suffix en]"

definition replica_final :: "'s runner_env \<Rightarrow> install_replica_payload \<Rightarrow> string" where
  "replica_final en p = path_Join [replica_parent en p, ir_GenerationID p]"

definition replica_names :: "'s runner_env \<Rightarrow> install_replica_payload \<Rightarrow> string \<Rightarrow> string \<Rightarrow> bool" where
  "replica_names en p owner repo \<longleftrightarrow> is_abs (gn_Root (re_gn en)) \<and> plain_name owner \<and> plain_name repo \<and> plain_name (ir_GenerationID p) \<and>
     CHR ''/'' \<notin> set (re_suffix en) \<and> ir_Repository p = owner @ CHR ''/'' # repo"

lemma replica_paths:
  assumes "replica_names en p owner repo"
  shows "clean_dir (replica_stage en p)" "clean_dir (replica_final en p)"
    and "in_tree (replica_final en p) q \<Longrightarrow> \<not> in_tree (replica_stage en p) q" "\<not> in_tree (replica_final en p) (replica_parent en p)"
proof -
  let ?g = "gn_Root (re_gn en)" and ?i = "ir_GenerationID p" and ?st = "''.replica-'' @ ir_GenerationID p @ ''-'' @ re_suffix en"
  have n: "is_abs ?g" "?g \<noteq> []" "plain_name owner" "plain_name repo" "plain_name ?i" "plain_name ?st" "ir_Repository p = owner @ CHR ''/'' # repo"
    using assms by (auto simp: replica_names_def plain_name_def is_abs_def)
  have parent: "replica_parent en p = path_Join [?g, owner, repo]"
    using n(2,3,4,7) by (simp add: replica_parent_def path_Join_def plain_name_def)
  have join: "path_Join [replica_parent en p, x] = replica_parent en p @ CHR ''/'' # x" "path_Join [replica_parent en p, x] = path_Join [?g, owner, repo, x]"
    if "plain_name x" for x
    using path_Join_snoc [OF n(2), of "[owner, repo]" x] path_Join_Join [OF n(2), of "[owner, repo]" x] n(3,4) that by (simp_all add: parent)
  show "clean_dir (replica_stage en p)" "clean_dir (replica_final en p)"
    unfolding replica_stage_def replica_final_def join(2) [OF n(5)] join(2) [OF n(6)] by (rule clean_dir_joined, use n in simp_all)+
  have "?st \<noteq> ?i" by (rule notI) (drule arg_cong [of _ _ length], simp)
  then show "in_tree (replica_final en p) q \<Longrightarrow> \<not> in_tree (replica_stage en p) q"
    using in_tree_child [of ?i ?st "replica_parent en p" q] n(5,6) join(1) [OF n(5)] join(1) [OF n(6)] by (auto simp: replica_stage_def replica_final_def plain_name_def)
  show "\<not> in_tree (replica_final en p) (replica_parent en p)"
    unfolding replica_final_def join(1) [OF n(5)] by (auto simp: in_tree_def below_def HasPrefix_iff)
qed

text \<open>A host on which a replica can be installed: its paths are free, it holds its key, and the store takes the replica's record.\<close>

definition install_ready :: "'s runner_env \<Rightarrow> install_replica_payload \<Rightarrow> string \<Rightarrow> 's runner_state \<Rightarrow> bool" where
  "install_ready en p priv s \<longleftrightarrow> files_wf (gs_files (ru_gen s)) \<and> ir_TransferID p \<noteq> [] \<and> ir_TargetAgent p \<noteq> [] \<and> replication_key en \<noteq> [] \<and>
     read_file (gs_files (ru_gen s)) (replication_key en) = Some (cr_encode (re_crypto en) priv @ [CHR 0x0A]) \<and>
     (\<forall>q. in_tree (replica_final en p) q \<or> in_tree (replica_stage en p) q \<longrightarrow> read_file (gs_files (ru_gen s)) q = None \<and> q \<notin> set (gs_dirs (ru_gen s))) \<and>
     \<not> in_tree (replica_final en p) (cipher_part (gn_Root (re_gn en)) (ir_TransferID p)) \<and>
     \<not> in_tree (replica_final en p) (replicationSpoolPath (rc_SpoolRoot (re_rc en)) (ir_TransferID p)) \<and>
     \<not> (ca_Enabled (fc_CAS (re_cfg en)) \<and> ca_AutoCompact (fc_CAS (re_cfg en))) \<and>
     (\<forall>rp. rp_GenerationID rp = ir_GenerationID p \<longrightarrow> (\<exists>st. i_RecordReplica (re_store en) (re_now en) rp (ru_st s) = (Inr (), st)))"

text \<open>The destination's files below \<open>to\<close> are those of \<open>g\<close> below \<open>from\<close>.\<close>

definition same_contents :: "string \<Rightarrow> gen_state \<Rightarrow> string \<Rightarrow> gen_state \<Rightarrow> bool" where
  "same_contents dir g dir' g' \<longleftrightarrow> (\<forall>n. plain_name n \<longrightarrow> read_file (gs_files g) (dir @ CHR ''/'' # n) = read_file (gs_files g') (dir' @ CHR ''/'' # n))"

lemma unpack_replica:
  assumes "Decrypt (re_crypto en) c key g = (None, plain)" "lb_unpack (re_lib en) plain = map Inr (generation_entries dir src)" "flat_generation dir src"
    and "clean_dir stage" "files_wf (gs_files g)" "\<forall>q. in_tree stage q \<longrightarrow> read_file (gs_files g) q = None"
  shows "\<exists>g'. unpack_staged en key c stage g = (None, g') \<and> files_wf (gs_files g') \<and> gs_dirs g' = gs_dirs g \<and> same_contents dir src stage g' \<and>
    (\<forall>q. \<not> in_tree stage q \<longrightarrow> read_file (gs_files g') q = read_file (gs_files g) q)"
proof -
  let ?m = "map (\<lambda>h. (stage @ CHR ''/'' # ae_Name h, ae_Data h)) (generation_entries dir src)"
  have free: "read_file (gs_files g) (stage @ CHR ''/'' # n) = None" for n using assms(6) by (simp add: in_tree_def below_child)
  obtain g' where g': "replica_entries (re_now en) (re_cwd en) stage (map Inr (generation_entries dir src)) g = (None, g')" "files_wf (gs_files g')" "gs_dirs g' = gs_dirs g"
      "\<And>q. read_file (gs_files g') q = (case map_of ?m q of Some c \<Rightarrow> Some c | None \<Rightarrow> read_file (gs_files g) q)"
    using replica_entries_flat [OF assms(4) generation_entries_flat(1) [OF assms(3)] assms(5) ballI [OF free], of "re_now en" "re_cwd en"] by blast
  have "same_contents dir src stage g'"
    unfolding same_contents_def g'(4) generation_entries_flat(2) [OF assms(3)] free by (simp split: option.split)
  moreover have "map_of ?m q = None" if "\<not> in_tree stage q" for q
    using that below_child by (auto simp: map_of_eq_None_iff in_tree_def)
  then have "\<forall>q. \<not> in_tree stage q \<longrightarrow> read_file (gs_files g') q = read_file (gs_files g) q" by (simp add: g'(4))
  moreover have "unpack_staged en key c stage g = (None, g')"
    using assms(1,2,4) g'(1) by (simp add: unpack_staged_def ExtractGeneration_def clean_dir_def)
  ultimately show ?thesis using g'(2,3) by blast
qed

lemma place_replica:
  assumes "same_contents dir src stage g" "VerifyDir (re_lib en) (re_sha en) dir (trusted_key en) src = Inr m" "plain_payloads m" "clean_dir dir" "clean_dir stage"
    and "gm_Repository m = ir_Repository p" "gm_ID m = ir_GenerationID p" "files_wf (gs_files g)"
    and "\<forall>q. in_tree final q \<longrightarrow> read_file (gs_files g) q = None \<and> q \<notin> set (gs_dirs g) \<and> \<not> in_tree stage q"
  shows "\<exists>g'. place_generation en p stage final g = (None, g') \<and> same_contents dir src final g'"
proof -
  have "VerifyDir (re_lib en) (re_sha en) stage (trusted_key en) g = Inr m"
    using VerifyDir_cong [OF assms(4,5) _ assms(3,2)] assms(1) by (simp add: same_contents_def)
  moreover have "walk final (gs_files g) = []"
    using assms(9) walk_files [OF assms(8), of _ final] unfolding in_tree_def by (metis list.set_intros(1) neq_Nil_conv)
  then have "\<not> exists_path final g" using assms(9) by (auto simp: exists_path_def list_ex_iff in_tree_def)
  moreover have out: "\<not> in_tree final (stage @ CHR ''/'' # n)" for n using assms(9) below_child [of stage n] by (metis in_tree_def)
  then have "same_contents dir src final (rename_tree stage final g)"
    using assms(1) rename_tree_read [OF assms(8) _ out] assms(9) by (simp add: same_contents_def)
  ultimately show ?thesis using assms(6,7) by (intro exI [of _ "rename_tree stage final g"]) (simp add: place_generation_def)
qed

lemma finish_replica:
  assumes "\<exists>st. i_RecordReplica (re_store en) (re_now en) \<lparr>rp_GenerationID = ir_GenerationID p, rp_RepositoryID = ir_RepositoryID p, rp_AgentID = ir_TargetAgent p,
      rp_MetaPath = path_Join [final, ''generation.json''], rp_State = ReplicaReady, rp_Bytes = ir_CipherBytes p, rp_SHA256 = ir_CipherSHA256 p,
      rp_VerifiedAt = re_now en, rp_UpdatedAt = zero_time\<rparr> (ru_st s) = (Inr (), st)"
  shows "\<exists>s' P. finish_install en p final s = (None, s') \<and> P \<subseteq> {cipher_part (gn_Root (re_gn en)) (ir_TransferID p), replicationSpoolPath (rc_SpoolRoot (re_rc en)) (ir_TransferID p)} \<and>
    (\<forall>q. read_file (gs_files (ru_gen s')) q = (if q \<in> P then None else read_file (gs_files (ru_gen s)) q))"
proof -
  obtain st where st: "st_call (i_RecordReplica (re_store en) (re_now en) \<lparr>rp_GenerationID = ir_GenerationID p, rp_RepositoryID = ir_RepositoryID p, rp_AgentID = ir_TargetAgent p,
      rp_MetaPath = path_Join [final, ''generation.json''], rp_State = ReplicaReady, rp_Bytes = ir_CipherBytes p, rp_SHA256 = ir_CipherSHA256 p,
      rp_VerifiedAt = re_now en, rp_UpdatedAt = zero_time\<rparr>) s = (None, s\<lparr>ru_st := st\<rparr>)" using assms by (auto simp: st_call_def)
  show ?thesis
  proof (cases "re_remote en")
    case None
    then show ?thesis
      by (intro exI [of _ "snd (finish_install en p final s)"] exI [of _ "{replicationSpoolPath (rc_SpoolRoot (re_rc en)) (ir_TransferID p)}"])
        (simp add: finish_install_def st and_then_def st_call_gen drop_file_read Let_def)
  next
    case (Some rm)
    then show ?thesis
      by (intro exI [of _ "snd (finish_install en p final s)"] exI [of _ "if sc_ChunkBytes (re_sc en) > 0 then {cipher_part (gn_Root (re_gn en)) (ir_TransferID p)} else {}"])
        (simp add: finish_install_def st and_then_def drop_file_read)
  qed
qed

text \<open>What is asked of the sender's libraries, for the destination's key \<open>priv\<close>: the laws of the ciphers, a pipe that delivers what is
  written into it, and archives that read back.\<close>

definition transport_laws :: "'s runner_env \<Rightarrow> string \<Rightarrow> bool" where
  "transport_laws en priv \<longleftrightarrow> key_laws (re_crypto en) priv (re_eph en) \<and> aead_laws (re_crypto en) \<and> (\<forall>i. length (re_nonce en i) = 12) \<and>
     (\<forall>c. reads_ok (re_pipe en c) \<and> read_all (re_pipe en c) = c) \<and>
     (\<forall>es. (\<forall>h\<in>set es. ae_Type h = TarReg) \<longrightarrow> lb_unpack (re_lib en) (lb_pack (re_lib en) es) = map Inr es)"

lemma relayed_decrypts:
  assumes "transport_laws en priv" "read_file (gs_files g) key = Some (cr_encode (re_crypto en) priv @ [CHR 0x0A])"
    and "Encrypt (re_crypto en) (re_eph en) (re_nonce en) (re_pipe en b) (cr_encode (re_crypto en) (cr_public_of (re_crypto en) priv)) = Inr c"
  shows "Decrypt (re_crypto en) c key g = (None, b)"
proof -
  have laws: "key_laws (re_crypto en) priv (re_eph en)" "aead_laws (re_crypto en)" "\<forall>i. length (re_nonce en i) = 12" "reads_ok (re_pipe en b)" "read_all (re_pipe en b) = b"
    using assms(1) by (simp_all add: transport_laws_def)
  show ?thesis
    using Decrypt_stream [OF laws(1,2) read_frames_facts(2) [OF laws(3,4), of 0] assms(2)] Encrypt_stream [OF laws(1,2,4), of "re_nonce en"] assms(3)
    unfolding read_frames_facts(1) [OF laws(3,4)] laws(5) by simp
qed

text \<open>The destination's side.\<close>

lemma install_replica_ok:
  assumes "unmarshal_install_replica (j_Payload job) = Some p" "fetch_cipher en p s = (Inr c, s1)" "replica_names en p owner repo" "install_ready en p priv s1"
    and "\<And>g. read_file (gs_files g) (replication_key en) = Some (cr_encode (re_crypto en) priv @ [CHR 0x0A]) \<Longrightarrow> Decrypt (re_crypto en) c (replication_key en) g = (None, plain)"
    and "parsePrivate (re_crypto en) (cr_encode (re_crypto en) priv @ [CHR 0x0A]) = Inr priv"
    and "lb_unpack (re_lib en) plain = map Inr (generation_entries dir src)" "flat_generation dir src" "clean_dir dir"
    and "VerifyDir (re_lib en) (re_sha en) dir (trusted_key en) src = Inr m" "plain_payloads m" "gm_Repository m = ir_Repository p" "gm_ID m = ir_GenerationID p"
  shows "\<exists>s2. installReplica en job s = (None, s2) \<and> same_contents dir src (replica_final en p) (ru_gen s2)"
proof -
  let ?stage = "replica_stage en p" and ?final = "replica_final en p" and ?parent = "replica_parent en p" and ?key = "replication_key en"
  note paths = replica_paths [OF assms(3)]
  have rd: "files_wf (gs_files (ru_gen s1))" "ir_TransferID p \<noteq> []" "ir_TargetAgent p \<noteq> []" "?key \<noteq> []"
      "read_file (gs_files (ru_gen s1)) ?key = Some (cr_encode (re_crypto en) priv @ [CHR 0x0A])"
      "\<And>q. in_tree ?final q \<or> in_tree ?stage q \<Longrightarrow> read_file (gs_files (ru_gen s1)) q = None \<and> q \<notin> set (gs_dirs (ru_gen s1))"
      "\<not> in_tree ?final (cipher_part (gn_Root (re_gn en)) (ir_TransferID p))" "\<not> in_tree ?final (replicationSpoolPath (rc_SpoolRoot (re_rc en)) (ir_TransferID p))"
      "\<not> (ca_Enabled (fc_CAS (re_cfg en)) \<and> ca_AutoCompact (fc_CAS (re_cfg en)))"
      "\<And>rp. rp_GenerationID rp = ir_GenerationID p \<Longrightarrow> \<exists>st. i_RecordReplica (re_store en) (re_now en) rp (ru_st s1) = (Inr (), st)"
    using assms(4) by (auto simp: install_ready_def)
  let ?g = "mkdir_all ?stage (mkdir_all ?parent (ru_gen s1))"
  have g: "gs_files ?g = gs_files (ru_gen s1)" "set (gs_dirs ?g) = {?stage, ?parent} \<union> set (gs_dirs (ru_gen s1))" by (simp_all add: mkdir_all_def)
  have dec: "Decrypt (re_crypto en) c ?key ?g = (None, plain)" using assms(5) rd(5) g(1) by simp
  obtain g1 where g1: "unpack_staged en ?key c ?stage ?g = (None, g1)" "files_wf (gs_files g1)" "gs_dirs g1 = gs_dirs ?g" "same_contents dir src ?stage g1"
      "\<And>q. \<not> in_tree ?stage q \<Longrightarrow> read_file (gs_files g1) q = read_file (gs_files ?g) q"
    using unpack_replica [OF dec assms(7,8) paths(1)] rd(1,6) g(1) by auto
  have "in_tree ?final q \<longrightarrow> read_file (gs_files g1) q = None \<and> q \<notin> set (gs_dirs g1) \<and> \<not> in_tree ?stage q" for q
    using paths(3,4) rd(6) g g1(3,5) by (auto simp: in_tree_def)
  then obtain g2 where g2: "place_generation en p ?stage ?final g1 = (None, g2)" "same_contents dir src ?final g2"
    using place_replica [OF g1(4) assms(10,11,9) paths(1) assms(12,13) g1(2)] by blast
  obtain s2 P where s2: "finish_install en p ?final (s1\<lparr>ru_gen := g2\<rparr>) = (None, s2)"
      "P \<subseteq> {cipher_part (gn_Root (re_gn en)) (ir_TransferID p), replicationSpoolPath (rc_SpoolRoot (re_rc en)) (ir_TransferID p)}"
      "\<And>q. read_file (gs_files (ru_gen s2)) q = (if q \<in> P then None else read_file (gs_files g2) q)"
    using finish_replica [of en p ?final "s1\<lparr>ru_gen := g2\<rparr>"] rd(10) by auto
  have "ir_Repository p \<noteq> []" "ir_GenerationID p \<noteq> []" "CHR ''/'' \<notin> set (ir_GenerationID p)" using assms(3) by (auto simp: replica_names_def plain_name_def)
  moreover have "EnsureKey (re_crypto en) (re_now en) (re_fresh en) ?key (ru_gen s1) = (Inr (cr_encode (re_crypto en) (cr_public_of (re_crypto en) priv)), ru_gen s1)"
    using rd(4,5) assms(6) by (simp add: EnsureKey_def)
  moreover have "hydrate_cas en ?final (s1\<lparr>ru_gen := g2\<rparr>) = (None, s1\<lparr>ru_gen := g2\<rparr>)" using rd(9) by (simp add: hydrate_cas_def Let_def)
  ultimately have run: "installReplica en job s = (None, s2\<lparr>ru_gen := remove_all ?stage (ru_gen s2)\<rparr>)"
    using assms(1,2) rd(2,3) g1(1) g2(1) s2(1)
    by (simp add: installReplica_def and_then_def Let_def replica_parent_def replica_stage_def replica_final_def)
  have "read_file (gs_files (remove_all ?stage (ru_gen s2))) (?final @ CHR ''/'' # n) = read_file (gs_files g2) (?final @ CHR ''/'' # n)" for n
  proof -
    have t: "in_tree ?final (?final @ CHR ''/'' # n)" by (simp add: in_tree_def below_child)
    then have "?final @ CHR ''/'' # n \<notin> P" using s2(2) rd(7,8) by auto
    then show ?thesis using paths(3) [OF t] s2(3) by (simp add: remove_all_read)
  qed
  then show ?thesis using run g2(2) by (simp add: same_contents_def)
qed


section \<open>A concrete instance\<close>

text \<open>A source with one signed generation in \<^verbatim>\<open>/g/o/r/1\<close>, and a destination that keeps generations in \<^verbatim>\<open>/h\<close>.\<close>

definition sample_generation :: gen_meta where
  "sample_generation = (new_meta 7 sample_result)\<lparr>gm_ID := ''1'', gm_BundlePath := ''repo.bundle'', gm_BundleSHA256 := ''5''\<rparr>"

definition source_files :: gen_state where
  "source_files = \<lparr>gs_files = \<lparr>fs_names = [(''/g/o/r/1/generation.json'', 0), (''/g/o/r/1/generation.json.sig'', 1), (''/g/o/r/1/repo.bundle'', 2)],
     fs_inodes = [(0, (enc_meta sample_generation, 5)), (1, (lb_sign sample_lib [] (enc_meta sample_generation) @ [CHR 0x0A], 5)), (2, (''hello'', 5))], fs_next = 3\<rparr>,
     gs_dirs = []\<rparr>"

definition source_runner :: "database runner_state" where
  "source_runner = \<lparr>ru_st = sample_database, ru_ids = 0, ru_gen = source_files, ru_erasure = []\<rparr>"

definition replicate_job :: job where
  "replicate_job = zero_job\<lparr>j_ID := ''j'', j_Kind := ''replicate-generation'', j_Payload := marshal_replicate_generation
     \<lparr>rg_TransferID = ''T'', rg_RepositoryID = ''R'', rg_Repository = ''o/r'', rg_GenerationID = ''1'', rg_SourceAgent = ''a'', rg_TargetAgent = ''b'',
       rg_TargetReplicationPubKey = cr_encode sample_crypto (cr_public_of sample_crypto ''k'')\<rparr>\<rparr>"

text \<open>The control plane hands the relayed bytes out.\<close>

definition relay_remote :: "string \<Rightarrow> database remote" where
  "relay_remote c = \<lparr>rm_upload = (\<lambda>i b s. (Inl (GoErr ''unused''), s)), rm_upload_file = (\<lambda>i b n r w s. (Inl (GoErr ''unused''), s)),
     rm_download = (\<lambda>i. Inr c), rm_download_file = (\<lambda>i path n want r w g. (None, put_state 7 path c g))\<rparr>"

definition install_payload :: "string \<Rightarrow> install_replica_payload" where
  "install_payload c = \<lparr>ir_TransferID = ''T'', ir_RepositoryID = ''R'', ir_Repository = ''o/r'', ir_GenerationID = ''1'', ir_SourceAgent = ''a'', ir_TargetAgent = ''b'',
     ir_CipherSHA256 = length_sha c, ir_CipherBytes = int (length c)\<rparr>"

definition target_runner :: "database runner_state" where
  "target_runner = \<lparr>ru_st = sample_database\<lparr>d_generations := [(''1'', \<lparr>g_ID = ''1'', g_RepositoryID = ''R'', g_Repository = ''o/r'', g_MetaPath = [], g_CreatedAt = 7,
       g_Verified = True, g_BundleSHA256 = ''5'', g_LFSSHA256 = []\<rparr>)]\<rparr>, ru_ids = 0,
     ru_gen = \<lparr>gs_files = \<lparr>fs_names = [(''/home/.config/repoark/pki/replication-x25519.key'', 0)], fs_inodes = [(0, (hex_encode ''k'' @ [CHR 0x0A], 5))], fs_next = 1\<rparr>, gs_dirs = []\<rparr>,
     ru_erasure = []\<rparr>"

lemma length_enc_strs: "length (enc_strs xs) = sum_list (map (\<lambda>x. 2 * length x + 1) xs)"
  by (induction xs) (simp_all add: enc_strs_def length_concat comp_def sum_list_triv)

lemma length_show_nat: "length (show_nat n) \<le> Suc n"
proof (induction n rule: less_induct)
  case (less n)
  show ?case
  proof (cases "n < 10")
    case False
    then have "length (show_nat (n div 10)) \<le> Suc (n div 10)" by (intro less) simp
    moreover have "Suc (n div 10) \<le> n" using False by linarith
    ultimately show ?thesis using False by (simp add: show_nat.simps [of n])
  qed (simp add: show_nat.simps [of n])
qed

lemma source_facts:
  "files_wf (gs_files source_files)" "flat_generation ''/g/o/r/1'' source_files" "clean_dir ''/g/o/r/1''" "plain_payloads sample_generation"
  "Read sample_lib ''/g/o/r/1'' source_files = Inr sample_generation" "VerifyDir sample_lib length_sha ''/g/o/r/1'' (k @ ''.pub'') source_files = Inr sample_generation"
  "Find sample_lib ''/g'' ''o/r'' ''1'' source_files = Inr (sample_generation, ''/g/o/r/1'')"
  "length (lb_pack sample_lib (generation_entries ''/g/o/r/1'' source_files)) \<le> 100000"
proof -
  show "files_wf (gs_files source_files)" by (simp add: source_files_def files_wf_def)
  then show "flat_generation ''/g/o/r/1'' source_files"
    by (auto simp: flat_generation_def source_files_def read_file_def file_inode_def plain_name_def split: if_splits)
  have "path_Join [''/g'', ''o'', ''r'', ''1''] = ''/g/o/r/1''" by code_simp
  then show "clean_dir ''/g/o/r/1''" using clean_dir_joined [of "''/g''" "[''o'', ''r'', ''1'']"] by (simp add: is_abs_def plain_name_def)
  show "plain_payloads sample_generation" by (simp add: plain_payloads_def sample_generation_def new_meta_def plain_name_def)
  have un: "dec_meta (enc_meta m) = Inr m" for m by (simp add: dec_meta_def enc_meta_def dec_enc_strs dec_enc_int)
  have paths: "path_Join [''/g/o/r/1'', ''generation.json''] = ''/g/o/r/1/generation.json''"
      "path_Join [''/g/o/r/1'', ''generation.json.sig''] = ''/g/o/r/1/generation.json.sig''" "path_Join [''/g/o/r/1'', ''repo.bundle''] = ''/g/o/r/1/repo.bundle''"
      "path_Join [''/g'', ''o'', ''r'', ''1''] = ''/g/o/r/1''" "Cut ''o/r'' = (''o'', ''r'', True)" "length_sha ''hello'' = ''5''" by code_simp+
  show read: "Read sample_lib ''/g/o/r/1'' source_files = Inr sample_generation"
    unfolding Read_def paths by (simp add: source_files_def read_file_def file_inode_def sample_lib_def un)
  have "VerifySignature sample_lib ''/g/o/r/1'' (k @ ''.pub'') source_files = None"
    unfolding VerifySignature_def paths using sample_lawful [of "[]" "k @ ''.pub''"] by (simp add: source_files_def read_file_def file_inode_def lawful_lib_def)
  then show "VerifyDir sample_lib length_sha ''/g/o/r/1'' (k @ ''.pub'') source_files = Inr sample_generation"
    using read paths by (simp add: VerifyDir_def verify_payload_def verifyFile_def fileSHA256_def source_files_def read_file_def file_inode_def sample_generation_def new_meta_def sample_result_def)
  show "Find sample_lib ''/g'' ''o/r'' ''1'' source_files = Inr (sample_generation, ''/g/o/r/1'')"
    using read paths by (simp add: Find_def Let_def)
  have short: "length (enc_meta sample_generation) \<le> 200"
    using length_show_nat [of 7] length_show_nat [of 1] length_show_nat [of 0]
    by (simp add: enc_meta_def length_enc_strs sample_generation_def new_meta_def sample_result_def enc_int_def)
  have "length (lb_sign sample_lib [] (enc_meta sample_generation)) \<le> 201"
    using length_show_nat [of "length (enc_meta sample_generation)"] short by (simp add: sample_lib_def)
  then show "length (lb_pack sample_lib (generation_entries ''/g/o/r/1'' source_files)) \<le> 100000"
    using short by (simp add: sample_lib_def length_enc_strs generation_entries_def walk_def below_def HasPrefix_iff source_files_def read_file_def file_inode_def)
qed

lemma single_reads:
  "reads_ok (map (\<lambda>x. ([x], More)) b @ [([], AtEOF)])" "read_all (map (\<lambda>x. ([x], More)) b @ [([], AtEOF)]) = b"
  "(\<And>i. length (nonce i) = 12) \<Longrightarrow> length (stream_bytes sample_crypto key (read_frames nonce i (map (\<lambda>x. ([x], More)) b @ [([], AtEOF)]))) = 33 * length b + 4"
proof -
  show "reads_ok (map (\<lambda>x. ([x], More)) b @ [([], AtEOF)])" by (auto simp: reads_ok_def chunkSize_def)
  show "read_all (map (\<lambda>x. ([x], More)) b @ [([], AtEOF)]) = b" by (induction b) simp_all
  show "length (stream_bytes sample_crypto key (read_frames nonce i (map (\<lambda>x. ([x], More)) b @ [([], AtEOF)]))) = 33 * length b + 4"
    if "\<And>i. length (nonce i) = 12" using that
    by (induction b arbitrary: i) (simp_all add: stream_bytes_def frame_bytes_def sample_crypto_def)
qed

lemma sample_transport: "transport_laws (sample_env groot rm) ''k''"
proof -
  have "dec_entries (concat (map (\<lambda>h. [ae_Name h, ae_Data h]) es)) = map Inr es" if "\<forall>h\<in>set es. ae_Type h = TarReg" for es
    using that by (induction es) (auto simp: archive_entry.defs)
  then show ?thesis using single_reads(1,2) sample_crypto_laws by (simp add: transport_laws_def sample_env_sel) (simp add: sample_lib_def dec_enc_strs)
qed

lemma relay_succeeds:
  assumes "re_store en = sql_iface rid" "d_jobs (ru_st s) = []" "TrimSpace (rg_TransferID p) \<noteq> []" "int (length c) \<le> rc_MaxTransferBytes (re_rc en)"
  shows "\<exists>s'. relay_blob en job p c s = (None, s')"
proof -
  have stage: "\<exists>g. gen_call (stage_blob en spool c) s = (None, s\<lparr>ru_gen := g\<rparr>)" for spool
    using assms(4) by (auto simp: gen_call_def stage_blob_def Let_def)
  have rec: "\<exists>tr. st_call (i_RecordReplicationTransfer (re_store en) now t) x = (None, x\<lparr>ru_st := (ru_st x)\<lparr>d_replication_transfers := tr\<rparr>\<rparr>)" if "TrimSpace (t_ID t) \<noteq> []" for now t x
    using that assms(1) by (auto simp: st_call_def sql_iface_def sql_RecordReplicationTransfer_def Let_def)
  have enq: "\<exists>y. enqueue en j x = (None, y)" if "d_jobs (ru_st x) = []" for j x
    using that assms(1) by (simp add: enqueue_def st_call_def sql_iface_def sql_Enqueue_def active_in_slot_def id_env_def insert_job_def slot_taken_def Let_def)
  let ?spool = "replicationSpoolPath (rc_SpoolRoot (re_rc en)) (rg_TransferID p)"
  let ?t = "\<lparr>t_ID = rg_TransferID p, t_GenerationID = rg_GenerationID p, t_RepositoryID = rg_RepositoryID p, t_SourceAgent = rg_SourceAgent p, t_TargetAgent = rg_TargetAgent p,
      t_SpoolPath = ?spool, t_State = TransferReady, t_Bytes = int (length c), t_SHA256 = re_sha en c, t_ExpiresAt = replicationTransferExpiry (re_rc en) (re_now en), t_UpdatedAt = zero_time\<rparr>"
  obtain g where g: "gen_call (stage_blob en ?spool c) s = (None, s\<lparr>ru_gen := g\<rparr>)" using stage by blast
  obtain tr where tr: "st_call (i_RecordReplicationTransfer (re_store en) (re_now en) ?t) (s\<lparr>ru_gen := g\<rparr>) =
      (None, s\<lparr>ru_gen := g, ru_st := (ru_st s)\<lparr>d_replication_transfers := tr\<rparr>\<rparr>)" using rec [of ?t "re_now en" "s\<lparr>ru_gen := g\<rparr>"] assms(3) by auto
  show ?thesis unfolding relay_blob_def Let_def g and_then_def using tr enq [of "s\<lparr>ru_gen := g, ru_st := (ru_st s)\<lparr>d_replication_transfers := tr\<rparr>\<rparr>"] assms(2) by simp
qed

lemma source_replicates:
  "\<exists>c s. replicateGeneration (sample_env ''/g'' None) replicate_job source_runner = (None, s) \<and> int64_ok (int (length c)) \<and>
     read_file (gs_files (ru_gen s)) (replicationSpoolPath (rc_SpoolRoot (re_rc (sample_env ''/g'' None))) ''T'') = Some c"
proof -
  let ?en = "sample_env ''/g'' None" and ?b = "lb_pack sample_lib (generation_entries ''/g/o/r/1'' source_files)"
  let ?src = "map (\<lambda>x. ([x], More)) ?b @ [([], AtEOF)]" and ?nonce = "\<lambda>i :: nat. replicate 12 (CHR ''n'')"
  define c where "c = crypto_magic @ cr_public_of sample_crypto ''e'' @ stream_bytes sample_crypto (shared_key sample_crypto ''k'' ''e'') (read_frames ?nonce 0 ?src)"
  have enc: "Encrypt sample_crypto ''e'' ?nonce ?src (cr_encode sample_crypto (cr_public_of sample_crypto ''k'')) = Inr c"
    unfolding c_def by (rule Encrypt_stream [OF sample_crypto_laws single_reads(1)])
  have len: "length c \<le> 4000000"
    using single_reads(3) [of ?nonce "shared_key sample_crypto ''k'' ''e''" 0 ?b] source_facts(8) by (simp add: c_def crypto_magic_def sample_crypto_def)
  have there: "exists_path ''/g/o/r/1'' source_files" by (simp add: exists_path_def walk_def below_def HasPrefix_iff source_files_def)
  let ?p = "\<lparr>rg_TransferID = ''T'', rg_RepositoryID = ''R'', rg_Repository = ''o/r'', rg_GenerationID = ''1'', rg_SourceAgent = ''a'', rg_TargetAgent = ''b'',
       rg_TargetReplicationPubKey = cr_encode sample_crypto (cr_public_of sample_crypto ''k'')\<rparr>"
  have p: "unmarshal_replicate_generation (j_Payload replicate_job) = Some ?p" by (simp add: replicate_job_def unmarshal_marshal_replicate_generation)
  have "cr_encode sample_crypto (cr_public_of sample_crypto ''k'') \<noteq> []" by (simp add: sample_crypto_def hex_encode_def)
  have ready: "d_jobs (ru_st source_runner) = []" "TrimSpace (rg_TransferID ?p) \<noteq> []" "int (length c) \<le> rc_MaxTransferBytes (re_rc ?en)"
    using len by (simp_all add: source_runner_def sample_database_def sql_Migrate_def sql_SetMeta_def TrimSpace_def is_space_def sample_env_sel)
  obtain s where "relay_blob ?en replicate_job ?p c source_runner = (None, s)" using relay_succeeds [OF sample_env_sel(1) ready, of replicate_job] by blast
  then have run: "replicateGeneration ?en replicate_job source_runner = (None, s)"
    using enc there p source_facts(7) source_facts(6) [of "re_key ?en"] \<open>cr_encode _ _ \<noteq> []\<close>
    by (simp add: replicateGeneration_def sample_env_sel source_runner_def piped_def ArchiveGeneration_def)
  have "Find (re_lib ?en) (gn_Root (re_gn ?en)) (rg_Repository ?p) (rg_GenerationID ?p) (ru_gen source_runner) = Inr (sample_generation, ''/g/o/r/1'')"
    using source_facts(7) by (simp add: sample_env_sel source_runner_def)
  from replicate_relays [OF run sample_env_sel(11) p this] source_facts(1) obtain d where
    "read_file (gs_files (ru_gen s)) (replicationSpoolPath (rc_SpoolRoot (re_rc ?en)) ''T'') = Some d" "d = c"
    using enc by (auto simp: source_runner_def sample_env_sel)
  then show ?thesis using run len by (auto simp: int64_ok_def min_int64_def max_int64_def)
qed


end
