(* ===== verification/Web_Auth.thy ===== *)
theory Web_Auth
  imports Full_Config Payloads Fmt
begin

text \<open>
  Browser sessions (\<^verbatim>\<open>internal/webauth/auth.go\<close>): the OpenID Connect login and its callback, sealed session cookies, roles,
  step-up and CSRF tokens.  A response is the record of what a handler writes.  The OpenID Connect and OAuth libraries,
  AES-GCM, SHA-256, base64 and the JSON coding of an identity are the record \<open>web_lib\<close>; random bytes are arguments.
\<close>

section \<open>Roles\<close>

datatype role = RoleNone | RoleViewer | RoleOperator | RoleAdmin

fun role_rank :: "role \<Rightarrow> nat" where
  "role_rank RoleNone = 0"
| "role_rank RoleViewer = 1"
| "role_rank RoleOperator = 2"
| "role_rank RoleAdmin = 3"

lemma role_rank_inj: "role_rank a = role_rank b \<longleftrightarrow> a = b"
  by (cases a; cases b) simp_all

instantiation role :: linorder
begin

definition less_eq_role :: "role \<Rightarrow> role \<Rightarrow> bool" where
  "less_eq_role a b = (role_rank a \<le> role_rank b)"

definition less_role :: "role \<Rightarrow> role \<Rightarrow> bool" where
  "less_role a b = (role_rank a < role_rank b)"

instance
  by standard (auto simp: less_eq_role_def less_role_def role_rank_inj [symmetric])

end

fun role_String :: "role \<Rightarrow> string" where
  "role_String RoleViewer = ''viewer''"
| "role_String RoleOperator = ''operator''"
| "role_String RoleAdmin = ''admin''"
| "role_String RoleNone = ''none''"

definition roleFromString :: "string \<Rightarrow> role" where
  "roleFromString s =
     (if ToLower s = ''admin'' then RoleAdmin else if ToLower s = ''operator'' then RoleOperator
      else if ToLower s = ''viewer'' then RoleViewer else RoleNone)"

definition group_match :: "string list \<Rightarrow> string list \<Rightarrow> bool" where
  "group_match groups xs = list_ex (\<lambda>x. ToLower (TrimSpace x) \<in> set (map (\<lambda>g. ToLower (TrimSpace g)) groups)) xs"

definition roleForGroups :: "string list \<Rightarrow> web_auth_config \<Rightarrow> role" where
  "roleForGroups groups cfg =
     (if group_match groups (wa_AdminGroups cfg) then RoleAdmin
      else if group_match groups (wa_OperatorGroups cfg) then RoleOperator
      else if group_match groups (wa_ViewerGroups cfg) then RoleViewer else RoleNone)"

section \<open>Requests, responses, libraries\<close>

record identity =
  id_Subject :: string
  id_CSRF :: string
  id_Email :: string
  id_Groups :: "string list"
  id_AMR :: "string list"
  id_ACR :: string
  id_Role :: string
  id_Expires :: int

datatype same_site = SameSiteLax | SameSiteStrict

record cookie =
  ck_Name :: string
  ck_Value :: string
  ck_MaxAge :: int
  ck_HttpOnly :: bool
  ck_Secure :: bool
  ck_SameSite :: same_site

record web_request =
  rq_Cookies :: "(string \<times> string) list"
  rq_State :: string
  rq_Code :: string
  rq_CSRFHeader :: string
  rq_CSRFForm :: "string result"

text \<open>A redirect to the provider carries the state and further parameters.\<close>

record web_response =
  rs_Status :: int
  rs_Body :: string
  rs_Cookies :: "cookie list"
  rs_Auth :: "(string \<times> (string \<times> string) list) option"

record id_token =
  it_Nonce :: string
  it_Expiry :: time
  it_Claims :: json_text

record oauth_config =
  oa_ClientID :: string
  oa_ClientSecret :: string
  oa_RedirectURL :: string
  oa_Scopes :: "string list"

record web_lib =
  wl_provider :: "string \<Rightarrow> go_error option"
  wl_challenge :: "string \<Rightarrow> (string \<times> string) list"
  wl_exchange :: "oauth_config \<Rightarrow> string \<Rightarrow> string \<Rightarrow> string option result"
  wl_verify :: "string \<Rightarrow> time \<Rightarrow> string \<Rightarrow> id_token result"
  wl_sha :: "string \<Rightarrow> string"
  wl_seal :: "string \<Rightarrow> string \<Rightarrow> string \<Rightarrow> string \<Rightarrow> string"
  wl_open :: "string \<Rightarrow> string \<Rightarrow> string \<Rightarrow> string \<Rightarrow> string result"
  wl_encode :: "string \<Rightarrow> string"
  wl_decode :: "string \<Rightarrow> string result"
  wl_marshal :: "identity \<Rightarrow> string"
  wl_unmarshal :: "string \<Rightarrow> identity result"

record manager =
  wm_cfg :: web_auth_config
  wm_oauth :: oauth_config
  wm_key :: string

definition Unix :: "time \<Rightarrow> int" where
  "Unix t = t div second - 62135596800"

definition get_cookie :: "string \<Rightarrow> web_request \<Rightarrow> string result" where
  "get_cookie name rq = (case gget (rq_Cookies rq) name of None \<Rightarrow> Inl (GoErr ''http: named cookie not present'') | Some v \<Rightarrow> Inr v)"

section \<open>Creation\<close>

fun scopes_loop :: "string list \<Rightarrow> string list \<Rightarrow> string list" where
  "scopes_loop out [] = out"
| "scopes_loop out (x # xs) =
     (let scope = TrimSpace x in if scope = [] \<or> scope \<in> set out then scopes_loop out xs else scopes_loop (out @ [scope]) xs)"

definition oidcScopes :: "string list \<Rightarrow> string list" where
  "oidcScopes configured = scopes_loop [''openid''] configured"

definition web_New :: "web_lib \<Rightarrow> (string \<Rightarrow> string) \<Rightarrow> web_auth_config \<Rightarrow> manager option result" where
  "web_New L getenv cfg =
     (if \<not> wa_Enabled cfg then Inr None
      else if ToLower (TrimSpace (wa_Mode cfg)) \<noteq> ''oidc'' then Inl (GoErr (''unsupported web auth mode '' @ [CHR 0x22] @ wa_Mode cfg @ [CHR 0x22]))
      else
        let secret = TrimSpace (getenv (wa_ClientSecretEnv cfg)); session = getenv (wa_SessionKeyEnv cfg) in
        if secret = [] then Inl (GoErr (wa_ClientSecretEnv cfg @ '' is not set''))
        else if session = [] then Inl (GoErr (wa_SessionKeyEnv cfg @ '' is not set''))
        else if length session < 32 then Inl (GoErr (wa_SessionKeyEnv cfg @ '' must contain at least 32 bytes of high-entropy secret material''))
        else (case wl_provider L (wa_Issuer cfg) of
            Some e \<Rightarrow> Inl e
          | None \<Rightarrow> Inr (Some \<lparr>wm_cfg = cfg, wm_oauth = \<lparr>oa_ClientID = wa_ClientID cfg, oa_ClientSecret = secret, oa_RedirectURL = wa_RedirectURL cfg,
                oa_Scopes = oidcScopes (wa_Scopes cfg)\<rparr>, wm_key = wl_sha L session\<rparr>)))"

text \<open>\<open>src n\<close> is what reading \<open>n\<close> bytes from the source gives.\<close>

definition randomTokenFrom :: "web_lib \<Rightarrow> (nat \<Rightarrow> string result) \<Rightarrow> int \<Rightarrow> string result" where
  "randomTokenFrom L src n =
     (if n \<le> 0 then Inl (GoErr ''random token length must be positive'')
      else (case src (nat n) of Inl e \<Rightarrow> Inl (prefix_error ''generate random token: '' e) | Inr b \<Rightarrow> Inr (wl_encode L b)))"

section \<open>Sessions\<close>

definition session_data :: string where
  "session_data = ''repoark-web-session-v1''"

definition NonceSize :: nat where "NonceSize = 12"

definition seal :: "web_lib \<Rightarrow> manager \<Rightarrow> (nat \<Rightarrow> string result) \<Rightarrow> identity \<Rightarrow> string result" where
  "seal L m src ident =
     (case src NonceSize of
        Inl e \<Rightarrow> Inl e
      | Inr nonce \<Rightarrow> Inr (wl_encode L (nonce @ wl_seal L (wm_key m) nonce (wl_marshal L ident) session_data)))"

definition open_session :: "web_lib \<Rightarrow> manager \<Rightarrow> time \<Rightarrow> string \<Rightarrow> identity result" where
  "open_session L m now v =
     (case wl_decode L v of
        Inl e \<Rightarrow> Inl e
      | Inr raw \<Rightarrow>
          if length raw \<le> NonceSize then Inl (GoErr ''invalid session'')
          else (case wl_open L (wm_key m) (take NonceSize raw) (drop NonceSize raw) session_data of
              Inl e \<Rightarrow> Inl e
            | Inr plain \<Rightarrow>
                (case wl_unmarshal L plain of
                   Inl e \<Rightarrow> Inl e
                 | Inr ident \<Rightarrow> if id_Expires ident \<le> Unix now then Inl (GoErr ''session expired'') else Inr ident)))"

definition web_Identity :: "web_lib \<Rightarrow> manager \<Rightarrow> time \<Rightarrow> web_request \<Rightarrow> identity result" where
  "web_Identity L m now rq = (case get_cookie ''repoark_session'' rq of Inl e \<Rightarrow> Inl e | Inr v \<Rightarrow> open_session L m now v)"

fun missing_amr :: "string list \<Rightarrow> string list \<Rightarrow> string option" where
  "missing_amr got [] = None"
| "missing_amr got (r # rs) = (if ToLower (TrimSpace r) \<in> set (map ToLower got) then missing_amr got rs else Some r)"

definition Authorize :: "web_lib \<Rightarrow> manager \<Rightarrow> time \<Rightarrow> web_request \<Rightarrow> role \<Rightarrow> bool \<Rightarrow> identity result" where
  "Authorize L m now rq minimum requireStepUp =
     (case web_Identity L m now rq of
        Inl e \<Rightarrow> Inl e
      | Inr ident \<Rightarrow>
          if roleFromString (id_Role ident) < minimum then Inl (GoErr (''role '' @ id_Role ident @ '' is insufficient''))
          else if requireStepUp
          then (case missing_amr (id_AMR ident) (wa_RequiredAMR (wm_cfg m)) of
              Some r \<Rightarrow> Inl (GoErr (''OIDC step-up requirement '' @ [CHR 0x22] @ r @ [CHR 0x22] @ '' missing from amr''))
            | None \<Rightarrow> Inr ident)
          else Inr ident)"

definition ValidateCSRF :: "web_request \<Rightarrow> identity \<Rightarrow> go_error option" where
  "ValidateCSRF rq ident =
     (let header = TrimSpace (rq_CSRFHeader rq) in
      case (if header \<noteq> [] then Inr header else map_sum id TrimSpace (rq_CSRFForm rq)) of
        Inl e \<Rightarrow> Some e
      | Inr provided \<Rightarrow>
          if id_CSRF ident = [] \<or> provided = [] \<or> length provided \<noteq> length (id_CSRF ident) \<or> provided \<noteq> id_CSRF ident
          then Some (GoErr ''CSRF token mismatch'') else None)"

definition Middleware :: "web_lib \<Rightarrow> manager \<Rightarrow> time \<Rightarrow> role \<Rightarrow> bool \<Rightarrow> (web_request \<Rightarrow> web_response) \<Rightarrow> web_request \<Rightarrow> web_response" where
  "Middleware L m now minimum requireStepUp handler rq =
     (case Authorize L m now rq minimum requireStepUp of
        Inl e \<Rightarrow> \<lparr>rs_Status = 401, rs_Body = ''unauthorized: '' @ err_text e, rs_Cookies = [], rs_Auth = None\<rparr>
      | Inr _ \<Rightarrow> handler rq)"

section \<open>Login\<close>

definition setOIDCTempCookie :: "web_auth_config \<Rightarrow> string \<Rightarrow> string \<Rightarrow> cookie" where
  "setOIDCTempCookie cfg name val = \<lparr>ck_Name = name, ck_Value = val, ck_MaxAge = 600, ck_HttpOnly = True, ck_Secure = wa_SecureCookies cfg, ck_SameSite = SameSiteLax\<rparr>"

definition clearOIDCTempCookie :: "web_auth_config \<Rightarrow> string \<Rightarrow> cookie" where
  "clearOIDCTempCookie cfg name = \<lparr>ck_Name = name, ck_Value = [], ck_MaxAge = -1, ck_HttpOnly = True, ck_Secure = wa_SecureCookies cfg, ck_SameSite = SameSiteLax\<rparr>"

text \<open>The random sources of the state and of the nonce, and the code verifier of the OAuth library.\<close>

definition beginLogin ::
  "web_lib \<Rightarrow> manager \<Rightarrow> (nat \<Rightarrow> string result) \<Rightarrow> (nat \<Rightarrow> string result) \<Rightarrow> string \<Rightarrow> bool \<Rightarrow> web_response result" where
  "beginLogin L m src1 src2 verifier stepUp =
     (case randomTokenFrom L src1 32 of
        Inl e \<Rightarrow> Inl e
      | Inr state \<Rightarrow>
          (case randomTokenFrom L src2 32 of
             Inl e \<Rightarrow> Inl e
           | Inr nonce \<Rightarrow>
               let cfg = wm_cfg m;
                   opts = [(''access_type'', ''online'')] @ wl_challenge L verifier @ [(''nonce'', nonce)]
                     @ (if stepUp then [(''prompt'', ''login'')] @ (if wa_StepUpACRValues cfg \<noteq> [] then [(''acr_values'', join_with (CHR '' '') (wa_StepUpACRValues cfg))] else []) else [])
               in Inr \<lparr>rs_Status = 302, rs_Body = [], rs_Cookies = [setOIDCTempCookie cfg ''repoark_oidc_state'' state,
                      setOIDCTempCookie cfg ''repoark_oidc_nonce'' nonce, setOIDCTempCookie cfg ''repoark_oidc_verifier'' verifier],
                      rs_Auth = Some (state, opts)\<rparr>))"

definition login_response :: "web_response result \<Rightarrow> web_response" where
  "login_response r = (case r of
     Inl e \<Rightarrow> \<lparr>rs_Status = 500, rs_Body = ''authentication initialization failed'', rs_Cookies = [], rs_Auth = None\<rparr> | Inr x \<Rightarrow> x)"

definition Login :: "web_lib \<Rightarrow> manager \<Rightarrow> (nat \<Rightarrow> string result) \<Rightarrow> (nat \<Rightarrow> string result) \<Rightarrow> string \<Rightarrow> web_response" where
  "Login L m src1 src2 verifier = login_response (beginLogin L m src1 src2 verifier False)"

definition StepUp :: "web_lib \<Rightarrow> manager \<Rightarrow> (nat \<Rightarrow> string result) \<Rightarrow> (nat \<Rightarrow> string result) \<Rightarrow> string \<Rightarrow> web_response" where
  "StepUp L m src1 src2 verifier = login_response (beginLogin L m src1 src2 verifier True)"

section \<open>Callback\<close>

record token_claims =
  tc_Subject :: string
  tc_Email :: string
  tc_Groups :: "string list"
  tc_AMR :: "string list"
  tc_ACR :: string

definition um_claims :: "json_text \<Rightarrow> token_claims option" where
  "um_claims t = (case t of
     Some (JObj fs) \<Rightarrow>
       (case (str_field ''sub'' fs, str_field ''email'' fs, strs_field ''groups'' fs, strs_field ''amr'' fs, str_field ''acr'' fs) of
          (Some a, Some b, Some c, Some d, Some e) \<Rightarrow> Some \<lparr>tc_Subject = a, tc_Email = b, tc_Groups = c, tc_AMR = d, tc_ACR = e\<rparr>
        | _ \<Rightarrow> None)
   | Some JNull \<Rightarrow> Some \<lparr>tc_Subject = [], tc_Email = [], tc_Groups = [], tc_AMR = [], tc_ACR = []\<rparr>
   | _ \<Rightarrow> None)"

text \<open>Decoding an array into the slice \<open>old\<close>: a null leaves the element that is there.\<close>

fun um_strs_into :: "string list \<Rightarrow> json list \<Rightarrow> string list option" where
  "um_strs_into old [] = Some []"
| "um_strs_into old (x # xs) =
     (case (if x = JNull then Some (case old of [] \<Rightarrow> [] | y # ys \<Rightarrow> y) else um_str x, um_strs_into (tl old) xs) of
        (Some s, Some ss) \<Rightarrow> Some (s # ss) | _ \<Rightarrow> None)"

text \<open>The groups of a token: the claim the configuration names, or \<^verbatim>\<open>groups\<close>.\<close>

definition claim_groups :: "string \<Rightarrow> json_text \<Rightarrow> string list \<Rightarrow> string list result" where
  "claim_groups group_claim t groups =
     (let name = TrimSpace group_claim in
      if name = [] \<or> name = ''groups'' then Inr groups
      else (case t of
          Some (JObj fs) \<Rightarrow>
            (case gget (rev fs) name of
               None \<Rightarrow> Inr []
             | Some JNull \<Rightarrow> Inr []
             | Some (JArr xs) \<Rightarrow> (case um_strs_into groups xs of Some gs \<Rightarrow> Inr gs | None \<Rightarrow> Inl (GoErr (''OIDC group claim '' @ [CHR 0x22] @ name @ [CHR 0x22] @ '' is not a string array'')))
             | Some _ \<Rightarrow> Inl (GoErr (''OIDC group claim '' @ [CHR 0x22] @ name @ [CHR 0x22] @ '' is not a string array'')))
        | Some JNull \<Rightarrow> Inr []
        | _ \<Rightarrow> Inl (GoErr ''invalid claims'')))"

text \<open>What the callback checks before it trusts the token.\<close>

definition callback_token :: "web_lib \<Rightarrow> manager \<Rightarrow> time \<Rightarrow> web_request \<Rightarrow> id_token result" where
  "callback_token L m now rq =
     (case get_cookie ''repoark_oidc_state'' rq of
        Inl e \<Rightarrow> Inl (GoErr ''OIDC state mismatch'')
      | Inr state \<Rightarrow>
          if state = [] \<or> state \<noteq> rq_State rq then Inl (GoErr ''OIDC state mismatch'')
          else (case (get_cookie ''repoark_oidc_nonce'' rq, get_cookie ''repoark_oidc_verifier'' rq) of
              (Inl e, _) \<Rightarrow> Inl (GoErr ''OIDC nonce missing'')
            | (Inr nonce, v) \<Rightarrow>
                if nonce = [] then Inl (GoErr ''OIDC nonce missing'')
                else (case v of
                    Inl e \<Rightarrow> Inl (GoErr ''OIDC PKCE verifier missing'')
                  | Inr verifier \<Rightarrow>
                      if verifier = [] then Inl (GoErr ''OIDC PKCE verifier missing'')
                      else if TrimSpace (rq_Code rq) = [] then Inl (GoErr ''OIDC code missing'')
                      else (case wl_exchange L (wm_oauth m) (TrimSpace (rq_Code rq)) verifier of
                          Inl e \<Rightarrow> Inl e
                        | Inr None \<Rightarrow> Inl (GoErr ''OIDC id_token missing'')
                        | Inr (Some raw) \<Rightarrow>
                            if raw = [] then Inl (GoErr ''OIDC id_token missing'')
                            else (case wl_verify L (wa_ClientID (wm_cfg m)) now raw of
                                Inl e \<Rightarrow> Inl e
                              | Inr tok \<Rightarrow> if it_Nonce tok \<noteq> nonce then Inl (GoErr ''OIDC nonce mismatch'') else Inr tok)))))"

text \<open>The end of a session: eight hours, or the end of the token if that is earlier.\<close>

definition session_expiry :: "time \<Rightarrow> id_token \<Rightarrow> time" where
  "session_expiry now tok = (if \<not> IsZero (it_Expiry tok) \<and> it_Expiry tok < now + 8 * hour then it_Expiry tok else now + 8 * hour)"

text \<open>The identity a token gives, with the random source of the CSRF token.\<close>

definition callback_identity :: "web_lib \<Rightarrow> manager \<Rightarrow> time \<Rightarrow> (nat \<Rightarrow> string result) \<Rightarrow> id_token \<Rightarrow> identity result" where
  "callback_identity L m now src tok =
     (case um_claims (it_Claims tok) of
        None \<Rightarrow> Inl (GoErr ''invalid claims'')
      | Some claims \<Rightarrow>
          (case claim_groups (wa_GroupClaim (wm_cfg m)) (it_Claims tok) (tc_Groups claims) of
             Inl e \<Rightarrow> Inl e
           | Inr groups \<Rightarrow>
               let role = roleForGroups groups (wm_cfg m); expiry = session_expiry now tok in
               if role = RoleNone then Inl (GoErr ''OIDC identity has no RepoArk role'')
               else if \<not> expiry > now then Inl (GoErr ''OIDC id_token is already expired'')
               else (case randomTokenFrom L src 24 of
                   Inl e \<Rightarrow> Inl e
                 | Inr csrf \<Rightarrow> Inr \<lparr>id_Subject = tc_Subject claims, id_CSRF = csrf, id_Email = tc_Email claims, id_Groups = groups, id_AMR = tc_AMR claims,
                     id_ACR = tc_ACR claims, id_Role = role_String role, id_Expires = Unix expiry\<rparr>)))"

definition Callback :: "web_lib \<Rightarrow> manager \<Rightarrow> time \<Rightarrow> (nat \<Rightarrow> string result) \<Rightarrow> (nat \<Rightarrow> string result) \<Rightarrow> web_request \<Rightarrow> cookie list result" where
  "Callback L m now src1 src2 rq =
     (case callback_token L m now rq of
        Inl e \<Rightarrow> Inl e
      | Inr tok \<Rightarrow>
          (case callback_identity L m now src1 tok of
             Inl e \<Rightarrow> Inl e
           | Inr ident \<Rightarrow>
               (case seal L m src2 ident of
                  Inl e \<Rightarrow> Inl e
                | Inr sealed \<Rightarrow>
                    let cfg = wm_cfg m in
                    Inr [\<lparr>ck_Name = ''repoark_session'', ck_Value = sealed, ck_MaxAge = time_Sub (session_expiry now tok) now div second, ck_HttpOnly = True,
                           ck_Secure = wa_SecureCookies cfg, ck_SameSite = SameSiteStrict\<rparr>,
                         clearOIDCTempCookie cfg ''repoark_oidc_state'', clearOIDCTempCookie cfg ''repoark_oidc_nonce'',
                         clearOIDCTempCookie cfg ''repoark_oidc_verifier''])))"

definition Logout :: "manager \<Rightarrow> cookie list" where
  "Logout m = [\<lparr>ck_Name = ''repoark_session'', ck_Value = [], ck_MaxAge = -1, ck_HttpOnly = True, ck_Secure = wa_SecureCookies (wm_cfg m), ck_SameSite = SameSiteStrict\<rparr>]"

definition StableGroups :: "string list \<Rightarrow> string list" where
  "StableGroups xs = sort_strings xs"

end
