(* ===== verification/Web_Auth_Properties.thy ===== *)
theory Web_Auth_Properties
  imports Web_Auth Generation_Properties
begin

text \<open>
  Who is authorized: only identities the callback established, in time and with the asked role and assurance; and the browser that holds the
  callback's cookie, as long as the session lasts.
\<close>

section \<open>Callbacks\<close>

type_synonym web_callback = "time \<times> (nat \<Rightarrow> string result) \<times> (nat \<Rightarrow> string result) \<times> web_request"

text \<open>The nonce and the text a callback seals, if it succeeds.\<close>

definition sealed_by :: "web_lib \<Rightarrow> manager \<Rightarrow> web_callback \<Rightarrow> (string \<times> string) option" where
  "sealed_by L m e = (case e of (t, src1, src2, rq) \<Rightarrow>
     (case callback_token L m t rq of
        Inl _ \<Rightarrow> None
      | Inr tok \<Rightarrow> (case (callback_identity L m t src1 tok, src2 NonceSize) of
            (Inr ident, Inr nonce) \<Rightarrow> Some (nonce, wl_marshal L ident) | _ \<Rightarrow> None)))"

lemma roleFromString_String [simp]: "roleFromString (role_String r) = r"
proof -
  have "roleFromString ''none'' = RoleNone" "roleFromString ''viewer'' = RoleViewer" "roleFromString ''operator'' = RoleOperator" "roleFromString ''admin'' = RoleAdmin"
    by code_simp+
  then show ?thesis by (cases r) simp_all
qed

lemma callback_token_checks:
  assumes "callback_token L m t rq = Inr tok"
  shows "get_cookie ''repoark_oidc_state'' rq = Inr (rq_State rq)" "rq_State rq \<noteq> []" "get_cookie ''repoark_oidc_nonce'' rq = Inr (it_Nonce tok)" "it_Nonce tok \<noteq> []"
    and "\<exists>verifier raw. get_cookie ''repoark_oidc_verifier'' rq = Inr verifier \<and> wl_exchange L (wm_oauth m) (TrimSpace (rq_Code rq)) verifier = Inr (Some raw) \<and>
      wl_verify L (wa_ClientID (wm_cfg m)) t raw = Inr tok"
  using assms by (auto simp: callback_token_def split: sum.splits if_splits option.splits prod.splits)

lemma callback_identity_facts:
  assumes "callback_identity L m t src tok = Inr ident"
  shows "\<exists>c. um_claims (it_Claims tok) = Some c \<and> claim_groups (wa_GroupClaim (wm_cfg m)) (it_Claims tok) (tc_Groups c) = Inr (id_Groups ident) \<and>
      id_AMR ident = tc_AMR c \<and> id_Subject ident = tc_Subject c"
    and "id_Role ident = role_String (roleForGroups (id_Groups ident) (wm_cfg m))" "roleForGroups (id_Groups ident) (wm_cfg m) \<noteq> RoleNone"
    and "id_Expires ident = Unix (session_expiry t tok)" "t < session_expiry t tok"
  using assms by (auto simp: callback_identity_def Let_def split: option.splits sum.splits if_splits)

lemma Unix_mono: "a \<le> b \<Longrightarrow> Unix a \<le> Unix b"
  by (simp add: Unix_def zdiv_mono1 dur_defs)

lemma session_expiry_bounds: "session_expiry t tok \<le> t + 8 * hour" "\<not> IsZero (it_Expiry tok) \<Longrightarrow> session_expiry t tok \<le> it_Expiry tok"
  by (auto simp: session_expiry_def)

lemma missing_amr_None: "missing_amr got rs = None \<longleftrightarrow> (\<forall>r\<in>set rs. \<exists>g\<in>set got. ToLower g = ToLower (TrimSpace r))"
  by (induction rs) (auto simp: image_iff)

lemma Authorize_ok:
  assumes "Authorize L m now rq minimum step = Inr ident"
  shows "web_Identity L m now rq = Inr ident" "minimum \<le> roleFromString (id_Role ident)"
    and "step \<Longrightarrow> \<forall>r\<in>set (wa_RequiredAMR (wm_cfg m)). \<exists>g\<in>set (id_AMR ident). ToLower g = ToLower (TrimSpace r)"
  using assms by (auto simp: Authorize_def missing_amr_None [symmetric] split: sum.splits if_splits option.splits)


text \<open>
  After a successful callback the session cookie it set opens, at any later time before the session ends, to the identity of the token: the browser is
  authorized exactly for roles up to the one its groups give, and passes the CSRF check exactly with the session's token.
\<close>

theorem session_works:
  assumes "\<forall>x. wl_decode L (wl_encode L x) = Inr x" "\<forall>n p. wl_open L (wm_key m) n (wl_seal L (wm_key m) n p session_data) session_data = Inr p"
    and "\<forall>n p. wl_seal L (wm_key m) n p session_data \<noteq> []" "\<forall>i. wl_unmarshal L (wl_marshal L i) = Inr i" "\<forall>x. src2 NonceSize = Inr x \<longrightarrow> length x = NonceSize"
    and "Callback L m t src1 src2 rq0 = Inr cs" "callback_token L m t rq0 = Inr tok" "Unix now < Unix (session_expiry t tok)"
    and "get_cookie ''repoark_session'' rq = Inr (ck_Value (hd cs))"
  shows "\<exists>ident. callback_identity L m t src1 tok = Inr ident \<and> web_Identity L m now rq = Inr ident \<and>
    (\<forall>minimum. (\<exists>i. Authorize L m now rq minimum False = Inr i) \<longleftrightarrow> minimum \<le> roleForGroups (id_Groups ident) (wm_cfg m)) \<and>
    (ValidateCSRF rq ident = None \<longleftrightarrow> id_CSRF ident \<noteq> [] \<and>
       (if TrimSpace (rq_CSRFHeader rq) \<noteq> [] then TrimSpace (rq_CSRFHeader rq) = id_CSRF ident else map_sum id TrimSpace (rq_CSRFForm rq) = Inr (id_CSRF ident)))"
proof -
  obtain ident nonce where c: "callback_identity L m t src1 tok = Inr ident" "src2 NonceSize = Inr nonce"
      "ck_Value (hd cs) = wl_encode L (nonce @ wl_seal L (wm_key m) nonce (wl_marshal L ident) session_data)"
    using assms(6,7) by (auto simp: Callback_def seal_def Let_def split: sum.splits)
  have n: "length nonce = NonceSize" using assms(5) c(2) by simp
  note f = callback_identity_facts [OF c(1)]
  have "wl_seal L (wm_key m) nonce (wl_marshal L ident) session_data \<noteq> []" using assms(3) by blast
  then have "open_session L m now (ck_Value (hd cs)) = Inr ident"
    using assms(1,2,4,8) n f(4) unfolding c(3) by (simp add: open_session_def)
  then have w: "web_Identity L m now rq = Inr ident" using assms(9) by (simp add: web_Identity_def)
  then have auth: "(\<exists>i. Authorize L m now rq minimum False = Inr i) \<longleftrightarrow> minimum \<le> roleForGroups (id_Groups ident) (wm_cfg m)" for minimum
    using f(2) by (auto simp: Authorize_def)
  have csrf: "ValidateCSRF rq ident = None \<longleftrightarrow> id_CSRF ident \<noteq> [] \<and>
      (if TrimSpace (rq_CSRFHeader rq) \<noteq> [] then TrimSpace (rq_CSRFHeader rq) = id_CSRF ident else map_sum id TrimSpace (rq_CSRFForm rq) = Inr (id_CSRF ident))"
    by (auto simp: ValidateCSRF_def Let_def split: sum.splits)
  show ?thesis by (rule exI [of _ ident]) (intro conjI allI, rule c(1), rule w, rule auth, rule csrf)
qed

section \<open>A concrete instance\<close>

definition enc_identity :: "identity \<Rightarrow> string" where
  "enc_identity i = enc_strs [id_Subject i, id_CSRF i, id_Email i, enc_strs (id_Groups i), enc_strs (id_AMR i), id_ACR i, id_Role i, enc_int (id_Expires i)]"

definition dec_identity :: "string \<Rightarrow> identity result" where
  "dec_identity s = (case dec_strs [] s of
     [a, b, c, d, e, f, g, h] \<Rightarrow> Inr \<lparr>id_Subject = a, id_CSRF = b, id_Email = c, id_Groups = dec_strs [] d, id_AMR = dec_strs [] e, id_ACR = f, id_Role = g, id_Expires = dec_int h\<rparr>
   | _ \<Rightarrow> Inl (GoErr ''unexpected end of JSON input''))"

lemma dec_enc_identity: "dec_identity (enc_identity i) = Inr i"
  by (simp add: dec_identity_def enc_identity_def dec_enc_strs dec_enc_int)

definition sample_token :: id_token where
  "sample_token = \<lparr>it_Nonce = ''x'', it_Expiry = 0, it_Claims = Some (JObj [(''sub'', JStr ''u''), (''groups'', JArr [JStr ''ops'']), (''amr'', JArr [JStr ''MFA''])])\<rparr>"

definition sample_web_lib :: "(string \<Rightarrow> string \<Rightarrow> string result) \<Rightarrow> web_lib" where
  "sample_web_lib opn = \<lparr>wl_provider = (\<lambda>_. None), wl_challenge = (\<lambda>_. []), wl_exchange = (\<lambda>cfg c v. Inr (Some ''raw'')), wl_verify = (\<lambda>c t r. Inr sample_token),
     wl_sha = (\<lambda>x. x), wl_seal = (\<lambda>k n p d. CHR ''s'' # p), wl_open = (\<lambda>k n c d. opn n c), wl_encode = (\<lambda>x. x), wl_decode = Inr,
     wl_marshal = enc_identity, wl_unmarshal = dec_identity\<rparr>"

definition sample_web_manager :: manager where
  "sample_web_manager = \<lparr>wm_cfg = (cp_WebAuth (fc_ControlPlane (Default ''/home'')))\<lparr>wa_OperatorGroups := [''Ops''], wa_RequiredAMR := [''mfa '']\<rparr>,
     wm_oauth = \<lparr>oa_ClientID = ''c'', oa_ClientSecret = ''s'', oa_RedirectURL = [], oa_Scopes = []\<rparr>, wm_key = ''k''\<rparr>"

definition sample_source :: "nat \<Rightarrow> string result" where
  "sample_source n = Inr (replicate n (CHR ''n''))"

definition callback_request :: web_request where
  "callback_request = \<lparr>rq_Cookies = [(''repoark_oidc_state'', ''s''), (''repoark_oidc_nonce'', ''x''), (''repoark_oidc_verifier'', ''v'')], rq_State = ''s'', rq_Code = ''c'',
     rq_CSRFHeader = [], rq_CSRFForm = Inr []\<rparr>"

definition sample_identity :: identity where
  "sample_identity = \<lparr>id_Subject = ''u'', id_CSRF = replicate 24 (CHR ''n''), id_Email = [], id_Groups = [''ops''], id_AMR = [''MFA''], id_ACR = [], id_Role = ''operator'',
     id_Expires = Unix (7 + 8 * hour)\<rparr>"

definition session_request :: web_request where
  "session_request = \<lparr>rq_Cookies = [(''repoark_session'', replicate 12 (CHR ''n'') @ CHR ''s'' # enc_identity sample_identity)], rq_State = [], rq_Code = [],
     rq_CSRFHeader = replicate 24 (CHR ''n''), rq_CSRFForm = Inr []\<rparr>"

lemma sample_callback:
  "callback_token (sample_web_lib opn) sample_web_manager 7 callback_request = Inr sample_token"
  "callback_identity (sample_web_lib opn) sample_web_manager 7 sample_source sample_token = Inr sample_identity"
  "roleForGroups [''ops''] (wm_cfg sample_web_manager) = RoleOperator" "missing_amr [''MFA''] (wa_RequiredAMR (wm_cfg sample_web_manager)) = None"
  "session_expiry 7 sample_token = 7 + 8 * hour" "Unix 8 < Unix (7 + 8 * hour)"
proof -
  have trim: "TrimSpace ''c'' = ''c''" by code_simp
  show "callback_token (sample_web_lib opn) sample_web_manager 7 callback_request = Inr sample_token"
    by (simp add: callback_token_def get_cookie_def callback_request_def trim sample_web_lib_def sample_token_def)
  have cfg: "wa_AdminGroups (wm_cfg sample_web_manager) = []" "wa_OperatorGroups (wm_cfg sample_web_manager) = [''Ops'']" "wa_RequiredAMR (wm_cfg sample_web_manager) = [''mfa '']"
      "wa_GroupClaim (wm_cfg sample_web_manager) = ''groups''"
    by (simp_all add: sample_web_manager_def Default_def default_control_plane_def)
  have fold: "group_match [''ops''] [''Ops'']" "missing_amr [''MFA''] [''mfa ''] = None" "TrimSpace ''groups'' = ''groups''"
      "um_claims (it_Claims sample_token) = Some \<lparr>tc_Subject = ''u'', tc_Email = [], tc_Groups = [''ops''], tc_AMR = [''MFA''], tc_ACR = []\<rparr>" by code_simp+
  show role: "roleForGroups [''ops''] (wm_cfg sample_web_manager) = RoleOperator" using fold(1) by (simp add: roleForGroups_def cfg group_match_def)
  show "missing_amr [''MFA''] (wa_RequiredAMR (wm_cfg sample_web_manager)) = None" using fold(2) by (simp add: cfg)
  show expiry: "session_expiry 7 sample_token = 7 + 8 * hour" by (simp add: session_expiry_def sample_token_def IsZero_def zero_time_def)
  show "Unix 8 < Unix (7 + 8 * hour)" by (simp add: Unix_def dur_defs)
  have "randomTokenFrom (sample_web_lib opn) sample_source 24 = Inr (replicate 24 (CHR ''n''))" by (simp add: randomTokenFrom_def sample_source_def sample_web_lib_def)
  then show "callback_identity (sample_web_lib opn) sample_web_manager 7 sample_source sample_token = Inr sample_identity"
    using fold(3,4) role expiry by (simp add: callback_identity_def claim_groups_def cfg sample_identity_def dur_defs)
qed

text \<open>A library that opens only what the callback sealed.\<close>

definition guarded_open :: "string \<Rightarrow> string \<Rightarrow> string result" where
  "guarded_open n c = (if n = replicate 12 (CHR ''n'') \<and> c = CHR ''s'' # enc_identity sample_identity then Inr (tl c) else Inl (GoErr ''cipher: message authentication failed''))"

lemma sample_reads_12: "sample_source NonceSize = Inr (replicate 12 (CHR ''n''))" "wl_marshal (sample_web_lib opn) = enc_identity"
  by (simp_all add: sample_source_def NonceSize_def sample_web_lib_def)

lemma session_opens:
  assumes "opn (replicate 12 (CHR ''n'')) (CHR ''s'' # enc_identity sample_identity) = Inr (enc_identity sample_identity)"
  shows "web_Identity (sample_web_lib opn) sample_web_manager 8 session_request = Inr sample_identity"
  using assms sample_callback(6)
  by (simp add: web_Identity_def get_cookie_def session_request_def open_session_def sample_web_lib_def NonceSize_def dec_enc_identity sample_identity_def)


theorem session_works_witness:
  "\<exists>cs. Callback (sample_web_lib (\<lambda>n c. Inr (tl c))) sample_web_manager 7 sample_source sample_source callback_request = Inr cs \<and>
     web_Identity (sample_web_lib (\<lambda>n c. Inr (tl c))) sample_web_manager 8 session_request = Inr sample_identity \<and> ValidateCSRF session_request sample_identity = None"
proof -
  let ?L = "sample_web_lib (\<lambda>n c. Inr (tl c))"
  have "seal ?L sample_web_manager sample_source sample_identity = Inr (replicate 12 (CHR ''n'') @ CHR ''s'' # enc_identity sample_identity)"
    by (simp add: seal_def sample_source_def NonceSize_def) (simp add: sample_web_lib_def)
  then obtain cs where cs: "Callback ?L sample_web_manager 7 sample_source sample_source callback_request = Inr cs"
      "ck_Value (hd cs) = replicate 12 (CHR ''n'') @ CHR ''s'' # enc_identity sample_identity"
    using sample_callback(1,2) by (simp add: Callback_def Let_def)
  have laws: "\<forall>x. wl_decode ?L (wl_encode ?L x) = Inr x" "\<forall>n p. wl_open ?L (wm_key sample_web_manager) n (wl_seal ?L (wm_key sample_web_manager) n p session_data) session_data = Inr p"
      "\<forall>n p. wl_seal ?L (wm_key sample_web_manager) n p session_data \<noteq> []" "\<forall>i. wl_unmarshal ?L (wl_marshal ?L i) = Inr i" "\<forall>x. sample_source NonceSize = Inr x \<longrightarrow> length x = NonceSize"
    by (simp_all add: sample_web_lib_def dec_enc_identity sample_source_def)
  have "Unix 8 < Unix (session_expiry 7 sample_token)" "get_cookie ''repoark_session'' session_request = Inr (ck_Value (hd cs))"
    using sample_callback(5,6) cs(2) by (simp_all add: get_cookie_def session_request_def)
  from session_works [OF laws cs(1) sample_callback(1) this] sample_callback(2)
  have "web_Identity ?L sample_web_manager 8 session_request = Inr sample_identity"
      "ValidateCSRF session_request sample_identity = None \<longleftrightarrow> id_CSRF sample_identity \<noteq> [] \<and> (if TrimSpace (rq_CSRFHeader session_request) \<noteq> []
        then TrimSpace (rq_CSRFHeader session_request) = id_CSRF sample_identity else map_sum id TrimSpace (rq_CSRFForm session_request) = Inr (id_CSRF sample_identity))" by auto
  moreover have "TrimSpace (rq_CSRFHeader session_request) = id_CSRF sample_identity" "id_CSRF sample_identity \<noteq> []"
    by (simp_all add: session_request_def sample_identity_def TrimSpace_def is_space_def)
  ultimately show ?thesis using cs(1) by simp
qed

end
