(* ===== verification/Manifests.thy ===== *)
theory Manifests
  imports Generations Cas_Store
begin

text \<open>
  The manifest of a backup run and the state records of drills and uploads (\<^verbatim>\<open>internal/manifest/manifest.go\<close>, \<^verbatim>\<open>internal/state/state.go\<close>).
  Replacing a file is one step: the temporary file is renamed over it.  JSON coding, the signing key and PEM are arguments; keys and signatures are
  those of \<open>gen_lib\<close>.
\<close>

record backup_manifest =
  bm_Version :: int
  bm_StartedAt :: time
  bm_EndedAt :: time
  bm_GitHubUser :: string
  bm_Repositories :: "repo_result list"
  bm_Succeeded :: int
  bm_Failed :: int
  bm_WarningCount :: int
  bm_ProjectsV2OwnersBackedUp :: int
  bm_CAS :: cas_stats
  bm_Warnings :: "string list"
  bm_SignatureType :: string

record state_record =
  st_Kind :: string
  st_OK :: bool
  st_StartedAt :: time
  st_EndedAt :: time
  st_Detail :: string
  st_Data :: "(string \<times> json) list"

record record_lib =
  rl_man_marshal :: "backup_manifest \<Rightarrow> string"
  rl_man_unmarshal :: "string \<Rightarrow> backup_manifest result"
  rl_state_marshal :: "state_record \<Rightarrow> string"
  rl_state_unmarshal :: "string \<Rightarrow> state_record result"
  rl_public_pem :: "string \<Rightarrow> string"

section \<open>Manifests\<close>

definition man_dir :: "string \<Rightarrow> string" where
  "man_dir dir = path_Join [dir, ''manifests'']"

definition man_atomicWrite :: "time \<Rightarrow> string \<Rightarrow> string \<Rightarrow> gen_state \<Rightarrow> gen_state" where
  "man_atomicWrite now p c g = g\<lparr>gs_files := put_file now p c (gs_files g)\<rparr>"

text \<open>With a key, given by its path, the manifest is signed.\<close>

definition man_write :: "record_lib \<Rightarrow> gen_lib \<Rightarrow> time \<Rightarrow> string \<Rightarrow> backup_manifest \<Rightarrow> string option \<Rightarrow> gen_state \<Rightarrow> string result \<times> gen_state" where
  "man_write R L now dir m key g =
     (let d = man_dir dir; path = path_Join [d, stamp_seconds (bm_StartedAt m) @ ''.json'']; b = rl_man_marshal R m; latest = path_Join [d, ''latest.json''];
          g1 = man_atomicWrite now latest b (man_atomicWrite now path b (mkdir_all d g))
      in (Inr path, case key of
            None \<Rightarrow> g1
          | Some k \<Rightarrow>
              let sig = lb_sign L k b @ [CHR 0x0A]
              in man_atomicWrite now (path_Join [d, ''manifest-ed25519.pub'']) (rl_public_pem R k)
                   (man_atomicWrite now (latest @ ''.sig'') sig (man_atomicWrite now (path @ ''.sig'') sig g1))))"

definition man_Write :: "record_lib \<Rightarrow> gen_lib \<Rightarrow> time \<Rightarrow> string \<Rightarrow> backup_manifest \<Rightarrow> gen_state \<Rightarrow> string result \<times> gen_state" where
  "man_Write R L now dir m g = man_write R L now dir m None g"

definition WriteSigned :: "record_lib \<Rightarrow> gen_lib \<Rightarrow> time \<Rightarrow> string \<Rightarrow> backup_manifest \<Rightarrow> string \<Rightarrow> gen_state \<Rightarrow> string result \<times> gen_state" where
  "WriteSigned R L now dir m keyPath g = (case lb_ensure_key L keyPath of
     Some e \<Rightarrow> (Inl e, g)
   | None \<Rightarrow> man_write R L now dir (m\<lparr>bm_SignatureType := ''ed25519-detached-v1''\<rparr>) (Some keyPath) g)"

definition ReadLatest :: "record_lib \<Rightarrow> string \<Rightarrow> gen_state \<Rightarrow> backup_manifest result" where
  "ReadLatest R dir g = (case read_file (gs_files g) (path_Join [dir, ''manifests'', ''latest.json'']) of
     None \<Rightarrow> Inl (GoErr ''file does not exist'') | Some b \<Rightarrow> rl_man_unmarshal R b)"

definition VerifyLatestSignature :: "gen_lib \<Rightarrow> string \<Rightarrow> string \<Rightarrow> gen_state \<Rightarrow> go_error option" where
  "VerifyLatestSignature L dir trusted g =
     (case read_file (gs_files g) (path_Join [man_dir dir, ''latest.json'']) of
        None \<Rightarrow> Some (GoErr ''file does not exist'')
      | Some data \<Rightarrow>
          (case read_file (gs_files g) (path_Join [man_dir dir, ''latest.json.sig'']) of
             None \<Rightarrow> Some (GoErr ''file does not exist'')
           | Some sig \<Rightarrow> lb_verify L trusted data (TrimSpace sig)))"

definition HasSuffix :: "string \<Rightarrow> string \<Rightarrow> bool" where
  "HasSuffix s suffix = HasPrefix (rev s) (rev suffix)"

text \<open>The names of the files right in a directory.\<close>

definition dir_names :: "string \<Rightarrow> gen_state \<Rightarrow> string list" where
  "dir_names dir g = filter (\<lambda>n. CHR ''/'' \<notin> set n) (map (drop (Suc (length dir))) (walk dir (gs_files g)))"

definition man_Prune :: "string \<Rightarrow> int \<Rightarrow> gen_state \<Rightarrow> go_error option \<times> gen_state" where
  "man_Prune dir keep g =
     (if keep \<le> 0 then (None, g)
      else
        let d = man_dir dir in
        if \<not> exists_path d g then (Some (GoErr ''file does not exist''), g)
        else
          let names = sort_strings (filter (\<lambda>n. n \<noteq> ''latest.json'' \<and> HasSuffix n ''.json'') (dir_names d g));
              drops = (if int (length names) \<le> keep then [] else take (length names - nat keep) names)
          in (None, g\<lparr>gs_files := fold (\<lambda>n fs. remove_file (path_Join [d, n @ ''.sig'']) (remove_file (path_Join [d, n]) fs)) drops (gs_files g)\<rparr>))"

section \<open>State records\<close>

definition state_Write :: "record_lib \<Rightarrow> time \<Rightarrow> string \<Rightarrow> state_record \<Rightarrow> gen_state \<Rightarrow> gen_state" where
  "state_Write R now path r g =
     (let r1 = (if IsZero (st_EndedAt r) then r\<lparr>st_EndedAt := now\<rparr> else r)
      in man_atomicWrite now path (rl_state_marshal R r1) (mkdir_all (path_Dir path) g))"

definition state_Read :: "record_lib \<Rightarrow> string \<Rightarrow> gen_state \<Rightarrow> state_record result" where
  "state_Read R path g = (case read_file (gs_files g) path of
     None \<Rightarrow> Inl (GoErr ''file does not exist'') | Some b \<Rightarrow> rl_state_unmarshal R b)"

definition state_missing :: "string \<Rightarrow> gen_state \<Rightarrow> bool" where
  "state_missing path g = (read_file (gs_files g) path = None)"

definition state_Age :: "record_lib \<Rightarrow> string \<Rightarrow> time \<Rightarrow> gen_state \<Rightarrow> (duration \<times> bool) result" where
  "state_Age R path now g =
     (if state_missing path g then Inr (0, False)
      else (case state_Read R path g of
          Inl e \<Rightarrow> Inl e
        | Inr r \<Rightarrow> if IsZero (st_EndedAt r) then Inr (0, False) else Inr (time_Sub now (st_EndedAt r), True)))"

end
