(* ===== verification/Policy.thy ===== *)
theory Policy
  imports Manifests Full_Config Audit_Ledger
begin

text \<open>
  The recovery policy (\<^verbatim>\<open>internal/policy/policy.go\<close>): what makes a repository collection unhealthy.  The environment holds the coding of records, keys,
  the KMS attestation and the audit ledger's codec and contents.
\<close>

section \<open>Durations as text\<close>

text \<open>\<^verbatim>\<open>Duration.Round\<close>: to the nearest multiple, halves away from zero, saturating.\<close>

definition dur_Round :: "duration \<Rightarrow> duration \<Rightarrow> duration" where
  "dur_Round d m =
     (if m \<le> 0 then d
      else let r = abs d mod m; near = (if 2 * r < m then abs d - r else abs d + m - r)
           in if d < 0 then max min_int64 (- near) else min max_int64 near)"

text \<open>The digits of a fraction without trailing zeros.\<close>

definition fmtFrac :: "nat \<Rightarrow> nat \<Rightarrow> string" where
  "fmtFrac prec v = (let ds = rev (dropWhile (\<lambda>c. c = CHR ''0'') (rev (pad0 prec (v mod 10 ^ prec)))) in if ds = [] then [] else CHR ''.'' # ds)"

definition dur_String :: "duration \<Rightarrow> string" where
  "dur_String d =
     (let u = nat (abs d); s = u div 10 ^ 9;
          body = (if u = 0 then ''0s'' else if u < 10 ^ 3 then show_nat u @ ''ns''
            else if u < 10 ^ 6 then show_nat (u div 10 ^ 3) @ fmtFrac 3 u @ [CHR 0xC2, CHR 0xB5, CHR ''s'']
            else if u < 10 ^ 9 then show_nat (u div 10 ^ 6) @ fmtFrac 6 u @ ''ms''
            else (if s < 3600 then [] else show_nat (s div 3600) @ ''h'') @ (if s < 60 then [] else show_nat (s div 60 mod 60) @ ''m'')
              @ show_nat (s mod 60) @ fmtFrac 9 u @ ''s'')
      in if d < 0 then CHR ''-'' # body else body)"

section \<open>Evaluation\<close>

record violation =
  vi_Code :: string
  vi_Message :: string
  vi_Severity :: string

record policy_report =
  pr_EvaluatedAt :: time
  pr_Healthy :: bool
  pr_Violations :: "violation list"

record policy_env =
  pe_lib :: gen_lib
  pe_records :: record_lib
  pe_kms :: "string \<Rightarrow> kms_attestation_config \<Rightarrow> gen_state \<Rightarrow> go_error option"
  pe_codec :: codec
  pe_ledger :: "string \<Rightarrow> ledger"

definition critical :: "string \<Rightarrow> string \<Rightarrow> violation" where
  "critical code msg = \<lparr>vi_Code = code, vi_Message = msg, vi_Severity = ''critical''\<rparr>"

definition parse_limit :: "dur_text \<Rightarrow> duration option" where
  "parse_limit s = (case s of DurOk d \<Rightarrow> if d > 0 then Some d else None | _ \<Rightarrow> None)"

definition manifest_checks :: "full_config \<Rightarrow> time \<Rightarrow> backup_manifest \<Rightarrow> violation list" where
  "manifest_checks cfg now man =
     (let p = fc_Policy cfg; age = time_Sub now (bm_EndedAt man) in
      (case parse_limit (pc_MaxBackupAge p) of
         Some d \<Rightarrow> if age > d then [critical ''rpo_backup_age'' (''latest backup is '' @ dur_String (dur_Round age minute) @ '' old; policy allows '' @ dur_String d)] else []
       | None \<Rightarrow> [])
      @ (if bm_Failed man > pc_MaxFailedRepositories p
         then [critical ''backup_failures'' (itoa (bm_Failed man) @ '' failed repositories exceeds policy maximum '' @ itoa (pc_MaxFailedRepositories p))] else [])
      @ (if pc_MaxWarnings p \<ge> 0 \<and> bm_WarningCount man > pc_MaxWarnings p
         then [critical ''backup_warnings'' (itoa (bm_WarningCount man) @ '' warnings exceeds policy maximum '' @ itoa (pc_MaxWarnings p))] else []))"

definition signature_checks :: "policy_env \<Rightarrow> full_config \<Rightarrow> gen_state \<Rightarrow> violation list" where
  "signature_checks E cfg g =
     (let dir = bk_Root (fc_Backup cfg); km = se_KMSAttestation (fc_Security cfg) in
      (if pc_RequireSignedManifest (fc_Policy cfg)
       then (if \<not> exists_path (path_Join [dir, ''manifests'', ''latest.json.sig'']) g then [critical ''manifest_unsigned'' ''latest manifest has no detached signature'']
             else (case VerifyLatestSignature (pe_lib E) dir (se_SigningKeyPath (fc_Security cfg) @ ''.pub'') g of
                 Some e \<Rightarrow> [critical ''manifest_signature_invalid'' (err_text e)] | None \<Rightarrow> []))
       else [])
      @ (if km_Enabled km \<and> km_RequireValid km
         then (case pe_kms E (path_Join [dir, ''manifests'', ''latest.json'']) km g of Some e \<Rightarrow> [critical ''kms_attestation_invalid'' (err_text e)] | None \<Rightarrow> [])
         else []))"

definition audit_checks :: "policy_env \<Rightarrow> full_config \<Rightarrow> violation list" where
  "audit_checks E cfg =
     (if \<not> pc_RequireAudit (fc_Policy cfg) then []
      else if \<not> au_Enabled (fc_Audit cfg) then [critical ''audit_disabled'' ''audit ledger is required by policy'']
      else (case audit_Verify (pe_codec E) (au_Path (fc_Audit cfg)) (pe_ledger E (au_Path (fc_Audit cfg))) of
          Inl e \<Rightarrow> [critical ''audit_invalid'' (err_text e)] | Inr _ \<Rightarrow> []))"

definition checkAge :: "policy_env \<Rightarrow> time \<Rightarrow> gen_state \<Rightarrow> string \<Rightarrow> string \<Rightarrow> dur_text \<Rightarrow> violation list" where
  "checkAge E now g code path configured =
     (case parse_limit configured of
        None \<Rightarrow> []
      | Some d \<Rightarrow>
          (case state_Age (pe_records E) path now g of
             Inl e \<Rightarrow> [critical (code @ ''_invalid'') (err_text e)]
           | Inr (age, found) \<Rightarrow>
               if \<not> found then [critical (code @ ''_missing'') ''no successful state record found'']
               else (case state_Read (pe_records E) path g of
                   Inl e \<Rightarrow> [critical (code @ ''_invalid'') (err_text e)]
                 | Inr rec \<Rightarrow>
                     if \<not> st_OK rec then [critical (code @ ''_failed'') (''latest recorded operation failed: '' @ st_Detail rec)]
                     else if age > d then [critical (code @ ''_age'') (''latest successful operation is '' @ dur_String (dur_Round age minute) @ '' old; policy allows '' @ dur_String d)]
                     else [])))"

definition checkDuration :: "policy_env \<Rightarrow> gen_state \<Rightarrow> string \<Rightarrow> string \<Rightarrow> dur_text \<Rightarrow> violation list" where
  "checkDuration E g code path configured =
     (case parse_limit configured of
        None \<Rightarrow> []
      | Some d \<Rightarrow>
          if state_missing path g then [critical (code @ ''_missing'') ''no restore-drill state record found'']
          else (case state_Read (pe_records E) path g of
              Inl e \<Rightarrow> [critical (code @ ''_invalid'') (err_text e)]
            | Inr rec \<Rightarrow>
                if \<not> st_OK rec then []
                else if IsZero (st_StartedAt rec) \<or> IsZero (st_EndedAt rec) then [critical (code @ ''_duration_missing'') ''restore-drill state has no duration'']
                else
                  let dur = time_Sub (st_EndedAt rec) (st_StartedAt rec)
                  in if dur > d then [critical (code @ ''_rto'') (''latest restore drill took '' @ dur_String (dur_Round dur second) @ ''; RTO policy allows '' @ dur_String d)] else []))"

definition drill_checks :: "policy_env \<Rightarrow> full_config \<Rightarrow> time \<Rightarrow> gen_state \<Rightarrow> violation list" where
  "drill_checks E cfg now g =
     (let p = fc_Policy cfg; recovery = path_Join [bk_Root (fc_Backup cfg), ''state'', ''recovery-drill.json'']; lab = path_Join [gl_DataDir (fc_GitLab cfg), ''state'', ''restore-drill.json''] in
      checkAge E now g ''recovery_drill'' recovery (pc_MaxRecoveryDrillAge p)
      @ checkDuration E g ''recovery_drill'' recovery (pc_MaxRecoveryDrillDuration p)
      @ (if gl_Enabled (fc_GitLab cfg)
         then checkAge E now g ''gitlab_drill'' lab (pc_MaxGitLabDrillAge p) @ checkDuration E g ''gitlab_drill'' lab (pc_MaxGitLabDrillDuration p) else [])
      @ (if ofs_Enabled (fc_Offsite cfg)
         then checkAge E now g ''offsite'' (path_Join [bk_Root (fc_Backup cfg), ''state'', ''offsite.json'']) (pc_MaxOffsiteAge p) else []))"

definition policy_Evaluate :: "policy_env \<Rightarrow> full_config \<Rightarrow> time \<Rightarrow> gen_state \<Rightarrow> policy_report" where
  "policy_Evaluate E cfg now g =
     (if \<not> pc_Enabled (fc_Policy cfg) then \<lparr>pr_EvaluatedAt = now, pr_Healthy = True, pr_Violations = []\<rparr>
      else
        let vs = (case ReadLatest (pe_records E) (bk_Root (fc_Backup cfg)) g of
            Inl e \<Rightarrow> [critical ''manifest_unavailable'' (err_text e)]
          | Inr man \<Rightarrow> manifest_checks cfg now man @ signature_checks E cfg g @ audit_checks E cfg @ drill_checks E cfg now g)
        in \<lparr>pr_EvaluatedAt = now, pr_Healthy = (vs = []), pr_Violations = vs\<rparr>)"

definition policy_Error :: "policy_report \<Rightarrow> go_error option" where
  "policy_Error r =
     (if pr_Healthy r then None
      else (case pr_Violations r of
          [] \<Rightarrow> Some (GoErr ''policy unhealthy'')
        | v # vs \<Rightarrow> Some (GoErr (''policy failed with '' @ show_nat (length (v # vs)) @ '' violation(s): '' @ vi_Message v))))"

end
