(* ===== verification/Policy_Properties.thy ===== *)
theory Policy_Properties
  imports Policy Generation_Properties
begin

text \<open>
  The policy as a condition on what is on disk, and the window in which a backup run keeps the collection healthy.
\<close>

section \<open>The policy as a condition\<close>

definition in_window :: "dur_text \<Rightarrow> duration \<Rightarrow> bool" where
  "in_window max_dur x \<longleftrightarrow> (\<forall>d. max_dur = DurOk d \<longrightarrow> 0 < d \<longrightarrow> x \<le> d)"

text \<open>A record of a success that is not too old; a success, if it is one, that was fast enough.\<close>

definition fresh_success :: "policy_env \<Rightarrow> string \<Rightarrow> dur_text \<Rightarrow> time \<Rightarrow> gen_state \<Rightarrow> bool" where
  "fresh_success E path max_dur now g \<longleftrightarrow> (\<forall>d. max_dur = DurOk d \<longrightarrow> 0 < d \<longrightarrow>
     (\<exists>r. state_Read (pe_records E) path g = Inr r \<and> \<not> IsZero (st_EndedAt r) \<and> st_OK r \<and> time_Sub now (st_EndedAt r) \<le> d))"

definition fast_success :: "policy_env \<Rightarrow> string \<Rightarrow> dur_text \<Rightarrow> gen_state \<Rightarrow> bool" where
  "fast_success E path max_dur g \<longleftrightarrow> (\<forall>d. max_dur = DurOk d \<longrightarrow> 0 < d \<longrightarrow>
     (\<exists>r. state_Read (pe_records E) path g = Inr r \<and>
        (st_OK r \<longrightarrow> \<not> IsZero (st_StartedAt r) \<and> \<not> IsZero (st_EndedAt r) \<and> time_Sub (st_EndedAt r) (st_StartedAt r) \<le> d)))"

definition drills_met :: "policy_env \<Rightarrow> full_config \<Rightarrow> time \<Rightarrow> gen_state \<Rightarrow> bool" where
  "drills_met E cfg now g \<longleftrightarrow> (let p = fc_Policy cfg; recovery = path_Join [bk_Root (fc_Backup cfg), ''state'', ''recovery-drill.json''];
       lab = path_Join [gl_DataDir (fc_GitLab cfg), ''state'', ''restore-drill.json''] in
     fresh_success E recovery (pc_MaxRecoveryDrillAge p) now g \<and> fast_success E recovery (pc_MaxRecoveryDrillDuration p) g \<and>
     (gl_Enabled (fc_GitLab cfg) \<longrightarrow> fresh_success E lab (pc_MaxGitLabDrillAge p) now g \<and> fast_success E lab (pc_MaxGitLabDrillDuration p) g) \<and>
     (ofs_Enabled (fc_Offsite cfg) \<longrightarrow> fresh_success E (path_Join [bk_Root (fc_Backup cfg), ''state'', ''offsite.json'']) (pc_MaxOffsiteAge p) now g))"

definition evidence_met :: "policy_env \<Rightarrow> full_config \<Rightarrow> gen_state \<Rightarrow> bool" where
  "evidence_met E cfg g \<longleftrightarrow> (let p = fc_Policy cfg; km = se_KMSAttestation (fc_Security cfg) in
     (pc_RequireSignedManifest p \<longrightarrow> VerifyLatestSignature (pe_lib E) (bk_Root (fc_Backup cfg)) (se_SigningKeyPath (fc_Security cfg) @ ''.pub'') g = None \<and>
        exists_path (path_Join [bk_Root (fc_Backup cfg), ''manifests'', ''latest.json.sig'']) g) \<and>
     (km_Enabled km \<and> km_RequireValid km \<longrightarrow> pe_kms E (path_Join [bk_Root (fc_Backup cfg), ''manifests'', ''latest.json'']) km g = None) \<and>
     (pc_RequireAudit p \<longrightarrow> au_Enabled (fc_Audit cfg) \<and> (\<exists>n. audit_Verify (pe_codec E) (au_Path (fc_Audit cfg)) (pe_ledger E (au_Path (fc_Audit cfg))) = Inr n)))"

lemma parse_limit_iff: "parse_limit s = Some d \<longleftrightarrow> s = DurOk d \<and> 0 < d" "parse_limit s = None \<longleftrightarrow> (\<forall>d. s = DurOk d \<longrightarrow> \<not> 0 < d)"
  by (cases s; auto simp: parse_limit_def)+

lemma checkAge_Nil: "checkAge E now g code path max_dur = [] \<longleftrightarrow> fresh_success E path max_dur now g"
proof (cases "parse_limit max_dur")
  case None
  then show ?thesis by (simp add: checkAge_def fresh_success_def) (simp add: parse_limit_iff(2))
next
  case (Some d)
  then have "max_dur = DurOk d" "0 < d" by (simp_all add: parse_limit_iff(1))
  then show ?thesis using Some
    by (auto simp: checkAge_def fresh_success_def state_Age_def state_missing_def state_Read_def split: sum.splits option.splits if_splits)
qed

lemma checkDuration_Nil: "checkDuration E g code path max_dur = [] \<longleftrightarrow> fast_success E path max_dur g"
proof (cases "parse_limit max_dur")
  case None
  then show ?thesis by (simp add: checkDuration_def fast_success_def) (simp add: parse_limit_iff(2))
next
  case (Some d)
  then have "max_dur = DurOk d" "0 < d" by (simp_all add: parse_limit_iff(1))
  then show ?thesis using Some
    by (auto simp: checkDuration_def fast_success_def state_missing_def state_Read_def Let_def split: sum.splits option.splits if_splits)
qed

lemma drill_checks_Nil: "drill_checks E cfg now g = [] \<longleftrightarrow> drills_met E cfg now g"
  by (simp add: drill_checks_def drills_met_def Let_def checkAge_Nil checkDuration_Nil)

lemma evidence_Nil: "signature_checks E cfg g = [] \<and> audit_checks E cfg = [] \<longleftrightarrow> evidence_met E cfg g"
  by (auto simp: signature_checks_def audit_checks_def evidence_met_def Let_def split: option.splits sum.splits if_splits)

lemma manifest_checks_Nil:
  "manifest_checks cfg now man = [] \<longleftrightarrow> in_window (pc_MaxBackupAge (fc_Policy cfg)) (time_Sub now (bm_EndedAt man)) \<and>
     bm_Failed man \<le> pc_MaxFailedRepositories (fc_Policy cfg) \<and> (0 \<le> pc_MaxWarnings (fc_Policy cfg) \<longrightarrow> bm_WarningCount man \<le> pc_MaxWarnings (fc_Policy cfg))"
proof -
  have "(case parse_limit max_dur of Some d \<Rightarrow> if age > d then [v d] else [] | None \<Rightarrow> []) = [] \<longleftrightarrow> in_window max_dur age" for max_dur age and v :: "duration \<Rightarrow> violation"
    by (cases max_dur) (auto simp: parse_limit_def in_window_def)
  then show ?thesis by (auto simp: manifest_checks_def Let_def)
qed

text \<open>
  C39. An enabled policy reports a healthy collection exactly when the latest manifest can be read, ended in time and stays within the limits for failures and
  warnings, the signature, the attestation and the audit ledger it asks for verify, and every drill and upload with a limit succeeded recently
  and fast enough.
\<close>

theorem policy_exact:
  assumes "pc_Enabled (fc_Policy cfg)"
  shows "pr_Healthy (policy_Evaluate E cfg now g) \<longleftrightarrow>
    (\<exists>man. ReadLatest (pe_records E) (bk_Root (fc_Backup cfg)) g = Inr man \<and> in_window (pc_MaxBackupAge (fc_Policy cfg)) (time_Sub now (bm_EndedAt man)) \<and>
       bm_Failed man \<le> pc_MaxFailedRepositories (fc_Policy cfg) \<and> (0 \<le> pc_MaxWarnings (fc_Policy cfg) \<longrightarrow> bm_WarningCount man \<le> pc_MaxWarnings (fc_Policy cfg))) \<and>
    evidence_met E cfg g \<and> drills_met E cfg now g"
proof -
  have all_met: "a @ b @ c @ d = [] \<longleftrightarrow> a = [] \<and> (b = [] \<and> c = []) \<and> d = []" for a b c d :: "violation list" by auto
  show ?thesis
    by (cases "ReadLatest (pe_records E) (bk_Root (fc_Backup cfg)) g")
      (simp_all add: policy_Evaluate_def assms Let_def all_met manifest_checks_Nil evidence_Nil drill_checks_Nil del: append_is_Nil_conv)
qed

section \<open>A run and its window\<close>

lemma man_paths:
  assumes "dir \<noteq> []"
  shows "plain_name n \<Longrightarrow> path_Join [man_dir dir, n] = man_dir dir @ CHR ''/'' # n" "plain_name n \<Longrightarrow> path_Join [dir, ''manifests'', n] = man_dir dir @ CHR ''/'' # n"
  using path_Join_Join [OF assms, of "[''manifests'']" n] path_Join_snoc [OF assms, of "[''manifests'']" n] by (simp_all add: man_dir_def plain_name_def)

lemma stamp_json_plain: "plain_name (stamp_seconds t @ ''.json'')"
  using slash_not_digit by (auto simp: plain_name_def stamp_seconds_def compact_date_def Let_def split: prod.split)

lemma stamp_not_named: "stamp_seconds t @ x \<noteq> ''latest'' @ y" "stamp_seconds t @ x \<noteq> ''manifest'' @ y"
  using compact_date_head [of t] by (auto simp: stamp_seconds_def)

lemma put_read: "files_wf (gs_files g) \<Longrightarrow> read_file (gs_files (man_atomicWrite now p c g)) q = (if q = p then Some c else read_file (gs_files g) q)"
  "files_wf (gs_files g) \<Longrightarrow> files_wf (gs_files (man_atomicWrite now p c g))"
  by (simp_all add: man_atomicWrite_def)

text \<open>A signed manifest reads back and verifies.\<close>

lemma signed_manifest:
  assumes "WriteSigned R L t dir m key g = (Inr path, g')" "lawful_lib L key trusted" "rl_man_unmarshal R (rl_man_marshal R (m\<lparr>bm_SignatureType := ''ed25519-detached-v1''\<rparr>)) = Inr (m\<lparr>bm_SignatureType := ''ed25519-detached-v1''\<rparr>)" "dir \<noteq> []" "files_wf (gs_files g)"
  shows "ReadLatest R dir g' = Inr (m\<lparr>bm_SignatureType := ''ed25519-detached-v1''\<rparr>)" "VerifyLatestSignature L dir trusted g' = None"
    and "exists_path (path_Join [dir, ''manifests'', ''latest.json.sig'']) g'"
proof -
  let ?m = "m\<lparr>bm_SignatureType := ''ed25519-detached-v1''\<rparr>" and ?d = "man_dir dir"
  let ?b = "rl_man_marshal R ?m" and ?name = "stamp_seconds (bm_StartedAt m) @ ''.json''"
  let ?sig = "lb_sign L key ?b @ [CHR 0x0A]"
  have plain: "plain_name ''latest.json''" "plain_name ''latest.json.sig''" "plain_name ''manifest-ed25519.pub''" by (simp_all add: plain_name_def)
  note J = man_paths [OF assms(4)]
  have g': "g' = man_atomicWrite t (?d @ ''/manifest-ed25519.pub'') (rl_public_pem R key) (man_atomicWrite t (?d @ ''/latest.json.sig'') ?sig
      (man_atomicWrite t (?d @ CHR ''/'' # ?name @ ''.sig'') ?sig (man_atomicWrite t (?d @ ''/latest.json'') ?b (man_atomicWrite t (?d @ CHR ''/'' # ?name) ?b (mkdir_all ?d g)))))"
    using assms(1,2) J(1) [OF plain(1)] J(1) [OF plain(3)] J(1) [OF stamp_json_plain] by (auto simp: WriteSigned_def man_write_def lawful_lib_def Let_def)
  have wf: "files_wf (gs_files (mkdir_all ?d g))" using assms(5) by (simp add: mkdir_all_def)
  have ne: "?name \<noteq> ''latest.json''" "?name @ ''.sig'' \<noteq> ''latest.json''" "?name \<noteq> ''latest.json.sig''" "?name @ ''.sig'' \<noteq> ''latest.json.sig''"
    using stamp_not_named(1) [of "bm_StartedAt m" "''.json''" "''.json''"] stamp_not_named(1) [of "bm_StartedAt m" "''.json.sig''" "''.json''"]
      stamp_not_named(1) [of "bm_StartedAt m" "''.json''" "''.json.sig''"] stamp_not_named(1) [of "bm_StartedAt m" "''.json.sig''" "''.json.sig''"] by auto
  have latest: "read_file (gs_files g') (?d @ ''/latest.json'') = Some ?b" and sig: "read_file (gs_files g') (?d @ ''/latest.json.sig'') = Some ?sig"
    unfolding g' using wf ne by (simp_all add: put_read)
  show "ReadLatest R dir g' = Inr ?m" unfolding ReadLatest_def J(2) [OF plain(1)] using latest assms(3) by simp
  show "VerifyLatestSignature L dir trusted g' = None"
    unfolding VerifyLatestSignature_def J(1) [OF plain(1)] J(1) [OF plain(2)] using latest sig assms(2) by (simp add: lawful_lib_def)
  show "exists_path (path_Join [dir, ''manifests'', ''latest.json.sig'']) g'" unfolding J(2) [OF plain(2)] using sig by (simp add: exists_path_def)
qed

text \<open>
  C40. After a run without too many failures or warnings has written its signed manifest, and as long as nothing else is amiss, an enabled policy with a
  maximal backup age reports a healthy collection exactly until that age has passed since the end of the run.
\<close>

theorem rpo_window:
  assumes "WriteSigned (pe_records E) (pe_lib E) t (bk_Root (fc_Backup cfg)) m (se_SigningKeyPath (fc_Security cfg)) g = (Inr path, g')"
    and "lawful_lib (pe_lib E) (se_SigningKeyPath (fc_Security cfg)) (se_SigningKeyPath (fc_Security cfg) @ ''.pub'')"
    and "rl_man_unmarshal (pe_records E) (rl_man_marshal (pe_records E) (m\<lparr>bm_SignatureType := ''ed25519-detached-v1''\<rparr>)) = Inr (m\<lparr>bm_SignatureType := ''ed25519-detached-v1''\<rparr>)" "bk_Root (fc_Backup cfg) \<noteq> []" "files_wf (gs_files g)"
    and "pc_Enabled (fc_Policy cfg)" "pc_MaxBackupAge (fc_Policy cfg) = DurOk d" "0 < d" "d < max_int64"
    and "bm_Failed m \<le> pc_MaxFailedRepositories (fc_Policy cfg)" "0 \<le> pc_MaxWarnings (fc_Policy cfg) \<longrightarrow> bm_WarningCount m \<le> pc_MaxWarnings (fc_Policy cfg)"
    and "\<not> (km_Enabled (se_KMSAttestation (fc_Security cfg)) \<and> km_RequireValid (se_KMSAttestation (fc_Security cfg)))" "\<not> pc_RequireAudit (fc_Policy cfg)"
    and "drills_met E cfg now g'"
  shows "pr_Healthy (policy_Evaluate E cfg now g') \<longleftrightarrow> now \<le> bm_EndedAt m + d"
proof -
  note s = signed_manifest [OF assms(1,2,3,4,5)]
  have "evidence_met E cfg g'" using s(2,3) assms(12,13) by (auto simp: evidence_met_def Let_def)
  moreover have "in_window (pc_MaxBackupAge (fc_Policy cfg)) (time_Sub now (bm_EndedAt m)) \<longleftrightarrow> now \<le> bm_EndedAt m + d"
    using assms(7,8,9) by (auto simp: in_window_def time_Sub_def min_int64_def)
  ultimately show ?thesis
    using s(1) assms(6,10,11,14) by (cases "manifest_checks cfg now (m\<lparr>bm_SignatureType := ''ed25519-detached-v1''\<rparr>) = []")
      (auto simp: policy_Evaluate_def manifest_checks_Nil evidence_Nil [symmetric] drill_checks_Nil [symmetric])
qed

section \<open>A concrete run\<close>

definition sample_manifest :: "int \<Rightarrow> time \<Rightarrow> backup_manifest" where
  "sample_manifest failed t = \<lparr>bm_Version = 8, bm_StartedAt = 5, bm_EndedAt = t, bm_GitHubUser = [], bm_Repositories = [], bm_Succeeded = 1, bm_Failed = failed,
     bm_WarningCount = 0, bm_ProjectsV2OwnersBackedUp = 0, bm_CAS = \<lparr>cas_Objects = 0, cas_PhysicalBytes = 0, cas_LogicalFiles = 0, cas_LogicalBytes = 0, cas_Reclaimed = 0\<rparr>,
     bm_Warnings = [], bm_SignatureType = ''ed25519-detached-v1''\<rparr>"

definition sample_records :: record_lib where
  "sample_records = \<lparr>rl_man_marshal = (\<lambda>m. show_nat (nat (bm_Failed m))), rl_man_unmarshal = (\<lambda>b. Inr (sample_manifest (if b = ''0'' then 0 else 1) 7)),
     rl_state_marshal = (\<lambda>_. []), rl_state_unmarshal = (\<lambda>_. Inl (GoErr ''unexpected end of JSON input'')), rl_public_pem = (\<lambda>k. k)\<rparr>"

definition sample_policy :: policy_env where
  "sample_policy = \<lparr>pe_lib = sample_lib, pe_records = sample_records, pe_kms = (\<lambda>_ _ _. None),
     pe_codec = \<lparr>cd_hash = (\<lambda>_. []), cd_utf8 = (\<lambda>s. s), cd_float = (\<lambda>q. q), cd_time = (\<lambda>_. None), cd_fits = (\<lambda>_. True), cd_Sign = (\<lambda>_ _. []), cd_Verify = (\<lambda>_ _ _. True)\<rparr>,
     pe_ledger = (\<lambda>_. None)\<rparr>"

definition sample_key :: string where
  "sample_key = se_SigningKeyPath (fc_Security (Default ''/home''))"

lemma policy_defaults:
  "pc_Enabled (fc_Policy (Default home))" "pc_MaxBackupAge (fc_Policy (Default home)) = DurOk (30 * 3600 * 10 ^ 9)" "pc_MaxFailedRepositories (fc_Policy (Default home)) = 0"
  "pc_MaxWarnings (fc_Policy (Default home)) = - 1" "\<not> pc_RequireAudit (fc_Policy (Default home))" "\<not> km_Enabled (se_KMSAttestation (fc_Security (Default home)))"
  "drills_met E (Default home) now g" "bk_Root (fc_Backup (Default ''/home'')) \<noteq> []"
  by (simp_all add: Default_def drills_met_def fresh_success_def fast_success_def default_gitlab_def hours_def Let_def) code_simp

theorem policy_exact_witness: "\<not> pr_Healthy (policy_Evaluate sample_policy (Default ''/home'') 7 sample_backup)"
proof -
  have "ReadLatest (pe_records sample_policy) (bk_Root (fc_Backup (Default ''/home''))) sample_backup = Inl (GoErr ''file does not exist'')" by code_simp
  then show ?thesis using policy_exact [of "Default ''/home''" sample_policy 7 sample_backup] policy_defaults(1) by simp
qed

theorem rpo_window_witness:
  "\<exists>path g'. WriteSigned sample_records sample_lib 7 (bk_Root (fc_Backup (Default ''/home''))) (sample_manifest 0 7) sample_key sample_backup = (Inr path, g') \<and>
     pr_Healthy (policy_Evaluate sample_policy (Default ''/home'') (7 + 30 * 3600 * 10 ^ 9) g') \<and>
     \<not> pr_Healthy (policy_Evaluate sample_policy (Default ''/home'') (8 + 30 * 3600 * 10 ^ 9) g')"
proof -
  have E: "pe_records sample_policy = sample_records" "pe_lib sample_policy = sample_lib" by (simp_all add: sample_policy_def)
  have m: "sample_manifest 0 7\<lparr>bm_SignatureType := ''ed25519-detached-v1''\<rparr> = sample_manifest 0 7" "bm_Failed (sample_manifest 0 7) = 0" "bm_EndedAt (sample_manifest 0 7) = 7"
    by (simp_all add: sample_manifest_def)
  have "lb_ensure_key sample_lib k = None" for k by (simp add: sample_lib_def)
  then obtain path g' where w: "WriteSigned sample_records sample_lib 7 (bk_Root (fc_Backup (Default ''/home''))) (sample_manifest 0 7) sample_key sample_backup = (Inr path, g')"
    by (simp add: WriteSigned_def man_write_def Let_def)
  have json: "rl_man_unmarshal sample_records (rl_man_marshal sample_records (sample_manifest 0 7)) = Inr (sample_manifest 0 7)" by code_simp
  have window: "pr_Healthy (policy_Evaluate sample_policy (Default ''/home'') now g') \<longleftrightarrow> now \<le> 7 + 30 * 3600 * 10 ^ 9" for now
    using rpo_window [of sample_policy 7 "Default ''/home''" "sample_manifest 0 7" sample_backup path g' "30 * 3600 * 10 ^ 9" now]
      w json sample_lawful sample_backup_facts(1) policy_defaults by (simp add: E m sample_key_def max_int64_def)
  show ?thesis by (rule exI [of _ path], rule exI [of _ g']) (simp add: w window)
qed

end
