(* ===== verification/Spec2Isabelle.thy ===== *)
theory Spec2Isabelle
  imports Reconcilers Approvals Object_Refs Scheduler_Properties Audit_Properties Agent_Integrity Config_Properties
    Cas_Command Cas_Sync_Properties Scrub_Properties Generation_Properties Replica_Journey Web_Auth_Properties Policy_Properties
begin

text \<open>
  RepoArk backs up GitHub repositories.  Its control plane keeps a job queue, the catalogue of
  generations, replicas, objects and erasure sets in a store (in memory or SQL), hands jobs to local
  workers and to remote agents over a mutually authenticated API, plans replication, erasure coding and
  repair from what the agents report, requires two people to approve a restore, and keeps a
  tamper-evident audit ledger.  The theories model these parts from the Go sources under \<^verbatim>\<open>src/internal\<close>.

  \<^bold>\<open>Foundations.\<close>
  \<^item> \<open>Prelude\<close>: Go notions (maps, errors and panics, times and durations, sorting, JSON values, strings);
    \<open>Fmt\<close> (decimal formatting), \<open>Paths\<close> (\<^verbatim>\<open>path/filepath\<close>), \<open>Path_Match\<close> (\<^verbatim>\<open>filepath.Match\<close>).
  \<^item> \<open>Cp_Model\<close> (\<^verbatim>\<open>controlplane/model.go\<close>), \<open>Cp_Config\<close> and \<open>Full_Config\<close> (the structs, defaults and path expansion of
    \<^verbatim>\<open>config/config.go\<close>; the storage probe of \<^verbatim>\<open>storagehealth/health.go\<close>), \<open>Payloads\<close> (the job payloads and
    \<^verbatim>\<open>transfer_meta.go\<close>).

  \<^bold>\<open>The stores\<close> (\<^verbatim>\<open>controlplane/store.go, memory.go, sqlstore.go\<close>).
  \<^item> \<open>Job_Rules\<close>: what the two implementations share; \<open>Memory_Store\<close> and \<open>Sql_Store\<close>: every operation as a function
    from a store to its result and the store afterwards.  SQL statements that run outside a transaction
    take the other connections' effects between them as arguments.
  \<^item> \<open>Queue_Interface\<close>, \<open>Lease_Plan\<close>: locales for the queue operations and the way a job may change; \<open>Memory_Queue\<close> and
    \<open>Sql_Queue\<close> interpret them.  \<open>Queue_Properties\<close>: exclusive leases, bounded attempts, one active job per slot,
    finality of success, the order of leases, interleavings.  \<open>Store_Properties\<close>, \<open>Approvals\<close>, \<open>Object_Refs\<close>: pruning,
    the two-person rule for restores, exact reference counts.
  \<^item> \<open>Store_Interface\<close>: the store as a record of operations, with an instance for each implementation, for the
    components that are written against the Go interface.

  \<^bold>\<open>Planning.\<close>
  \<^item> \<open>Agents\<close>, \<open>Replication\<close>, \<open>Replication_Plan\<close>, \<open>Replication_Properties\<close> (\<^verbatim>\<open>replication.go, restore.go\<close>): which copies are
    made where; plans are safe and close the deficit; restores go to nodes that can serve them.
  \<^item> \<open>Erasure_Dist\<close>, \<open>Shard_Placement\<close>, \<open>Erasure_Properties\<close> (\<^verbatim>\<open>erasure_distributed.go, repair_distributed.go\<close>):
    placement over failure domains, health, repair scheduling.
  \<^item> \<open>Inventory\<close>, \<open>Inventory_Properties\<close> (\<^verbatim>\<open>objectinventory/inventory.go, controlplane/inventory.go\<close>): Merkle summaries
    of object stores and their comparison.  \<open>Reconcilers\<close> (\<^verbatim>\<open>cas_reconcile.go, storage_maintenance.go\<close>): whole
    reconciliation steps; \<open>Scheduler\<close>, \<open>Scheduler_Properties\<close> (\<^verbatim>\<open>scheduler.go\<close>): discovery and due backups.

  \<^bold>\<open>Execution.\<close>
  \<^item> \<open>Worker_Pool\<close> (\<^verbatim>\<open>worker.go\<close>): the pool's tick around a job runner that is an argument.
  \<^item> \<open>Agent_Server\<close>, \<open>Agent_Transfer\<close> (\<^verbatim>\<open>agent_server.go\<close>): every handler of the agent API on the store and the spool
    directory.  \<open>Agent_Confinement\<close>: locales for what the handlers need of a store and a relation that bounds what
    one agent can change, interpreted on the SQL store; \<open>Agent_Integrity\<close>: transferred bytes are the announced
    ones, and why uploads in several chunks fail.
  \<^item> \<open>Erasure_Codec\<close>, \<open>Erasure_Roundtrip\<close> (\<^verbatim>\<open>erasure/erasure.go\<close>): encoding and reconstruction are inverse under
    the damage they promise to survive.
  \<^item> \<open>Files\<close>: a file system with hard links.  On it \<open>Cas_Store\<close>, \<open>Cas_Properties\<close> (\<^verbatim>\<open>cas/cas.go\<close>): ingestion and compaction
    change no file as long as the objects are right, and what happens when one is not; \<open>Cas_Command\<close> (\<^verbatim>\<open>app/app.go\<close>,
    the \<^verbatim>\<open>cas\<close> command): what garbage collection keeps, with and without the control plane's references;
    \<open>Cas_Sync\<close>, \<open>Cas_Sync_Properties\<close> (\<^verbatim>\<open>cassync/cassync.go\<close>): streams of objects between hosts; \<open>Scrub\<close>, \<open>Scrub_Properties\<close>
    (\<^verbatim>\<open>scrub/*.go, tiering/tiering.go, storage_maintenance.go\<close>): a scrub heals rotten objects through the erasure codec,
    tiering makes verified copies.
  \<^item> \<open>Generations\<close>, \<open>Generation_Properties\<close> (\<^verbatim>\<open>generation/generation.go, replication/archive.go\<close>): captured generations verify and hold
    the backup's bytes, archives unpack below their target only, a verified restore uses signed contents only, and
    what a failed capture leaves behind.
  \<^item> \<open>Repl_Crypto\<close>, \<open>Repl_Crypto_Properties\<close> (\<^verbatim>\<open>replication/crypto.go\<close>): keys and encrypted streams; what is encrypted for a key
    decrypts to the same bytes, and what the stream does not protect.
  \<^item> \<open>Runner\<close> (\<^verbatim>\<open>worker.go, repair_distributed.go\<close>): what each kind of job does to the store and to the files of its host, composed from the
    components above.  \<open>Runner_Properties\<close>: backup jobs on the SQL store; \<open>Replica_Journey\<close>: a generation relayed by
    its source is installed elsewhere with the same description and contents.
  \<^item> \<open>Config_Validate\<close>, \<open>Config_Properties\<close> (\<^verbatim>\<open>config/config.go\<close>): what a loaded configuration guarantees to its readers.
  \<^item> \<open>Manifests\<close>, \<open>Policy\<close>, \<open>Policy_Properties\<close> (\<^verbatim>\<open>manifest/manifest.go, state/state.go, policy/policy.go\<close>): what a run leaves behind, when the
    recovery policy calls it healthy, and for how long.
  \<^item> \<open>Web_Auth\<close>, \<open>Web_Auth_Properties\<close> (\<^verbatim>\<open>webauth/auth.go\<close>): browser sessions; who is authorised, and that the holder of a session's
    cookie is.
  \<^item> \<open>Audit_Ledger\<close>, \<open>Audit_Properties\<close> (\<^verbatim>\<open>audit/*.go\<close>): appending, verification, checkpoints.

  \<^bold>\<open>Conventions.\<close>  A Go map is an association list with distinct keys whose order is the order of iteration;
  theorems quantify over the list and so over every order.  An operation takes the clock's reading and
  the identifiers that \<^verbatim>\<open>newID\<close> makes as arguments.  SHA-256, the Reed-Solomon library, JSON and YAML decoders, key
  files, the answers of GitHub and of the operating system are arguments; what is assumed of them is a
  hypothesis of the theorem.  Errors are values, panics a second kind of error.  Floating-point
  numbers are rationals, strings are byte strings with ASCII case folding, integers are mathematical except
  where the code depends on their width.  Log output is left out.  Recursion is structural or
  has a measure; no model uses fuel.

  \<^bold>\<open>Not modelled.\<close>  Ticker loops and process start-up; the execution of git, restic, rclone and container
  processes (\<^verbatim>\<open>backup, gitlab, offsite, execx\<close>); HTTP clients (\<^verbatim>\<open>githubapi, remote_store.go, agent_client.go\<close>); the
  HTML console (\<^verbatim>\<open>observability\<close>); certificates (\<^verbatim>\<open>pki.go\<close>).  These consist of
  input and output or of calls to libraries whose behaviour is not part of the sources.
\<close>

end
